(* ===== verification/Prelude.thy ===== *)
theory Prelude
  imports Main "HOL-Library.Word" "HOL-Library.Char_ord" "HOL-Library.List_Lexorder"
begin

text \<open>
  Shared vocabulary of the development: machine integers and byte strings, the result carrier
  used by every fallible operation, the standard library algorithms the code calls on vectors
  (\<open>std::sort\<close>, \<open>std::adjacent_find\<close>, \<open>std::is_sorted\<close>), decimal rendering, and the theorem
  collections the component theories add to.
\<close>

section \<open>Machine types\<close>

unbundle bit_operations_syntax

type_synonym u8 = "8 word"
type_synonym u16 = "16 word"
type_synonym u32 = "32 word"
type_synonym u64 = "64 word"
type_synonym bytes = "8 word list"

text \<open>Text is a byte string; \<open>string\<close> of HOL is a list of 8 bit characters.\<close>

definition char_byte :: "char \<Rightarrow> u8" where
  "char_byte c = word_of_nat (of_char c)"

definition byte_char :: "u8 \<Rightarrow> char" where
  "byte_char b = char_of (unat b)"

lemma of_char_less_256 [simp]: "of_char c < (256::nat)"
proof -
  have "of_char c mod 256 < (256::nat)" by (rule mod_less_divisor) simp
  then show ?thesis by simp
qed

lemma byte_char_char_byte [simp]: "byte_char (char_byte c) = c"
  by (simp add: byte_char_def char_byte_def unat_of_nat)

lemma unat_u8_less: "unat (b::u8) < 256"
  using unsigned_less [of b] by simp

lemma char_byte_byte_char [simp]: "char_byte (byte_char b) = b"
  by (simp add: byte_char_def char_byte_def unat_u8_less)

definition text_bytes :: "string \<Rightarrow> bytes" where
  "text_bytes s = map char_byte s"

definition bytes_text :: "bytes \<Rightarrow> string" where
  "bytes_text bs = map byte_char bs"

lemma bytes_text_text_bytes [simp]: "bytes_text (text_bytes s) = s"
  by (simp add: bytes_text_def text_bytes_def comp_def)

lemma text_bytes_bytes_text [simp]: "text_bytes (bytes_text bs) = bs"
  by (simp add: bytes_text_def text_bytes_def comp_def)

lemma length_text_bytes [simp]: "length (text_bytes s) = length s"
  by (simp add: text_bytes_def)

lemma length_bytes_text [simp]: "length (bytes_text bs) = length bs"
  by (simp add: bytes_text_def)

section \<open>Theorem collections\<close>

named_theorems codec_simps \<open>one-step behaviour of the readers and writers\<close>
named_theorems registry_defs \<open>definitions of the registry's helper operations\<close>

section \<open>The result carrier\<close>

text \<open>
  \<open>Outcome<T>\<close> holds a value or an error. Its model is the sum type, with the error on the left;
  \<open>obind\<close> is the \<open>if (!x) return x.GetError();\<close> idiom.
\<close>

definition obind :: "'e + 'a \<Rightarrow> ('a \<Rightarrow> 'e + 'b) \<Rightarrow> 'e + 'b" where
  "obind m f = (case m of Inl e \<Rightarrow> Inl e | Inr a \<Rightarrow> f a)"

lemma obind_simps [simp]:
  "obind (Inl e) f = Inl e"
  "obind (Inr a) f = f a"
  by (simp_all add: obind_def)

lemma obind_Inr_iff: "obind m f = Inr b \<longleftrightarrow> (\<exists>a. m = Inr a \<and> f a = Inr b)"
  by (cases m) auto

lemma obind_Inl_iff: "obind m f = Inl e \<longleftrightarrow> m = Inl e \<or> (\<exists>a. m = Inr a \<and> f a = Inl e)"
  by (cases m) auto

text \<open>\<open>HasValue\<close>: the outcome is a value.\<close>

definition has_value :: "'e + 'a \<Rightarrow> bool" where
  "has_value m = (case m of Inl _ \<Rightarrow> False | Inr _ \<Rightarrow> True)"

lemma has_value_simps [simp]: "has_value (Inl e) = False" "has_value (Inr a) = True"
  by (simp_all add: has_value_def)

text \<open>A loop that checks every element and stops at the first failure.\<close>

fun check_each :: "('a \<Rightarrow> 'e + unit) \<Rightarrow> 'a list \<Rightarrow> 'e + unit" where
  "check_each f [] = Inr ()"
| "check_each f (x # xs) = obind (f x) (\<lambda>_. check_each f xs)"

lemma check_each_Inr_iff [simp]: "check_each f xs = Inr () \<longleftrightarrow> (\<forall>x\<in>set xs. f x = Inr ())"
  by (induction xs) (auto simp: obind_Inr_iff)

section \<open>Vectors\<close>

text \<open>\<open>std::adjacent_find(begin, end) != end\<close>: two equal neighbours exist.\<close>

fun adjacent_equal :: "'a list \<Rightarrow> bool" where
  "adjacent_equal (x # y # zs) = (x = y \<or> adjacent_equal (y # zs))"
| "adjacent_equal _ = False"

text \<open>The check \<open>xs[i-1] < xs[i]\<close> for every index above zero.\<close>

fun strictly_ascending :: "'a::linorder list \<Rightarrow> bool" where
  "strictly_ascending (x # y # zs) = (x < y \<and> strictly_ascending (y # zs))"
| "strictly_ascending _ = True"

lemma strictly_ascending_iff: "strictly_ascending xs \<longleftrightarrow> sorted_wrt (<) xs"
proof (induction xs rule: strictly_ascending.induct)
  case (1 x y zs)
  then show ?case by fastforce
qed auto

lemma sorted_not_adjacent: "sorted xs \<and> \<not> adjacent_equal xs \<longleftrightarrow> strictly_ascending xs"
proof (induction xs rule: adjacent_equal.induct)
  case (1 x y zs)
  then show ?case by (fastforce simp: order_less_le)
qed auto

lemma strictly_ascending_sorted: "strictly_ascending xs \<Longrightarrow> sorted xs"
  using sorted_not_adjacent by blast

lemma strictly_ascending_distinct: "strictly_ascending xs \<Longrightarrow> distinct xs"
  by (simp add: strictly_ascending_iff strict_sorted_iff)

lemma strictly_ascending_sort: "strictly_ascending xs \<Longrightarrow> sort xs = xs"
  by (simp add: strictly_ascending_sorted sorted_sort_id)

lemma sort_key_Nil_iff [simp]: "sort_key f xs = [] \<longleftrightarrow> xs = []"
  by (metis set_empty set_sort)

text \<open>Sorting and then looking for equal neighbours detects exactly the duplicates.\<close>

lemma adjacent_equal_sort: "adjacent_equal (sort xs) \<longleftrightarrow> \<not> distinct xs"
proof -
  have "distinct (sort xs) \<longleftrightarrow> strictly_ascending (sort xs)"
    by (auto simp: strictly_ascending_iff strict_sorted_iff)
  then show ?thesis
    using sorted_not_adjacent [of "sort xs"] by auto
qed

lemma strictly_ascending_sort_iff: "strictly_ascending (sort xs) \<longleftrightarrow> distinct xs"
  using sorted_not_adjacent [of "sort xs"] by (simp add: adjacent_equal_sort)

lemma strictly_ascending_unique:
  "strictly_ascending xs \<Longrightarrow> strictly_ascending ys \<Longrightarrow> set xs = set ys \<Longrightarrow> xs = ys"
  by (metis strictly_ascending_distinct strictly_ascending_sorted sorted_distinct_set_unique)

section \<open>Decimal rendering\<close>

text \<open>\<open>std::to_string\<close> of an unsigned value.\<close>

definition digit_char :: "nat \<Rightarrow> char" where
  "digit_char d = char_of (48 + d)"

fun nat_text :: "nat \<Rightarrow> string" where
  "nat_text n = (if n < 10 then [digit_char n] else nat_text (n div 10) @ [digit_char (n mod 10)])"

declare nat_text.simps [simp del]

text \<open>\<open>std::to_string\<close> of a signed value.\<close>

definition int_text :: "int \<Rightarrow> string" where
  "int_text i = (if i < 0 then CHR ''-'' # nat_text (nat (- i)) else nat_text (nat i))"

end
