(* ===== verification/Errors.thy ===== *)
theory Errors
  imports Prelude
begin

text \<open>
  The failure classification of \<open>error.hpp\<close> and \<open>error.cpp\<close>: the closed set of error codes with
  their stable names, the structured failure value and the four class predicates. The other
  theories use the code alone as the left side of an outcome: the message and the detail of a
  failure are diagnostic text that no operation reads back.
\<close>

section \<open>Error codes\<close>

text \<open>
  One datatype per section of the enumeration, in its order, and their sum; \<open>E_X\<close> abbreviates the
  code \<open>ErrorCode::X\<close>.
\<close>

datatype input_error =
    InvalidArgument | MalformedIdentifier | MalformedEncoding |
    MalformedValue | UnknownNamespace | UnknownCapability | UnknownEnumDomain |
    UnsupportedValueKind | SchemaViolation | ValueTypeMismatch | ValueOutOfRange |
    ValueContradiction | ValueNotCanonical | DuplicateValue | EmptyCollection | TooManyItems |
    TextTooLong | PayloadTooLarge | ArithmeticOverflow | NestingTooDeep

datatype entity_error =
    UnknownEntity | UnknownEntityGeneration | EntityGenerationStale |
    EntityGenerationSuperseded | CapabilitySetGenerationStale |
    CapabilitySetGenerationMismatch | EvidenceGenerationStale | SourceGenerationStale

datatype authority_error =
    UnknownPublisher | UnknownAuthorityScope |
    UnauthorizedPublisher | AuthorityScopeViolation | PublicationModeNotAuthorized |
    ProvenanceNotAuthorized | DurablePublicationNotAuthorized | ExclusivityRequired |
    WorkerBootUnknown | WorkerBootStale | WorkerBootFenced | CoordinatorEpochStale |
    CoordinatorEpochUnknown

datatype publication_error =
    DuplicateClaim | ConflictingClaim | ClaimCountExceeded |
    EvidenceLimitExceeded | StaleReplay | DuplicateAttemptConflict | EntityInvalidated |
    EntityGenerationAdvanceRequired

datatype persistence_error =
    PersistencePathInvalid | PersistenceIoFailure |
    PersistenceFormatInvalid | PersistenceVersionUnsupported | PersistenceIntegrityFailure |
    PersistenceCorrupt | PersistenceDuplicateRecord | PersistenceLimitExceeded

datatype transport_error =
    TransportUnavailable | TransportFailure | TransportClosed |
    FrameMalformed | FrameTooLarge | FrameVersionUnsupported | FrameIntegrityFailure |
    FrameTrailingBytes | FrameTypeUnknown | FrameStateViolation

datatype error_code =
    E_Ok | InputError input_error | EntityError entity_error |
    AuthorityError authority_error | PublicationError publication_error |
    PersistenceError persistence_error | TransportError transport_error | E_NotFound |
    E_DiscoveryUnavailable | E_DiscoveryFailed | E_Unsupported | E_InternalFailure

abbreviation "E_InvalidArgument \<equiv> InputError InvalidArgument"
abbreviation "E_MalformedIdentifier \<equiv> InputError MalformedIdentifier"
abbreviation "E_MalformedEncoding \<equiv> InputError MalformedEncoding"
abbreviation "E_MalformedValue \<equiv> InputError MalformedValue"
abbreviation "E_UnknownNamespace \<equiv> InputError UnknownNamespace"
abbreviation "E_UnknownCapability \<equiv> InputError UnknownCapability"
abbreviation "E_UnknownEnumDomain \<equiv> InputError UnknownEnumDomain"
abbreviation "E_UnsupportedValueKind \<equiv> InputError UnsupportedValueKind"
abbreviation "E_SchemaViolation \<equiv> InputError SchemaViolation"
abbreviation "E_ValueTypeMismatch \<equiv> InputError ValueTypeMismatch"
abbreviation "E_ValueOutOfRange \<equiv> InputError ValueOutOfRange"
abbreviation "E_ValueContradiction \<equiv> InputError ValueContradiction"
abbreviation "E_ValueNotCanonical \<equiv> InputError ValueNotCanonical"
abbreviation "E_DuplicateValue \<equiv> InputError DuplicateValue"
abbreviation "E_EmptyCollection \<equiv> InputError EmptyCollection"
abbreviation "E_TooManyItems \<equiv> InputError TooManyItems"
abbreviation "E_TextTooLong \<equiv> InputError TextTooLong"
abbreviation "E_PayloadTooLarge \<equiv> InputError PayloadTooLarge"
abbreviation "E_ArithmeticOverflow \<equiv> InputError ArithmeticOverflow"
abbreviation "E_NestingTooDeep \<equiv> InputError NestingTooDeep"
abbreviation "E_UnknownEntity \<equiv> EntityError UnknownEntity"
abbreviation "E_UnknownEntityGeneration \<equiv> EntityError UnknownEntityGeneration"
abbreviation "E_EntityGenerationStale \<equiv> EntityError EntityGenerationStale"
abbreviation "E_EntityGenerationSuperseded \<equiv> EntityError EntityGenerationSuperseded"
abbreviation "E_CapabilitySetGenerationStale \<equiv> EntityError CapabilitySetGenerationStale"
abbreviation "E_CapabilitySetGenerationMismatch \<equiv> EntityError CapabilitySetGenerationMismatch"
abbreviation "E_EvidenceGenerationStale \<equiv> EntityError EvidenceGenerationStale"
abbreviation "E_SourceGenerationStale \<equiv> EntityError SourceGenerationStale"
abbreviation "E_UnknownPublisher \<equiv> AuthorityError UnknownPublisher"
abbreviation "E_UnknownAuthorityScope \<equiv> AuthorityError UnknownAuthorityScope"
abbreviation "E_UnauthorizedPublisher \<equiv> AuthorityError UnauthorizedPublisher"
abbreviation "E_AuthorityScopeViolation \<equiv> AuthorityError AuthorityScopeViolation"
abbreviation "E_PublicationModeNotAuthorized \<equiv> AuthorityError PublicationModeNotAuthorized"
abbreviation "E_ProvenanceNotAuthorized \<equiv> AuthorityError ProvenanceNotAuthorized"
abbreviation "E_DurablePublicationNotAuthorized \<equiv> AuthorityError DurablePublicationNotAuthorized"
abbreviation "E_ExclusivityRequired \<equiv> AuthorityError ExclusivityRequired"
abbreviation "E_WorkerBootUnknown \<equiv> AuthorityError WorkerBootUnknown"
abbreviation "E_WorkerBootStale \<equiv> AuthorityError WorkerBootStale"
abbreviation "E_WorkerBootFenced \<equiv> AuthorityError WorkerBootFenced"
abbreviation "E_CoordinatorEpochStale \<equiv> AuthorityError CoordinatorEpochStale"
abbreviation "E_CoordinatorEpochUnknown \<equiv> AuthorityError CoordinatorEpochUnknown"
abbreviation "E_DuplicateClaim \<equiv> PublicationError DuplicateClaim"
abbreviation "E_ConflictingClaim \<equiv> PublicationError ConflictingClaim"
abbreviation "E_ClaimCountExceeded \<equiv> PublicationError ClaimCountExceeded"
abbreviation "E_EvidenceLimitExceeded \<equiv> PublicationError EvidenceLimitExceeded"
abbreviation "E_StaleReplay \<equiv> PublicationError StaleReplay"
abbreviation "E_DuplicateAttemptConflict \<equiv> PublicationError DuplicateAttemptConflict"
abbreviation "E_EntityInvalidated \<equiv> PublicationError EntityInvalidated"
abbreviation "E_EntityGenerationAdvanceRequired \<equiv> PublicationError EntityGenerationAdvanceRequired"
abbreviation "E_PersistencePathInvalid \<equiv> PersistenceError PersistencePathInvalid"
abbreviation "E_PersistenceIoFailure \<equiv> PersistenceError PersistenceIoFailure"
abbreviation "E_PersistenceFormatInvalid \<equiv> PersistenceError PersistenceFormatInvalid"
abbreviation "E_PersistenceVersionUnsupported \<equiv> PersistenceError PersistenceVersionUnsupported"
abbreviation "E_PersistenceIntegrityFailure \<equiv> PersistenceError PersistenceIntegrityFailure"
abbreviation "E_PersistenceCorrupt \<equiv> PersistenceError PersistenceCorrupt"
abbreviation "E_PersistenceDuplicateRecord \<equiv> PersistenceError PersistenceDuplicateRecord"
abbreviation "E_PersistenceLimitExceeded \<equiv> PersistenceError PersistenceLimitExceeded"
abbreviation "E_TransportUnavailable \<equiv> TransportError TransportUnavailable"
abbreviation "E_TransportFailure \<equiv> TransportError TransportFailure"
abbreviation "E_TransportClosed \<equiv> TransportError TransportClosed"
abbreviation "E_FrameMalformed \<equiv> TransportError FrameMalformed"
abbreviation "E_FrameTooLarge \<equiv> TransportError FrameTooLarge"
abbreviation "E_FrameVersionUnsupported \<equiv> TransportError FrameVersionUnsupported"
abbreviation "E_FrameIntegrityFailure \<equiv> TransportError FrameIntegrityFailure"
abbreviation "E_FrameTrailingBytes \<equiv> TransportError FrameTrailingBytes"
abbreviation "E_FrameTypeUnknown \<equiv> TransportError FrameTypeUnknown"
abbreviation "E_FrameStateViolation \<equiv> TransportError FrameStateViolation"

type_synonym 'a outcome = "error_code + 'a"
type_synonym status = "error_code + unit"

primrec input_error_name :: "input_error \<Rightarrow> string" where
  "input_error_name InvalidArgument = ''invalid-argument''"
| "input_error_name MalformedIdentifier = ''malformed-identifier''"
| "input_error_name MalformedEncoding = ''malformed-encoding''"
| "input_error_name MalformedValue = ''malformed-value''"
| "input_error_name UnknownNamespace = ''unknown-namespace''"
| "input_error_name UnknownCapability = ''unknown-capability''"
| "input_error_name UnknownEnumDomain = ''unknown-enum-domain''"
| "input_error_name UnsupportedValueKind = ''unsupported-value-kind''"
| "input_error_name SchemaViolation = ''schema-violation''"
| "input_error_name ValueTypeMismatch = ''value-type-mismatch''"
| "input_error_name ValueOutOfRange = ''value-out-of-range''"
| "input_error_name ValueContradiction = ''value-contradiction''"
| "input_error_name ValueNotCanonical = ''value-not-canonical''"
| "input_error_name DuplicateValue = ''duplicate-value''"
| "input_error_name EmptyCollection = ''empty-collection''"
| "input_error_name TooManyItems = ''too-many-items''"
| "input_error_name TextTooLong = ''text-too-long''"
| "input_error_name PayloadTooLarge = ''payload-too-large''"
| "input_error_name ArithmeticOverflow = ''arithmetic-overflow''"
| "input_error_name NestingTooDeep = ''nesting-too-deep''"

primrec entity_error_name :: "entity_error \<Rightarrow> string" where
  "entity_error_name UnknownEntity = ''unknown-entity''"
| "entity_error_name UnknownEntityGeneration = ''unknown-entity-generation''"
| "entity_error_name EntityGenerationStale = ''entity-generation-stale''"
| "entity_error_name EntityGenerationSuperseded = ''entity-generation-superseded''"
| "entity_error_name CapabilitySetGenerationStale = ''capability-set-generation-stale''"
| "entity_error_name CapabilitySetGenerationMismatch = ''capability-set-generation-mismatch''"
| "entity_error_name EvidenceGenerationStale = ''evidence-generation-stale''"
| "entity_error_name SourceGenerationStale = ''source-generation-stale''"

primrec authority_error_name :: "authority_error \<Rightarrow> string" where
  "authority_error_name UnknownPublisher = ''unknown-publisher''"
| "authority_error_name UnknownAuthorityScope = ''unknown-authority-scope''"
| "authority_error_name UnauthorizedPublisher = ''unauthorized-publisher''"
| "authority_error_name AuthorityScopeViolation = ''authority-scope-violation''"
| "authority_error_name PublicationModeNotAuthorized = ''publication-mode-not-authorized''"
| "authority_error_name ProvenanceNotAuthorized = ''provenance-not-authorized''"
| "authority_error_name DurablePublicationNotAuthorized = ''durable-publication-not-authorized''"
| "authority_error_name ExclusivityRequired = ''exclusivity-required''"
| "authority_error_name WorkerBootUnknown = ''worker-boot-unknown''"
| "authority_error_name WorkerBootStale = ''worker-boot-stale''"
| "authority_error_name WorkerBootFenced = ''worker-boot-fenced''"
| "authority_error_name CoordinatorEpochStale = ''coordinator-epoch-stale''"
| "authority_error_name CoordinatorEpochUnknown = ''coordinator-epoch-unknown''"

primrec publication_error_name :: "publication_error \<Rightarrow> string" where
  "publication_error_name DuplicateClaim = ''duplicate-claim''"
| "publication_error_name ConflictingClaim = ''conflicting-claim''"
| "publication_error_name ClaimCountExceeded = ''claim-count-exceeded''"
| "publication_error_name EvidenceLimitExceeded = ''evidence-limit-exceeded''"
| "publication_error_name StaleReplay = ''stale-replay''"
| "publication_error_name DuplicateAttemptConflict = ''duplicate-attempt-conflict''"
| "publication_error_name EntityInvalidated = ''entity-invalidated''"
| "publication_error_name EntityGenerationAdvanceRequired = ''entity-generation-advance-required''"

primrec persistence_error_name :: "persistence_error \<Rightarrow> string" where
  "persistence_error_name PersistencePathInvalid = ''persistence-path-invalid''"
| "persistence_error_name PersistenceIoFailure = ''persistence-io-failure''"
| "persistence_error_name PersistenceFormatInvalid = ''persistence-format-invalid''"
| "persistence_error_name PersistenceVersionUnsupported = ''persistence-version-unsupported''"
| "persistence_error_name PersistenceIntegrityFailure = ''persistence-integrity-failure''"
| "persistence_error_name PersistenceCorrupt = ''persistence-corrupt''"
| "persistence_error_name PersistenceDuplicateRecord = ''persistence-duplicate-record''"
| "persistence_error_name PersistenceLimitExceeded = ''persistence-limit-exceeded''"

primrec transport_error_name :: "transport_error \<Rightarrow> string" where
  "transport_error_name TransportUnavailable = ''transport-unavailable''"
| "transport_error_name TransportFailure = ''transport-failure''"
| "transport_error_name TransportClosed = ''transport-closed''"
| "transport_error_name FrameMalformed = ''frame-malformed''"
| "transport_error_name FrameTooLarge = ''frame-too-large''"
| "transport_error_name FrameVersionUnsupported = ''frame-version-unsupported''"
| "transport_error_name FrameIntegrityFailure = ''frame-integrity-failure''"
| "transport_error_name FrameTrailingBytes = ''frame-trailing-bytes''"
| "transport_error_name FrameTypeUnknown = ''frame-type-unknown''"
| "transport_error_name FrameStateViolation = ''frame-state-violation''"

primrec ErrorCodeName :: "error_code \<Rightarrow> string" where
  "ErrorCodeName E_Ok = ''ok''"
| "ErrorCodeName (InputError e) = input_error_name e"
| "ErrorCodeName (EntityError e) = entity_error_name e"
| "ErrorCodeName (AuthorityError e) = authority_error_name e"
| "ErrorCodeName (PublicationError e) = publication_error_name e"
| "ErrorCodeName (PersistenceError e) = persistence_error_name e"
| "ErrorCodeName (TransportError e) = transport_error_name e"
| "ErrorCodeName E_NotFound = ''not-found''"
| "ErrorCodeName E_DiscoveryUnavailable = ''discovery-unavailable''"
| "ErrorCodeName E_DiscoveryFailed = ''discovery-failed''"
| "ErrorCodeName E_Unsupported = ''unsupported''"
| "ErrorCodeName E_InternalFailure = ''internal-failure''"

text \<open>The enumerators in declaration order; the underlying number of a code is its index.\<close>

definition all_error_codes :: "error_code list" where
  "all_error_codes = [E_Ok, E_InvalidArgument, E_MalformedIdentifier, E_MalformedEncoding,
     E_MalformedValue, E_UnknownNamespace, E_UnknownCapability, E_UnknownEnumDomain,
     E_UnsupportedValueKind, E_SchemaViolation, E_ValueTypeMismatch, E_ValueOutOfRange,
     E_ValueContradiction, E_ValueNotCanonical, E_DuplicateValue, E_EmptyCollection,
     E_TooManyItems, E_TextTooLong, E_PayloadTooLarge, E_ArithmeticOverflow, E_NestingTooDeep,
     E_UnknownEntity, E_UnknownEntityGeneration, E_EntityGenerationStale,
     E_EntityGenerationSuperseded, E_CapabilitySetGenerationStale,
     E_CapabilitySetGenerationMismatch, E_EvidenceGenerationStale, E_SourceGenerationStale,
     E_UnknownPublisher, E_UnknownAuthorityScope, E_UnauthorizedPublisher,
     E_AuthorityScopeViolation, E_PublicationModeNotAuthorized, E_ProvenanceNotAuthorized,
     E_DurablePublicationNotAuthorized, E_ExclusivityRequired, E_WorkerBootUnknown,
     E_WorkerBootStale, E_WorkerBootFenced, E_CoordinatorEpochStale, E_CoordinatorEpochUnknown,
     E_DuplicateClaim, E_ConflictingClaim, E_ClaimCountExceeded, E_EvidenceLimitExceeded,
     E_StaleReplay, E_DuplicateAttemptConflict, E_EntityInvalidated,
     E_EntityGenerationAdvanceRequired, E_NotFound, E_PersistencePathInvalid,
     E_PersistenceIoFailure, E_PersistenceFormatInvalid, E_PersistenceVersionUnsupported,
     E_PersistenceIntegrityFailure, E_PersistenceCorrupt, E_PersistenceDuplicateRecord,
     E_PersistenceLimitExceeded, E_TransportUnavailable, E_TransportFailure, E_TransportClosed,
     E_FrameMalformed, E_FrameTooLarge, E_FrameVersionUnsupported, E_FrameIntegrityFailure,
     E_FrameTrailingBytes, E_FrameTypeUnknown, E_FrameStateViolation, E_DiscoveryUnavailable,
     E_DiscoveryFailed, E_Unsupported, E_InternalFailure]"

definition IsStaleRejection :: "error_code \<Rightarrow> bool" where
  "IsStaleRejection code \<longleftrightarrow> code \<in> {E_EntityGenerationStale,
     E_EntityGenerationSuperseded, E_CapabilitySetGenerationStale,
     E_CapabilitySetGenerationMismatch, E_EvidenceGenerationStale, E_SourceGenerationStale,
     E_WorkerBootStale, E_WorkerBootFenced, E_CoordinatorEpochStale, E_CoordinatorEpochUnknown,
     E_StaleReplay, E_DuplicateAttemptConflict}"

definition IsAuthorityRejection :: "error_code \<Rightarrow> bool" where
  "IsAuthorityRejection code \<longleftrightarrow> code \<in> {E_UnknownPublisher,
     E_UnknownAuthorityScope, E_UnauthorizedPublisher, E_AuthorityScopeViolation,
     E_PublicationModeNotAuthorized, E_ProvenanceNotAuthorized,
     E_DurablePublicationNotAuthorized, E_ExclusivityRequired}"

definition IsMalformedInputRejection :: "error_code \<Rightarrow> bool" where
  "IsMalformedInputRejection code \<longleftrightarrow> code \<in> {E_InvalidArgument,
     E_MalformedIdentifier, E_MalformedEncoding, E_MalformedValue, E_UnknownNamespace,
     E_UnknownCapability, E_UnknownEnumDomain, E_UnsupportedValueKind, E_SchemaViolation,
     E_ValueTypeMismatch, E_ValueOutOfRange, E_ValueContradiction, E_ValueNotCanonical,
     E_DuplicateValue, E_EmptyCollection, E_TooManyItems, E_TextTooLong, E_PayloadTooLarge,
     E_ArithmeticOverflow, E_NestingTooDeep}"

definition IsIntegrityRejection :: "error_code \<Rightarrow> bool" where
  "IsIntegrityRejection code \<longleftrightarrow> code \<in> {E_PersistenceFormatInvalid,
     E_PersistenceIntegrityFailure, E_PersistenceCorrupt, E_PersistenceDuplicateRecord,
     E_PersistenceVersionUnsupported, E_FrameMalformed, E_FrameIntegrityFailure,
     E_FrameTrailingBytes, E_FrameVersionUnsupported}"

section \<open>Structured failures\<close>

record error_info =
  err_code :: error_code
  err_message :: string
  err_detail :: string

definition error_ok :: "error_info \<Rightarrow> bool" where
  "error_ok e \<longleftrightarrow> err_code e = E_Ok"

definition Error_ToString :: "error_info \<Rightarrow> string" where
  "Error_ToString e =
     ErrorCodeName (err_code e)
     @ (if err_message e \<noteq> [] then '': '' @ err_message e else [])
     @ (if err_detail e \<noteq> [] then '' ('' @ err_detail e @ '')'' else [])"

section \<open>Lemmas\<close>

lemma all_error_codes_complete: "set all_error_codes = UNIV"
proof -
  have "c \<in> set all_error_codes" for c
  proof (cases c)
    case (InputError e)
    then show ?thesis by (cases e) (simp_all add: all_error_codes_def)
  next
    case (EntityError e)
    then show ?thesis by (cases e) (simp_all add: all_error_codes_def)
  next
    case (AuthorityError e)
    then show ?thesis by (cases e) (simp_all add: all_error_codes_def)
  next
    case (PublicationError e)
    then show ?thesis by (cases e) (simp_all add: all_error_codes_def)
  next
    case (PersistenceError e)
    then show ?thesis by (cases e) (simp_all add: all_error_codes_def)
  next
    case (TransportError e)
    then show ?thesis by (cases e) (simp_all add: all_error_codes_def)
  qed (simp_all add: all_error_codes_def)
  then show ?thesis by blast
qed

text \<open>The names already differ in the sum of their characters, which is cheap to compare.\<close>

lemma distinct_name_sums:
  "distinct (map (foldl (\<lambda>h c. h + of_char c) (0::nat)) (map ErrorCodeName all_error_codes))"
  by (simp add: all_error_codes_def)

lemma distinct_error_names: "distinct (map ErrorCodeName all_error_codes)"
  using distinct_name_sums by (simp only: distinct_map)

lemma inj_ErrorCodeName: "inj ErrorCodeName"
  using distinct_error_names all_error_codes_complete by (metis distinct_map)

text \<open>The classification of failures is unambiguous. Two different codes never share a
  stable name, and no code is in two of the four classes: a staleness rejection is never an
  authority, malformed-input or integrity rejection, and so on. \<open>Ok\<close> is in none of them.\<close>

theorem error_classification:
  "inj ErrorCodeName
   \<and> \<not> (IsStaleRejection c \<and> IsAuthorityRejection c)
   \<and> \<not> (IsStaleRejection c \<and> IsMalformedInputRejection c)
   \<and> \<not> (IsStaleRejection c \<and> IsIntegrityRejection c)
   \<and> \<not> (IsAuthorityRejection c \<and> IsMalformedInputRejection c)
   \<and> \<not> (IsAuthorityRejection c \<and> IsIntegrityRejection c)
   \<and> \<not> (IsMalformedInputRejection c \<and> IsIntegrityRejection c)
   \<and> \<not> IsStaleRejection E_Ok \<and> \<not> IsAuthorityRejection E_Ok
   \<and> \<not> IsMalformedInputRejection E_Ok \<and> \<not> IsIntegrityRejection E_Ok"
  by (intro conjI inj_ErrorCodeName)
    (auto simp: IsStaleRejection_def IsAuthorityRejection_def IsMalformedInputRejection_def
      IsIntegrityRejection_def)

end
