(* ===== verification/Ids.thy ===== *)
theory Ids
  imports Errors
begin

text \<open>
  Identifiers of \<open>ids.hpp\<close>, \<open>ids.cpp\<close> and the text bounds of \<open>limits.hpp\<close>: token validation
  against a character profile, generation counters, entity identities, capability namespaces and
  capability identifiers. A token is its text; an entity or capability identity is a record of the
  fields of its class. The empty token is the unset one.
\<close>

section \<open>Bounds\<close>

abbreviation (input) kMaxCapabilityIdLength :: nat where "kMaxCapabilityIdLength \<equiv> 192"
abbreviation (input) kMaxNamespaceSegmentLength :: nat where "kMaxNamespaceSegmentLength \<equiv> 32"
abbreviation (input) kMaxCapabilityIdSegments :: nat where "kMaxCapabilityIdSegments \<equiv> 6"
abbreviation (input) kMaxCapabilityLocalLength :: nat where "kMaxCapabilityLocalLength \<equiv> 64"
abbreviation (input) kMaxEntityNameLength :: nat where "kMaxEntityNameLength \<equiv> 128"
abbreviation (input) kMaxEntityIdLength :: nat where "kMaxEntityIdLength \<equiv> 160"
abbreviation (input) kMaxTextLength :: nat where "kMaxTextLength \<equiv> 192"
abbreviation (input) kMaxVersionTokenLength :: nat where "kMaxVersionTokenLength \<equiv> 64"
abbreviation (input) kMaxSourceIdLength :: nat where "kMaxSourceIdLength \<equiv> 96"
abbreviation (input) kMaxPublisherIdLength :: nat where "kMaxPublisherIdLength \<equiv> 96"
abbreviation (input) kMaxAuthorityScopeIdLength :: nat where "kMaxAuthorityScopeIdLength \<equiv> 96"
abbreviation (input) kMaxAttemptIdLength :: nat where "kMaxAttemptIdLength \<equiv> 96"
abbreviation (input) kMaxEnumDomainIdLength :: nat where "kMaxEnumDomainIdLength \<equiv> 96"

section \<open>Token validation\<close>

datatype charset = LowerToken | HexToken | PrintableToken

definition IsLowerAlpha :: "char \<Rightarrow> bool" where
  "IsLowerAlpha ch \<longleftrightarrow> CHR ''a'' \<le> ch \<and> ch \<le> CHR ''z''"

definition IsDigit :: "char \<Rightarrow> bool" where
  "IsDigit ch \<longleftrightarrow> CHR ''0'' \<le> ch \<and> ch \<le> CHR ''9''"

definition IsHexDigit :: "char \<Rightarrow> bool" where
  "IsHexDigit ch \<longleftrightarrow> IsDigit ch \<or> (CHR ''a'' \<le> ch \<and> ch \<le> CHR ''f'')"

definition IsSeparator :: "char \<Rightarrow> bool" where
  "IsSeparator ch \<longleftrightarrow> ch = CHR ''.'' \<or> ch = CHR ''-'' \<or> ch = CHR ''_''"

definition IsEntitySeparator :: "char \<Rightarrow> bool" where
  "IsEntitySeparator ch \<longleftrightarrow> IsSeparator ch \<or> ch = CHR ''/''"

definition IsPrintable :: "char \<Rightarrow> bool" where
  "IsPrintable ch \<longleftrightarrow> CHR 0x20 \<le> ch \<and> ch \<le> CHR 0x7E"

text \<open>The loops of the two profiles with separators; the flag is \<open>previous_separator\<close>.\<close>

fun lower_token_loop :: "bool \<Rightarrow> string \<Rightarrow> status" where
  "lower_token_loop previous_separator [] = Inr ()"
| "lower_token_loop previous_separator (ch # text) =
     (let separator = IsEntitySeparator ch in
      if \<not> IsLowerAlpha ch \<and> \<not> IsDigit ch \<and> \<not> separator then Inl E_MalformedIdentifier
      else if separator \<and> previous_separator then Inl E_MalformedIdentifier
      else lower_token_loop separator text)"

fun hex_token_loop :: "bool \<Rightarrow> string \<Rightarrow> status" where
  "hex_token_loop previous_separator [] = Inr ()"
| "hex_token_loop previous_separator (ch # text) =
     (let separator = (ch = CHR ''-'') in
      if \<not> IsHexDigit ch \<and> \<not> separator then Inl E_MalformedIdentifier
      else if separator \<and> previous_separator then Inl E_MalformedIdentifier
      else hex_token_loop separator text)"

fun printable_token_loop :: "string \<Rightarrow> status" where
  "printable_token_loop [] = Inr ()"
| "printable_token_loop (ch # text) =
     (if \<not> IsPrintable ch then Inl E_MalformedIdentifier else printable_token_loop text)"

text \<open>Every caller passes a minimum length of at least one, so \<open>front\<close> and \<open>back\<close> exist.\<close>

definition ValidateToken :: "string \<Rightarrow> charset \<Rightarrow> nat \<Rightarrow> nat \<Rightarrow> status" where
  "ValidateToken text charset min_length max_length =
     (if length text < min_length \<or> length text > max_length then Inl E_MalformedIdentifier
      else case charset of
        LowerToken \<Rightarrow>
          (if \<not> IsLowerAlpha (hd text) \<and> \<not> IsDigit (hd text) then Inl E_MalformedIdentifier
           else if \<not> IsLowerAlpha (last text) \<and> \<not> IsDigit (last text)
             then Inl E_MalformedIdentifier
           else lower_token_loop False text)
      | HexToken \<Rightarrow>
          (if hd text = CHR ''-'' \<or> last text = CHR ''-'' then Inl E_MalformedIdentifier
           else hex_token_loop False text)
      | PrintableToken \<Rightarrow>
          (if hd text = CHR '' '' \<or> last text = CHR '' '' then Inl E_MalformedIdentifier
           else printable_token_loop text))"

section \<open>Tokens\<close>

type_synonym token = "string"

definition TokenId_Parse :: "charset \<Rightarrow> nat \<Rightarrow> nat \<Rightarrow> string \<Rightarrow> token outcome" where
  "TokenId_Parse charset min_length max_length text =
     obind (ValidateToken text charset min_length max_length) (\<lambda>_. Inr text)"

definition IsSet :: "token \<Rightarrow> bool" where
  "IsSet t \<longleftrightarrow> t \<noteq> []"

definition SourceId_Parse :: "string \<Rightarrow> token outcome" where
  "SourceId_Parse = TokenId_Parse LowerToken 1 96"
definition PublisherId_Parse :: "string \<Rightarrow> token outcome" where
  "PublisherId_Parse = TokenId_Parse LowerToken 1 96"
definition AuthorityScopeId_Parse :: "string \<Rightarrow> token outcome" where
  "AuthorityScopeId_Parse = TokenId_Parse LowerToken 1 96"
definition WorkerBootId_Parse :: "string \<Rightarrow> token outcome" where
  "WorkerBootId_Parse = TokenId_Parse HexToken 8 64"
definition CapabilityProfileId_Parse :: "string \<Rightarrow> token outcome" where
  "CapabilityProfileId_Parse = TokenId_Parse LowerToken 1 96"
definition CompatibilityClassId_Parse :: "string \<Rightarrow> token outcome" where
  "CompatibilityClassId_Parse = TokenId_Parse LowerToken 1 96"
definition MutationAttemptId_Parse :: "string \<Rightarrow> token outcome" where
  "MutationAttemptId_Parse = TokenId_Parse PrintableToken 1 96"
definition PublicationId_Parse :: "string \<Rightarrow> token outcome" where
  "PublicationId_Parse = TokenId_Parse PrintableToken 1 96"
definition SnapshotId_Parse :: "string \<Rightarrow> token outcome" where
  "SnapshotId_Parse = TokenId_Parse HexToken 32 32"
definition CapabilityRecordId_Parse :: "string \<Rightarrow> token outcome" where
  "CapabilityRecordId_Parse = TokenId_Parse HexToken 32 32"
definition EvidenceId_Parse :: "string \<Rightarrow> token outcome" where
  "EvidenceId_Parse = TokenId_Parse HexToken 32 32"
definition EnumDomainId_Parse :: "string \<Rightarrow> token outcome" where
  "EnumDomainId_Parse = TokenId_Parse LowerToken 1 96"
definition VersionToken_Parse :: "string \<Rightarrow> token outcome" where
  "VersionToken_Parse = TokenId_Parse PrintableToken 1 64"
definition ReasonToken_Parse :: "string \<Rightarrow> token outcome" where
  "ReasonToken_Parse = TokenId_Parse PrintableToken 1 192"
definition RequirementName_Parse :: "string \<Rightarrow> token outcome" where
  "RequirementName_Parse = TokenId_Parse PrintableToken 1 96"

section \<open>Counters\<close>

text \<open>A generation or epoch is a 64 bit value; zero is unset and \<open>Next\<close> never wraps.\<close>

type_synonym counter = u64

definition Counter_IsSet :: "counter \<Rightarrow> bool" where
  "Counter_IsSet c \<longleftrightarrow> c \<noteq> 0"

definition Counter_Next :: "counter \<Rightarrow> counter outcome" where
  "Counter_Next c = (if c = - 1 then Inl E_ArithmeticOverflow else Inr (c + 1))"

section \<open>Entity identity\<close>

datatype entity_kind =
    EK_Unknown | EK_Fabric | EK_Site | EK_Device | EK_Switch | EK_Router | EK_Nic | EK_SmartNic
  | EK_Dpu | EK_Port | EK_Link | EK_Endpoint

definition kEntityKindNames :: "(entity_kind \<times> string) list" where
  "kEntityKindNames =
     [(EK_Fabric, ''fabric''), (EK_Site, ''site''), (EK_Device, ''device''),
      (EK_Switch, ''switch''), (EK_Router, ''router''), (EK_Nic, ''nic''),
      (EK_SmartNic, ''smartnic''), (EK_Dpu, ''dpu''), (EK_Port, ''port''), (EK_Link, ''link''),
      (EK_Endpoint, ''endpoint'')]"

definition FabricEntityKindName :: "entity_kind \<Rightarrow> string" where
  "FabricEntityKindName kind =
     (case find (\<lambda>entry. fst entry = kind) kEntityKindNames of
        Some entry \<Rightarrow> snd entry | None \<Rightarrow> ''unknown'')"

definition ParseFabricEntityKind :: "string \<Rightarrow> entity_kind outcome" where
  "ParseFabricEntityKind text =
     (case find (\<lambda>entry. snd entry = text) kEntityKindNames of
        Some entry \<Rightarrow> Inr (fst entry) | None \<Rightarrow> Inl E_MalformedIdentifier)"

record entity_id =
  ent_kind :: entity_kind
  ent_canonical :: string
  ent_rendered :: string

definition EntityId_unset :: entity_id where
  "EntityId_unset = \<lparr>ent_kind = EK_Unknown, ent_canonical = [], ent_rendered = []\<rparr>"

definition EntityId_IsSet :: "entity_id \<Rightarrow> bool" where
  "EntityId_IsSet e \<longleftrightarrow> ent_kind e \<noteq> EK_Unknown"

definition EntityId_Create :: "entity_kind \<Rightarrow> string \<Rightarrow> entity_id outcome" where
  "EntityId_Create kind canonical_name =
     (if kind = EK_Unknown then Inl E_MalformedIdentifier
      else obind (ValidateToken canonical_name LowerToken 1 kMaxEntityNameLength) (\<lambda>_.
        Inr \<lparr>ent_kind = kind, ent_canonical = canonical_name,
             ent_rendered = FabricEntityKindName kind @ '':'' @ canonical_name\<rparr>))"

definition EntityId_Parse :: "string \<Rightarrow> entity_id outcome" where
  "EntityId_Parse text =
     (case dropWhile (\<lambda>ch. ch \<noteq> CHR '':'') text of
        [] \<Rightarrow> Inl E_MalformedIdentifier
      | _ # canonical_name \<Rightarrow>
          obind (ParseFabricEntityKind (takeWhile (\<lambda>ch. ch \<noteq> CHR '':'') text)) (\<lambda>kind.
            EntityId_Create kind canonical_name))"

section \<open>Capability identity\<close>

function SplitSegments :: "string \<Rightarrow> string list" where
  "SplitSegments text =
     (case dropWhile (\<lambda>ch. ch \<noteq> CHR ''.'') text of
        [] \<Rightarrow> [text]
      | _ # rest \<Rightarrow> takeWhile (\<lambda>ch. ch \<noteq> CHR ''.'') text # SplitSegments rest)"
  by pat_completeness auto
termination
proof (relation "measure length")
  fix t :: string and x rest
  assume "dropWhile (\<lambda>ch. ch \<noteq> CHR ''.'') t = x # rest"
  then have "Suc (length rest) \<le> length t"
    by (metis length_Cons length_dropWhile_le)
  then show "(rest, t) \<in> measure length" by simp
qed simp

declare SplitSegments.simps [simp del]

type_synonym namespace_id = "string"

definition Namespace_Parse :: "string \<Rightarrow> namespace_id outcome" where
  "Namespace_Parse text =
     (if length text > kMaxCapabilityIdLength then Inl E_MalformedIdentifier
      else let segments = SplitSegments text;
               canonical = (segments \<noteq> [] \<and> segments ! 0 = ''fabric'');
               vendor = (segments \<noteq> [] \<and> segments ! 0 = ''vendor'')
           in if \<not> canonical \<and> \<not> vendor then Inl E_UnknownNamespace
              else if canonical \<and> length segments \<noteq> 2 then Inl E_MalformedIdentifier
              else if vendor \<and> length segments \<noteq> 2 \<and> length segments \<noteq> 3
                then Inl E_MalformedIdentifier
              else obind (check_each
                     (\<lambda>segment. ValidateToken segment LowerToken 1 kMaxNamespaceSegmentLength)
                     (drop 1 segments)) (\<lambda>_. Inr text))"

definition IsVendor :: "string \<Rightarrow> bool" where
  "IsVendor text \<longleftrightarrow> length text \<ge> 7 \<and> take 7 text = ''vendor.''"

record capability_id =
  cap_ns :: namespace_id
  cap_local :: string
  cap_rendered :: string

definition CapabilityId_unset :: capability_id where
  "CapabilityId_unset = \<lparr>cap_ns = [], cap_local = [], cap_rendered = []\<rparr>"

definition CapabilityId_IsSet :: "capability_id \<Rightarrow> bool" where
  "CapabilityId_IsSet c \<longleftrightarrow> cap_rendered c \<noteq> []"

definition CapabilityId_IsVendorExtension :: "capability_id \<Rightarrow> bool" where
  "CapabilityId_IsVendorExtension c \<longleftrightarrow> IsVendor (cap_ns c)"

definition CapabilityId_Create :: "namespace_id \<Rightarrow> string \<Rightarrow> capability_id outcome" where
  "CapabilityId_Create ns local =
     (if \<not> IsSet ns then Inl E_UnknownNamespace
      else obind (ValidateToken local LowerToken 1 kMaxCapabilityLocalLength) (\<lambda>_.
        let rendered = ns @ ''.'' @ local in
        if length rendered > kMaxCapabilityIdLength then Inl E_MalformedIdentifier
        else Inr \<lparr>cap_ns = ns, cap_local = local, cap_rendered = rendered\<rparr>))"

definition CapabilityId_Parse :: "string \<Rightarrow> capability_id outcome" where
  "CapabilityId_Parse text =
     (if text = [] \<or> length text > kMaxCapabilityIdLength then Inl E_MalformedIdentifier
      else let segments = SplitSegments text in
        if length segments < 3 \<or> length segments > kMaxCapabilityIdSegments
        then Inl E_MalformedIdentifier
        else let namespace_text = take (length text - length (last segments) - 1) text in
          obind (Namespace_Parse namespace_text) (\<lambda>ns.
            CapabilityId_Create ns (last segments)))"

section \<open>What validation accepts\<close>

text \<open>The declarative reading of a character profile.\<close>

definition alnum :: "char \<Rightarrow> bool" where
  "alnum ch \<longleftrightarrow> IsLowerAlpha ch \<or> IsDigit ch"

definition token_ok :: "charset \<Rightarrow> string \<Rightarrow> bool" where
  "token_ok charset t \<longleftrightarrow> (case charset of
     LowerToken \<Rightarrow> alnum (hd t) \<and> alnum (last t)
       \<and> (\<forall>ch\<in>set t. alnum ch \<or> IsEntitySeparator ch)
       \<and> successively (\<lambda>a b. \<not> (IsEntitySeparator a \<and> IsEntitySeparator b)) t
   | HexToken \<Rightarrow> hd t \<noteq> CHR ''-'' \<and> last t \<noteq> CHR ''-''
       \<and> (\<forall>ch\<in>set t. IsHexDigit ch \<or> ch = CHR ''-'')
       \<and> successively (\<lambda>a b. \<not> (a = CHR ''-'' \<and> b = CHR ''-'')) t
   | PrintableToken \<Rightarrow> hd t \<noteq> CHR '' '' \<and> last t \<noteq> CHR '' '' \<and> (\<forall>ch\<in>set t. IsPrintable ch))"

lemma lower_token_loop_iff:
  "lower_token_loop prev t = Inr () \<longleftrightarrow>
     (\<forall>ch\<in>set t. alnum ch \<or> IsEntitySeparator ch)
     \<and> successively (\<lambda>a b. \<not> (IsEntitySeparator a \<and> IsEntitySeparator b)) t
     \<and> (prev \<longrightarrow> t = [] \<or> \<not> IsEntitySeparator (hd t))"
  by (induction prev t rule: lower_token_loop.induct)
    (auto simp: alnum_def Let_def successively_Cons)

lemma hex_token_loop_iff:
  "hex_token_loop prev t = Inr () \<longleftrightarrow>
     (\<forall>ch\<in>set t. IsHexDigit ch \<or> ch = CHR ''-'')
     \<and> successively (\<lambda>a b. \<not> (a = CHR ''-'' \<and> b = CHR ''-'')) t
     \<and> (prev \<longrightarrow> t = [] \<or> hd t \<noteq> CHR ''-'')"
  by (induction prev t rule: hex_token_loop.induct) (auto simp: Let_def successively_Cons)

lemma printable_token_loop_iff:
  "printable_token_loop t = Inr () \<longleftrightarrow> (\<forall>ch\<in>set t. IsPrintable ch)"
  by (induction t) auto

lemma ValidateToken_iff:
  "ValidateToken t charset lo hi = Inr () \<longleftrightarrow> lo \<le> length t \<and> length t \<le> hi \<and> token_ok charset t"
  by (cases charset)
    (auto simp: ValidateToken_def token_ok_def alnum_def lower_token_loop_iff hex_token_loop_iff
      printable_token_loop_iff)

lemma lower_token_loop_code: "lower_token_loop prev t \<in> {Inr (), Inl E_MalformedIdentifier}"
  by (induction prev t rule: lower_token_loop.induct) (auto simp: Let_def)

lemma hex_token_loop_code: "hex_token_loop prev t \<in> {Inr (), Inl E_MalformedIdentifier}"
  by (induction prev t rule: hex_token_loop.induct) (auto simp: Let_def)

lemma printable_token_loop_code: "printable_token_loop t \<in> {Inr (), Inl E_MalformedIdentifier}"
  by (induction t) auto

lemma ValidateToken_code: "ValidateToken t charset lo hi \<in> {Inr (), Inl E_MalformedIdentifier}"
  using lower_token_loop_code [of False t] hex_token_loop_code [of False t]
    printable_token_loop_code [of t]
  by (auto simp: ValidateToken_def split: charset.splits)

lemma ValidateToken_cases:
  obtains "ValidateToken t charset lo hi = Inr ()"
  | "ValidateToken t charset lo hi = Inl E_MalformedIdentifier"
  using ValidateToken_code [of t charset lo hi] by auto

lemma TokenId_Parse_iff:
  "TokenId_Parse charset lo hi t = Inr t' \<longleftrightarrow>
     t' = t \<and> lo \<le> length t \<and> length t \<le> hi \<and> token_ok charset t"
  by (auto simp: TokenId_Parse_def obind_Inr_iff ValidateToken_iff)

section \<open>Counters only grow\<close>

lemma Counter_Next_Inr: "Counter_Next c = Inr d \<longleftrightarrow> c \<noteq> - 1 \<and> d = c + 1"
  by (auto simp: Counter_Next_def)

lemma Counter_Next_less: "Counter_Next c = Inr d \<Longrightarrow> c < d"
proof -
  assume "Counter_Next c = Inr d"
  then have d: "d = 1 + c" and "c \<noteq> - 1"
    by (auto simp: Counter_Next_Inr)
  then have "1 + c \<noteq> 0" by (metis add_eq_0_iff)
  with d show "c < d" by (simp add: word_less_nat_alt unatSuc)
qed

lemma Counter_Next_nonzero: "Counter_Next c = Inr d \<Longrightarrow> d \<noteq> 0"
  using Counter_Next_less by fastforce

section \<open>Entity identities\<close>

lemma kEntityKindNames_complete: "kind \<noteq> EK_Unknown \<Longrightarrow> kind \<in> set (map fst kEntityKindNames)"
  by (cases kind) (simp_all add: kEntityKindNames_def)

lemma ParseFabricEntityKind_Name:
  "kind \<noteq> EK_Unknown \<Longrightarrow> ParseFabricEntityKind (FabricEntityKindName kind) = Inr kind"
  by (cases kind)
    (simp_all add: ParseFabricEntityKind_def FabricEntityKindName_def kEntityKindNames_def)

lemma kEntityKindNames_entries:
  "\<forall>entry\<in>set kEntityKindNames.
     fst entry \<noteq> EK_Unknown \<and> FabricEntityKindName (fst entry) = snd entry"
  by (simp add: kEntityKindNames_def FabricEntityKindName_def)

lemma ParseFabricEntityKind_Inr:
  assumes "ParseFabricEntityKind t = Inr kind"
  shows "kind \<noteq> EK_Unknown \<and> FabricEntityKindName kind = t"
proof -
  obtain entry where f: "find (\<lambda>entry. snd entry = t) kEntityKindNames = Some entry"
    and k: "kind = fst entry"
    using assms by (auto simp: ParseFabricEntityKind_def split: option.splits)
  from f have "entry \<in> set kEntityKindNames" and "snd entry = t"
    by (auto simp: find_Some_iff)
  with k show ?thesis using kEntityKindNames_entries by auto
qed

lemma FabricEntityKindName_no_colon: "CHR '':'' \<notin> set (FabricEntityKindName kind)"
  by (cases kind) (simp_all add: FabricEntityKindName_def kEntityKindNames_def)

lemma split_at_first:
  "x \<notin> set xs \<Longrightarrow> takeWhile (\<lambda>y. y \<noteq> x) (xs @ x # ys) = xs
     \<and> dropWhile (\<lambda>y. y \<noteq> x) (xs @ x # ys) = x # ys"
  by (induction xs) auto

lemma dropWhile_Cons_eq:
  "dropWhile (\<lambda>y. y \<noteq> x) t = z # rest \<Longrightarrow> t = takeWhile (\<lambda>y. y \<noteq> x) t @ x # rest"
  by (induction t) (auto split: if_splits)

lemma dropWhile_Nil_iff: "dropWhile (\<lambda>y. y \<noteq> x) t = [] \<longleftrightarrow> x \<notin> set t"
  by (induction t) auto

lemma takeWhile_no_occurrence: "x \<notin> set (takeWhile (\<lambda>y. y \<noteq> x) t)"
  by (metis set_takeWhileD)

lemma EntityId_Create_Inr:
  "EntityId_Create kind name = Inr e \<longleftrightarrow>
     kind \<noteq> EK_Unknown \<and> ValidateToken name LowerToken 1 kMaxEntityNameLength = Inr ()
     \<and> e = \<lparr>ent_kind = kind, ent_canonical = name,
            ent_rendered = FabricEntityKindName kind @ '':'' @ name\<rparr>"
  by (auto simp: EntityId_Create_def obind_Inr_iff)

section \<open>Dotted text\<close>

fun join_dots :: "string list \<Rightarrow> string" where
  "join_dots [] = []"
| "join_dots [s] = s"
| "join_dots (s # ss) = s @ ''.'' @ join_dots ss"

lemma SplitSegments_no_dot:
  assumes "CHR ''.'' \<notin> set t"
  shows "SplitSegments t = [t]"
proof -
  have "dropWhile (\<lambda>ch. ch \<noteq> CHR ''.'') t = []"
    using assms by (simp only: dropWhile_Nil_iff not_False_eq_True)
  then show ?thesis unfolding SplitSegments.simps [of t] by (simp only: list.case)
qed

lemma SplitSegments_dot:
  "CHR ''.'' \<notin> set s \<Longrightarrow> SplitSegments (s @ CHR ''.'' # rest) = s # SplitSegments rest"
  by (subst SplitSegments.simps) (simp add: split_at_first)

text \<open>Every text is either free of dots or a first segment, a dot and the rest.\<close>

lemma dotted_cases:
  obtains "CHR ''.'' \<notin> set t" | s rest where "t = s @ CHR ''.'' # rest" "CHR ''.'' \<notin> set s"
  using split_list_first [of "CHR ''.''" t] by blast

lemma dotted_induct [case_names no_dot dot]:
  assumes "\<And>t. CHR ''.'' \<notin> set t \<Longrightarrow> P t"
    and "\<And>s rest. CHR ''.'' \<notin> set s \<Longrightarrow> P rest \<Longrightarrow> P (s @ CHR ''.'' # rest)"
  shows "P t"
proof (induction t rule: length_induct)
  case (1 t)
  show ?case
  proof (cases t rule: dotted_cases)
    case 1
    then show ?thesis by (rule assms(1))
  next
    case (2 s rest)
    then show ?thesis using "1.IH" assms(2) by simp
  qed
qed

lemma SplitSegments_nonempty [simp]: "SplitSegments t \<noteq> []"
  by (subst SplitSegments.simps) (simp split: list.split)

lemma join_dots_Cons: "ss \<noteq> [] \<Longrightarrow> join_dots (s # ss) = s @ CHR ''.'' # join_dots ss"
  by (cases ss) simp_all

lemma join_SplitSegments: "join_dots (SplitSegments t) = t"
  by (induction t rule: dotted_induct)
    (simp_all add: SplitSegments_no_dot SplitSegments_dot join_dots_Cons)

lemma SplitSegments_dot_free: "s \<in> set (SplitSegments t) \<Longrightarrow> CHR ''.'' \<notin> set s"
  by (induction t rule: dotted_induct) (auto simp: SplitSegments_no_dot SplitSegments_dot)

lemma SplitSegments_append:
  "CHR ''.'' \<notin> set s \<Longrightarrow> SplitSegments (t @ CHR ''.'' # s) = SplitSegments t @ [s]"
  by (induction t rule: dotted_induct)
    (simp_all add: SplitSegments_no_dot SplitSegments_dot)

lemma SplitSegments_segments:
  "ss \<noteq> [] \<Longrightarrow> (\<forall>s\<in>set ss. CHR ''.'' \<notin> set s) \<Longrightarrow> SplitSegments (join_dots ss) = ss"
  by (induction ss rule: join_dots.induct) (simp_all add: SplitSegments_no_dot SplitSegments_dot)

section \<open>Namespaces and capability identifiers\<close>

definition ns_segments_ok :: "string list \<Rightarrow> bool" where
  "ns_segments_ok segments \<longleftrightarrow>
     (hd segments = ''fabric'' \<and> length segments = 2
      \<or> hd segments = ''vendor'' \<and> length segments \<in> {2, 3})
     \<and> (\<forall>s\<in>set (tl segments). ValidateToken s LowerToken 1 kMaxNamespaceSegmentLength = Inr ())"

lemma Namespace_Parse_Inr:
  "Namespace_Parse t = Inr ns \<longleftrightarrow>
     ns = t \<and> length t \<le> kMaxCapabilityIdLength \<and> ns_segments_ok (SplitSegments t)"
  by (auto simp: Namespace_Parse_def ns_segments_ok_def Let_def obind_Inr_iff hd_conv_nth drop_Suc
      split: if_splits)

lemma Namespace_Parse_segments:
  "Namespace_Parse t = Inr ns \<Longrightarrow> length (SplitSegments t) \<in> {2, 3}"
  by (auto simp: Namespace_Parse_Inr ns_segments_ok_def)

lemma Namespace_Parse_nonempty: "Namespace_Parse t = Inr ns \<Longrightarrow> t \<noteq> []"
  using Namespace_Parse_segments [of "[]" ns] by (auto simp: SplitSegments_no_dot)

lemma CapabilityId_Create_Inr:
  "CapabilityId_Create ns local = Inr c \<longleftrightarrow>
     ns \<noteq> [] \<and> ValidateToken local LowerToken 1 kMaxCapabilityLocalLength = Inr ()
     \<and> length ns + 1 + length local \<le> kMaxCapabilityIdLength
     \<and> c = \<lparr>cap_ns = ns, cap_local = local, cap_rendered = ns @ ''.'' @ local\<rparr>"
  by (auto simp: CapabilityId_Create_def obind_Inr_iff IsSet_def Let_def split: if_splits)

lemma CapabilityId_Create_rendered:
  "CapabilityId_Create ns local = Inr c \<Longrightarrow>
     cap_rendered c = ns @ CHR ''.'' # local \<and> cap_ns c = ns \<and> cap_local c = local"
  by (auto simp: CapabilityId_Create_Inr)

text \<open>The namespace text the parser cuts off is all but the last segment and its dot.\<close>

lemma join_dots_snoc: "ss \<noteq> [] \<Longrightarrow> join_dots (ss @ [s]) = join_dots ss @ CHR ''.'' # s"
  by (induction ss rule: join_dots.induct) simp_all

lemma cut_last_segment:
  assumes "length (SplitSegments t) \<ge> 2"
  shows "t = take (length t - length (last (SplitSegments t)) - 1) t
               @ CHR ''.'' # last (SplitSegments t)"
proof -
  let ?ss = "SplitSegments t"
  have "butlast ?ss \<noteq> []" using assms by (cases ?ss) auto
  then have "t = join_dots (butlast ?ss) @ CHR ''.'' # last ?ss"
    using join_dots_snoc [of "butlast ?ss" "last ?ss"] join_SplitSegments [of t] by simp
  moreover define p q where "p = join_dots (butlast ?ss)" and "q = last ?ss"
  ultimately have t: "t = p @ CHR ''.'' # q" by simp
  then have "take (length t - length q - 1) t = p" by simp
  with t show ?thesis by (simp add: q_def)
qed

lemma CapabilityId_Parse_rendered:
  assumes "CapabilityId_Parse t = Inr c"
  shows "cap_rendered c = t \<and> Namespace_Parse (cap_ns c) = Inr (cap_ns c)
    \<and> CapabilityId_Create (cap_ns c) (cap_local c) = Inr c \<and> CHR ''.'' \<notin> set (cap_local c)"
proof -
  let ?ss = "SplitSegments t"
  let ?ns = "take (length t - length (last ?ss) - 1) t"
  from assms have n: "length ?ss \<ge> 3" and ns: "Namespace_Parse ?ns = Inr ?ns"
    and c: "CapabilityId_Create ?ns (last ?ss) = Inr c"
    by (auto simp: CapabilityId_Parse_def Let_def obind_Inr_iff Namespace_Parse_Inr split: if_splits)
  from cut_last_segment [of t] n have "t = ?ns @ CHR ''.'' # last ?ss" by simp
  moreover have "CHR ''.'' \<notin> set (last ?ss)" 
    by (rule SplitSegments_dot_free [of _ t]) simp
  ultimately show ?thesis using CapabilityId_Create_rendered [OF c] ns c by simp
qed

lemma EntityId_Create_Parse:
  "EntityId_Create kind name = Inr e \<Longrightarrow> EntityId_Parse (ent_rendered e) = Inr e"
  using split_at_first [OF FabricEntityKindName_no_colon [of kind], of name]
  by (auto simp: EntityId_Parse_def EntityId_Create_Inr ParseFabricEntityKind_Name)

lemma EntityId_Parse_rendered:
  assumes "EntityId_Parse t = Inr e"
  shows "ent_rendered e = t \<and> EntityId_Create (ent_kind e) (ent_canonical e) = Inr e"
proof -
  from assms obtain z rest kind where d: "dropWhile (\<lambda>ch. ch \<noteq> CHR '':'') t = z # rest"
    and k: "ParseFabricEntityKind (takeWhile (\<lambda>ch. ch \<noteq> CHR '':'') t) = Inr kind"
    and c: "EntityId_Create kind rest = Inr e"
    by (auto simp: EntityId_Parse_def obind_Inr_iff split: list.splits)
  have "ent_rendered e = t"
    using c ParseFabricEntityKind_Inr [OF k] dropWhile_Cons_eq [OF d]
    by (simp add: EntityId_Create_Inr)
  with c show ?thesis by (simp add: EntityId_Create_Inr)
qed

section \<open>Properties\<close>

text \<open>Token validation accepts a text exactly when its length is within the bounds of the
  identifier class, its first and last characters are not separators, every character belongs to
  the profile and no two separators are adjacent; in every other case it fails with
  \<open>MalformedIdentifier\<close> and nothing else.\<close>

theorem ValidateToken_spec:
  "ValidateToken t charset lo hi =
     (if lo \<le> length t \<and> length t \<le> hi \<and> token_ok charset t
      then Inr () else Inl E_MalformedIdentifier)"
  using ValidateToken_code [of t charset lo hi] by (auto simp: ValidateToken_iff [symmetric])

text \<open>Entity identities: every identity that \<open>EntityId::Create\<close> builds is read back, as the
  same record, from its rendered text, and every text that \<open>EntityId::Parse\<close> accepts is the
  rendered text of the identity it returns, which \<open>Create\<close> builds from its parts.\<close>

theorem EntityId_roundtrip:
  "(EntityId_Create kind name = Inr e \<longrightarrow> EntityId_Parse (ent_rendered e) = Inr e)
   \<and> (EntityId_Parse t = Inr e \<longrightarrow>
        ent_rendered e = t \<and> EntityId_Create (ent_kind e) (ent_canonical e) = Inr e)"
  using EntityId_Create_Parse EntityId_Parse_rendered by blast

lemma EntityId_roundtrip_witness:
  "EntityId_Parse ''port:sw1/p0'' =
     Inr \<lparr>ent_kind = EK_Port, ent_canonical = ''sw1/p0'', ent_rendered = ''port:sw1/p0''\<rparr>"
proof -
  let ?e = "\<lparr>ent_kind = EK_Port, ent_canonical = ''sw1/p0'', ent_rendered = ''port:sw1/p0''\<rparr>"
  have "EntityId_Create EK_Port ''sw1/p0'' = Inr ?e" by code_simp
  with EntityId_roundtrip [of EK_Port "''sw1/p0''" ?e] show ?thesis by simp
qed

text \<open>Capability identifiers: an identifier created under a namespace the parser accepts is
  read back from its rendered text exactly when its local name holds no dot; \<open>Create\<close> itself
  does not exclude dots, so the rendered text of such an identifier is not always its name.\<close>

theorem CapabilityId_roundtrip_iff:
  assumes "Namespace_Parse ns = Inr ns" and "CapabilityId_Create ns local = Inr c"
  shows "CapabilityId_Parse (cap_rendered c) = Inr c \<longleftrightarrow> CHR ''.'' \<notin> set local"
proof
  assume "CapabilityId_Parse (cap_rendered c) = Inr c"
  then show "CHR ''.'' \<notin> set local"
    using CapabilityId_Parse_rendered CapabilityId_Create_rendered [OF assms(2)] by metis
next
  assume dot: "CHR ''.'' \<notin> set local"
  have r: "cap_rendered c = ns @ CHR ''.'' # local"
    and len: "length (cap_rendered c) \<le> kMaxCapabilityIdLength"
    using assms(2) by (auto simp: CapabilityId_Create_Inr)
  have "SplitSegments (cap_rendered c) = SplitSegments ns @ [local]"
    unfolding r by (rule SplitSegments_append [OF dot])
  moreover have "length (SplitSegments ns) \<in> {2, 3}"
    by (rule Namespace_Parse_segments [OF assms(1)])
  ultimately show "CapabilityId_Parse (cap_rendered c) = Inr c"
    using r len assms by (auto simp: CapabilityId_Parse_def Let_def obind_def)
qed

lemma CapabilityId_roundtrip_iff_witness:
  "CapabilityId_Parse ''fabric.port.speed'' =
     Inr \<lparr>cap_ns = ''fabric.port'', cap_local = ''speed'', cap_rendered = ''fabric.port.speed''\<rparr>
   \<and> CapabilityId_Parse ''fabric.port.a.b'' \<noteq>
     Inr \<lparr>cap_ns = ''fabric.port'', cap_local = ''a.b'', cap_rendered = ''fabric.port.a.b''\<rparr>"
proof -
  let ?c = "\<lparr>cap_ns = ''fabric.port'', cap_local = ''speed'', cap_rendered = ''fabric.port.speed''\<rparr>"
  let ?d = "\<lparr>cap_ns = ''fabric.port'', cap_local = ''a.b'', cap_rendered = ''fabric.port.a.b''\<rparr>"
  have ns: "Namespace_Parse ''fabric.port'' = Inr ''fabric.port''" by code_simp
  have "CapabilityId_Create ''fabric.port'' ''speed'' = Inr ?c"
    and "CapabilityId_Create ''fabric.port'' ''a.b'' = Inr ?d" by code_simp+
  with CapabilityId_roundtrip_iff [OF ns, of "''speed''" ?c]
    CapabilityId_roundtrip_iff [OF ns, of "''a.b''" ?d]
  show ?thesis by simp
qed

end
