(* ===== verification/Encoding.thy ===== *)
theory Encoding
  imports Ids
begin

text \<open>
  The bounded little-endian byte writer and reader of \<open>encoding.hpp\<close>, \<open>encoding.cpp\<close>. A writer
  operation is the bytes it appends; the two bounded operations are fallible and append nothing
  when they fail. A reader operation is a function from the unread bytes to an error, or to the
  value and the bytes still unread (\<open>in_\<close> from \<open>offset_\<close> on). The interfaces \<open>codec\<close> and
  \<open>strict_codec\<close> state what a pair of an encoder and a decoder promises; everything built from
  pairs in the value codec relies on those laws only.
\<close>

section \<open>Little-endian words\<close>

text \<open>The writer loops push \<open>(v >> shift) & 0xFF\<close> for every byte, lowest byte first.\<close>

definition le_bytes :: "nat \<Rightarrow> 'w::len word \<Rightarrow> bytes" where
  "le_bytes n v = map (\<lambda>index. ucast (drop_bit (8 * index) v AND 0xFF)) [0..<n]"

text \<open>The reader loops do \<open>value |= in_[offset_ + index] << (8 * index)\<close>.\<close>

definition le_value :: "nat \<Rightarrow> bytes \<Rightarrow> 'w::len word" where
  "le_value n bs = foldl (\<lambda>value index. value OR push_bit (8 * index) (ucast (bs ! index))) 0 [0..<n]"

type_synonym 'a reader = "bytes \<Rightarrow> ('a \<times> bytes) outcome"

definition le_read :: "nat \<Rightarrow> 'w::len word reader" where
  "le_read n bs =
     (if length bs < n then Inl E_MalformedEncoding else Inr (le_value n bs, drop n bs))"

section \<open>Writer operations\<close>

definition put_u8 :: "u8 \<Rightarrow> bytes" where "put_u8 v = [v]"
definition put_u16 :: "u16 \<Rightarrow> bytes" where "put_u16 v = le_bytes 2 v"
definition put_u32 :: "u32 \<Rightarrow> bytes" where "put_u32 v = le_bytes 4 v"
definition put_u64 :: "u64 \<Rightarrow> bytes" where "put_u64 v = le_bytes 8 v"

text \<open>\<open>I64\<close> writes the two's complement bits of a signed 64 bit value.\<close>

definition put_i64 :: "int \<Rightarrow> bytes" where "put_i64 v = put_u64 (word_of_int v)"
definition put_bool :: "bool \<Rightarrow> bytes" where "put_bool v = put_u8 (if v then 1 else 0)"

definition CheckedU32 :: "nat \<Rightarrow> u32 outcome" where
  "CheckedU32 v = (if v > 2 ^ 32 - 1 then Inl E_ArithmeticOverflow else Inr (word_of_nat v))"

definition put_bytes :: "bytes \<Rightarrow> nat \<Rightarrow> bytes outcome" where
  "put_bytes data max_length =
     (if length data > max_length then Inl E_PayloadTooLarge
      else obind (CheckedU32 (length data)) (\<lambda>n. Inr (put_u32 n @ data)))"

definition put_text :: "string \<Rightarrow> nat \<Rightarrow> bytes outcome" where
  "put_text t max_length =
     (if length t > max_length then Inl E_TextTooLong
      else obind (CheckedU32 (length t)) (\<lambda>n. Inr (put_u32 n @ text_bytes t)))"

text \<open>A caller that drops the returned status goes on with nothing appended on failure.\<close>

definition appended :: "bytes outcome \<Rightarrow> bytes" where
  "appended m = (case m of Inl _ \<Rightarrow> [] | Inr bs \<Rightarrow> bs)"

section \<open>Reader operations\<close>

definition rd_return :: "'a \<Rightarrow> 'a reader" where
  "rd_return x = (\<lambda>bs. Inr (x, bs))"
definition rd_fail :: "error_code \<Rightarrow> 'a reader" where
  "rd_fail e = (\<lambda>bs. Inl e)"
definition rd_bind :: "'a reader \<Rightarrow> ('a \<Rightarrow> 'b reader) \<Rightarrow> 'b reader" where
  "rd_bind r f = (\<lambda>bs. obind (r bs) (\<lambda>(x, rest). f x rest))"
definition rd_lift :: "'a outcome \<Rightarrow> 'a reader" where
  "rd_lift m = (\<lambda>bs. obind m (\<lambda>x. Inr (x, bs)))"

definition get_u8 :: "u8 reader" where
  "get_u8 bs = (case bs of [] \<Rightarrow> Inl E_MalformedEncoding | b # rest \<Rightarrow> Inr (b, rest))"
definition get_u16 :: "u16 reader" where "get_u16 = le_read 2"
definition get_u32 :: "u32 reader" where "get_u32 = le_read 4"
definition get_u64 :: "u64 reader" where "get_u64 = le_read 8"
definition get_i64 :: "int reader" where
  "get_i64 = rd_bind get_u64 (\<lambda>raw. rd_return (sint raw))"
definition get_bool :: "bool reader" where
  "get_bool = rd_bind get_u8 (\<lambda>raw.
     if raw > 1 then rd_fail E_MalformedEncoding else rd_return (raw = 1))"

definition get_bytes :: "nat \<Rightarrow> bytes reader" where
  "get_bytes max_length = rd_bind get_u32 (\<lambda>n bs.
     let declared = unat n in
     if declared > max_length then Inl E_PayloadTooLarge
     else if length bs < declared then Inl E_MalformedEncoding
     else Inr (take declared bs, drop declared bs))"

definition text_byte_ok :: "u8 \<Rightarrow> bool" where
  "text_byte_ok raw \<longleftrightarrow> \<not> (raw < 0x20 \<or> raw = 0x7F)"

definition get_text :: "nat \<Rightarrow> string reader" where
  "get_text max_length = rd_bind get_u32 (\<lambda>n bs.
     let declared = unat n in
     if declared > max_length then Inl E_TextTooLong
     else if length bs < declared then Inl E_MalformedEncoding
     else if \<not> list_all text_byte_ok (take declared bs) then Inl E_MalformedEncoding
     else Inr (bytes_text (take declared bs), drop declared bs))"

definition ExpectEnd :: "bytes \<Rightarrow> status" where
  "ExpectEnd bs = (if bs \<noteq> [] then Inl E_FrameTrailingBytes else Inr ())"

section \<open>Checked arithmetic\<close>

definition CheckedAdd :: "u64 \<Rightarrow> u64 \<Rightarrow> u64 outcome" where
  "CheckedAdd a b = (if a > - 1 - b then Inl E_ArithmeticOverflow else Inr (a + b))"

definition CheckedMul :: "u64 \<Rightarrow> u64 \<Rightarrow> u64 outcome" where
  "CheckedMul a b = (if a \<noteq> 0 \<and> b > - 1 div a then Inl E_ArithmeticOverflow else Inr (a * b))"

text \<open>\<open>size_t\<close> has 64 bits, so the bound is the largest 64 bit value.\<close>

definition CheckedSize :: "u64 \<Rightarrow> nat outcome" where
  "CheckedSize v = (if v > - 1 then Inl E_ArithmeticOverflow else Inr (unat v))"

section \<open>Readers and writers step by step\<close>

lemma rd_simps [codec_simps]:
  "rd_return x bs = Inr (x, bs)"
  "rd_fail e bs = Inl e"
  "rd_bind r f bs = obind (r bs) (\<lambda>(x, rest). f x rest)"
  "rd_lift m bs = obind m (\<lambda>x. Inr (x, bs))"
  by (simp_all add: rd_return_def rd_fail_def rd_bind_def rd_lift_def)

lemma length_le_bytes [simp]: "length (le_bytes n v) = n"
  by (simp add: le_bytes_def)

lemma bit_le_bytes:
  "i < n \<Longrightarrow> bit (le_bytes n v ! i) j \<longleftrightarrow> j < 8 \<and> bit (v::'w::len word) (8 * i + j)"
proof -
  assume i: "i < n"
  have ff: "(0xFF::'w word) = mask 8" by (simp add: mask_eq_exp_minus_1)
  have "le_bytes n v ! i = ucast (drop_bit (8 * i) v AND mask 8)"
    using i by (simp add: le_bytes_def flip: ff)
  also have "bit \<dots> j \<longleftrightarrow> j < 8 \<and> bit v (8 * i + j)"
    by (auto simp add: bit_unsigned_iff bit_and_iff bit_drop_bit_eq bit_mask_iff
        dest: bit_imp_le_length)
  finally show ?thesis .
qed

lemma len8: "LENGTH(8) = 8"
  by simp

lemma bit_le_value:
  "bit (le_value n bs :: 'w::len word) k \<longleftrightarrow>
     k < LENGTH('w) \<and> k div 8 < n \<and> bit (bs ! (k div 8)) (k mod 8)"
proof (induction n)
  case 0
  then show ?case by (simp add: le_value_def)
next
  case (Suc n)
  have step: "le_value (Suc n) bs = (le_value n bs :: 'w word) OR push_bit (8 * n) (ucast (bs ! n))"
    by (simp add: le_value_def)
  have "bit (push_bit (8 * n) (ucast (bs ! n)) :: 'w word) k \<longleftrightarrow>
      k < LENGTH('w) \<and> k div 8 = n \<and> bit (bs ! n) (k mod 8)"
  proof (cases "k div 8 = n")
    case True
    then have "8 * n \<le> k" and "k - 8 * n = k mod 8" by presburger+
    have "bit (push_bit (8 * n) (ucast (bs ! n)) :: 'w word) k \<longleftrightarrow>
        k < LENGTH('w) \<and> bit (ucast (bs ! n) :: 'w word) (k - 8 * n)"
      by (simp only: bit_push_bit_iff possible_bit_word \<open>8 * n \<le> k\<close> simp_thms)
    also have "\<dots> \<longleftrightarrow> k < LENGTH('w) \<and> bit (bs ! n) (k mod 8)"
      unfolding \<open>k - 8 * n = k mod 8\<close>
      by (auto simp: bit_unsigned_iff)
    finally show ?thesis using True by simp
  next
    case False
    then have "8 * n \<le> k \<Longrightarrow> \<not> k - 8 * n < 8"
      using div_nat_eqI [of 8 n k] by linarith
    then have "8 * n \<le> k \<Longrightarrow> \<not> bit (bs ! n) (k - 8 * n)"
      using bit_imp_le_length [of "bs ! n" "k - 8 * n"] unfolding len8 by blast
    then show ?thesis unfolding bit_push_bit_iff bit_unsigned_iff using False by blast
  qed
  with Suc show ?case unfolding step bit_or_iff less_Suc_eq by blast
qed

lemma le_value_le_bytes:
  "LENGTH('w) = 8 * n \<Longrightarrow> le_value n (le_bytes n v @ rest) = (v::'w::len word)"
proof (rule bit_word_eqI)
  fix k assume len: "LENGTH('w) = 8 * n" and k: "k < LENGTH('w)"
  then have i: "k div 8 < n" by (simp add: less_mult_imp_div_less mult.commute)
  have "8 * (k div 8) + k mod 8 = k" by presburger
  with i k show "bit (le_value n (le_bytes n v @ rest) :: 'w word) k = bit v k"
    by (simp add: bit_le_value nth_append bit_le_bytes)
qed

lemma le_bytes_le_value:
  assumes len: "LENGTH('w) = 8 * n" and bs: "n \<le> length bs"
  shows "le_bytes n (le_value n bs :: 'w::len word) = take n bs"
proof (rule nth_equalityI)
  show "length (le_bytes n (le_value n bs :: 'w word)) = length (take n bs)" using bs by simp
next
  fix i assume "i < length (le_bytes n (le_value n bs :: 'w word))"
  then have i: "i < n" by simp
  show "le_bytes n (le_value n bs :: 'w word) ! i = take n bs ! i"
  proof (rule bit_word_eqI)
    fix j assume "j < LENGTH(8)"
    then have "(8 * i + j) div 8 = i" "(8 * i + j) mod 8 = j" "8 * i + j < 8 * n" "j < 8"
      using i by auto
    then show "bit (le_bytes n (le_value n bs :: 'w word) ! i) j = bit (take n bs ! i) j"
      using i by (simp add: bit_le_bytes bit_le_value len)
  qed
qed

section \<open>What a codec promises\<close>

text \<open>
  A codec reads back every well-formed value it writes and leaves exactly the bytes that follow;
  a strict one accepts no other bytes, so that the encoding of a value is unique.
\<close>

locale codec =
  fixes ok :: "'a \<Rightarrow> bool" and enc :: "'a \<Rightarrow> bytes" and dec :: "'a reader"
  assumes roundtrip: "ok x \<Longrightarrow> dec (enc x @ rest) = Inr (x, rest)"
begin

lemma whole: "ok x \<Longrightarrow> dec (enc x) = Inr (x, [])"
  using roundtrip [of x "[]"] by simp

lemma prefix_free:
  assumes "ok x" and "ok y" and "enc x @ r = enc y @ s"
  shows "x = y \<and> r = s"
proof -
  have "Inr (x, r) = (Inr (y, s) :: _ outcome)"
    using roundtrip [OF assms(1), of r] roundtrip [OF assms(2), of s] assms(3) by metis
  then show ?thesis by blast
qed

lemma enc_inject: "ok x \<Longrightarrow> ok y \<Longrightarrow> enc x = enc y \<longleftrightarrow> x = y"
  using prefix_free [of x y "[]" "[]"] by auto

end

locale strict_codec = codec +
  assumes canonical: "dec bs = Inr (x, rest) \<Longrightarrow> ok x \<and> bs = enc x @ rest"
begin

lemma dec_iff: "dec bs = Inr (x, rest) \<longleftrightarrow> ok x \<and> bs = enc x @ rest"
  using canonical roundtrip by blast

lemma consumes: "dec bs = Inr (x, rest) \<Longrightarrow> length bs = length (enc x) + length rest"
  by (simp add: dec_iff)

lemma extension: "dec bs = Inr (x, rest) \<Longrightarrow> dec (bs @ tail) = Inr (x, rest @ tail)"
  by (simp add: dec_iff)

end

text \<open>A counted sequence: the loop that reads one element after the other.\<close>

fun rd_repeat :: "nat \<Rightarrow> 'a reader \<Rightarrow> 'a list reader" where
  "rd_repeat 0 r = rd_return []"
| "rd_repeat (Suc n) r = rd_bind r (\<lambda>x. rd_bind (rd_repeat n r) (\<lambda>xs. rd_return (x # xs)))"

context codec
begin

lemma repeat_roundtrip:
  "\<forall>x\<in>set xs. ok x \<Longrightarrow>
     rd_repeat (length xs) dec (concat (map enc xs) @ rest) = Inr (xs, rest)"
  by (induction xs) (simp_all add: rd_simps roundtrip)

end

context strict_codec
begin

lemma repeat_canonical:
  "rd_repeat n dec bs = Inr (xs, rest) \<Longrightarrow>
     length xs = n \<and> (\<forall>x\<in>set xs. ok x) \<and> bs = concat (map enc xs) @ rest"
proof (induction n arbitrary: bs xs)
  case 0
  then show ?case by (simp add: codec_simps)
next
  case (Suc n)
  from Suc.prems obtain y mid ys where "dec bs = Inr (y, mid)"
    and r: "rd_repeat n dec mid = Inr (ys, rest)" and "xs = y # ys"
    by (auto simp: codec_simps obind_Inr_iff)
  then show ?case using Suc.IH [OF r] canonical by fastforce
qed

end

section \<open>The primitive codecs\<close>

lemma le_read_roundtrip:
  "LENGTH('w) = 8 * n \<Longrightarrow> le_read n (le_bytes n (v::'w::len word) @ rest) = Inr (v, rest)"
  by (simp add: le_read_def le_value_le_bytes)

lemma le_read_canonical:
  "LENGTH('w) = 8 * n \<Longrightarrow> le_read n bs = Inr (v::'w::len word, rest) \<Longrightarrow> bs = le_bytes n v @ rest"
  by (auto simp: le_read_def le_bytes_le_value split: if_splits)

interpretation u8: strict_codec "\<lambda>_. True" put_u8 get_u8
  by unfold_locales (auto simp: put_u8_def get_u8_def split: list.splits)

interpretation u16: strict_codec "\<lambda>_. True" put_u16 get_u16
  by unfold_locales
    (simp_all add: put_u16_def get_u16_def le_read_roundtrip le_read_canonical)

interpretation u32: strict_codec "\<lambda>_. True" put_u32 get_u32
  by unfold_locales
    (simp_all add: put_u32_def get_u32_def le_read_roundtrip le_read_canonical)

interpretation u64: strict_codec "\<lambda>_. True" put_u64 get_u64
  by unfold_locales
    (simp_all add: put_u64_def get_u64_def le_read_roundtrip le_read_canonical)

text \<open>The range of \<open>std::int64_t\<close>.\<close>

definition i64_ok :: "int \<Rightarrow> bool" where
  "i64_ok v \<longleftrightarrow> - (2 ^ 63) \<le> v \<and> v < 2 ^ 63"

lemma sint_word_of_int_i64: "i64_ok v \<Longrightarrow> sint (word_of_int v :: u64) = v"
  by (simp add: i64_ok_def sint_sbintrunc' signed_take_bit_int_eq_self)

lemma i64_ok_sint: "i64_ok (sint (w::u64))"
  using sint_range_size [of w] by (simp add: i64_ok_def word_size)

interpretation i64: strict_codec i64_ok put_i64 get_i64
proof unfold_locales
  fix v rest assume "i64_ok v"
  then show "get_i64 (put_i64 v @ rest) = Inr (v, rest)"
    by (simp add: get_i64_def put_i64_def codec_simps u64.roundtrip sint_word_of_int_i64)
next
  fix bs v rest assume "get_i64 bs = Inr (v, rest)"
  then show "i64_ok v \<and> bs = put_i64 v @ rest"
    by (auto simp: get_i64_def put_i64_def codec_simps u64.dec_iff i64_ok_sint obind_Inr_iff)
qed

lemma u8_le_1: "\<not> raw > (1::u8) \<longleftrightarrow> raw = 0 \<or> raw = 1"
  by (auto simp: word_less_nat_alt not_less le_Suc_eq word_unat_eq_iff)

interpretation bool8: strict_codec "\<lambda>_. True" put_bool get_bool
proof unfold_locales
  fix v rest
  show "get_bool (put_bool v @ rest) = Inr (v, rest)"
    by (simp add: get_bool_def put_bool_def codec_simps u8.roundtrip)
next
  fix bs v rest assume "get_bool bs = Inr (v, rest)"
  then show "True \<and> bs = put_bool v @ rest"
    by (auto simp: get_bool_def put_bool_def codec_simps u8.dec_iff obind_Inr_iff u8_le_1
        split: if_splits)
qed

section \<open>Length-prefixed payloads\<close>

lemma unat_CheckedU32: "CheckedU32 v = Inr w \<Longrightarrow> unat w = v"
  by (auto simp: CheckedU32_def unat_of_nat split: if_splits)

lemma CheckedU32_Inr_iff: "CheckedU32 v = Inr w \<longleftrightarrow> v = unat w"
proof
  assume "v = unat w"
  moreover have "unat w < 2 ^ 32" using unsigned_less [of w] by simp
  ultimately show "CheckedU32 v = Inr w" by (simp add: CheckedU32_def)
qed (simp add: unat_CheckedU32)

definition bytes_ok :: "nat \<Rightarrow> bytes \<Rightarrow> bool" where
  "bytes_ok max_length data \<longleftrightarrow> length data \<le> max_length \<and> length data < 2 ^ 32"

definition text_ok :: "nat \<Rightarrow> string \<Rightarrow> bool" where
  "text_ok max_length t \<longleftrightarrow>
     length t \<le> max_length \<and> length t < 2 ^ 32 \<and> list_all text_byte_ok (text_bytes t)"

lemma CheckedU32_small: "v < 2 ^ 32 \<Longrightarrow> CheckedU32 v = Inr (word_of_nat v)"
  by (simp add: CheckedU32_def)

lemma unat_word_of_nat_u32: "v < 2 ^ 32 \<Longrightarrow> unat (word_of_nat v :: u32) = v"
  by (simp add: unat_of_nat)

lemma put_bytes_ok: "bytes_ok m data \<Longrightarrow> put_bytes data m = Inr (put_u32 (word_of_nat (length data)) @ data)"
  by (simp add: put_bytes_def bytes_ok_def CheckedU32_small)

lemma put_text_ok:
  "text_ok m t \<Longrightarrow> put_text t m = Inr (put_u32 (word_of_nat (length t)) @ text_bytes t)"
  by (simp add: put_text_def text_ok_def CheckedU32_small)

lemma appended_simps [simp]: "appended (Inr bs) = bs" "appended (Inl e) = []"
  by (simp_all add: appended_def)

interpretation payload: strict_codec "bytes_ok m" "\<lambda>data. appended (put_bytes data m)" "get_bytes m"
proof unfold_locales
  fix data rest assume ok: "bytes_ok m data"
  then have "length data < 2 ^ 32" "length data \<le> m" by (simp_all add: bytes_ok_def)
  then show "get_bytes m (appended (put_bytes data m) @ rest) = Inr (data, rest)"
    using ok
    by (simp add: put_bytes_ok get_bytes_def codec_simps u32.roundtrip unat_word_of_nat_u32 Let_def)
next
  fix bs data rest assume "get_bytes m bs = Inr (data, rest)"
  then obtain n mid where bs: "bs = put_u32 n @ mid" and n: "unat n \<le> m" "unat n \<le> length mid"
    and d: "data = take (unat n) mid" "rest = drop (unat n) mid"
    by (auto simp: get_bytes_def codec_simps obind_Inr_iff u32.dec_iff Let_def split: if_splits)
  then have len: "length data = unat n" by simp
  then have ok: "bytes_ok m data" using n unsigned_less [of n] by (simp add: bytes_ok_def)
  then show "bytes_ok m data \<and> bs = appended (put_bytes data m) @ rest"
    using bs d(2) by (simp add: put_bytes_ok len) (simp add: d(1))
qed

interpretation str: strict_codec "text_ok m" "\<lambda>t. appended (put_text t m)" "get_text m"
proof unfold_locales
  fix t rest assume ok: "text_ok m t"
  then have "length t < 2 ^ 32" "length t \<le> m" "list_all text_byte_ok (text_bytes t)"
    by (simp_all add: text_ok_def)
  then show "get_text m (appended (put_text t m) @ rest) = Inr (t, rest)"
    using ok
    by (simp add: put_text_ok get_text_def codec_simps u32.roundtrip unat_word_of_nat_u32 Let_def)
next
  fix bs t rest assume "get_text m bs = Inr (t, rest)"
  then obtain n mid where bs: "bs = put_u32 n @ mid" and n: "unat n \<le> m" "unat n \<le> length mid"
    and d: "t = bytes_text (take (unat n) mid)" "rest = drop (unat n) mid"
    and printable: "list_all text_byte_ok (take (unat n) mid)"
    by (auto simp: get_text_def codec_simps obind_Inr_iff u32.dec_iff Let_def split: if_splits)
  then have len: "length t = unat n" by simp
  have tb: "text_bytes t = take (unat n) mid" by (simp add: d)
  have ok: "text_ok m t" using n len printable unsigned_less [of n] by (simp add: text_ok_def tb)
  then show "text_ok m t \<and> bs = appended (put_text t m) @ rest"
    using bs d(2) by (simp add: put_text_ok len) (simp add: tb)
qed

section \<open>Checked arithmetic\<close>

lemma unat_max_u64: "unat (- 1 :: u64) = 2 ^ 64 - 1"
  by (simp add: unsigned_minus_1_eq_mask mask_eq_exp_minus_1)

lemma CheckedAdd_overflow: "a > - 1 - b \<longleftrightarrow> \<not> unat a + unat b < 2 ^ 64" for a b :: u64
proof -
  have lt: "unat b < 2 ^ 64" using unsigned_less [of b] by simp
  have "unat (- 1 - b) = unat (- 1 :: u64) - unat b"
    by (rule unat_sub) simp
  then show ?thesis
    using lt unfolding word_less_nat_alt unat_max_u64 by auto
qed

lemma CheckedMul_overflow:
  "a \<noteq> 0 \<and> b > - 1 div a \<longleftrightarrow> \<not> unat a * unat b < 2 ^ 64" for a b :: u64
proof (cases "a = 0")
  case False
  then have a: "0 < unat a" by (simp add: unat_gt_0)
  have "b > - 1 div a \<longleftrightarrow> (2 ^ 64 - 1) div unat a < unat b"
    unfolding word_less_nat_alt unat_div unat_max_u64 ..
  also have "\<dots> \<longleftrightarrow> 2 ^ 64 - 1 < unat b * unat a"
    by (rule div_less_iff_less_mult [OF a])
  finally show ?thesis using False by (auto simp: mult.commute)
qed simp

section \<open>Properties\<close>

text \<open>Checked arithmetic is exact: addition and multiplication of two unsigned 64 bit values
  return the mathematical sum or product when it is representable and fail with
  \<open>ArithmeticOverflow\<close> otherwise; no wrapped result is ever returned.\<close>

theorem checked_arithmetic_exact:
  "CheckedAdd a b =
     (if unat a + unat b < 2 ^ 64 then Inr (word_of_nat (unat a + unat b))
      else Inl E_ArithmeticOverflow)
   \<and> CheckedMul a b =
     (if unat a * unat b < 2 ^ 64 then Inr (word_of_nat (unat a * unat b))
      else Inl E_ArithmeticOverflow)"
  unfolding CheckedAdd_def CheckedMul_def CheckedAdd_overflow CheckedMul_overflow
  by simp

text \<open>Length-prefixed text: the reader returns a text exactly when the unread bytes begin with
  what the writer appends for it under the same bound and the text has no control character, and
  it leaves exactly the bytes after it; no other bytes are accepted for that text.\<close>

theorem get_text_exact:
  "get_text m bs = Inr (t, rest) \<longleftrightarrow>
     length t \<le> m \<and> length t < 2 ^ 32 \<and> list_all text_byte_ok (text_bytes t)
     \<and> put_text t m = Inr (appended (put_text t m)) \<and> bs = appended (put_text t m) @ rest"
  using str.dec_iff [of m bs t rest] put_text_ok [of m t] by (auto simp: text_ok_def)

end
