(* ===== verification/Digests.thy ===== *)
theory Digests
  imports Encoding
begin

text \<open>
  The digests of \<open>digest.hpp\<close>, \<open>digest.cpp\<close>: streaming SHA-256, CRC-32 and the hexadecimal
  rendering of a digest. A digest is its 32 bytes, ordered lexicographically. The streaming
  hasher is shown equal to the one-pass definition of the standard, whatever the boundaries of
  the updates; the CRC detects every corruption confined to four consecutive bytes.
\<close>

section \<open>SHA-256\<close>

abbreviation (input) kDigestBytes :: nat where "kDigestBytes \<equiv> 32"

type_synonym digest = bytes

definition kRoundConstants :: "u32 list" where
  "kRoundConstants =
    [0x428A2F98, 0x71374491, 0xB5C0FBCF, 0xE9B5DBA5, 0x3956C25B, 0x59F111F1, 0x923F82A4,
     0xAB1C5ED5, 0xD807AA98, 0x12835B01, 0x243185BE, 0x550C7DC3, 0x72BE5D74, 0x80DEB1FE,
     0x9BDC06A7, 0xC19BF174, 0xE49B69C1, 0xEFBE4786, 0x0FC19DC6, 0x240CA1CC, 0x2DE92C6F,
     0x4A7484AA, 0x5CB0A9DC, 0x76F988DA, 0x983E5152, 0xA831C66D, 0xB00327C8, 0xBF597FC7,
     0xC6E00BF3, 0xD5A79147, 0x06CA6351, 0x14292967, 0x27B70A85, 0x2E1B2138, 0x4D2C6DFC,
     0x53380D13, 0x650A7354, 0x766A0ABB, 0x81C2C92E, 0x92722C85, 0xA2BFE8A1, 0xA81A664B,
     0xC24B8B70, 0xC76C51A3, 0xD192E819, 0xD6990624, 0xF40E3585, 0x106AA070, 0x19A4C116,
     0x1E376C08, 0x2748774C, 0x34B0BCB5, 0x391C0CB3, 0x4ED8AA4A, 0x5B9CCA4F, 0x682E6FF3,
     0x748F82EE, 0x78A5636F, 0x84C87814, 0x8CC70208, 0x90BEFFFA, 0xA4506CEB, 0xBEF9A3F7,
     0xC67178F2]"

definition RotateRight :: "u32 \<Rightarrow> nat \<Rightarrow> u32" where
  "RotateRight v bits = drop_bit bits v OR push_bit (32 - bits) v"

record sha256 =
  sh_state :: "u32 list"
  sh_buffer :: bytes
  sh_buffered :: nat
  sh_total_bytes :: u64
  sh_finished :: bool

definition Sha256_init :: sha256 where
  "Sha256_init =
    \<lparr>sh_state = [0x6a09e667, 0xbb67ae85, 0x3c6ef372, 0xa54ff53a,
                 0x510e527f, 0x9b05688c, 0x1f83d9ab, 0x5be0cd19],
     sh_buffer = replicate 64 0, sh_buffered = 0, sh_total_bytes = 0, sh_finished = False\<rparr>"

text \<open>The schedule: sixteen big-endian words of the block, then the recurrence up to index 63.\<close>

definition block_word :: "bytes \<Rightarrow> nat \<Rightarrow> u32" where
  "block_word block index =
     push_bit 24 (ucast (block ! (index * 4))) OR push_bit 16 (ucast (block ! (index * 4 + 1)))
     OR push_bit 8 (ucast (block ! (index * 4 + 2))) OR ucast (block ! (index * 4 + 3))"

definition schedule_step :: "u32 list \<Rightarrow> nat \<Rightarrow> u32 list" where
  "schedule_step schedule index =
     (let w15 = schedule ! (index - 15); w2 = schedule ! (index - 2);
          s0 = RotateRight w15 7 XOR RotateRight w15 18 XOR drop_bit 3 w15;
          s1 = RotateRight w2 17 XOR RotateRight w2 19 XOR drop_bit 10 w2
      in schedule @ [schedule ! (index - 16) + s0 + schedule ! (index - 7) + s1])"

definition sha_schedule :: "bytes \<Rightarrow> u32 list" where
  "sha_schedule block = foldl schedule_step (map (block_word block) [0..<16]) [16..<64]"

text \<open>One round on the eight working variables \<open>a\<close> to \<open>h\<close>.\<close>

type_synonym sha_vars = "u32 \<times> u32 \<times> u32 \<times> u32 \<times> u32 \<times> u32 \<times> u32 \<times> u32"

definition sha_round :: "u32 list \<Rightarrow> sha_vars \<Rightarrow> nat \<Rightarrow> sha_vars" where
  "sha_round schedule vars index =
     (case vars of (a, b, c, d, e, f, g, h) \<Rightarrow>
       let s1 = RotateRight e 6 XOR RotateRight e 11 XOR RotateRight e 25;
           choose1 = (e AND f) XOR (NOT e AND g);
           temp1 = h + s1 + choose1 + kRoundConstants ! index + schedule ! index;
           s0 = RotateRight a 2 XOR RotateRight a 13 XOR RotateRight a 22;
           majority = (a AND b) XOR (a AND c) XOR (b AND c);
           temp2 = s0 + majority
       in (temp1 + temp2, a, b, c, d + temp1, e, f, g))"

definition sha_compress :: "u32 list \<Rightarrow> bytes \<Rightarrow> u32 list" where
  "sha_compress st block =
     (case foldl (sha_round (sha_schedule block))
        (st ! 0, st ! 1, st ! 2, st ! 3, st ! 4, st ! 5, st ! 6, st ! 7) [0..<64]
      of (a, b, c, d, e, f, g, h) \<Rightarrow>
        [st ! 0 + a, st ! 1 + b, st ! 2 + c, st ! 3 + d,
         st ! 4 + e, st ! 5 + f, st ! 6 + g, st ! 7 + h])"

definition Sha256_Transform :: "sha256 \<Rightarrow> sha256" where
  "Sha256_Transform hs = hs\<lparr>sh_state := sha_compress (sh_state hs) (sh_buffer hs)\<rparr>"

text \<open>
  The copying loop of \<open>Update\<close>, on the data from \<open>offset\<close> on. The buffer is the array of 64
  bytes; \<open>sh_buffered\<close> never exceeds its size (\<open>sha_absorb_wf\<close>), and the loop is stated to stop
  outside that range.
\<close>

definition sha_space_take :: "sha256 \<Rightarrow> nat \<Rightarrow> nat" where
  "sha_space_take hs remaining =
     (let space = 64 - sh_buffered hs in if remaining < space then remaining else space)"

definition sha_copy :: "sha256 \<Rightarrow> bytes \<Rightarrow> sha256" where
  "sha_copy hs chunk =
     (let hs1 = hs\<lparr>sh_buffer := take (sh_buffered hs) (sh_buffer hs) @ chunk
                     @ drop (sh_buffered hs + length chunk) (sh_buffer hs),
                   sh_buffered := sh_buffered hs + length chunk\<rparr>
      in if sh_buffered hs1 = 64 then (Sha256_Transform hs1)\<lparr>sh_buffered := 0\<rparr> else hs1)"

lemma sh_buffered_copy:
  "sh_buffered (sha_copy hs chunk) =
     (if sh_buffered hs + length chunk = 64 then 0 else sh_buffered hs + length chunk)"
  by (simp add: sha_copy_def Let_def)

function sha_absorb :: "sha256 \<Rightarrow> bytes \<Rightarrow> sha256" where
  "sha_absorb hs data =
     (if data = [] \<or> 64 < sh_buffered hs then hs
      else sha_absorb (sha_copy hs (take (sha_space_take hs (length data)) data))
             (drop (sha_space_take hs (length data)) data))"
  by pat_completeness auto
termination
proof (relation "measure (\<lambda>(hs, data). 2 * length data + (if sh_buffered hs = 64 then 1 else 0))")
  fix hs :: sha256 and data :: bytes
  assume "\<not> (data = [] \<or> 64 < sh_buffered hs)"
  then have "data \<noteq> []" and "sh_buffered hs \<le> 64" by auto
  then show "((sha_copy hs (take (sha_space_take hs (length data)) data),
               drop (sha_space_take hs (length data)) data), hs, data)
      \<in> measure (\<lambda>(hs, data). 2 * length data + (if sh_buffered hs = 64 then 1 else 0))"
    by (cases "sh_buffered hs = 64")
      (auto simp: sh_buffered_copy sha_space_take_def Let_def diff_less_mono2)
qed simp

declare sha_absorb.simps [simp del]

definition Sha256_Update :: "sha256 \<Rightarrow> bytes \<Rightarrow> sha256" where
  "Sha256_Update hs data =
     (if sh_finished hs then hs
      else sha_absorb (hs\<lparr>sh_total_bytes := sh_total_bytes hs + word_of_nat (length data)\<rparr>) data)"

text \<open>The loop \<open>while (buffered_ != 56) Update(zero)\<close>; 64 turns are enough.\<close>

fun sha_pad_zeros :: "nat \<Rightarrow> sha256 \<Rightarrow> sha256" where
  "sha_pad_zeros 0 hs = hs"
| "sha_pad_zeros (Suc fuel) hs =
     (if sh_buffered hs \<noteq> 56 then sha_pad_zeros fuel (Sha256_Update hs [0]) else hs)"

definition be_bytes :: "nat \<Rightarrow> 'w::len word \<Rightarrow> bytes" where
  "be_bytes n v = map (\<lambda>index. ucast (drop_bit (8 * (n - 1 - index)) v AND 0xFF)) [0..<n]"

definition Sha256_Finish :: "sha256 \<Rightarrow> digest \<times> sha256" where
  "Sha256_Finish hs =
     (let hs' = (if sh_finished hs then hs
                 else let bit_length = sh_total_bytes hs * 8;
                          hs1 = Sha256_Update hs [0x80];
                          hs2 = sha_pad_zeros 64 hs1;
                          hs3 = Sha256_Update hs2 (be_bytes 8 bit_length)
                      in hs3\<lparr>sh_finished := True\<rparr>)
      in (concat (map (be_bytes 4) (sh_state hs')), hs'))"

definition ComputeDigest :: "bytes \<Rightarrow> digest" where
  "ComputeDigest data = fst (Sha256_Finish (Sha256_Update Sha256_init data))"

section \<open>CRC-32\<close>

definition Crc32Begin :: u32 where "Crc32Begin = 0xFFFFFFFF"

definition crc_bit :: "u32 \<Rightarrow> u32" where
  "crc_bit crc = drop_bit 1 crc XOR (0xEDB88320 AND (0 - (crc AND 1)))"

definition crc_byte :: "u32 \<Rightarrow> u8 \<Rightarrow> u32" where
  "crc_byte crc raw = (crc_bit ^^ 8) (crc XOR ucast raw)"

definition Crc32Extend :: "u32 \<Rightarrow> bytes \<Rightarrow> u32" where
  "Crc32Extend st data = foldl crc_byte st data"

definition Crc32Finish :: "u32 \<Rightarrow> u32" where "Crc32Finish st = st XOR 0xFFFFFFFF"

definition Crc32 :: "bytes \<Rightarrow> u32" where
  "Crc32 data = Crc32Finish (Crc32Extend Crc32Begin data)"

section \<open>Rendering\<close>

definition kHexDigits :: string where "kHexDigits = ''0123456789abcdef''"

definition HexValue :: "char \<Rightarrow> nat option" where
  "HexValue ch =
     (if CHR ''0'' \<le> ch \<and> ch \<le> CHR ''9'' then Some (of_char ch - 48)
      else if CHR ''a'' \<le> ch \<and> ch \<le> CHR ''f'' then Some (of_char ch - 97 + 10)
      else if CHR ''A'' \<le> ch \<and> ch \<le> CHR ''F'' then Some (of_char ch - 65 + 10)
      else None)"

definition RenderDigest :: "bytes \<Rightarrow> nat \<Rightarrow> string" where
  "RenderDigest bs count = concat (map (\<lambda>index.
     let v = unat (bs ! index) in [kHexDigits ! (v div 16), kHexDigits ! (v mod 16)]) [0..<count])"

definition Digest_ToString :: "digest \<Rightarrow> string" where
  "Digest_ToString d = RenderDigest d kDigestBytes"

definition Digest_ShortString :: "digest \<Rightarrow> string" where
  "Digest_ShortString d = RenderDigest d (kDigestBytes div 2)"

definition Digest_IsZero :: "digest \<Rightarrow> bool" where
  "Digest_IsZero d \<longleftrightarrow> (\<forall>v\<in>set d. v = 0)"

definition Digest_Hash :: "digest \<Rightarrow> u64" where
  "Digest_Hash d =
     foldl (\<lambda>hash index. (hash XOR ucast (d ! index)) * 1099511628211) 1469598103934665603 [0..<8]"

text \<open>The loop of \<open>Digest::Parse\<close> over the pairs of characters.\<close>

fun parse_hex_pairs :: "string \<Rightarrow> bytes outcome" where
  "parse_hex_pairs (high # low # text) =
     (case (HexValue high, HexValue low) of
        (Some h, Some l) \<Rightarrow>
          obind (parse_hex_pairs text) (\<lambda>bs. Inr (word_of_nat (h * 16 + l) # bs))
      | _ \<Rightarrow> Inl E_MalformedIdentifier)"
| "parse_hex_pairs _ = Inr []"

definition Digest_Parse :: "string \<Rightarrow> digest outcome" where
  "Digest_Parse hex =
     (if length hex \<noteq> kDigestBytes * 2 then Inl E_MalformedIdentifier else parse_hex_pairs hex)"

definition Digest_zero :: digest where "Digest_zero = replicate kDigestBytes 0"

section \<open>The one-pass reference\<close>

text \<open>The standard's definition: pad the whole message, then fold the compression function over its
  64 byte blocks.\<close>

function sha_blocks :: "u32 list \<Rightarrow> bytes \<Rightarrow> u32 list \<times> bytes" where
  "sha_blocks st m =
     (if length m < 64 then (st, m) else sha_blocks (sha_compress st (take 64 m)) (drop 64 m))"
  by pat_completeness auto
termination by (relation "measure (\<lambda>(st, m). length m)") auto

declare sha_blocks.simps [simp del]

definition sha_padding :: "nat \<Rightarrow> bytes" where
  "sha_padding n = 0x80 # replicate ((119 - n mod 64) mod 64) 0
     @ be_bytes 8 (word_of_nat n * 8 :: u64)"

definition Sha256_spec :: "bytes \<Rightarrow> digest" where
  "Sha256_spec m = concat (map (be_bytes 4)
     (fst (sha_blocks (sh_state Sha256_init) (m @ sha_padding (length m)))))"

section \<open>Streaming equals the reference\<close>

lemma sha_blocks_short: "length m < 64 \<Longrightarrow> sha_blocks st m = (st, m)"
  by (subst sha_blocks.simps) simp

lemma sha_blocks_long:
  "64 \<le> length m \<Longrightarrow> sha_blocks st m = sha_blocks (sha_compress st (take 64 m)) (drop 64 m)"
  by (subst sha_blocks.simps) simp

lemma sha_blocks_append:
  "sha_blocks st (a @ b) = (case sha_blocks st a of (st', r) \<Rightarrow> sha_blocks st' (r @ b))"
proof (induction st a rule: sha_blocks.induct)
  case (1 st m)
  show ?case
  proof (cases "length m < 64")
    case True
    then show ?thesis by (simp add: sha_blocks_short)
  next
    case False
    then show ?thesis using 1 by (simp add: sha_blocks_long [of "m @ b"] sha_blocks_long [of m])
  qed
qed

lemma sha_blocks_rest: "length (snd (sha_blocks st m)) = length m mod 64"
proof (induction st m rule: sha_blocks.induct)
  case (1 st m)
  show ?case
  proof (cases "length m < 64")
    case False
    then show ?thesis using 1 by (simp add: sha_blocks_long [of m] le_mod_geq)
  qed (simp add: sha_blocks_short)
qed

definition sha_wf :: "sha256 \<Rightarrow> bool" where
  "sha_wf hs \<longleftrightarrow> length (sh_buffer hs) = 64 \<and> sh_buffered hs < 64"

text \<open>What the hasher has consumed: the chaining value and the bytes of the open block.\<close>

definition sha_view :: "sha256 \<Rightarrow> u32 list \<times> bytes" where
  "sha_view hs = (sh_state hs, take (sh_buffered hs) (sh_buffer hs))"

lemma sha_copy_view:
  assumes "sha_wf hs" and "sh_buffered hs + length chunk \<le> 64"
  shows "sha_wf (sha_copy hs chunk) \<and>
    sha_view (sha_copy hs chunk) =
      sha_blocks (sh_state hs) (take (sh_buffered hs) (sh_buffer hs) @ chunk)"
proof (cases "sh_buffered hs + length chunk = 64")
  case True
  have "sha_blocks (sh_state hs) (take (sh_buffered hs) (sh_buffer hs) @ chunk) =
      (sha_compress (sh_state hs) (take (sh_buffered hs) (sh_buffer hs) @ chunk), [])"
    using True assms by (simp add: sha_wf_def sha_blocks_long sha_blocks_short)
  then show ?thesis using True assms
    by (simp add: sha_copy_def sha_view_def sha_wf_def Sha256_Transform_def Let_def)
next
  case False
  then show ?thesis using assms
    by (simp add: sha_copy_def sha_view_def sha_wf_def Let_def sha_blocks_short)
qed

lemma sha_absorb_frame:
  "sh_finished (sha_absorb hs data) = sh_finished hs
   \<and> sh_total_bytes (sha_absorb hs data) = sh_total_bytes hs"
proof (induction hs data rule: sha_absorb.induct)
  case (1 hs data)
  show ?case
  proof (cases "data = [] \<or> 64 < sh_buffered hs")
    case True
    then have "sha_absorb hs data = hs" by (subst sha_absorb.simps) simp
    then show ?thesis by simp
  next
    case False
    then have "sha_absorb hs data =
        sha_absorb (sha_copy hs (take (sha_space_take hs (length data)) data))
          (drop (sha_space_take hs (length data)) data)"
      by (subst sha_absorb.simps) simp
    moreover have "sh_finished (sha_copy hs c) = sh_finished hs
        \<and> sh_total_bytes (sha_copy hs c) = sh_total_bytes hs" for c
      by (simp add: sha_copy_def Sha256_Transform_def Let_def)
    ultimately show ?thesis using 1 [OF False] by simp
  qed
qed

lemma sha_absorb_view:
  "sha_wf hs \<Longrightarrow> sha_wf (sha_absorb hs data) \<and>
     sha_view (sha_absorb hs data) =
       sha_blocks (sh_state hs) (take (sh_buffered hs) (sh_buffer hs) @ data)"
proof (induction hs data rule: sha_absorb.induct)
  case (1 hs data)
  show ?case
  proof (cases "data = []")
    case True
    then show ?thesis using 1(2)
      by (subst (1 2) sha_absorb.simps) (simp add: sha_view_def sha_wf_def sha_blocks_short)
  next
    case False
    let ?n = "sha_space_take hs (length data)"
    let ?hs = "sha_copy hs (take ?n data)"
    have wf: "sha_wf hs" by (rule 1(2))
    then have c: "\<not> (data = [] \<or> 64 < sh_buffered hs)" using False by (simp add: sha_wf_def)
    then have step: "sha_absorb hs data = sha_absorb ?hs (drop ?n data)"
      by (subst sha_absorb.simps) simp
    have "sh_buffered hs + length (take ?n data) \<le> 64"
      using wf by (auto simp: sha_space_take_def Let_def sha_wf_def)
    then have v: "sha_wf ?hs" "sha_view ?hs =
        sha_blocks (sh_state hs) (take (sh_buffered hs) (sh_buffer hs) @ take ?n data)"
      using sha_copy_view [OF wf] by blast+
    have "sha_blocks (sh_state hs) (take (sh_buffered hs) (sh_buffer hs) @ data) =
        (case sha_view ?hs of (st', r) \<Rightarrow> sha_blocks st' (r @ drop ?n data))"
      unfolding v(2) sha_blocks_append [symmetric] by simp
    also have "\<dots> = sha_view (sha_absorb ?hs (drop ?n data))"
      using 1(1) [OF c v(1)] by (simp add: sha_view_def)
    finally show ?thesis using 1(1) [OF c v(1)] step by simp
  qed
qed

text \<open>The invariant of an open hasher that has been given the message \<open>m\<close>.\<close>

definition sha_open :: "sha256 \<Rightarrow> bytes \<Rightarrow> bool" where
  "sha_open hs m \<longleftrightarrow> sha_wf hs \<and> \<not> sh_finished hs
     \<and> sha_view hs = sha_blocks (sh_state Sha256_init) m
     \<and> sh_total_bytes hs = word_of_nat (length m)"

lemma sha_open_init: "sha_open Sha256_init []"
  by (simp add: sha_open_def sha_wf_def sha_view_def Sha256_init_def sha_blocks_short)

lemma sha_open_Update:
  assumes o: "sha_open hs m"
  shows "sha_open (Sha256_Update hs data) (m @ data)"
proof -
  let ?hs = "hs\<lparr>sh_total_bytes := sh_total_bytes hs + word_of_nat (length data)\<rparr>"
  have wf: "sha_wf ?hs" using o by (simp add: sha_open_def sha_wf_def)
  have v: "sha_blocks (sh_state Sha256_init) m
      = (sh_state hs, take (sh_buffered hs) (sh_buffer hs))"
    using o by (simp only: sha_open_def sha_view_def)
  have "sha_blocks (sh_state Sha256_init) (m @ data)
      = sha_blocks (sh_state hs) (take (sh_buffered hs) (sh_buffer hs) @ data)"
    by (subst sha_blocks_append) (simp only: v prod.case)
  moreover have "Sha256_Update hs data = sha_absorb ?hs data"
    using o by (simp add: sha_open_def Sha256_Update_def)
  moreover have "sh_total_bytes ?hs = word_of_nat (length (m @ data))" "\<not> sh_finished ?hs"
    using o by (simp_all add: sha_open_def)
  ultimately show ?thesis
    using sha_absorb_view [OF wf, of data] sha_absorb_frame [of ?hs data]
    unfolding sha_open_def by simp
qed

lemma sha_open_buffered: "sha_open hs m \<Longrightarrow> sh_buffered hs = length m mod 64"
proof -
  assume o: "sha_open hs m"
  then have "sha_wf hs" by (simp only: sha_open_def)
  then have "sh_buffered hs = length (snd (sha_view hs))"
    by (simp add: sha_view_def sha_wf_def)
  also have "\<dots> = length m mod 64"
    using o sha_blocks_rest [of "sh_state Sha256_init" m] by (simp only: sha_open_def)
  finally show ?thesis .
qed

lemma sha_pad_zeros_open:
  "sha_open hs m \<Longrightarrow> k \<le> fuel \<Longrightarrow> (length m + k) mod 64 = 56 \<Longrightarrow>
     (\<forall>j<k. (length m + j) mod 64 \<noteq> 56) \<Longrightarrow>
     sha_open (sha_pad_zeros fuel hs) (m @ replicate k 0)"
proof (induction fuel arbitrary: hs m k)
  case 0
  then show ?case by simp
next
  case (Suc fuel)
  note b = sha_open_buffered [OF Suc.prems(1)]
  show ?case
  proof (cases k)
    case 0
    then show ?thesis using Suc.prems b by simp
  next
    case (Suc k')
    then have ne: "sh_buffered hs \<noteq> 56" using Suc.prems(4) b by fastforce
    have "sha_open (Sha256_Update hs [0]) (m @ [0])"
      by (rule sha_open_Update [OF Suc.prems(1)])
    then have "sha_open (sha_pad_zeros fuel (Sha256_Update hs [0])) ((m @ [0]) @ replicate k' 0)"
    proof (rule Suc.IH)
      show "k' \<le> fuel" using Suc Suc.prems(2) by simp
      show "(length (m @ [0]) + k') mod 64 = 56" using Suc Suc.prems(3) by simp
      show "\<forall>j<k'. (length (m @ [0]) + j) mod 64 \<noteq> 56"
      proof (intro allI impI)
        fix j assume "j < k'"
        then have "(length m + Suc j) mod 64 \<noteq> 56" using Suc Suc.prems(4) by blast
        then show "(length (m @ [0]) + j) mod 64 \<noteq> 56" by simp
      qed
    qed
    then show ?thesis using ne Suc by simp
  qed
qed

text \<open>The number of zero bytes after a message and its first padding byte.\<close>

lemma sha_padding_length:
  fixes n :: nat
  defines "k \<equiv> (119 - n mod 64) mod 64"
  shows "k \<le> 64 \<and> (n + 1 + k) mod 64 = 56 \<and> (\<forall>j<k. (n + 1 + j) mod 64 \<noteq> 56)"
proof -
  define r where "r = n mod 64"
  have r: "r < 64" by (simp add: r_def)
  have red: "(n + 1 + j) mod 64 = (r + 1 + j) mod 64" for j
    unfolding r_def by (metis add.assoc mod_add_left_eq)
  show ?thesis
  proof (cases "r \<le> 55")
    case True
    have "119 - r = 64 + (55 - r)" using True by simp
    then have k: "k = 55 - r" unfolding k_def r_def [symmetric] by (simp only: mod_add_self1) simp
    show ?thesis unfolding red k using True by auto
  next
    case False
    have k: "k = 119 - r" unfolding k_def r_def [symmetric] using False r by simp
    have "(r + 1 + j) mod 64 \<noteq> 56" if "j < k" for j
    proof (cases "r + 1 + j < 64")
      case False2: False
      then have "(r + 1 + j) mod 64 = r + 1 + j - 64"
        using that k by (subst le_mod_geq) auto
      then show ?thesis using that k False by simp
    qed (use False in simp)
    then show ?thesis unfolding red using k False r by auto
  qed
qed

lemma Sha256_Finish_open:
  assumes o: "sha_open hs m"
  shows "fst (Sha256_Finish hs) = Sha256_spec m"
proof -
  let ?k = "(119 - length m mod 64) mod 64"
  let ?pad = "sha_pad_zeros 64 (Sha256_Update hs [0x80])"
  have "sha_open (Sha256_Update hs [0x80]) (m @ [0x80])"
    by (rule sha_open_Update [OF o])
  then have "sha_open ?pad ((m @ [0x80]) @ replicate ?k 0)"
    by (rule sha_pad_zeros_open) (use sha_padding_length [of "length m"] in simp_all)
  then have "sha_open (Sha256_Update ?pad (be_bytes 8 (word_of_nat (length m) * 8 :: u64)))
       (((m @ [0x80]) @ replicate ?k 0) @ be_bytes 8 (word_of_nat (length m) * 8 :: u64))"
    by (rule sha_open_Update)
  moreover have "sh_total_bytes hs = word_of_nat (length m)" and nf: "\<not> sh_finished hs"
    using o by (simp_all add: sha_open_def)
  ultimately have "sha_open (Sha256_Update ?pad (be_bytes 8 (sh_total_bytes hs * 8)))
       (m @ sha_padding (length m))" (is "sha_open ?hs _")
    by (simp add: sha_padding_def)
  then have "sha_view ?hs = sha_blocks (sh_state Sha256_init) (m @ sha_padding (length m))"
    by (simp add: sha_open_def)
  then have "sh_state ?hs = fst (sha_blocks (sh_state Sha256_init) (m @ sha_padding (length m)))"
    by (metis fst_conv sha_view_def)
  with nf show ?thesis by (simp add: Sha256_Finish_def Let_def Sha256_spec_def)
qed

lemma ComputeDigest_spec: "ComputeDigest m = Sha256_spec m"
  using Sha256_Finish_open [OF sha_open_Update [OF sha_open_init]] by (simp add: ComputeDigest_def)

lemma sha_open_chunks:
  "sha_open hs m \<Longrightarrow> sha_open (foldl Sha256_Update hs chunks) (m @ concat chunks)"
proof (induction chunks arbitrary: hs m)
  case (Cons c chunks)
  then show ?case using Cons.IH [OF sha_open_Update [OF Cons.prems]] by simp
qed simp

lemma length_sha_compress [simp]: "length (sha_compress st block) = 8"
  by (simp add: sha_compress_def split: prod.split)

lemma length_sha_blocks: "length st = 8 \<Longrightarrow> length (fst (sha_blocks st m)) = 8"
proof (induction st m rule: sha_blocks.induct)
  case (1 st m)
  then show ?case by (cases "length m < 64") (simp_all add: sha_blocks_short sha_blocks_long [of m])
qed

lemma length_be_bytes [simp]: "length (be_bytes n v) = n"
  by (simp add: be_bytes_def)

lemma length_ComputeDigest [simp]: "length (ComputeDigest m) = kDigestBytes"
proof -
  have "length (concat (map (be_bytes 4) (ws :: u32 list))) = 4 * length ws" for ws
    by (induction ws) simp_all
  moreover have "length (sh_state Sha256_init) = 8" by (simp add: Sha256_init_def)
  ultimately show ?thesis by (simp add: ComputeDigest_spec Sha256_spec_def length_sha_blocks)
qed

section \<open>The CRC as a linear map\<close>

lemma crc_bit_alt: "crc_bit crc = drop_bit 1 crc XOR (if bit crc 0 then 0xEDB88320 else 0)"
proof -
  have "crc AND 1 = of_bool (bit crc 0)" by (simp only: and_one_eq mod_2_eq_odd bit_0)
  then have "0 - (crc AND 1) = (if bit crc 0 then - 1 else 0)" by simp
  then show ?thesis unfolding crc_bit_def
    by (simp only: if_distrib [of "\<lambda>m. 0xEDB88320 AND m"] and.right_neutral bit.conj_zero_right)
qed

lemma xor_zero_iff: "x XOR y = 0 \<longleftrightarrow> x = (y :: 'w::len word)"
  by (metis xor.assoc xor.right_neutral xor_self_eq)

lemma xor_cancel_right: "x XOR c = y XOR c \<longleftrightarrow> x = (y :: 'w::len word)"
  by (metis xor.assoc xor.right_neutral xor_self_eq)

lemma xor_cancel_left: "c XOR x = c XOR y \<longleftrightarrow> x = (y :: 'w::len word)"
  by (metis xor.commute xor_cancel_right)

lemma crc_bit_xor: "crc_bit (x XOR y) = crc_bit x XOR crc_bit y"
proof -
  have "drop_bit 1 (x XOR y) = drop_bit 1 x XOR drop_bit 1 y"
    by (rule drop_bit_xor)
  then show ?thesis
    by (simp add: crc_bit_alt bit_xor_iff ac_simps xor.assoc xor.left_commute)
qed

lemma crc_bits_xor: "(crc_bit ^^ n) (x XOR y) = (crc_bit ^^ n) x XOR (crc_bit ^^ n) y"
  by (induction n) (simp_all add: crc_bit_xor)

lemma crc_bit_zero: "crc_bit x = 0 \<Longrightarrow> x = 0"
proof (cases "bit x 0")
  case True
  have "bit (0xEDB88320 :: u32) 31" by (simp add: bit_numeral_word_iff)
  moreover have "\<not> bit (drop_bit 1 x) 31"
    using bit_imp_le_length [of x 32] by (auto simp: bit_drop_bit_eq)
  ultimately have "bit (crc_bit x) 31" using True by (simp add: crc_bit_alt bit_xor_iff)
  moreover assume "crc_bit x = 0"
  ultimately show ?thesis by simp
next
  case False
  assume "crc_bit x = 0"
  with False have d: "drop_bit 1 x = 0" by (simp add: crc_bit_alt)
  show ?thesis
  proof (rule bit_word_eqI)
    fix k
    show "bit x k = bit 0 k"
    proof (cases k)
      case (Suc j)
      then have "bit x k = bit (drop_bit 1 x) j" by (simp add: bit_drop_bit_eq)
      then show ?thesis using d by simp
    qed (use False in simp)
  qed
qed

lemma crc_bits_zero: "(crc_bit ^^ n) x = 0 \<Longrightarrow> x = 0"
  by (induction n) (auto dest: crc_bit_zero)

lemma crc_bits_inject: "(crc_bit ^^ n) x = (crc_bit ^^ n) y \<longleftrightarrow> x = y"
  using crc_bits_zero [of n "x XOR y"] by (auto simp: crc_bits_xor xor_zero_iff)

lemma crc_bits_shift: "\<forall>i<n. \<not> bit x i \<Longrightarrow> (crc_bit ^^ n) x = drop_bit n x"
proof (induction n)
  case (Suc n)
  then have "(crc_bit ^^ Suc n) x = crc_bit (drop_bit n x)" by simp
  also have "\<dots> = drop_bit 1 (drop_bit n x)"
    using Suc.prems by (simp add: crc_bit_alt bit_drop_bit_eq)
  finally show ?case by (simp add: ac_simps)
qed simp

lemma Crc32Extend_append: "Crc32Extend st (a @ b) = Crc32Extend (Crc32Extend st a) b"
  by (simp add: Crc32Extend_def)

lemma Crc32Extend_inject: "Crc32Extend st data = Crc32Extend st' data \<longleftrightarrow> st = st'"
proof (induction data arbitrary: st st')
  case (Cons b data)
  have "crc_byte st b = crc_byte st' b \<longleftrightarrow> st = st'"
    by (simp only: crc_byte_def crc_bits_inject xor_cancel_right)
  then show ?case using Cons by (simp add: Crc32Extend_def)
qed (simp add: Crc32Extend_def)

lemma bit_push_byte:
  assumes "k < LENGTH(32)"
  shows "bit (push_bit (8 * n) (ucast (b :: u8)) :: u32) k \<longleftrightarrow> k div 8 = n \<and> bit b (k mod 8)"
proof -
  have "n < Suc n" by simp
  have "k div 8 = n \<longleftrightarrow> 8 * n \<le> k \<and> k - 8 * n < 8"
    using div_nat_eqI [of 8 n k] by auto
  moreover have "k - 8 * (k div 8) = k mod 8" by (simp add: minus_mult_div_eq_mod)
  moreover have "bit b (k - 8 * n) \<Longrightarrow> k - 8 * n < 8" using bit_imp_le_length [of b] by simp
  moreover have "possible_bit TYPE(u32) k" "possible_bit TYPE(u32) (k - 8 * n)"
    using assms by simp_all
  ultimately show ?thesis unfolding bit_push_bit_iff bit_unsigned_iff by metis
qed

lemma le_value_snoc:
  assumes "length bs = n"
  shows "(le_value (Suc n) (bs @ [b]) :: u32) = le_value n bs XOR push_bit (8 * n) (ucast b)"
proof (rule bit_word_eqI)
  fix k assume k: "k < LENGTH(32)"
  have d: "k div 8 < Suc n \<longleftrightarrow> k div 8 < n \<or> k div 8 = n" by linarith
  have p: "bit (push_bit (8 * n) (ucast b) :: u32) k \<longleftrightarrow> k div 8 = n \<and> bit b (k mod 8)"
    by (rule bit_push_byte [OF k])
  show "bit (le_value (Suc n) (bs @ [b]) :: u32) k
      = bit (le_value n bs XOR push_bit (8 * n) (ucast b) :: u32) k"
    unfolding bit_xor_iff p bit_le_value d using assms k by (auto simp: nth_append)
qed

lemma Crc32Extend_word:
  "length bs \<le> 4 \<Longrightarrow> Crc32Extend st bs = (crc_bit ^^ (8 * length bs)) (st XOR le_value (length bs) bs)"
proof (induction bs rule: rev_induct)
  case Nil
  then show ?case by (simp add: Crc32Extend_def le_value_def)
next
  case (snoc b bs)
  let ?n = "8 * length bs"
  let ?b = "push_bit ?n (ucast b) :: u32"
  have n: "?n + 8 \<le> 32" using snoc.prems by simp
  have "(crc_bit ^^ ?n) ?b = drop_bit ?n ?b"
    by (rule crc_bits_shift) (simp add: bit_push_bit_iff)
  also have "\<dots> = ucast b"
  proof (rule bit_word_eqI)
    fix k assume "k < LENGTH(32)"
    show "bit (drop_bit ?n ?b) k = bit (ucast b :: u32) k"
      using n by (auto simp: bit_drop_bit_eq bit_push_bit_iff bit_unsigned_iff
          dest: bit_imp_le_length)
  qed
  finally have b: "(crc_bit ^^ ?n) ?b = ucast b" .
  have "Crc32Extend st (bs @ [b]) = (crc_bit ^^ 8) (Crc32Extend st bs XOR ucast b)"
    by (simp add: Crc32Extend_def crc_byte_def)
  also have "\<dots> = (crc_bit ^^ 8) ((crc_bit ^^ ?n) ((st XOR le_value (length bs) bs) XOR ?b))"
    using snoc by (simp only: crc_bits_xor [of ?n] b) simp
  also have "\<dots> = (crc_bit ^^ (8 + ?n)) (st XOR (le_value (length bs) bs XOR ?b))"
    by (simp only: funpow_add comp_apply xor.assoc)
  finally show ?case by (simp add: le_value_snoc algebra_simps)
qed

lemma Crc32_burst:
  assumes len: "length a = length b" "length a \<le> 4"
    and crc: "Crc32 (p @ a @ s) = Crc32 (p @ b @ s)"
  shows "a = b"
proof -
  have w: "Crc32Extend st b = (crc_bit ^^ (8 * length a)) (st XOR le_value (length a) b)" for st
    using Crc32Extend_word [of b st] len by simp
  have "Crc32Extend (Crc32Extend Crc32Begin p) a = Crc32Extend (Crc32Extend Crc32Begin p) b"
    using crc
    by (simp only: Crc32_def Crc32Finish_def Crc32Extend_append Crc32Extend_inject xor_cancel_right)
  then have v: "(le_value (length a) a :: u32) = le_value (length a) b"
    unfolding Crc32Extend_word [OF len(2)] w crc_bits_inject xor_cancel_left .
  show ?thesis
  proof (rule nth_equalityI [OF len(1)], rule bit_word_eqI)
    fix i j assume i: "i < length a" and j: "j < LENGTH(8)"
    from j have j: "j < 8" by simp
    then have k: "(8 * i + j) div 8 = i" "(8 * i + j) mod 8 = j" by simp_all
    have "8 * i + j < 8 * 4" using i j len(2) by linarith
    then have l: "8 * i + j < LENGTH(32)" by simp
    have "bit (le_value (length a) a :: u32) (8 * i + j) = bit (le_value (length a) b :: u32) (8 * i + j)"
      by (simp only: v)
    then show "bit (a ! i) j = bit (b ! i) j"
      unfolding bit_le_value k using i l by blast
  qed
qed

section \<open>Hexadecimal text\<close>

definition hex_pair :: "u8 \<Rightarrow> string" where
  "hex_pair b = [kHexDigits ! (unat b div 16), kHexDigits ! (unat b mod 16)]"

lemma RenderDigest_map: "n \<le> length bs \<Longrightarrow> RenderDigest bs n = concat (map hex_pair (take n bs))"
  by (induction n) (simp_all add: RenderDigest_def hex_pair_def Let_def take_Suc_conv_app_nth)

lemma HexValue_kHexDigits:
  "\<forall>v\<in>set [0..<16]. HexValue (kHexDigits ! v) = Some v"
  by code_simp

lemma HexValue_digit: "v < 16 \<Longrightarrow> HexValue (kHexDigits ! v) = Some v"
  using HexValue_kHexDigits by simp

lemma parse_hex_pairs_render: "parse_hex_pairs (concat (map hex_pair bs)) = Inr bs"
proof (induction bs)
  case (Cons b bs)
  have b: "unat b < 256" by (rule unat_u8_less)
  have "HexValue (kHexDigits ! (unat b div 16)) = Some (unat b div 16)"
    by (rule HexValue_digit) (use b in simp)
  moreover have "HexValue (kHexDigits ! (unat b mod 16)) = Some (unat b mod 16)"
    by (rule HexValue_digit) simp
  moreover have "word_of_nat (unat b div 16 * 16 + unat b mod 16) = b"
    unfolding div_mult_mod_eq by simp
  ultimately show ?case using Cons by (simp add: hex_pair_def)
qed simp

lemma length_parse_hex_pairs: "parse_hex_pairs t = Inr d \<Longrightarrow> length d = length t div 2"
  by (induction t arbitrary: d rule: parse_hex_pairs.induct)
    (auto split: option.splits simp: obind_Inr_iff)

lemma Digest_Parse_ToString: "length d = kDigestBytes \<Longrightarrow> Digest_Parse (Digest_ToString d) = Inr d"
proof -
  assume len: "length d = kDigestBytes"
  then have r: "Digest_ToString d = concat (map hex_pair d)"
    by (simp add: Digest_ToString_def RenderDigest_map)
  have "length (concat (map hex_pair bs)) = 2 * length bs" for bs
    by (induction bs) (simp_all add: hex_pair_def)
  then show ?thesis using len by (simp add: Digest_Parse_def r parse_hex_pairs_render)
qed

section \<open>Properties\<close>

text \<open>C19. Streaming SHA-256 is the standard's one-pass function: feeding a message in any sequence
  of updates and finishing gives the digest obtained by padding the concatenation and folding
  the compression function over its 64 byte blocks.\<close>

theorem Sha256_streaming:
  "fst (Sha256_Finish (foldl Sha256_Update Sha256_init chunks)) = Sha256_spec (concat chunks)"
  using Sha256_Finish_open [OF sha_open_chunks [OF sha_open_init]] by simp

text \<open>The frame and store checksum detects every corruption confined to four consecutive
  bytes: two byte strings of equal length that agree outside such a window and differ in it have
  different CRC-32 values.\<close>

theorem Crc32_detects_burst:
  assumes "length a = length b" and "length a \<le> 4" and "a \<noteq> b"
  shows "Crc32 (p @ a @ s) \<noteq> Crc32 (p @ b @ s)"
  using Crc32_burst [OF assms(1,2)] assms(3) by blast

lemma Crc32_detects_burst_witness: "Crc32 ([7, 9] @ [1, 2] @ [5]) \<noteq> Crc32 ([7, 9] @ [1, 3] @ [5])"
  by (rule Crc32_detects_burst) simp_all

text \<open>Digest text: a digest is read back from its 64 character rendering, and every text the
  parser accepts yields a digest of exactly 32 bytes.\<close>

theorem Digest_roundtrip:
  "(length d = kDigestBytes \<longrightarrow> Digest_Parse (Digest_ToString d) = Inr d)
   \<and> (Digest_Parse t = Inr e \<longrightarrow> length e = kDigestBytes)"
proof (intro conjI impI)
  assume "Digest_Parse t = Inr e"
  then show "length e = kDigestBytes"
    using length_parse_hex_pairs [of t e] by (simp add: Digest_Parse_def split: if_splits)
qed (rule Digest_Parse_ToString)

lemma Digest_roundtrip_witness:
  "Digest_Parse (Digest_ToString (replicate 32 0xAB)) = Inr (replicate 32 0xAB)"
  using Digest_roundtrip [of "replicate 32 0xAB"] by simp

end
