(* ===== verification/EnumDomains.thy ===== *)
theory EnumDomains
  imports Digests
begin

text \<open>
  The enumeration domains of \<open>schema.hpp\<close>, \<open>schema.cpp\<close>: the built-in table and its lookups. A
  code of an enumeration value has a meaning only inside a declared domain.
\<close>

record enum_domain_descriptor =
  ed_id :: token
  ed_description :: string
  ed_codes :: "(u32 \<times> string) list"

definition CanonicalDomainId :: "string \<Rightarrow> token" where
  "CanonicalDomainId text = (case EnumDomainId_Parse text of Inr d \<Rightarrow> d | Inl _ \<Rightarrow> [])"

definition AddDomain :: "string \<Rightarrow> string \<Rightarrow> (u32 \<times> string) list \<Rightarrow> enum_domain_descriptor" where
  "AddDomain ident description codes =
     \<lparr>ed_id = CanonicalDomainId ident, ed_description = description, ed_codes = codes\<rparr>"

definition MakeEnumDomains :: "enum_domain_descriptor list" where
  "MakeEnumDomains =
     [AddDomain ''fabric.port.fec_mode''
        ''forward error correction modes of a port''
        [(0, ''none''), (1, ''rs''), (2, ''base-r''), (3, ''rs-544''), (4, ''rs-108''), (5,
         ''interleaved-rs'')],
      AddDomain ''fabric.port.media_type''
        ''physical media classes of a port''
        [(0, ''copper''), (1, ''fiber''), (2, ''dac''), (3, ''aoc''), (4, ''backplane''), (5,
         ''virtual''), (6, ''wireless'')],
      AddDomain ''fabric.optics.transceiver_type''
        ''transceiver form factors''
        [(0, ''sfp''), (1, ''sfp28''), (2, ''sfp-dd''), (3, ''qsfp''), (4, ''qsfp28''), (5,
         ''qsfp56''), (6, ''qsfp-dd''), (7, ''osfp'')],
      AddDomain ''fabric.optics.modulation''
        ''optical modulation formats''
        [(0, ''nrz''), (1, ''pam4'')],
      AddDomain ''fabric.optics.connector_type''
        ''physical connector types''
        [(0, ''lc''), (1, ''sc''), (2, ''mpo''), (3, ''rj45''), (4, ''dac-plug'')],
      AddDomain ''fabric.optics.fec_mode''
        ''optical forward error correction modes''
        [(0, ''none''), (1, ''rs''), (2, ''base-r'')],
      AddDomain ''fabric.optics.dom_measurement''
        ''digital optical monitoring measurements''
        [(0, ''temperature''), (1, ''supply-voltage''), (2, ''tx-bias''), (3, ''tx-power''),
         (4, ''rx-power''), (5, ''laser-temperature'')],
      AddDomain ''fabric.queue.scheduler_class''
        ''queue scheduler classes''
        [(0, ''strict-priority''), (1, ''weighted-round-robin''), (2, ''deficit-round-robin''),
         (3, ''weighted-fair-queueing''), (4, ''hierarchical'')],
      AddDomain ''fabric.buffer.threshold_mechanism''
        ''buffer threshold mechanisms''
        [(0, ''static''), (1, ''dynamic''), (2, ''alpha-based''), (3, ''per-port-shared''), (4,
         ''headroom''), (5, ''wred'')],
      AddDomain ''fabric.telemetry.family''
        ''telemetry families a device can expose''
        [(0, ''port-counters''), (1, ''queue-counters''), (2, ''ecn-counters''), (3, ''pfc-
         counters''), (4, ''loss-counters''), (5, ''buffer-occupancy''), (6, ''latency''), (7,
         ''flow-telemetry''), (8, ''optical-diagnostics''), (9, ''transceiver-metrics''), (10,
         ''programmable-export'')],
      AddDomain ''fabric.offload.programmable_class''
        ''programmable offload classes''
        [(0, ''packet-parsing''), (1, ''match-action''), (2, ''metering''), (3, ''stateful-
         processing''), (4, ''inline-tls''), (5, ''load-balancing'')],
      AddDomain ''fabric.offload.virtualization_class''
        ''virtualization offload classes''
        [(0, ''virtio''), (1, ''sriov''), (2, ''representor''), (3, ''vxlan-offload''), (4,
         ''geneve-offload''), (5, ''connection-tracking'')],
      AddDomain ''fabric.offload.tunnel_class''
        ''tunnel offload classes''
        [(0, ''vxlan''), (1, ''geneve''), (2, ''gre''), (3, ''ip-in-ip''), (4, ''mpls-over-
         udp'')],
      AddDomain ''fabric.rdma.transport''
        ''RDMA transport families''
        [(0, ''roce-v1''), (1, ''roce-v2''), (2, ''infiniband''), (3, ''iwarp'')],
      AddDomain ''fabric.congestion.ecn_mode''
        ''explicit congestion notification modes''
        [(0, ''ect0''), (1, ''ect1''), (2, ''ce-marking''), (3, ''dctcp''), (4, ''l4s'')],
      AddDomain ''fabric.qos.trust_mode''
        ''QoS trust modes''
        [(0, ''untrusted''), (1, ''cos''), (2, ''dscp''), (3, ''port'')],
      AddDomain ''fabric.tunneling.encapsulation''
        ''tunnel encapsulations''
        [(0, ''vxlan''), (1, ''geneve''), (2, ''gre''), (3, ''ip-in-ip''), (4, ''mpls''), (5,
         ''srv6'')],
      AddDomain ''fabric.virtualization.isolation_feature''
        ''tenant isolation features''
        [(0, ''vlan-isolation''), (1, ''vrf-isolation''), (2, ''namespace-isolation''), (3,
         ''pci-function-isolation''), (4, ''rate-isolation'')],
      AddDomain ''fabric.timestamping.clock_source''
        ''timestamping clock sources''
        [(0, ''local-free-running''), (1, ''ptp''), (2, ''ntp''), (3, ''gps''), (4, ''gnss''),
         (5, ''atomic''), (6, ''syncE'')],
      AddDomain ''fabric.timestamping.precision_class''
        ''timestamp precision classes''
        [(0, ''sub-microsecond''), (1, ''sub-100ns''), (2, ''sub-10ns''), (3, ''sub-ns'')],
      AddDomain ''fabric.timestamping.ptp_profile''
        ''PTP profiles''
        [(0, ''default''), (1, ''telecom-g8275-1''), (2, ''power-c37-238''), (3,
         ''enterprise''), (4, ''smpte'')],
      AddDomain ''fabric.compatibility.class''
        ''capability compatibility classes''
        [(0, ''fabric-os-1''), (1, ''generic-ethernet''), (2, ''rdma-capable''), (3,
         ''programmable-datapath''), (4, ''optical-facing'')]]"

definition BuiltinEnumDomains :: "enum_domain_descriptor list" where
  "BuiltinEnumDomains = MakeEnumDomains"

definition FindEnumDomain :: "token \<Rightarrow> enum_domain_descriptor outcome" where
  "FindEnumDomain domain =
     (case find (\<lambda>entry. ed_id entry = domain) BuiltinEnumDomains of
        Some entry \<Rightarrow> Inr entry | None \<Rightarrow> Inl E_UnknownEnumDomain)"

definition EnumDomainDeclares :: "token \<Rightarrow> u32 \<Rightarrow> bool" where
  "EnumDomainDeclares domain code =
     (case FindEnumDomain domain of
        Inl _ \<Rightarrow> False | Inr found \<Rightarrow> list_ex (\<lambda>entry. fst entry = code) (ed_codes found))"

definition EnumCodeText :: "token \<Rightarrow> u32 \<Rightarrow> string" where
  "EnumCodeText domain code =
     (let fallback = domain @ ''#'' @ nat_text (unat code)
      in case FindEnumDomain domain of
        Inl _ \<Rightarrow> fallback
      | Inr found \<Rightarrow> (case find (\<lambda>entry. fst entry = code) (ed_codes found) of
            Some entry \<Rightarrow> snd entry | None \<Rightarrow> fallback))"

end
