(* ===== verification/Values.thy ===== *)
theory Values
  imports EnumDomains "HOL-Library.Product_Lexorder"
begin

text \<open>
  The typed value model of \<open>value.hpp\<close>, \<open>value.cpp\<close>: units, protocols, versions, scalars, tuples
  and capability values, the factories that build canonical values, the validation of the
  canonical form, equality and rendering. A signed 64 bit integer is an \<open>int\<close> (its range is
  \<open>i64_ok\<close>); a version is the list of its \<open>count_\<close> components; the order of scalars is the
  lexicographic order of kind and payload, so tuples are compared by the order of lists.
\<close>

section \<open>Bounds\<close>

abbreviation (input) kMaxSetCardinality :: nat where "kMaxSetCardinality \<equiv> 4096"
abbreviation (input) kMaxBitSetBits :: nat where "kMaxBitSetBits \<equiv> 4096"
abbreviation (input) kMaxTupleArity :: nat where "kMaxTupleArity \<equiv> 8"
abbreviation (input) kMaxRecordFields :: nat where "kMaxRecordFields \<equiv> 32"
abbreviation (input) kMaxTupleSetCardinality :: nat where "kMaxTupleSetCardinality \<equiv> 1024"
abbreviation (input) kMaxExtensionPayloadBytes :: nat where "kMaxExtensionPayloadBytes \<equiv> 65536"
abbreviation (input) kMaxVersionComponents :: nat where "kMaxVersionComponents \<equiv> 4"
abbreviation (input) kMaxProtocolsInSet :: nat where "kMaxProtocolsInSet \<equiv> 64"
abbreviation (input) kMaxQuantity :: u64 where "kMaxQuantity \<equiv> 4611686018427387904"
abbreviation (input) kMaxInteger :: int where "kMaxInteger \<equiv> 2305843009213693952"
abbreviation (input) kMinInteger :: int where "kMinInteger \<equiv> - 2305843009213693952"
abbreviation (input) kMaxVersionComponent :: u32 where "kMaxVersionComponent \<equiv> 1000000000"

section \<open>Units\<close>

datatype value_unit =
    U_None | U_BitsPerSecond | U_Bytes | U_BytesPerSecond | U_Count | U_Packets | U_Nanoseconds
  | U_Microseconds | U_Milliseconds | U_Percent | U_DecibelMilliwatts | U_MillidegreesCelsius
  | U_Nanometers

text \<open>Unit, name, suffix; the position of a unit in the table is its enumerator value.\<close>

definition kUnitNames :: "(value_unit \<times> string \<times> string) list" where
  "kUnitNames =
     [(U_None, ''none'', []), (U_BitsPerSecond, ''bit/s'', ''bit/s''), (U_Bytes, ''B'', ''B''),
      (U_BytesPerSecond, ''B/s'', ''B/s''), (U_Count, ''count'', ''count''),
      (U_Packets, ''packets'', ''packets''), (U_Nanoseconds, ''ns'', ''ns''),
      (U_Microseconds, ''us'', ''us''), (U_Milliseconds, ''ms'', ''ms''),
      (U_Percent, ''percent'', ''percent''), (U_DecibelMilliwatts, ''dBm'', ''dBm''),
      (U_MillidegreesCelsius, ''mC'', ''mC''), (U_Nanometers, ''nm'', ''nm'')]"

definition UnitName :: "value_unit \<Rightarrow> string" where
  "UnitName unt = (case find (\<lambda>entry. fst entry = unt) kUnitNames of
     Some (_, name, _) \<Rightarrow> name | None \<Rightarrow> ''none'')"

definition ParseUnit :: "string \<Rightarrow> value_unit outcome" where
  "ParseUnit text =
     (case find (\<lambda>(unt, name, _). unt \<noteq> U_None \<and> name = text) kUnitNames of
        Some (unt, _, _) \<Rightarrow> Inr unt | None \<Rightarrow> Inl E_UnknownEnumDomain)"

definition IsQuantityUnit :: "value_unit \<Rightarrow> bool" where
  "IsQuantityUnit unt \<longleftrightarrow> unt \<noteq> U_None"

definition RequireQuantityUnit :: "value_unit \<Rightarrow> status" where
  "RequireQuantityUnit unt =
     (if \<not> IsQuantityUnit unt then Inl E_ValueTypeMismatch else Inr ())"

section \<open>Protocols\<close>

text \<open>The code casts raw 16 bit values to \<open>ProtocolId\<close> before checking them.\<close>

type_synonym protocol_id = u16

abbreviation (input) P_Unknown :: protocol_id where "P_Unknown \<equiv> 0"
abbreviation (input) P_Ethernet :: protocol_id where "P_Ethernet \<equiv> 1"
abbreviation (input) P_Ipv4 :: protocol_id where "P_Ipv4 \<equiv> 2"
abbreviation (input) P_Ipv6 :: protocol_id where "P_Ipv6 \<equiv> 3"
abbreviation (input) P_Vlan :: protocol_id where "P_Vlan \<equiv> 4"
abbreviation (input) P_Mpls :: protocol_id where "P_Mpls \<equiv> 5"
abbreviation (input) P_Vxlan :: protocol_id where "P_Vxlan \<equiv> 6"
abbreviation (input) P_Geneve :: protocol_id where "P_Geneve \<equiv> 7"
abbreviation (input) P_Srv6 :: protocol_id where "P_Srv6 \<equiv> 8"
abbreviation (input) P_Tcp :: protocol_id where "P_Tcp \<equiv> 9"
abbreviation (input) P_Udp :: protocol_id where "P_Udp \<equiv> 10"
abbreviation (input) P_RoceV1 :: protocol_id where "P_RoceV1 \<equiv> 11"
abbreviation (input) P_RoceV2 :: protocol_id where "P_RoceV2 \<equiv> 12"
abbreviation (input) P_Iwarp :: protocol_id where "P_Iwarp \<equiv> 13"
abbreviation (input) P_InfiniBand :: protocol_id where "P_InfiniBand \<equiv> 14"
abbreviation (input) P_Ptp :: protocol_id where "P_Ptp \<equiv> 15"
abbreviation (input) P_NvmeOf :: protocol_id where "P_NvmeOf \<equiv> 16"
abbreviation (input) P_FibreChannel :: protocol_id where "P_FibreChannel \<equiv> 17"
abbreviation (input) P_Fcoe :: protocol_id where "P_Fcoe \<equiv> 18"
abbreviation (input) P_Lacp :: protocol_id where "P_Lacp \<equiv> 19"
abbreviation (input) P_LacpPdu :: protocol_id where "P_LacpPdu \<equiv> 20"
abbreviation (input) kProtocolIdMax :: u16 where "kProtocolIdMax \<equiv> 20"

definition kProtocolNames :: "(protocol_id \<times> string) list" where
  "kProtocolNames =
     [(P_Unknown, ''unknown''), (P_Ethernet, ''ethernet''), (P_Ipv4, ''ipv4''), (P_Ipv6, ''ipv6''),
      (P_Vlan, ''vlan''), (P_Mpls, ''mpls''), (P_Vxlan, ''vxlan''), (P_Geneve, ''geneve''),
      (P_Srv6, ''srv6''), (P_Tcp, ''tcp''), (P_Udp, ''udp''), (P_RoceV1, ''roce-v1''),
      (P_RoceV2, ''roce-v2''), (P_Iwarp, ''iwarp''), (P_InfiniBand, ''infiniband''),
      (P_Ptp, ''ptp''), (P_NvmeOf, ''nvme-of''), (P_FibreChannel, ''fibre-channel''),
      (P_Fcoe, ''fcoe''), (P_Lacp, ''lacp''), (P_LacpPdu, ''lacp-pdu'')]"

definition ProtocolName :: "protocol_id \<Rightarrow> string" where
  "ProtocolName protocol = (case find (\<lambda>entry. fst entry = protocol) kProtocolNames of
     Some entry \<Rightarrow> snd entry | None \<Rightarrow> ''unknown'')"

definition ParseProtocol :: "string \<Rightarrow> protocol_id outcome" where
  "ParseProtocol text =
     (case find (\<lambda>entry. fst entry \<noteq> P_Unknown \<and> snd entry = text) kProtocolNames of
        Some entry \<Rightarrow> Inr (fst entry) | None \<Rightarrow> Inl E_UnknownEnumDomain)"

section \<open>Versions\<close>

type_synonym version = "u32 list"

definition Version_Component :: "version \<Rightarrow> nat \<Rightarrow> u32" where
  "Version_Component v index = (if index < length v then v ! index else 0)"

text \<open>\<open>operator==\<close> and \<open>operator<\<close> compare all four positions, missing ones as zero.\<close>

definition version_eq :: "version \<Rightarrow> version \<Rightarrow> bool" where
  "version_eq lhs rhs \<longleftrightarrow>
     list_all (\<lambda>i. Version_Component lhs i = Version_Component rhs i) [0..<kMaxVersionComponents]"

fun version_less_from :: "nat list \<Rightarrow> version \<Rightarrow> version \<Rightarrow> bool" where
  "version_less_from [] lhs rhs = False"
| "version_less_from (i # is) lhs rhs =
     (if Version_Component lhs i \<noteq> Version_Component rhs i
      then Version_Component lhs i < Version_Component rhs i
      else version_less_from is lhs rhs)"

definition version_less :: "version \<Rightarrow> version \<Rightarrow> bool" where
  "version_less lhs rhs = version_less_from [0..<kMaxVersionComponents] lhs rhs"

text \<open>
  \<open>Version::Parse\<close> takes the parts between dots one after the other. A part has at most ten
  digits, so the 64 bit accumulator does not overflow and is a natural number here.
\<close>

fun version_digits :: "nat \<Rightarrow> string \<Rightarrow> nat outcome" where
  "version_digits val [] = Inr val"
| "version_digits val (ch # part) =
     (if ch < CHR ''0'' \<or> ch > CHR ''9'' then Inl E_MalformedValue
      else version_digits (val * 10 + (of_char ch - 48)) part)"

fun version_parts :: "version \<Rightarrow> string list \<Rightarrow> version outcome" where
  "version_parts components [] = Inr components"
| "version_parts components (part # parts) =
     (if part = [] \<or> length part > 10 then Inl E_MalformedValue
      else if length part > 1 \<and> hd part = CHR ''0'' then Inl E_MalformedValue
      else obind (version_digits 0 part) (\<lambda>val.
        if val > unat kMaxVersionComponent then Inl E_ValueOutOfRange
        else if length components \<ge> kMaxVersionComponents then Inl E_TooManyItems
        else version_parts (components @ [word_of_nat val]) parts))"

definition Version_Parse :: "string \<Rightarrow> version outcome" where
  "Version_Parse text =
     (if text = [] \<or> length text > 40 then Inl E_MalformedValue
      else version_parts [] (SplitSegments text))"

definition Version_FromComponents :: "u32 list \<Rightarrow> version outcome" where
  "Version_FromComponents components =
     (if components = [] \<or> length components > kMaxVersionComponents then Inl E_TooManyItems
      else if list_ex (\<lambda>c. c > kMaxVersionComponent) components then Inl E_ValueOutOfRange
      else Inr components)"

fun join_with :: "string \<Rightarrow> string list \<Rightarrow> string" where
  "join_with sep [] = []"
| "join_with sep [x] = x"
| "join_with sep (x # xs) = x @ sep @ join_with sep xs"

definition Version_ToString :: "version \<Rightarrow> string" where
  "Version_ToString v = join_with ''.'' (map (\<lambda>c. nat_text (unat c)) v)"

section \<open>Payloads\<close>

record quantity =
  q_value :: u64
  q_unit :: value_unit

record enum_value =
  ev_domain :: token
  ev_code :: u32

record enum_set =
  es_domain :: token
  es_codes :: "u32 list"

record bit_set =
  bs_bit_count :: u32
  bs_words :: "u64 list"

record numeric_set =
  ns_unit :: value_unit
  ns_values :: "u64 list"

record numeric_range =
  nr_unit :: value_unit
  nr_minimum :: u64
  nr_maximum :: u64

record version_interval =
  vi_minimum :: version
  vi_maximum :: version
  vi_minimum_inclusive :: bool
  vi_maximum_inclusive :: bool

record opaque_payload =
  op_encoding :: string
  op_bytes :: bytes

section \<open>Scalars and tuples\<close>

datatype scalar_value =
    S_Boolean bool
  | S_Signed int
  | S_Unsigned u64
  | S_Enumeration enum_value
  | S_Text string

definition Scalar_Enumeration :: "token \<Rightarrow> u32 \<Rightarrow> scalar_value outcome" where
  "Scalar_Enumeration domain code =
     (if \<not> IsSet domain then Inl E_ValueTypeMismatch
      else Inr (S_Enumeration \<lparr>ev_domain = domain, ev_code = code\<rparr>))"

definition Scalar_Text :: "string \<Rightarrow> scalar_value outcome" where
  "Scalar_Text t =
     (if t = [] \<or> length t > kMaxTextLength then Inl E_TextTooLong else Inr (S_Text t))"

fun scalar_kind :: "scalar_value \<Rightarrow> nat" where
  "scalar_kind (S_Boolean _) = 0"
| "scalar_kind (S_Signed _) = 1"
| "scalar_kind (S_Unsigned _) = 2"
| "scalar_kind (S_Enumeration _) = 3"
| "scalar_kind (S_Text _) = 4"

definition Scalar_ToText :: "scalar_value \<Rightarrow> string" where
  "Scalar_ToText s = (case s of
     S_Boolean b \<Rightarrow> (if b then ''true'' else ''false'')
   | S_Signed i \<Rightarrow> int_text i
   | S_Unsigned w \<Rightarrow> nat_text (unat w)
   | S_Enumeration e \<Rightarrow> ev_domain e @ ''#'' @ nat_text (unat (ev_code e))
   | S_Text t \<Rightarrow> t)"

text \<open>\<open>operator<=>\<close> on scalars: by kind, then by payload.\<close>

definition scalar_less :: "scalar_value \<Rightarrow> scalar_value \<Rightarrow> bool" where
  "scalar_less lhs rhs =
     (if scalar_kind lhs \<noteq> scalar_kind rhs then scalar_kind lhs < scalar_kind rhs
      else case (lhs, rhs) of
        (S_Boolean a, S_Boolean b) \<Rightarrow> \<not> a \<and> b
      | (S_Signed a, S_Signed b) \<Rightarrow> a < b
      | (S_Unsigned a, S_Unsigned b) \<Rightarrow> a < b
      | (S_Enumeration a, S_Enumeration b) \<Rightarrow>
          (if ev_domain a \<noteq> ev_domain b then ev_domain a < ev_domain b
           else ev_code a < ev_code b)
      | (S_Text a, S_Text b) \<Rightarrow> a < b
      | _ \<Rightarrow> False)"

instantiation scalar_value :: linorder
begin

definition less_scalar_value :: "scalar_value \<Rightarrow> scalar_value \<Rightarrow> bool" where
  "less_scalar_value = scalar_less"

definition less_eq_scalar_value :: "scalar_value \<Rightarrow> scalar_value \<Rightarrow> bool" where
  "less_eq_scalar_value lhs rhs \<longleftrightarrow> scalar_less lhs rhs \<or> lhs = rhs"

instance
proof -
  define key :: "scalar_value \<Rightarrow> nat \<times> string \<times> int" where
    "key s = (scalar_kind s, (case s of
        S_Enumeration e \<Rightarrow> (ev_domain e, uint (ev_code e))
      | S_Text t \<Rightarrow> (t, 0) | S_Boolean b \<Rightarrow> ([], of_bool b)
      | S_Signed i \<Rightarrow> ([], i) | S_Unsigned w \<Rightarrow> ([], uint w)))" for s
  have less: "scalar_less a b \<longleftrightarrow> key a < key b" for a b
    by (cases a; cases b) (auto simp: scalar_less_def key_def word_less_def)
  have inj: "key a = key b \<longleftrightarrow> a = b" for a b
    by (cases a; cases b) (auto simp: key_def word_uint_eq_iff intro: enum_value.equality)
  show "OFCLASS(scalar_value, linorder_class)"
    by standard (auto simp: less_scalar_value_def less_eq_scalar_value_def less simp flip: inj)
qed

end

type_synonym tuple_value = "scalar_value list"

definition Tuple_ToText :: "tuple_value \<Rightarrow> string" where
  "Tuple_ToText t = ''('' @ join_with '', '' (map Scalar_ToText t) @ '')''"

record record_field =
  rf_name :: string
  rf_value :: scalar_value

section \<open>Capability values\<close>

datatype value_kind =
    K_Absent | K_Boolean | K_Integer | K_Quantity | K_Enumeration | K_BitSet | K_NumericSet
  | K_NumericRange | K_VersionInterval | K_ProtocolSet | K_Tuple | K_TupleSet | K_Record
  | K_Opaque | K_EnumSet

datatype capability_value =
    V_Absent
  | V_Boolean bool
  | V_Integer int
  | V_Quantity quantity
  | V_Enumeration enum_value
  | V_BitSet bit_set
  | V_NumericSet numeric_set
  | V_NumericRange numeric_range
  | V_VersionInterval version_interval
  | V_ProtocolSet "protocol_id list"
  | V_Tuple tuple_value
  | V_TupleSet "tuple_value list"
  | V_Record "record_field list"
  | V_Opaque opaque_payload
  | V_EnumSet enum_set

fun Value_Kind :: "capability_value \<Rightarrow> value_kind" where
  "Value_Kind V_Absent = K_Absent"
| "Value_Kind (V_Boolean _) = K_Boolean"
| "Value_Kind (V_Integer _) = K_Integer"
| "Value_Kind (V_Quantity _) = K_Quantity"
| "Value_Kind (V_Enumeration _) = K_Enumeration"
| "Value_Kind (V_BitSet _) = K_BitSet"
| "Value_Kind (V_NumericSet _) = K_NumericSet"
| "Value_Kind (V_NumericRange _) = K_NumericRange"
| "Value_Kind (V_VersionInterval _) = K_VersionInterval"
| "Value_Kind (V_ProtocolSet _) = K_ProtocolSet"
| "Value_Kind (V_Tuple _) = K_Tuple"
| "Value_Kind (V_TupleSet _) = K_TupleSet"
| "Value_Kind (V_Record _) = K_Record"
| "Value_Kind (V_Opaque _) = K_Opaque"
| "Value_Kind (V_EnumSet _) = K_EnumSet"

fun ValueKindName :: "value_kind \<Rightarrow> string" where
  "ValueKindName K_Absent = ''absent''"
| "ValueKindName K_Boolean = ''boolean''"
| "ValueKindName K_Integer = ''integer''"
| "ValueKindName K_Quantity = ''quantity''"
| "ValueKindName K_Enumeration = ''enumeration''"
| "ValueKindName K_BitSet = ''bitset''"
| "ValueKindName K_NumericSet = ''numeric-set''"
| "ValueKindName K_NumericRange = ''numeric-range''"
| "ValueKindName K_VersionInterval = ''version-interval''"
| "ValueKindName K_ProtocolSet = ''protocol-set''"
| "ValueKindName K_Tuple = ''tuple''"
| "ValueKindName K_TupleSet = ''tuple-set''"
| "ValueKindName K_Record = ''record''"
| "ValueKindName K_Opaque = ''opaque''"
| "ValueKindName K_EnumSet = ''enum-set''"

definition WordsForBits :: "u32 \<Rightarrow> nat" where
  "WordsForBits bits = (unat bits + 63) div 64"

definition BitsAboveCountAreClear :: "bit_set \<Rightarrow> bool" where
  "BitsAboveCountAreClear bits =
     (let words = WordsForBits (bs_bit_count bits) in
      if length (bs_words bits) \<noteq> words then False
      else if unat (bs_bit_count bits) mod 64 = 0 then True
      else let allowed_mask = push_bit (unat (bs_bit_count bits) mod 64) 1 - 1 :: u64
           in last (bs_words bits) AND NOT allowed_mask = 0)"

section \<open>Factories\<close>

definition QuantityValue :: "u64 \<Rightarrow> value_unit \<Rightarrow> capability_value outcome" where
  "QuantityValue val unt =
     obind (RequireQuantityUnit unt) (\<lambda>_.
       if val > kMaxQuantity then Inl E_ValueOutOfRange
       else Inr (V_Quantity \<lparr>q_value = val, q_unit = unt\<rparr>))"

definition EnumerationValue :: "token \<Rightarrow> u32 \<Rightarrow> capability_value outcome" where
  "EnumerationValue domain code =
     (if \<not> IsSet domain then Inl E_ValueTypeMismatch
      else Inr (V_Enumeration \<lparr>ev_domain = domain, ev_code = code\<rparr>))"

definition BitSetValue :: "u32 \<Rightarrow> u64 list \<Rightarrow> capability_value outcome" where
  "BitSetValue bit_count words =
     (if bit_count = 0 \<or> unat bit_count > kMaxBitSetBits then Inl E_ValueOutOfRange
      else if length words \<noteq> WordsForBits bit_count then Inl E_ValueNotCanonical
      else let bits = \<lparr>bs_bit_count = bit_count, bs_words = words\<rparr> in
        if \<not> BitsAboveCountAreClear bits then Inl E_ValueNotCanonical else Inr (V_BitSet bits))"

definition NumericSetValue :: "value_unit \<Rightarrow> u64 list \<Rightarrow> capability_value outcome" where
  "NumericSetValue unt vals =
     obind (RequireQuantityUnit unt) (\<lambda>_.
       if vals = [] then Inl E_EmptyCollection
       else if length vals > kMaxSetCardinality then Inl E_TooManyItems
       else if list_ex (\<lambda>v. v > kMaxQuantity) vals then Inl E_ValueOutOfRange
       else let sorted_values = sort vals in
         if adjacent_equal sorted_values then Inl E_DuplicateValue
         else Inr (V_NumericSet \<lparr>ns_unit = unt, ns_values = sorted_values\<rparr>))"

definition NumericRangeValue :: "value_unit \<Rightarrow> u64 \<Rightarrow> u64 \<Rightarrow> capability_value outcome" where
  "NumericRangeValue unt minimum maximum =
     obind (RequireQuantityUnit unt) (\<lambda>_.
       if minimum > maximum then Inl E_ValueContradiction
       else if maximum > kMaxQuantity then Inl E_ValueOutOfRange
       else Inr (V_NumericRange \<lparr>nr_unit = unt, nr_minimum = minimum, nr_maximum = maximum\<rparr>))"

definition VersionIntervalValue ::
  "version \<Rightarrow> bool \<Rightarrow> version \<Rightarrow> bool \<Rightarrow> capability_value outcome" where
  "VersionIntervalValue minimum min_inclusive maximum max_inclusive =
     (if length minimum = 0 \<or> length maximum = 0 then Inl E_ValueTypeMismatch
      else if version_less maximum minimum then Inl E_ValueContradiction
      else if version_eq minimum maximum \<and> (\<not> min_inclusive \<or> \<not> max_inclusive)
        then Inl E_ValueContradiction
      else Inr (V_VersionInterval
        \<lparr>vi_minimum = minimum, vi_maximum = maximum,
         vi_minimum_inclusive = min_inclusive, vi_maximum_inclusive = max_inclusive\<rparr>))"

definition ProtocolSetValue :: "protocol_id list \<Rightarrow> capability_value outcome" where
  "ProtocolSetValue protocols =
     (if protocols = [] then Inl E_EmptyCollection
      else if length protocols > kMaxProtocolsInSet then Inl E_TooManyItems
      else if list_ex (\<lambda>p. p = P_Unknown \<or> p > kProtocolIdMax) protocols
        then Inl E_UnknownEnumDomain
      else let sorted_protocols = sort protocols in
        if adjacent_equal sorted_protocols then Inl E_DuplicateValue
        else Inr (V_ProtocolSet sorted_protocols))"

definition TupleValueOf :: "scalar_value list \<Rightarrow> capability_value outcome" where
  "TupleValueOf elements =
     (if length elements < 2 \<or> length elements > kMaxTupleArity then Inl E_ValueOutOfRange
      else Inr (V_Tuple elements))"

definition tuple_arity_check :: "nat \<Rightarrow> tuple_value \<Rightarrow> status" where
  "tuple_arity_check arity tuple =
     (if length tuple \<noteq> arity then Inl E_ValueNotCanonical
      else if length tuple < 2 \<or> length tuple > kMaxTupleArity then Inl E_ValueOutOfRange
      else Inr ())"

definition TupleSetValue :: "tuple_value list \<Rightarrow> capability_value outcome" where
  "TupleSetValue tuples =
     (if tuples = [] then Inl E_EmptyCollection
      else if length tuples > kMaxTupleSetCardinality then Inl E_TooManyItems
      else obind (check_each (tuple_arity_check (length (hd tuples))) tuples) (\<lambda>_.
        let sorted_tuples = sort tuples in
        if adjacent_equal sorted_tuples then Inl E_DuplicateValue
        else Inr (V_TupleSet sorted_tuples)))"

definition EnumerationSetValue :: "token \<Rightarrow> u32 list \<Rightarrow> capability_value outcome" where
  "EnumerationSetValue domain codes =
     (if \<not> IsSet domain then Inl E_ValueTypeMismatch
      else if codes = [] then Inl E_EmptyCollection
      else if length codes > kMaxSetCardinality then Inl E_TooManyItems
      else let sorted_codes = sort codes in
        if adjacent_equal sorted_codes then Inl E_DuplicateValue
        else Inr (V_EnumSet \<lparr>es_domain = domain, es_codes = sorted_codes\<rparr>))"

definition RecordValue :: "record_field list \<Rightarrow> capability_value outcome" where
  "RecordValue flds =
     (if flds = [] then Inl E_EmptyCollection
      else if length flds > kMaxRecordFields then Inl E_TooManyItems
      else obind (check_each (\<lambda>field. ValidateToken (rf_name field) LowerToken 1 48) flds) (\<lambda>_.
        let sorted_fields = sort_key rf_name flds in
        if adjacent_equal (map rf_name sorted_fields) then Inl E_DuplicateValue
        else Inr (V_Record sorted_fields)))"

definition OpaqueValue :: "string \<Rightarrow> bytes \<Rightarrow> capability_value outcome" where
  "OpaqueValue encoding data =
     obind (ValidateToken encoding PrintableToken 1 64) (\<lambda>_.
       if length data > kMaxExtensionPayloadBytes then Inl E_PayloadTooLarge
       else Inr (V_Opaque \<lparr>op_encoding = encoding, op_bytes = data\<rparr>))"

section \<open>Canonical form and equality\<close>

text \<open>The loop over a tuple set checks, index by index, the arity and then the order.\<close>

fun tuple_set_check :: "nat \<Rightarrow> tuple_value option \<Rightarrow> tuple_value list \<Rightarrow> status" where
  "tuple_set_check arity previous [] = Inr ()"
| "tuple_set_check arity previous (tuple # tuples) =
     (if length tuple \<noteq> arity then Inl E_ValueNotCanonical
      else if (case previous of None \<Rightarrow> False | Some p \<Rightarrow> \<not> p < tuple) then Inl E_ValueNotCanonical
      else tuple_set_check arity (Some tuple) tuples)"

definition ValidateCanonical :: "capability_value \<Rightarrow> status" where
  "ValidateCanonical v = (case v of
     V_Absent \<Rightarrow> Inr ()
   | V_Boolean _ \<Rightarrow> Inr ()
   | V_Integer _ \<Rightarrow> Inr ()
   | V_Quantity q \<Rightarrow> RequireQuantityUnit (q_unit q)
   | V_Enumeration e \<Rightarrow> (if \<not> IsSet (ev_domain e) then Inl E_ValueTypeMismatch else Inr ())
   | V_BitSet s \<Rightarrow>
       (if bs_bit_count s = 0 \<or> unat (bs_bit_count s) > kMaxBitSetBits
           \<or> \<not> BitsAboveCountAreClear s
        then Inl E_ValueNotCanonical else Inr ())
   | V_NumericSet s \<Rightarrow>
       (if ns_values s = [] \<or> length (ns_values s) > kMaxSetCardinality then Inl E_ValueNotCanonical
        else if \<not> sorted (ns_values s) \<or> adjacent_equal (ns_values s) then Inl E_ValueNotCanonical
        else RequireQuantityUnit (ns_unit s))
   | V_NumericRange r \<Rightarrow>
       (if nr_minimum r > nr_maximum r then Inl E_ValueContradiction
        else RequireQuantityUnit (nr_unit r))
   | V_VersionInterval i \<Rightarrow>
       (if version_less (vi_maximum i) (vi_minimum i) then Inl E_ValueContradiction
        else if version_eq (vi_minimum i) (vi_maximum i)
          \<and> (\<not> vi_minimum_inclusive i \<or> \<not> vi_maximum_inclusive i) then Inl E_ValueContradiction
        else Inr ())
   | V_ProtocolSet ps \<Rightarrow>
       (if ps = [] \<or> length ps > kMaxProtocolsInSet then Inl E_ValueNotCanonical
        else if \<not> sorted ps \<or> adjacent_equal ps then Inl E_ValueNotCanonical
        else if list_ex (\<lambda>p. p = P_Unknown \<or> p > kProtocolIdMax) ps then Inl E_UnknownEnumDomain
        else Inr ())
   | V_Tuple t \<Rightarrow>
       (if length t < 2 \<or> length t > kMaxTupleArity then Inl E_ValueOutOfRange else Inr ())
   | V_TupleSet ts \<Rightarrow>
       (if ts = [] \<or> length ts > kMaxTupleSetCardinality then Inl E_ValueNotCanonical
        else tuple_set_check (length (hd ts)) None ts)
   | V_Record flds \<Rightarrow>
       (if flds = [] \<or> length flds > kMaxRecordFields then Inl E_ValueNotCanonical
        else if \<not> strictly_ascending (map rf_name flds) then Inl E_ValueNotCanonical
        else Inr ())
   | V_Opaque p \<Rightarrow>
       (if op_encoding p = [] \<or> length (op_bytes p) > kMaxExtensionPayloadBytes
        then Inl E_ValueNotCanonical else Inr ())
   | V_EnumSet s \<Rightarrow>
       (if \<not> IsSet (es_domain s) then Inl E_ValueTypeMismatch
        else if es_codes s = [] \<or> length (es_codes s) > kMaxSetCardinality
          then Inl E_ValueNotCanonical
        else if \<not> sorted (es_codes s) \<or> adjacent_equal (es_codes s) then Inl E_ValueNotCanonical
        else Inr ()))"

definition bit_set_eq :: "bit_set \<Rightarrow> bit_set \<Rightarrow> bool" where
  "bit_set_eq lhs rhs \<longleftrightarrow>
     bs_bit_count lhs = bs_bit_count rhs
     \<and> length (bs_words lhs) = WordsForBits (bs_bit_count lhs)
     \<and> length (bs_words rhs) = WordsForBits (bs_bit_count rhs)
     \<and> bs_words lhs = bs_words rhs"

definition version_interval_eq :: "version_interval \<Rightarrow> version_interval \<Rightarrow> bool" where
  "version_interval_eq lhs rhs \<longleftrightarrow>
     version_eq (vi_minimum lhs) (vi_minimum rhs) \<and> version_eq (vi_maximum lhs) (vi_maximum rhs)
     \<and> vi_minimum_inclusive lhs = vi_minimum_inclusive rhs
     \<and> vi_maximum_inclusive lhs = vi_maximum_inclusive rhs"

text \<open>\<open>operator==\<close> on values: only bit sets and version intervals differ from field equality.\<close>

definition value_eq :: "capability_value \<Rightarrow> capability_value \<Rightarrow> bool" where
  "value_eq lhs rhs =
     (if Value_Kind lhs \<noteq> Value_Kind rhs then False
      else case (lhs, rhs) of
        (V_BitSet a, V_BitSet b) \<Rightarrow> bit_set_eq a b
      | (V_VersionInterval a, V_VersionInterval b) \<Rightarrow> version_interval_eq a b
      | _ \<Rightarrow> lhs = rhs)"

section \<open>Rendering\<close>

definition QuantityToText :: "u64 \<Rightarrow> value_unit \<Rightarrow> string" where
  "QuantityToText val unt =
     (let suffix = (case find (\<lambda>entry. fst entry = unt) kUnitNames of
                      Some (_, _, s) \<Rightarrow> s | None \<Rightarrow> [])
      in nat_text (unat val) @ (if suffix \<noteq> [] \<and> unt \<noteq> U_None then '' '' @ suffix else []))"

definition braces :: "string \<Rightarrow> string" where
  "braces text = ''{'' @ text @ ''}''"

definition Value_ToText :: "capability_value \<Rightarrow> string" where
  "Value_ToText v = (case v of
     V_Absent \<Rightarrow> ''absent''
   | V_Boolean b \<Rightarrow> (if b then ''true'' else ''false'')
   | V_Integer i \<Rightarrow> int_text i
   | V_Quantity q \<Rightarrow> QuantityToText (q_value q) (q_unit q)
   | V_Enumeration e \<Rightarrow> ev_domain e @ ''#'' @ nat_text (unat (ev_code e))
   | V_BitSet s \<Rightarrow> braces (join_with '','' (map nat_text
       (filter (\<lambda>bit_index. drop_bit (bit_index mod 64) (bs_words s ! (bit_index div 64)) AND 1 = 1)
          [0..<unat (bs_bit_count s)])))
   | V_NumericSet s \<Rightarrow>
       braces (join_with '', '' (map (\<lambda>val. QuantityToText val (ns_unit s)) (ns_values s)))
   | V_NumericRange r \<Rightarrow>
       ''['' @ QuantityToText (nr_minimum r) (nr_unit r) @ '', ''
         @ QuantityToText (nr_maximum r) (nr_unit r) @ '']''
   | V_VersionInterval i \<Rightarrow>
       (if vi_minimum_inclusive i then ''['' else ''('') @ Version_ToString (vi_minimum i) @ '', ''
         @ Version_ToString (vi_maximum i) @ (if vi_maximum_inclusive i then '']'' else '')'')
   | V_ProtocolSet ps \<Rightarrow> braces (join_with '', '' (map ProtocolName ps))
   | V_Tuple t \<Rightarrow> Tuple_ToText t
   | V_TupleSet ts \<Rightarrow> braces (join_with '', '' (map Tuple_ToText ts))
   | V_Record flds \<Rightarrow> braces (join_with '', ''
       (map (\<lambda>field. rf_name field @ ''='' @ Scalar_ToText (rf_value field)) flds))
   | V_Opaque p \<Rightarrow>
       ''<opaque encoding='' @ op_encoding p @ '' bytes='' @ nat_text (length (op_bytes p)) @ ''>''
   | V_EnumSet s \<Rightarrow>
       braces (join_with '', '' (map (EnumCodeText (es_domain s)) (es_codes s))))"

section \<open>Versions are compared by their padded components\<close>

definition version_key :: "version \<Rightarrow> u32 list" where
  "version_key v = map (Version_Component v) [0..<kMaxVersionComponents]"

lemma version_eq_key: "version_eq a b \<longleftrightarrow> version_key a = version_key b"
  by (simp add: version_eq_def version_key_def list_all_iff)

lemma version_less_key: "version_less a b \<longleftrightarrow> version_key a < version_key b"
  by (simp add: version_less_def version_key_def upt_rec)

lemma version_eq_refl [simp]: "version_eq v v"
  by (simp add: version_eq_key)

text \<open>A version the code can hold: between one and four bounded components.\<close>

definition version_ok :: "version \<Rightarrow> bool" where
  "version_ok v \<longleftrightarrow> v \<noteq> [] \<and> length v \<le> kMaxVersionComponents
     \<and> list_all (\<lambda>c. c \<le> kMaxVersionComponent) v"

lemma list_ex_greater: "list_ex (\<lambda>x. x > k) xs \<longleftrightarrow> \<not> list_all (\<lambda>x. x \<le> (k :: 'a::linorder)) xs"
  by (induction xs) (simp_all add: not_le)

lemma Version_FromComponents_iff: "Version_FromComponents c = Inr v \<longleftrightarrow> v = c \<and> version_ok c"
  by (auto simp: Version_FromComponents_def version_ok_def list_ex_greater)

section \<open>Decimal text\<close>

lemma of_char_digit_char: "d < 10 \<Longrightarrow> of_char (digit_char d) = (48 + d :: nat)"
  by (simp add: digit_char_def)

lemma digit_char_range:
  assumes "d < 10"
  shows "\<not> (digit_char d < CHR ''0'' \<or> digit_char d > CHR ''9'')"
  using of_char_digit_char [OF assms] assms by (simp add: less_char_def)

lemma version_digits_append:
  "version_digits v (xs @ ys) = obind (version_digits v xs) (\<lambda>w. version_digits w ys)"
  by (induction xs arbitrary: v) auto

lemma version_digits_nat_text: "version_digits 0 (nat_text n) = Inr n"
proof (induction n rule: nat_text.induct)
  case (1 n)
  show ?case
  proof (cases "n < 10")
    case True
    then show ?thesis
      by (simp add: nat_text.simps [of n] digit_char_range of_char_digit_char)
  next
    case False
    have "n mod 10 < 10" by simp
    then show ?thesis using False 1
      by (simp add: nat_text.simps [of n] version_digits_append digit_char_range
          of_char_digit_char mult.commute)
  qed
qed

lemma nat_text_nonempty [simp]: "nat_text n \<noteq> []"
  by (subst nat_text.simps) simp

lemma hd_nat_text: "n \<noteq> 0 \<Longrightarrow> hd (nat_text n) \<noteq> CHR ''0''"
proof (induction n rule: nat_text.induct)
  case (1 n)
  show ?case
  proof (cases "n < 10")
    case True
    have "of_char (digit_char n) \<noteq> (of_char (CHR ''0'') :: nat)"
      using True 1(2) by (simp add: of_char_digit_char)
    then have "digit_char n \<noteq> CHR ''0''" by metis
    then show ?thesis using True by (simp add: nat_text.simps [of n])
  next
    case False
    then show ?thesis using 1 by (simp add: nat_text.simps [of n])
  qed
qed

lemma length_nat_text_1: "n < 10 \<Longrightarrow> length (nat_text n) = 1"
  by (simp add: nat_text.simps)

lemma length_nat_text: "n < 10 ^ Suc k \<Longrightarrow> length (nat_text n) \<le> Suc k"
proof (induction k arbitrary: n)
  case 0
  then show ?case by (simp add: nat_text.simps)
next
  case (Suc k)
  show ?case
  proof (cases "n < 10")
    case False
    then have "length (nat_text n) = Suc (length (nat_text (n div 10)))"
      by (simp add: nat_text.simps [of n])
    moreover have "n div 10 < 10 ^ Suc k"
      using Suc.prems by (simp add: less_mult_imp_div_less mult.commute)
    ultimately show ?thesis using Suc.IH by simp
  qed (simp add: nat_text.simps)
qed

lemma nat_text_digits: "ch \<in> set (nat_text n) \<Longrightarrow> IsDigit ch"
proof (induction n rule: nat_text.induct)
  case (1 n)
  have *: "IsDigit (digit_char d)" if "d < 10" for d
    using digit_char_range [OF that] by (simp add: IsDigit_def not_less)
  show ?case using 1 * [of n] * [of "n mod 10"]
    by (cases "n < 10") (auto simp: nat_text.simps [of n])
qed

lemma nat_text_no_dot: "CHR ''.'' \<notin> set (nat_text n)"
  using nat_text_digits [of "CHR ''.''" n] by (auto simp: IsDigit_def less_eq_char_def)

section \<open>Version text\<close>

lemma version_parts_ok:
  "list_all (\<lambda>c. c \<le> kMaxVersionComponent) v \<Longrightarrow> length acc + length v \<le> kMaxVersionComponents \<Longrightarrow>
     version_parts acc (map (\<lambda>c. nat_text (unat c)) v) = Inr (acc @ v)"
proof (induction v arbitrary: acc)
  case (Cons c v)
  let ?part = "nat_text (unat c)"
  have c: "unat c \<le> unat kMaxVersionComponent" using Cons.prems by (simp add: word_le_nat_alt)
  then have "length ?part \<le> Suc 9" by (intro length_nat_text) simp
  moreover have "\<not> (length ?part > 1 \<and> hd ?part = CHR ''0'')"
  proof (cases "unat c = 0")
    case True
    then show ?thesis using length_nat_text_1 [of "unat c"] by simp
  next
    case False
    then show ?thesis using hd_nat_text by blast
  qed
  ultimately show ?case using Cons c
    by (simp add: version_digits_nat_text not_less)
qed simp

lemma Version_ToString_join: "Version_ToString v = join_dots (map (\<lambda>c. nat_text (unat c)) v)"
proof -
  have "join_with ''.'' ss = join_dots ss" for ss
    by (induction ss rule: join_dots.induct) simp_all
  then show ?thesis by (simp add: Version_ToString_def)
qed

lemma Version_Parse_ToString:
  assumes "version_ok v"
  shows "Version_Parse (Version_ToString v)
    = (if length (Version_ToString v) > 40 then Inl E_MalformedValue else Inr v)"
proof -
  let ?ss = "map (\<lambda>c. nat_text (unat c)) v"
  have ne: "?ss \<noteq> []" using assms by (simp add: version_ok_def)
  have "SplitSegments (join_dots ?ss) = ?ss"
    using ne by (rule SplitSegments_segments) (simp add: nat_text_no_dot)
  moreover have "version_parts [] ?ss = Inr v"
    using version_parts_ok [of v "[]"] assms by (simp add: version_ok_def)
  moreover have "join_dots ?ss \<noteq> []"
    using ne by (cases ?ss rule: join_dots.cases) auto
  ultimately show ?thesis by (simp add: Version_Parse_def Version_ToString_join)
qed

section \<open>The stored form of a value\<close>

text \<open>
  What the code keeps of a value it built or decoded under the bounds: the invariant every
  decoder establishes and the codec's domain.
\<close>

definition scalar_ok :: "scalar_value \<Rightarrow> bool" where
  "scalar_ok s = (case s of
     S_Boolean _ \<Rightarrow> True
   | S_Signed i \<Rightarrow> kMinInteger \<le> i \<and> i \<le> kMaxInteger
   | S_Unsigned w \<Rightarrow> w \<le> kMaxQuantity
   | S_Enumeration e \<Rightarrow> EnumDomainId_Parse (ev_domain e) = Inr (ev_domain e)
   | S_Text t \<Rightarrow> t \<noteq> [] \<and> text_ok kMaxTextLength t)"

definition tuple_ok :: "tuple_value \<Rightarrow> bool" where
  "tuple_ok t \<longleftrightarrow> 2 \<le> length t \<and> length t \<le> kMaxTupleArity \<and> list_all scalar_ok t"

definition value_ok :: "capability_value \<Rightarrow> bool" where
  "value_ok v = (case v of
     V_Absent \<Rightarrow> True
   | V_Boolean _ \<Rightarrow> True
   | V_Integer i \<Rightarrow> kMinInteger \<le> i \<and> i \<le> kMaxInteger
   | V_Quantity q \<Rightarrow> q_unit q \<noteq> U_None \<and> q_value q \<le> kMaxQuantity
   | V_Enumeration e \<Rightarrow> EnumDomainId_Parse (ev_domain e) = Inr (ev_domain e)
   | V_BitSet s \<Rightarrow> bs_bit_count s \<noteq> 0 \<and> unat (bs_bit_count s) \<le> kMaxBitSetBits
       \<and> BitsAboveCountAreClear s
   | V_NumericSet s \<Rightarrow> ns_unit s \<noteq> U_None \<and> ns_values s \<noteq> []
       \<and> length (ns_values s) \<le> kMaxSetCardinality \<and> strictly_ascending (ns_values s)
       \<and> list_all (\<lambda>x. x \<le> kMaxQuantity) (ns_values s)
   | V_NumericRange r \<Rightarrow> nr_unit r \<noteq> U_None \<and> nr_minimum r \<le> nr_maximum r
       \<and> nr_maximum r \<le> kMaxQuantity
   | V_VersionInterval i \<Rightarrow> version_ok (vi_minimum i) \<and> version_ok (vi_maximum i)
       \<and> \<not> version_less (vi_maximum i) (vi_minimum i)
       \<and> (version_eq (vi_minimum i) (vi_maximum i) \<longrightarrow>
            vi_minimum_inclusive i \<and> vi_maximum_inclusive i)
   | V_ProtocolSet ps \<Rightarrow> ps \<noteq> [] \<and> length ps \<le> kMaxProtocolsInSet \<and> strictly_ascending ps
       \<and> list_all (\<lambda>p. p \<noteq> P_Unknown \<and> p \<le> kProtocolIdMax) ps
   | V_Tuple t \<Rightarrow> tuple_ok t
   | V_TupleSet ts \<Rightarrow> ts \<noteq> [] \<and> length ts \<le> kMaxTupleSetCardinality \<and> strictly_ascending ts
       \<and> list_all (\<lambda>t. tuple_ok t \<and> length (hd ts) = length t) ts
   | V_Record flds \<Rightarrow> flds \<noteq> [] \<and> length flds \<le> kMaxRecordFields
       \<and> strictly_ascending (map rf_name flds)
       \<and> list_all (\<lambda>f. ValidateToken (rf_name f) LowerToken 1 48 = Inr ()
                        \<and> scalar_ok (rf_value f)) flds
   | V_Opaque p \<Rightarrow> ValidateToken (op_encoding p) PrintableToken 1 64 = Inr ()
       \<and> length (op_bytes p) \<le> kMaxExtensionPayloadBytes
   | V_EnumSet s \<Rightarrow> EnumDomainId_Parse (es_domain s) = Inr (es_domain s) \<and> es_codes s \<noteq> []
       \<and> length (es_codes s) \<le> kMaxSetCardinality \<and> strictly_ascending (es_codes s))"

lemma RequireQuantityUnit_Inr [simp]: "RequireQuantityUnit u = Inr () \<longleftrightarrow> u \<noteq> U_None"
  by (simp add: RequireQuantityUnit_def IsQuantityUnit_def)

lemma EnumDomainId_Parse_set: "EnumDomainId_Parse d = Inr e \<Longrightarrow> e = d \<and> d \<noteq> []"
  by (auto simp: EnumDomainId_Parse_def TokenId_Parse_iff)

lemma EnumDomainId_Parse_iff: "EnumDomainId_Parse d = Inr e \<longleftrightarrow> e = d \<and> EnumDomainId_Parse d = Inr d"
  by (cases "e = d") (auto dest: EnumDomainId_Parse_set)

lemma tuple_set_check_Inr:
  "tuple_set_check n prev ts = Inr () \<longleftrightarrow>
     (\<forall>t\<in>set ts. n = length t) \<and> strictly_ascending (case prev of None \<Rightarrow> ts | Some p \<Rightarrow> p # ts)"
proof (induction n prev ts rule: tuple_set_check.induct)
  case (2 n prev t ts)
  then show ?case by (cases prev; cases ts) auto
qed (simp split: option.split)

text \<open>A stored value passes the code's own re-validation.\<close>

lemma value_ok_canonical: "value_ok v \<Longrightarrow> ValidateCanonical v = Inr ()"
proof (cases v)
  case (V_TupleSet ts)
  assume "value_ok v"
  then show ?thesis using V_TupleSet
    by (simp add: value_ok_def ValidateCanonical_def tuple_set_check_Inr list_all_iff)
next
  case (V_Opaque p)
  assume "value_ok v"
  then show ?thesis using V_Opaque
    by (auto simp: value_ok_def ValidateCanonical_def ValidateToken_iff)
qed (auto simp: value_ok_def ValidateCanonical_def IsSet_def tuple_ok_def list_all_iff list_ex_iff
    not_less sorted_not_adjacent [symmetric] dest: EnumDomainId_Parse_set)

section \<open>Factories build the stored form\<close>

lemma set_factory_sorted:
  "\<not> adjacent_equal (sort xs) \<Longrightarrow> strictly_ascending (sort xs)"
  by (simp add: adjacent_equal_sort strictly_ascending_sort_iff)

lemma QuantityValue_ok: "QuantityValue x u = Inr v \<Longrightarrow> value_ok v"
  by (auto simp: QuantityValue_def value_ok_def obind_Inr_iff split: if_splits)

lemma EnumerationValue_ok:
  "EnumDomainId_Parse d = Inr d \<Longrightarrow> EnumerationValue d c = Inr v \<Longrightarrow> value_ok v"
  by (auto simp: EnumerationValue_def value_ok_def split: if_splits)

lemma BitSetValue_ok: "BitSetValue n ws = Inr v \<Longrightarrow> value_ok v"
  by (auto simp: BitSetValue_def value_ok_def Let_def split: if_splits)

lemma NumericSetValue_ok: "NumericSetValue u xs = Inr v \<Longrightarrow> value_ok v"
  by (auto simp: NumericSetValue_def value_ok_def Let_def obind_Inr_iff set_factory_sorted
      list_ex_iff list_all_iff not_less split: if_splits)

lemma NumericRangeValue_ok: "NumericRangeValue u a b = Inr v \<Longrightarrow> value_ok v"
  by (auto simp: NumericRangeValue_def value_ok_def obind_Inr_iff split: if_splits)

lemma VersionIntervalValue_ok:
  "version_ok a \<Longrightarrow> version_ok b \<Longrightarrow> VersionIntervalValue a ai b bi = Inr v \<Longrightarrow> value_ok v"
  by (auto simp: VersionIntervalValue_def value_ok_def split: if_splits)

lemma ProtocolSetValue_ok: "ProtocolSetValue ps = Inr v \<Longrightarrow> value_ok v"
  by (auto simp: ProtocolSetValue_def value_ok_def Let_def set_factory_sorted list_ex_iff
      list_all_iff not_less split: if_splits)

lemma TupleValueOf_ok: "list_all scalar_ok xs \<Longrightarrow> TupleValueOf xs = Inr v \<Longrightarrow> value_ok v"
  by (auto simp: TupleValueOf_def value_ok_def tuple_ok_def split: if_splits)

lemma tuple_arity_check_Inr:
  "tuple_arity_check n t = Inr () \<longleftrightarrow> n = length t \<and> 2 \<le> length t \<and> length t \<le> kMaxTupleArity"
  by (auto simp: tuple_arity_check_def)

lemma TupleSetValue_ok:
  assumes "list_all (list_all scalar_ok) ts" and "TupleSetValue ts = Inr v"
  shows "value_ok v"
proof -
  from assms(2) have ne: "ts \<noteq> []" "length ts \<le> kMaxTupleSetCardinality"
    and ar: "\<forall>t\<in>set ts. length (hd ts) = length t \<and> 2 \<le> length t \<and> length t \<le> kMaxTupleArity"
    and d: "\<not> adjacent_equal (sort ts)" and v: "v = V_TupleSet (sort ts)"
    by (auto simp: TupleSetValue_def obind_Inr_iff Let_def tuple_arity_check_Inr split: if_splits)
  have "hd (sort ts) \<in> set ts" using ne(1) by (metis hd_in_set set_sort sort_key_Nil_iff)
  then have "\<forall>t\<in>set ts. length (hd (sort ts)) = length t" using ar by metis
  then show ?thesis
    using ne ar set_factory_sorted [OF d] assms(1) unfolding v
    by (simp add: value_ok_def tuple_ok_def list_all_iff)
qed

lemma RecordValue_ok:
  assumes "list_all (\<lambda>f. scalar_ok (rf_value f)) flds" and "RecordValue flds = Inr v"
  shows "value_ok v"
proof -
  from assms(2) have ne: "flds \<noteq> []" "length flds \<le> kMaxRecordFields"
    and names: "\<forall>f\<in>set flds. ValidateToken (rf_name f) LowerToken 1 48 = Inr ()"
    and d: "\<not> adjacent_equal (map rf_name (sort_key rf_name flds))"
    and v: "v = V_Record (sort_key rf_name flds)"
    by (auto simp: RecordValue_def obind_Inr_iff Let_def split: if_splits)
  have "strictly_ascending (map rf_name (sort_key rf_name flds))"
    using d sorted_not_adjacent [of "map rf_name (sort_key rf_name flds)"] by simp
  then show ?thesis using ne names assms(1) unfolding v
    by (simp add: value_ok_def list_all_iff)
qed

lemma OpaqueValue_ok: "OpaqueValue e bs = Inr v \<Longrightarrow> value_ok v"
  by (auto simp: OpaqueValue_def value_ok_def obind_Inr_iff split: if_splits)

lemma EnumerationSetValue_ok:
  "EnumDomainId_Parse d = Inr d \<Longrightarrow> EnumerationSetValue d cs = Inr v \<Longrightarrow> value_ok v"
  by (auto simp: EnumerationSetValue_def value_ok_def Let_def set_factory_sorted
      split: if_splits)

lemmas factory_ok = QuantityValue_ok EnumerationValue_ok BitSetValue_ok NumericSetValue_ok
  NumericRangeValue_ok VersionIntervalValue_ok ProtocolSetValue_ok TupleValueOf_ok
  TupleSetValue_ok RecordValue_ok OpaqueValue_ok EnumerationSetValue_ok

section \<open>Values the public interface can build\<close>

inductive value_built :: "capability_value \<Rightarrow> bool" where
  built_Absent: "value_built V_Absent"
| built_Boolean: "value_built (V_Boolean b)"
| built_Integer: "value_built (V_Integer i)"
| built_Quantity: "QuantityValue x u = Inr v \<Longrightarrow> value_built v"
| built_Enumeration: "EnumerationValue d c = Inr v \<Longrightarrow> value_built v"
| built_BitSet: "BitSetValue n ws = Inr v \<Longrightarrow> value_built v"
| built_NumericSet: "NumericSetValue u xs = Inr v \<Longrightarrow> value_built v"
| built_NumericRange: "NumericRangeValue u x y = Inr v \<Longrightarrow> value_built v"
| built_VersionInterval: "VersionIntervalValue a ai b bi = Inr v \<Longrightarrow> value_built v"
| built_ProtocolSet: "ProtocolSetValue ps = Inr v \<Longrightarrow> value_built v"
| built_Tuple: "TupleValueOf xs = Inr v \<Longrightarrow> value_built v"
| built_TupleSet: "TupleSetValue ts = Inr v \<Longrightarrow> value_built v"
| built_Record: "RecordValue flds = Inr v \<Longrightarrow> value_built v"
| built_Opaque: "OpaqueValue e bs = Inr v \<Longrightarrow> value_built v"
| built_EnumSet: "EnumerationSetValue d cs = Inr v \<Longrightarrow> value_built v"

lemma TupleSetValue_canonical: "TupleSetValue ts = Inr v \<Longrightarrow> ValidateCanonical v = Inr ()"
proof -
  assume t: "TupleSetValue ts = Inr v"
  then have ne: "ts \<noteq> []" "length ts \<le> kMaxTupleSetCardinality"
    and ar: "\<forall>t\<in>set ts. length (hd ts) = length t \<and> 2 \<le> length t \<and> length t \<le> kMaxTupleArity"
    and d: "\<not> adjacent_equal (sort ts)" and v: "v = V_TupleSet (sort ts)"
    by (auto simp: TupleSetValue_def obind_Inr_iff Let_def tuple_arity_check_Inr split: if_splits)
  have "hd (sort ts) \<in> set ts" using ne(1) by (metis hd_in_set set_sort sort_key_Nil_iff)
  then have "\<forall>t\<in>set ts. length (hd (sort ts)) = length t" using ar by metis
  then show ?thesis using ne set_factory_sorted [OF d] unfolding v
    by (simp add: ValidateCanonical_def tuple_set_check_Inr)
qed

lemma RecordValue_canonical: "RecordValue flds = Inr v \<Longrightarrow> ValidateCanonical v = Inr ()"
  by (auto simp: RecordValue_def ValidateCanonical_def obind_Inr_iff Let_def
      sorted_not_adjacent [symmetric] split: if_splits)

lemma value_built_canonical: "value_built v \<Longrightarrow> ValidateCanonical v = Inr ()"
proof (induction rule: value_built.induct)
  case (built_Enumeration d c v)
  then show ?case by (auto simp: EnumerationValue_def ValidateCanonical_def split: if_splits)
next
  case (built_VersionInterval a ai b bi v)
  then show ?case by (auto simp: VersionIntervalValue_def ValidateCanonical_def split: if_splits)
next
  case (built_Tuple xs v)
  then show ?case by (auto simp: TupleValueOf_def ValidateCanonical_def split: if_splits)
next
  case (built_EnumSet d cs v)
  then show ?case
    by (auto simp: EnumerationSetValue_def ValidateCanonical_def Let_def split: if_splits)
qed (auto simp: TupleSetValue_canonical RecordValue_canonical
    intro: value_ok_canonical factory_ok, simp_all add: ValidateCanonical_def)

section \<open>Canonical sets do not depend on the order of their elements\<close>

lemma sorted_set_factory:
  "\<not> adjacent_equal (sort xs) \<Longrightarrow> \<not> adjacent_equal (sort ys) \<Longrightarrow>
     sort xs = sort ys \<longleftrightarrow> set xs = set ys"
  by (metis set_factory_sorted set_sort strictly_ascending_unique)

lemma set_factory_shapes:
  "NumericSetValue u xs = Inr v \<Longrightarrow>
     \<not> adjacent_equal (sort xs) \<and> v = V_NumericSet \<lparr>ns_unit = u, ns_values = sort xs\<rparr>"
  "ProtocolSetValue ps = Inr v \<Longrightarrow> \<not> adjacent_equal (sort ps) \<and> v = V_ProtocolSet (sort ps)"
  "TupleSetValue ts = Inr v \<Longrightarrow> \<not> adjacent_equal (sort ts) \<and> v = V_TupleSet (sort ts)"
  "EnumerationSetValue d cs = Inr v \<Longrightarrow>
     \<not> adjacent_equal (sort cs) \<and> v = V_EnumSet \<lparr>es_domain = d, es_codes = sort cs\<rparr>"
  by (auto simp: NumericSetValue_def ProtocolSetValue_def TupleSetValue_def EnumerationSetValue_def
      obind_Inr_iff Let_def split: if_splits)

lemma set_factory_order:
  "NumericSetValue u xs = Inr v \<Longrightarrow> NumericSetValue u xs' = Inr v' \<Longrightarrow> v = v' \<longleftrightarrow> set xs = set xs'"
  "ProtocolSetValue ps = Inr v \<Longrightarrow> ProtocolSetValue ps' = Inr v' \<Longrightarrow> v = v' \<longleftrightarrow> set ps = set ps'"
  "TupleSetValue ts = Inr v \<Longrightarrow> TupleSetValue ts' = Inr v' \<Longrightarrow> v = v' \<longleftrightarrow> set ts = set ts'"
  "EnumerationSetValue d cs = Inr v \<Longrightarrow> EnumerationSetValue d cs' = Inr v' \<Longrightarrow>
     v = v' \<longleftrightarrow> set cs = set cs'"
proof -
  assume "NumericSetValue u xs = Inr v" "NumericSetValue u xs' = Inr v'"
  from this [THEN set_factory_shapes(1)] show "v = v' \<longleftrightarrow> set xs = set xs'"
    by (simp add: sorted_set_factory)
next
  assume "ProtocolSetValue ps = Inr v" "ProtocolSetValue ps' = Inr v'"
  from this [THEN set_factory_shapes(2)] show "v = v' \<longleftrightarrow> set ps = set ps'"
    by (simp add: sorted_set_factory)
next
  assume "TupleSetValue ts = Inr v" "TupleSetValue ts' = Inr v'"
  from this [THEN set_factory_shapes(3)] show "v = v' \<longleftrightarrow> set ts = set ts'"
    by (simp add: sorted_set_factory)
next
  assume "EnumerationSetValue d cs = Inr v" "EnumerationSetValue d cs' = Inr v'"
  from this [THEN set_factory_shapes(4)] show "v = v' \<longleftrightarrow> set cs = set cs'"
    by (simp add: sorted_set_factory)
qed

section \<open>Equality of canonical values\<close>

lemma canonical_words:
  "ValidateCanonical (V_BitSet s) = Inr () \<Longrightarrow> length (bs_words s) = WordsForBits (bs_bit_count s)"
  by (auto simp: ValidateCanonical_def BitsAboveCountAreClear_def Let_def split: if_splits)

lemma value_eq_iff:
  assumes "ValidateCanonical v = Inr ()"
  shows "value_eq v w \<longleftrightarrow> v = w
    \<or> (\<exists>i j. v = V_VersionInterval i \<and> w = V_VersionInterval j \<and> version_interval_eq i j)"
proof (cases v)
  case (V_BitSet s)
  then show ?thesis using canonical_words [of s] assms
    by (cases w) (auto simp: value_eq_def bit_set_eq_def intro: bit_set.equality)
next
  case (V_VersionInterval i)
  then show ?thesis by (cases w) (auto simp: value_eq_def version_interval_eq_def)
qed (cases w; auto simp: value_eq_def)+

section \<open>Properties\<close>

text \<open>Every value that a factory of the public interface returns, the default value included,
  passes the re-validation of the canonical form: sets are sorted and free of duplicates,
  ranges and intervals are ordered, bit sets have no bit above their width.\<close>

theorem factories_build_canonical:
  assumes "value_built v"
  shows "ValidateCanonical v = Inr ()"
  by (rule value_built_canonical [OF assms])

lemma factories_build_canonical_witness:
  "ValidateCanonical (V_NumericSet \<lparr>ns_unit = U_Bytes, ns_values = [3, 7, 9]\<rparr>) = Inr ()"
  by (rule factories_build_canonical, rule built_NumericSet [of U_Bytes "[9, 3, 7]"]) code_simp

text \<open>The four set factories return a canonical representative: two accepted inputs build the
  same value exactly when they hold the same elements, whatever their order.\<close>

theorem set_factories_order_independent:
  "(NumericSetValue u xs = Inr v \<and> NumericSetValue u xs' = Inr v' \<longrightarrow> (v = v' \<longleftrightarrow> set xs = set xs'))
   \<and> (ProtocolSetValue ps = Inr p \<and> ProtocolSetValue ps' = Inr p' \<longrightarrow> (p = p' \<longleftrightarrow> set ps = set ps'))
   \<and> (TupleSetValue ts = Inr t \<and> TupleSetValue ts' = Inr t' \<longrightarrow> (t = t' \<longleftrightarrow> set ts = set ts'))
   \<and> (EnumerationSetValue d cs = Inr c \<and> EnumerationSetValue d cs' = Inr c'
        \<longrightarrow> (c = c' \<longleftrightarrow> set cs = set cs'))"
  using set_factory_order by blast

lemma set_factories_order_independent_witness:
  "NumericSetValue U_Count [4, 1, 2] = NumericSetValue U_Count [2, 4, 1]
   \<and> set [4, 1, 2 :: u64] = set [2, 4, 1]"
proof -
  let ?v = "V_NumericSet \<lparr>ns_unit = U_Count, ns_values = [1, 2, 4]\<rparr>"
  have x: "NumericSetValue U_Count [4, 1, 2] = Inr ?v" by code_simp
  have y: "NumericSetValue U_Count [2, 4, 1] = Inr ?v" by code_simp
  have "?v = ?v \<longleftrightarrow> set [4, 1, 2 :: u64] = set [2, 4, 1]"
    using set_factories_order_independent [of U_Count "[4, 1, 2]" ?v "[2, 4, 1]" ?v] x y by blast
  then show ?thesis by (simp only: x y simp_thms)
qed

text \<open>Equality of values is field equality for every canonical value except version
  intervals, whose bounds are compared with zero padding; so a canonical value equals itself.\<close>

theorem value_eq_characterised:
  assumes "ValidateCanonical v = Inr ()"
  shows "value_eq v w \<longleftrightarrow> v = w
    \<or> (\<exists>i j. v = V_VersionInterval i \<and> w = V_VersionInterval j
         \<and> version_key (vi_minimum i) = version_key (vi_minimum j)
         \<and> version_key (vi_maximum i) = version_key (vi_maximum j)
         \<and> vi_minimum_inclusive i = vi_minimum_inclusive j
         \<and> vi_maximum_inclusive i = vi_maximum_inclusive j)"
  unfolding value_eq_iff [OF assms] version_interval_eq_def version_eq_key ..

lemma value_eq_characterised_witness: "\<not> value_eq (V_Boolean True) (V_Boolean False)"
  using value_eq_characterised [of "V_Boolean True" "V_Boolean False"]
  by (simp add: ValidateCanonical_def)

text \<open>Version text: a version of one to four components up to 1000000000 is read back from its
  rendering exactly when the rendering has at most 40 characters; a longer one, which two ten
  digit components suffice to produce, is rejected as malformed.\<close>

theorem Version_text_roundtrip:
  assumes "Version_FromComponents components = Inr v"
  shows "Version_Parse (Version_ToString v)
    = (if length (Version_ToString v) > 40 then Inl E_MalformedValue else Inr v)"
  using assms by (auto simp: Version_FromComponents_iff Version_Parse_ToString)

lemma Version_text_roundtrip_witness: "Version_Parse (Version_ToString [1, 20, 0]) = Inr [1, 20, 0]"
proof -
  have "Version_FromComponents [1, 20, 0] = Inr [1, 20, 0]" by code_simp
  from Version_text_roundtrip [OF this]
  show ?thesis by (simp add: Version_ToString_def nat_text.simps)
qed

end
