(* ===== verification/ValueCodec.thy ===== *)
theory ValueCodec
  imports Values "HOL-Library.Multiset"
begin

text \<open>
  The canonical byte encoding of values of \<open>value.cpp\<close>: encoders and decoders of versions, scalars
  and capability values, and the digest of a value. Versions and scalars have strict codecs;
  the decoder of values establishes the stored form, reads back every stored value, and accepts
  some non-canonical encodings, which it normalises.
\<close>

section \<open>Enumerator values\<close>

fun unit_code :: "value_unit \<Rightarrow> u8" where
  "unit_code U_None = 0"
| "unit_code U_BitsPerSecond = 1"
| "unit_code U_Bytes = 2"
| "unit_code U_BytesPerSecond = 3"
| "unit_code U_Count = 4"
| "unit_code U_Packets = 5"
| "unit_code U_Nanoseconds = 6"
| "unit_code U_Microseconds = 7"
| "unit_code U_Milliseconds = 8"
| "unit_code U_Percent = 9"
| "unit_code U_DecibelMilliwatts = 10"
| "unit_code U_MillidegreesCelsius = 11"
| "unit_code U_Nanometers = 12"

definition unit_of_code :: "u8 \<Rightarrow> value_unit" where
  "unit_of_code tag = map fst kUnitNames ! unat tag"

definition all_kinds :: "value_kind list" where
  "all_kinds = [K_Absent, K_Boolean, K_Integer, K_Quantity, K_Enumeration, K_BitSet, K_NumericSet,
     K_NumericRange, K_VersionInterval, K_ProtocolSet, K_Tuple, K_TupleSet, K_Record, K_Opaque,
     K_EnumSet]"

fun kind_code :: "value_kind \<Rightarrow> u8" where
  "kind_code K_Absent = 0"
| "kind_code K_Boolean = 1"
| "kind_code K_Integer = 2"
| "kind_code K_Quantity = 3"
| "kind_code K_Enumeration = 4"
| "kind_code K_BitSet = 5"
| "kind_code K_NumericSet = 6"
| "kind_code K_NumericRange = 7"
| "kind_code K_VersionInterval = 8"
| "kind_code K_ProtocolSet = 9"
| "kind_code K_Tuple = 10"
| "kind_code K_TupleSet = 11"
| "kind_code K_Record = 12"
| "kind_code K_Opaque = 13"
| "kind_code K_EnumSet = 14"

definition kind_of_code :: "u8 \<Rightarrow> value_kind" where
  "kind_of_code tag = all_kinds ! unat tag"

section \<open>Encoders\<close>

text \<open>\<open>static_cast<std::uint32_t>(size)\<close>, and the status of \<open>writer.Text\<close> that callers drop.\<close>

definition put_size :: "nat \<Rightarrow> bytes" where
  "put_size n = put_u32 (word_of_nat n)"

definition write_text :: "nat \<Rightarrow> string \<Rightarrow> bytes" where
  "write_text max_length t = appended (put_text t max_length)"

definition write_bytes :: "nat \<Rightarrow> bytes \<Rightarrow> bytes" where
  "write_bytes max_length data = appended (put_bytes data max_length)"

definition Version_Encode :: "version \<Rightarrow> bytes" where
  "Version_Encode v = put_u8 (word_of_nat (length v)) @ concat (map put_u32 v)"

definition enum_encode :: "enum_value \<Rightarrow> bytes" where
  "enum_encode e = write_text kMaxEnumDomainIdLength (ev_domain e) @ put_u32 (ev_code e)"

definition Scalar_Encode :: "scalar_value \<Rightarrow> bytes" where
  "Scalar_Encode s = put_u8 (word_of_nat (scalar_kind s)) @ (case s of
     S_Boolean b \<Rightarrow> put_bool b
   | S_Signed i \<Rightarrow> put_i64 i
   | S_Unsigned w \<Rightarrow> put_u64 w
   | S_Enumeration e \<Rightarrow> enum_encode e
   | S_Text t \<Rightarrow> write_text kMaxTextLength t)"

definition tuple_encode :: "tuple_value \<Rightarrow> bytes" where
  "tuple_encode t = put_size (length t) @ concat (map Scalar_Encode t)"

definition field_encode :: "record_field \<Rightarrow> bytes" where
  "field_encode f = write_text 48 (rf_name f) @ Scalar_Encode (rf_value f)"

definition Value_Encode :: "capability_value \<Rightarrow> bytes" where
  "Value_Encode v = put_u8 (kind_code (Value_Kind v)) @ (case v of
     V_Absent \<Rightarrow> []
   | V_Boolean b \<Rightarrow> put_bool b
   | V_Integer i \<Rightarrow> put_i64 i
   | V_Quantity q \<Rightarrow> put_u64 (q_value q) @ put_u8 (unit_code (q_unit q))
   | V_Enumeration e \<Rightarrow> enum_encode e
   | V_BitSet s \<Rightarrow> put_u32 (bs_bit_count s) @ put_size (length (bs_words s))
       @ concat (map put_u64 (bs_words s))
   | V_NumericSet s \<Rightarrow> put_u8 (unit_code (ns_unit s)) @ put_size (length (ns_values s))
       @ concat (map put_u64 (ns_values s))
   | V_NumericRange r \<Rightarrow> put_u8 (unit_code (nr_unit r)) @ put_u64 (nr_minimum r)
       @ put_u64 (nr_maximum r)
   | V_VersionInterval i \<Rightarrow> Version_Encode (vi_minimum i) @ put_bool (vi_minimum_inclusive i)
       @ Version_Encode (vi_maximum i) @ put_bool (vi_maximum_inclusive i)
   | V_ProtocolSet ps \<Rightarrow> put_size (length ps) @ concat (map put_u16 ps)
   | V_Tuple t \<Rightarrow> tuple_encode t
   | V_TupleSet ts \<Rightarrow> put_size (length ts) @ concat (map tuple_encode ts)
   | V_Record flds \<Rightarrow> put_size (length flds) @ concat (map field_encode flds)
   | V_Opaque p \<Rightarrow> write_text 64 (op_encoding p)
       @ write_bytes kMaxExtensionPayloadBytes (op_bytes p)
   | V_EnumSet s \<Rightarrow> write_text kMaxEnumDomainIdLength (es_domain s)
       @ put_size (length (es_codes s)) @ concat (map put_u32 (es_codes s)))"

definition DigestOf :: "capability_value \<Rightarrow> digest" where
  "DigestOf v = ComputeDigest (Value_Encode v)"

section \<open>Decoders\<close>

definition rd_guard :: "bool \<Rightarrow> error_code \<Rightarrow> 'a reader \<Rightarrow> 'a reader" where
  "rd_guard rejected e r = (if rejected then rd_fail e else r)"

definition version_component_read :: "u32 reader" where
  "version_component_read = rd_bind get_u32 (\<lambda>component.
     rd_guard (component > kMaxVersionComponent) E_ValueOutOfRange (rd_return component))"

definition Version_Decode :: "version reader" where
  "Version_Decode = rd_bind get_u8 (\<lambda>count.
     rd_guard (unat count < 1 \<or> unat count > kMaxVersionComponents) E_MalformedEncoding
       (rd_repeat (unat count) version_component_read))"

definition domain_read :: "token reader" where
  "domain_read = rd_bind (get_text kMaxEnumDomainIdLength) (\<lambda>t. rd_lift (EnumDomainId_Parse t))"

definition unit_read :: "value_unit reader" where
  "unit_read = rd_bind get_u8 (\<lambda>tag.
     rd_guard (tag > unit_code U_Nanometers) E_MalformedEncoding (rd_return (unit_of_code tag)))"

definition Scalar_Decode :: "scalar_value reader" where
  "Scalar_Decode = rd_bind get_u8 (\<lambda>kind.
     if kind = 0 then rd_bind get_bool (\<lambda>b. rd_return (S_Boolean b))
     else if kind = 1 then rd_bind get_i64 (\<lambda>i.
       rd_guard (i > kMaxInteger \<or> i < kMinInteger) E_ValueOutOfRange (rd_return (S_Signed i)))
     else if kind = 2 then rd_bind get_u64 (\<lambda>w.
       rd_guard (w > kMaxQuantity) E_ValueOutOfRange (rd_return (S_Unsigned w)))
     else if kind = 3 then rd_bind domain_read (\<lambda>domain. rd_bind get_u32 (\<lambda>code.
       rd_lift (Scalar_Enumeration domain code)))
     else if kind = 4 then rd_bind (get_text kMaxTextLength) (\<lambda>t. rd_lift (Scalar_Text t))
     else rd_fail E_MalformedEncoding)"

text \<open>The count of a collection with its bound, then the loop over its elements.\<close>

definition counted :: "nat \<Rightarrow> 'a reader \<Rightarrow> 'a list reader" where
  "counted bound r = rd_bind get_u32 (\<lambda>count.
     rd_guard (unat count > bound) E_TooManyItems (rd_repeat (unat count) r))"

definition tuple_read :: "tuple_value reader" where
  "tuple_read = rd_bind get_u32 (\<lambda>arity.
     rd_guard (unat arity < 2 \<or> unat arity > kMaxTupleArity) E_ValueOutOfRange
       (rd_repeat (unat arity) Scalar_Decode))"

definition field_read :: "record_field reader" where
  "field_read = rd_bind (get_text 48) (\<lambda>name. rd_bind Scalar_Decode (\<lambda>val.
     rd_return \<lparr>rf_name = name, rf_value = val\<rparr>))"

definition Value_Decode_body :: "value_kind \<Rightarrow> capability_value reader" where
  "Value_Decode_body kind = (case kind of
     K_Absent \<Rightarrow> rd_return V_Absent
   | K_Boolean \<Rightarrow> rd_bind get_bool (\<lambda>b. rd_return (V_Boolean b))
   | K_Integer \<Rightarrow> rd_bind get_i64 (\<lambda>i.
       rd_guard (i > kMaxInteger \<or> i < kMinInteger) E_ValueOutOfRange (rd_return (V_Integer i)))
   | K_Quantity \<Rightarrow> rd_bind get_u64 (\<lambda>val. rd_bind unit_read (\<lambda>unt.
       rd_lift (QuantityValue val unt)))
   | K_Enumeration \<Rightarrow> rd_bind domain_read (\<lambda>domain. rd_bind get_u32 (\<lambda>code.
       rd_lift (EnumerationValue domain code)))
   | K_BitSet \<Rightarrow> rd_bind get_u32 (\<lambda>bit_count. rd_bind get_u32 (\<lambda>word_count.
       let expected = WordsForBits bit_count in
       rd_guard (unat word_count \<noteq> expected \<or> expected > WordsForBits (word_of_nat kMaxBitSetBits))
         E_ValueNotCanonical
         (rd_bind (rd_repeat expected get_u64) (\<lambda>words. rd_lift (BitSetValue bit_count words)))))
   | K_NumericSet \<Rightarrow> rd_bind unit_read (\<lambda>unt.
       rd_bind (counted kMaxSetCardinality get_u64) (\<lambda>vals.
         rd_guard (\<not> strictly_ascending vals) E_ValueNotCanonical
           (rd_lift (NumericSetValue unt vals))))
   | K_NumericRange \<Rightarrow> rd_bind unit_read (\<lambda>unt. rd_bind get_u64 (\<lambda>minimum.
       rd_bind get_u64 (\<lambda>maximum. rd_lift (NumericRangeValue unt minimum maximum))))
   | K_VersionInterval \<Rightarrow> rd_bind Version_Decode (\<lambda>minimum. rd_bind get_bool (\<lambda>min_inclusive.
       rd_bind Version_Decode (\<lambda>maximum. rd_bind get_bool (\<lambda>max_inclusive.
         rd_lift (VersionIntervalValue minimum min_inclusive maximum max_inclusive)))))
   | K_ProtocolSet \<Rightarrow> rd_bind (counted kMaxProtocolsInSet get_u16) (\<lambda>ps.
       rd_lift (ProtocolSetValue ps))
   | K_Tuple \<Rightarrow> rd_bind tuple_read (\<lambda>t. rd_lift (TupleValueOf t))
   | K_TupleSet \<Rightarrow> rd_bind (counted kMaxTupleSetCardinality tuple_read) (\<lambda>ts.
       rd_lift (TupleSetValue ts))
   | K_Record \<Rightarrow> rd_bind (counted kMaxRecordFields field_read) (\<lambda>flds. rd_lift (RecordValue flds))
   | K_Opaque \<Rightarrow> rd_bind (get_text 64) (\<lambda>encoding.
       rd_bind (get_bytes kMaxExtensionPayloadBytes) (\<lambda>data.
         rd_lift (OpaqueValue encoding data)))
   | K_EnumSet \<Rightarrow> rd_bind domain_read (\<lambda>domain.
       rd_bind (counted kMaxSetCardinality get_u32) (\<lambda>codes.
         rd_lift (EnumerationSetValue domain codes))))"

definition Value_Decode :: "capability_value reader" where
  "Value_Decode = rd_bind get_u8 (\<lambda>tag.
     rd_guard (tag > kind_code K_EnumSet) E_MalformedEncoding
       (Value_Decode_body (kind_of_code tag)))"

section \<open>Strict codecs of the parts\<close>

lemma rd_guard_apply [codec_simps]: "rd_guard b e r bs = (if b then Inl e else r bs)"
  by (simp add: rd_guard_def codec_simps)

lemma text_byte_ok_unat: "text_byte_ok b \<longleftrightarrow> 32 \<le> unat b \<and> unat b \<noteq> 127"
  by (simp add: text_byte_ok_def word_less_nat_alt not_less word_unat_eq_iff)

lemma unat_char_byte: "unat (char_byte c) = of_char c"
  by (simp add: char_byte_def unat_of_nat)

lemma text_byte_ok_char: "text_byte_ok (char_byte c) \<longleftrightarrow> CHR '' '' \<le> c \<and> of_char c \<noteq> (127::nat)"
  by (simp add: text_byte_ok_unat unat_char_byte less_eq_char_def)

lemma token_text_ok:
  assumes "ValidateToken t cs lo hi = Inr ()" and "0 < lo" and "hi < 2 ^ 32"
  shows "text_ok hi t"
proof -
  have len: "lo \<le> length t" "length t \<le> hi" and ok: "token_ok cs t"
    using assms(1) by (simp_all add: ValidateToken_iff)
  have "text_byte_ok (char_byte c)" if "c \<in> set t" for c
    using ok that unfolding text_byte_ok_char
    by (cases cs)
      (fastforce simp: token_ok_def alnum_def IsLowerAlpha_def IsDigit_def IsHexDigit_def
        IsEntitySeparator_def IsSeparator_def IsPrintable_def less_eq_char_def)+
  then show ?thesis using len assms(3)
    by (simp add: text_ok_def text_bytes_def list_all_iff)
qed

lemma domain_text_ok: "EnumDomainId_Parse d = Inr d \<Longrightarrow> text_ok kMaxEnumDomainIdLength d"
  by (rule token_text_ok [of d LowerToken 1])
    (auto simp: EnumDomainId_Parse_def TokenId_Parse_def obind_Inr_iff)

interpretation component: strict_codec "\<lambda>c. c \<le> kMaxVersionComponent" put_u32 version_component_read
  by unfold_locales
    (auto simp: version_component_read_def codec_simps u32.dec_iff u32.roundtrip obind_Inr_iff not_less
      split: if_splits)

lemma unat_word_of_nat_small: "n < 256 \<Longrightarrow> unat (word_of_nat n :: u8) = n"
  by (simp add: unat_of_nat)

interpretation version: strict_codec version_ok Version_Encode Version_Decode
proof unfold_locales
  fix v rest assume v: "version_ok v"
  then have "v \<noteq> []" "length v \<le> 4" "\<forall>c\<in>set v. c \<le> kMaxVersionComponent"
    by (auto simp: version_ok_def list_all_iff)
  then show "Version_Decode (Version_Encode v @ rest) = Inr (v, rest)"
    by (simp add: Version_Decode_def Version_Encode_def codec_simps u8.roundtrip
        unat_word_of_nat_small component.repeat_roundtrip)
next
  fix bs v rest assume "Version_Decode bs = Inr (v, rest)"
  then obtain n mid where bs: "bs = put_u8 n @ mid" and n: "1 \<le> unat n" "unat n \<le> 4"
    and r: "rd_repeat (unat n) version_component_read mid = Inr (v, rest)"
    by (auto simp: Version_Decode_def codec_simps obind_Inr_iff u8.dec_iff not_less split: if_splits)
  from component.repeat_canonical [OF r] n bs
  show "version_ok v \<and> bs = Version_Encode v @ rest"
    by (auto simp: version_ok_def list_all_iff Version_Encode_def)
qed

interpretation domain: strict_codec
  "\<lambda>d. EnumDomainId_Parse d = Inr d" "write_text kMaxEnumDomainIdLength" domain_read
proof unfold_locales
  fix d rest assume d: "EnumDomainId_Parse d = Inr d"
  then show "domain_read (write_text kMaxEnumDomainIdLength d @ rest) = Inr (d, rest)"
    by (simp add: domain_read_def write_text_def codec_simps str.roundtrip domain_text_ok)
next
  fix bs d rest assume "domain_read bs = Inr (d, rest)"
  then show "EnumDomainId_Parse d = Inr d \<and> bs = write_text kMaxEnumDomainIdLength d @ rest"
    by (auto simp: domain_read_def write_text_def codec_simps str.dec_iff obind_Inr_iff
        dest: EnumDomainId_Parse_set)
qed

lemma unit_code_bound [simp]: "\<not> unit_code u > 12"
  by (cases u) simp_all

lemma unit_of_code_unit_code [simp]: "unit_of_code (unit_code u) = u"
  by (cases u) (simp_all add: unit_of_code_def kUnitNames_def)

lemma unit_code_unit_of_code:
  assumes "\<not> tag > unit_code U_Nanometers"
  shows "unit_code (unit_of_code tag) = tag"
proof -
  have "unat tag \<in> set [0..<13]" using assms by (simp add: word_less_nat_alt)
  moreover have "\<forall>n\<in>set [0..<13]. unit_code (map fst kUnitNames ! n) = word_of_nat n" by code_simp
  ultimately have "unit_code (map fst kUnitNames ! unat tag) = word_of_nat (unat tag)" by blast
  then show ?thesis by (simp add: unit_of_code_def)
qed

interpretation unt: strict_codec "\<lambda>_. True" "\<lambda>u. put_u8 (unit_code u)" unit_read
  by unfold_locales
    (auto simp: unit_read_def codec_simps u8.roundtrip u8.dec_iff obind_Inr_iff unit_code_bound
      unit_code_unit_of_code split: if_splits)

lemma Scalar_Enumeration_Inr:
  "Scalar_Enumeration d c = Inr s \<longleftrightarrow> d \<noteq> [] \<and> s = S_Enumeration \<lparr>ev_domain = d, ev_code = c\<rparr>"
  by (auto simp: Scalar_Enumeration_def IsSet_def)

lemma Scalar_Text_Inr:
  "Scalar_Text t = Inr s \<longleftrightarrow> t \<noteq> [] \<and> length t \<le> kMaxTextLength \<and> s = S_Text t"
  by (auto simp: Scalar_Text_def)

lemma scalar_kind_code: "unat (word_of_nat (scalar_kind s) :: u8) = scalar_kind s"
  by (cases s) simp_all

lemma integer_bound_i64: "kMinInteger \<le> i \<Longrightarrow> i \<le> kMaxInteger \<Longrightarrow> i64_ok i"
  by (simp add: i64_ok_def)

lemma Scalar_roundtrip:
  assumes ok: "scalar_ok s"
  shows "Scalar_Decode (Scalar_Encode s @ rest) = Inr (s, rest)"
proof (cases s)
  case (S_Signed i)
  then have "kMinInteger \<le> i" "i \<le> kMaxInteger" using ok by (simp_all add: scalar_ok_def)
  then show ?thesis using S_Signed
    by (simp add: Scalar_Decode_def Scalar_Encode_def codec_simps u8.roundtrip i64.roundtrip
        integer_bound_i64)
next
  case (S_Enumeration e)
  then have d: "EnumDomainId_Parse (ev_domain e) = Inr (ev_domain e)"
    using ok by (simp add: scalar_ok_def)
  then have "ev_domain e \<noteq> []" using EnumDomainId_Parse_set by blast
  then show ?thesis using S_Enumeration d
    by (simp add: Scalar_Decode_def Scalar_Encode_def enum_encode_def codec_simps u8.roundtrip
        u32.roundtrip domain.roundtrip Scalar_Enumeration_def IsSet_def)
next
  case (S_Text t)
  then have "t \<noteq> []" "text_ok kMaxTextLength t" using ok by (simp_all add: scalar_ok_def)
  moreover then have "length t \<le> kMaxTextLength" by (simp add: text_ok_def)
  ultimately show ?thesis using S_Text
    by (simp add: Scalar_Decode_def Scalar_Encode_def write_text_def codec_simps u8.roundtrip
        str.roundtrip Scalar_Text_def)
qed (use ok in \<open>simp_all add: Scalar_Decode_def Scalar_Encode_def codec_simps u8.roundtrip
    bool8.roundtrip u64.roundtrip scalar_ok_def not_less\<close>)

lemma Scalar_canonical:
  assumes "Scalar_Decode bs = Inr (s, rest)"
  shows "scalar_ok s \<and> bs = Scalar_Encode s @ rest"
proof -
  from assms obtain k mid where bs: "bs = put_u8 k @ mid"
    and body: "Scalar_Decode (put_u8 k @ mid) = Inr (s, rest)"
    by (auto simp: Scalar_Decode_def codec_simps obind_Inr_iff u8.dec_iff)
  note d = body [unfolded Scalar_Decode_def rd_simps u8.roundtrip [OF TrueI] obind_simps prod.case]
  consider "k = 0" | "k = 1" | "k = 2" | "k = 3" | "k = 4"
    using d by (auto simp: codec_simps split: if_splits)
  then show ?thesis
  proof cases
    case 1
    then show ?thesis using d bs
      by (auto simp: codec_simps obind_Inr_iff bool8.dec_iff scalar_ok_def Scalar_Encode_def)
  next
    case 2
    then show ?thesis using d bs
      by (auto simp: codec_simps obind_Inr_iff i64.dec_iff scalar_ok_def Scalar_Encode_def
          not_less split: if_splits)
  next
    case 3
    then show ?thesis using d bs
      by (auto simp: codec_simps obind_Inr_iff u64.dec_iff scalar_ok_def Scalar_Encode_def
          not_less split: if_splits)
  next
    case 4
    then show ?thesis using d bs
      by (auto simp: codec_simps obind_Inr_iff domain.dec_iff u32.dec_iff scalar_ok_def
          Scalar_Encode_def enum_encode_def Scalar_Enumeration_Inr)
  next
    case 5
    then show ?thesis using d bs
      by (auto simp: codec_simps obind_Inr_iff str.dec_iff scalar_ok_def Scalar_Encode_def
          write_text_def Scalar_Text_Inr)
  qed
qed

interpretation scalar: strict_codec scalar_ok Scalar_Encode Scalar_Decode
  by unfold_locales (simp_all add: Scalar_roundtrip Scalar_canonical)

lemma unat_size: "n < 2 ^ 32 \<Longrightarrow> unat (word_of_nat n :: u32) = n"
  by (rule unat_word_of_nat_u32)

interpretation tuple: strict_codec tuple_ok tuple_encode tuple_read
proof unfold_locales
  fix t rest assume t: "tuple_ok t"
  then have "2 \<le> length t" "length t \<le> 8" "\<forall>s\<in>set t. scalar_ok s"
    by (auto simp: tuple_ok_def list_all_iff)
  then show "tuple_read (tuple_encode t @ rest) = Inr (t, rest)"
    by (simp add: tuple_read_def tuple_encode_def put_size_def codec_simps u32.roundtrip
        unat_size scalar.repeat_roundtrip)
next
  fix bs t rest assume "tuple_read bs = Inr (t, rest)"
  then obtain n mid where bs: "bs = put_u32 n @ mid" and n: "2 \<le> unat n" "unat n \<le> 8"
    and r: "rd_repeat (unat n) Scalar_Decode mid = Inr (t, rest)"
    by (auto simp: tuple_read_def codec_simps obind_Inr_iff u32.dec_iff not_less split: if_splits)
  from scalar.repeat_canonical [OF r] n bs
  show "tuple_ok t \<and> bs = tuple_encode t @ rest"
    by (auto simp: tuple_ok_def list_all_iff tuple_encode_def put_size_def)
qed

definition field_ok :: "record_field \<Rightarrow> bool" where
  "field_ok f \<longleftrightarrow> text_ok 48 (rf_name f) \<and> scalar_ok (rf_value f)"

interpretation field: strict_codec field_ok field_encode field_read
  by unfold_locales
    (auto simp: field_read_def field_encode_def field_ok_def write_text_def codec_simps
      str.roundtrip scalar.roundtrip obind_Inr_iff str.dec_iff scalar.dec_iff)

context codec
begin

lemma counted_roundtrip:
  "\<forall>x\<in>set xs. ok x \<Longrightarrow> length xs \<le> bound \<Longrightarrow> length xs < 2 ^ 32 \<Longrightarrow>
     counted bound dec (put_size (length xs) @ concat (map enc xs) @ rest) = Inr (xs, rest)"
  by (simp add: counted_def put_size_def codec_simps u32.roundtrip unat_size repeat_roundtrip)

end

context strict_codec
begin

lemma counted_canonical:
  assumes "counted bound dec bs = Inr (xs, rest)"
  shows "(\<forall>x\<in>set xs. ok x) \<and> length xs \<le> bound
    \<and> bs = put_size (length xs) @ concat (map enc xs) @ rest"
proof -
  from assms obtain n mid where bs: "bs = put_u32 n @ mid" and n: "unat n \<le> bound"
    and r: "rd_repeat (unat n) dec mid = Inr (xs, rest)"
    by (auto simp: counted_def codec_simps obind_Inr_iff u32.dec_iff not_less split: if_splits)
  from repeat_canonical [OF r] n bs show ?thesis by (auto simp: put_size_def)
qed

end

section \<open>Decoding establishes the stored form\<close>

lemmas read_parts = codec_simps obind_Inr_iff u8.dec_iff u16.dec_iff u32.dec_iff u64.dec_iff
  i64.dec_iff bool8.dec_iff str.dec_iff payload.dec_iff unt.dec_iff domain.dec_iff version.dec_iff
  scalar.dec_iff tuple.dec_iff field.dec_iff

lemma Value_Decode_body_ok: "Value_Decode_body k bs = Inr (v, rest) \<Longrightarrow> value_ok v"
proof (cases k)
  case K_TupleSet
  assume "Value_Decode_body k bs = Inr (v, rest)"
  then obtain ts mid where c: "counted kMaxTupleSetCardinality tuple_read bs = Inr (ts, mid)"
    and f: "TupleSetValue ts = Inr v"
    using K_TupleSet by (auto simp: Value_Decode_body_def codec_simps obind_Inr_iff)
  have "list_all (list_all scalar_ok) ts"
    using tuple.counted_canonical [OF c] by (auto simp: list_all_iff tuple_ok_def)
  then show ?thesis using f by (rule TupleSetValue_ok)
next
  case K_Record
  assume "Value_Decode_body k bs = Inr (v, rest)"
  then obtain flds mid where c: "counted kMaxRecordFields field_read bs = Inr (flds, mid)"
    and f: "RecordValue flds = Inr v"
    using K_Record by (auto simp: Value_Decode_body_def codec_simps obind_Inr_iff)
  have "list_all (\<lambda>f. scalar_ok (rf_value f)) flds"
    using field.counted_canonical [OF c] by (auto simp: list_all_iff field_ok_def)
  then show ?thesis using f by (rule RecordValue_ok)
next
  case K_Tuple
  assume "Value_Decode_body k bs = Inr (v, rest)"
  then show ?thesis using K_Tuple
    by (auto simp: Value_Decode_body_def read_parts tuple_ok_def intro: TupleValueOf_ok)
next
  case K_VersionInterval
  assume "Value_Decode_body k bs = Inr (v, rest)"
  then show ?thesis using K_VersionInterval
    by (auto simp: Value_Decode_body_def read_parts intro: VersionIntervalValue_ok)
next
  case K_Enumeration
  assume "Value_Decode_body k bs = Inr (v, rest)"
  then show ?thesis using K_Enumeration
    by (auto simp: Value_Decode_body_def read_parts intro: EnumerationValue_ok)
next
  case K_EnumSet
  assume "Value_Decode_body k bs = Inr (v, rest)"
  then show ?thesis using K_EnumSet
    by (auto simp: Value_Decode_body_def read_parts intro: EnumerationSetValue_ok)
next
  case K_Integer
  assume "Value_Decode_body k bs = Inr (v, rest)"
  then show ?thesis using K_Integer
    by (auto simp: Value_Decode_body_def read_parts value_ok_def not_less split: if_splits)
next
  case K_BitSet
  assume "Value_Decode_body k bs = Inr (v, rest)"
  then show ?thesis using K_BitSet
    by (auto simp: Value_Decode_body_def codec_simps obind_Inr_iff Let_def
        intro: BitSetValue_ok split: if_splits)
qed (auto simp: Value_Decode_body_def codec_simps obind_Inr_iff value_ok_def [of V_Absent]
    value_ok_def [of "V_Boolean _"] intro: factory_ok split: if_splits)

lemma Value_Decode_ok: "Value_Decode bs = Inr (v, rest) \<Longrightarrow> value_ok v"
  by (auto simp: Value_Decode_def codec_simps obind_Inr_iff intro: Value_Decode_body_ok
      split: if_splits)

lemma obind_check_each:
  "\<forall>x\<in>set xs. f x = Inr () \<Longrightarrow> obind (check_each f xs) g = g ()"
  by (metis check_each_Inr_iff obind_simps(2))

section \<open>Stored values are read back\<close>

lemma kind_code_bound [simp]: "\<not> kind_code k > 14"
  by (cases k) simp_all

lemma kind_of_code_kind_code [simp]: "kind_of_code (kind_code k) = k"
  by (cases k) (simp_all add: kind_of_code_def all_kinds_def)

lemma Value_Decode_tag:
  "Value_Decode (put_u8 (kind_code k) @ bs) = Value_Decode_body k bs"
  by (simp add: Value_Decode_def codec_simps u8.roundtrip)

lemma tl_put_u8 [simp]: "tl (put_u8 c @ bs) = bs" "tl (put_u8 c) = []"
  by (simp_all add: put_u8_def)

lemma Value_Decode_Encode_body:
  "Value_Decode (Value_Encode v @ rest) =
     Value_Decode_body (Value_Kind v) (tl (Value_Encode v) @ rest)"
proof -
  have "Value_Encode v = put_u8 (kind_code (Value_Kind v)) @ tl (Value_Encode v)"
    by (simp add: Value_Encode_def)
  then show ?thesis
    by (metis (no_types, lifting) Value_Decode_tag append.assoc)
qed

text \<open>A factory applied to the parts of a stored value rebuilds it.\<close>

lemma sort_ascending_facts:
  "strictly_ascending xs \<Longrightarrow> sort xs = xs \<and> \<not> adjacent_equal xs"
  using strictly_ascending_sort sorted_not_adjacent by blast

lemma sort_key_ascending:
  assumes "strictly_ascending (map f xs)"
  shows "sort_key f xs = xs"
  using assms by (simp add: sort_key_id_if_sorted strictly_ascending_sorted)

lemma rebuild_scalar_kinds:
  "value_ok (V_Quantity q) \<Longrightarrow> QuantityValue (q_value q) (q_unit q) = Inr (V_Quantity q)"
  "value_ok (V_Enumeration e) \<Longrightarrow>
     EnumerationValue (ev_domain e) (ev_code e) = Inr (V_Enumeration e)"
  "value_ok (V_NumericRange r) \<Longrightarrow>
     NumericRangeValue (nr_unit r) (nr_minimum r) (nr_maximum r) = Inr (V_NumericRange r)"
  "value_ok (V_VersionInterval i) \<Longrightarrow>
     VersionIntervalValue (vi_minimum i) (vi_minimum_inclusive i) (vi_maximum i)
       (vi_maximum_inclusive i) = Inr (V_VersionInterval i)"
  "value_ok (V_Opaque p) \<Longrightarrow> OpaqueValue (op_encoding p) (op_bytes p) = Inr (V_Opaque p)"
  "value_ok (V_Tuple t) \<Longrightarrow> TupleValueOf t = Inr (V_Tuple t)"
proof -
  assume "value_ok (V_Enumeration e)"
  then show "EnumerationValue (ev_domain e) (ev_code e) = Inr (V_Enumeration e)"
    using EnumDomainId_Parse_set by (auto simp: value_ok_def EnumerationValue_def IsSet_def)
qed (auto simp: value_ok_def QuantityValue_def NumericRangeValue_def VersionIntervalValue_def
    OpaqueValue_def TupleValueOf_def tuple_ok_def version_ok_def not_less
    RequireQuantityUnit_def IsQuantityUnit_def)

lemma clear_words:
  "BitsAboveCountAreClear s \<Longrightarrow> length (bs_words s) = WordsForBits (bs_bit_count s)"
  by (simp add: BitsAboveCountAreClear_def Let_def split: if_splits)

lemma rebuild_sets:
  "value_ok (V_BitSet s) \<Longrightarrow> BitSetValue (bs_bit_count s) (bs_words s) = Inr (V_BitSet s)"
  "value_ok (V_NumericSet n) \<Longrightarrow> NumericSetValue (ns_unit n) (ns_values n) = Inr (V_NumericSet n)"
  "value_ok (V_ProtocolSet ps) \<Longrightarrow> ProtocolSetValue ps = Inr (V_ProtocolSet ps)"
  "value_ok (V_EnumSet es) \<Longrightarrow>
     EnumerationSetValue (es_domain es) (es_codes es) = Inr (V_EnumSet es)"
proof -
  assume "value_ok (V_BitSet s)"
  then show "BitSetValue (bs_bit_count s) (bs_words s) = Inr (V_BitSet s)"
    using clear_words by (cases s) (fastforce simp: value_ok_def BitSetValue_def Let_def)
next
  assume ok: "value_ok (V_NumericSet n)"
  then have a: "strictly_ascending (ns_values n)" by (simp add: value_ok_def)
  show "NumericSetValue (ns_unit n) (ns_values n) = Inr (V_NumericSet n)"
    using ok sort_ascending_facts [OF a]
    by (auto simp: value_ok_def NumericSetValue_def RequireQuantityUnit_def IsQuantityUnit_def
        Let_def list_ex_greater)
next
  assume ok: "value_ok (V_ProtocolSet ps)"
  then have a: "strictly_ascending ps" by (simp add: value_ok_def)
  show "ProtocolSetValue ps = Inr (V_ProtocolSet ps)"
    using ok sort_ascending_facts [OF a]
    by (auto simp: value_ok_def ProtocolSetValue_def Let_def list_all_iff list_ex_iff)
next
  assume ok: "value_ok (V_EnumSet es)"
  then have a: "strictly_ascending (es_codes es)" by (simp add: value_ok_def)
  show "EnumerationSetValue (es_domain es) (es_codes es) = Inr (V_EnumSet es)"
    using ok sort_ascending_facts [OF a] EnumDomainId_Parse_set
    by (auto simp: value_ok_def EnumerationSetValue_def IsSet_def Let_def)
qed

lemma rebuild_TupleSet:
  assumes ok: "value_ok (V_TupleSet ts)"
  shows "TupleSetValue ts = Inr (V_TupleSet ts)"
proof -
  have a: "strictly_ascending ts" using ok by (simp add: value_ok_def)
  have "\<forall>t\<in>set ts. tuple_arity_check (length (hd ts)) t = Inr ()"
    using ok by (simp add: value_ok_def tuple_arity_check_Inr list_all_iff tuple_ok_def)
  then show ?thesis using ok sort_ascending_facts [OF a]
    by (simp add: obind_check_each TupleSetValue_def value_ok_def Let_def)
qed

lemma rebuild_Record:
  assumes ok: "value_ok (V_Record flds)"
  shows "RecordValue flds = Inr (V_Record flds)"
proof -
  have a: "strictly_ascending (map rf_name flds)" using ok by (simp add: value_ok_def)
  have "\<forall>f\<in>set flds. ValidateToken (rf_name f) LowerToken 1 48 = Inr ()"
    using ok by (simp add: value_ok_def list_all_iff)
  then show ?thesis using ok sort_ascending_facts [OF a] sort_key_ascending [OF a]
    by (simp add: obind_check_each RecordValue_def value_ok_def Let_def)
qed

lemmas write_parts = codec_simps u8.roundtrip u16.roundtrip u32.roundtrip u64.roundtrip
  i64.roundtrip bool8.roundtrip domain.roundtrip version.roundtrip tuple.roundtrip unt.roundtrip

lemma WordsForBits_max: "WordsForBits (word_of_nat kMaxBitSetBits) = 64"
  by (simp add: WordsForBits_def)

lemma Value_Decode_body_BitSet:
  assumes ok: "value_ok (V_BitSet s)"
  shows "Value_Decode_body K_BitSet (put_u32 (bs_bit_count s) @ put_size (length (bs_words s))
      @ concat (map put_u64 (bs_words s)) @ rest) = Inr (V_BitSet s, rest)"
proof -
  have len: "length (bs_words s) = WordsForBits (bs_bit_count s)"
    and n: "unat (bs_bit_count s) \<le> 4096"
    using ok clear_words by (auto simp: value_ok_def)
  then have w: "WordsForBits (bs_bit_count s) \<le> 64" by (simp add: WordsForBits_def)
  then have "unat (word_of_nat (length (bs_words s)) :: u32) = WordsForBits (bs_bit_count s)"
    unfolding len by (intro unat_size) simp
  then show ?thesis
    using w rebuild_sets(1) [OF ok] u64.repeat_roundtrip [of "bs_words s" rest] len WordsForBits_max
    by (simp add: Value_Decode_body_def put_size_def codec_simps u32.roundtrip Let_def)
qed

lemma Value_roundtrip:
  assumes ok: "value_ok v"
  shows "Value_Decode (Value_Encode v @ rest) = Inr (v, rest)"
proof (cases v)
  case (V_Integer i)
  then show ?thesis using ok
    unfolding Value_Decode_Encode_body
    by (auto simp: Value_Encode_def Value_Decode_body_def write_parts value_ok_def
        integer_bound_i64)
next
  case (V_BitSet s)
  then show ?thesis using ok Value_Decode_body_BitSet
    unfolding Value_Decode_Encode_body by (simp add: Value_Encode_def)
next
  case (V_NumericSet s)
  then have "counted kMaxSetCardinality get_u64
      (put_size (length (ns_values s)) @ concat (map put_u64 (ns_values s)) @ rest)
      = Inr (ns_values s, rest)" and "strictly_ascending (ns_values s)"
    using ok by (auto simp: value_ok_def intro!: u64.counted_roundtrip)
  then show ?thesis using V_NumericSet ok rebuild_sets(2)
    unfolding Value_Decode_Encode_body
    by (simp_all add: Value_Encode_def Value_Decode_body_def write_parts)
next
  case (V_ProtocolSet ps)
  then have "counted kMaxProtocolsInSet get_u16
      (put_size (length ps) @ concat (map put_u16 ps) @ rest) = Inr (ps, rest)"
    using ok by (auto simp: value_ok_def intro!: u16.counted_roundtrip)
  then show ?thesis using V_ProtocolSet ok rebuild_sets(3)
    unfolding Value_Decode_Encode_body
    by (simp_all add: Value_Encode_def Value_Decode_body_def write_parts)
next
  case (V_TupleSet ts)
  then have "counted kMaxTupleSetCardinality tuple_read
      (put_size (length ts) @ concat (map tuple_encode ts) @ rest) = Inr (ts, rest)"
    using ok by (intro tuple.counted_roundtrip) (simp_all add: value_ok_def list_all_iff)
  then show ?thesis using V_TupleSet ok rebuild_TupleSet
    unfolding Value_Decode_Encode_body
    by (simp_all add: Value_Encode_def Value_Decode_body_def write_parts)
next
  case (V_Record flds)
  have "text_ok 48 (rf_name f)" if "f \<in> set flds" for f
    using ok V_Record that
    by (intro token_text_ok [of _ LowerToken 1]) (auto simp: value_ok_def list_all_iff)
  then have "counted kMaxRecordFields field_read
      (put_size (length flds) @ concat (map field_encode flds) @ rest) = Inr (flds, rest)"
    using ok V_Record
    by (intro field.counted_roundtrip) (simp_all add: value_ok_def list_all_iff field_ok_def)
  then show ?thesis using V_Record ok rebuild_Record
    unfolding Value_Decode_Encode_body
    by (simp_all add: Value_Encode_def Value_Decode_body_def write_parts)
next
  case (V_Opaque p)
  then have t: "text_ok 64 (op_encoding p)" and b: "bytes_ok kMaxExtensionPayloadBytes (op_bytes p)"
    using ok token_text_ok [of "op_encoding p" PrintableToken 1 64]
    by (auto simp: value_ok_def bytes_ok_def)
  show ?thesis using V_Opaque ok rebuild_scalar_kinds(5)
    unfolding Value_Decode_Encode_body
    by (simp_all add: Value_Encode_def Value_Decode_body_def write_parts write_text_def
        write_bytes_def str.roundtrip [OF t] payload.roundtrip [OF b])
next
  case (V_EnumSet s)
  then have "counted kMaxSetCardinality get_u32
      (put_size (length (es_codes s)) @ concat (map put_u32 (es_codes s)) @ rest)
      = Inr (es_codes s, rest)" and d: "EnumDomainId_Parse (es_domain s) = Inr (es_domain s)"
    using ok by (auto simp: value_ok_def intro!: u32.counted_roundtrip)
  then show ?thesis using V_EnumSet ok rebuild_sets(4)
    unfolding Value_Decode_Encode_body
    by (simp_all add: Value_Encode_def Value_Decode_body_def write_parts)
next
  case (V_Quantity q)
  then show ?thesis using ok rebuild_scalar_kinds(1)
    unfolding Value_Decode_Encode_body
    by (simp_all add: Value_Encode_def Value_Decode_body_def write_parts)
next
  case (V_Enumeration e)
  then show ?thesis using ok rebuild_scalar_kinds(2)
    unfolding Value_Decode_Encode_body
    by (auto simp: Value_Encode_def Value_Decode_body_def enum_encode_def write_parts value_ok_def)
next
  case (V_NumericRange r)
  then show ?thesis using ok rebuild_scalar_kinds(3)
    unfolding Value_Decode_Encode_body
    by (simp_all add: Value_Encode_def Value_Decode_body_def write_parts)
next
  case (V_VersionInterval i)
  then have "version_ok (vi_minimum i)" "version_ok (vi_maximum i)"
    using ok by (simp_all add: value_ok_def)
  then show ?thesis using V_VersionInterval ok rebuild_scalar_kinds(4)
    unfolding Value_Decode_Encode_body
    by (simp_all add: Value_Encode_def Value_Decode_body_def write_parts)
next
  case (V_Tuple t)
  then have "tuple_ok t" using ok by (simp add: value_ok_def)
  then show ?thesis using V_Tuple ok rebuild_scalar_kinds(6)
    unfolding Value_Decode_Encode_body
    by (simp_all add: Value_Encode_def Value_Decode_body_def write_parts)
qed (unfold Value_Decode_Encode_body,
    simp_all add: Value_Encode_def Value_Decode_body_def write_parts)

interpretation value_codec: codec value_ok Value_Encode Value_Decode
  by unfold_locales (rule Value_roundtrip)

section \<open>Properties\<close>

text \<open>C20. The value codec is lossless: every value in stored form is read back from its encoding,
  whatever bytes follow, and exactly those bytes are left; so two stored values with the same
  encoding are the same value.\<close>

theorem Value_codec_lossless:
  assumes "value_ok v" and "value_ok w"
  shows "Value_Decode (Value_Encode v @ rest) = Inr (v, rest)
    \<and> (Value_Encode v @ rest = Value_Encode w @ rest' \<longrightarrow> v = w \<and> rest = rest')"
  using value_codec.roundtrip [OF assms(1)] value_codec.prefix_free [OF assms] by blast

lemma Value_codec_lossless_witness:
  "Value_Decode (Value_Encode (V_NumericSet \<lparr>ns_unit = U_BitsPerSecond, ns_values = [10, 25]\<rparr>) @ [7])
     = Inr (V_NumericSet \<lparr>ns_unit = U_BitsPerSecond, ns_values = [10, 25]\<rparr>, [7])"
proof -
  let ?v = "V_NumericSet \<lparr>ns_unit = U_BitsPerSecond, ns_values = [10, 25]\<rparr>"
  have "value_ok ?v" by (simp add: value_ok_def)
  from Value_codec_lossless [OF this this, of "[7]" "[7]"] show ?thesis by blast
qed

text \<open>Whatever bytes are read, a decoded value is in stored form: it passes the re-validation
  of the canonical form, respects every numeric and size bound, and encoding it and decoding
  again gives the same value.\<close>

theorem Value_Decode_sound:
  assumes "Value_Decode bs = Inr (v, rest)"
  shows "value_ok v \<and> ValidateCanonical v = Inr ()
    \<and> Value_Decode (Value_Encode v @ rest') = Inr (v, rest')"
  using Value_Decode_ok [OF assms] value_ok_canonical Value_roundtrip by blast

lemma Value_Decode_sound_witness: "value_ok (V_ProtocolSet [1, 2])"
proof -
  have "Value_Decode [9, 2, 0, 0, 0, 2, 0, 1, 0] = Inr (V_ProtocolSet [1, 2], [])" by code_simp
  from Value_Decode_sound [OF this] show ?thesis by blast
qed

text \<open>The decoder normalises some encodings instead of rejecting them: the members of a protocol
  set may be encoded in any order, all giving the one canonical value, whereas a numeric set
  whose members are not strictly ascending is rejected as not canonical.\<close>

theorem Value_Decode_normalises:
  assumes "value_ok (V_ProtocolSet ps)" and "mset qs = mset ps"
    and "length xs \<le> kMaxSetCardinality" and "\<not> strictly_ascending xs"
  shows "Value_Decode (put_u8 (kind_code K_ProtocolSet) @ put_size (length qs)
           @ concat (map put_u16 qs) @ rest) = Inr (V_ProtocolSet ps, rest)
    \<and> Value_Decode (put_u8 (kind_code K_NumericSet) @ put_u8 (unit_code u) @ put_size (length xs)
           @ concat (map put_u64 xs) @ rest) = Inl E_ValueNotCanonical"
proof
  have len: "length qs = length ps" and st: "set qs = set ps"
    using assms(2) by (metis size_mset, metis set_mset_mset)
  have asc: "strictly_ascending ps" using assms(1) by (simp add: value_ok_def)
  have "sort qs = sort ps" using assms(2) by (metis mset_sort sorted_list_of_multiset_mset)
  then have "sort qs = ps" using strictly_ascending_sort [OF asc] by simp
  then have "ProtocolSetValue qs = Inr (V_ProtocolSet ps)"
    using assms(1) len st sort_ascending_facts [OF asc]
    by (auto simp: ProtocolSetValue_def list_ex_iff list_all_iff value_ok_def Let_def)
  moreover have "counted kMaxProtocolsInSet get_u16
      (put_size (length qs) @ concat (map put_u16 qs) @ rest) = Inr (qs, rest)"
    using assms(1) len by (intro u16.counted_roundtrip) (auto simp: value_ok_def)
  ultimately show "Value_Decode (put_u8 (kind_code K_ProtocolSet) @ put_size (length qs)
      @ concat (map put_u16 qs) @ rest) = Inr (V_ProtocolSet ps, rest)"
    unfolding Value_Decode_tag by (simp add: Value_Decode_body_def codec_simps)
  have "counted kMaxSetCardinality get_u64
      (put_size (length xs) @ concat (map put_u64 xs) @ rest) = Inr (xs, rest)"
    using assms(3) by (intro u64.counted_roundtrip) auto
  then show "Value_Decode (put_u8 (kind_code K_NumericSet) @ put_u8 (unit_code u)
      @ put_size (length xs) @ concat (map put_u64 xs) @ rest) = Inl E_ValueNotCanonical"
    unfolding Value_Decode_tag using assms(4)
    by (simp add: Value_Decode_body_def codec_simps unt.roundtrip)
qed

lemma Value_Decode_normalises_witness:
  "Value_Decode (put_u8 (kind_code K_ProtocolSet) @ put_size 2 @ concat (map put_u16 [2, 1]) @ [])
     = Inr (V_ProtocolSet [1, 2], [])"
proof -
  have "value_ok (V_ProtocolSet [1, 2])" by (simp add: value_ok_def)
  moreover have "mset [2, 1 :: u16] = mset [1, 2]" by simp
  moreover have "\<not> strictly_ascending [3, 3 :: u64]" by simp
  ultimately show ?thesis
    using Value_Decode_normalises [of "[1, 2]" "[2, 1]" "[3, 3]" "[]"]
    by (simp add: numeral_2_eq_2)
qed

end
