(* ===== verification/Evidence.thy ===== *)
theory Evidence
  imports ValueCodec
begin

text \<open>
  Capability states (\<open>state.hpp\<close>, \<open>state.cpp\<close>) and evidence (\<open>evidence.hpp\<close>, \<open>evidence.cpp\<close>):
  the provenance classes ordered by rank, source classes, durability, coverage and currentness,
  the evidence record, its semantic digest and the derived identifiers.
\<close>

section \<open>Capability states\<close>

datatype capability_state =
  St_Unknown | St_Supported | St_Unsupported | St_RevalidationRequired | St_Conflicted

fun CapabilityStateName :: "capability_state \<Rightarrow> string" where
  "CapabilityStateName St_Unknown = ''UNKNOWN''"
| "CapabilityStateName St_Supported = ''SUPPORTED''"
| "CapabilityStateName St_Unsupported = ''UNSUPPORTED''"
| "CapabilityStateName St_RevalidationRequired = ''REVALIDATION_REQUIRED''"
| "CapabilityStateName St_Conflicted = ''CONFLICTED''"

definition ParseCapabilityState :: "string \<Rightarrow> capability_state outcome" where
  "ParseCapabilityState text =
     (if text = ''UNKNOWN'' \<or> text = ''unknown'' then Inr St_Unknown
      else if text = ''SUPPORTED'' \<or> text = ''supported'' then Inr St_Supported
      else if text = ''UNSUPPORTED'' \<or> text = ''unsupported'' then Inr St_Unsupported
      else if text = ''REVALIDATION_REQUIRED'' \<or> text = ''revalidation-required''
        \<or> text = ''revalidation_required'' then Inr St_RevalidationRequired
      else if text = ''CONFLICTED'' \<or> text = ''conflicted'' then Inr St_Conflicted
      else Inl E_MalformedValue)"

fun state_code :: "capability_state \<Rightarrow> u8" where
  "state_code St_Unknown = 0"
| "state_code St_Supported = 1"
| "state_code St_Unsupported = 2"
| "state_code St_RevalidationRequired = 3"
| "state_code St_Conflicted = 4"

definition IsActionableSupport :: "capability_state \<Rightarrow> bool" where
  "IsActionableSupport st \<longleftrightarrow> st = St_Supported"

definition IsAuthoritativeAbsence :: "capability_state \<Rightarrow> bool" where
  "IsAuthoritativeAbsence st \<longleftrightarrow> st = St_Unsupported"

definition FailsClosed :: "capability_state \<Rightarrow> bool" where
  "FailsClosed st \<longleftrightarrow> \<not> IsActionableSupport st"

section \<open>Provenance\<close>

datatype provenance_class =
    Prov_DirectHardwareEnumeration | Prov_DirectDeviceOrOsApi
  | Prov_AuthoritativeAdministrativeDeclaration | Prov_VendorFirmwareOrSdkManifest
  | Prov_ImportedStaticProfile | Prov_Inferred | Prov_SyntheticTestBackend

definition kProvenanceNames :: "(provenance_class \<times> string) list" where
  "kProvenanceNames =
     [(Prov_DirectHardwareEnumeration, ''direct-hardware-enumeration''),
      (Prov_DirectDeviceOrOsApi, ''direct-device-or-os-api''),
      (Prov_AuthoritativeAdministrativeDeclaration, ''authoritative-administrative-declaration''),
      (Prov_VendorFirmwareOrSdkManifest, ''vendor-firmware-or-sdk-manifest''),
      (Prov_ImportedStaticProfile, ''imported-static-profile''),
      (Prov_Inferred, ''inferred''),
      (Prov_SyntheticTestBackend, ''synthetic-test-backend'')]"

definition ProvenanceClassName :: "provenance_class \<Rightarrow> string" where
  "ProvenanceClassName p = (case find (\<lambda>entry. fst entry = p) kProvenanceNames of
     Some entry \<Rightarrow> snd entry | None \<Rightarrow> ''synthetic-test-backend'')"

definition ParseProvenanceClass :: "string \<Rightarrow> provenance_class outcome" where
  "ParseProvenanceClass text = (case find (\<lambda>entry. snd entry = text) kProvenanceNames of
     Some entry \<Rightarrow> Inr (fst entry) | None \<Rightarrow> Inl E_MalformedValue)"

fun ProvenanceRank :: "provenance_class \<Rightarrow> u8" where
  "ProvenanceRank Prov_DirectHardwareEnumeration = 0"
| "ProvenanceRank Prov_DirectDeviceOrOsApi = 1"
| "ProvenanceRank Prov_AuthoritativeAdministrativeDeclaration = 2"
| "ProvenanceRank Prov_VendorFirmwareOrSdkManifest = 3"
| "ProvenanceRank Prov_ImportedStaticProfile = 4"
| "ProvenanceRank Prov_Inferred = 5"
| "ProvenanceRank Prov_SyntheticTestBackend = 6"

definition IsStrongerThan :: "provenance_class \<Rightarrow> provenance_class \<Rightarrow> bool" where
  "IsStrongerThan lhs rhs \<longleftrightarrow> ProvenanceRank lhs < ProvenanceRank rhs"

definition IsDurableByNature :: "provenance_class \<Rightarrow> bool" where
  "IsDurableByNature p \<longleftrightarrow>
     ProvenanceRank p \<le> ProvenanceRank Prov_AuthoritativeAdministrativeDeclaration"

definition IsLiveProcessObservation :: "provenance_class \<Rightarrow> bool" where
  "IsLiveProcessObservation p \<longleftrightarrow> ProvenanceRank p \<le> ProvenanceRank Prov_DirectDeviceOrOsApi"

datatype evidence_source_class =
    Src_HardwareEnumeration | Src_OperatingSystemApi | Src_DriverApi | Src_FirmwareManifest
  | Src_VendorSdk | Src_DeviceAgent | Src_SwitchAgent | Src_AdministrativeDeclaration
  | Src_ImportedManifest | Src_SyntheticBackend

definition kSourceClassNames :: "(evidence_source_class \<times> string) list" where
  "kSourceClassNames =
     [(Src_HardwareEnumeration, ''hardware-enumeration''),
      (Src_OperatingSystemApi, ''operating-system-api''), (Src_DriverApi, ''driver-api''),
      (Src_FirmwareManifest, ''firmware-manifest''), (Src_VendorSdk, ''vendor-sdk''),
      (Src_DeviceAgent, ''device-agent''), (Src_SwitchAgent, ''switch-agent''),
      (Src_AdministrativeDeclaration, ''administrative-declaration''),
      (Src_ImportedManifest, ''imported-manifest''),
      (Src_SyntheticBackend, ''synthetic-backend'')]"

definition EvidenceSourceClassName :: "evidence_source_class \<Rightarrow> string" where
  "EvidenceSourceClassName s = (case find (\<lambda>entry. fst entry = s) kSourceClassNames of
     Some entry \<Rightarrow> snd entry | None \<Rightarrow> ''synthetic-backend'')"

definition ParseEvidenceSourceClass :: "string \<Rightarrow> evidence_source_class outcome" where
  "ParseEvidenceSourceClass text = (case find (\<lambda>entry. snd entry = text) kSourceClassNames of
     Some entry \<Rightarrow> Inr (fst entry) | None \<Rightarrow> Inl E_MalformedValue)"

fun source_class_code :: "evidence_source_class \<Rightarrow> u8" where
  "source_class_code Src_HardwareEnumeration = 0"
| "source_class_code Src_OperatingSystemApi = 1"
| "source_class_code Src_DriverApi = 2"
| "source_class_code Src_FirmwareManifest = 3"
| "source_class_code Src_VendorSdk = 4"
| "source_class_code Src_DeviceAgent = 5"
| "source_class_code Src_SwitchAgent = 6"
| "source_class_code Src_AdministrativeDeclaration = 7"
| "source_class_code Src_ImportedManifest = 8"
| "source_class_code Src_SyntheticBackend = 9"

fun StrongestProvenanceForSource :: "evidence_source_class \<Rightarrow> provenance_class" where
  "StrongestProvenanceForSource Src_HardwareEnumeration = Prov_DirectHardwareEnumeration"
| "StrongestProvenanceForSource Src_OperatingSystemApi = Prov_DirectDeviceOrOsApi"
| "StrongestProvenanceForSource Src_DriverApi = Prov_DirectDeviceOrOsApi"
| "StrongestProvenanceForSource Src_DeviceAgent = Prov_DirectDeviceOrOsApi"
| "StrongestProvenanceForSource Src_SwitchAgent = Prov_DirectDeviceOrOsApi"
| "StrongestProvenanceForSource Src_AdministrativeDeclaration =
     Prov_AuthoritativeAdministrativeDeclaration"
| "StrongestProvenanceForSource Src_FirmwareManifest = Prov_VendorFirmwareOrSdkManifest"
| "StrongestProvenanceForSource Src_VendorSdk = Prov_VendorFirmwareOrSdkManifest"
| "StrongestProvenanceForSource Src_ImportedManifest = Prov_ImportedStaticProfile"
| "StrongestProvenanceForSource Src_SyntheticBackend = Prov_SyntheticTestBackend"

section \<open>Lifetime, coverage, currentness\<close>

datatype durability_class = ProcessBound | Durable
datatype coverage_class = Partial | FullEnumeration

datatype evidence_currentness =
    Cur_Current | Cur_RevalidationRequired | Cur_Fenced | Cur_Superseded
  | Cur_EntityGenerationSuperseded

definition DurabilityClassName :: "durability_class \<Rightarrow> string" where
  "DurabilityClassName d = (if d = Durable then ''durable'' else ''process-bound'')"

definition CoverageName :: "coverage_class \<Rightarrow> string" where
  "CoverageName c = (if c = FullEnumeration then ''full-enumeration'' else ''partial'')"

fun EvidenceCurrentnessName :: "evidence_currentness \<Rightarrow> string" where
  "EvidenceCurrentnessName Cur_Current = ''current''"
| "EvidenceCurrentnessName Cur_RevalidationRequired = ''revalidation-required''"
| "EvidenceCurrentnessName Cur_Fenced = ''fenced''"
| "EvidenceCurrentnessName Cur_Superseded = ''superseded''"
| "EvidenceCurrentnessName Cur_EntityGenerationSuperseded = ''entity-generation-superseded''"

definition IsCurrent :: "evidence_currentness \<Rightarrow> bool" where
  "IsCurrent c \<longleftrightarrow> c = Cur_Current"

fun durability_code :: "durability_class \<Rightarrow> u8" where
  "durability_code ProcessBound = 0"
| "durability_code Durable = 1"

fun coverage_code :: "coverage_class \<Rightarrow> u8" where
  "coverage_code Partial = 0"
| "coverage_code FullEnumeration = 1"

section \<open>Evidence records\<close>

record evidence_record =
  e_id :: token
  e_capability :: capability_id
  e_entity :: entity_id
  e_entity_generation :: counter
  e_source :: token
  e_publisher :: token
  e_scope :: token
  e_worker_boot :: token
  e_epoch :: counter
  e_source_generation :: counter
  e_evidence_generation :: counter
  e_attempt :: token
  e_publication :: token
  e_provenance :: provenance_class
  e_source_class :: evidence_source_class
  e_durability :: durability_class
  e_coverage :: coverage_class
  e_state :: capability_state
  e_value :: capability_value
  e_firmware_version :: token
  e_driver_version :: token
  e_reason :: token
  e_currentness :: evidence_currentness
  e_accepted_generation :: counter
  e_arrival_sequence :: u64

definition evidence_default :: evidence_record where
  "evidence_default =
     \<lparr>e_id = [], e_capability = CapabilityId_unset, e_entity = EntityId_unset,
      e_entity_generation = 0, e_source = [], e_publisher = [], e_scope = [], e_worker_boot = [],
      e_epoch = 0, e_source_generation = 0, e_evidence_generation = 0, e_attempt = [],
      e_publication = [], e_provenance = Prov_SyntheticTestBackend,
      e_source_class = Src_SyntheticBackend, e_durability = ProcessBound, e_coverage = Partial,
      e_state = St_Unknown, e_value = V_Absent, e_firmware_version = [], e_driver_version = [],
      e_reason = [], e_currentness = Cur_Current, e_accepted_generation = 0,
      e_arrival_sequence = 0\<rparr>"

definition semantic_bytes :: "evidence_record \<Rightarrow> bytes" where
  "semantic_bytes e =
     write_text kMaxCapabilityIdLength (cap_rendered (e_capability e))
     @ write_text kMaxEntityIdLength (ent_rendered (e_entity e))
     @ put_u64 (e_entity_generation e)
     @ write_text kMaxSourceIdLength (e_source e)
     @ write_text kMaxPublisherIdLength (e_publisher e)
     @ write_text kMaxAuthorityScopeIdLength (e_scope e)
     @ write_text 64 (e_worker_boot e)
     @ put_u64 (e_epoch e)
     @ put_u64 (e_source_generation e)
     @ put_u64 (e_evidence_generation e)
     @ put_u8 (ProvenanceRank (e_provenance e))
     @ put_u8 (source_class_code (e_source_class e))
     @ put_u8 (durability_code (e_durability e))
     @ put_u8 (coverage_code (e_coverage e))
     @ put_u8 (state_code (e_state e))
     @ Value_Encode (e_value e)
     @ write_text kMaxVersionTokenLength (e_firmware_version e)
     @ write_text kMaxVersionTokenLength (e_driver_version e)
     @ write_text kMaxTextLength (e_reason e)"

definition SemanticDigest :: "evidence_record \<Rightarrow> digest" where
  "SemanticDigest e = ComputeDigest (semantic_bytes e)"

definition Counter_ToString :: "counter \<Rightarrow> string" where
  "Counter_ToString c = nat_text (unat c)"

definition Evidence_ToText :: "evidence_record \<Rightarrow> string" where
  "Evidence_ToText e =
     ''capability='' @ cap_rendered (e_capability e)
     @ '' state='' @ CapabilityStateName (e_state e)
     @ '' value='' @ (if e_value e = V_Absent then ''absent'' else Value_ToText (e_value e))
     @ '' provenance='' @ ProvenanceClassName (e_provenance e)
     @ '' source_class='' @ EvidenceSourceClassName (e_source_class e)
     @ '' durability='' @ DurabilityClassName (e_durability e)
     @ '' coverage='' @ CoverageName (e_coverage e)
     @ '' currentness='' @ EvidenceCurrentnessName (e_currentness e)
     @ '' source='' @ e_source e
     @ '' publisher='' @ e_publisher e
     @ '' scope='' @ e_scope e
     @ '' boot='' @ e_worker_boot e
     @ '' epoch='' @ Counter_ToString (e_epoch e)
     @ '' evidence_generation='' @ Counter_ToString (e_evidence_generation e)
     @ '' source_generation='' @ Counter_ToString (e_source_generation e)
     @ '' entity='' @ ent_rendered (e_entity e)
     @ '' entity_generation='' @ Counter_ToString (e_entity_generation e)
     @ (if IsSet (e_firmware_version e) then '' firmware='' @ e_firmware_version e else [])
     @ (if IsSet (e_driver_version e) then '' driver='' @ e_driver_version e else [])
     @ (if IsSet (e_reason e) then '' reason='' @ e_reason e else [])"

text \<open>Identifiers derived from the digest of an identity.\<close>

definition parsed_or_unset :: "token outcome \<Rightarrow> token" where
  "parsed_or_unset m = (case m of Inr t \<Rightarrow> t | Inl _ \<Rightarrow> [])"

definition MakeEvidenceId ::
  "token \<Rightarrow> token \<Rightarrow> token \<Rightarrow> entity_id \<Rightarrow> counter \<Rightarrow> capability_id \<Rightarrow> u64 \<Rightarrow> token" where
  "MakeEvidenceId publisher boot attempt entity entity_generation capability evidence_generation =
     parsed_or_unset (EvidenceId_Parse (Digest_ShortString (ComputeDigest
       (write_text kMaxPublisherIdLength publisher @ write_text 64 boot
        @ write_text kMaxAttemptIdLength attempt
        @ write_text kMaxEntityIdLength (ent_rendered entity)
        @ put_u64 entity_generation
        @ write_text kMaxCapabilityIdLength (cap_rendered capability)
        @ put_u64 evidence_generation))))"

definition MakeCapabilityRecordId :: "entity_id \<Rightarrow> counter \<Rightarrow> capability_id \<Rightarrow> token" where
  "MakeCapabilityRecordId entity entity_generation capability =
     parsed_or_unset (CapabilityRecordId_Parse (Digest_ShortString (ComputeDigest
       (write_text kMaxEntityIdLength (ent_rendered entity)
        @ put_u64 entity_generation
        @ write_text kMaxCapabilityIdLength (cap_rendered capability)))))"

section \<open>Names and ranks\<close>

lemma ProvenanceRank_inject [simp]: "ProvenanceRank a = ProvenanceRank b \<longleftrightarrow> a = b"
  by (cases a; cases b) simp_all

lemma source_class_code_inject [simp]: "source_class_code a = source_class_code b \<longleftrightarrow> a = b"
  by (cases a; cases b) simp_all

lemma durability_code_inject [simp]: "durability_code a = durability_code b \<longleftrightarrow> a = b"
  by (cases a; cases b) simp_all

lemma coverage_code_inject [simp]: "coverage_code a = coverage_code b \<longleftrightarrow> a = b"
  by (cases a; cases b) simp_all

lemma state_code_inject [simp]: "state_code a = state_code b \<longleftrightarrow> a = b"
  by (cases a; cases b) simp_all

instantiation provenance_class :: linorder
begin

definition less_provenance_class :: "provenance_class \<Rightarrow> provenance_class \<Rightarrow> bool" where
  "less_provenance_class a b \<longleftrightarrow> ProvenanceRank a < ProvenanceRank b"

definition less_eq_provenance_class :: "provenance_class \<Rightarrow> provenance_class \<Rightarrow> bool" where
  "less_eq_provenance_class a b \<longleftrightarrow> ProvenanceRank a \<le> ProvenanceRank b"

instance
  by standard
    (auto simp: less_provenance_class_def less_eq_provenance_class_def order_less_le)

end

section \<open>The semantic encoding\<close>

lemma write_text_prefix:
  "text_ok m a \<Longrightarrow> text_ok m b \<Longrightarrow> write_text m a @ r = write_text m b @ s \<longleftrightarrow> a = b \<and> r = s"
  using str.prefix_free [of m a b r s] by (auto simp: write_text_def)

lemma write_text_inject: "text_ok m a \<Longrightarrow> text_ok m b \<Longrightarrow> write_text m a = write_text m b \<longleftrightarrow> a = b"
  using str.enc_inject [of m a b] by (simp add: write_text_def)

lemma put_prefix:
  "put_u64 x @ r = put_u64 y @ s \<longleftrightarrow> x = y \<and> r = s"
  "put_u8 a @ r = put_u8 b @ s \<longleftrightarrow> a = b \<and> r = s"
  using u64.prefix_free [of x r y s] u8.prefix_free [of a r b s] by auto

lemma Value_Encode_prefix:
  "value_ok v \<Longrightarrow> value_ok w \<Longrightarrow> Value_Encode v @ r = Value_Encode w @ s \<longleftrightarrow> v = w \<and> r = s"
  using value_codec.prefix_free by blast

lemmas prefix_iffs = write_text_prefix write_text_inject put_prefix Value_Encode_prefix

text \<open>The bounds the identifier classes and the schema give the fields of a record.\<close>

definition evidence_wf :: "evidence_record \<Rightarrow> bool" where
  "evidence_wf e \<longleftrightarrow>
     text_ok kMaxCapabilityIdLength (cap_rendered (e_capability e))
     \<and> text_ok kMaxEntityIdLength (ent_rendered (e_entity e))
     \<and> text_ok kMaxSourceIdLength (e_source e) \<and> text_ok kMaxPublisherIdLength (e_publisher e)
     \<and> text_ok kMaxAuthorityScopeIdLength (e_scope e) \<and> text_ok 64 (e_worker_boot e)
     \<and> value_ok (e_value e) \<and> text_ok kMaxVersionTokenLength (e_firmware_version e)
     \<and> text_ok kMaxVersionTokenLength (e_driver_version e) \<and> text_ok kMaxTextLength (e_reason e)"

definition same_semantics :: "evidence_record \<Rightarrow> evidence_record \<Rightarrow> bool" where
  "same_semantics a b \<longleftrightarrow>
     cap_rendered (e_capability a) = cap_rendered (e_capability b)
     \<and> ent_rendered (e_entity a) = ent_rendered (e_entity b)
     \<and> e_entity_generation a = e_entity_generation b \<and> e_source a = e_source b
     \<and> e_publisher a = e_publisher b \<and> e_scope a = e_scope b
     \<and> e_worker_boot a = e_worker_boot b \<and> e_epoch a = e_epoch b
     \<and> e_source_generation a = e_source_generation b
     \<and> e_evidence_generation a = e_evidence_generation b
     \<and> e_provenance a = e_provenance b \<and> e_source_class a = e_source_class b
     \<and> e_durability a = e_durability b \<and> e_coverage a = e_coverage b
     \<and> e_state a = e_state b \<and> e_value a = e_value b
     \<and> e_firmware_version a = e_firmware_version b
     \<and> e_driver_version a = e_driver_version b \<and> e_reason a = e_reason b"

lemma semantic_bytes_inject:
  assumes "evidence_wf a" and "evidence_wf b"
  shows "semantic_bytes a = semantic_bytes b \<longleftrightarrow> same_semantics a b"
  using assms unfolding evidence_wf_def semantic_bytes_def same_semantics_def
  by (simp add: prefix_iffs)

section \<open>Derived identifiers are always set\<close>

lemma hex_digit_char: "v < 16 \<Longrightarrow> IsHexDigit (kHexDigits ! v) \<and> kHexDigits ! v \<noteq> CHR ''-''"
proof -
  assume v: "v < 16"
  have "\<forall>v\<in>set [0..<16]. IsHexDigit (kHexDigits ! v) \<and> kHexDigits ! v \<noteq> CHR ''-''" by code_simp
  with v show ?thesis by simp
qed

lemma hex_pair_chars: "ch \<in> set (hex_pair b) \<Longrightarrow> IsHexDigit ch \<and> ch \<noteq> CHR ''-''"
proof -
  have "unat b div 16 < 16" using unat_u8_less [of b] by simp
  then show "ch \<in> set (hex_pair b) \<Longrightarrow> IsHexDigit ch \<and> ch \<noteq> CHR ''-''"
    using hex_digit_char [of "unat b div 16"] hex_digit_char [of "unat b mod 16"]
    by (auto simp: hex_pair_def)
qed

lemma successively_all: "(\<And>x. x \<in> set xs \<Longrightarrow> P x) \<Longrightarrow> (\<And>x y. P x \<Longrightarrow> P y \<Longrightarrow> R x y) \<Longrightarrow> successively R xs"
  by (induction xs rule: induct_list012) auto

lemma ShortString_token:
  "ValidateToken (Digest_ShortString (ComputeDigest m)) HexToken 32 32 = Inr ()
   \<and> length (Digest_ShortString (ComputeDigest m)) = 32"
proof -
  let ?t = "Digest_ShortString (ComputeDigest m)"
  have t: "?t = concat (map hex_pair (take 16 (ComputeDigest m)))"
    by (simp add: Digest_ShortString_def RenderDigest_map)
  then have chars: "IsHexDigit ch \<and> ch \<noteq> CHR ''-''" if "ch \<in> set ?t" for ch
    using that hex_pair_chars by auto
  have "length (concat (map hex_pair bs)) = 2 * length bs" for bs
    by (induction bs) (simp_all add: hex_pair_def)
  then have len: "length ?t = 32" unfolding t by simp
  then have "?t \<noteq> []" by auto
  then have "hd ?t \<in> set ?t" "last ?t \<in> set ?t" by simp_all
  moreover have "successively (\<lambda>a b. \<not> (a = CHR ''-'' \<and> b = CHR ''-'')) ?t"
    by (rule successively_all [where P = "\<lambda>c. c \<noteq> CHR ''-''"]) (use chars in auto)
  ultimately have "token_ok HexToken ?t" using chars by (simp add: token_ok_def)
  then show ?thesis using len by (simp add: ValidateToken_iff)
qed

lemma parsed_short_string:
  "parsed_or_unset (TokenId_Parse HexToken 32 32 (Digest_ShortString (ComputeDigest m)))
     = Digest_ShortString (ComputeDigest m)"
  using ShortString_token [of m] by (simp add: TokenId_Parse_def parsed_or_unset_def)

lemma length_MakeEvidenceId: "length (MakeEvidenceId p b a e g c n) = 32"
  using ShortString_token by (simp add: MakeEvidenceId_def EvidenceId_Parse_def parsed_short_string)

lemma length_MakeCapabilityRecordId: "length (MakeCapabilityRecordId e g c) = 32"
  using ShortString_token
  by (simp add: MakeCapabilityRecordId_def CapabilityRecordId_Parse_def parsed_short_string)

section \<open>Properties\<close>

text \<open>The bytes hashed by \<open>SemanticDigest\<close> determine the observation: two well-formed records
  have the same semantic encoding exactly when they agree on every field but the identifier,
  the attempt, the publication, the currentness and the local arrival order.\<close>

theorem semantic_encoding_injective:
  assumes "evidence_wf a" and "evidence_wf b"
  shows "semantic_bytes a = semantic_bytes b \<longleftrightarrow> same_semantics a b"
  by (rule semantic_bytes_inject [OF assms])

lemma semantic_encoding_injective_witness:
  "semantic_bytes (evidence_default\<lparr>e_state := St_Supported\<rparr>) \<noteq> semantic_bytes evidence_default"
proof -
  have t: "text_ok n []" for n by (simp add: text_ok_def text_bytes_def)
  have "evidence_wf evidence_default"
    "evidence_wf (evidence_default\<lparr>e_state := St_Supported\<rparr>)"
    by (simp_all add: evidence_wf_def evidence_default_def CapabilityId_unset_def
        EntityId_unset_def t value_ok_def)
  from semantic_encoding_injective [OF this(2,1)] show ?thesis
    by (simp add: same_semantics_def evidence_default_def)
qed

text \<open>Derived identifiers are never the unset token: the short rendering of a digest always
  parses as an evidence or record identifier of 32 hexadecimal characters.\<close>

theorem derived_identifiers_set:
  "length (MakeEvidenceId publisher boot attempt entity generation capability evidence_generation) = 32
   \<and> length (MakeCapabilityRecordId entity generation capability) = 32"
  by (simp add: length_MakeEvidenceId length_MakeCapabilityRecordId)

end
