(* ===== verification/Schema.thy ===== *)
theory Schema
  imports Evidence
begin

text \<open>
  The governed schema of \<open>schema.hpp\<close>, \<open>schema.cpp\<close>: capability descriptors and the builder of the
  canonical table, the validation of a descriptor, of a value against its descriptor, and the
  schema object. The hash map of descriptors is a list with distinct identifiers, in no
  particular order; the locks of the class are not modelled, each operation is one atomic step.
\<close>

abbreviation (input) kMaxVendorDescriptors :: nat where "kMaxVendorDescriptors \<equiv> 1024"

record capability_descriptor =
  cd_id :: capability_id
  cd_kind :: value_kind
  cd_unit :: value_unit
  cd_enum_domain :: token
  cd_minimum_quantity :: u64
  cd_maximum_quantity :: u64
  cd_bit_count :: u32
  cd_tuple_arity :: u8
  cd_tuple_component_kinds :: "value_kind list"
  cd_tuple_component_units :: "value_unit list"
  cd_max_set_cardinality :: nat
  cd_allowed_protocols :: "protocol_id list"
  cd_compatibility_class :: token
  cd_vendor_extension :: bool
  cd_absence_is_negative :: bool
  cd_description :: string

definition descriptor_default :: capability_descriptor where
  "descriptor_default =
     \<lparr>cd_id = CapabilityId_unset, cd_kind = K_Boolean, cd_unit = U_None, cd_enum_domain = [],
      cd_minimum_quantity = 0, cd_maximum_quantity = kMaxQuantity, cd_bit_count = 0,
      cd_tuple_arity = 0, cd_tuple_component_kinds = replicate kMaxTupleArity K_Absent,
      cd_tuple_component_units = replicate kMaxTupleArity U_None,
      cd_max_set_cardinality = kMaxSetCardinality, cd_allowed_protocols = [],
      cd_compatibility_class = [], cd_vendor_extension = False, cd_absence_is_negative = False,
      cd_description = []\<rparr>"

section \<open>The builder of the canonical table\<close>

definition CanonicalId :: "string \<Rightarrow> capability_id" where
  "CanonicalId text = (case CapabilityId_Parse text of Inr c \<Rightarrow> c | Inl _ \<Rightarrow> CapabilityId_unset)"

definition CanonicalClassId :: "string \<Rightarrow> token" where
  "CanonicalClassId text = parsed_or_unset (CompatibilityClassId_Parse text)"

definition B_new :: "string \<Rightarrow> value_kind \<Rightarrow> capability_descriptor" where
  "B_new ident kind = descriptor_default\<lparr>cd_id := CanonicalId ident, cd_kind := kind\<rparr>"
definition B_Quantity :: "value_unit \<Rightarrow> u64 \<Rightarrow> capability_descriptor \<Rightarrow> capability_descriptor" where
  "B_Quantity unt maximum d =
     d\<lparr>cd_unit := unt, cd_minimum_quantity := 0, cd_maximum_quantity := maximum\<rparr>"
definition B_Range :: "value_unit \<Rightarrow> u64 \<Rightarrow> capability_descriptor \<Rightarrow> capability_descriptor" where
  "B_Range unt maximum d = d\<lparr>cd_unit := unt, cd_maximum_quantity := maximum\<rparr>"
definition B_Set ::
  "value_unit \<Rightarrow> nat \<Rightarrow> u64 \<Rightarrow> capability_descriptor \<Rightarrow> capability_descriptor" where
  "B_Set unt cardinality maximum d =
     d\<lparr>cd_unit := unt, cd_max_set_cardinality := cardinality, cd_maximum_quantity := maximum\<rparr>"
definition B_Domain :: "string \<Rightarrow> capability_descriptor \<Rightarrow> capability_descriptor" where
  "B_Domain domain d = d\<lparr>cd_enum_domain := CanonicalDomainId domain\<rparr>"
definition B_EnumSet :: "string \<Rightarrow> nat \<Rightarrow> capability_descriptor \<Rightarrow> capability_descriptor" where
  "B_EnumSet domain cardinality d =
     d\<lparr>cd_enum_domain := CanonicalDomainId domain, cd_max_set_cardinality := cardinality\<rparr>"
definition B_Tuple ::
  "u8 \<Rightarrow> value_kind \<Rightarrow> value_kind \<Rightarrow> capability_descriptor \<Rightarrow> capability_descriptor" where
  "B_Tuple arity k1 k2 d =
     (let kinds = (cd_tuple_component_kinds d)[0 := k1] in
      d\<lparr>cd_tuple_arity := arity,
        cd_tuple_component_kinds := (if arity \<ge> 2 then kinds[1 := k2] else kinds)\<rparr>)"
definition B_Protocols :: "protocol_id list \<Rightarrow> capability_descriptor \<Rightarrow> capability_descriptor" where
  "B_Protocols protocols d = d\<lparr>cd_allowed_protocols := protocols\<rparr>"
definition B_Class :: "string \<Rightarrow> capability_descriptor \<Rightarrow> capability_descriptor" where
  "B_Class text d = d\<lparr>cd_compatibility_class := CanonicalClassId text\<rparr>"
definition B_AbsenceIsNegative :: "capability_descriptor \<Rightarrow> capability_descriptor" where
  "B_AbsenceIsNegative d = d\<lparr>cd_absence_is_negative := True\<rparr>"
definition B_Describe :: "string \<Rightarrow> capability_descriptor \<Rightarrow> capability_descriptor" where
  "B_Describe text d = d\<lparr>cd_description := text\<rparr>"

lemmas builder_defs = B_new_def B_Quantity_def B_Range_def B_Set_def B_Domain_def B_EnumSet_def
  B_Tuple_def B_Protocols_def B_Class_def B_AbsenceIsNegative_def B_Describe_def

section \<open>Validation of a descriptor\<close>

definition ValidateDescriptor_kind :: "capability_descriptor \<Rightarrow> status" where
  "ValidateDescriptor_kind d =
     (if cd_kind d \<in> {K_Quantity, K_NumericSet, K_NumericRange} then
        (if \<not> IsQuantityUnit (cd_unit d) then Inl E_ValueTypeMismatch else Inr ())
      else if cd_kind d \<in> {K_Enumeration, K_EnumSet} then
        (if \<not> IsSet (cd_enum_domain d) then Inl E_ValueTypeMismatch
         else if \<not> has_value (FindEnumDomain (cd_enum_domain d)) then Inl E_UnknownEnumDomain
         else Inr ())
      else if cd_kind d = K_BitSet then
        (if cd_bit_count d = 0 \<or> unat (cd_bit_count d) > kMaxBitSetBits
         then Inl E_ValueOutOfRange else Inr ())
      else if cd_kind d \<in> {K_Tuple, K_TupleSet} then
        (if unat (cd_tuple_arity d) < 2 \<or> unat (cd_tuple_arity d) > kMaxTupleArity
         then Inl E_ValueOutOfRange else Inr ())
      else if cd_kind d = K_Opaque then
        (if \<not> cd_vendor_extension d then Inl E_SchemaViolation else Inr ())
      else Inr ())"

definition ValidateDescriptor :: "capability_descriptor \<Rightarrow> status" where
  "ValidateDescriptor d =
     (if \<not> CapabilityId_IsSet (cd_id d) then Inl E_MalformedIdentifier
      else if cd_minimum_quantity d > cd_maximum_quantity d then Inl E_ValueContradiction
      else if cd_maximum_quantity d > kMaxQuantity then Inl E_ValueOutOfRange
      else if cd_max_set_cardinality d = 0 \<or> cd_max_set_cardinality d > kMaxSetCardinality
        then Inl E_ValueOutOfRange
      else obind (ValidateDescriptor_kind d) (\<lambda>_.
        if cd_vendor_extension d \<and> \<not> CapabilityId_IsVendorExtension (cd_id d)
        then Inl E_SchemaViolation
        else if \<not> cd_vendor_extension d \<and> CapabilityId_IsVendorExtension (cd_id d)
        then Inl E_SchemaViolation
        else Inr ()))"

section \<open>Validation of a value\<close>

text \<open>The component loop returns at the first mismatch; \<open>True\<close> is the empty failure text.\<close>

definition component_matches :: "value_kind \<Rightarrow> scalar_value \<Rightarrow> bool" where
  "component_matches expected element \<longleftrightarrow>
     expected = K_Boolean \<and> scalar_kind element = 0
     \<or> expected = K_Integer \<and> scalar_kind element = 1
     \<or> expected = K_Quantity \<and> scalar_kind element = 2
     \<or> expected = K_Enumeration \<and> scalar_kind element = 3"

fun component_bounded :: "capability_descriptor \<Rightarrow> scalar_value \<Rightarrow> bool" where
  "component_bounded d (S_Unsigned w) = (\<not> w > cd_maximum_quantity d)"
| "component_bounded d _ = True"

definition component_ok :: "capability_descriptor \<Rightarrow> value_kind \<Rightarrow> scalar_value \<Rightarrow> bool" where
  "component_ok d expected element \<longleftrightarrow>
     expected = K_Absent
     \<or> component_matches expected element
        \<and> (expected = K_Quantity \<longrightarrow> component_bounded d element)"

definition ValidateTupleComponents :: "capability_descriptor \<Rightarrow> tuple_value \<Rightarrow> bool" where
  "ValidateTupleComponents d tuple \<longleftrightarrow>
     length tuple = unat (cd_tuple_arity d)
     \<and> list_all (\<lambda>index. component_ok d (cd_tuple_component_kinds d ! index) (tuple ! index))
         [0..<length tuple]"

definition in_bounds :: "capability_descriptor \<Rightarrow> u64 \<Rightarrow> bool" where
  "in_bounds d x \<longleftrightarrow> \<not> (x < cd_minimum_quantity d \<or> x > cd_maximum_quantity d)"

definition ValidateValueAgainstDescriptor :: "capability_descriptor \<Rightarrow> capability_value \<Rightarrow> status" where
  "ValidateValueAgainstDescriptor d v =
     obind (ValidateCanonical v) (\<lambda>_.
       if Value_Kind v \<noteq> cd_kind d then Inl E_ValueTypeMismatch
       else case v of
         V_Boolean _ \<Rightarrow> Inr ()
       | V_Integer raw \<Rightarrow>
           (if raw \<ge> 0 \<and> word_of_int raw > cd_maximum_quantity d then Inl E_ValueOutOfRange
            else Inr ())
       | V_Quantity q \<Rightarrow>
           (if q_unit q \<noteq> cd_unit d then Inl E_ValueTypeMismatch
            else if \<not> in_bounds d (q_value q) then Inl E_ValueOutOfRange else Inr ())
       | V_Enumeration e \<Rightarrow>
           (if ev_domain e \<noteq> cd_enum_domain d then Inl E_ValueTypeMismatch
            else if \<not> EnumDomainDeclares (ev_domain e) (ev_code e) then Inl E_UnknownEnumDomain
            else Inr ())
       | V_BitSet s \<Rightarrow>
           (if bs_bit_count s \<noteq> cd_bit_count d then Inl E_ValueOutOfRange else Inr ())
       | V_NumericSet s \<Rightarrow>
           (if ns_unit s \<noteq> cd_unit d then Inl E_ValueTypeMismatch
            else if length (ns_values s) > cd_max_set_cardinality d then Inl E_TooManyItems
            else if list_ex (\<lambda>x. \<not> in_bounds d x) (ns_values s) then Inl E_ValueOutOfRange
            else Inr ())
       | V_NumericRange r \<Rightarrow>
           (if nr_unit r \<noteq> cd_unit d then Inl E_ValueTypeMismatch
            else if nr_maximum r > cd_maximum_quantity d \<or> nr_minimum r < cd_minimum_quantity d
              then Inl E_ValueOutOfRange
            else Inr ())
       | V_ProtocolSet ps \<Rightarrow>
           (if cd_allowed_protocols d \<noteq> []
              \<and> list_ex (\<lambda>p. \<not> List.member (cd_allowed_protocols d) p) ps
            then Inl E_SchemaViolation else Inr ())
       | V_EnumSet s \<Rightarrow>
           (if es_domain s \<noteq> cd_enum_domain d then Inl E_ValueTypeMismatch
            else if length (es_codes s) > cd_max_set_cardinality d then Inl E_TooManyItems
            else if list_ex (\<lambda>c. \<not> EnumDomainDeclares (es_domain s) c) (es_codes s)
              then Inl E_UnknownEnumDomain
            else Inr ())
       | V_Tuple t \<Rightarrow>
           (if \<not> ValidateTupleComponents d t then Inl E_ValueTypeMismatch else Inr ())
       | V_TupleSet ts \<Rightarrow>
           (if list_ex (\<lambda>t. \<not> ValidateTupleComponents d t) ts then Inl E_ValueTypeMismatch
            else if length ts > cd_max_set_cardinality d then Inl E_TooManyItems
            else Inr ())
       | V_VersionInterval _ \<Rightarrow> Inr ()
       | V_Record _ \<Rightarrow> Inr ()
       | V_Opaque p \<Rightarrow>
           (if op_encoding p \<noteq> cap_local (cd_id d)
              \<and> length (op_bytes p) > kMaxExtensionPayloadBytes
            then Inl E_PayloadTooLarge else Inr ())
       | V_Absent \<Rightarrow> Inl E_ValueTypeMismatch)"

section \<open>The schema object\<close>

record capability_schema =
  cs_descriptors :: "capability_descriptor list"
  cs_vendor_count :: nat

definition schema_lookup :: "capability_schema \<Rightarrow> capability_id \<Rightarrow> capability_descriptor option" where
  "schema_lookup sch ident = find (\<lambda>d. cd_id d = ident) (cs_descriptors sch)"

text \<open>\<open>emplace\<close> keeps an existing entry.\<close>

definition schema_emplace :: "capability_schema \<Rightarrow> capability_descriptor \<Rightarrow> capability_schema" where
  "schema_emplace sch d =
     (if schema_lookup sch (cd_id d) = None
      then sch\<lparr>cs_descriptors := cs_descriptors sch @ [d]\<rparr> else sch)"

definition CapabilitySchema_of :: "capability_descriptor list \<Rightarrow> capability_schema" where
  "CapabilitySchema_of canonical =
     foldl schema_emplace \<lparr>cs_descriptors = [], cs_vendor_count = 0\<rparr> canonical"

definition RegisterVendorDescriptor ::
  "capability_schema \<Rightarrow> capability_descriptor \<Rightarrow> status \<times> capability_schema" where
  "RegisterVendorDescriptor sch d =
     (case ValidateDescriptor d of
        Inl e \<Rightarrow> (Inl e, sch)
      | Inr _ \<Rightarrow>
          if \<not> cd_vendor_extension d then (Inl E_SchemaViolation, sch)
          else case schema_lookup sch (cd_id d) of
            Some existing \<Rightarrow>
              if existing = d then (Inr (), sch) else (Inl E_DuplicateClaim, sch)
          | None \<Rightarrow>
              if cs_vendor_count sch \<ge> kMaxVendorDescriptors then (Inl E_TooManyItems, sch)
              else (Inr (), schema_emplace (sch\<lparr>cs_vendor_count := cs_vendor_count sch + 1\<rparr>) d))"

definition Schema_Find :: "capability_schema \<Rightarrow> capability_id \<Rightarrow> capability_descriptor outcome" where
  "Schema_Find sch ident =
     (case schema_lookup sch ident of None \<Rightarrow> Inl E_UnknownCapability | Some d \<Rightarrow> Inr d)"

definition Schema_Contains :: "capability_schema \<Rightarrow> capability_id \<Rightarrow> bool" where
  "Schema_Contains sch ident \<longleftrightarrow> schema_lookup sch ident \<noteq> None"

definition Schema_Descriptors :: "capability_schema \<Rightarrow> capability_descriptor list" where
  "Schema_Descriptors sch = sort_key (\<lambda>d. cap_rendered (cd_id d)) (cs_descriptors sch)"

definition Schema_Namespaces :: "capability_schema \<Rightarrow> namespace_id list" where
  "Schema_Namespaces sch = sort (remdups (map (\<lambda>d. cap_ns (cd_id d)) (cs_descriptors sch)))"

definition Schema_Size :: "capability_schema \<Rightarrow> nat" where
  "Schema_Size sch = length (cs_descriptors sch)"

section \<open>The schema invariant\<close>

definition schema_wf :: "capability_schema \<Rightarrow> bool" where
  "schema_wf sch \<longleftrightarrow>
     distinct (map cd_id (cs_descriptors sch))
     \<and> list_all (\<lambda>d. ValidateDescriptor d = Inr ()) (cs_descriptors sch)
     \<and> cs_vendor_count sch = length (filter cd_vendor_extension (cs_descriptors sch))
     \<and> cs_vendor_count sch \<le> kMaxVendorDescriptors"

lemma schema_lookup_None: "schema_lookup sch i = None \<longleftrightarrow> i \<notin> cd_id ` set (cs_descriptors sch)"
  by (auto simp: schema_lookup_def find_None_iff)

lemma schema_lookup_Some: "schema_lookup sch i = Some d \<Longrightarrow> d \<in> set (cs_descriptors sch) \<and> cd_id d = i"
  by (auto simp: schema_lookup_def find_Some_iff)

lemma find_distinct_key:
  "distinct (map f xs) \<Longrightarrow> x \<in> set xs \<Longrightarrow> find (\<lambda>y. f y = f x) xs = Some x"
  by (induction xs) auto

lemma schema_lookup_member:
  "distinct (map cd_id (cs_descriptors sch)) \<Longrightarrow> d \<in> set (cs_descriptors sch) \<Longrightarrow>
     schema_lookup sch (cd_id d) = Some d"
  by (simp add: schema_lookup_def find_distinct_key)

lemma find_append: "find P (xs @ ys) = (case find P xs of None \<Rightarrow> find P ys | Some x \<Rightarrow> Some x)"
  by (induction xs) auto

lemma schema_lookup_emplace:
  "schema_lookup (schema_emplace sch d) i =
     (if schema_lookup sch i = None \<and> i = cd_id d then Some d else schema_lookup sch i)"
  by (auto simp: schema_emplace_def schema_lookup_def find_append split: option.split)

lemma RegisterVendorDescriptor_cases:
  obtains (rejected) e where "RegisterVendorDescriptor sch d = (Inl e, sch)"
  | (present) "RegisterVendorDescriptor sch d = (Inr (), sch)" "schema_lookup sch (cd_id d) = Some d"
  | (added) "RegisterVendorDescriptor sch d =
        (Inr (), schema_emplace (sch\<lparr>cs_vendor_count := cs_vendor_count sch + 1\<rparr>) d)"
      "ValidateDescriptor d = Inr ()" "cd_vendor_extension d"
      "schema_lookup sch (cd_id d) = None" "cs_vendor_count sch < kMaxVendorDescriptors"
proof (cases "ValidateDescriptor d")
  case (Inl e)
  then show thesis by (intro rejected [of e]) (simp add: RegisterVendorDescriptor_def)
next
  case (Inr u)
  note v = this
  show thesis
  proof (cases "cd_vendor_extension d")
    case False
    then show thesis using v
      by (intro rejected [of E_SchemaViolation]) (simp add: RegisterVendorDescriptor_def)
  next
    case True
    note e = this
    show thesis
    proof (cases "schema_lookup sch (cd_id d)")
      case (Some x)
      then show thesis using v e present rejected [of E_DuplicateClaim]
        by (cases "x = d") (simp_all add: RegisterVendorDescriptor_def)
    next
      case None
      then show thesis using v e added rejected [of E_TooManyItems]
        by (cases "cs_vendor_count sch \<ge> kMaxVendorDescriptors")
          (simp_all add: RegisterVendorDescriptor_def)
    qed
  qed
qed

lemma schema_lookup_count [simp]: "schema_lookup (sch\<lparr>cs_vendor_count := n\<rparr>) i = schema_lookup sch i"
  by (simp add: schema_lookup_def)

lemma RegisterVendorDescriptor_wf:
  assumes wf: "schema_wf sch"
  shows "schema_wf (snd (RegisterVendorDescriptor sch d))"
proof (cases rule: RegisterVendorDescriptor_cases [of sch d])
  case added
  then have "cd_id d \<notin> cd_id ` set (cs_descriptors sch)" by (simp add: schema_lookup_None)
  then show ?thesis using wf added
    by (simp add: schema_wf_def schema_emplace_def)
qed (use wf in simp_all)

lemma RegisterVendorDescriptor_keeps:
  "schema_lookup sch i = Some x \<Longrightarrow>
     schema_lookup (snd (RegisterVendorDescriptor sch d)) i = Some x"
  by (cases rule: RegisterVendorDescriptor_cases [of sch d])
    (simp_all add: schema_lookup_emplace)

lemma RegisterVendorDescriptor_result:
  "fst (RegisterVendorDescriptor sch d) = Inr () \<Longrightarrow>
     schema_lookup (snd (RegisterVendorDescriptor sch d)) (cd_id d) = Some d"
  by (cases rule: RegisterVendorDescriptor_cases [of sch d])
    (simp_all add: schema_lookup_emplace)

section \<open>Properties\<close>

text \<open>Registering vendor descriptors keeps the schema sound: identifiers stay unique, every
  descriptor stays valid and the count of extensions stays exact and bounded; a declared
  capability is never redefined; a rejected registration changes nothing and an accepted one
  makes exactly that descriptor the declared one.\<close>

theorem RegisterVendorDescriptor_sound:
  assumes "schema_wf sch" and "RegisterVendorDescriptor sch d = (result, sch')"
  shows "schema_wf sch'
    \<and> (\<forall>i x. schema_lookup sch i = Some x \<longrightarrow> schema_lookup sch' i = Some x)
    \<and> (result \<noteq> Inr () \<longrightarrow> sch' = sch)
    \<and> (result = Inr () \<longrightarrow> schema_lookup sch' (cd_id d) = Some d)"
proof (intro conjI allI impI)
  have r: "result = fst (RegisterVendorDescriptor sch d)"
    and s: "sch' = snd (RegisterVendorDescriptor sch d)" using assms(2) by simp_all
  show "schema_wf sch'" unfolding s by (rule RegisterVendorDescriptor_wf [OF assms(1)])
  show "schema_lookup sch' i = Some x" if "schema_lookup sch i = Some x" for i x
    unfolding s by (rule RegisterVendorDescriptor_keeps [OF that])
  show "sch' = sch" if "result \<noteq> Inr ()"
    using that unfolding r s by (cases rule: RegisterVendorDescriptor_cases [of sch d]) simp_all
  show "schema_lookup sch' (cd_id d) = Some d" if "result = Inr ()"
    using that unfolding r s by (rule RegisterVendorDescriptor_result)
qed

lemma RegisterVendorDescriptor_sound_witness:
  "schema_wf (snd (RegisterVendorDescriptor \<lparr>cs_descriptors = [], cs_vendor_count = 0\<rparr>
     descriptor_default))"
  using RegisterVendorDescriptor_sound [of "\<lparr>cs_descriptors = [], cs_vendor_count = 0\<rparr>"
      descriptor_default "fst (RegisterVendorDescriptor \<lparr>cs_descriptors = [], cs_vendor_count = 0\<rparr>
        descriptor_default)" "snd (RegisterVendorDescriptor \<lparr>cs_descriptors = [], cs_vendor_count = 0\<rparr>
        descriptor_default)"]
  by (simp add: schema_wf_def)

text \<open>A descriptor of integer kind accepts integers its encoding cannot carry: every value from
  2305843009213693953 up to the descriptor's bound passes validation, yet the decoder rejects
  the bytes written for it as out of range.\<close>

theorem accepted_integer_not_readable:
  assumes "cd_kind d = K_Integer" and "cd_maximum_quantity d = kMaxQuantity"
    and "kMaxInteger < i" and "i \<le> 4611686018427387904"
  shows "ValidateValueAgainstDescriptor d (V_Integer i) = Inr ()
    \<and> Value_Decode (Value_Encode (V_Integer i)) = Inl E_ValueOutOfRange"
proof -
  have ok: "i64_ok i" using assms(3,4) by (simp add: i64_ok_def)
  have "uint (word_of_int i :: u64) = i"
    using assms(3,4) by (simp add: unsigned_of_int take_bit_int_eq_self)
  then have "\<not> (word_of_int i :: u64) > kMaxQuantity"
    using assms(4) by (simp add: word_less_def)
  moreover have "get_i64 (put_i64 i) = Inr (i, [])" by (rule i64.whole [OF ok])
  moreover have "Value_Decode (Value_Encode (V_Integer i)) =
      Value_Decode_body K_Integer (put_i64 i)"
    using Value_Decode_Encode_body [of "V_Integer i" "[]"] by (simp add: Value_Encode_def)
  ultimately show ?thesis using assms
    by (simp add: ValidateValueAgainstDescriptor_def ValidateCanonical_def
        Value_Decode_body_def codec_simps)
qed

lemma accepted_integer_not_readable_witness:
  "Value_Decode (Value_Encode (V_Integer 2305843009213693953)) = Inl E_ValueOutOfRange"
  using accepted_integer_not_readable [of "descriptor_default\<lparr>cd_kind := K_Integer\<rparr>"
      2305843009213693953]
  by (simp add: descriptor_default_def)

end
