(* ===== verification/CanonicalSchema.thy ===== *)
theory CanonicalSchema
  imports Schema
begin

text \<open>
  The canonical descriptors of \<open>schema.cpp\<close>, section by section of \<open>MakeCanonicalDescriptors\<close>, and
  the schema object the process starts with.
\<close>

definition canonical_protocol :: "capability_descriptor list" where
  "canonical_protocol =
    [B_Describe
        ''protocol families the entity can carry''
      (B_Class ''generic-ethernet'' (B_Protocols
        [P_Ethernet, P_Ipv4, P_Ipv6, P_Vlan, P_Mpls, P_Vxlan, P_Geneve, P_Srv6, P_Tcp,
         P_Udp, P_RoceV1, P_RoceV2, P_Iwarp, P_InfiniBand, P_Ptp, P_NvmeOf,
         P_FibreChannel, P_Fcoe, P_Lacp, P_LacpPdu]
      (B_new ''fabric.protocol.families'' K_ProtocolSet))),
     B_Describe
        ''accepted peer protocol version interval''
      (B_new ''fabric.protocol.version_range'' K_VersionInterval),
     B_Describe
        ''number of VLAN tags the datapath can push or pop''
      (B_Quantity U_Count 8 (B_new ''fabric.protocol.vlan_tag_depth'' K_Quantity)),
     B_Describe
        ''MPLS label stack depth''
      (B_Quantity U_Count 16 (B_new ''fabric.protocol.mpls_label_depth'' K_Quantity)),
     B_Describe
        ''segment routing over IPv6 support''
      (B_new ''fabric.protocol.srv6_supported'' K_Boolean),
     B_Describe
        ''link aggregation participant support''
      (B_new ''fabric.protocol.lag_supported'' K_Boolean)]"

definition canonical_forwarding :: "capability_descriptor list" where
  "canonical_forwarding =
    [B_Describe
        ''layer 2 forwarding''
      (B_Class ''generic-ethernet'' (B_new ''fabric.forwarding.l2_forwarding'' K_Boolean)),
     B_Describe
        ''layer 3 forwarding''
      (B_new ''fabric.forwarding.l3_forwarding'' K_Boolean),
     B_Describe
        ''equal cost multipath support declaration''
      (B_new ''fabric.forwarding.ecmp_supported'' K_Boolean),
     B_Describe
        ''weighted equal cost multipath support declaration''
      (B_new ''fabric.forwarding.weighted_ecmp_supported'' K_Boolean),
     B_Describe
        ''maximum multipath width''
      (B_Quantity U_Count 4096 (B_new ''fabric.forwarding.max_ecmp_width'' K_Quantity)),
     B_Describe
        ''multicast forwarding''
      (B_new ''fabric.forwarding.multicast_supported'' K_Boolean),
     B_Describe
        ''segment routing forwarding''
      (B_new ''fabric.forwarding.segment_routing_supported'' K_Boolean),
     B_Describe
        ''programmable forwarding pipeline''
      (B_new ''fabric.forwarding.programmable_forwarding_supported'' K_Boolean),
     B_Describe
        ''ACL or filter table support''
      (B_new ''fabric.forwarding.acl_tables_supported'' K_Boolean),
     B_Describe
        ''ACL entry scale''
      (B_Quantity U_Count kMaxQuantity (B_new ''fabric.forwarding.max_acl_entries'' K_Quantity)),
     B_Describe
        ''policy based routing support''
      (B_new ''fabric.forwarding.policy_routing_supported'' K_Boolean),
     B_Describe
        ''IPv4 route scale where authoritative''
      (B_Quantity U_Count kMaxQuantity (B_new ''fabric.forwarding.max_routes_ipv4'' K_Quantity)),
     B_Describe
        ''IPv6 route scale where authoritative''
      (B_Quantity U_Count kMaxQuantity (B_new ''fabric.forwarding.max_routes_ipv6'' K_Quantity)),
     B_Describe
        ''host or neighbor table scale''
      (B_Quantity U_Count kMaxQuantity (B_new ''fabric.forwarding.max_host_entries'' K_Quantity))]"

definition canonical_port :: "capability_descriptor list" where
  "canonical_port =
    [B_Describe
        ''discrete link speeds the port may be configured for''
      (B_Class ''generic-ethernet'' (B_Set U_BitsPerSecond 64 1000000000000000 (B_new ''fabric.port.supported_speeds'' K_NumericSet))),
     B_Describe
        ''lane counts the port may be broken out into''
      (B_Set U_Count 32 64 (B_new ''fabric.port.supported_lane_counts'' K_NumericSet)),
     B_Describe
        ''per lane signalling rates''
      (B_Set U_BitsPerSecond 32 1000000000000 (B_new ''fabric.port.lane_rates'' K_NumericSet)),
     B_Describe
        ''valid (lane count, lane rate) combinations''
      (B_Tuple 2 K_Quantity K_Quantity (B_new ''fabric.port.lane_configurations'' K_TupleSet)),
     B_Describe
        ''declared breakout modes of a physical port''
      (B_EnumSet ''fabric.port.media_type'' 16 (B_new ''fabric.port.breakout_modes'' K_EnumSet)),
     B_Describe
        ''supported MTU interval''
      (B_Class ''generic-ethernet'' (B_Range U_Bytes 1000000 (B_new ''fabric.port.mtu_range'' K_NumericRange))),
     B_Describe
        ''maximum frame size the port accepts''
      (B_Quantity U_Bytes 1000000 (B_new ''fabric.port.max_frame_size'' K_Quantity)),
     B_Describe
        ''forward error correction modes''
      (B_EnumSet ''fabric.port.fec_mode'' 8 (B_new ''fabric.port.supported_fec_modes'' K_EnumSet)),
     B_Describe
        ''physical media classes''
      (B_EnumSet ''fabric.port.media_type'' 8 (B_new ''fabric.port.media_types'' K_EnumSet)),
     B_Describe
        ''connector types''
      (B_EnumSet ''fabric.optics.connector_type'' 8 (B_new ''fabric.port.connector_types'' K_EnumSet)),
     B_Describe
        ''maximum number of breakout children''
      (B_Quantity U_Count 64 (B_new ''fabric.port.max_breakout_children'' K_Quantity)),
     B_Describe
        ''pause frame support declaration''
      (B_new ''fabric.port.pause_frame_support'' K_Boolean)]"

definition canonical_optics :: "capability_descriptor list" where
  "canonical_optics =
    [B_Describe
        ''supported transceiver form factors''
      (B_Class ''optical-facing'' (B_EnumSet ''fabric.optics.transceiver_type'' 16 (B_new ''fabric.optics.transceiver_types'' K_EnumSet))),
     B_Describe
        ''supported optical rates''
      (B_Set U_BitsPerSecond 64 100000000000000 (B_new ''fabric.optics.supported_rates'' K_NumericSet)),
     B_Describe
        ''supported optical lane counts''
      (B_Set U_Count 32 64 (B_new ''fabric.optics.lane_counts'' K_NumericSet)),
     B_Describe
        ''supported modulation formats''
      (B_EnumSet ''fabric.optics.modulation'' 8 (B_new ''fabric.optics.modulation_formats'' K_EnumSet)),
     B_Describe
        ''supported optical FEC modes''
      (B_EnumSet ''fabric.optics.fec_mode'' 8 (B_new ''fabric.optics.fec_modes'' K_EnumSet)),
     B_Describe
        ''supported centre wavelengths in nanometres''
      (B_Set U_Nanometers 256 2000 (B_new ''fabric.optics.wavelengths'' K_NumericSet)),
     B_Describe
        ''digital optical monitoring support declaration''
      (B_new ''fabric.optics.diagnostic_monitoring_supported'' K_Boolean),
     B_Describe
        ''available digital optical monitoring measurements''
      (B_EnumSet ''fabric.optics.dom_measurement'' 16 (B_new ''fabric.optics.dom_measurements'' K_EnumSet))]"

definition canonical_queue :: "capability_descriptor list" where
  "canonical_queue =
    [B_Describe
        ''maximum receive queue count''
      (B_Quantity U_Count 1000000 (B_new ''fabric.queue.max_rx_queues'' K_Quantity)),
     B_Describe
        ''maximum transmit queue count''
      (B_Quantity U_Count 1000000 (B_new ''fabric.queue.max_tx_queues'' K_Quantity)),
     B_Describe
        ''number of traffic classes''
      (B_Quantity U_Count 64 (B_new ''fabric.queue.traffic_class_count'' K_Quantity)),
     B_Describe
        ''number of priorities''
      (B_Quantity U_Count 64 (B_new ''fabric.queue.priority_count'' K_Quantity)),
     B_Describe
        ''supported queue scheduler classes''
      (B_EnumSet ''fabric.queue.scheduler_class'' 8 (B_new ''fabric.queue.scheduler_classes'' K_EnumSet)),
     B_Describe
        ''per queue counter availability declaration''
      (B_new ''fabric.queue.per_queue_telemetry_supported'' K_Boolean),
     B_Describe
        ''queue isolation support declaration''
      (B_new ''fabric.queue.isolation_supported'' K_Boolean)]"

definition canonical_buffer_exposure :: "capability_descriptor list" where
  "canonical_buffer_exposure =
    [B_Describe
        ''total exposed packet buffer memory''
      (B_Quantity U_Bytes kMaxQuantity (B_new ''fabric.buffer-exposure.total_packet_buffer'' K_Quantity)),
     B_Describe
        ''per port exposed buffer ceiling''
      (B_Quantity U_Bytes kMaxQuantity (B_new ''fabric.buffer-exposure.per_port_buffer_ceiling'' K_Quantity)),
     B_Describe
        ''shared buffer support declaration''
      (B_new ''fabric.buffer-exposure.shared_buffer_supported'' K_Boolean),
     B_Describe
        ''supported buffer threshold mechanisms''
      (B_EnumSet ''fabric.buffer.threshold_mechanism'' 8 (B_new ''fabric.buffer-exposure.threshold_mechanisms'' K_EnumSet)),
     B_Describe
        ''headroom support declaration''
      (B_new ''fabric.buffer-exposure.headroom_supported'' K_Boolean)]"

definition canonical_telemetry :: "capability_descriptor list" where
  "canonical_telemetry =
    [B_Describe
        ''telemetry families the entity can expose''
      (B_EnumSet ''fabric.telemetry.family'' 16 (B_new ''fabric.telemetry.families'' K_EnumSet)),
     B_Describe
        ''flow telemetry export scale''
      (B_Quantity U_Count kMaxQuantity (B_new ''fabric.telemetry.max_flow_export_entries'' K_Quantity)),
     B_Describe
        ''histogram telemetry support declaration''
      (B_new ''fabric.telemetry.histogram_supported'' K_Boolean)]"

definition canonical_offload :: "capability_descriptor list" where
  "canonical_offload =
    [B_Describe
        ''receive checksum offload declaration''
      (B_new ''fabric.offload.checksum_rx'' K_Boolean),
     B_Describe
        ''transmit checksum offload declaration''
      (B_new ''fabric.offload.checksum_tx'' K_Boolean),
     B_Describe
        ''TSO or GSO style segmentation offload declaration''
      (B_new ''fabric.offload.segmentation_offload'' K_Boolean),
     B_Describe
        ''receive side scaling declaration''
      (B_new ''fabric.offload.receive_side_scaling'' K_Boolean),
     B_Describe
        ''maximum receive side scaling queue count''
      (B_Quantity U_Count 1000000 (B_new ''fabric.offload.max_rss_queues'' K_Quantity)),
     B_Describe
        ''flow steering declaration''
      (B_new ''fabric.offload.flow_steering'' K_Boolean),
     B_Describe
        ''network local crypto offload declaration''
      (B_new ''fabric.offload.crypto'' K_Boolean),
     B_Describe
        ''network local compression offload declaration''
      (B_new ''fabric.offload.compression'' K_Boolean),
     B_Describe
        ''RDMA offload declaration''
      (B_new ''fabric.offload.rdma'' K_Boolean),
     B_Describe
        ''accelerator adjacent network path declaration''
      (B_new ''fabric.offload.accelerator_adjacent_network'' K_Boolean),
     B_Describe
        ''programmable offload classes''
      (B_Class ''programmable-datapath'' (B_EnumSet ''fabric.offload.programmable_class'' 16 (B_new ''fabric.offload.programmable_offload_classes'' K_EnumSet))),
     B_Describe
        ''virtualization offload classes''
      (B_EnumSet ''fabric.offload.virtualization_class'' 16 (B_new ''fabric.offload.virtualization_offloads'' K_EnumSet)),
     B_Describe
        ''tunnel offload classes''
      (B_EnumSet ''fabric.offload.tunnel_class'' 16 (B_new ''fabric.offload.tunnel_offloads'' K_EnumSet))]"

definition canonical_rdma :: "capability_descriptor list" where
  "canonical_rdma =
    [B_Describe
        ''RDMA transport families the entity declares''
      (B_Class ''rdma-capable'' (B_EnumSet ''fabric.rdma.transport'' 8 (B_new ''fabric.rdma.transport_families'' K_EnumSet))),
     B_Describe
        ''maximum queue pairs''
      (B_Quantity U_Count 10000000 (B_new ''fabric.rdma.max_queue_pairs'' K_Quantity)),
     B_Describe
        ''RDMA atomic operations declaration''
      (B_new ''fabric.rdma.atomic_operations_supported'' K_Boolean),
     B_Describe
        ''reliable connection transport declaration''
      (B_new ''fabric.rdma.reliable_connection_supported'' K_Boolean),
     B_Describe
        ''memory window declaration''
      (B_new ''fabric.rdma.memory_window_supported'' K_Boolean),
     B_Describe
        ''maximum RDMA message size''
      (B_Quantity U_Bytes 1073741824 (B_new ''fabric.rdma.max_message_size'' K_Quantity))]"

definition canonical_congestion_flow_control :: "capability_descriptor list" where
  "canonical_congestion_flow_control =
    [B_Describe
        ''explicit congestion notification support declaration''
      (B_new ''fabric.congestion.ecn_supported'' K_Boolean),
     B_Describe
        ''priority flow control support declaration''
      (B_new ''fabric.congestion.pfc_supported'' K_Boolean),
     B_Describe
        ''link level pause support declaration''
      (B_new ''fabric.congestion.pause_supported'' K_Boolean),
     B_Describe
        ''credit based flow control support declaration''
      (B_new ''fabric.congestion.credit_flow_control_supported'' K_Boolean),
     B_Describe
        ''transmit pacing support declaration''
      (B_new ''fabric.congestion.pacing_supported'' K_Boolean),
     B_Describe
        ''congestion marking support declaration''
      (B_new ''fabric.congestion.congestion_marking_supported'' K_Boolean),
     B_Describe
        ''congestion telemetry support declaration''
      (B_new ''fabric.congestion.congestion_telemetry_supported'' K_Boolean),
     B_Describe
        ''adaptive routing signalling support declaration''
      (B_new ''fabric.congestion.adaptive_routing_signaling_supported'' K_Boolean),
     B_Describe
        ''supported congestion notification marking modes''
      (B_EnumSet ''fabric.congestion.ecn_mode'' 8 (B_new ''fabric.congestion.ecn_marking_modes'' K_EnumSet))]"

definition canonical_qos :: "capability_descriptor list" where
  "canonical_qos =
    [B_Describe
        ''number of QoS priorities''
      (B_Quantity U_Count 64 (B_new ''fabric.qos.priority_count'' K_Quantity)),
     B_Describe
        ''number of QoS traffic classes''
      (B_Quantity U_Count 64 (B_new ''fabric.qos.traffic_class_count'' K_Quantity)),
     B_Describe
        ''traffic shaping support declaration''
      (B_new ''fabric.qos.shaper_supported'' K_Boolean),
     B_Describe
        ''traffic policing support declaration''
      (B_new ''fabric.qos.policer_supported'' K_Boolean),
     B_Describe
        ''packet marking support declaration''
      (B_new ''fabric.qos.marking_supported'' K_Boolean),
     B_Describe
        ''supported QoS trust modes''
      (B_EnumSet ''fabric.qos.trust_mode'' 8 (B_new ''fabric.qos.trust_modes'' K_EnumSet)),
     B_Describe
        ''strict priority scheduling declaration''
      (B_new ''fabric.qos.strict_priority_supported'' K_Boolean),
     B_Describe
        ''weighted scheduling declaration''
      (B_new ''fabric.qos.weighted_scheduling_supported'' K_Boolean)]"

definition canonical_tunneling :: "capability_descriptor list" where
  "canonical_tunneling =
    [B_Describe
        ''supported tunnel encapsulations''
      (B_EnumSet ''fabric.tunneling.encapsulation'' 16 (B_new ''fabric.tunneling.encapsulations'' K_EnumSet)),
     B_Describe
        ''tunnel endpoint scale''
      (B_Quantity U_Count 10000000 (B_new ''fabric.tunneling.max_tunnel_endpoints'' K_Quantity)),
     B_Describe
        ''tunnel decapsulation declaration''
      (B_new ''fabric.tunneling.decap_supported'' K_Boolean),
     B_Describe
        ''UDP based encapsulation declaration''
      (B_new ''fabric.tunneling.udp_based_supported'' K_Boolean)]"

definition canonical_virtualization :: "capability_descriptor list" where
  "canonical_virtualization =
    [B_Describe
        ''SR-IOV support declaration; a complete PCI enumeration settles absence''
      (B_AbsenceIsNegative (B_new ''fabric.virtualization.sriov_supported'' K_Boolean)),
     B_Describe
        ''maximum virtual functions''
      (B_Quantity U_Count 4096 (B_new ''fabric.virtualization.max_virtual_functions'' K_Quantity)),
     B_Describe
        ''maximum physical functions''
      (B_Quantity U_Count 64 (B_new ''fabric.virtualization.max_physical_functions'' K_Quantity)),
     B_Describe
        ''virtual port declaration''
      (B_new ''fabric.virtualization.virtual_ports_supported'' K_Boolean),
     B_Describe
        ''port representor declaration''
      (B_new ''fabric.virtualization.representors_supported'' K_Boolean),
     B_Describe
        ''device partitioning declaration''
      (B_new ''fabric.virtualization.partitioning_supported'' K_Boolean),
     B_Describe
        ''tenant isolation features''
      (B_EnumSet ''fabric.virtualization.isolation_feature'' 16 (B_new ''fabric.virtualization.tenant_isolation_features'' K_EnumSet))]"

definition canonical_timestamping :: "capability_descriptor list" where
  "canonical_timestamping =
    [B_Describe
        ''hardware timestamping declaration; a complete device capability query settles absence''
      (B_AbsenceIsNegative (B_new ''fabric.timestamping.hardware_timestamp_supported'' K_Boolean)),
     B_Describe
        ''software timestamping declaration''
      (B_new ''fabric.timestamping.software_timestamp_supported'' K_Boolean),
     B_Describe
        ''receive timestamp declaration''
      (B_new ''fabric.timestamping.rx_timestamp_supported'' K_Boolean),
     B_Describe
        ''transmit timestamp declaration''
      (B_new ''fabric.timestamping.tx_timestamp_supported'' K_Boolean),
     B_Describe
        ''supported clock sources''
      (B_EnumSet ''fabric.timestamping.clock_source'' 16 (B_new ''fabric.timestamping.clock_sources'' K_EnumSet)),
     B_Describe
        ''timestamp precision class''
      (B_Domain ''fabric.timestamping.precision_class'' (B_new ''fabric.timestamping.precision_class'' K_Enumeration)),
     B_Describe
        ''supported PTP profiles''
      (B_EnumSet ''fabric.timestamping.ptp_profile'' 8 (B_new ''fabric.timestamping.ptp_profiles'' K_EnumSet))]"

definition canonical_device_management_compatibility :: "capability_descriptor list" where
  "canonical_device_management_compatibility =
    [B_Describe
        ''device management API version interval''
      (B_new ''fabric.device-management.supported_api_versions'' K_VersionInterval),
     B_Describe
        ''configuration rollback declaration''
      (B_new ''fabric.device-management.config_rollback_supported'' K_Boolean),
     B_Describe
        ''secure boot declaration''
      (B_new ''fabric.device-management.secure_boot_supported'' K_Boolean),
     B_Describe
        ''declared capability compatibility class''
      (B_Domain ''fabric.compatibility.class'' (B_new ''fabric.compatibility.class'' K_Enumeration)),
     B_Describe
        ''capability API version interval the entity is compatible with''
      (B_new ''fabric.compatibility.api_version_range'' K_VersionInterval),
     B_Describe
        ''firmware version interval the capability truth was established under''
      (B_new ''fabric.compatibility.requires_firmware_at_least'' K_VersionInterval)]"

text \<open>The sections in the order of the code, then sorted by identifier.\<close>

definition canonical_sections :: "capability_descriptor list" where
  "canonical_sections =
     canonical_protocol
     @ canonical_forwarding
     @ canonical_port
     @ canonical_optics
     @ canonical_queue
     @ canonical_buffer_exposure
     @ canonical_telemetry
     @ canonical_offload
     @ canonical_rdma
     @ canonical_congestion_flow_control
     @ canonical_qos
     @ canonical_tunneling
     @ canonical_virtualization
     @ canonical_timestamping
     @ canonical_device_management_compatibility"

definition MakeCanonicalDescriptors :: "capability_descriptor list" where
  "MakeCanonicalDescriptors = sort_key (\<lambda>d. cap_rendered (cd_id d)) canonical_sections"

definition CapabilitySchema_new :: capability_schema where
  "CapabilitySchema_new = CapabilitySchema_of MakeCanonicalDescriptors"

section \<open>Every canonical descriptor is valid\<close>

definition check_descriptor :: "capability_descriptor \<Rightarrow> status \<times> string" where
  "check_descriptor d = (ValidateDescriptor d, cap_rendered (cd_id d))"

lemma canonical_protocol_checked:
  "map check_descriptor canonical_protocol =
    [(Inr (), ''fabric.protocol.families''),
     (Inr (), ''fabric.protocol.version_range''),
     (Inr (), ''fabric.protocol.vlan_tag_depth''),
     (Inr (), ''fabric.protocol.mpls_label_depth''),
     (Inr (), ''fabric.protocol.srv6_supported''),
     (Inr (), ''fabric.protocol.lag_supported'')]"
  by code_simp

lemma canonical_forwarding_checked:
  "map check_descriptor canonical_forwarding =
    [(Inr (), ''fabric.forwarding.l2_forwarding''),
     (Inr (), ''fabric.forwarding.l3_forwarding''),
     (Inr (), ''fabric.forwarding.ecmp_supported''),
     (Inr (), ''fabric.forwarding.weighted_ecmp_supported''),
     (Inr (), ''fabric.forwarding.max_ecmp_width''),
     (Inr (), ''fabric.forwarding.multicast_supported''),
     (Inr (), ''fabric.forwarding.segment_routing_supported''),
     (Inr (), ''fabric.forwarding.programmable_forwarding_supported''),
     (Inr (), ''fabric.forwarding.acl_tables_supported''),
     (Inr (), ''fabric.forwarding.max_acl_entries''),
     (Inr (), ''fabric.forwarding.policy_routing_supported''),
     (Inr (), ''fabric.forwarding.max_routes_ipv4''),
     (Inr (), ''fabric.forwarding.max_routes_ipv6''),
     (Inr (), ''fabric.forwarding.max_host_entries'')]"
  by code_simp

lemma canonical_port_checked:
  "map check_descriptor canonical_port =
    [(Inr (), ''fabric.port.supported_speeds''),
     (Inr (), ''fabric.port.supported_lane_counts''),
     (Inr (), ''fabric.port.lane_rates''),
     (Inr (), ''fabric.port.lane_configurations''),
     (Inr (), ''fabric.port.breakout_modes''),
     (Inr (), ''fabric.port.mtu_range''),
     (Inr (), ''fabric.port.max_frame_size''),
     (Inr (), ''fabric.port.supported_fec_modes''),
     (Inr (), ''fabric.port.media_types''),
     (Inr (), ''fabric.port.connector_types''),
     (Inr (), ''fabric.port.max_breakout_children''),
     (Inr (), ''fabric.port.pause_frame_support'')]"
  by code_simp

lemma canonical_optics_checked:
  "map check_descriptor canonical_optics =
    [(Inr (), ''fabric.optics.transceiver_types''),
     (Inr (), ''fabric.optics.supported_rates''),
     (Inr (), ''fabric.optics.lane_counts''),
     (Inr (), ''fabric.optics.modulation_formats''),
     (Inr (), ''fabric.optics.fec_modes''),
     (Inr (), ''fabric.optics.wavelengths''),
     (Inr (), ''fabric.optics.diagnostic_monitoring_supported''),
     (Inr (), ''fabric.optics.dom_measurements'')]"
  by code_simp

lemma canonical_queue_checked:
  "map check_descriptor canonical_queue =
    [(Inr (), ''fabric.queue.max_rx_queues''),
     (Inr (), ''fabric.queue.max_tx_queues''),
     (Inr (), ''fabric.queue.traffic_class_count''),
     (Inr (), ''fabric.queue.priority_count''),
     (Inr (), ''fabric.queue.scheduler_classes''),
     (Inr (), ''fabric.queue.per_queue_telemetry_supported''),
     (Inr (), ''fabric.queue.isolation_supported'')]"
  by code_simp

lemma canonical_buffer_exposure_checked:
  "map check_descriptor canonical_buffer_exposure =
    [(Inr (), ''fabric.buffer-exposure.total_packet_buffer''),
     (Inr (), ''fabric.buffer-exposure.per_port_buffer_ceiling''),
     (Inr (), ''fabric.buffer-exposure.shared_buffer_supported''),
     (Inr (), ''fabric.buffer-exposure.threshold_mechanisms''),
     (Inr (), ''fabric.buffer-exposure.headroom_supported'')]"
  by code_simp

lemma canonical_telemetry_checked:
  "map check_descriptor canonical_telemetry =
    [(Inr (), ''fabric.telemetry.families''),
     (Inr (), ''fabric.telemetry.max_flow_export_entries''),
     (Inr (), ''fabric.telemetry.histogram_supported'')]"
  by code_simp

lemma canonical_offload_checked:
  "map check_descriptor canonical_offload =
    [(Inr (), ''fabric.offload.checksum_rx''),
     (Inr (), ''fabric.offload.checksum_tx''),
     (Inr (), ''fabric.offload.segmentation_offload''),
     (Inr (), ''fabric.offload.receive_side_scaling''),
     (Inr (), ''fabric.offload.max_rss_queues''),
     (Inr (), ''fabric.offload.flow_steering''),
     (Inr (), ''fabric.offload.crypto''),
     (Inr (), ''fabric.offload.compression''),
     (Inr (), ''fabric.offload.rdma''),
     (Inr (), ''fabric.offload.accelerator_adjacent_network''),
     (Inr (), ''fabric.offload.programmable_offload_classes''),
     (Inr (), ''fabric.offload.virtualization_offloads''),
     (Inr (), ''fabric.offload.tunnel_offloads'')]"
  by code_simp

lemma canonical_rdma_checked:
  "map check_descriptor canonical_rdma =
    [(Inr (), ''fabric.rdma.transport_families''),
     (Inr (), ''fabric.rdma.max_queue_pairs''),
     (Inr (), ''fabric.rdma.atomic_operations_supported''),
     (Inr (), ''fabric.rdma.reliable_connection_supported''),
     (Inr (), ''fabric.rdma.memory_window_supported''),
     (Inr (), ''fabric.rdma.max_message_size'')]"
  by code_simp

lemma canonical_congestion_flow_control_checked:
  "map check_descriptor canonical_congestion_flow_control =
    [(Inr (), ''fabric.congestion.ecn_supported''),
     (Inr (), ''fabric.congestion.pfc_supported''),
     (Inr (), ''fabric.congestion.pause_supported''),
     (Inr (), ''fabric.congestion.credit_flow_control_supported''),
     (Inr (), ''fabric.congestion.pacing_supported''),
     (Inr (), ''fabric.congestion.congestion_marking_supported''),
     (Inr (), ''fabric.congestion.congestion_telemetry_supported''),
     (Inr (), ''fabric.congestion.adaptive_routing_signaling_supported''),
     (Inr (), ''fabric.congestion.ecn_marking_modes'')]"
  by code_simp

lemma canonical_qos_checked:
  "map check_descriptor canonical_qos =
    [(Inr (), ''fabric.qos.priority_count''),
     (Inr (), ''fabric.qos.traffic_class_count''),
     (Inr (), ''fabric.qos.shaper_supported''),
     (Inr (), ''fabric.qos.policer_supported''),
     (Inr (), ''fabric.qos.marking_supported''),
     (Inr (), ''fabric.qos.trust_modes''),
     (Inr (), ''fabric.qos.strict_priority_supported''),
     (Inr (), ''fabric.qos.weighted_scheduling_supported'')]"
  by code_simp

lemma canonical_tunneling_checked:
  "map check_descriptor canonical_tunneling =
    [(Inr (), ''fabric.tunneling.encapsulations''),
     (Inr (), ''fabric.tunneling.max_tunnel_endpoints''),
     (Inr (), ''fabric.tunneling.decap_supported''),
     (Inr (), ''fabric.tunneling.udp_based_supported'')]"
  by code_simp

lemma canonical_virtualization_checked:
  "map check_descriptor canonical_virtualization =
    [(Inr (), ''fabric.virtualization.sriov_supported''),
     (Inr (), ''fabric.virtualization.max_virtual_functions''),
     (Inr (), ''fabric.virtualization.max_physical_functions''),
     (Inr (), ''fabric.virtualization.virtual_ports_supported''),
     (Inr (), ''fabric.virtualization.representors_supported''),
     (Inr (), ''fabric.virtualization.partitioning_supported''),
     (Inr (), ''fabric.virtualization.tenant_isolation_features'')]"
  by code_simp

lemma canonical_timestamping_checked:
  "map check_descriptor canonical_timestamping =
    [(Inr (), ''fabric.timestamping.hardware_timestamp_supported''),
     (Inr (), ''fabric.timestamping.software_timestamp_supported''),
     (Inr (), ''fabric.timestamping.rx_timestamp_supported''),
     (Inr (), ''fabric.timestamping.tx_timestamp_supported''),
     (Inr (), ''fabric.timestamping.clock_sources''),
     (Inr (), ''fabric.timestamping.precision_class''),
     (Inr (), ''fabric.timestamping.ptp_profiles'')]"
  by code_simp

lemma canonical_device_management_compatibility_checked:
  "map check_descriptor canonical_device_management_compatibility =
    [(Inr (), ''fabric.device-management.supported_api_versions''),
     (Inr (), ''fabric.device-management.config_rollback_supported''),
     (Inr (), ''fabric.device-management.secure_boot_supported''),
     (Inr (), ''fabric.compatibility.class''),
     (Inr (), ''fabric.compatibility.api_version_range''),
     (Inr (), ''fabric.compatibility.requires_firmware_at_least'')]"
  by code_simp

lemmas canonical_checked = canonical_protocol_checked
  canonical_forwarding_checked
  canonical_port_checked
  canonical_optics_checked
  canonical_queue_checked
  canonical_buffer_exposure_checked
  canonical_telemetry_checked
  canonical_offload_checked
  canonical_rdma_checked
  canonical_congestion_flow_control_checked
  canonical_qos_checked
  canonical_tunneling_checked
  canonical_virtualization_checked
  canonical_timestamping_checked
  canonical_device_management_compatibility_checked

section \<open>The schema the process starts with\<close>

lemma canonical_sections_checked:
  "list_all (\<lambda>d. ValidateDescriptor d = Inr ()) canonical_sections"
proof -
  have *: "map check_descriptor ds = map (Pair (Inr ())) ns \<Longrightarrow>
      list_all (\<lambda>d. ValidateDescriptor d = Inr ()) ds" for ds ns
    by (induction ds arbitrary: ns) (auto simp: check_descriptor_def)
  have "map fst (map check_descriptor canonical_sections) = replicate 115 (Inr ())"
    unfolding canonical_sections_def map_append canonical_checked by (simp add: eval_nat_numeral)
  then show ?thesis
    by (simp add: list_all_length list_eq_iff_nth_eq check_descriptor_def)
qed

lemma canonical_sections_distinct:
  "distinct (map (\<lambda>d. rev (cap_rendered (cd_id d))) canonical_sections)"
proof -
  have "map (\<lambda>d. rev (cap_rendered (cd_id d))) canonical_sections =
      map (\<lambda>c. rev (snd c)) (map check_descriptor canonical_sections)"
    by (simp add: check_descriptor_def comp_def)
  also have "distinct \<dots>"
    unfolding canonical_sections_def map_append canonical_checked by code_simp
  finally show ?thesis .
qed

lemma canonical_sections_not_vendor: "list_all (\<lambda>d. \<not> cd_vendor_extension d) canonical_sections"
  unfolding canonical_sections_def list_all_append
    canonical_protocol_def canonical_forwarding_def canonical_port_def canonical_optics_def
    canonical_queue_def canonical_buffer_exposure_def canonical_telemetry_def
    canonical_offload_def canonical_rdma_def canonical_congestion_flow_control_def
    canonical_qos_def canonical_tunneling_def canonical_virtualization_def
    canonical_timestamping_def canonical_device_management_compatibility_def
  by (simp add: builder_defs descriptor_default_def Let_def)

lemma canonical_ids_distinct: "distinct (map cd_id MakeCanonicalDescriptors)"
proof -
  have "distinct (map cd_id canonical_sections)"
    using canonical_sections_distinct
    by (auto simp: distinct_map intro: inj_on_imageI2 [of "\<lambda>i. rev (cap_rendered i)", unfolded comp_def])
  then show ?thesis
    unfolding MakeCanonicalDescriptors_def distinct_map by (simp add: distinct_sort)
qed

lemma foldl_emplace_distinct:
  "distinct (map cd_id (cs_descriptors sch @ ds)) \<Longrightarrow>
     foldl schema_emplace sch ds = sch\<lparr>cs_descriptors := cs_descriptors sch @ ds\<rparr>"
proof (induction ds arbitrary: sch)
  case (Cons d ds)
  have "schema_lookup sch (cd_id d) = None"
    using Cons.prems by (auto simp: schema_lookup_None)
  then have "schema_emplace sch d = sch\<lparr>cs_descriptors := cs_descriptors sch @ [d]\<rparr>"
    by (simp add: schema_emplace_def)
  then show ?case using Cons by simp
qed simp

lemma cs_descriptors_new:
  "CapabilitySchema_new = \<lparr>cs_descriptors = MakeCanonicalDescriptors, cs_vendor_count = 0\<rparr>"
  unfolding CapabilitySchema_new_def CapabilitySchema_of_def
  by (subst foldl_emplace_distinct) (simp_all add: canonical_ids_distinct)

lemma length_canonical: "length canonical_sections = 115"
proof -
  have "length canonical_sections = length (map check_descriptor canonical_sections)" by simp
  also have "\<dots> = 115"
    unfolding canonical_sections_def map_append canonical_checked by simp
  finally show ?thesis .
qed

lemma canonical_wf: "schema_wf CapabilitySchema_new"
  using canonical_ids_distinct canonical_sections_checked canonical_sections_not_vendor
  unfolding cs_descriptors_new schema_wf_def
  by (simp add: MakeCanonicalDescriptors_def list_all_iff filter_empty_conv)

section \<open>Properties\<close>

text \<open>The built-in table is sound: it holds 115 descriptors with distinct identifiers, each of
  which passes the validation of descriptors and is the one its identifier finds, and none of
  which lives in a vendor namespace, so no extension can take its place.\<close>

theorem canonical_schema_sound:
  "schema_wf CapabilitySchema_new \<and> Schema_Size CapabilitySchema_new = 115
   \<and> list_all (\<lambda>d. Schema_Find CapabilitySchema_new (cd_id d) = Inr d
        \<and> ValidateDescriptor d = Inr () \<and> \<not> CapabilityId_IsVendorExtension (cd_id d))
       MakeCanonicalDescriptors"
proof -
  have "Schema_Find CapabilitySchema_new (cd_id d) = Inr d \<and> ValidateDescriptor d = Inr ()
      \<and> \<not> CapabilityId_IsVendorExtension (cd_id d)" if d: "d \<in> set MakeCanonicalDescriptors" for d
  proof -
    have "schema_lookup CapabilitySchema_new (cd_id d) = Some d"
      using d by (intro schema_lookup_member) (simp_all add: cs_descriptors_new canonical_ids_distinct)
    moreover have "ValidateDescriptor d = Inr ()" "\<not> cd_vendor_extension d"
      using d canonical_sections_checked canonical_sections_not_vendor
      by (simp_all add: MakeCanonicalDescriptors_def list_all_iff)
    ultimately show ?thesis
      by (auto simp: Schema_Find_def ValidateDescriptor_def obind_Inr_iff split: if_splits)
  qed
  then show ?thesis
    using canonical_wf length_canonical
    by (simp add: list_all_iff Schema_Size_def cs_descriptors_new MakeCanonicalDescriptors_def)
qed

end
