(* ===== verification/Resolution.thy ===== *)
theory Resolution
  imports Schema "HOL-Library.Multiset"
begin

text \<open>
  Capability truth: the claim, the resolution and the evidence-bearing entry of one capability
  (\<open>record.hpp\<close>), and the resolution algorithm of \<open>registry.cpp\<close>. \<open>resolve\<close> is the value that
  \<open>ResolveCapability\<close> stores; the index updates of \<open>FinishResolution\<close> are in \<open>RegistryState\<close>.
  The strongest provenance class wins, agreement inside it resolves, disagreement is CONFLICTED,
  absence of current evidence in it is REVALIDATION_REQUIRED and no live claim is UNKNOWN.
\<close>

abbreviation (input) kMaxEvidencePerCapability :: nat where "kMaxEvidencePerCapability \<equiv> 64"
abbreviation (input) kProvenanceClassCount :: u8 where "kProvenanceClassCount \<equiv> 7"

section \<open>Claims and resolutions\<close>

record capability_claim =
  cl_capability :: capability_id
  cl_state :: capability_state
  cl_value :: capability_value
  cl_provenance :: provenance_class
  cl_source_class :: evidence_source_class
  cl_durability :: durability_class
  cl_coverage :: coverage_class
  cl_firmware_version :: token
  cl_driver_version :: token
  cl_reason :: token

definition claim_default :: capability_claim where
  "claim_default =
     \<lparr>cl_capability = CapabilityId_unset, cl_state = St_Unknown, cl_value = V_Absent,
      cl_provenance = Prov_SyntheticTestBackend, cl_source_class = Src_SyntheticBackend,
      cl_durability = ProcessBound, cl_coverage = Partial, cl_firmware_version = [],
      cl_driver_version = [], cl_reason = []\<rparr>"

record capability_resolution =
  r_capability :: capability_id
  r_state :: capability_state
  r_value :: capability_value
  r_has_value :: bool
  r_value_digest :: digest
  r_winning_evidence :: token
  r_provenance :: provenance_class
  r_source_class :: evidence_source_class
  r_coverage :: coverage_class
  r_durability :: durability_class
  r_evidence_generation :: counter
  r_source_generation :: counter
  r_capability_generation :: counter
  r_evidence_count :: nat
  r_current_evidence_count :: nat
  r_outranked_evidence_count :: nat
  r_conflicting_evidence_count :: nat
  r_has_non_current_evidence :: bool
  r_conflicting_evidence :: "token list"
  r_record_id :: token

definition resolution_default :: capability_resolution where
  "resolution_default =
     \<lparr>r_capability = CapabilityId_unset, r_state = St_Unknown, r_value = V_Absent,
      r_has_value = False, r_value_digest = Digest_zero, r_winning_evidence = [],
      r_provenance = Prov_SyntheticTestBackend, r_source_class = Src_SyntheticBackend,
      r_coverage = Partial, r_durability = ProcessBound, r_evidence_generation = 0,
      r_source_generation = 0, r_capability_generation = 0, r_evidence_count = 0,
      r_current_evidence_count = 0, r_outranked_evidence_count = 0,
      r_conflicting_evidence_count = 0, r_has_non_current_evidence = False,
      r_conflicting_evidence = [], r_record_id = []\<rparr>"

definition Actionable :: "capability_resolution \<Rightarrow> bool" where
  "Actionable r \<longleftrightarrow> IsActionableSupport (r_state r)"

definition FailsClosedState :: "capability_resolution \<Rightarrow> bool" where
  "FailsClosedState r \<longleftrightarrow> FailsClosed (r_state r)"

record capability_entry =
  ce_id :: capability_id
  ce_generation :: counter
  ce_evidence :: "evidence_record list"
  ce_resolution :: capability_resolution

definition entry_default :: capability_entry where
  "entry_default = \<lparr>ce_id = CapabilityId_unset, ce_generation = 0, ce_evidence = [],
     ce_resolution = resolution_default\<rparr>"

section \<open>The canonical digest of a resolved set\<close>

definition resolution_bytes :: "capability_resolution \<Rightarrow> bytes" where
  "resolution_bytes r =
     write_text kMaxCapabilityIdLength (cap_rendered (r_capability r))
     @ put_u8 (state_code (r_state r))
     @ put_bool (r_has_value r)
     @ (if r_has_value r then Value_Encode (r_value r) else [])
     @ put_u8 (ProvenanceRank (r_provenance r))
     @ put_u8 (source_class_code (r_source_class r))
     @ put_u8 (coverage_code (r_coverage r))
     @ put_u8 (durability_code (r_durability r))
     @ put_u64 (r_evidence_generation r)
     @ put_u64 (r_capability_generation r)
     @ put_u32 (word_of_nat (r_evidence_count r))
     @ put_u32 (word_of_nat (r_current_evidence_count r))
     @ put_u32 (word_of_nat (r_outranked_evidence_count r))
     @ put_u32 (word_of_nat (r_conflicting_evidence_count r))
     @ put_bool (r_has_non_current_evidence r)"

definition DigestOfResolutions :: "capability_resolution list \<Rightarrow> digest" where
  "DigestOfResolutions rs =
     ComputeDigest (put_u32 (word_of_nat (length rs)) @ concat (map resolution_bytes rs))"

section \<open>Selecting the winner\<close>

text \<open>The newest evidence generation, then the lowest source, then the lowest worker boot.\<close>

definition replaces_best :: "evidence_record \<Rightarrow> evidence_record \<Rightarrow> bool" where
  "replaces_best rec best \<longleftrightarrow>
     (if e_evidence_generation rec > e_evidence_generation best then True
      else if e_evidence_generation rec < e_evidence_generation best then False
      else if e_source rec \<noteq> e_source best then e_source rec < e_source best
      else e_worker_boot rec < e_worker_boot best)"

definition PickDeterministic :: "evidence_record list \<Rightarrow> evidence_record option" where
  "PickDeterministic records =
     foldl (\<lambda>best rec. case best of
              None \<Rightarrow> Some rec
            | Some b \<Rightarrow> if replaces_best rec b then Some rec else best) None records"

definition SameClaim :: "evidence_record \<Rightarrow> evidence_record \<Rightarrow> bool" where
  "SameClaim lhs rhs \<longleftrightarrow>
     (if e_state lhs \<noteq> e_state rhs then False
      else if (e_value lhs = V_Absent) \<noteq> (e_value rhs = V_Absent) then False
      else if e_value lhs = V_Absent then True
      else value_eq (e_value lhs) (e_value rhs))"

section \<open>Resolution\<close>

text \<open>The three groups of the switch on currentness, each in the order of the evidence.\<close>

definition current_of :: "evidence_record list \<Rightarrow> evidence_record list" where
  "current_of evs = filter (\<lambda>e. e_currentness e = Cur_Current) evs"

definition non_current_of :: "evidence_record list \<Rightarrow> evidence_record list" where
  "non_current_of evs =
     filter (\<lambda>e. e_currentness e = Cur_RevalidationRequired \<or> e_currentness e = Cur_Fenced) evs"

definition retired_of :: "evidence_record list \<Rightarrow> evidence_record list" where
  "retired_of evs =
     filter (\<lambda>e. e_currentness e = Cur_Superseded
                \<or> e_currentness e = Cur_EntityGenerationSuperseded) evs"

definition strongest_rank :: "evidence_record list \<Rightarrow> u8" where
  "strongest_rank pool =
     foldl (\<lambda>rank e. min rank (ProvenanceRank (e_provenance e))) kProvenanceClassCount pool"

definition strongest_of :: "evidence_record list \<Rightarrow> evidence_record list" where
  "strongest_of pool = filter (\<lambda>e. ProvenanceRank (e_provenance e) = strongest_rank pool) pool"

definition strongest_current_of :: "evidence_record list \<Rightarrow> evidence_record list" where
  "strongest_current_of pool = filter (\<lambda>e. IsCurrent (e_currentness e)) (strongest_of pool)"

text \<open>One record per distinct claim, the first in order; \<open>seen\<close> is the prefix already scanned.\<close>

fun claim_representatives ::
  "evidence_record list \<Rightarrow> evidence_record list \<Rightarrow> evidence_record list" where
  "claim_representatives seen [] = []"
| "claim_representatives seen (e # es) =
     (if list_ex (\<lambda>s. SameClaim s e) seen then claim_representatives (seen @ [e]) es
      else e # claim_representatives (seen @ [e]) es)"

text \<open>The fields copied from the winning record.\<close>

definition with_winner :: "evidence_record \<Rightarrow> capability_resolution \<Rightarrow> capability_resolution" where
  "with_winner w r =
     r\<lparr>r_winning_evidence := e_id w, r_provenance := e_provenance w,
       r_source_class := e_source_class w, r_coverage := e_coverage w,
       r_durability := e_durability w, r_evidence_generation := e_evidence_generation w,
       r_source_generation := e_source_generation w\<rparr>"

definition with_value_of :: "evidence_record \<Rightarrow> capability_resolution \<Rightarrow> capability_resolution" where
  "with_value_of w r =
     r\<lparr>r_value := e_value w, r_has_value := (e_value w \<noteq> V_Absent),
       r_value_digest := (if e_value w \<noteq> V_Absent then DigestOf (e_value w) else Digest_zero)\<rparr>"

definition resolve_pool ::
  "evidence_record list \<Rightarrow> capability_resolution \<Rightarrow> capability_resolution" where
  "resolve_pool pool res =
     (if pool = [] then res\<lparr>r_state := St_Unknown, r_conflicting_evidence_count := 0\<rparr>
      else
        let strongest = strongest_of pool;
            res = res\<lparr>r_outranked_evidence_count := length pool - length strongest\<rparr>;
            strongest_current = filter (\<lambda>e. IsCurrent (e_currentness e)) strongest
        in case PickDeterministic strongest_current of
             None \<Rightarrow>
               (case PickDeterministic strongest of
                  None \<Rightarrow> res
                | Some winner \<Rightarrow>
                    with_value_of winner
                      (with_winner winner (res\<lparr>r_state := St_RevalidationRequired\<rparr>)))
           | Some winner \<Rightarrow>
               if list_all (\<lambda>e. SameClaim e winner) strongest_current
               then with_value_of winner (with_winner winner (res\<lparr>r_state := e_state winner\<rparr>))
               else
                 let conflicting = take kMaxEvidencePerCapability
                       (map e_id (claim_representatives [] strongest_current))
                 in with_winner winner
                      (res\<lparr>r_state := St_Conflicted, r_conflicting_evidence := conflicting,
                           r_conflicting_evidence_count := length conflicting\<rparr>))"

definition resolve ::
  "entity_id \<Rightarrow> counter \<Rightarrow> capability_id \<Rightarrow> counter \<Rightarrow> evidence_record list
   \<Rightarrow> capability_resolution" where
  "resolve entity bound cap generation evs =
     (let current = current_of evs; non_current = non_current_of evs; retired = retired_of evs
      in resolve_pool (current @ non_current)
           (resolution_default
              \<lparr>r_capability := cap,
               r_record_id := MakeCapabilityRecordId entity bound cap,
               r_evidence_count := length current + length non_current + length retired,
               r_current_evidence_count := length current,
               r_capability_generation := generation,
               r_has_non_current_evidence := (non_current \<noteq> [])\<rparr>))"

section \<open>The winner\<close>

lemma replaces_best_iff:
  "replaces_best a b \<longleftrightarrow>
     e_evidence_generation b < e_evidence_generation a
     \<or> e_evidence_generation a = e_evidence_generation b
        \<and> (e_source a < e_source b
            \<or> e_source a = e_source b \<and> e_worker_boot a < e_worker_boot b)"
  by (auto simp: replaces_best_def)

lemma replaces_best_weak:
  assumes "\<not> replaces_best x b" and "replaces_best r b"
  shows "\<not> replaces_best x r"
  using assms unfolding replaces_best_iff by (auto simp: not_less)

lemma replaces_best_total:
  "\<not> replaces_best a b \<Longrightarrow> \<not> replaces_best b a \<Longrightarrow>
     e_source a = e_source b \<and> e_worker_boot a = e_worker_boot b"
  unfolding replaces_best_iff by (auto simp: not_less)

lemma replaces_best_irrefl [simp]: "\<not> replaces_best a a"
  by (simp add: replaces_best_iff)

lemma PickDeterministic_snoc:
  "PickDeterministic (xs @ [x]) = (case PickDeterministic xs of
     None \<Rightarrow> Some x | Some b \<Rightarrow> if replaces_best x b then Some x else Some b)"
  by (simp add: PickDeterministic_def split: option.split)

lemma PickDeterministic_Nil [simp]: "PickDeterministic [] = None"
  by (simp add: PickDeterministic_def)

lemma PickDeterministic_None [simp]: "PickDeterministic xs = None \<longleftrightarrow> xs = []"
  by (induction xs rule: rev_induct) (auto simp: PickDeterministic_snoc split: option.splits)

lemma PickDeterministic_Some:
  "PickDeterministic xs = Some w \<Longrightarrow> w \<in> set xs \<and> (\<forall>e\<in>set xs. \<not> replaces_best e w)"
proof (induction xs arbitrary: w rule: rev_induct)
  case (snoc x xs)
  show ?case
  proof (cases "PickDeterministic xs")
    case None
    with snoc.prems show ?thesis by (simp add: PickDeterministic_snoc)
  next
    case (Some b)
    from snoc.IH [OF Some] snoc.prems Some show ?thesis
      by (auto simp: PickDeterministic_snoc split: if_splits dest: replaces_best_weak)
  qed
qed simp

definition one_per_identity :: "evidence_record set \<Rightarrow> bool" where
  "one_per_identity S \<longleftrightarrow>
     inj_on (\<lambda>e. (e_source e, e_worker_boot e)) S"

lemma PickDeterministic_cong:
  assumes "set xs = set ys" and "one_per_identity (set xs)"
  shows "PickDeterministic xs = PickDeterministic ys"
proof (cases "PickDeterministic xs")
  case None
  with assms show ?thesis by (metis PickDeterministic_None set_empty)
next
  case (Some v)
  then have "ys \<noteq> []" using assms(1) by (auto dest: PickDeterministic_Some)
  then obtain w where w: "PickDeterministic ys = Some w"
    by (cases "PickDeterministic ys") auto
  from PickDeterministic_Some [OF Some] PickDeterministic_Some [OF w] assms(1)
  have "v \<in> set xs" "w \<in> set xs" "\<not> replaces_best w v" "\<not> replaces_best v w" by auto
  with assms(2) have "v = w"
    by (auto simp: one_per_identity_def inj_on_def dest: replaces_best_total)
  with Some w show ?thesis by simp
qed

section \<open>Agreement\<close>

text \<open>On canonical values agreement is an equivalence; \<open>claim_class\<close> is the class of a record.\<close>

definition canonical_evidence :: "evidence_record \<Rightarrow> bool" where
  "canonical_evidence e \<longleftrightarrow> ValidateCanonical (e_value e) = Inr ()"

lemma value_eq_refl: "ValidateCanonical v = Inr () \<Longrightarrow> value_eq v v"
  by (simp add: value_eq_iff)

lemma value_eq_sym:
  "ValidateCanonical v = Inr () \<Longrightarrow> ValidateCanonical w = Inr () \<Longrightarrow> value_eq v w \<Longrightarrow> value_eq w v"
  by (auto simp: value_eq_iff version_interval_eq_def version_eq_key)

lemma value_eq_trans:
  assumes u: "ValidateCanonical u = Inr ()" and v: "ValidateCanonical v = Inr ()"
    and uv: "value_eq u v" and vw: "value_eq v w"
  shows "value_eq u w"
proof -
  have "version_interval_eq i k" if "version_interval_eq i j" "version_interval_eq j k" for i j k
    using that by (simp add: version_interval_eq_def version_eq_key)
  then show ?thesis using uv vw unfolding value_eq_iff [OF u] value_eq_iff [OF v] by blast
qed

lemma SameClaim_iff:
  "SameClaim a b \<longleftrightarrow> e_state a = e_state b
     \<and> (e_value a = V_Absent \<and> e_value b = V_Absent
        \<or> e_value a \<noteq> V_Absent \<and> e_value b \<noteq> V_Absent \<and> value_eq (e_value a) (e_value b))"
  by (auto simp: SameClaim_def)

lemma SameClaim_refl: "canonical_evidence a \<Longrightarrow> SameClaim a a"
  by (auto simp: SameClaim_iff canonical_evidence_def value_eq_refl)

lemma SameClaim_sym:
  "canonical_evidence a \<Longrightarrow> canonical_evidence b \<Longrightarrow> SameClaim a b \<Longrightarrow> SameClaim b a"
  unfolding SameClaim_iff canonical_evidence_def using value_eq_sym [of "e_value a" "e_value b"]
  by argo

lemma SameClaim_trans:
  assumes a: "canonical_evidence a" and b: "canonical_evidence b"
    and ab: "SameClaim a b" and bc: "SameClaim b c"
  shows "SameClaim a c"
proof -
  have "value_eq (e_value a) (e_value c)"
    if "value_eq (e_value a) (e_value b)" "value_eq (e_value b) (e_value c)"
    by (rule value_eq_trans [OF _ _ that]) (use a b in \<open>simp_all only: canonical_evidence_def\<close>)
  then show ?thesis using ab bc unfolding SameClaim_iff by argo
qed

definition claim_class :: "evidence_record set \<Rightarrow> evidence_record \<Rightarrow> evidence_record set" where
  "claim_class S e = {s \<in> S. SameClaim e s}"

lemma claim_class_eq_iff:
  assumes "\<forall>e\<in>S. canonical_evidence e" and "a \<in> S" and "b \<in> S"
  shows "claim_class S a = claim_class S b \<longleftrightarrow> SameClaim a b"
proof
  assume "claim_class S a = claim_class S b"
  moreover have "b \<in> claim_class S b" using assms by (simp add: claim_class_def SameClaim_refl)
  ultimately show "SameClaim a b" by (auto simp: claim_class_def)
next
  assume ab: "SameClaim a b"
  show "claim_class S a = claim_class S b"
    unfolding claim_class_def
    using assms ab SameClaim_sym [of a b] SameClaim_trans [of a b] SameClaim_trans [of b a]
    by blast
qed

lemma claim_representatives_length:
  assumes "\<forall>e\<in>S. canonical_evidence e" and "set seen \<subseteq> S" and "set es \<subseteq> S"
  shows "length (claim_representatives seen es)
    = card (claim_class S ` set es - claim_class S ` set seen)"
  using assms(2,3)
proof (induction es arbitrary: seen)
  case (Cons e es)
  have seen: "list_ex (\<lambda>s. SameClaim s e) seen \<longleftrightarrow> claim_class S e \<in> claim_class S ` set seen"
  proof -
    have "SameClaim s e \<longleftrightarrow> claim_class S s = claim_class S e" if "s \<in> set seen" for s
    proof -
      have "s \<in> S" "e \<in> S" using that Cons.prems by auto
      then show ?thesis using claim_class_eq_iff [OF assms(1)] by blast
    qed
    then show ?thesis unfolding list_ex_iff image_iff by (metis (no_types))
  qed
  let ?I = "claim_class S ` set es" and ?J = "claim_class S ` set seen" and ?X = "claim_class S e"
  have IH: "length (claim_representatives (seen @ [e]) es) = card (?I - insert ?X ?J)"
    using Cons.IH [of "seen @ [e]"] Cons.prems by simp
  show ?case
  proof (cases "?X \<in> ?J")
    case True
    then have "insert ?X ?I - ?J = ?I - insert ?X ?J" by blast
    then have "claim_class S ` set (e # es) - ?J = ?I - insert ?X ?J"
      by (simp only: list.set image_insert)
    moreover have "claim_representatives seen (e # es) = claim_representatives (seen @ [e]) es"
      using seen True by (simp only: claim_representatives.simps if_True)
    ultimately show ?thesis using IH by (simp only:)
  next
    case False
    then have e: "insert ?X ?I - ?J = insert ?X (?I - ?J)"
      "?I - insert ?X ?J = ?I - ?J - {?X}" by blast+
    have "card (insert ?X (?I - ?J)) = Suc (card (?I - ?J - {?X}))"
      by (rule card.insert_remove) simp
    with IH seen False show ?thesis by (simp only: e claim_representatives.simps if_False
      list.size image_insert list.set length_Cons)
  qed
qed simp

section \<open>The resolved truth as a function of the set of records\<close>

definition live_record :: "evidence_record \<Rightarrow> bool" where
  "live_record e \<longleftrightarrow> e_currentness e \<in> {Cur_Current, Cur_RevalidationRequired, Cur_Fenced}"

text \<open>The live records of the strongest provenance class, and the current ones among them.\<close>

definition strongest_class :: "evidence_record set \<Rightarrow> evidence_record set" where
  "strongest_class S = {e \<in> S. live_record e
     \<and> (\<forall>f\<in>S. live_record f \<longrightarrow> ProvenanceRank (e_provenance e) \<le> ProvenanceRank (e_provenance f))}"

definition deciding :: "evidence_record set \<Rightarrow> evidence_record set" where
  "deciding S = {e \<in> strongest_class S. e_currentness e = Cur_Current}"

definition live_pool :: "evidence_record list \<Rightarrow> evidence_record list" where
  "live_pool evs = current_of evs @ non_current_of evs"

lemma set_live_pool: "set (live_pool evs) = {e \<in> set evs. live_record e}"
  by (auto simp: live_pool_def current_of_def non_current_of_def live_record_def)

lemma ProvenanceRank_bound: "ProvenanceRank p \<le> 6"
  by (cases p) simp_all

lemma strongest_rank_snoc:
  "strongest_rank (xs @ [x]) = min (strongest_rank xs) (ProvenanceRank (e_provenance x))"
  by (simp add: strongest_rank_def)

lemma strongest_rank_le: "e \<in> set xs \<Longrightarrow> strongest_rank xs \<le> ProvenanceRank (e_provenance e)"
  by (induction xs rule: rev_induct) (auto simp: strongest_rank_snoc min_le_iff_disj)

lemma strongest_rank_attained:
  "xs \<noteq> [] \<Longrightarrow> \<exists>e\<in>set xs. ProvenanceRank (e_provenance e) = strongest_rank xs"
proof (induction xs rule: rev_induct)
  case (snoc x xs)
  show ?case
  proof (cases "xs = []")
    case True
    have "ProvenanceRank (e_provenance x) \<le> 7"
      using ProvenanceRank_bound [of "e_provenance x"] by (rule order_trans) simp
    with True show ?thesis by (simp add: strongest_rank_def min_def)
  qed (use snoc.IH in \<open>auto simp: strongest_rank_snoc min_def\<close>)
qed simp

lemma set_strongest_of:
  "set (strongest_of (live_pool evs)) = strongest_class (set evs)"
proof -
  have "set (strongest_of xs) = {e \<in> set xs. \<forall>f\<in>set xs.
      ProvenanceRank (e_provenance e) \<le> ProvenanceRank (e_provenance f)}" for xs
  proof (cases "xs = []")
    case False
    then obtain m where m: "m \<in> set xs" "ProvenanceRank (e_provenance m) = strongest_rank xs"
      using strongest_rank_attained by blast
    show ?thesis
      using m strongest_rank_le [of _ xs] unfolding strongest_of_def
      by (auto intro: order_antisym dest!: bspec [OF _ m(1)])
  qed (simp add: strongest_of_def)
  then show ?thesis by (auto simp: set_live_pool strongest_class_def)
qed

lemma set_strongest_current:
  "set (filter (\<lambda>e. IsCurrent (e_currentness e)) (strongest_of (live_pool evs)))
     = deciding (set evs)"
  by (auto simp: set_strongest_of deciding_def IsCurrent_def)

lemma strongest_of_Nil: "strongest_of pool = [] \<longleftrightarrow> pool = []"
  using strongest_rank_attained [of pool] by (auto simp: strongest_of_def filter_empty_conv)

text \<open>\<open>resolve\<close> reduced to the four outcomes.\<close>

lemma resolve_cases:
  fixes evs
  defines "sc \<equiv> filter (\<lambda>e. IsCurrent (e_currentness e)) (strongest_of (live_pool evs))"
  obtains
    (no_claim) "live_pool evs = []" "r_state (resolve ent b c g evs) = St_Unknown"
      "\<not> r_has_value (resolve ent b c g evs)"
  | (stale) w where "deciding (set evs) = {}" "w \<in> strongest_class (set evs)"
      "r_state (resolve ent b c g evs) = St_RevalidationRequired"
  | (agreed) w where "w \<in> deciding (set evs)" "PickDeterministic sc = Some w"
      "\<forall>e\<in>deciding (set evs). SameClaim e w"
      "r_state (resolve ent b c g evs) = e_state w"
      "r_value (resolve ent b c g evs) = e_value w"
      "r_has_value (resolve ent b c g evs) \<longleftrightarrow> e_value w \<noteq> V_Absent"
      "r_winning_evidence (resolve ent b c g evs) = e_id w"
      "r_provenance (resolve ent b c g evs) = e_provenance w"
  | (conflict) w where "w \<in> deciding (set evs)" "PickDeterministic sc = Some w"
      "\<not> (\<forall>e\<in>deciding (set evs). SameClaim e w)"
      "r_state (resolve ent b c g evs) = St_Conflicted"
      "\<not> r_has_value (resolve ent b c g evs)"
      "r_conflicting_evidence_count (resolve ent b c g evs)
         = min 64 (length (claim_representatives [] sc))"
proof (cases "live_pool evs = []")
  case True
  then show thesis
    using that(1) by (simp add: resolve_def resolve_pool_def live_pool_def resolution_default_def)
next
  case False
  have res_eq: "resolve ent b c g evs = resolve_pool (live_pool evs)
      (resolution_default
         \<lparr>r_capability := c, r_record_id := MakeCapabilityRecordId ent b c,
          r_evidence_count :=
            length (current_of evs) + length (non_current_of evs) + length (retired_of evs),
          r_current_evidence_count := length (current_of evs), r_capability_generation := g,
          r_has_non_current_evidence := (non_current_of evs \<noteq> [])\<rparr>)"
    by (simp only: resolve_def Let_def live_pool_def)
  note res = res_eq resolve_pool_def Let_def sc_def [symmetric]
  show thesis
  proof (cases "PickDeterministic sc")
    case None
    then have d: "deciding (set evs) = {}"
      using set_strongest_current [of evs] by (simp add: sc_def)
    obtain w where w: "PickDeterministic (strongest_of (live_pool evs)) = Some w"
      using False by (cases "PickDeterministic (strongest_of (live_pool evs))")
        (auto simp: strongest_of_Nil)
    have "w \<in> strongest_class (set evs)"
      using PickDeterministic_Some [OF w] by (simp add: set_strongest_of)
    with d show thesis
      by (rule that(2)) (use False None w in
        \<open>simp add: res with_winner_def with_value_of_def del: PickDeterministic_None\<close>)
  next
    case (Some w)
    have mem: "w \<in> deciding (set evs)"
      using PickDeterministic_Some [OF Some] set_strongest_current [of evs]
      unfolding sc_def by blast
    have all: "list_all (\<lambda>e. SameClaim e w) sc \<longleftrightarrow> (\<forall>e\<in>deciding (set evs). SameClaim e w)"
      unfolding list_all_iff using set_strongest_current [of evs] unfolding sc_def by simp
    show thesis
    proof (cases "list_all (\<lambda>e. SameClaim e w) sc")
      case True
      with all have agree: "\<forall>e\<in>deciding (set evs). SameClaim e w" by blast
      show thesis
        by (rule that(3) [OF mem Some agree])
          (use False Some True in \<open>simp_all add: res with_winner_def with_value_of_def\<close>)
    next
      case no: False
      with all have dis: "\<not> (\<forall>e\<in>deciding (set evs). SameClaim e w)" by blast
      show thesis
        by (rule that(4) [OF mem Some dis])
          (use False Some no in \<open>simp_all add: res with_winner_def resolution_default_def min_def\<close>)
    qed
  qed
qed

lemma deciding_SameClaim_iff:
  assumes "\<forall>e\<in>set evs. canonical_evidence e" and "w \<in> deciding (set evs)"
  shows "(\<forall>e\<in>deciding (set evs). SameClaim e w)
    \<longleftrightarrow> (\<forall>a\<in>deciding (set evs). \<forall>b\<in>deciding (set evs). SameClaim a b)"
proof -
  have "canonical_evidence e" if "e \<in> deciding (set evs)" for e
    using assms(1) that by (simp add: deciding_def strongest_class_def)
  then show ?thesis
    using assms(2) SameClaim_sym [of _ w] SameClaim_trans [of _ w] by blast
qed

lemma claim_representatives_deciding:
  assumes "\<forall>e\<in>set evs. canonical_evidence e"
  shows "length (claim_representatives []
      (filter (\<lambda>e. IsCurrent (e_currentness e)) (strongest_of (live_pool evs))))
    = card (claim_class (deciding (set evs)) ` deciding (set evs))"
proof -
  have "\<forall>e\<in>deciding (set evs). canonical_evidence e"
    using assms by (simp add: deciding_def strongest_class_def)
  from claim_representatives_length [OF this, of "[]"] show ?thesis
    by (simp add: set_strongest_current del: set_filter)
qed

lemma strongest_rank_cong:
  assumes "set xs = set ys"
  shows "strongest_rank xs = strongest_rank ys"
proof (cases "xs = []")
  case False
  then have "ys \<noteq> []" using assms by auto
  with False obtain x y where "x \<in> set xs" "ProvenanceRank (e_provenance x) = strongest_rank xs"
    "y \<in> set ys" "ProvenanceRank (e_provenance y) = strongest_rank ys"
    using strongest_rank_attained [of xs] strongest_rank_attained [of ys] by blast
  with assms strongest_rank_le [of y xs] strongest_rank_le [of x ys] show ?thesis by simp
qed (use assms in simp)

lemma resolve_permuted:
  assumes same: "mset evs = mset evs'"
    and one: "one_per_identity {e \<in> set evs. live_record e}"
    and canon: "\<forall>e\<in>set evs. canonical_evidence e"
  shows "(resolve ent b c g evs)\<lparr>r_conflicting_evidence := []\<rparr>
    = (resolve ent b c g evs')\<lparr>r_conflicting_evidence := []\<rparr>"
proof -
  let ?sc = "\<lambda>evs. filter (\<lambda>e. IsCurrent (e_currentness e)) (strongest_of (live_pool evs))"
  have sets: "set evs = set evs'" using same by (rule mset_eq_setD)
  have len: "length (filter P evs) = length (filter P evs')" for P
    using same by (metis mset_filter size_mset)
  have groups: "length (current_of evs) = length (current_of evs')"
    "length (non_current_of evs) = length (non_current_of evs')"
    "length (retired_of evs) = length (retired_of evs')"
    unfolding current_of_def non_current_of_def retired_of_def by (rule len)+
  have nil: "live_pool evs = [] \<longleftrightarrow> live_pool evs' = []"
    "non_current_of evs = [] \<longleftrightarrow> non_current_of evs' = []"
    using groups by (auto simp: live_pool_def simp flip: length_0_conv)
  have sub: "one_per_identity S" if "S \<subseteq> {e \<in> set evs. live_record e}" for S
    using one that unfolding one_per_identity_def by (rule inj_on_subset)
  have picks: "PickDeterministic (?sc evs) = PickDeterministic (?sc evs')"
    "PickDeterministic (strongest_of (live_pool evs)) = PickDeterministic (strongest_of (live_pool evs'))"
    by (rule PickDeterministic_cong;
      simp only: set_strongest_of set_strongest_current sets [symmetric];
      rule sub; auto simp: deciding_def strongest_class_def)+
  have agree: "list_all P (?sc evs) = list_all P (?sc evs')" for P
    by (simp only: list_all_iff set_strongest_current sets)
  have outranked: "length (live_pool evs) - length (strongest_of (live_pool evs))
      = length (live_pool evs') - length (strongest_of (live_pool evs'))"
  proof -
    have mp: "mset (live_pool evs) = mset (live_pool evs')"
      using same by (simp add: live_pool_def current_of_def non_current_of_def)
    have "strongest_rank (live_pool evs) = strongest_rank (live_pool evs')"
      by (rule strongest_rank_cong [OF mset_eq_setD [OF mp]])
    then have "mset (strongest_of (live_pool evs)) = mset (strongest_of (live_pool evs'))"
      using mp by (simp add: strongest_of_def)
    with mp show ?thesis by (metis size_mset)
  qed
  have reps: "length (take kMaxEvidencePerCapability (map e_id (claim_representatives [] (?sc evs))))
      = length (take kMaxEvidencePerCapability (map e_id (claim_representatives [] (?sc evs'))))"
    using claim_representatives_deciding [of evs] claim_representatives_deciding [of evs'] canon
    by (simp add: sets)
  show ?thesis
    unfolding resolve_def resolve_pool_def Let_def live_pool_def [symmetric]
    using groups nil outranked
    by (simp add: picks agree reps with_winner_def with_value_of_def resolution_default_def
        del: length_take length_map split: option.split)
qed

section \<open>Properties\<close>

text \<open>C2. Resolution is the documented rule, stated on the set of records alone: without a live
  record the capability is UNKNOWN; when the strongest provenance class has no current record it
  is REVALIDATION_REQUIRED, however many weaker records are current; when the current records of
  that class agree, the resolution is what they claim; and when two of them differ it is
  CONFLICTED, carries no value and counts the distinct claims, up to 64.\<close>

theorem resolve_spec:
  assumes "\<forall>e\<in>set evs. canonical_evidence e"
  shows "(strongest_class (set evs) = {} \<longrightarrow> r_state (resolve ent b c g evs) = St_Unknown)
    \<and> (strongest_class (set evs) \<noteq> {} \<and> deciding (set evs) = {}
         \<longrightarrow> r_state (resolve ent b c g evs) = St_RevalidationRequired)
    \<and> (\<forall>w\<in>deciding (set evs).
         (\<forall>x\<in>deciding (set evs). \<forall>y\<in>deciding (set evs). SameClaim x y)
         \<longrightarrow> r_state (resolve ent b c g evs) = e_state w
           \<and> (r_has_value (resolve ent b c g evs) \<longleftrightarrow> e_value w \<noteq> V_Absent)
           \<and> (e_value w \<noteq> V_Absent \<longrightarrow> value_eq (e_value w) (r_value (resolve ent b c g evs))))
    \<and> ((\<exists>x\<in>deciding (set evs). \<exists>y\<in>deciding (set evs). \<not> SameClaim x y)
         \<longrightarrow> r_state (resolve ent b c g evs) = St_Conflicted
           \<and> \<not> r_has_value (resolve ent b c g evs)
           \<and> r_conflicting_evidence_count (resolve ent b c g evs)
               = min 64 (card (claim_class (deciding (set evs)) ` deciding (set evs))))"
proof (cases rule: resolve_cases [where evs = evs and ent = ent and b = b and c = c and g = g])
  case no_claim
  then have "strongest_class (set evs) = {}"
    using set_strongest_of [of evs] by (simp add: strongest_of_def)
  with no_claim show ?thesis by (simp add: deciding_def)
next
  case (stale w)
  then show ?thesis by auto
next
  case (agreed w)
  have "e_state w = e_state v \<and> (e_value w \<noteq> V_Absent \<longleftrightarrow> e_value v \<noteq> V_Absent)
      \<and> (e_value v \<noteq> V_Absent \<longrightarrow> value_eq (e_value v) (e_value w))"
    if "v \<in> deciding (set evs)" for v
    using agreed(3) that by (auto simp: SameClaim_iff)
  moreover have "strongest_class (set evs) \<noteq> {}" "deciding (set evs) \<noteq> {}"
    using agreed(1) by (auto simp: deciding_def)
  moreover have "\<forall>x\<in>deciding (set evs). \<forall>y\<in>deciding (set evs). SameClaim x y"
    using agreed(3) deciding_SameClaim_iff [OF assms agreed(1)] by blast
  ultimately show ?thesis unfolding agreed(4-6) by blast
next
  case (conflict w)
  then have "strongest_class (set evs) \<noteq> {}" "deciding (set evs) \<noteq> {}" by (auto simp: deciding_def)
  moreover have "\<not> (\<forall>x\<in>deciding (set evs). \<forall>y\<in>deciding (set evs). SameClaim x y)"
    using conflict(3) deciding_SameClaim_iff [OF assms conflict(1)] by blast
  ultimately show ?thesis
    using conflict(4,5,6) unfolding claim_representatives_deciding [OF assms] by blast
qed

definition sample_evidence :: "string \<Rightarrow> provenance_class \<Rightarrow> evidence_currentness
    \<Rightarrow> capability_state \<Rightarrow> evidence_record" where
  "sample_evidence source prov cur st =
     evidence_default\<lparr>e_source := source, e_provenance := prov, e_currentness := cur, e_state := st\<rparr>"

lemmas sample_simps = sample_evidence_def evidence_default_def canonical_evidence_def
  ValidateCanonical_def

lemma resolve_spec_witness:
  "r_state (resolve EntityId_unset 1 CapabilityId_unset 1
     [sample_evidence ''a'' Prov_DirectHardwareEnumeration Cur_Fenced St_Supported,
      sample_evidence ''b'' Prov_Inferred Cur_Current St_Supported]) = St_RevalidationRequired"
proof -
  let ?a = "sample_evidence ''a'' Prov_DirectHardwareEnumeration Cur_Fenced St_Supported"
  let ?b = "sample_evidence ''b'' Prov_Inferred Cur_Current St_Supported"
  have c: "\<forall>e\<in>set [?a, ?b]. canonical_evidence e" by (simp add: sample_simps)
  have t: "strongest_class (set [?a, ?b]) = {?a}"
    by (auto simp: strongest_class_def live_record_def sample_simps)
  then have d: "deciding (set [?a, ?b]) = {}" by (simp add: deciding_def sample_simps)
  show ?thesis using resolve_spec [OF c] t d by blast
qed

text \<open>The resolution does not depend on the order in which evidence arrived: when every
  publishing identity has at most one live record, two orders of the same records resolve to the
  same record up to the list of conflicting identifiers, and contribute the same bytes to the
  canonical digest of the entity, which leaves that list out.\<close>

theorem resolve_order_independent:
  assumes "mset evs = mset evs'"
    and "one_per_identity {e \<in> set evs. live_record e}"
    and "\<forall>e\<in>set evs. canonical_evidence e"
  shows "(resolve ent b c g evs)\<lparr>r_conflicting_evidence := []\<rparr>
      = (resolve ent b c g evs')\<lparr>r_conflicting_evidence := []\<rparr>
    \<and> resolution_bytes (resolve ent b c g evs) = resolution_bytes (resolve ent b c g evs')"
proof -
  have "resolution_bytes r = resolution_bytes (r\<lparr>r_conflicting_evidence := []\<rparr>)" for r
    by (simp add: resolution_bytes_def)
  with resolve_permuted [OF assms, of ent b c g] show ?thesis by metis
qed

lemma resolve_order_independent_witness:
  "resolution_bytes (resolve EntityId_unset 1 CapabilityId_unset 1
     [sample_evidence ''a'' Prov_Inferred Cur_Current St_Supported,
      sample_evidence ''b'' Prov_Inferred Cur_Current St_Unsupported])
   = resolution_bytes (resolve EntityId_unset 1 CapabilityId_unset 1
     [sample_evidence ''b'' Prov_Inferred Cur_Current St_Unsupported,
      sample_evidence ''a'' Prov_Inferred Cur_Current St_Supported])"
proof -
  let ?a = "sample_evidence ''a'' Prov_Inferred Cur_Current St_Supported"
  let ?b = "sample_evidence ''b'' Prov_Inferred Cur_Current St_Unsupported"
  have "mset [?a, ?b] = mset [?b, ?a]" by simp
  moreover have "one_per_identity {e \<in> set [?a, ?b]. live_record e}"
    by (auto simp: one_per_identity_def inj_on_def sample_simps)
  moreover have "\<forall>e\<in>set [?a, ?b]. canonical_evidence e" by (simp add: sample_simps)
  ultimately show ?thesis using resolve_order_independent by blast
qed

end
