(* ===== verification/OrderedSets.thy ===== *)
theory OrderedSets
  imports Prelude "HOL-Library.AList"
begin

text \<open>
  The ordered containers the registry keeps: \<open>std::set\<close> with a comparator on a key (a list
  ascending in the key, one element per key), the sorted vectors maintained by \<open>InsertSorted\<close> and
  \<open>EraseSorted\<close> of \<open>registry.cpp\<close>, and \<open>std::map\<close> with integer keys (an association list ascending
  in the key). Hash maps are association lists of \<open>HOL-Library.AList\<close> in no particular order. The
  locale \<open>bucket_index\<close> is the contract the reverse index relies on.
\<close>

section \<open>Sorted vectors\<close>

definition InsertSorted :: "'a::linorder list \<Rightarrow> 'a \<Rightarrow> 'a list" where
  "InsertSorted values v =
     (let below = takeWhile (\<lambda>x. x < v) values; position = dropWhile (\<lambda>x. x < v) values
      in if position \<noteq> [] \<and> hd position = v then values else below @ v # position)"

definition EraseSorted :: "'a::linorder list \<Rightarrow> 'a \<Rightarrow> 'a list" where
  "EraseSorted values v =
     (let below = takeWhile (\<lambda>x. x < v) values; position = dropWhile (\<lambda>x. x < v) values
      in if position = [] \<or> hd position \<noteq> v then values else below @ tl position)"

section \<open>Sets ordered by a key\<close>

fun set_insert :: "('a \<Rightarrow> 'k::linorder) \<Rightarrow> 'a \<Rightarrow> 'a list \<Rightarrow> 'a list" where
  "set_insert key x [] = [x]"
| "set_insert key x (y # ys) =
     (if key x < key y then x # y # ys
      else if key x = key y then y # ys
      else y # set_insert key x ys)"

definition set_erase :: "('a \<Rightarrow> 'k) \<Rightarrow> 'a \<Rightarrow> 'a list \<Rightarrow> 'a list" where
  "set_erase key x xs = filter (\<lambda>y. key y \<noteq> key x) xs"

section \<open>Maps with ordered keys\<close>

fun ordered_put :: "'k::linorder \<Rightarrow> 'v \<Rightarrow> ('k \<times> 'v) list \<Rightarrow> ('k \<times> 'v) list" where
  "ordered_put k v [] = [(k, v)]"
| "ordered_put k v ((j, w) # rest) =
     (if k < j then (k, v) # (j, w) # rest
      else if k = j then (k, v) # rest
      else (j, w) # ordered_put k v rest)"

section \<open>Facts about sorted vectors\<close>

text \<open>The binary search splits a sorted vector into the part below the value and the rest.\<close>

lemma sorted_split:
  fixes xs :: "'a::linorder list"
  assumes sorted: "sorted_wrt (<) xs"
  obtains A B where "takeWhile (\<lambda>x. x < v) xs = A" and "dropWhile (\<lambda>x. x < v) xs = B"
    and "xs = A @ B" and "sorted_wrt (<) A" and "sorted_wrt (<) B"
    and "\<forall>a\<in>set A. a < v" and "\<forall>b\<in>set B. v \<le> b" and "\<forall>a\<in>set A. \<forall>b\<in>set B. a < b"
proof
  let ?A = "takeWhile (\<lambda>x. x < v) xs" and ?B = "dropWhile (\<lambda>x. x < v) xs"
  show "xs = ?A @ ?B" by simp
  have parts: "sorted_wrt (<) (?A @ ?B)" using sorted by simp
  then show "sorted_wrt (<) ?A" "sorted_wrt (<) ?B" "\<forall>a\<in>set ?A. \<forall>b\<in>set ?B. a < b"
    unfolding sorted_wrt_append by blast+
  show "\<forall>a\<in>set ?A. a < v" by (meson set_takeWhileD)
  show "\<forall>b\<in>set ?B. v \<le> b"
  proof (cases ?B)
    case Nil
    show ?thesis unfolding Nil by simp
  next
    case (Cons y ys)
    then have "\<not> y < v" using hd_dropWhile [of "\<lambda>x. x < v" xs] by (metis list.discI list.sel(1))
    moreover have "\<forall>b\<in>set ys. y < b" using \<open>sorted_wrt (<) ?B\<close> unfolding Cons by simp
    ultimately show ?thesis unfolding Cons by fastforce
  qed
qed simp_all

lemma InsertSorted_facts:
  fixes xs :: "'a::linorder list"
  assumes "sorted_wrt (<) xs"
  shows "sorted_wrt (<) (InsertSorted xs v) \<and> set (InsertSorted xs v) = insert v (set xs)"
proof -
  obtain A B where sp: "takeWhile (\<lambda>x. x < v) xs = A" "dropWhile (\<lambda>x. x < v) xs = B" "xs = A @ B"
    "sorted_wrt (<) A" "sorted_wrt (<) B" "\<forall>a\<in>set A. a < v" "\<forall>b\<in>set B. v \<le> b"
    "\<forall>a\<in>set A. \<forall>b\<in>set B. a < b"
    using assms by (rule sorted_split)
  show ?thesis
  proof (cases "B \<noteq> [] \<and> hd B = v")
    case True
    then have "v \<in> set xs" using sp(3) by (cases B) auto
    with True show ?thesis using assms by (auto simp: InsertSorted_def Let_def sp(1,2))
  next
    case False
    then have "\<forall>b\<in>set B. v < b" using sp(5,7) by (cases B) (fastforce simp: order_less_le)+
    with False sp show ?thesis by (auto simp: InsertSorted_def Let_def sorted_wrt_append)
  qed
qed

lemma EraseSorted_facts:
  fixes xs :: "'a::linorder list"
  assumes "sorted_wrt (<) xs"
  shows "sorted_wrt (<) (EraseSorted xs v) \<and> set (EraseSorted xs v) = set xs - {v}"
proof -
  obtain A B where sp: "takeWhile (\<lambda>x. x < v) xs = A" "dropWhile (\<lambda>x. x < v) xs = B" "xs = A @ B"
    "sorted_wrt (<) A" "sorted_wrt (<) B" "\<forall>a\<in>set A. a < v" "\<forall>b\<in>set B. v \<le> b"
    "\<forall>a\<in>set A. \<forall>b\<in>set B. a < b"
    using assms by (rule sorted_split)
  show ?thesis
  proof (cases B)
    case Nil
    then have "v \<notin> set xs" using sp(3,6) by auto
    with Nil assms show ?thesis by (simp add: EraseSorted_def sp(1,2))
  next
    case (Cons y ys)
    show ?thesis
    proof (cases "y = v")
      case True
      then have "v \<notin> set ys" "v \<notin> set A" using sp(5,6) Cons by auto
      with True Cons sp show ?thesis
        by (auto simp: EraseSorted_def Let_def sorted_wrt_append)
    next
      case False
      then have "\<forall>b\<in>set B. v < b" using sp(5,7) Cons by (fastforce simp: order_less_le)
      then have "v \<notin> set xs" using sp(3,6) by auto
      with False Cons assms show ?thesis by (simp add: EraseSorted_def sp(1,2))
    qed
  qed
qed

section \<open>The contract of a bucket\<close>

text \<open>
  A bucket of the reverse index: insertion and erasure keep a representation invariant and act
  on the members as set insertion and set difference.
\<close>

locale bucket_index =
  fixes ins :: "'b \<Rightarrow> 'e \<Rightarrow> 'b"
    and del :: "'b \<Rightarrow> 'e \<Rightarrow> 'b"
    and members :: "'b \<Rightarrow> 'e set"
    and ok :: "'b \<Rightarrow> bool"
  assumes ok_ins: "ok b \<Longrightarrow> ok (ins b x)"
    and ok_del: "ok b \<Longrightarrow> ok (del b x)"
    and members_ins: "ok b \<Longrightarrow> members (ins b x) = insert x (members b)"
    and members_del: "ok b \<Longrightarrow> members (del b x) = members b - {x}"
begin

text \<open>Moving an element between the buckets of a classification.\<close>

definition reclassify :: "('s \<Rightarrow> 'b) \<Rightarrow> 'e \<Rightarrow> 's option \<Rightarrow> 's \<Rightarrow> ('s \<Rightarrow> 'b)" where
  "reclassify f x old new =
     (case old of
        None \<Rightarrow> f(new := ins (f new) x)
      | Some o' \<Rightarrow>
          if o' = new then f
          else let f = f(o' := del (f o') x) in f(new := ins (f new) x))"

lemma reclassify_ok: "\<forall>s. ok (f s) \<Longrightarrow> \<forall>s. ok (reclassify f x old new s)"
  by (auto simp: reclassify_def Let_def ok_ins ok_del split: option.split)

lemma reclassify_exact:
  assumes "\<forall>s. ok (f s)" and "\<forall>s. x \<in> members (f s) \<longleftrightarrow> old = Some s"
  shows "x \<in> members (reclassify f x old new s) \<longleftrightarrow> s = new"
  using assms by (auto simp: reclassify_def Let_def members_ins members_del ok_del split: option.split)

lemma reclassify_frame:
  assumes "\<forall>s. ok (f s)" and "y \<noteq> x"
  shows "y \<in> members (reclassify f x old new s) \<longleftrightarrow> y \<in> members (f s)"
  using assms by (auto simp: reclassify_def Let_def members_ins members_del ok_del split: option.split)

end

interpretation sorted_bucket: bucket_index InsertSorted EraseSorted
  "set :: 'a::linorder list \<Rightarrow> 'a set" "sorted_wrt (<)"
  by unfold_locales
    (simp_all add: InsertSorted_facts EraseSorted_facts)

section \<open>Facts about keyed sets\<close>

definition keyed :: "('a \<Rightarrow> 'k::linorder) \<Rightarrow> 'a list \<Rightarrow> bool" where
  "keyed key xs \<longleftrightarrow> sorted_wrt (\<lambda>x y. key x < key y) xs"

lemma set_insert_keys: "key ` set (set_insert key x xs) = insert (key x) (key ` set xs)"
  by (induction xs) (auto simp: image_iff)

lemma set_insert_subset: "set (set_insert key x xs) \<subseteq> insert x (set xs)"
  by (induction xs) auto

lemma set_insert_superset: "set xs \<subseteq> set (set_insert key x xs)"
  by (induction xs) auto

lemma keyed_set_insert: "keyed key xs \<Longrightarrow> keyed key (set_insert key x xs)"
proof (induction xs)
  case (Cons y ys)
  then have IH: "keyed key (set_insert key x ys)" by (simp add: keyed_def)
  have "\<forall>z\<in>set (set_insert key x ys). key y < key z" if "key y < key x"
    using that Cons.prems set_insert_subset [of key x ys] by (auto simp: keyed_def)
  with Cons.prems IH show ?case by (auto simp: keyed_def)
qed (simp add: keyed_def)

lemma keyed_set_erase: "keyed key xs \<Longrightarrow> keyed key (set_erase key x xs)"
  by (simp add: keyed_def set_erase_def sorted_wrt_filter)

lemma keyed_distinct: "keyed key xs \<Longrightarrow> distinct (map key xs)"
  by (induction xs) (auto simp: keyed_def)

lemma keyed_inj: "keyed key xs \<Longrightarrow> x \<in> set xs \<Longrightarrow> y \<in> set xs \<Longrightarrow> key x = key y \<Longrightarrow> x = y"
  using keyed_distinct by (metis distinct_map inj_on_def)

text \<open>\<open>lower_bound\<close> on a keyed list finds the element with the key.\<close>

lemma keyed_lower_bound:
  "keyed key xs \<Longrightarrow>
   (case dropWhile (\<lambda>x. key x < k) xs of [] \<Rightarrow> None | x # _ \<Rightarrow> if key x = k then Some x else None)
     = find (\<lambda>x. key x = k) xs"
proof (induction xs)
  case (Cons y ys)
  have "find (\<lambda>x. key x = k) ys = None" if "k < key y"
    using that Cons.prems by (auto simp: keyed_def find_None_iff)
  with Cons show ?case by (auto simp: keyed_def)
qed simp

section \<open>Facts about ordered maps\<close>

definition ordered_keys :: "('k::linorder \<times> 'v) list \<Rightarrow> bool" where
  "ordered_keys m \<longleftrightarrow> sorted_wrt (<) (map fst m)"

lemma set_ordered_put_keys: "fst ` set (ordered_put k v m) = insert k (fst ` set m)"
  by (induction k v m rule: ordered_put.induct) auto

lemma ordered_keys_put: "ordered_keys m \<Longrightarrow> ordered_keys (ordered_put k v m)"
proof (induction k v m rule: ordered_put.induct)
  case (2 k v j w rest)
  then show ?case
    using set_ordered_put_keys [of k v rest] by (auto simp: ordered_keys_def)
qed (simp add: ordered_keys_def)

lemma ordered_keys_distinct: "ordered_keys m \<Longrightarrow> distinct (map fst m)"
  by (simp add: ordered_keys_def strict_sorted_iff)

lemma map_of_ordered_put: "map_of (ordered_put k v m) = (map_of m)(k \<mapsto> v)"
  by (induction k v m rule: ordered_put.induct) auto

lemma length_ordered_put:
  "ordered_keys m \<Longrightarrow>
   length (ordered_put k v m) = (if k \<in> fst ` set m then length m else Suc (length m))"
proof (induction k v m rule: ordered_put.induct)
  case (2 k v j w rest)
  then show ?case by (auto simp: ordered_keys_def)
qed simp

lemma set_ordered_put:
  "ordered_keys m \<Longrightarrow>
   set (ordered_put k v m) = insert (k, v) {p \<in> set m. fst p \<noteq> k}"
proof (induction k v m rule: ordered_put.induct)
  case (2 k v j w rest)
  then show ?case by (auto simp: ordered_keys_def)
qed simp

end
