(* ===== verification/Diff.thy ===== *)
theory Diff
  imports Resolution OrderedSets "HOL-Library.Product_Lexorder"
begin

text \<open>
  The immutable capability set of one entity generation (\<open>record.hpp\<close>, \<open>query.cpp\<close>) and the
  structural difference of two such sets: \<open>BuildDiff\<close> of \<open>registry.cpp\<close>, without the sentence that
  describes each entry.
\<close>

section \<open>Capability sets\<close>

record entity_capability_set =
  s_entity :: entity_id
  s_entity_generation :: counter
  s_set_generation :: counter
  s_registry_generation :: counter
  s_invalidated :: bool
  s_invalidation_reason :: token
  s_capabilities :: "capability_resolution list"
  s_digest :: digest

definition entity_set_default :: entity_capability_set where
  "entity_set_default =
     \<lparr>s_entity = EntityId_unset, s_entity_generation = 0, s_set_generation = 0,
      s_registry_generation = 0, s_invalidated = False, s_invalidation_reason = [],
      s_capabilities = [], s_digest = Digest_zero\<rparr>"

definition CountOf :: "entity_capability_set \<Rightarrow> capability_state \<Rightarrow> nat" where
  "CountOf s st = length (filter (\<lambda>r. r_state r = st) (s_capabilities s))"

text \<open>\<open>std::lower_bound\<close> by identifier, then the equality check.\<close>

definition EntitySet_Find ::
  "entity_capability_set \<Rightarrow> capability_id \<Rightarrow> capability_resolution option" where
  "EntitySet_Find s capability =
     (case dropWhile (\<lambda>r. cap_rendered (r_capability r) < cap_rendered capability)
             (s_capabilities s) of
        [] \<Rightarrow> None
      | r # _ \<Rightarrow> if r_capability r = capability then Some r else None)"

section \<open>Differences\<close>

datatype diff_kind =
    CapabilityAdded | CapabilityRemoved | StateChanged | ValueChanged | ProvenanceChanged
  | EvidenceSuperseded | CurrentnessChanged | GenerationAdvanced | EntityGenerationChanged
  | DiffEntityInvalidated

fun diff_kind_code :: "diff_kind \<Rightarrow> nat" where
  "diff_kind_code CapabilityAdded = 0"
| "diff_kind_code CapabilityRemoved = 1"
| "diff_kind_code StateChanged = 2"
| "diff_kind_code ValueChanged = 3"
| "diff_kind_code ProvenanceChanged = 4"
| "diff_kind_code EvidenceSuperseded = 5"
| "diff_kind_code CurrentnessChanged = 6"
| "diff_kind_code GenerationAdvanced = 7"
| "diff_kind_code EntityGenerationChanged = 8"
| "diff_kind_code DiffEntityInvalidated = 9"

record diff_entry =
  d_capability :: capability_id
  d_kind :: diff_kind
  d_before_state :: capability_state
  d_after_state :: capability_state
  d_before_value :: capability_value
  d_after_value :: capability_value
  d_has_before_value :: bool
  d_has_after_value :: bool
  d_before_provenance :: provenance_class
  d_after_provenance :: provenance_class
  d_before_generation :: counter
  d_after_generation :: counter

definition diff_entry_default :: diff_entry where
  "diff_entry_default =
     \<lparr>d_capability = CapabilityId_unset, d_kind = CapabilityAdded, d_before_state = St_Unknown,
      d_after_state = St_Unknown, d_before_value = V_Absent, d_after_value = V_Absent,
      d_has_before_value = False, d_has_after_value = False,
      d_before_provenance = Prov_SyntheticTestBackend,
      d_after_provenance = Prov_SyntheticTestBackend, d_before_generation = 0,
      d_after_generation = 0\<rparr>"

record capability_diff =
  df_entity :: entity_id
  df_before_entity_generation :: counter
  df_after_entity_generation :: counter
  df_before_set_generation :: counter
  df_after_set_generation :: counter
  df_before_digest :: digest
  df_after_digest :: digest
  df_entries :: "diff_entry list"

definition diff_added :: "capability_id \<Rightarrow> capability_resolution \<Rightarrow> diff_entry" where
  "diff_added c rhs = diff_entry_default
     \<lparr>d_capability := c, d_kind := CapabilityAdded, d_after_state := r_state rhs,
      d_after_value := r_value rhs, d_has_after_value := r_has_value rhs,
      d_after_provenance := r_provenance rhs, d_after_generation := r_capability_generation rhs\<rparr>"

definition diff_removed :: "capability_id \<Rightarrow> capability_resolution \<Rightarrow> diff_entry" where
  "diff_removed c lhs = diff_entry_default
     \<lparr>d_capability := c, d_kind := CapabilityRemoved, d_before_state := r_state lhs,
      d_before_value := r_value lhs, d_has_before_value := r_has_value lhs,
      d_before_provenance := r_provenance lhs, d_before_generation := r_capability_generation lhs\<rparr>"

definition diff_both ::
  "capability_id \<Rightarrow> capability_resolution \<Rightarrow> capability_resolution \<Rightarrow> diff_kind \<Rightarrow> diff_entry" where
  "diff_both c lhs rhs kind =
     \<lparr>d_capability = c, d_kind = kind, d_before_state = r_state lhs, d_after_state = r_state rhs,
      d_before_value = r_value lhs, d_after_value = r_value rhs,
      d_has_before_value = r_has_value lhs, d_has_after_value = r_has_value rhs,
      d_before_provenance = r_provenance lhs, d_after_provenance = r_provenance rhs,
      d_before_generation = r_capability_generation lhs,
      d_after_generation = r_capability_generation rhs\<rparr>"

text \<open>The most significant change of a capability present on both sides.\<close>

definition change_kind :: "capability_resolution \<Rightarrow> capability_resolution \<Rightarrow> diff_kind option" where
  "change_kind lhs rhs =
     (if r_state lhs \<noteq> r_state rhs then Some StateChanged
      else if r_has_value lhs \<noteq> r_has_value rhs \<or> \<not> value_eq (r_value lhs) (r_value rhs)
        then Some ValueChanged
      else if r_provenance lhs \<noteq> r_provenance rhs \<or> r_coverage lhs \<noteq> r_coverage rhs
        \<or> r_durability lhs \<noteq> r_durability rhs then Some ProvenanceChanged
      else if r_current_evidence_count lhs \<noteq> r_current_evidence_count rhs
        then Some CurrentnessChanged
      else if r_evidence_generation lhs \<noteq> r_evidence_generation rhs
        \<or> r_winning_evidence lhs \<noteq> r_winning_evidence rhs then Some EvidenceSuperseded
      else if r_capability_generation lhs \<noteq> r_capability_generation rhs
        then Some GenerationAdvanced
      else None)"

definition capability_change ::
  "capability_id \<Rightarrow> capability_resolution option \<Rightarrow> capability_resolution option
   \<Rightarrow> diff_entry list" where
  "capability_change c before after =
     (case (before, after) of
        (None, Some rhs) \<Rightarrow> [diff_added c rhs]
      | (Some lhs, None) \<Rightarrow> [diff_removed c lhs]
      | (None, None) \<Rightarrow> []
      | (Some lhs, Some rhs) \<Rightarrow>
          (case change_kind lhs rhs of None \<Rightarrow> [] | Some kind \<Rightarrow> [diff_both c lhs rhs kind]))"

text \<open>The \<open>std::set\<close> of capabilities is ordered by the rendered identifier.\<close>

definition set_capabilities :: "entity_capability_set option \<Rightarrow> capability_id list" where
  "set_capabilities s = (case s of None \<Rightarrow> [] | Some s \<Rightarrow> map r_capability (s_capabilities s))"

definition diff_headers ::
  "entity_capability_set option \<Rightarrow> entity_capability_set option \<Rightarrow> diff_entry list" where
  "diff_headers before after =
     (case (before, after) of
        (Some x, Some y) \<Rightarrow>
          (if s_entity_generation x \<noteq> s_entity_generation y
           then [diff_entry_default\<lparr>d_kind := EntityGenerationChanged\<rparr>] else [])
          @ (if s_invalidated x \<noteq> s_invalidated y
             then [diff_entry_default\<lparr>d_kind := DiffEntityInvalidated\<rparr>] else [])
      | _ \<Rightarrow> [])"

definition BuildDiff ::
  "entity_id \<Rightarrow> entity_capability_set option \<Rightarrow> entity_capability_set option \<Rightarrow> capability_diff" where
  "BuildDiff entity before after =
     (let gens = (\<lambda>s. case s of None \<Rightarrow> (0, 0, Digest_zero)
                  | Some s \<Rightarrow> (s_entity_generation s, s_set_generation s, s_digest s));
          (be, bs, bd) = gens before; (ae, as, ad) = gens after;
          look = (\<lambda>s c. Option.bind s (\<lambda>s. EntitySet_Find s c));
          capabilities = foldl (\<lambda>acc c. set_insert cap_rendered c acc) []
            (set_capabilities before @ set_capabilities after);
          entries = diff_headers before after
            @ concat (map (\<lambda>c. capability_change c (look before c) (look after c)) capabilities)
      in \<lparr>df_entity = entity, df_before_entity_generation = be, df_after_entity_generation = ae,
          df_before_set_generation = bs, df_after_set_generation = as, df_before_digest = bd,
          df_after_digest = ad,
          df_entries = sort_key (\<lambda>e. (cap_rendered (d_capability e), diff_kind_code (d_kind e)))
            entries\<rparr>)"

end
