(* ===== verification/RegistryState.thy ===== *)
theory RegistryState
  imports Diff
begin

text \<open>
  The state of \<open>CapabilityRegistry::Impl\<close> and its internal operations on evidence
  (\<open>registry.cpp\<close>, \<open>authority.hpp\<close>, \<open>publication.hpp\<close>, \<open>registry.hpp\<close>): the entity records, the
  derived indexes, resolution with its index updates, materialisation of the immutable set, and
  the marking of evidence. Hash maps are association lists or functions; \<open>entity_keys_\<close> is the
  position of an entity in the list of entities, and a capability key is a position in
  \<open>capability_ids\<close>. Explanations and messages are not modelled.
\<close>

abbreviation (input) kMaxRetainedCapabilityIds :: nat where "kMaxRetainedCapabilityIds \<equiv> 64"
abbreviation (input) kMaxClaimsPerPublication :: nat where "kMaxClaimsPerPublication \<equiv> 4096"
abbreviation (input) kMaxAuthorityNamespaces :: nat where "kMaxAuthorityNamespaces \<equiv> 64"
abbreviation (input) kMaxAuthorityEntityKinds :: nat where "kMaxAuthorityEntityKinds \<equiv> 16"
abbreviation (input) kMaxPublicationsPerBatch :: nat where "kMaxPublicationsPerBatch \<equiv> 1024"

section \<open>Authority\<close>

datatype publication_mode = FullSnapshot | Incremental | PartialObservation

fun ModeBit :: "publication_mode \<Rightarrow> u8" where
  "ModeBit FullSnapshot = 1"
| "ModeBit Incremental = 2"
| "ModeBit PartialObservation = 4"

definition AllowsMode :: "u8 \<Rightarrow> publication_mode \<Rightarrow> bool" where
  "AllowsMode modes mode \<longleftrightarrow> modes AND ModeBit mode \<noteq> 0"

record authority_grant =
  ag_scope :: token
  ag_entity_kinds :: "entity_kind list"
  ag_namespaces :: "namespace_id list"
  ag_modes :: u8
  ag_exclusive :: bool
  ag_may_publish_durable :: bool
  ag_strongest_provenance :: provenance_class
  ag_allowed_publishers :: "token list"
  ag_max_claims_per_publication :: nat
  ag_description :: token

record publisher_registration =
  pb_publisher :: token
  pb_scope :: token
  pb_worker_boot :: token
  pb_epoch :: counter
  pb_accepted_generation :: counter

record authority_context =
  ac_scope :: token
  ac_publisher :: token
  ac_worker_boot :: token
  ac_source :: token
  ac_source_generation :: counter

record fence_record =
  fn_worker_boot :: token
  fn_publisher :: token
  fn_reason :: token
  fn_fenced_at :: counter

section \<open>Publications\<close>

datatype incremental_operation =
    UpsertClaim | WithdrawClaim | MarkUnsupported | MarkUnknown | MarkRevalidationRequired
  | SupersedeSourceEvidence

record incremental_edit =
  ed_operation :: incremental_operation
  ed_capability :: capability_id
  ed_claim :: capability_claim

record publication_request =
  pq_mode :: publication_mode
  pq_attempt :: token
  pq_publication :: token
  pq_epoch :: counter
  pq_authority :: authority_context
  pq_entity :: entity_id
  pq_entity_generation :: counter
  pq_expected_set_generation :: counter
  pq_claims :: "capability_claim list"
  pq_edits :: "incremental_edit list"
  pq_coverage :: coverage_class
  pq_reason :: token

datatype publication_status = Committed | IdempotentReplay | Rejected

record publication_result =
  pr_status :: publication_status
  pr_code :: error_code
  pr_publication :: token
  pr_attempt :: token
  pr_entity :: entity_id
  pr_entity_generation :: counter
  pr_previous_set_generation :: counter
  pr_new_set_generation :: counter
  pr_registry_generation :: counter
  pr_claims_applied :: nat
  pr_claims_withdrawn :: nat
  pr_capabilities_added :: nat
  pr_capabilities_removed :: nat
  pr_capabilities_changed :: nat
  pr_diff :: "capability_diff option"
  pr_set_digest :: digest

section \<open>Entity records\<close>

record generation_summary =
  gs_generation :: counter
  gs_set_generation :: counter
  gs_digest :: digest
  gs_capability_count :: nat
  gs_supported_count :: nat
  gs_retired_at :: counter
  gs_reason :: token

record retained_generation =
  rt_summary :: generation_summary
  rt_capability_ids :: "capability_id list"

type_synonym source_key = "token \<times> token"
type_synonym publisher_key = "token \<times> token"

record entity_state =
  es_id :: entity_id
  es_current_generation :: counter
  es_touched_at :: counter
  es_has_set :: bool
  es_bound_generation :: counter
  es_set_generation :: counter
  es_invalidated :: bool
  es_invalidation_reason :: token
  es_capabilities :: "(nat \<times> capability_entry) list"
  es_source_high_water :: "source_key \<rightharpoonup> counter"
  es_history :: "retained_generation list"
  es_set :: "entity_capability_set option"

definition entity_new :: "entity_id \<Rightarrow> counter \<Rightarrow> counter \<Rightarrow> entity_state" where
  "entity_new ident generation touched =
     \<lparr>es_id = ident, es_current_generation = generation, es_touched_at = touched,
      es_has_set = False, es_bound_generation = generation, es_set_generation = 0,
      es_invalidated = False, es_invalidation_reason = [], es_capabilities = [],
      es_source_high_water = Map.empty, es_history = [], es_set = None\<rparr>"

section \<open>Derived indexes\<close>

text \<open>
  \<open>ix_reverse k st\<close> is \<open>*reverse_[k].Bucket(st)\<close>; an absent entry of the hash map has empty
  buckets. The evidence indexes map to the empty set where the hash map has no entry.
\<close>

record indices =
  ix_reverse :: "nat \<Rightarrow> capability_state \<Rightarrow> nat list"
  ix_revalidation :: "(entity_id \<times> capability_id) list"
  ix_namespace :: "namespace_id \<Rightarrow> capability_id list"
  ix_publisher_evidence :: "token \<Rightarrow> token set"
  ix_source_evidence :: "token \<Rightarrow> token set"

definition indices_empty :: indices where
  "indices_empty = \<lparr>ix_reverse = (\<lambda>_ _. []), ix_revalidation = [], ix_namespace = (\<lambda>_. []),
     ix_publisher_evidence = (\<lambda>_. {}), ix_source_evidence = (\<lambda>_. {})\<rparr>"

definition RemoveFromReverse :: "nat \<Rightarrow> nat \<Rightarrow> capability_state \<Rightarrow> indices \<Rightarrow> indices" where
  "RemoveFromReverse entity_key capability_key st ix =
     ix\<lparr>ix_reverse := (ix_reverse ix)(capability_key := (ix_reverse ix capability_key)
          (st := EraseSorted (ix_reverse ix capability_key st) entity_key))\<rparr>"

definition AddToReverse :: "nat \<Rightarrow> nat \<Rightarrow> capability_state \<Rightarrow> indices \<Rightarrow> indices" where
  "AddToReverse entity_key capability_key st ix =
     ix\<lparr>ix_reverse := (ix_reverse ix)(capability_key := (ix_reverse ix capability_key)
          (st := InsertSorted (ix_reverse ix capability_key st) entity_key))\<rparr>"

definition revalidation_key :: "entity_id \<times> capability_id \<Rightarrow> string \<times> string" where
  "revalidation_key p = (ent_rendered (fst p), cap_rendered (snd p))"

definition UpdateRevalidationIndex ::
  "entity_id \<Rightarrow> capability_id \<Rightarrow> capability_state \<Rightarrow> bool \<Rightarrow> capability_state
   \<Rightarrow> indices \<Rightarrow> indices" where
  "UpdateRevalidationIndex entity capability previous had_previous current ix =
     (let was = had_previous \<and> previous = St_RevalidationRequired;
          is_now = current = St_RevalidationRequired
      in if was \<and> \<not> is_now
         then ix\<lparr>ix_revalidation :=
                  set_erase revalidation_key (entity, capability) (ix_revalidation ix)\<rparr>
         else if \<not> was \<and> is_now
         then ix\<lparr>ix_revalidation :=
                  set_insert revalidation_key (entity, capability) (ix_revalidation ix)\<rparr>
         else ix)"

definition IndexEvidence :: "evidence_record \<Rightarrow> indices \<Rightarrow> indices" where
  "IndexEvidence e ix =
     ix\<lparr>ix_publisher_evidence := (ix_publisher_evidence ix)
          (e_publisher e := insert (e_id e) (ix_publisher_evidence ix (e_publisher e))),
        ix_source_evidence := (ix_source_evidence ix)
          (e_source e := insert (e_id e) (ix_source_evidence ix (e_source e)))\<rparr>"

definition DeindexEvidence :: "evidence_record \<Rightarrow> indices \<Rightarrow> indices" where
  "DeindexEvidence e ix =
     ix\<lparr>ix_publisher_evidence := (ix_publisher_evidence ix)
          (e_publisher e := ix_publisher_evidence ix (e_publisher e) - {e_id e}),
        ix_source_evidence := (ix_source_evidence ix)
          (e_source e := ix_source_evidence ix (e_source e) - {e_id e})\<rparr>"

definition TouchNamespace :: "capability_id \<Rightarrow> indices \<Rightarrow> indices" where
  "TouchNamespace capability ix =
     ix\<lparr>ix_namespace := (ix_namespace ix)
          (cap_ns capability :=
             set_insert cap_rendered capability (ix_namespace ix (cap_ns capability)))\<rparr>"

section \<open>The registry\<close>

record registry_options =
  o_max_entities :: nat
  o_max_capabilities_per_entity :: nat
  o_max_evidence_per_capability :: nat
  o_max_evidence_per_entity :: nat
  o_max_entity_generations_retained :: nat
  o_max_replay_entries_per_publisher :: nat
  o_max_rejection_journal_entries :: nat
  o_max_fenced_worker_boots :: nat
  o_max_publishers :: nat
  o_max_authority_scopes :: nat
  o_initial_epoch :: counter

definition options_default :: registry_options where
  "options_default =
     \<lparr>o_max_entities = 1000000, o_max_capabilities_per_entity = 4096,
      o_max_evidence_per_capability = 64, o_max_evidence_per_entity = 65536,
      o_max_entity_generations_retained = 8, o_max_replay_entries_per_publisher = 128,
      o_max_rejection_journal_entries = 4096, o_max_fenced_worker_boots = 65536,
      o_max_publishers = 4096, o_max_authority_scopes = 4096, o_initial_epoch = 1\<rparr>"

record replay_record =
  rp_attempt :: token
  rp_publication :: token
  rp_content_digest :: string
  rp_status :: publication_status
  rp_code :: error_code

record publisher_runtime =
  rn_registration :: publisher_registration
  rn_active :: bool
  rn_replay :: "replay_record list"

record journal_entry =
  j_publication :: token
  j_attempt :: token
  j_entity :: entity_id
  j_entity_generation :: counter
  j_status :: publication_status
  j_code :: error_code
  j_previous_generation :: counter
  j_new_generation :: counter
  j_registry_generation :: counter

record registry =
  g_options :: registry_options
  g_schema :: capability_schema
  g_generation :: counter
  g_epoch :: counter
  g_authorities :: "authority_grant list"
  g_publishers :: "(publisher_key \<times> publisher_runtime) list"
  g_fenced_boots :: "token set"
  g_fences :: "fence_record list"
  g_entities :: "entity_state list"
  g_capability_ids :: "capability_id list"
  g_indices :: indices
  g_arrival_sequence :: u64
  g_journal :: "(token \<times> journal_entry) list"
  g_attempt_journal :: "token \<rightharpoonup> token"
  g_journal_order :: "token list"

definition Registry_new :: "registry_options \<Rightarrow> capability_schema \<Rightarrow> registry" where
  "Registry_new options schema =
     (let options = (if Counter_IsSet (o_initial_epoch options) then options
                     else options\<lparr>o_initial_epoch := 1\<rparr>)
      in \<lparr>g_options = options, g_schema = schema, g_generation = 0,
          g_epoch = o_initial_epoch options, g_authorities = [], g_publishers = [],
          g_fenced_boots = {}, g_fences = [], g_entities = [], g_capability_ids = [],
          g_indices = indices_empty, g_arrival_sequence = 0, g_journal = [],
          g_attempt_journal = Map.empty, g_journal_order = []\<rparr>)"

text \<open>Lookups through \<open>entity_keys_\<close>, \<open>capability_keys_\<close> and \<open>authority_index_\<close>.\<close>

fun index_where :: "('a \<Rightarrow> bool) \<Rightarrow> 'a list \<Rightarrow> nat option" where
  "index_where p [] = None"
| "index_where p (x # xs) = (if p x then Some 0 else map_option Suc (index_where p xs))"

lemma index_where_Some:
  "index_where p xs = Some i \<Longrightarrow> i < length xs \<and> p (xs ! i) \<and> (\<forall>j<i. \<not> p (xs ! j))"
proof (induction xs arbitrary: i)
  case (Cons x xs)
  then show ?case by (cases i) (auto simp: less_Suc_eq_0_disj split: if_splits)
qed simp

lemma index_where_None: "index_where p xs = None \<longleftrightarrow> (\<forall>x\<in>set xs. \<not> p x)"
  by (induction xs) auto

definition FindEntity :: "registry \<Rightarrow> entity_id \<Rightarrow> nat option" where
  "FindEntity g entity = index_where (\<lambda>e. es_id e = entity) (g_entities g)"

text \<open>\<open>CapabilityKey\<close> allocates the next key for a new capability.\<close>

definition CapabilityKey :: "capability_id list \<Rightarrow> capability_id \<Rightarrow> nat \<times> capability_id list" where
  "CapabilityKey ids c =
     (case index_where (\<lambda>d. d = c) ids of
        Some key \<Rightarrow> (key, ids)
      | None \<Rightarrow> (length ids, ids @ [c]))"

text \<open>\<open>authority_index_\<close> holds the last position that was entered for a scope.\<close>

definition authority_position :: "registry \<Rightarrow> token \<Rightarrow> nat option" where
  "authority_position g scope =
     map_option (\<lambda>i. length (g_authorities g) - 1 - i)
       (index_where (\<lambda>a. ag_scope a = scope) (rev (g_authorities g)))"

definition FindAuthority :: "registry \<Rightarrow> token \<Rightarrow> authority_grant option" where
  "FindAuthority g scope =
     (case authority_position g scope of None \<Rightarrow> None | Some i \<Rightarrow> Some (g_authorities g ! i))"

lemma FindAuthority_same:
  "g_authorities g' = g_authorities g \<Longrightarrow> FindAuthority g' scope = FindAuthority g scope"
  by (simp add: FindAuthority_def authority_position_def cong: option.case_cong)

definition NamespaceAllowed :: "authority_grant \<Rightarrow> namespace_id \<Rightarrow> bool" where
  "NamespaceAllowed grant ns \<longleftrightarrow> list_ex (\<lambda>allowed. allowed = ns) (ag_namespaces grant)"

definition NextOrSame :: "counter \<Rightarrow> counter" where
  "NextOrSame c = (case Counter_Next c of Inr n \<Rightarrow> n | Inl _ \<Rightarrow> c)"

definition MakeReason :: "string \<Rightarrow> token" where
  "MakeReason t = parsed_or_unset (ReasonToken_Parse t)"

section \<open>Resolution with its index updates\<close>

definition FinishResolution ::
  "nat \<Rightarrow> entity_id \<Rightarrow> nat \<Rightarrow> capability_entry \<Rightarrow> capability_resolution \<Rightarrow> indices
   \<Rightarrow> capability_entry \<times> indices" where
  "FinishResolution entity_key entity key entry res ix =
     (let previous = r_state (ce_resolution entry);
          had = CapabilityId_IsSet (r_capability (ce_resolution entry));
          ix = (if had \<and> previous \<noteq> r_state res
                then AddToReverse entity_key key (r_state res)
                       (RemoveFromReverse entity_key key previous ix)
                else if \<not> had then AddToReverse entity_key key (r_state res) ix
                else ix);
          ix = UpdateRevalidationIndex entity (ce_id entry) previous had (r_state res) ix
      in (entry\<lparr>ce_resolution := res\<rparr>, TouchNamespace (ce_id entry) ix))"

definition ResolveCapability ::
  "nat \<Rightarrow> entity_state \<Rightarrow> nat \<Rightarrow> capability_entry \<Rightarrow> indices \<Rightarrow> capability_entry \<times> indices" where
  "ResolveCapability entity_key ent key entry ix =
     FinishResolution entity_key (es_id ent) key entry
       (resolve (es_id ent) (es_bound_generation ent) (ce_id entry) (ce_generation entry)
          (ce_evidence entry)) ix"

section \<open>Materialisation\<close>

definition Materialize :: "counter \<Rightarrow> entity_state \<Rightarrow> entity_capability_set" where
  "Materialize registry_generation ent =
     (let capabilities = sort_key (\<lambda>r. cap_rendered (r_capability r))
            (map (\<lambda>p. ce_resolution (snd p)) (es_capabilities ent))
      in \<lparr>s_entity = es_id ent, s_entity_generation = es_bound_generation ent,
          s_set_generation = es_set_generation ent, s_registry_generation = registry_generation,
          s_invalidated = es_invalidated ent,
          s_invalidation_reason = es_invalidation_reason ent,
          s_capabilities = capabilities, s_digest = DigestOfResolutions capabilities\<rparr>)"

definition RefreshEntity :: "counter \<Rightarrow> entity_state \<Rightarrow> entity_state" where
  "RefreshEntity registry_generation ent =
     ent\<lparr>es_set := Some (Materialize registry_generation ent),
         es_touched_at := registry_generation\<rparr>"

section \<open>Journal and replay cache\<close>

text \<open>
  Popping the front of an empty queue, which a bound of zero would do, is undefined in the
  source; here nothing is evicted then.
\<close>

definition RecordJournal :: "journal_entry \<Rightarrow> registry \<Rightarrow> registry" where
  "RecordJournal entry g =
     (let g = (if length (g_journal g) \<ge> o_max_rejection_journal_entries (g_options g)
               then (case g_journal_order g of
                       [] \<Rightarrow> g
                     | oldest # rest \<Rightarrow>
                         g\<lparr>g_journal_order := rest, g_journal := AList.delete oldest (g_journal g)\<rparr>)
               else g)
      in g\<lparr>g_journal_order := g_journal_order g @ [j_publication entry],
           g_journal := AList.update (j_publication entry) entry (g_journal g),
           g_attempt_journal := (g_attempt_journal g)(j_attempt entry \<mapsto> j_publication entry)\<rparr>)"

definition runtime_new :: publisher_runtime where
  "runtime_new = \<lparr>rn_registration = \<lparr>pb_publisher = [], pb_scope = [], pb_worker_boot = [],
     pb_epoch = 0, pb_accepted_generation = 0\<rparr>, rn_active = False, rn_replay = []\<rparr>"

definition RegisterReplay :: "publisher_key \<Rightarrow> replay_record \<Rightarrow> registry \<Rightarrow> registry" where
  "RegisterReplay key rec g =
     (let runtime = (case map_of (g_publishers g) key of Some r \<Rightarrow> r | None \<Rightarrow> runtime_new);
          replay = (if length (rn_replay runtime)
                        \<ge> o_max_replay_entries_per_publisher (g_options g)
                    then drop 1 (rn_replay runtime) else rn_replay runtime)
      in g\<lparr>g_publishers :=
             AList.update key (runtime\<lparr>rn_replay := replay @ [rec]\<rparr>) (g_publishers g)\<rparr>)"

end
