(* ===== verification/EvidenceOps.thy ===== *)
theory EvidenceOps
  imports RegistryState
begin

text \<open>
  The operations of \<open>registry.cpp\<close> that change evidence: superseding a publishing identity,
  applying and withdrawing a claim, marking evidence non-current and retiring an entity
  generation. Each works on one entity and on the parts of the registry it shares with the other
  entities, gathered in \<open>work\<close>; shared pointers to immutable records become the records.
\<close>

section \<open>Marking records\<close>

definition retired_record :: "evidence_record \<Rightarrow> bool" where
  "retired_record e \<longleftrightarrow> e_currentness e = Cur_Superseded
     \<or> e_currentness e = Cur_EntityGenerationSuperseded"

definition owned_by :: "source_key \<Rightarrow> evidence_record \<Rightarrow> bool" where
  "owned_by key e \<longleftrightarrow> e_source e = fst key \<and> e_worker_boot e = snd key"

definition mark_records ::
  "(evidence_record \<Rightarrow> bool) \<Rightarrow> evidence_currentness \<Rightarrow> token
   \<Rightarrow> evidence_record list \<Rightarrow> evidence_record list" where
  "mark_records p currentness reason evs =
     map (\<lambda>e. if p e then e\<lparr>e_currentness := currentness, e_reason := reason\<rparr> else e) evs"

definition deindex_records ::
  "(evidence_record \<Rightarrow> bool) \<Rightarrow> evidence_record list \<Rightarrow> indices \<Rightarrow> indices" where
  "deindex_records p evs ix = foldl (\<lambda>ix e. if p e then DeindexEvidence e ix else ix) ix evs"

text \<open>
  The body shared by the four marking loops: the records that satisfy \<open>p\<close> are replaced by marked
  copies; when there is one, the capability generation advances (it stays at its last value when
  exhausted) and the capability is resolved again.
\<close>

definition rewrite_entry ::
  "nat \<Rightarrow> entity_state \<Rightarrow> (evidence_record \<Rightarrow> bool) \<Rightarrow> evidence_currentness \<Rightarrow> token
   \<Rightarrow> nat \<Rightarrow> capability_entry \<Rightarrow> indices \<Rightarrow> capability_entry \<times> indices" where
  "rewrite_entry entity_key ent p currentness reason key entry ix =
     (if list_ex p (ce_evidence entry)
      then ResolveCapability entity_key ent key
             (entry\<lparr>ce_evidence := mark_records p currentness reason (ce_evidence entry),
                    ce_generation := NextOrSame (ce_generation entry)\<rparr>)
             (deindex_records p (ce_evidence entry) ix)
      else (entry, ix))"

fun each_capability ::
  "(nat \<Rightarrow> capability_entry \<Rightarrow> indices \<Rightarrow> capability_entry \<times> indices)
   \<Rightarrow> (nat \<times> capability_entry) list \<Rightarrow> indices \<Rightarrow> (nat \<times> capability_entry) list \<times> indices" where
  "each_capability f [] ix = ([], ix)"
| "each_capability f ((key, entry) # rest) ix =
     (let (entry', ix) = f key entry ix; (rest', ix) = each_capability f rest ix
      in ((key, entry') # rest', ix))"

definition rewrite_entity ::
  "nat \<Rightarrow> (evidence_record \<Rightarrow> bool) \<Rightarrow> evidence_currentness \<Rightarrow> token
   \<Rightarrow> entity_state \<times> indices \<Rightarrow> entity_state \<times> indices" where
  "rewrite_entity entity_key p currentness reason st =
     (let (ent, ix) = st;
          (caps, ix) = each_capability (rewrite_entry entity_key ent p currentness reason)
            (es_capabilities ent) ix
      in (ent\<lparr>es_capabilities := caps\<rparr>, ix))"

definition SupersedeIdentity ::
  "nat \<Rightarrow> source_key \<Rightarrow> token \<Rightarrow> entity_state \<times> indices \<Rightarrow> entity_state \<times> indices" where
  "SupersedeIdentity entity_key source_key reason =
     rewrite_entity entity_key (\<lambda>e. owned_by source_key e \<and> \<not> retired_record e)
       Cur_Superseded reason"

definition SupersedeOtherIdentities ::
  "nat \<Rightarrow> publisher_key \<Rightarrow> token \<Rightarrow> entity_state \<times> indices \<Rightarrow> entity_state \<times> indices" where
  "SupersedeOtherIdentities entity_key keep reason =
     rewrite_entity entity_key
       (\<lambda>e. \<not> (e_publisher e = fst keep \<and> e_worker_boot e = snd keep)
            \<and> e_durability e \<noteq> Durable \<and> \<not> retired_record e)
       Cur_Superseded reason"

definition MarkNonCurrent ::
  "nat \<Rightarrow> capability_id list \<Rightarrow> entity_state \<Rightarrow> evidence_currentness \<Rightarrow> token \<Rightarrow> token option
   \<Rightarrow> token option \<Rightarrow> bool \<Rightarrow> capability_entry \<Rightarrow> indices \<Rightarrow> capability_entry \<times> indices" where
  "MarkNonCurrent entity_key ids ent currentness reason boot source include_durable entry ix =
     rewrite_entry entity_key ent
       (\<lambda>e. \<not> (\<exists>b. boot = Some b \<and> e_worker_boot e \<noteq> b)
            \<and> \<not> (\<exists>s. source = Some s \<and> e_source e \<noteq> s)
            \<and> \<not> (\<not> include_durable \<and> e_durability e = Durable)
            \<and> IsCurrent (e_currentness e))
       currentness reason (fst (CapabilityKey ids (ce_id entry))) entry ix"

text \<open>The loop over the capabilities of an entity that calls \<open>MarkNonCurrent\<close>.\<close>

definition MarkEntity ::
  "nat \<Rightarrow> capability_id list \<Rightarrow> evidence_currentness \<Rightarrow> token \<Rightarrow> token option \<Rightarrow> token option
   \<Rightarrow> bool \<Rightarrow> entity_state \<times> indices \<Rightarrow> entity_state \<times> indices" where
  "MarkEntity entity_key ids currentness reason boot source include_durable st =
     (let (ent, ix) = st;
          (caps, ix) = each_capability
            (\<lambda>_ entry ix. MarkNonCurrent entity_key ids ent currentness reason boot source
               include_durable entry ix)
            (es_capabilities ent) ix
      in (ent\<lparr>es_capabilities := caps\<rparr>, ix))"

section \<open>Applying a claim\<close>

definition NextEvidenceGeneration :: "capability_entry \<Rightarrow> source_key \<Rightarrow> counter" where
  "NextEvidenceGeneration entry key =
     (let highest = foldl (\<lambda>highest e.
            if owned_by key e \<and> e_evidence_generation e \<ge> highest
            then e_evidence_generation e else highest) 0 (ce_evidence entry)
      in case Counter_Next highest of Inr n \<Rightarrow> n | Inl _ \<Rightarrow> - 1)"

definition LiveEvidenceCount :: "evidence_record list \<Rightarrow> nat" where
  "LiveEvidenceCount evs =
     length (filter (\<lambda>e. IsCurrent (e_currentness e)
       \<or> e_currentness e = Cur_RevalidationRequired \<or> e_currentness e = Cur_Fenced) evs)"

text \<open>Removes the first retired record while the bound is exceeded.\<close>

function TrimEvidence :: "nat \<Rightarrow> evidence_record list \<Rightarrow> evidence_record list" where
  "TrimEvidence bound evs =
     (if length evs > bound
      then (case index_where retired_record evs of
              None \<Rightarrow> evs
            | Some victim \<Rightarrow> TrimEvidence bound (take victim evs @ drop (Suc victim) evs))
      else evs)"
  by pat_completeness auto
termination
  by (relation "measure (\<lambda>(_, evs). length evs)") (auto dest: index_where_Some)

declare TrimEvidence.simps [simp del]

record work =
  w_entity :: entity_state
  w_ids :: "capability_id list"
  w_indices :: indices
  w_arrival :: u64

definition claim_evidence ::
  "registry \<Rightarrow> publication_request \<Rightarrow> entity_state \<Rightarrow> capability_claim \<Rightarrow> coverage_class
   \<Rightarrow> counter \<Rightarrow> u64 \<Rightarrow> evidence_record" where
  "claim_evidence g request ent claim coverage generation arrival =
     (let auth = pq_authority request
      in \<lparr>e_id = MakeEvidenceId (ac_publisher auth) (ac_worker_boot auth) (pq_attempt request)
             (es_id ent) (es_bound_generation ent) (cl_capability claim) generation,
          e_capability = cl_capability claim, e_entity = es_id ent,
          e_entity_generation = es_bound_generation ent, e_source = ac_source auth,
          e_publisher = ac_publisher auth, e_scope = ac_scope auth,
          e_worker_boot = ac_worker_boot auth, e_epoch = g_epoch g,
          e_source_generation = ac_source_generation auth, e_evidence_generation = generation,
          e_attempt = pq_attempt request, e_publication = pq_publication request,
          e_provenance = cl_provenance claim, e_source_class = cl_source_class claim,
          e_durability = cl_durability claim, e_coverage = coverage, e_state = cl_state claim,
          e_value = cl_value claim, e_firmware_version = cl_firmware_version claim,
          e_driver_version = cl_driver_version claim, e_reason = cl_reason claim,
          e_currentness = Cur_Current, e_accepted_generation = g_generation g,
          e_arrival_sequence = arrival\<rparr>)"

definition put_entry :: "nat \<Rightarrow> capability_entry \<Rightarrow> entity_state \<Rightarrow> entity_state" where
  "put_entry key entry ent =
     ent\<lparr>es_capabilities := ordered_put key entry (es_capabilities ent)\<rparr>"

definition ApplyClaim ::
  "registry \<Rightarrow> nat \<Rightarrow> publication_request \<Rightarrow> capability_claim \<Rightarrow> coverage_class \<Rightarrow> token
   \<Rightarrow> work \<Rightarrow> status \<times> work" where
  "ApplyClaim g entity_key request claim coverage supersede_reason w =
     (let ent = w_entity w;
          (key, ids) = CapabilityKey (w_ids w) (cl_capability claim);
          w = w\<lparr>w_ids := ids\<rparr>;
          existing = map_of (es_capabilities ent) key
      in if existing = None
            \<and> length (es_capabilities ent) \<ge> o_max_capabilities_per_entity (g_options g)
         then (Inl E_ClaimCountExceeded, w)
         else
           let entry = (case existing of Some entry \<Rightarrow> entry
                        | None \<Rightarrow> entry_default\<lparr>ce_id := cl_capability claim\<rparr>);
               source_key = (ac_source (pq_authority request), ac_worker_boot (pq_authority request));
               generation = NextEvidenceGeneration entry source_key;
               own = (\<lambda>e. owned_by source_key e \<and> \<not> retired_record e);
               ix = deindex_records own (ce_evidence entry) (w_indices w);
               evs = TrimEvidence (o_max_evidence_per_capability (g_options g))
                 (mark_records own Cur_Superseded supersede_reason (ce_evidence entry));
               entry = entry\<lparr>ce_evidence := evs\<rparr>
           in if LiveEvidenceCount evs \<ge> o_max_evidence_per_capability (g_options g)
              then (Inl E_EvidenceLimitExceeded,
                    w\<lparr>w_entity := put_entry key entry ent, w_indices := ix\<rparr>)
              else
                let arrival = w_arrival w + 1;
                    rec = claim_evidence g request ent claim coverage generation arrival;
                    ix = IndexEvidence rec ix;
                    entry = entry\<lparr>ce_evidence := evs @ [rec]\<rparr>
                in case Counter_Next (ce_generation entry) of
                     Inl _ \<Rightarrow>
                       (Inl E_ArithmeticOverflow,
                        w\<lparr>w_entity := put_entry key entry ent, w_indices := ix,
                          w_arrival := arrival\<rparr>)
                   | Inr next_generation \<Rightarrow>
                       let (entry, ix) = ResolveCapability entity_key ent key
                             (entry\<lparr>ce_generation := next_generation\<rparr>) ix
                       in (Inr (),
                           w\<lparr>w_entity := put_entry key entry ent, w_indices := ix,
                             w_arrival := arrival\<rparr>))"

section \<open>Withdrawing a claim\<close>

definition WithdrawIdentityClaim ::
  "nat \<Rightarrow> publication_request \<Rightarrow> capability_id \<Rightarrow> token \<Rightarrow> work \<Rightarrow> status \<times> work" where
  "WithdrawIdentityClaim entity_key request capability reason w =
     (case index_where (\<lambda>d. d = capability) (w_ids w) of
        None \<Rightarrow> (Inr (), w)
      | Some key \<Rightarrow>
         (case map_of (es_capabilities (w_entity w)) key of
            None \<Rightarrow> (Inr (), w)
          | Some entry \<Rightarrow>
              let ent = w_entity w;
                  source_key = (ac_source (pq_authority request),
                                ac_worker_boot (pq_authority request));
                  own = (\<lambda>e. owned_by source_key e \<and> \<not> retired_record e)
              in if \<not> list_ex own (ce_evidence entry) then (Inr (), w)
                 else
                   let ix = deindex_records own (ce_evidence entry) (w_indices w);
                       entry = entry\<lparr>ce_evidence :=
                         mark_records own Cur_Superseded reason (ce_evidence entry)\<rparr>
                   in case Counter_Next (ce_generation entry) of
                        Inl _ \<Rightarrow>
                          (Inl E_ArithmeticOverflow,
                           w\<lparr>w_entity := put_entry key entry ent, w_indices := ix\<rparr>)
                      | Inr next_generation \<Rightarrow>
                          let (entry, ix) = ResolveCapability entity_key ent key
                                (entry\<lparr>ce_generation := next_generation\<rparr>) ix
                          in (Inr (),
                              w\<lparr>w_entity := put_entry key entry ent, w_indices := ix\<rparr>)))"

section \<open>Retiring a generation\<close>

definition retained_of :: "counter \<Rightarrow> token \<Rightarrow> entity_state \<Rightarrow> entity_capability_set
    \<Rightarrow> retained_generation" where
  "retained_of registry_generation reason ent s =
     \<lparr>rt_summary =
        \<lparr>gs_generation = es_bound_generation ent, gs_set_generation = es_set_generation ent,
         gs_digest = s_digest s, gs_capability_count = length (s_capabilities s),
         gs_supported_count = CountOf s St_Supported, gs_retired_at = registry_generation,
         gs_reason = reason\<rparr>,
      rt_capability_ids =
        take kMaxRetainedCapabilityIds (map r_capability (s_capabilities s))\<rparr>"

definition RetireGeneration ::
  "registry_options \<Rightarrow> counter \<Rightarrow> counter \<Rightarrow> token \<Rightarrow> entity_state \<times> indices
   \<Rightarrow> entity_state \<times> indices" where
  "RetireGeneration options registry_generation next_generation reason st =
     (let (ent, ix) = st;
          history = (if es_has_set ent
                     then (case es_set ent of
                             None \<Rightarrow> es_history ent
                           | Some s \<Rightarrow>
                               take (o_max_entity_generations_retained options)
                                 (retained_of registry_generation reason ent s # es_history ent))
                     else es_history ent);
          ix = foldl (\<lambda>ix p. deindex_records (\<lambda>e. IsCurrent (e_currentness e))
                 (ce_evidence (snd p)) ix) ix (es_capabilities ent)
      in (ent\<lparr>es_history := history, es_capabilities := [], es_source_high_water := Map.empty,
              es_set := None, es_has_set := False, es_set_generation := 0,
              es_bound_generation := next_generation, es_current_generation := next_generation,
              es_invalidated := False, es_invalidation_reason := []\<rparr>, ix))"

end
