(* ===== verification/Publish.thy ===== *)
theory Publish
  imports EvidenceOps
begin

text \<open>
  The publication state machine: \<open>Publish\<close> of \<open>registry.cpp\<close>, step by step in the numbering of its
  comments, and \<open>PublishBatch\<close>. A publication either ends in an error of the call, is rejected
  (and journalled), is recognised as the exact replay of the latest attempt, or commits. The
  class locks a mutex around every public operation, so each is one atomic step here.
\<close>

section \<open>Step 1: shape of the request\<close>

definition shape_check :: "publication_request \<Rightarrow> status" where
  "shape_check request =
     (let auth = pq_authority request in
      if \<not> IsSet (pq_publication request) then Inl E_InvalidArgument
      else if \<not> IsSet (pq_attempt request) then Inl E_InvalidArgument
      else if \<not> EntityId_IsSet (pq_entity request) then Inl E_InvalidArgument
      else if \<not> Counter_IsSet (pq_entity_generation request) then Inl E_InvalidArgument
      else if \<not> IsSet (ac_publisher auth) \<or> \<not> IsSet (ac_worker_boot auth)
        \<or> \<not> IsSet (ac_scope auth) \<or> \<not> IsSet (ac_source auth) then Inl E_InvalidArgument
      else if pq_mode request = Incremental \<and> pq_claims request \<noteq> [] then Inl E_InvalidArgument
      else if pq_mode request \<noteq> Incremental \<and> pq_edits request \<noteq> [] then Inl E_InvalidArgument
      else if pq_mode request = PartialObservation \<and> pq_claims request = []
        then Inl E_EmptyCollection
      else if pq_mode request = Incremental \<and> pq_edits request = [] then Inl E_EmptyCollection
      else if length (pq_claims request) > kMaxClaimsPerPublication then Inl E_TooManyItems
      else if length (pq_edits request) > kMaxClaimsPerPublication then Inl E_TooManyItems
      else Inr ())"

section \<open>Steps 2 to 4: epoch, publisher, grant\<close>

definition epoch_check :: "registry \<Rightarrow> publication_request \<Rightarrow> status" where
  "epoch_check g request =
     (if \<not> Counter_IsSet (pq_epoch request) \<or> pq_epoch request < g_epoch g
      then Inl E_CoordinatorEpochStale
      else if pq_epoch request > g_epoch g then Inl E_CoordinatorEpochUnknown
      else Inr ())"

definition request_key :: "publication_request \<Rightarrow> publisher_key" where
  "request_key request =
     (ac_publisher (pq_authority request), ac_worker_boot (pq_authority request))"

definition publisher_check :: "registry \<Rightarrow> publication_request \<Rightarrow> publisher_runtime outcome" where
  "publisher_check g request =
     (if ac_worker_boot (pq_authority request) \<in> g_fenced_boots g then Inl E_WorkerBootFenced
      else case map_of (g_publishers g) (request_key request) of
        None \<Rightarrow> Inl E_UnauthorizedPublisher
      | Some runtime \<Rightarrow>
          if \<not> rn_active runtime then Inl E_WorkerBootStale
          else if pb_scope (rn_registration runtime) \<noteq> ac_scope (pq_authority request)
            then Inl E_AuthorityScopeViolation
          else if pb_epoch (rn_registration runtime) \<noteq> g_epoch g
            then Inl E_CoordinatorEpochStale
          else Inr runtime)"

definition grant_check :: "registry \<Rightarrow> publication_request \<Rightarrow> authority_grant outcome" where
  "grant_check g request =
     (case FindAuthority g (ac_scope (pq_authority request)) of
        None \<Rightarrow> Inl E_UnknownAuthorityScope
      | Some grant \<Rightarrow>
          if \<not> AllowsMode (ag_modes grant) (pq_mode request)
            then Inl E_PublicationModeNotAuthorized
          else if ent_kind (pq_entity request) \<notin> set (ag_entity_kinds grant)
            then Inl E_AuthorityScopeViolation
          else if length (pq_claims request) > ag_max_claims_per_publication grant
            then Inl E_ClaimCountExceeded
          else Inr grant)"

section \<open>Step 5: claims and edits against grant and schema\<close>

definition ValidateClaimShape :: "capability_descriptor \<Rightarrow> capability_claim \<Rightarrow> status" where
  "ValidateClaimShape d claim =
     (let needs_value = cd_kind d \<noteq> K_Boolean
            \<and> (cl_state claim = St_Supported \<or> cl_state claim = St_Unsupported)
      in if cl_value claim = V_Absent
         then (if needs_value then Inl E_ValueTypeMismatch else Inr ())
         else if cl_state claim = St_Unknown then Inl E_ValueContradiction
         else ValidateValueAgainstDescriptor d (cl_value claim))"

definition check_claim ::
  "capability_schema \<Rightarrow> authority_grant \<Rightarrow> string set \<Rightarrow> capability_claim \<Rightarrow> status" where
  "check_claim schema grant seen claim =
     (if \<not> CapabilityId_IsSet (cl_capability claim) then Inl E_InvalidArgument
      else if \<not> NamespaceAllowed grant (cap_ns (cl_capability claim))
        then Inl E_AuthorityScopeViolation
      else if cap_rendered (cl_capability claim) \<in> seen then Inl E_DuplicateClaim
      else obind (Schema_Find schema (cl_capability claim)) (\<lambda>d.
        if ProvenanceRank (cl_provenance claim) < ProvenanceRank (ag_strongest_provenance grant)
          then Inl E_ProvenanceNotAuthorized
        else if ProvenanceRank (cl_provenance claim)
            < ProvenanceRank (StrongestProvenanceForSource (cl_source_class claim))
          then Inl E_ProvenanceNotAuthorized
        else if cl_durability claim = Durable \<and> \<not> ag_may_publish_durable grant
          then Inl E_DurablePublicationNotAuthorized
        else if cl_durability claim = Durable \<and> IsLiveProcessObservation (cl_provenance claim)
          then Inl E_DurablePublicationNotAuthorized
        else ValidateClaimShape d claim))"

fun check_claims ::
  "capability_schema \<Rightarrow> authority_grant \<Rightarrow> string set \<Rightarrow> capability_claim list \<Rightarrow> status" where
  "check_claims schema grant seen [] = Inr ()"
| "check_claims schema grant seen (claim # claims) =
     obind (check_claim schema grant seen claim) (\<lambda>_.
       check_claims schema grant (insert (cap_rendered (cl_capability claim)) seen) claims)"

text \<open>The claim an edit stands for: the operation fixes the state of the three Mark operations.\<close>

definition edit_claim :: "incremental_edit \<Rightarrow> capability_claim" where
  "edit_claim edit =
     (let claim = (ed_claim edit)\<lparr>cl_capability := ed_capability edit\<rparr>
      in case ed_operation edit of
           MarkUnsupported \<Rightarrow> claim\<lparr>cl_state := St_Unsupported\<rparr>
         | MarkUnknown \<Rightarrow> claim\<lparr>cl_state := St_Unknown\<rparr>
         | MarkRevalidationRequired \<Rightarrow> claim\<lparr>cl_state := St_RevalidationRequired\<rparr>
         | _ \<Rightarrow> claim)"

definition withdrawing :: "incremental_edit \<Rightarrow> bool" where
  "withdrawing edit \<longleftrightarrow>
     ed_operation edit = WithdrawClaim \<or> ed_operation edit = SupersedeSourceEvidence"

definition check_edit ::
  "capability_schema \<Rightarrow> authority_grant \<Rightarrow> incremental_edit \<Rightarrow> status" where
  "check_edit schema grant edit =
     (if \<not> CapabilityId_IsSet (ed_capability edit) then Inl E_InvalidArgument
      else if \<not> NamespaceAllowed grant (cap_ns (ed_capability edit))
        then Inl E_AuthorityScopeViolation
      else obind (Schema_Find schema (ed_capability edit)) (\<lambda>d.
        if withdrawing edit then Inr ()
        else
          let claim = edit_claim edit in
          if ProvenanceRank (cl_provenance claim) < ProvenanceRank (ag_strongest_provenance grant)
            \<or> ProvenanceRank (cl_provenance claim)
                < ProvenanceRank (StrongestProvenanceForSource (cl_source_class claim))
          then Inl E_ProvenanceNotAuthorized
          else if cl_durability claim = Durable
            \<and> (\<not> ag_may_publish_durable grant \<or> IsLiveProcessObservation (cl_provenance claim))
          then Inl E_DurablePublicationNotAuthorized
          else ValidateClaimShape d claim))"

text \<open>Steps 1 to 5: none of them changes the registry.\<close>

definition validate_request ::
  "registry \<Rightarrow> publication_request \<Rightarrow> (publisher_runtime \<times> authority_grant) outcome" where
  "validate_request g request =
     obind (shape_check request) (\<lambda>_.
     obind (epoch_check g request) (\<lambda>_.
     obind (publisher_check g request) (\<lambda>runtime.
     obind (grant_check g request) (\<lambda>grant.
     obind (check_claims (g_schema g) grant {} (pq_claims request)) (\<lambda>_.
     obind (check_each (check_edit (g_schema g) grant) (pq_edits request)) (\<lambda>_.
       Inr (runtime, grant)))))))"

section \<open>Step 6: entity identity and generation\<close>

text \<open>\<open>Fails\<close> is an error of the call, \<open>Rejects\<close> a rejection that is journalled.\<close>

datatype publish_stop = Fails error_code | Rejects error_code

definition create_entity :: "entity_id \<Rightarrow> counter \<Rightarrow> registry \<Rightarrow> registry" where
  "create_entity ident generation g =
     g\<lparr>g_entities := g_entities g @ [entity_new ident generation (g_generation g)]\<rparr>"

definition put_entity :: "nat \<Rightarrow> entity_state \<Rightarrow> registry \<Rightarrow> registry" where
  "put_entity n ent g = g\<lparr>g_entities := (g_entities g)[n := ent]\<rparr>"

definition retire_entity :: "nat \<Rightarrow> counter \<Rightarrow> token \<Rightarrow> registry \<Rightarrow> registry" where
  "retire_entity n generation reason g =
     (let (ent, ix) = RetireGeneration (g_options g) (g_generation g) generation reason
            (g_entities g ! n, g_indices g)
      in put_entity n ent (g\<lparr>g_indices := ix\<rparr>))"

text \<open>Advancing the registry generation and stamping the entity.\<close>

definition touch_entity :: "nat \<Rightarrow> registry \<Rightarrow> registry" where
  "touch_entity n g =
     put_entity n ((g_entities g ! n)\<lparr>es_touched_at := g_generation g\<rparr>) g"

definition enter_entity ::
  "registry \<Rightarrow> publication_request \<Rightarrow> (publish_stop + nat) \<times> registry" where
  "enter_entity g request =
     (case FindEntity g (pq_entity request) of
        None \<Rightarrow>
          if length (g_entities g) \<ge> o_max_entities (g_options g)
          then (Inl (Fails E_TooManyItems), g)
          else (Inr (length (g_entities g)),
                create_entity (pq_entity request) (pq_entity_generation request) g)
      | Some n \<Rightarrow>
          let current = es_current_generation (g_entities g ! n) in
          if pq_entity_generation request < current
          then (Inl (Rejects E_EntityGenerationStale), g)
          else if pq_entity_generation request > current
          then
            let g = retire_entity n (pq_entity_generation request)
                      (MakeReason ''superseded-by-fabric-registry'') g
            in case Counter_Next (g_generation g) of
                 Inl _ \<Rightarrow> (Inl (Fails E_ArithmeticOverflow), g)
               | Inr advanced \<Rightarrow> (Inr n, touch_entity n (g\<lparr>g_generation := advanced\<rparr>))
          else (Inr n, g))"

section \<open>Step 7: replay classification\<close>

fun operation_code :: "incremental_operation \<Rightarrow> u8" where
  "operation_code UpsertClaim = 0"
| "operation_code WithdrawClaim = 1"
| "operation_code MarkUnsupported = 2"
| "operation_code MarkUnknown = 3"
| "operation_code MarkRevalidationRequired = 4"
| "operation_code SupersedeSourceEvidence = 5"

definition claim_bytes :: "capability_claim \<Rightarrow> bytes" where
  "claim_bytes claim =
     write_text kMaxCapabilityIdLength (cap_rendered (cl_capability claim))
     @ put_u8 (state_code (cl_state claim))
     @ Value_Encode (cl_value claim)
     @ put_u8 (ProvenanceRank (cl_provenance claim))
     @ put_u8 (source_class_code (cl_source_class claim))
     @ put_u8 (durability_code (cl_durability claim))
     @ put_u8 (coverage_code (cl_coverage claim))
     @ write_text kMaxVersionTokenLength (cl_firmware_version claim)
     @ write_text kMaxVersionTokenLength (cl_driver_version claim)
     @ write_text kMaxTextLength (cl_reason claim)"

definition edit_bytes :: "incremental_edit \<Rightarrow> bytes" where
  "edit_bytes edit =
     put_u8 (operation_code (ed_operation edit))
     @ write_text kMaxCapabilityIdLength (cap_rendered (ed_capability edit))
     @ put_u8 (state_code (cl_state (ed_claim edit)))
     @ Value_Encode (cl_value (ed_claim edit))
     @ put_u8 (ProvenanceRank (cl_provenance (ed_claim edit)))
     @ put_u8 (source_class_code (cl_source_class (ed_claim edit)))
     @ put_u8 (durability_code (cl_durability (ed_claim edit)))
     @ put_u8 (coverage_code (cl_coverage (ed_claim edit)))"

definition content_bytes :: "publication_request \<Rightarrow> authority_grant \<Rightarrow> bytes" where
  "content_bytes request grant =
     put_u8 (ModeBit (pq_mode request))
     @ write_text kMaxEntityIdLength (ent_rendered (pq_entity request))
     @ put_u64 (pq_entity_generation request)
     @ put_u8 (coverage_code (pq_coverage request))
     @ write_text kMaxAuthorityScopeIdLength (ac_scope (pq_authority request))
     @ write_text kMaxSourceIdLength (ac_source (pq_authority request))
     @ put_u64 (ac_source_generation (pq_authority request))
     @ write_text kMaxTextLength (pq_reason request)
     @ put_u8 (if ag_exclusive grant then 1 else 0)
     @ put_u32 (word_of_nat (length (pq_claims request)))
     @ concat (map claim_bytes (pq_claims request))
     @ put_u32 (word_of_nat (length (pq_edits request)))
     @ concat (map edit_bytes (pq_edits request))"

definition RequestContentDigest :: "publication_request \<Rightarrow> authority_grant \<Rightarrow> digest" where
  "RequestContentDigest request grant = ComputeDigest (content_bytes request grant)"

text \<open>\<open>Inr True\<close> is the exact replay of the latest attempt.\<close>

definition replay_check ::
  "publisher_runtime \<Rightarrow> publication_request \<Rightarrow> string \<Rightarrow> publish_stop + bool" where
  "replay_check runtime request content_digest =
     (if rn_replay runtime = [] then Inr False
      else
        let latest = last (rn_replay runtime) in
        if rp_attempt latest = pq_attempt request
        then (if rp_content_digest latest \<noteq> content_digest
              then Inl (Rejects E_DuplicateAttemptConflict) else Inr True)
        else if list_ex (\<lambda>rec. rp_attempt rec = pq_attempt request) (rn_replay runtime)
        then Inl (Rejects E_StaleReplay)
        else Inr False)"

section \<open>Steps 8 and 9: preconditions\<close>

definition source_key_of :: "publication_request \<Rightarrow> source_key" where
  "source_key_of request = (ac_source (pq_authority request), ac_worker_boot (pq_authority request))"

definition precondition_check :: "entity_state \<Rightarrow> publication_request \<Rightarrow> publish_stop + unit" where
  "precondition_check ent request =
     (if (case es_source_high_water ent (source_key_of request) of
            None \<Rightarrow> False
          | Some floor \<Rightarrow> ac_source_generation (pq_authority request) < floor)
      then Inl (Rejects E_SourceGenerationStale)
      else if es_has_set ent
      then (if pq_expected_set_generation request < es_set_generation ent
            then Inl (Rejects E_CapabilitySetGenerationStale)
            else if pq_expected_set_generation request > es_set_generation ent
            then Inl (Rejects E_CapabilitySetGenerationMismatch)
            else Inr ())
      else if pq_expected_set_generation request \<noteq> 0
      then Inl (Rejects E_CapabilitySetGenerationMismatch)
      else Inr ())"

section \<open>Step 10: applying the request\<close>

definition open_work :: "registry \<Rightarrow> nat \<Rightarrow> work" where
  "open_work g n = \<lparr>w_entity = g_entities g ! n, w_ids = g_capability_ids g,
     w_indices = g_indices g, w_arrival = g_arrival_sequence g\<rparr>"

definition close_work :: "nat \<Rightarrow> work \<Rightarrow> registry \<Rightarrow> registry" where
  "close_work n w g = put_entity n (w_entity w)
     (g\<lparr>g_capability_ids := w_ids w, g_indices := w_indices w, g_arrival_sequence := w_arrival w\<rparr>)"

definition on_entity ::
  "(entity_state \<times> indices \<Rightarrow> entity_state \<times> indices) \<Rightarrow> work \<Rightarrow> work" where
  "on_entity f w =
     (let (ent, ix) = f (w_entity w, w_indices w) in w\<lparr>w_entity := ent, w_indices := ix\<rparr>)"

text \<open>A loop over items that stops at the first failure, keeping the changes made so far.\<close>

fun run_each :: "('a \<Rightarrow> work \<Rightarrow> status \<times> work) \<Rightarrow> 'a list \<Rightarrow> work \<Rightarrow> status \<times> work" where
  "run_each f [] w = (Inr (), w)"
| "run_each f (x # xs) w =
     (case f x w of (Inl e, w) \<Rightarrow> (Inl e, w) | (Inr _, w) \<Rightarrow> run_each f xs w)"

definition apply_claims ::
  "registry \<Rightarrow> nat \<Rightarrow> publication_request \<Rightarrow> capability_claim list \<Rightarrow> coverage_class
   \<Rightarrow> work \<Rightarrow> status \<times> work" where
  "apply_claims g n request claims coverage =
     run_each (\<lambda>claim. ApplyClaim g n request claim coverage (pq_reason request)) claims"

text \<open>The negative claims an exclusive full enumeration implies.\<close>

definition absence_claim ::
  "authority_grant \<Rightarrow> publication_request \<Rightarrow> capability_descriptor \<Rightarrow> capability_claim" where
  "absence_claim grant request d =
     claim_default
       \<lparr>cl_capability := cd_id d, cl_state := St_Unsupported,
        cl_provenance := (if pq_claims request = [] then ag_strongest_provenance grant
                          else cl_provenance (hd (pq_claims request))),
        cl_source_class := (if pq_claims request = [] then Src_HardwareEnumeration
                            else cl_source_class (hd (pq_claims request))),
        cl_coverage := FullEnumeration, cl_reason := pq_reason request\<rparr>"

definition absence_claims ::
  "capability_schema \<Rightarrow> authority_grant \<Rightarrow> publication_request \<Rightarrow> capability_claim list" where
  "absence_claims schema grant request =
     (let mentioned = (\<lambda>c. cap_rendered (cl_capability c)) ` set (pq_claims request)
      in map (absence_claim grant request)
           (filter (\<lambda>d. cd_absence_is_negative d \<and> CapabilityId_IsSet (cd_id d)
                      \<and> cap_rendered (cd_id d) \<notin> mentioned
                      \<and> NamespaceAllowed grant (cap_ns (cd_id d)))
              (Schema_Descriptors schema)))"

definition implies_absence :: "authority_grant \<Rightarrow> publication_request \<Rightarrow> bool" where
  "implies_absence grant request \<longleftrightarrow> ag_exclusive grant \<and> pq_coverage request = FullEnumeration"

definition apply_snapshot ::
  "registry \<Rightarrow> nat \<Rightarrow> authority_grant \<Rightarrow> publication_request \<Rightarrow> work \<Rightarrow> status \<times> work" where
  "apply_snapshot g n grant request w =
     (let w = (if ag_exclusive grant
               then on_entity (SupersedeOtherIdentities n (request_key request) (pq_reason request)) w
               else w);
          w = on_entity (SupersedeIdentity n (source_key_of request) (pq_reason request)) w
      in case apply_claims g n request (pq_claims request) (pq_coverage request) w of
           (Inl e, w) \<Rightarrow> (Inl e, w)
         | (Inr _, w) \<Rightarrow>
             if implies_absence grant request
             then apply_claims g n request (absence_claims (g_schema g) grant request)
                    FullEnumeration w
             else (Inr (), w))"

text \<open>The flag records that the source was already superseded by an earlier edit.\<close>

fun apply_edits ::
  "registry \<Rightarrow> nat \<Rightarrow> publication_request \<Rightarrow> bool \<Rightarrow> incremental_edit list \<Rightarrow> work
   \<Rightarrow> status \<times> work" where
  "apply_edits g n request superseded [] w = (Inr (), w)"
| "apply_edits g n request superseded (edit # edits) w =
     (case ed_operation edit of
        WithdrawClaim \<Rightarrow>
          (case WithdrawIdentityClaim n request (ed_capability edit) (pq_reason request) w of
             (Inl e, w) \<Rightarrow> (Inl e, w)
           | (Inr _, w) \<Rightarrow> apply_edits g n request superseded edits w)
      | SupersedeSourceEvidence \<Rightarrow>
          apply_edits g n request True edits
            (if superseded then w
             else on_entity (SupersedeIdentity n (source_key_of request) (pq_reason request)) w)
      | _ \<Rightarrow>
          (case ApplyClaim g n request (edit_claim edit) (cl_coverage (edit_claim edit))
                  (pq_reason request) w of
             (Inl e, w) \<Rightarrow> (Inl e, w)
           | (Inr _, w) \<Rightarrow> apply_edits g n request superseded edits w))"

definition apply_request ::
  "registry \<Rightarrow> nat \<Rightarrow> authority_grant \<Rightarrow> publication_request \<Rightarrow> work \<Rightarrow> status \<times> work" where
  "apply_request g n grant request w =
     (case pq_mode request of
        FullSnapshot \<Rightarrow> apply_snapshot g n grant request w
      | PartialObservation \<Rightarrow>
          apply_claims g n request (pq_claims request) (pq_coverage request) w
      | Incremental \<Rightarrow> apply_edits g n request False (pq_edits request) w)"

definition applied_count :: "registry \<Rightarrow> authority_grant \<Rightarrow> publication_request \<Rightarrow> nat" where
  "applied_count g grant request =
     (case pq_mode request of
        FullSnapshot \<Rightarrow> length (pq_claims request)
          + (if implies_absence grant request
             then length (absence_claims (g_schema g) grant request) else 0)
      | PartialObservation \<Rightarrow> length (pq_claims request)
      | Incremental \<Rightarrow> length (filter (\<lambda>e. \<not> withdrawing e) (pq_edits request)))"

definition withdrawn_count :: "publication_request \<Rightarrow> nat" where
  "withdrawn_count request =
     (if pq_mode request = Incremental then length (filter withdrawing (pq_edits request)) else 0)"

section \<open>Step 11: commit\<close>

definition base_result :: "registry \<Rightarrow> publication_request \<Rightarrow> publication_result" where
  "base_result g request =
     \<lparr>pr_status = Rejected, pr_code = E_Ok, pr_publication = pq_publication request,
      pr_attempt = pq_attempt request, pr_entity = pq_entity request,
      pr_entity_generation = pq_entity_generation request, pr_previous_set_generation = 0,
      pr_new_set_generation = 0, pr_registry_generation = g_generation g,
      pr_claims_applied = 0, pr_claims_withdrawn = 0, pr_capabilities_added = 0,
      pr_capabilities_removed = 0, pr_capabilities_changed = 0, pr_diff = None,
      pr_set_digest = Digest_zero\<rparr>"

definition journal_of ::
  "registry \<Rightarrow> publication_request \<Rightarrow> publication_result \<Rightarrow> journal_entry" where
  "journal_of g request result =
     \<lparr>j_publication = pq_publication request, j_attempt = pq_attempt request,
      j_entity = pq_entity request, j_entity_generation = pq_entity_generation request,
      j_status = pr_status result, j_code = pr_code result,
      j_previous_generation = pr_previous_set_generation result,
      j_new_generation = pr_new_set_generation result,
      j_registry_generation = g_generation g\<rparr>"

definition reject ::
  "registry \<Rightarrow> publication_request \<Rightarrow> error_code \<Rightarrow> publication_result outcome \<times> registry" where
  "reject g request code =
     (let result = (base_result g request)\<lparr>pr_code := code\<rparr>
      in (Inr result,
          if IsSet (pq_publication request) \<and> IsSet (pq_attempt request)
          then RecordJournal (journal_of g request result) g else g))"

definition stop_with ::
  "registry \<Rightarrow> publication_request \<Rightarrow> publish_stop \<Rightarrow> publication_result outcome \<times> registry" where
  "stop_with g request stop =
     (case stop of Fails e \<Rightarrow> (Inl e, g) | Rejects e \<Rightarrow> reject g request e)"

definition answer_replay ::
  "registry \<Rightarrow> nat \<Rightarrow> publication_request \<Rightarrow> publication_result outcome \<times> registry" where
  "answer_replay g n request =
     (let ent = g_entities g ! n;
          result = (base_result g request)
            \<lparr>pr_status := IdempotentReplay, pr_code := E_Ok,
             pr_previous_set_generation := es_set_generation ent,
             pr_new_set_generation := es_set_generation ent,
             pr_set_digest := (case es_set ent of None \<Rightarrow> Digest_zero | Some s \<Rightarrow> s_digest s)\<rparr>
      in (Inr result, RecordJournal (journal_of g request result) g))"

definition count_kind :: "(diff_kind \<Rightarrow> bool) \<Rightarrow> capability_diff \<Rightarrow> nat" where
  "count_kind p d = length (filter (\<lambda>e. p (d_kind e)) (df_entries d))"

text \<open>The entity after a successful commit with registry generation \<open>rg\<close>.\<close>

definition committed_entity :: "counter \<Rightarrow> counter \<Rightarrow> entity_state \<Rightarrow> entity_state" where
  "committed_entity rg set_generation ent =
     (let ent = ent\<lparr>es_set_generation := set_generation, es_has_set := True,
            es_bound_generation := es_current_generation ent, es_invalidated := False,
            es_invalidation_reason := []\<rparr>
      in ent\<lparr>es_set := Some (Materialize rg ent), es_touched_at := rg\<rparr>)"

definition raise_high_water :: "publication_request \<Rightarrow> entity_state \<Rightarrow> entity_state" where
  "raise_high_water request ent =
     (let key = source_key_of request;
          high_water = (case es_source_high_water ent key of Some c \<Rightarrow> c | None \<Rightarrow> 0);
          requested = ac_source_generation (pq_authority request)
      in ent\<lparr>es_source_high_water :=
           (es_source_high_water ent)(key \<mapsto> (if requested > high_water then requested
                                            else high_water))\<rparr>)"

text \<open>
  \<open>before\<close> is the set the entity had when the publication started to apply; \<open>g\<close> holds the applied
  changes. The set generation advances exactly when the canonical digest changed.
\<close>

definition commit ::
  "entity_capability_set option \<Rightarrow> string \<Rightarrow> authority_grant \<Rightarrow> registry \<Rightarrow> nat
   \<Rightarrow> publication_request \<Rightarrow> publication_result outcome \<times> registry" where
  "commit before content_digest grant g n request =
     (let ent = g_entities g ! n;
          provisional = Materialize (g_generation g) ent;
          semantic_change = (case before of None \<Rightarrow> True
                             | Some s \<Rightarrow> s_digest provisional \<noteq> s_digest s)
      in case (if semantic_change then Counter_Next (es_set_generation ent)
               else Inr (es_set_generation ent)) of
           Inl e \<Rightarrow> (Inl e, g)
         | Inr set_generation \<Rightarrow>
        (case (if semantic_change then Counter_Next (g_generation g) else Inr (g_generation g)) of
           Inl e \<Rightarrow> (Inl e, put_entity n (ent\<lparr>es_set_generation := set_generation\<rparr>) g)
         | Inr rg \<Rightarrow>
             let done_entity = committed_entity rg set_generation ent;
                 diff = BuildDiff (es_id ent) before (es_set done_entity);
                 result = (base_result g request)
                   \<lparr>pr_status := Committed, pr_code := E_Ok,
                    pr_previous_set_generation :=
                      (case before of None \<Rightarrow> 0 | Some s \<Rightarrow> s_set_generation s),
                    pr_new_set_generation := set_generation,
                    pr_registry_generation := rg,
                    pr_claims_applied := applied_count g grant request,
                    pr_claims_withdrawn := withdrawn_count request,
                    pr_capabilities_added := count_kind (\<lambda>k. k = CapabilityAdded) diff,
                    pr_capabilities_removed := count_kind (\<lambda>k. k = CapabilityRemoved) diff,
                    pr_capabilities_changed :=
                      count_kind (\<lambda>k. k \<noteq> CapabilityAdded \<and> k \<noteq> CapabilityRemoved) diff,
                    pr_diff := Some diff,
                    pr_set_digest := (case es_set done_entity of
                      None \<Rightarrow> Digest_zero | Some s \<Rightarrow> s_digest s)\<rparr>;
                 replay = \<lparr>rp_attempt = pq_attempt request, rp_publication = pq_publication request,
                    rp_content_digest = content_digest, rp_status = Committed, rp_code = E_Ok\<rparr>;
                 g = put_entity n (raise_high_water request done_entity)
                       (g\<lparr>g_generation := rg\<rparr>);
                 g = RegisterReplay (request_key request) replay g
             in (Inr result, RecordJournal (journal_of g request result) g)))"

section \<open>The whole operation\<close>

definition Publish ::
  "registry \<Rightarrow> publication_request \<Rightarrow> publication_result outcome \<times> registry" where
  "Publish g request =
     (case validate_request g request of
        Inl e \<Rightarrow> reject g request e
      | Inr (runtime, grant) \<Rightarrow>
     (case enter_entity g request of
        (Inl stop, g) \<Rightarrow> stop_with g request stop
      | (Inr n, g) \<Rightarrow>
          let content_digest = Digest_ToString (RequestContentDigest request grant) in
     (case replay_check runtime request content_digest of
        Inl stop \<Rightarrow> stop_with g request stop
      | Inr True \<Rightarrow> answer_replay g n request
      | Inr False \<Rightarrow>
     (case precondition_check (g_entities g ! n) request of
        Inl stop \<Rightarrow> stop_with g request stop
      | Inr _ \<Rightarrow>
          let before = es_set (g_entities g ! n);
              (applied, w) = apply_request g n grant request (open_work g n);
              g = close_work n w g
          in (case applied of
                Inl e \<Rightarrow> reject g request e
              | Inr _ \<Rightarrow> commit before content_digest grant g n request)))))"

text \<open>\<open>PublishBatch\<close>: an error of one call ends the batch and drops the earlier results.\<close>

fun publish_all ::
  "registry \<Rightarrow> publication_request list \<Rightarrow> publication_result list outcome \<times> registry" where
  "publish_all g [] = (Inr [], g)"
| "publish_all g (request # requests) =
     (case Publish g request of
        (Inl e, g) \<Rightarrow> (Inl e, g)
      | (Inr result, g) \<Rightarrow>
          (case publish_all g requests of
             (Inl e, g) \<Rightarrow> (Inl e, g)
           | (Inr results, g) \<Rightarrow> (Inr (result # results), g)))"

definition PublishBatch ::
  "registry \<Rightarrow> publication_request list \<Rightarrow> publication_result list outcome \<times> registry" where
  "PublishBatch g requests =
     (if length requests > kMaxPublicationsPerBatch then (Inl E_TooManyItems, g)
      else publish_all g requests)"

end
