(* ===== verification/Lifecycle.thy ===== *)
theory Lifecycle
  imports Publish
begin

text \<open>
  The other mutating operations of \<open>CapabilityRegistry\<close> (\<open>registry.cpp\<close>): coordinator epoch,
  authority, publisher registration and fencing, entity generations, invalidation of entities
  and of sources, vendor descriptors; and the read accessors of that state. The hash map of
  publishers is a list whose order stands for the unspecified iteration order.
\<close>

section \<open>Loops over all entities\<close>

fun each_entity ::
  "(nat \<Rightarrow> entity_state \<times> indices \<Rightarrow> entity_state \<times> indices) \<Rightarrow> nat \<Rightarrow> entity_state list
   \<Rightarrow> indices \<Rightarrow> entity_state list \<times> indices" where
  "each_entity f n [] ix = ([], ix)"
| "each_entity f n (ent # ents) ix =
     (let (ent', ix) = f n (ent, ix); (ents', ix) = each_entity f (Suc n) ents ix
      in (ent' # ents', ix))"

definition update_entities ::
  "(nat \<Rightarrow> entity_state \<times> indices \<Rightarrow> entity_state \<times> indices) \<Rightarrow> registry \<Rightarrow> registry" where
  "update_entities f g =
     (let (ents, ix) = each_entity f 0 (g_entities g) (g_indices g)
      in g\<lparr>g_entities := ents, g_indices := ix\<rparr>)"

text \<open>Marks the evidence of one entity and rebuilds its set.\<close>

definition mark_and_refresh ::
  "registry \<Rightarrow> evidence_currentness \<Rightarrow> token \<Rightarrow> token option \<Rightarrow> token option \<Rightarrow> bool
   \<Rightarrow> nat \<Rightarrow> entity_state \<times> indices \<Rightarrow> entity_state \<times> indices" where
  "mark_and_refresh g currentness reason boot source include_durable n st =
     (let (ent, ix) = MarkEntity n (g_capability_ids g) currentness reason boot source
            include_durable st
      in (RefreshEntity (g_generation g) ent, ix))"

definition reason_or :: "token \<Rightarrow> string \<Rightarrow> token" where
  "reason_or reason fallback = (if IsSet reason then reason else MakeReason fallback)"

section \<open>Coordinator epoch\<close>

fun fence_boots :: "token \<Rightarrow> token list \<Rightarrow> registry \<Rightarrow> registry" where
  "fence_boots why [] g = g"
| "fence_boots why (boot # boots) g =
     (if boot \<in> g_fenced_boots g then fence_boots why boots g
      else if length (g_fences g) \<ge> o_max_fenced_worker_boots (g_options g) then g
      else fence_boots why boots
             (g\<lparr>g_fenced_boots := insert boot (g_fenced_boots g),
                g_fences := g_fences g @ [\<lparr>fn_worker_boot = boot, fn_publisher = [],
                  fn_reason = why, fn_fenced_at = g_generation g\<rparr>]\<rparr>))"

definition AdvanceCoordinatorEpoch :: "registry \<Rightarrow> token \<Rightarrow> counter outcome \<times> registry" where
  "AdvanceCoordinatorEpoch g reason =
     (case Counter_Next (g_epoch g) of
        Inl e \<Rightarrow> (Inl e, g)
      | Inr next \<Rightarrow>
          let why = reason_or reason ''coordinator-epoch-advanced'';
              boots = map (\<lambda>p. snd (fst p)) (g_publishers g);
              g = fence_boots why boots (g\<lparr>g_epoch := next, g_publishers := []\<rparr>);
              g = update_entities
                    (mark_and_refresh g Cur_RevalidationRequired why None None False) g
          in case Counter_Next (g_generation g) of
               Inl e \<Rightarrow> (Inl e, g)
             | Inr registry_next \<Rightarrow> (Inr next, g\<lparr>g_generation := registry_next\<rparr>))"

section \<open>Authority\<close>

definition grant_shape :: "authority_grant \<Rightarrow> status" where
  "grant_shape grant =
     (if \<not> IsSet (ag_scope grant) then Inl E_InvalidArgument
      else if ag_entity_kinds grant = [] then Inl E_InvalidArgument
      else if length (ag_entity_kinds grant) > kMaxAuthorityEntityKinds then Inl E_TooManyItems
      else if ag_namespaces grant = [] then Inl E_InvalidArgument
      else if length (ag_namespaces grant) > kMaxAuthorityNamespaces then Inl E_TooManyItems
      else if ag_modes grant = 0 then Inl E_InvalidArgument
      else if ag_max_claims_per_publication grant = 0
        \<or> ag_max_claims_per_publication grant > kMaxClaimsPerPublication
        then Inl E_InvalidArgument
      else if list_ex (\<lambda>ns. ns = []) (ag_namespaces grant) then Inl E_UnknownNamespace
      else if length (ag_allowed_publishers grant) > 4096 then Inl E_TooManyItems
      else Inr ())"

definition DeclareAuthority :: "registry \<Rightarrow> authority_grant \<Rightarrow> status \<times> registry" where
  "DeclareAuthority g grant =
     (case grant_shape grant of
        Inl e \<Rightarrow> (Inl e, g)
      | Inr _ \<Rightarrow>
         (case authority_position g (ag_scope grant) of
            Some i \<Rightarrow> (Inr (), g\<lparr>g_authorities := (g_authorities g)[i := grant]\<rparr>)
          | None \<Rightarrow>
              if length (g_authorities g) \<ge> o_max_authority_scopes (g_options g)
              then (Inl E_TooManyItems, g)
              else (Inr (), g\<lparr>g_authorities := g_authorities g @ [grant]\<rparr>)))"

definition Authority :: "registry \<Rightarrow> token \<Rightarrow> authority_grant outcome" where
  "Authority g scope =
     (case FindAuthority g scope of None \<Rightarrow> Inl E_UnknownAuthorityScope | Some a \<Rightarrow> Inr a)"

definition Authorities :: "registry \<Rightarrow> authority_grant list" where
  "Authorities g = sort_key ag_scope (g_authorities g)"

section \<open>Publishers\<close>

definition RegisterPublisher ::
  "registry \<Rightarrow> token \<Rightarrow> token \<Rightarrow> token \<Rightarrow> publisher_registration outcome \<times> registry" where
  "RegisterPublisher g publisher scope worker_boot =
     (if \<not> IsSet publisher \<or> \<not> IsSet scope \<or> \<not> IsSet worker_boot
      then (Inl E_InvalidArgument, g)
      else if worker_boot \<in> g_fenced_boots g then (Inl E_WorkerBootFenced, g)
      else case FindAuthority g scope of
        None \<Rightarrow> (Inl E_UnknownAuthorityScope, g)
      | Some grant \<Rightarrow>
          if ag_allowed_publishers grant \<noteq> [] \<and> publisher \<notin> set (ag_allowed_publishers grant)
          then (Inl E_UnauthorizedPublisher, g)
          else
            let key = (publisher, worker_boot) in
            if map_of (g_publishers g) key = None
              \<and> length (g_publishers g) \<ge> o_max_publishers (g_options g)
            then (Inl E_TooManyItems, g)
            else
              let registration =
                    \<lparr>pb_publisher = publisher, pb_scope = scope, pb_worker_boot = worker_boot,
                     pb_epoch = g_epoch g, pb_accepted_generation = g_generation g\<rparr>
              in (Inr registration,
                  g\<lparr>g_publishers := AList.update key
                      \<lparr>rn_registration = registration, rn_active = True, rn_replay = []\<rparr>
                      (g_publishers g)\<rparr>))"

definition RetirePublisher :: "registry \<Rightarrow> token \<Rightarrow> token \<Rightarrow> status \<times> registry" where
  "RetirePublisher g publisher worker_boot =
     (case map_of (g_publishers g) (publisher, worker_boot) of
        None \<Rightarrow> (Inl E_UnknownPublisher, g)
      | Some runtime \<Rightarrow>
          (Inr (), g\<lparr>g_publishers := AList.update (publisher, worker_boot)
             (runtime\<lparr>rn_active := False\<rparr>) (g_publishers g)\<rparr>))"

definition FindPublisher :: "registry \<Rightarrow> token \<Rightarrow> token \<Rightarrow> publisher_registration option" where
  "FindPublisher g publisher worker_boot =
     (case map_of (g_publishers g) (publisher, worker_boot) of
        None \<Rightarrow> None
      | Some runtime \<Rightarrow> if \<not> rn_active runtime then None else Some (rn_registration runtime))"

section \<open>Fencing\<close>

definition owns_current_evidence :: "registry \<Rightarrow> token \<Rightarrow> bool" where
  "owns_current_evidence g boot \<longleftrightarrow>
     list_ex (\<lambda>ent. list_ex (\<lambda>p. list_ex
         (\<lambda>e. e_worker_boot e = boot \<and> IsCurrent (e_currentness e)) (ce_evidence (snd p)))
       (es_capabilities ent)) (g_entities g)"

text \<open>At capacity the first fence that protects no current evidence is forgotten.\<close>

definition evict_fence :: "registry \<Rightarrow> registry option" where
  "evict_fence g =
     (if length (g_fences g) \<ge> o_max_fenced_worker_boots (g_options g)
      then (case index_where (\<lambda>f. \<not> owns_current_evidence g (fn_worker_boot f)) (g_fences g) of
              None \<Rightarrow> None
            | Some i \<Rightarrow>
                Some (g\<lparr>g_fenced_boots := g_fenced_boots g - {fn_worker_boot (g_fences g ! i)},
                        g_fences := take i (g_fences g) @ drop (Suc i) (g_fences g)\<rparr>))
      else Some g)"

definition FenceWorkerBoot :: "registry \<Rightarrow> token \<Rightarrow> token \<Rightarrow> status \<times> registry" where
  "FenceWorkerBoot g worker_boot reason =
     (if \<not> IsSet worker_boot then (Inl E_InvalidArgument, g)
      else if worker_boot \<in> g_fenced_boots g then (Inr (), g)
      else case evict_fence g of
        None \<Rightarrow> (Inl E_TooManyItems, g)
      | Some g \<Rightarrow>
          let why = reason_or reason ''worker-boot-fenced'';
              owners = filter (\<lambda>p. snd (fst p) = worker_boot) (g_publishers g);
              publisher = (if owners = [] then [] else fst (fst (last owners)));
              g = g\<lparr>g_fenced_boots := insert worker_boot (g_fenced_boots g),
                    g_fences := g_fences g @ [\<lparr>fn_worker_boot = worker_boot,
                      fn_publisher = publisher, fn_reason = why, fn_fenced_at = g_generation g\<rparr>],
                    g_publishers := AList.delete (publisher, worker_boot) (g_publishers g)\<rparr>;
              g = update_entities
                    (mark_and_refresh g Cur_Fenced why (Some worker_boot) None False) g
          in case Counter_Next (g_generation g) of
               Inl e \<Rightarrow> (Inl e, g)
             | Inr next \<Rightarrow> (Inr (), g\<lparr>g_generation := next\<rparr>))"

definition IsWorkerBootFenced :: "registry \<Rightarrow> token \<Rightarrow> bool" where
  "IsWorkerBootFenced g boot \<longleftrightarrow> boot \<in> g_fenced_boots g"

definition Fences :: "registry \<Rightarrow> fence_record list" where
  "Fences g = sort_key fn_worker_boot (g_fences g)"

section \<open>Entity generations\<close>

definition ObserveEntityGeneration ::
  "registry \<Rightarrow> entity_id \<Rightarrow> counter \<Rightarrow> token \<Rightarrow> counter outcome \<times> registry" where
  "ObserveEntityGeneration g entity generation reason =
     (if \<not> EntityId_IsSet entity \<or> \<not> Counter_IsSet generation then (Inl E_InvalidArgument, g)
      else case FindEntity g entity of
        None \<Rightarrow>
          if length (g_entities g) \<ge> o_max_entities (g_options g) then (Inl E_TooManyItems, g)
          else (Inr generation, create_entity entity generation g)
      | Some n \<Rightarrow>
          let record' = g_entities g ! n in
          if \<not> Counter_IsSet (es_current_generation record')
          then (Inr generation,
                put_entity n (record'\<lparr>es_current_generation := generation,
                                      es_bound_generation := generation\<rparr>) g)
          else if generation < es_current_generation record'
          then (Inl E_EntityGenerationStale, g)
          else if generation = es_current_generation record' then (Inr generation, g)
          else
            let g = retire_entity n generation
                      (reason_or reason ''superseded-by-fabric-registry'') g
            in case Counter_Next (g_generation g) of
                 Inl e \<Rightarrow> (Inl e, g)
               | Inr next \<Rightarrow> (Inr generation, touch_entity n (g\<lparr>g_generation := next\<rparr>)))"

section \<open>Invalidation\<close>

definition InvalidateEntity ::
  "registry \<Rightarrow> entity_id \<Rightarrow> counter \<Rightarrow> token \<Rightarrow> status \<times> registry" where
  "InvalidateEntity g entity generation reason =
     (case FindEntity g entity of
        None \<Rightarrow> (Inl E_UnknownEntity, g)
      | Some n \<Rightarrow>
          if \<not> Counter_IsSet generation \<or> generation \<noteq> es_current_generation (g_entities g ! n)
          then (Inl E_UnknownEntityGeneration, g)
          else
            let why = reason_or reason ''entity-invalidated'';
                (ent, ix) = MarkEntity n (g_capability_ids g) Cur_RevalidationRequired why
                  None None True (g_entities g ! n, g_indices g);
                changed = list_ex (\<lambda>p. \<not> Actionable (ce_resolution (snd p))) (es_capabilities ent);
                (ent, changed) =
                  (if \<not> es_invalidated ent
                   then (ent\<lparr>es_invalidated := True, es_invalidation_reason := why\<rparr>, True)
                   else (ent, changed));
                g = g\<lparr>g_indices := ix\<rparr>
            in if changed
               then
                 let g = put_entity n (RefreshEntity (g_generation g) ent) g
                 in (case Counter_Next (g_generation g) of
                       Inl e \<Rightarrow> (Inl e, g)
                     | Inr next \<Rightarrow> (Inr (), touch_entity n (g\<lparr>g_generation := next\<rparr>)))
               else (Inr (), put_entity n ent g))"

definition source_current_count :: "token \<Rightarrow> registry \<Rightarrow> nat" where
  "source_current_count source g =
     sum_list (map (\<lambda>ent. sum_list (map (\<lambda>p.
         length (filter (\<lambda>e. e_source e = source \<and> IsCurrent (e_currentness e))
           (ce_evidence (snd p))))
       (es_capabilities ent))) (g_entities g))"

definition InvalidateSource :: "registry \<Rightarrow> token \<Rightarrow> token \<Rightarrow> nat outcome \<times> registry" where
  "InvalidateSource g source reason =
     (if \<not> IsSet source then (Inl E_InvalidArgument, g)
      else
        let why = reason_or reason ''source-invalidated'';
            invalidated = source_current_count source g;
            any = list_ex (\<lambda>ent. es_capabilities ent \<noteq> []) (g_entities g);
            g = update_entities (\<lambda>n st.
                  if es_capabilities (fst st) = [] then st
                  else mark_and_refresh g Cur_RevalidationRequired why None (Some source) True n st) g
        in if any
           then (case Counter_Next (g_generation g) of
                   Inl e \<Rightarrow> (Inl e, g)
                 | Inr next \<Rightarrow> (Inr invalidated, g\<lparr>g_generation := next\<rparr>))
           else (Inr invalidated, g))"

section \<open>Schema, epoch and generation\<close>

definition Registry_RegisterVendorDescriptor ::
  "registry \<Rightarrow> capability_descriptor \<Rightarrow> status \<times> registry" where
  "Registry_RegisterVendorDescriptor g d =
     (let (result, schema) = RegisterVendorDescriptor (g_schema g) d
      in (result, g\<lparr>g_schema := schema\<rparr>))"

definition CurrentEpoch :: "registry \<Rightarrow> counter" where
  "CurrentEpoch g = g_epoch g"

definition Registry_Generation :: "registry \<Rightarrow> counter" where
  "Registry_Generation g = g_generation g"

end
