(* ===== verification/Query.thy ===== *)
theory Query
  imports Lifecycle
begin

text \<open>
  The read side of \<open>CapabilityRegistry\<close> (\<open>registry.cpp\<close>, \<open>query.hpp\<close>, \<open>query.cpp\<close>): capability and entity
  queries, retired generations, the reverse indexes, snapshots and their currentness, structural
  diffs and the canonical registry digest. Explanations are not modelled.
\<close>

section \<open>Capability queries\<close>

record evidence_summary =
  sm_id :: token
  sm_source :: token
  sm_publisher :: token
  sm_scope :: token
  sm_worker_boot :: token
  sm_provenance :: provenance_class
  sm_source_class :: evidence_source_class
  sm_durability :: durability_class
  sm_coverage :: coverage_class
  sm_state :: capability_state
  sm_value :: capability_value
  sm_has_value :: bool
  sm_currentness :: evidence_currentness
  sm_evidence_generation :: counter
  sm_source_generation :: counter
  sm_epoch :: counter
  sm_firmware_version :: token
  sm_driver_version :: token
  sm_reason :: token
  sm_winning :: bool
  sm_conflicting :: bool
  sm_outranked :: bool

record query_result =
  q_entity :: entity_id
  q_entity_generation :: counter
  q_capability :: capability_id
  q_entity_known :: bool
  q_record_exists :: bool
  q_state :: capability_state
  q_value :: capability_value
  q_has_value :: bool
  q_registry_generation :: counter
  q_set_generation :: counter
  q_capability_generation :: counter
  q_evidence_generation :: counter
  q_source_generation :: counter
  q_winning_evidence :: token
  q_provenance :: provenance_class
  q_source_class :: evidence_source_class
  q_coverage :: coverage_class
  q_durability :: durability_class
  q_actionable :: bool
  q_fails_closed :: bool
  q_evidence_count :: nat
  q_current_evidence_count :: nat
  q_outranked_evidence_count :: nat
  q_conflicting_evidence_count :: nat
  q_evidence :: "evidence_summary list"

definition query_unknown :: "registry \<Rightarrow> entity_id \<Rightarrow> capability_id \<Rightarrow> query_result" where
  "query_unknown g entity capability =
     \<lparr>q_entity = entity, q_entity_generation = 0, q_capability = capability,
      q_entity_known = False, q_record_exists = False, q_state = St_Unknown, q_value = V_Absent,
      q_has_value = False, q_registry_generation = g_generation g, q_set_generation = 0,
      q_capability_generation = 0, q_evidence_generation = 0, q_source_generation = 0,
      q_winning_evidence = [], q_provenance = Prov_SyntheticTestBackend,
      q_source_class = Src_SyntheticBackend, q_coverage = Partial, q_durability = ProcessBound,
      q_actionable = False, q_fails_closed = True, q_evidence_count = 0,
      q_current_evidence_count = 0, q_outranked_evidence_count = 0,
      q_conflicting_evidence_count = 0, q_evidence = []\<rparr>"

definition summary_of :: "capability_resolution \<Rightarrow> evidence_record \<Rightarrow> evidence_summary" where
  "summary_of res e =
     \<lparr>sm_id = e_id e, sm_source = e_source e, sm_publisher = e_publisher e, sm_scope = e_scope e,
      sm_worker_boot = e_worker_boot e, sm_provenance = e_provenance e,
      sm_source_class = e_source_class e, sm_durability = e_durability e,
      sm_coverage = e_coverage e, sm_state = e_state e, sm_value = e_value e,
      sm_has_value = (e_value e \<noteq> V_Absent), sm_currentness = e_currentness e,
      sm_evidence_generation = e_evidence_generation e,
      sm_source_generation = e_source_generation e, sm_epoch = e_epoch e,
      sm_firmware_version = e_firmware_version e, sm_driver_version = e_driver_version e,
      sm_reason = e_reason e, sm_winning = (e_id e = r_winning_evidence res),
      sm_conflicting = (e_id e \<in> set (r_conflicting_evidence res)),
      sm_outranked = (ProvenanceRank (e_provenance e) > ProvenanceRank (r_provenance res))\<rparr>"

definition FindEntry :: "registry \<Rightarrow> entity_state \<Rightarrow> capability_id \<Rightarrow> capability_entry option" where
  "FindEntry g ent capability =
     (case index_where (\<lambda>d. d = capability) (g_capability_ids g) of
        None \<Rightarrow> None
      | Some key \<Rightarrow> map_of (es_capabilities ent) key)"

definition Query :: "registry \<Rightarrow> entity_id \<Rightarrow> capability_id \<Rightarrow> query_result" where
  "Query g entity capability =
     (case FindEntity g entity of
        None \<Rightarrow> query_unknown g entity capability
      | Some n \<Rightarrow>
          let ent = g_entities g ! n;
              result = (query_unknown g entity capability)
                \<lparr>q_entity_known := True, q_entity_generation := es_current_generation ent,
                 q_set_generation := es_set_generation ent\<rparr>
          in (case FindEntry g ent capability of
                None \<Rightarrow> result
              | Some entry \<Rightarrow>
                  let res = ce_resolution entry in
                  if \<not> CapabilityId_IsSet (r_capability res) then result
                  else result
                    \<lparr>q_record_exists := True, q_state := r_state res, q_value := r_value res,
                     q_has_value := r_has_value res,
                     q_capability_generation := r_capability_generation res,
                     q_evidence_generation := r_evidence_generation res,
                     q_source_generation := r_source_generation res,
                     q_winning_evidence := r_winning_evidence res,
                     q_provenance := r_provenance res, q_source_class := r_source_class res,
                     q_coverage := r_coverage res, q_durability := r_durability res,
                     q_actionable := Actionable res, q_fails_closed := FailsClosedState res,
                     q_evidence_count := r_evidence_count res,
                     q_current_evidence_count := r_current_evidence_count res,
                     q_outranked_evidence_count := r_outranked_evidence_count res,
                     q_conflicting_evidence_count := r_conflicting_evidence_count res,
                     q_evidence := sort_key
                       (\<lambda>s. (ProvenanceRank (sm_provenance s), sm_source s, sm_id s))
                       (map (summary_of res) (ce_evidence entry))\<rparr>))"

definition QueryGeneration ::
  "registry \<Rightarrow> entity_id \<Rightarrow> counter \<Rightarrow> capability_id \<Rightarrow> query_result outcome" where
  "QueryGeneration g entity generation capability =
     (case FindEntity g entity of
        None \<Rightarrow> Inl E_UnknownEntity
      | Some n \<Rightarrow>
          if generation \<noteq> es_current_generation (g_entities g ! n)
          then Inl E_UnknownEntityGeneration
          else Inr (Query g entity capability))"

definition EvidenceFor :: "registry \<Rightarrow> entity_id \<Rightarrow> capability_id \<Rightarrow> evidence_summary list" where
  "EvidenceFor g entity capability = q_evidence (Query g entity capability)"

section \<open>Entity queries\<close>

definition QueryEntity :: "registry \<Rightarrow> entity_id \<Rightarrow> entity_capability_set outcome" where
  "QueryEntity g entity =
     (case FindEntity g entity of
        None \<Rightarrow> Inl E_UnknownEntity
      | Some n \<Rightarrow>
          let ent = g_entities g ! n in
          (case es_set ent of
             Some s \<Rightarrow> Inr s
           | None \<Rightarrow>
               Inr (entity_set_default
                 \<lparr>s_entity := entity, s_entity_generation := es_current_generation ent,
                  s_invalidated := es_invalidated ent,
                  s_invalidation_reason := es_invalidation_reason ent,
                  s_registry_generation := g_generation g\<rparr>)))"

definition QueryEntityGeneration ::
  "registry \<Rightarrow> entity_id \<Rightarrow> counter \<Rightarrow> entity_capability_set outcome" where
  "QueryEntityGeneration g entity generation =
     (case FindEntity g entity of
        None \<Rightarrow> Inl E_UnknownEntity
      | Some n \<Rightarrow>
          if generation \<noteq> es_current_generation (g_entities g ! n)
          then Inl E_UnknownEntityGeneration
          else QueryEntity g entity)"

record entity_view =
  vw_entity :: entity_id
  vw_current_generation :: counter
  vw_has_current_set :: bool
  vw_current_set :: entity_capability_set
  vw_history :: "generation_summary list"
  vw_invalidated :: bool
  vw_invalidation_reason :: token

definition EntityRecord :: "registry \<Rightarrow> entity_id \<Rightarrow> entity_view outcome" where
  "EntityRecord g entity =
     (case FindEntity g entity of
        None \<Rightarrow> Inl E_UnknownEntity
      | Some n \<Rightarrow>
          let ent = g_entities g ! n in
          Inr \<lparr>vw_entity = entity, vw_current_generation = es_current_generation ent,
               vw_has_current_set = (es_set ent \<noteq> None),
               vw_current_set = (case es_set ent of None \<Rightarrow> entity_set_default | Some s \<Rightarrow> s),
               vw_history = map rt_summary (es_history ent),
               vw_invalidated = es_invalidated ent,
               vw_invalidation_reason = es_invalidation_reason ent\<rparr>)"

record retired_view =
  rv_entity :: entity_id
  rv_generation :: counter
  rv_set_generation :: counter
  rv_digest :: digest
  rv_capabilities :: "capability_id list"
  rv_supported_known :: bool
  rv_supported_count :: nat

definition RetiredGeneration :: "registry \<Rightarrow> entity_id \<Rightarrow> counter \<Rightarrow> retired_view outcome" where
  "RetiredGeneration g entity generation =
     (case FindEntity g entity of
        None \<Rightarrow> Inl E_UnknownEntity
      | Some n \<Rightarrow>
          let ent = g_entities g ! n in
          if generation = es_current_generation ent then Inl E_InvalidArgument
          else (case find (\<lambda>r. gs_generation (rt_summary r) = generation) (es_history ent) of
                  None \<Rightarrow> Inl E_UnknownEntityGeneration
                | Some r \<Rightarrow>
                    Inr \<lparr>rv_entity = entity, rv_generation = gs_generation (rt_summary r),
                         rv_set_generation = gs_set_generation (rt_summary r),
                         rv_digest = gs_digest (rt_summary r),
                         rv_capabilities = rt_capability_ids r, rv_supported_known = True,
                         rv_supported_count = gs_supported_count (rt_summary r)\<rparr>))"

definition Entities :: "registry \<Rightarrow> entity_id list" where
  "Entities g = sort_key ent_rendered (map es_id (g_entities g))"

section \<open>Index queries\<close>

definition EntitiesFromKeys :: "entity_state list \<Rightarrow> nat list \<Rightarrow> entity_id list" where
  "EntitiesFromKeys entities keys =
     sort_key ent_rendered
       (map (\<lambda>k. es_id (entities ! k)) (filter (\<lambda>k. k < length entities) keys))"

definition indexed_entities :: "registry \<Rightarrow> capability_id \<Rightarrow> capability_state \<Rightarrow> entity_id list" where
  "indexed_entities g capability st =
     (case index_where (\<lambda>d. d = capability) (g_capability_ids g) of
        None \<Rightarrow> []
      | Some key \<Rightarrow> EntitiesFromKeys (g_entities g) (ix_reverse (g_indices g) key st))"

definition EntitiesSupporting :: "registry \<Rightarrow> capability_id \<Rightarrow> entity_id list" where
  "EntitiesSupporting g capability = indexed_entities g capability St_Supported"

definition EntitiesNotSupporting :: "registry \<Rightarrow> capability_id \<Rightarrow> entity_id list" where
  "EntitiesNotSupporting g capability = indexed_entities g capability St_Unsupported"

definition EntitiesWithState :: "registry \<Rightarrow> capability_state \<Rightarrow> entity_id list" where
  "EntitiesWithState g st =
     (let merged = concat (map (\<lambda>key. ix_reverse (g_indices g) key st)
            [0..<length (g_capability_ids g)])
      in EntitiesFromKeys (g_entities g) (sort (remdups merged)))"

definition CapabilitiesInNamespace :: "registry \<Rightarrow> namespace_id \<Rightarrow> capability_id list" where
  "CapabilitiesInNamespace g ns = ix_namespace (g_indices g) ns"

definition CapabilitiesRequiringRevalidation ::
  "registry \<Rightarrow> (entity_id \<times> capability_id) list" where
  "CapabilitiesRequiringRevalidation g = ix_revalidation (g_indices g)"

section \<open>Snapshots\<close>

record snapshot_scope =
  sc_all_entities :: bool
  sc_entities :: "entity_id list"
  sc_namespaces :: "namespace_id list"
  sc_entity_kinds :: "entity_kind list"

record snapshot_entry =
  sn_entity :: entity_id
  sn_entity_generation :: counter
  sn_set_generation :: counter
  sn_set_digest :: digest
  sn_set :: "entity_capability_set option"

record capability_snapshot =
  ss_id :: token
  ss_registry_generation :: counter
  ss_epoch :: counter
  ss_scope :: snapshot_scope
  ss_entities :: "snapshot_entry list"
  ss_digest :: digest

abbreviation (input) kMaxSnapshotEntities :: nat where "kMaxSnapshotEntities \<equiv> 1000000"
abbreviation (input) kMaxDiffEntries :: nat where "kMaxDiffEntries \<equiv> 1000000"

fun comma_separated :: "string list \<Rightarrow> string" where
  "comma_separated [] = []"
| "comma_separated [x] = x"
| "comma_separated (x # xs) = x @ '','' @ comma_separated xs"

definition Scope_ToText :: "snapshot_scope \<Rightarrow> string" where
  "Scope_ToText sc =
     (if sc_all_entities sc then ''scope=all'' else ''scope=explicit'')
     @ (if sc_entities sc \<noteq> []
        then '' entities='' @ nat_text (length (sc_entities sc))
             @ concat (map (\<lambda>e. '','' @ ent_rendered e)
                 (sort_key ent_rendered (sc_entities sc)))
        else [])
     @ (if sc_namespaces sc \<noteq> []
        then '' namespaces='' @ comma_separated (sort (sc_namespaces sc)) else [])
     @ (if sc_entity_kinds sc \<noteq> []
        then '' entity_kinds=''
             @ comma_separated (sort (map FabricEntityKindName (sc_entity_kinds sc)))
        else [])"

definition set_digest_or_zero :: "entity_state \<Rightarrow> digest" where
  "set_digest_or_zero ent = (case es_set ent of None \<Rightarrow> Digest_zero | Some s \<Rightarrow> s_digest s)"

definition snapshot_namespace_match :: "registry \<Rightarrow> namespace_id list \<Rightarrow> entity_state \<Rightarrow> bool" where
  "snapshot_namespace_match g namespaces ent \<longleftrightarrow>
     list_ex (\<lambda>ns. list_ex (\<lambda>r. cap_rendered (r_capability r)
           \<in> cap_rendered ` set (ix_namespace (g_indices g) ns))
         (case es_set ent of None \<Rightarrow> [] | Some s \<Rightarrow> s_capabilities s)) namespaces"

definition snapshot_bytes :: "registry \<Rightarrow> snapshot_scope \<Rightarrow> snapshot_entry list \<Rightarrow> bytes" where
  "snapshot_bytes g scope entries =
     put_u64 (g_generation g) @ put_u64 (g_epoch g) @ write_text 4096 (Scope_ToText scope)
     @ put_u32 (word_of_nat (length entries))
     @ concat (map (\<lambda>e. write_text kMaxEntityIdLength (ent_rendered (sn_entity e))
         @ put_u64 (sn_entity_generation e) @ put_u64 (sn_set_generation e)
         @ concat (map put_u8 (sn_set_digest e))) entries)"

definition CreateSnapshot :: "registry \<Rightarrow> snapshot_scope \<Rightarrow> capability_snapshot outcome" where
  "CreateSnapshot g scope =
     (let chosen = (if sc_all_entities scope then g_entities g
                    else concat (map (\<lambda>i. case FindEntity g i of
                           None \<Rightarrow> [] | Some n \<Rightarrow> [g_entities g ! n]) (sc_entities scope)));
          chosen = sort_key (\<lambda>e. ent_rendered (es_id e)) chosen
      in if length chosen > kMaxSnapshotEntities then Inl E_TooManyItems
         else
           let kept = filter (\<lambda>e.
                 (sc_entity_kinds scope = [] \<or> ent_kind (es_id e) \<in> set (sc_entity_kinds scope))
                 \<and> (sc_namespaces scope = []
                     \<or> snapshot_namespace_match g (sc_namespaces scope) e)) chosen;
               entries = map (\<lambda>e. \<lparr>sn_entity = es_id e,
                 sn_entity_generation = es_current_generation e,
                 sn_set_generation = es_set_generation e, sn_set_digest = set_digest_or_zero e,
                 sn_set = es_set e\<rparr>) kept;
               digest = ComputeDigest (snapshot_bytes g scope entries)
           in Inr \<lparr>ss_id = parsed_or_unset (SnapshotId_Parse (Digest_ShortString digest)),
                   ss_registry_generation = g_generation g, ss_epoch = g_epoch g,
                   ss_scope = scope, ss_entities = entries, ss_digest = digest\<rparr>)"

text \<open>The verdict of \<open>CheckSnapshot\<close>, without its reasons.\<close>

definition CheckSnapshot :: "registry \<Rightarrow> capability_snapshot \<Rightarrow> bool" where
  "CheckSnapshot g s \<longleftrightarrow>
     ss_registry_generation s = g_generation g \<and> ss_epoch s = g_epoch g
     \<and> list_all (\<lambda>e. case FindEntity g (sn_entity e) of
          None \<Rightarrow> False
        | Some n \<Rightarrow>
            es_current_generation (g_entities g ! n) = sn_entity_generation e
            \<and> es_set_generation (g_entities g ! n) = sn_set_generation e
            \<and> set_digest_or_zero (g_entities g ! n) = sn_set_digest e) (ss_entities s)"

definition current_set_of :: "registry \<Rightarrow> entity_id \<Rightarrow> entity_capability_set option" where
  "current_set_of g entity =
     (case FindEntity g entity of None \<Rightarrow> None | Some n \<Rightarrow> es_set (g_entities g ! n))"

definition DiffAgainstSnapshot ::
  "registry \<Rightarrow> capability_snapshot \<Rightarrow> diff_entry list outcome" where
  "DiffAgainstSnapshot g s =
     (if length (ss_entities s) > kMaxDiffEntries then Inl E_TooManyItems
      else
        let known = concat (map (\<lambda>e. df_entries
              (BuildDiff (sn_entity e) (sn_set e) (current_set_of g (sn_entity e)))) (ss_entities s));
            fresh = concat (map (\<lambda>ent. df_entries (BuildDiff (es_id ent) None (es_set ent)))
              (filter (\<lambda>ent. ent_rendered (es_id ent)
                  \<notin> (\<lambda>e. ent_rendered (sn_entity e)) ` set (ss_entities s)) (g_entities g)))
        in Inr (sort_key (\<lambda>e. (cap_rendered (d_capability e), diff_kind_code (d_kind e)))
                 (known @ fresh)))"

definition Snapshot_Find :: "capability_snapshot \<Rightarrow> entity_id \<Rightarrow> snapshot_entry option" where
  "Snapshot_Find s entity =
     (case dropWhile (\<lambda>e. ent_rendered (sn_entity e) < ent_rendered entity) (ss_entities s) of
        [] \<Rightarrow> None
      | e # _ \<Rightarrow> if sn_entity e = entity then Some e else None)"

definition DiffEntityAgainstSnapshot ::
  "registry \<Rightarrow> capability_snapshot \<Rightarrow> entity_id \<Rightarrow> capability_diff outcome" where
  "DiffEntityAgainstSnapshot g s entity =
     (let entry = Snapshot_Find s entity in
      if entry = None \<and> FindEntity g entity = None then Inl E_NotFound
      else Inr (BuildDiff entity (Option.bind entry sn_set) (current_set_of g entity)))"

section \<open>The canonical registry digest\<close>

abbreviation (input) kFormatVersion :: u32 where "kFormatVersion \<equiv> 1"

definition history_bytes :: "retained_generation \<Rightarrow> bytes" where
  "history_bytes r =
     put_u64 (gs_generation (rt_summary r)) @ put_u64 (gs_set_generation (rt_summary r))
     @ concat (map put_u8 (gs_digest (rt_summary r)))
     @ put_u64 (word_of_nat (gs_capability_count (rt_summary r)))
     @ put_u64 (word_of_nat (gs_supported_count (rt_summary r)))"

definition entity_bytes :: "entity_state \<Rightarrow> bytes" where
  "entity_bytes ent =
     write_text kMaxEntityIdLength (ent_rendered (es_id ent))
     @ put_u64 (es_current_generation ent) @ put_u64 (es_set_generation ent)
     @ put_bool (es_invalidated ent)
     @ concat (map put_u8 (set_digest_or_zero ent))
     @ put_u32 (word_of_nat (length (es_history ent)))
     @ concat (map history_bytes (es_history ent))"

text \<open>The set of fenced boots is listed in ascending order.\<close>

definition registry_bytes :: "registry \<Rightarrow> bytes" where
  "registry_bytes g =
     (let ordered = sort_key (\<lambda>e. ent_rendered (es_id e)) (g_entities g);
          boots = sorted_list_of_set (g_fenced_boots g)
      in write_text 64 ''fabric-capability-registry'' @ put_u32 kFormatVersion
         @ put_u64 (g_epoch g) @ put_u32 (word_of_nat (length ordered))
         @ concat (map entity_bytes ordered)
         @ put_u32 (word_of_nat (length boots)) @ concat (map (write_text 64) boots))"

definition Registry_ComputeDigest :: "registry \<Rightarrow> digest" where
  "Registry_ComputeDigest g = ComputeDigest (registry_bytes g)"

end
