(* ===== verification/Statistics.thy ===== *)
theory Statistics
  imports Query CanonicalSchema
begin

text \<open>
  The aggregate statistics of \<open>CapabilityRegistry::Statistics\<close> (\<open>registry.cpp\<close>). The five counters by
  state are one function of the state.
\<close>

record registry_statistics =
  st_entities :: nat
  st_capability_records :: nat
  st_evidence_records :: nat
  st_state_count :: "capability_state \<Rightarrow> nat"
  st_authority_scopes :: nat
  st_registered_publishers :: nat
  st_fenced_worker_boots :: nat
  st_vendor_descriptors :: u64
  st_replay_entries :: nat
  st_rejection_journal_entries :: nat
  st_retired_generations :: nat
  st_registry_generation :: counter
  st_epoch :: counter

definition all_entries :: "registry \<Rightarrow> capability_entry list" where
  "all_entries g = concat (map (\<lambda>ent. map snd (es_capabilities ent)) (g_entities g))"

definition Statistics :: "registry \<Rightarrow> registry_statistics" where
  "Statistics g =
     \<lparr>st_entities = length (g_entities g),
      st_capability_records = length (all_entries g),
      st_evidence_records = sum_list (map (\<lambda>c. length (ce_evidence c)) (all_entries g)),
      st_state_count = (\<lambda>st. length (filter (\<lambda>c. r_state (ce_resolution c) = st) (all_entries g))),
      st_authority_scopes = length (g_authorities g),
      st_registered_publishers = length (g_publishers g),
      st_fenced_worker_boots = card (g_fenced_boots g),
      st_vendor_descriptors = word_of_nat (Schema_Size (g_schema g))
        - word_of_nat (Schema_Size CapabilitySchema_new),
      st_replay_entries = sum_list (map (\<lambda>p. length (rn_replay (snd p))) (g_publishers g)),
      st_rejection_journal_entries = length (g_journal g),
      st_retired_generations = sum_list (map (\<lambda>ent. length (es_history ent)) (g_entities g)),
      st_registry_generation = g_generation g, st_epoch = g_epoch g\<rparr>"

end
