(* ===== verification/Requirement.thy ===== *)
theory Requirement
  imports Query
begin

text \<open>
  Requirement expressions (\<open>requirement.hpp\<close>, \<open>requirement.cpp\<close>): the closed set of node kinds, the
  validation of an expression and its evaluation against the answers of a registry. The sentences
  that describe a node and the explanation assembled from them are not modelled.
\<close>

section \<open>Requirement expressions\<close>

datatype requirement_kind =
    RK_StateIs | RK_BooleanEquals | RK_Minimum | RK_Maximum | RK_InSet | RK_RangeContains
  | RK_VersionContains | RK_ProtocolSupported | RK_EnumerationSupported | RK_AllOf | RK_AnyOf | RK_Not

definition kRequirementKindNames :: "(requirement_kind \<times> string) list" where
  "kRequirementKindNames =
     [(RK_StateIs, ''state-is''), (RK_BooleanEquals, ''boolean-equals''), (RK_Minimum, ''minimum''),
      (RK_Maximum, ''maximum''), (RK_InSet, ''in-set''), (RK_RangeContains, ''range-contains''),
      (RK_VersionContains, ''version-contains''), (RK_ProtocolSupported, ''protocol-supported''),
      (RK_EnumerationSupported, ''enumeration-supported''), (RK_AllOf, ''all-of''),
      (RK_AnyOf, ''any-of''), (RK_Not, ''not'')]"

definition RequirementKindName :: "requirement_kind \<Rightarrow> string" where
  "RequirementKindName kind =
     (case find (\<lambda>p. fst p = kind) kRequirementKindNames of
        Some p \<Rightarrow> snd p | None \<Rightarrow> ''state-is'')"

definition ParseRequirementKind :: "string \<Rightarrow> requirement_kind outcome" where
  "ParseRequirementKind t =
     (case find (\<lambda>p. snd p = t) kRequirementKindNames of
        Some p \<Rightarrow> Inr (fst p) | None \<Rightarrow> Inl E_MalformedValue)"

record requirement_node =
  rq_kind :: requirement_kind
  rq_name :: token
  rq_capability :: capability_id
  rq_required_state :: capability_state
  rq_operand :: capability_value
  rq_operand_version :: version
  rq_operand_protocol :: protocol_id
  rq_operand_enum_code :: u32
  rq_require_proof :: bool

datatype requirement = Requirement (rq_node: requirement_node) (rq_children: "requirement list")

definition requirement_node_default :: requirement_node where
  "requirement_node_default =
     \<lparr>rq_kind = RK_StateIs, rq_name = [], rq_capability = CapabilityId_unset,
      rq_required_state = St_Supported, rq_operand = V_Absent, rq_operand_version = [],
      rq_operand_protocol = P_Unknown, rq_operand_enum_code = 0, rq_require_proof = True\<rparr>"

abbreviation (input) kMaxRequirementDepth :: nat where "kMaxRequirementDepth \<equiv> 8"
abbreviation (input) kMaxRequirementNodes :: nat where "kMaxRequirementNodes \<equiv> 256"

section \<open>Validation\<close>

definition check_leaf :: "requirement_node \<Rightarrow> bool \<Rightarrow> status" where
  "check_leaf r has_children =
     (if \<not> CapabilityId_IsSet (rq_capability r) then Inl E_InvalidArgument
      else if has_children then Inl E_InvalidArgument
      else case rq_kind r of
        RK_BooleanEquals \<Rightarrow>
          if Value_Kind (rq_operand r) \<noteq> K_Boolean then Inl E_ValueTypeMismatch else Inr ()
      | RK_Minimum \<Rightarrow>
          if Value_Kind (rq_operand r) \<noteq> K_Quantity then Inl E_ValueTypeMismatch else Inr ()
      | RK_Maximum \<Rightarrow>
          if Value_Kind (rq_operand r) \<noteq> K_Quantity then Inl E_ValueTypeMismatch else Inr ()
      | RK_RangeContains \<Rightarrow>
          if Value_Kind (rq_operand r) \<noteq> K_Quantity then Inl E_ValueTypeMismatch else Inr ()
      | RK_InSet \<Rightarrow>
          if Value_Kind (rq_operand r) \<noteq> K_Quantity then Inl E_ValueTypeMismatch else Inr ()
      | RK_VersionContains \<Rightarrow>
          if rq_operand_version r = [] then Inl E_ValueTypeMismatch else Inr ()
      | RK_ProtocolSupported \<Rightarrow>
          if rq_operand_protocol r = P_Unknown then Inl E_ValueTypeMismatch else Inr ()
      | _ \<Rightarrow> Inr ())"

text \<open>
  The node counter is threaded through the recursion.
\<close>

fun ValidateNode :: "requirement \<Rightarrow> nat \<Rightarrow> nat \<Rightarrow> bool \<Rightarrow> nat outcome"
  and validate_children :: "requirement list \<Rightarrow> nat \<Rightarrow> nat \<Rightarrow> nat outcome" where
  "ValidateNode (Requirement r children) depth nodes is_root =
     (if depth > kMaxRequirementDepth then Inl E_NestingTooDeep
      else if nodes + 1 > kMaxRequirementNodes then Inl E_TooManyItems
      else case rq_kind r of
        RK_AllOf \<Rightarrow>
          if children = [] then Inl E_EmptyCollection
          else validate_children children (depth + 1) (nodes + 1)
      | RK_AnyOf \<Rightarrow>
          if children = [] then Inl E_EmptyCollection
          else validate_children children (depth + 1) (nodes + 1)
      | RK_Not \<Rightarrow>
          if is_root then Inl E_InvalidArgument
          else (case children of
                  [child] \<Rightarrow> ValidateNode child (depth + 1) (nodes + 1) False
                | _ \<Rightarrow> Inl E_InvalidArgument)
      | _ \<Rightarrow> obind (check_leaf r (children \<noteq> [])) (\<lambda>_. Inr (nodes + 1)))"
| "validate_children [] depth nodes = Inr nodes"
| "validate_children (child # rest) depth nodes =
     obind (ValidateNode child depth nodes False) (\<lambda>nodes. validate_children rest depth nodes)"

definition ValidateRequirement :: "requirement \<Rightarrow> status" where
  "ValidateRequirement r = obind (ValidateNode r 0 0 True) (\<lambda>_. Inr ())"

section \<open>Evaluation of a leaf\<close>

datatype requirement_outcome = Satisfied | NotSatisfied | Undetermined

record observed_quantity =
  oq_present :: bool
  oq_minimum :: u64
  oq_maximum :: u64
  oq_unit :: value_unit
  oq_is_set :: bool
  oq_members :: "u64 list"

definition ExtractQuantity :: "capability_value \<Rightarrow> observed_quantity" where
  "ExtractQuantity v =
     (let none = \<lparr>oq_present = False, oq_minimum = 0, oq_maximum = 0, oq_unit = U_None,
                 oq_is_set = False, oq_members = []\<rparr>
      in case v of
           V_Quantity q \<Rightarrow> none\<lparr>oq_present := True, oq_minimum := quantity.q_value q,
             oq_maximum := quantity.q_value q, oq_unit := quantity.q_unit q\<rparr>
         | V_NumericRange nr \<Rightarrow> none\<lparr>oq_present := True, oq_minimum := nr_minimum nr,
             oq_maximum := nr_maximum nr, oq_unit := nr_unit nr\<rparr>
         | V_NumericSet ns \<Rightarrow>
             (let q = none\<lparr>oq_present := True, oq_is_set := True, oq_members := ns_values ns,
                          oq_unit := ns_unit ns\<rparr>
              in if ns_values ns = [] then q
                 else q\<lparr>oq_minimum := hd (ns_values ns), oq_maximum := last (ns_values ns)\<rparr>)
         | _ \<Rightarrow> none)"

definition decided :: "bool \<Rightarrow> requirement_outcome" where
  "decided b = (if b then Satisfied else NotSatisfied)"

definition compare_quantity ::
  "requirement_kind \<Rightarrow> capability_value \<Rightarrow> capability_value \<Rightarrow> requirement_outcome" where
  "compare_quantity kind observed operand =
     (let q = ExtractQuantity observed in
      case operand of
        V_Quantity wanted \<Rightarrow>
          if \<not> oq_present q then Undetermined
          else if oq_unit q \<noteq> quantity.q_unit wanted then Undetermined
          else decided (case kind of
              RK_Minimum \<Rightarrow> oq_maximum q \<ge> quantity.q_value wanted
            | RK_Maximum \<Rightarrow> oq_minimum q \<le> quantity.q_value wanted
            | RK_RangeContains \<Rightarrow> \<not> oq_is_set q \<and> oq_minimum q \<le> quantity.q_value wanted
                \<and> quantity.q_value wanted \<le> oq_maximum q
            | _ \<Rightarrow> quantity.q_value wanted \<in> set (oq_members q))
      | _ \<Rightarrow> Undetermined)"

definition version_inside :: "version_interval \<Rightarrow> version \<Rightarrow> bool" where
  "version_inside vi v \<longleftrightarrow>
     (if vi_minimum_inclusive vi then \<not> version_less v (vi_minimum vi)
      else version_less (vi_minimum vi) v)
     \<and> (if vi_maximum_inclusive vi then \<not> version_less (vi_maximum vi) v
        else version_less v (vi_maximum vi))"

text \<open>
  The answer of a leaf whose capability is \<open>SUPPORTED\<close>. Validation guarantees the operand kind; an
  operand of another kind, which the accessor of the source would reject, is undetermined here.
\<close>

definition evaluate_supported ::
  "requirement_node \<Rightarrow> bool \<Rightarrow> capability_value \<Rightarrow> requirement_outcome" where
  "evaluate_supported r valued observed =
     (case rq_kind r of
        RK_StateIs \<Rightarrow> decided (rq_required_state r = St_Supported)
      | RK_BooleanEquals \<Rightarrow>
          (case (valued, observed, rq_operand r) of
             (True, V_Boolean b, V_Boolean wanted) \<Rightarrow> decided (b = wanted) | _ \<Rightarrow> Undetermined)
      | RK_VersionContains \<Rightarrow>
          (case (valued, observed) of
             (True, V_VersionInterval vi) \<Rightarrow> decided (version_inside vi (rq_operand_version r))
           | _ \<Rightarrow> Undetermined)
      | RK_ProtocolSupported \<Rightarrow>
          (case (valued, observed) of
             (True, V_ProtocolSet ps) \<Rightarrow> decided (rq_operand_protocol r \<in> set ps)
           | _ \<Rightarrow> Undetermined)
      | RK_EnumerationSupported \<Rightarrow>
          (case (valued, observed) of
             (True, V_EnumSet s) \<Rightarrow> decided (rq_operand_enum_code r \<in> set (es_codes s))
           | _ \<Rightarrow> Undetermined)
      | RK_AllOf \<Rightarrow> Undetermined
      | RK_AnyOf \<Rightarrow> Undetermined
      | RK_Not \<Rightarrow> Undetermined
      | kind \<Rightarrow> compare_quantity kind observed (rq_operand r))"

definition evaluate_leaf :: "query_result \<Rightarrow> requirement_node \<Rightarrow> requirement_outcome" where
  "evaluate_leaf q r =
     (if q_state q \<noteq> St_Supported
      then (if rq_require_proof r then Undetermined else NotSatisfied)
      else evaluate_supported r (q_has_value q) (q_value q))"

section \<open>Evaluation of an expression\<close>

record node_result =
  nr_path :: string
  nr_kind :: requirement_kind
  nr_name :: token
  nr_capability :: capability_id
  nr_outcome :: requirement_outcome
  nr_observed_state :: capability_state
  nr_has_observed_value :: bool
  nr_observed_value :: capability_value
  nr_entity :: entity_id

text \<open>\<open>Record\<close> drops the node once the bound is reached.\<close>

definition record_node ::
  "entity_id \<Rightarrow> string \<Rightarrow> requirement_node \<Rightarrow> requirement_outcome \<Rightarrow> capability_state \<Rightarrow> bool
   \<Rightarrow> capability_value \<Rightarrow> node_result list \<Rightarrow> node_result list" where
  "record_node entity path r out st valued observed nodes =
     (if length nodes \<ge> kMaxRequirementNodes then nodes
      else nodes @ [\<lparr>nr_path = path, nr_kind = rq_kind r, nr_name = rq_name r,
        nr_capability = rq_capability r, nr_outcome = out, nr_observed_state = st,
        nr_has_observed_value = valued,
        nr_observed_value = (if valued then observed else V_Absent), nr_entity = entity\<rparr>])"

definition all_of :: "requirement_outcome list \<Rightarrow> requirement_outcome" where
  "all_of outs = (if list_all (\<lambda>out. out = Satisfied) outs then Satisfied
     else if list_ex (\<lambda>out. out = NotSatisfied) outs then NotSatisfied else Undetermined)"

definition any_of :: "requirement_outcome list \<Rightarrow> requirement_outcome" where
  "any_of outs = (if list_ex (\<lambda>out. out = Satisfied) outs then Satisfied
     else if list_all (\<lambda>out. out = NotSatisfied) outs then NotSatisfied else Undetermined)"

fun negate :: "requirement_outcome \<Rightarrow> requirement_outcome" where
  "negate Satisfied = NotSatisfied"
| "negate NotSatisfied = Satisfied"
| "negate Undetermined = Undetermined"

fun Evaluate ::
  "(capability_id \<Rightarrow> query_result) \<Rightarrow> entity_id \<Rightarrow> requirement \<Rightarrow> string \<Rightarrow> node_result list
   \<Rightarrow> requirement_outcome \<times> node_result list"
  and evaluate_children ::
  "(capability_id \<Rightarrow> query_result) \<Rightarrow> entity_id \<Rightarrow> requirement list \<Rightarrow> string \<Rightarrow> nat
   \<Rightarrow> node_result list \<Rightarrow> requirement_outcome list \<times> node_result list" where
  "Evaluate query entity (Requirement r children) path nodes =
     (case rq_kind r of
        RK_AllOf \<Rightarrow>
          (let (outs, nodes) = evaluate_children query entity children path 0 nodes
           in (all_of outs,
               record_node entity path r (all_of outs) St_Unknown False V_Absent nodes))
      | RK_AnyOf \<Rightarrow>
          (let (outs, nodes) = evaluate_children query entity children path 0 nodes
           in (any_of outs,
               record_node entity path r (any_of outs) St_Unknown False V_Absent nodes))
      | RK_Not \<Rightarrow>
          (case children of
             [] \<Rightarrow> (Undetermined, nodes)
           | child # _ \<Rightarrow>
               (let (inner, nodes) = Evaluate query entity child (path @ ''.0'') nodes
                in (negate inner,
                    record_node entity path r (negate inner) St_Unknown False V_Absent nodes)))
      | _ \<Rightarrow>
          (let q = query (rq_capability r); out = evaluate_leaf q r
           in (out, record_node entity path r out (q_state q) (q_has_value q) (q_value q) nodes)))"
| "evaluate_children query entity [] path index nodes = ([], nodes)"
| "evaluate_children query entity (child # rest) path index nodes =
     (let (out, nodes) = Evaluate query entity child (path @ ''.'' @ nat_text index) nodes;
          (outs, nodes) = evaluate_children query entity rest path (index + 1) nodes
      in (out # outs, nodes))"

record requirement_evaluation =
  rv_outcome :: requirement_outcome
  rv_entity :: entity_id
  rv_entity_generation :: counter
  rv_nodes :: "node_result list"

definition EvaluateRequirementAgainst ::
  "registry \<Rightarrow> entity_id \<Rightarrow> requirement \<Rightarrow> requirement_evaluation" where
  "EvaluateRequirementAgainst g entity r =
     (case ValidateRequirement r of
        Inl _ \<Rightarrow> \<lparr>rv_outcome = Undetermined, rv_entity = entity, rv_entity_generation = 0, rv_nodes = []\<rparr>
      | Inr _ \<Rightarrow>
          let (out, nodes) = Evaluate (Query g entity) entity r ''0'' []
          in \<lparr>rv_outcome = out, rv_entity = entity,
              rv_entity_generation = (case QueryEntity g entity of
                Inr s \<Rightarrow> s_entity_generation s | Inl _ \<Rightarrow> 0),
              rv_nodes = nodes\<rparr>)"

end
