(* ===== verification/EntityInvariant.thy ===== *)
theory EntityInvariant
  imports Query
begin

text \<open>
  The invariant of an entity and its preservation by the operations on evidence. For every
  capability: each publishing identity has at most one live record, the number of live records is
  bounded, every record belongs to the bound entity generation, and the stored resolution is the
  resolution of the stored evidence. The locale \<open>evidence_contract\<close> is the contract on what current
  evidence must satisfy; \<open>RegistryInvariant\<close> interprets it on the registry's own condition.
\<close>

section \<open>Evidence of one capability\<close>

definition identity_of :: "evidence_record \<Rightarrow> source_key" where
  "identity_of e = (e_source e, e_worker_boot e)"

definition identities :: "evidence_record list \<Rightarrow> source_key list" where
  "identities evs = map identity_of (filter live_record evs)"

lemma owned_by_identity: "owned_by key e \<longleftrightarrow> identity_of e = key"
  by (cases key) (auto simp: owned_by_def identity_of_def)

lemma retired_iff_not_live: "retired_record e \<longleftrightarrow> \<not> live_record e"
  by (cases "e_currentness e") (simp_all add: retired_record_def live_record_def)

lemma current_live: "e_currentness e = Cur_Current \<Longrightarrow> live_record e"
  by (simp add: live_record_def)

lemma LiveEvidenceCount_identities: "LiveEvidenceCount evs = length (identities evs)"
proof -
  have "(\<lambda>e. IsCurrent (e_currentness e) \<or> e_currentness e = Cur_RevalidationRequired
      \<or> e_currentness e = Cur_Fenced) = live_record"
    by (rule ext) (simp add: live_record_def IsCurrent_def)
  then show ?thesis by (simp add: LiveEvidenceCount_def identities_def)
qed

lemma distinct_identities_one: "distinct (identities evs) \<Longrightarrow> one_per_identity {e \<in> set evs. live_record e}"
  by (simp add: identities_def one_per_identity_def distinct_map identity_of_def [abs_def])

text \<open>A resolution up to the two counters that do not describe the truth.\<close>

definition truth_of :: "capability_resolution \<Rightarrow> capability_resolution" where
  "truth_of r = r\<lparr>r_evidence_count := 0, r_capability_generation := 0\<rparr>"

text \<open>
  The stored resolution is the resolution of the stored evidence, unless the capability
  generation is exhausted.
\<close>

definition fresh_entry :: "entity_id \<Rightarrow> counter \<Rightarrow> capability_entry \<Rightarrow> bool" where
  "fresh_entry eid bound entry \<longleftrightarrow>
     ce_generation entry = - 1
     \<or> truth_of (ce_resolution entry)
         = truth_of (resolve eid bound (ce_id entry) (ce_generation entry) (ce_evidence entry))"

text \<open>Evidence belongs to the entity generation and the capability it is stored under.\<close>

definition located :: "entity_id \<Rightarrow> counter \<Rightarrow> capability_id \<Rightarrow> evidence_record \<Rightarrow> bool" where
  "located eid bound c e \<longleftrightarrow>
     e_entity e = eid \<and> e_entity_generation e = bound \<and> e_capability e = c \<and> canonical_evidence e"

text \<open>
  The invariant of an entry for a trust condition \<open>T\<close> on its records: every record is trusted and
  located, every publishing identity has at most one live record, the number of live records is
  bounded, and the stored resolution is fresh.
\<close>

definition entry_ok ::
  "(evidence_record \<Rightarrow> bool) \<Rightarrow> nat \<Rightarrow> entity_id \<Rightarrow> counter \<Rightarrow> capability_entry \<Rightarrow> bool" where
  "entry_ok T bound_live eid bound entry \<longleftrightarrow>
     (\<forall>e\<in>set (ce_evidence entry). T e \<and> located eid bound (ce_id entry) e)
     \<and> distinct (identities (ce_evidence entry))
     \<and> length (identities (ce_evidence entry)) \<le> bound_live
     \<and> fresh_entry eid bound entry"

lemma entry_okI:
  assumes "\<And>e. e \<in> set (ce_evidence entry) \<Longrightarrow> T e \<and> located eid bound (ce_id entry) e"
    and "distinct (identities (ce_evidence entry))"
    and "length (identities (ce_evidence entry)) \<le> m" and "fresh_entry eid bound entry"
  shows "entry_ok T m eid bound entry"
  using assms by (simp add: entry_ok_def)

section \<open>Resolving and marking\<close>

lemma fst_FinishResolution [simp]:
  "fst (FinishResolution n eid key entry res ix) = entry\<lparr>ce_resolution := res\<rparr>"
  by (simp add: FinishResolution_def Let_def)

lemma fst_ResolveCapability:
  "fst (ResolveCapability n ent key entry ix) = entry\<lparr>ce_resolution :=
     resolve (es_id ent) (es_bound_generation ent) (ce_id entry) (ce_generation entry)
       (ce_evidence entry)\<rparr>"
  by (simp add: ResolveCapability_def)

lemma fresh_resolved:
  "fresh_entry (es_id ent) (es_bound_generation ent) (fst (ResolveCapability n ent key entry ix))"
  by (simp add: fresh_entry_def fst_ResolveCapability)

lemma set_mark_records:
  "e' \<in> set (mark_records p c r evs) \<Longrightarrow>
   \<exists>e\<in>set evs. if p e then e' = e\<lparr>e_currentness := c, e_reason := r\<rparr> else e' = e"
  by (auto simp: mark_records_def)

text \<open>Marking either keeps the live records or removes some.\<close>

lemma identity_of_marked [simp]:
  "identity_of (e\<lparr>e_currentness := c, e_reason := r\<rparr>) = identity_of e"
  by (simp add: identity_of_def)

lemma identities_Cons:
  "identities (e # evs) = (if live_record e then [identity_of e] else []) @ identities evs"
  by (simp add: identities_def)

lemma identities_Nil [simp]: "identities [] = []"
  by (simp add: identities_def)

lemma mark_records_Cons:
  "mark_records p c r (e # evs)
     = (if p e then e\<lparr>e_currentness := c, e_reason := r\<rparr> else e) # mark_records p c r evs"
  by (simp add: mark_records_def)

lemma identities_mark:
  assumes "\<And>e. e \<in> set evs \<Longrightarrow> p e \<Longrightarrow> live_record e"
  shows "set (identities (mark_records p c r evs)) \<subseteq> set (identities evs)
    \<and> (distinct (identities evs) \<longrightarrow> distinct (identities (mark_records p c r evs)))
    \<and> length (identities (mark_records p c r evs)) \<le> length (identities evs)"
  using assms
proof (induction evs)
  case (Cons e evs)
  let ?m = "e\<lparr>e_currentness := c, e_reason := r\<rparr>" and ?rest = "mark_records p c r evs"
  have IH: "set (identities ?rest) \<subseteq> set (identities evs)"
    "distinct (identities evs) \<longrightarrow> distinct (identities ?rest)"
    "length (identities ?rest) \<le> length (identities evs)" using Cons by auto
  show ?case
  proof (cases "p e")
    case True
    then have "live_record e" using Cons.prems by simp
    with True IH show ?thesis
      by (cases "live_record ?m") (auto simp: identities_Cons mark_records_Cons)
  next
    case False
    with IH show ?thesis
      by (cases "live_record e") (auto simp: identities_Cons mark_records_Cons)
  qed
qed (simp add: mark_records_def)

lemma located_marked [simp]:
  "located eid b cap (e\<lparr>e_currentness := c, e_reason := r\<rparr>) = located eid b cap e"
  by (simp add: located_def canonical_evidence_def)

lemma entry_ok_rewrite:
  assumes ok: "entry_ok T m (es_id ent) (es_bound_generation ent) entry"
    and live: "\<And>e. p e \<Longrightarrow> live_record e"
    and keep: "\<And>e. T e \<Longrightarrow> \<not> p e \<Longrightarrow> T' e"
    and marked: "\<And>e. T e \<Longrightarrow> p e \<Longrightarrow> T' (e\<lparr>e_currentness := c, e_reason := r\<rparr>)"
  shows "entry_ok T' m (es_id ent) (es_bound_generation ent)
    (fst (rewrite_entry n ent p c r key entry ix))"
proof (cases "list_ex p (ce_evidence entry)")
  case False
  with ok keep show ?thesis by (auto simp: rewrite_entry_def entry_ok_def list_ex_iff)
next
  case True
  let ?evs = "mark_records p c r (ce_evidence entry)"
  have new: "ce_evidence (fst (rewrite_entry n ent p c r key entry ix)) = ?evs"
    "ce_id (fst (rewrite_entry n ent p c r key entry ix)) = ce_id entry"
    using True by (simp_all add: rewrite_entry_def fst_ResolveCapability)
  show ?thesis
  proof (rule entry_okI, unfold new)
    fix e' assume "e' \<in> set ?evs"
    then obtain e where e: "e \<in> set (ce_evidence entry)"
      "if p e then e' = e\<lparr>e_currentness := c, e_reason := r\<rparr> else e' = e"
      by (auto dest!: set_mark_records)
    with ok keep marked show "T' e' \<and> located (es_id ent) (es_bound_generation ent) (ce_id entry) e'"
      by (auto simp: entry_ok_def split: if_splits)
  next
    show "distinct (identities ?evs)" "length (identities ?evs) \<le> m"
      using identities_mark [of "ce_evidence entry" p c r] live ok by (auto simp: entry_ok_def)
  next
    show "fresh_entry (es_id ent) (es_bound_generation ent)
        (fst (rewrite_entry n ent p c r key entry ix))"
      using True by (simp add: rewrite_entry_def fresh_resolved)
  qed
qed

lemma ce_id_rewrite [simp]: "ce_id (fst (rewrite_entry n ent p c r key entry ix)) = ce_id entry"
  by (simp add: rewrite_entry_def fst_ResolveCapability)

section \<open>Loops over the capabilities of an entity\<close>

lemma each_capability_keys: "map fst (fst (each_capability f caps ix)) = map fst caps"
proof (induction caps arbitrary: ix)
  case (Cons p caps)
  obtain j x where p: "p = (j, x)" by (cases p)
  obtain x1 ix1 where f: "f j x ix = (x1, ix1)" by (cases "f j x ix")
  obtain caps' ix2 where r: "each_capability f caps ix1 = (caps', ix2)"
    by (cases "each_capability f caps ix1")
  from Cons.IH [of ix1] p f r show ?case by simp
qed simp

lemma each_capability_member:
  "(k, x') \<in> set (fst (each_capability f caps ix)) \<Longrightarrow>
   \<exists>x ix'. (k, x) \<in> set caps \<and> x' = fst (f k x ix')"
proof (induction caps arbitrary: ix)
  case (Cons p caps)
  obtain j x where p: "p = (j, x)" by (cases p)
  obtain x1 ix1 where f: "f j x ix = (x1, ix1)" by (cases "f j x ix")
  obtain caps' ix2 where r: "each_capability f caps ix1 = (caps', ix2)"
    by (cases "each_capability f caps ix1")
  from Cons.prems p f r have "(k, x') = (j, x1) \<or> (k, x') \<in> set caps'" by simp
  then show ?case
  proof
    assume "(k, x') = (j, x1)"
    then have "(k, x) \<in> set (p # caps) \<and> x' = fst (f k x ix)" using p f by simp
    then show ?thesis by blast
  next
    assume "(k, x') \<in> set caps'"
    with Cons.IH [of ix1] r show ?thesis by fastforce
  qed
qed simp

section \<open>Superseding and trimming\<close>

lemma identities_supersede:
  "identities (mark_records (\<lambda>e. owned_by key e \<and> \<not> retired_record e) Cur_Superseded r evs)
     = filter (\<lambda>i. i \<noteq> key) (identities evs)"
proof (induction evs)
  case (Cons e evs)
  have "\<not> live_record (e\<lparr>e_currentness := Cur_Superseded, e_reason := r\<rparr>)"
    by (simp add: live_record_def)
  with Cons show ?case
    by (simp add: identities_Cons mark_records_Cons owned_by_identity retired_iff_not_live)
qed (simp add: mark_records_def)

lemma mark_records_none: "\<not> list_ex p evs \<Longrightarrow> mark_records p c r evs = evs"
  by (induction evs) (simp_all add: mark_records_def)

lemma filter_drop_one:
  "i < length xs \<Longrightarrow> \<not> P (xs ! i) \<Longrightarrow> filter P (take i xs @ drop (Suc i) xs) = filter P xs"
  by (subst (3) id_take_nth_drop [of i xs]) simp_all

lemma TrimEvidence_facts:
  "filter live_record (TrimEvidence m evs) = filter live_record evs
   \<and> set (TrimEvidence m evs) \<subseteq> set evs"
proof (induction m evs rule: TrimEvidence.induct)
  case (1 m evs)
  show ?case
  proof (cases "length evs > m")
    case True
    show ?thesis
    proof (cases "index_where retired_record evs")
      case None
      with True show ?thesis by (subst (1 2) TrimEvidence.simps) simp
    next
      case (Some i)
      let ?evs = "take i evs @ drop (Suc i) evs"
      have i: "i < length evs" "\<not> live_record (evs ! i)"
        using index_where_Some [OF Some] by (simp_all add: retired_iff_not_live)
      have trim: "TrimEvidence m evs = TrimEvidence m ?evs"
        using True Some by (subst TrimEvidence.simps) simp
      have "filter live_record ?evs = filter live_record evs"
        using i by (rule filter_drop_one)
      moreover have "set ?evs \<subseteq> set evs" by (auto dest: in_set_takeD in_set_dropD)
      ultimately show ?thesis
        using 1 [OF True Some] unfolding trim by (metis subset_trans)
    qed
  qed (subst (1 2) TrimEvidence.simps, simp)
qed

lemma identities_Trim [simp]: "identities (TrimEvidence m evs) = identities evs"
  using TrimEvidence_facts [of m evs] by (simp add: identities_def)

lemma current_of_live: "current_of evs = filter (\<lambda>e. e_currentness e = Cur_Current) (filter live_record evs)"
  by (induction evs) (auto simp: current_of_def live_record_def)

lemma non_current_of_live:
  "non_current_of evs = filter (\<lambda>e. e_currentness e = Cur_RevalidationRequired
     \<or> e_currentness e = Cur_Fenced) (filter live_record evs)"
  by (induction evs) (auto simp: non_current_of_def live_record_def)

text \<open>Only the live records decide the truth.\<close>

lemma resolve_truth_cong:
  assumes "filter live_record evs = filter live_record evs'"
  shows "truth_of (resolve eid b c g evs) = truth_of (resolve eid b c g' evs')"
proof -
  have "current_of evs = current_of evs'" "non_current_of evs = non_current_of evs'"
    using assms by (simp_all add: current_of_live non_current_of_live)
  then show ?thesis
    by (simp add: resolve_def resolve_pool_def Let_def truth_of_def with_winner_def
        with_value_of_def split: option.split)
qed

section \<open>The invariant of an entity\<close>

definition entity_ok ::
  "(evidence_record \<Rightarrow> bool) \<Rightarrow> nat \<Rightarrow> capability_id list \<Rightarrow> entity_state \<Rightarrow> bool" where
  "entity_ok T m ids ent \<longleftrightarrow>
     es_bound_generation ent = es_current_generation ent \<and> es_current_generation ent \<noteq> 0
     \<and> ordered_keys (es_capabilities ent)
     \<and> (\<forall>(k, entry) \<in> set (es_capabilities ent).
          k < length ids \<and> ids ! k = ce_id entry
          \<and> entry_ok T m (es_id ent) (es_bound_generation ent) entry)"

lemma entity_ok_entry:
  "entity_ok T m ids ent \<Longrightarrow> (k, entry) \<in> set (es_capabilities ent) \<Longrightarrow>
   k < length ids \<and> ids ! k = ce_id entry
   \<and> entry_ok T m (es_id ent) (es_bound_generation ent) entry"
  by (auto simp: entity_ok_def)

lemma entity_ok_ids_append: "entity_ok T m ids ent \<Longrightarrow> entity_ok T m (ids @ more_ids) ent"
  by (auto simp: entity_ok_def nth_append)

lemma entry_ok_mono: "entry_ok T m i b e \<Longrightarrow> (\<And>e. T e \<Longrightarrow> T' e) \<Longrightarrow> entry_ok T' m i b e"
  by (auto simp: entry_ok_def)

lemma entity_ok_mono:
  "entity_ok T m ids ent \<Longrightarrow> (\<And>e. T e \<Longrightarrow> T' e) \<Longrightarrow> entity_ok T' m ids ent"
  unfolding entity_ok_def by (fastforce intro: entry_ok_mono)

lemma entity_ok_update:
  assumes ok: "entity_ok T m ids ent"
    and keys: "map fst caps = map fst (es_capabilities ent)"
    and caps: "\<And>k x'. (k, x') \<in> set caps \<Longrightarrow>
      \<exists>x. (k, x) \<in> set (es_capabilities ent) \<and> ce_id x' = ce_id x
        \<and> entry_ok T' m (es_id ent) (es_bound_generation ent) x'"
  shows "entity_ok T' m ids (ent\<lparr>es_capabilities := caps\<rparr>)"
proof -
  have "ordered_keys caps" using ok keys by (simp add: entity_ok_def ordered_keys_def)
  moreover have "k < length ids \<and> ids ! k = ce_id x'
      \<and> entry_ok T' m (es_id ent) (es_bound_generation ent) x'" if "(k, x') \<in> set caps" for k x'
    using caps [OF that] entity_ok_entry [OF ok] by metis
  ultimately show ?thesis using ok by (auto simp: entity_ok_def)
qed

lemma each_capability_ok:
  assumes ok: "entity_ok T m ids ent"
    and f: "\<And>k x ix. (k, x) \<in> set (es_capabilities ent) \<Longrightarrow>
      entry_ok T m (es_id ent) (es_bound_generation ent) x \<Longrightarrow>
      ce_id (fst (f k x ix)) = ce_id x
      \<and> entry_ok T' m (es_id ent) (es_bound_generation ent) (fst (f k x ix))"
  shows "entity_ok T' m ids (ent\<lparr>es_capabilities := fst (each_capability f (es_capabilities ent) ix)\<rparr>)"
proof (rule entity_ok_update [OF ok each_capability_keys])
  fix k x' assume "(k, x') \<in> set (fst (each_capability f (es_capabilities ent) ix))"
  then obtain x ix' where x: "(k, x) \<in> set (es_capabilities ent)" "x' = fst (f k x ix')"
    by (auto dest!: each_capability_member)
  with f [OF x(1)] entity_ok_entry [OF ok x(1)]
  show "\<exists>x. (k, x) \<in> set (es_capabilities ent) \<and> ce_id x' = ce_id x
      \<and> entry_ok T' m (es_id ent) (es_bound_generation ent) x'" by blast
qed

lemma fst_rewrite_entity:
  "fst (rewrite_entity n p c r (ent, ix)) = ent\<lparr>es_capabilities :=
     fst (each_capability (rewrite_entry n ent p c r) (es_capabilities ent) ix)\<rparr>"
  by (simp add: rewrite_entity_def split: prod.split)

lemma fst_MarkEntity:
  "fst (MarkEntity n ids c r boot source dur (ent, ix)) = ent\<lparr>es_capabilities :=
     fst (each_capability (\<lambda>_ entry ix. MarkNonCurrent n ids ent c r boot source dur entry ix)
       (es_capabilities ent) ix)\<rparr>"
  by (simp add: MarkEntity_def split: prod.split)

lemma entity_ok_rewrite:
  assumes "entity_ok T m ids ent" and "\<And>e. p e \<Longrightarrow> live_record e"
    and "\<And>e. T e \<Longrightarrow> \<not> p e \<Longrightarrow> T' e"
    and "\<And>e. T e \<Longrightarrow> p e \<Longrightarrow> T' (e\<lparr>e_currentness := c, e_reason := r\<rparr>)"
  shows "entity_ok T' m ids (fst (rewrite_entity n p c r (ent, ix)))"
  unfolding fst_rewrite_entity using assms(2-4)
  by (intro each_capability_ok [OF assms(1)] conjI ce_id_rewrite entry_ok_rewrite [where T = T]) auto

lemma entity_ok_Mark:
  assumes "entity_ok T m ids ent"
    and "\<And>e. T e \<Longrightarrow> (\<exists>b. boot = Some b \<and> e_worker_boot e \<noteq> b)
      \<or> (\<exists>s. source = Some s \<and> e_source e \<noteq> s)
      \<or> \<not> dur \<and> e_durability e = Durable \<or> e_currentness e \<noteq> Cur_Current \<Longrightarrow> T' e"
    and "\<And>e. T e \<Longrightarrow> T' (e\<lparr>e_currentness := c, e_reason := r\<rparr>)"
  shows "entity_ok T' m ids (fst (MarkEntity n cids c r boot source dur (ent, ix)))"
  unfolding fst_MarkEntity MarkNonCurrent_def
  by (intro each_capability_ok [OF assms(1)] conjI ce_id_rewrite entry_ok_rewrite [where T = T])
    (use assms(2,3) in \<open>auto simp: IsCurrent_def current_live\<close>)

lemma fst_RetireGeneration:
  "fst (RetireGeneration o' rg next r (ent, ix)) = ent\<lparr>
     es_history := es_history (fst (RetireGeneration o' rg next r (ent, ix))),
     es_capabilities := [], es_source_high_water := Map.empty, es_set := None,
     es_has_set := False, es_set_generation := 0, es_bound_generation := next,
     es_current_generation := next, es_invalidated := False, es_invalidation_reason := []\<rparr>"
  by (simp add: RetireGeneration_def Let_def)

lemma entity_ok_Retire:
  "next \<noteq> 0 \<Longrightarrow> entity_ok T m ids (fst (RetireGeneration o' rg next r (ent, ix)))"
  by (subst fst_RetireGeneration) (simp add: entity_ok_def ordered_keys_def)

section \<open>Publications keep the invariant of the entity\<close>

definition canonical_claim :: "capability_claim \<Rightarrow> bool" where
  "canonical_claim claim \<longleftrightarrow> ValidateCanonical (cl_value claim) = Inr ()"

text \<open>
  The working state of a publication that started from the capability identifiers \<open>ids\<close> and the
  entity \<open>ent\<close>: only the capabilities of the entity and the end of the identifier list changed.
\<close>

definition work_ok ::
  "(evidence_record \<Rightarrow> bool) \<Rightarrow> nat \<Rightarrow> capability_id list \<Rightarrow> entity_state \<Rightarrow> work \<Rightarrow> bool" where
  "work_ok T m ids ent w \<longleftrightarrow>
     entity_ok T m (w_ids w) (w_entity w) \<and> distinct (w_ids w)
     \<and> (\<exists>xs. w_ids w = ids @ xs)
     \<and> (w_entity w)\<lparr>es_capabilities := es_capabilities ent\<rparr> = ent"

lemma work_frame:
  assumes "w\<lparr>es_capabilities := caps\<rparr> = ent"
  shows "es_id w = es_id ent" "es_current_generation w = es_current_generation ent"
    "es_bound_generation w = es_bound_generation ent" "es_has_set w = es_has_set ent"
    "es_set_generation w = es_set_generation ent" "es_set w = es_set ent"
    "es_source_high_water w = es_source_high_water ent" "es_history w = es_history ent"
    "es_invalidated w = es_invalidated ent" "es_touched_at w = es_touched_at ent"
  using assms by (metis entity_state.select_convs entity_state.surjective
      entity_state.update_convs(9))+

lemma frame_put_entry:
  "(put_entry k x ent)\<lparr>es_capabilities := caps\<rparr> = ent\<lparr>es_capabilities := caps\<rparr>"
  by (simp add: put_entry_def)

lemma CapabilityKey_facts:
  assumes "CapabilityKey ids c = (key, ids')"
  shows "key < length ids'" "ids' ! key = c" "distinct ids \<Longrightarrow> distinct ids'" "\<exists>xs. ids' = ids @ xs"
  using assms index_where_Some [of "\<lambda>d. d = c" ids] index_where_None [of "\<lambda>d. d = c" ids]
  by (auto simp: CapabilityKey_def split: option.splits)

lemma entity_ok_put:
  assumes ok: "entity_ok T m ids ent" and k: "k < length ids" "ids ! k = ce_id x"
    and x: "entry_ok T m (es_id ent) (es_bound_generation ent) x"
  shows "entity_ok T m ids (put_entry k x ent)"
  using assms by (auto simp: entity_ok_def put_entry_def ordered_keys_put set_ordered_put)

lemma located_claim:
  "canonical_claim claim \<Longrightarrow>
   located (es_id ent) (es_bound_generation ent) (cl_capability claim)
     (claim_evidence g request ent claim cov gen arr)"
  by (simp add: located_def canonical_evidence_def canonical_claim_def claim_evidence_def Let_def)

lemma identity_claim:
  "identity_of (claim_evidence g request ent claim cov gen arr)
     = (ac_source (pq_authority request), ac_worker_boot (pq_authority request))
   \<and> live_record (claim_evidence g request ent claim cov gen arr)"
  by (simp add: identity_of_def live_record_def claim_evidence_def Let_def)

text \<open>
  A condition on evidence that only constrains current records. The registry relies on it for
  every operation that supersedes or marks: a record that is no longer current satisfies it.
\<close>

locale evidence_contract =
  fixes T :: "evidence_record \<Rightarrow> bool"
  assumes non_current: "e_currentness e \<noteq> Cur_Current \<Longrightarrow> T e"
begin

lemma superseded: "T (e\<lparr>e_currentness := Cur_Superseded, e_reason := r\<rparr>)"
  by (rule non_current) simp

text \<open>The records left after superseding the own identity and trimming.\<close>

lemma own_superseded:
  fixes bound :: nat and key :: source_key and r :: token
  assumes "\<forall>e\<in>set evs. T e \<and> located i b c e"
    and "distinct (identities evs)" "length (identities evs) \<le> m"
  defines "evs' \<equiv> TrimEvidence bound
    (mark_records (\<lambda>e. owned_by key e \<and> \<not> retired_record e) Cur_Superseded r evs)"
  shows "\<forall>e\<in>set evs'. T e \<and> located i b c e"
    and "distinct (identities evs')" and "length (identities evs') \<le> m"
    and "key \<notin> set (identities evs')"
proof -
  have ids: "identities evs' = filter (\<lambda>i. i \<noteq> key) (identities evs)"
    unfolding evs'_def by (simp add: identities_supersede)
  then show "distinct (identities evs')" "key \<notin> set (identities evs')"
    using assms(2) by simp_all
  have "length (identities evs') \<le> length (identities evs)" unfolding ids by simp
  with assms(3) show "length (identities evs') \<le> m" by simp
  show "\<forall>e\<in>set evs'. T e \<and> located i b c e"
  proof
    fix e' assume "e' \<in> set evs'"
    then have "e' \<in> set (mark_records (\<lambda>e. owned_by key e \<and> \<not> retired_record e)
        Cur_Superseded r evs)"
      using TrimEvidence_facts unfolding evs'_def by blast
    from set_mark_records [OF this] obtain e where "e \<in> set evs"
      "e' = e \<or> e' = e\<lparr>e_currentness := Cur_Superseded, e_reason := r\<rparr>"
      by (metis (full_types))
    with assms(1) superseded show "T e' \<and> located i b c e'" by auto
  qed
qed

text \<open>At the limit nothing of the own identity was live, so the truth is unchanged.\<close>

lemma limit_keeps_truth:
  assumes "length (identities evs) \<le> m"
    and "m \<le> LiveEvidenceCount (TrimEvidence m
      (mark_records (\<lambda>e. owned_by key e \<and> \<not> retired_record e) Cur_Superseded r evs))"
  shows "filter live_record (TrimEvidence m
      (mark_records (\<lambda>e. owned_by key e \<and> \<not> retired_record e) Cur_Superseded r evs))
    = filter live_record evs"
proof -
  let ?p = "\<lambda>e. owned_by key e \<and> \<not> retired_record e"
  have "m \<le> length (filter (\<lambda>i. i \<noteq> key) (identities evs))"
    using assms(2) by (simp add: LiveEvidenceCount_identities identities_supersede)
  with assms(1) have "length (filter (\<lambda>i. i \<noteq> key) (identities evs)) = length (identities evs)"
    using length_filter_le [of "\<lambda>i. i \<noteq> key" "identities evs"] by linarith
  then have "key \<notin> set (identities evs)"
    using length_filter_less [of key "identities evs" "\<lambda>i. i \<noteq> key"] by auto
  then have "\<not> list_ex ?p evs"
    by (auto simp: list_ex_iff identities_def owned_by_identity retired_iff_not_live)
  then show ?thesis using TrimEvidence_facts by (simp add: mark_records_none)
qed

lemma entry_ok_applied:
  assumes old: "\<forall>e\<in>set evs. T e \<and> located (es_id ent) (es_bound_generation ent) (ce_id x) e"
    and ids: "distinct (identities evs)" "length (identities evs) < m"
    and new: "T e" "located (es_id ent) (es_bound_generation ent) (ce_id x) e"
      "identity_of e \<notin> set (identities evs)" "live_record e"
    and x: "ce_evidence x = evs @ [e]" "fresh_entry (es_id ent) (es_bound_generation ent) x"
  shows "entry_ok T m (es_id ent) (es_bound_generation ent) x"
  using assms by (auto simp: entry_ok_def identities_def)

lemma ApplyClaim_ok:
  assumes ok: "work_ok T m ids ent w" and m: "m = o_max_evidence_per_capability (g_options g)" "0 < m"
    and claim: "canonical_claim claim"
    and trusted: "\<And>gen arr. T (claim_evidence g request (w_entity w) claim cov gen arr)"
  shows "work_ok T m ids ent (snd (ApplyClaim g n request claim cov reason w))"
proof -
  let ?e = "w_entity w"
  let ?own = "\<lambda>e. owned_by (ac_source (pq_authority request), ac_worker_boot (pq_authority request)) e
    \<and> \<not> retired_record e"
  obtain key ids' where key: "CapabilityKey (w_ids w) (cl_capability claim) = (key, ids')"
    by (cases "CapabilityKey (w_ids w) (cl_capability claim)")
  note kf = CapabilityKey_facts [OF key]
  have eok: "entity_ok T m ids' ?e"
    using ok kf(4) entity_ok_ids_append unfolding work_ok_def by metis
  have dist: "distinct ids'" and pre: "\<exists>xs. ids' = ids @ xs"
    using ok kf(3,4) by (auto simp: work_ok_def)
  have frame: "?e\<lparr>es_capabilities := es_capabilities ent\<rparr> = ent" using ok by (simp add: work_ok_def)
  have work: "work_ok T m ids ent v" if "w_ids v = ids'"
    "w_entity v = ?e \<or> (\<exists>x. w_entity v = put_entry key x ?e \<and> ce_id x = cl_capability claim
       \<and> entry_ok T m (es_id ?e) (es_bound_generation ?e) x)" for v
    using that eok dist pre frame kf(1,2) entity_ok_put [OF eok kf(1)]
    by (auto simp: work_ok_def frame_put_entry)
  show ?thesis
  proof (cases "map_of (es_capabilities ?e) key = None
      \<and> length (es_capabilities ?e) \<ge> o_max_capabilities_per_entity (g_options g)")
    case True
    then show ?thesis using key by (simp add: ApplyClaim_def Let_def work)
  next
    case False
    define x where "x = (case map_of (es_capabilities ?e) key of Some x \<Rightarrow> x
      | None \<Rightarrow> entry_default\<lparr>ce_id := cl_capability claim\<rparr>)"
    define evs where "evs = TrimEvidence (o_max_evidence_per_capability (g_options g))
      (mark_records ?own Cur_Superseded reason (ce_evidence x))"
    have x_ok: "ce_id x = cl_capability claim
        \<and> (map_of (es_capabilities ?e) key = None \<and> ce_evidence x = []
          \<or> entry_ok T m (es_id ?e) (es_bound_generation ?e) x)"
    proof (cases "map_of (es_capabilities ?e) key")
      case (Some y)
      then have "(key, y) \<in> set (es_capabilities ?e)" by (rule map_of_SomeD)
      from entity_ok_entry [OF eok this] kf(2) Some show ?thesis by (simp add: x_def)
    qed (simp add: x_def entry_default_def)
    then have parts: "\<forall>e\<in>set (ce_evidence x). T e \<and> located (es_id ?e) (es_bound_generation ?e) (ce_id x) e"
      "distinct (identities (ce_evidence x))" "length (identities (ce_evidence x)) \<le> m"
      by (auto simp: entry_ok_def)
    note own = own_superseded [OF parts, where bound = m and r = reason
        and key = "(ac_source (pq_authority request), ac_worker_boot (pq_authority request))",
        folded evs_def [folded m(1)]]
    show ?thesis
    proof (cases "LiveEvidenceCount evs \<ge> o_max_evidence_per_capability (g_options g)")
      case True
      have live: "filter live_record evs = filter live_record (ce_evidence x)"
        using limit_keeps_truth [OF parts(3)] True unfolding evs_def m(1) by blast
      then have "identities (ce_evidence x) \<noteq> []"
        using True m by (auto simp: LiveEvidenceCount_identities identities_def)
      with x_ok have xe: "entry_ok T m (es_id ?e) (es_bound_generation ?e) x" by auto
      have "fresh_entry (es_id ?e) (es_bound_generation ?e) (x\<lparr>ce_evidence := evs\<rparr>)"
        using xe resolve_truth_cong [OF live, of "es_id ?e" "es_bound_generation ?e" "ce_id x"
            "ce_generation x" "ce_generation x"]
        by (simp add: fresh_entry_def entry_ok_def)
      then have "entry_ok T m (es_id ?e) (es_bound_generation ?e) (x\<lparr>ce_evidence := evs\<rparr>)"
        using own by (auto intro!: entry_okI)
      then have "work_ok T m ids ent (w\<lparr>w_ids := ids', w_entity := put_entry key (x\<lparr>ce_evidence := evs\<rparr>) ?e,
          w_indices := ix\<rparr>)" for ix
        using x_ok by (intro work) auto
      then show ?thesis
        using False key True by (auto simp: ApplyClaim_def Let_def simp flip: x_def evs_def)
    next
      case below: False
      define rec where "rec = claim_evidence g request ?e claim cov
        (NextEvidenceGeneration x (ac_source (pq_authority request), ac_worker_boot (pq_authority request)))
        (w_arrival w + 1)"
      have lt: "length (identities evs) < m"
        using below m by (simp add: LiveEvidenceCount_identities)
      have applied: "entry_ok T m (es_id ?e) (es_bound_generation ?e) y"
        if "ce_evidence y = evs @ [rec]" "ce_id y = ce_id x"
          "fresh_entry (es_id ?e) (es_bound_generation ?e) y" for y
        using own(1,2,4) lt trusted located_claim [OF claim] identity_claim x_ok that
        by (intro entry_ok_applied [of evs ?e y m rec]) (simp_all add: rec_def)
      show ?thesis
      proof (cases "Counter_Next (ce_generation x)")
        case (Inl err)
        then have "ce_generation x = - 1" by (auto simp: Counter_Next_def split: if_splits)
        then have "entry_ok T m (es_id ?e) (es_bound_generation ?e) (x\<lparr>ce_evidence := evs @ [rec]\<rparr>)"
          by (intro applied) (simp_all add: fresh_entry_def)
        then have "work_ok T m ids ent (w\<lparr>w_ids := ids',
            w_entity := put_entry key (x\<lparr>ce_evidence := evs @ [rec]\<rparr>) ?e,
            w_indices := ix, w_arrival := a\<rparr>)" for ix a
          using x_ok by (intro work) auto
        then show ?thesis
          using False key below Inl
          by (auto simp: ApplyClaim_def Let_def simp flip: x_def evs_def rec_def)
      next
        case (Inr gen)
        let ?y = "\<lambda>ix. fst (ResolveCapability n ?e key
          (x\<lparr>ce_evidence := evs @ [rec], ce_generation := gen\<rparr>) ix)"
        have "entry_ok T m (es_id ?e) (es_bound_generation ?e) (?y ix)" for ix
          by (rule applied) (simp_all add: fst_ResolveCapability fresh_entry_def)
        then have "work_ok T m ids ent (w\<lparr>w_ids := ids', w_entity := put_entry key (?y ix) ?e,
            w_indices := ix', w_arrival := a\<rparr>)" for ix ix' a
          using x_ok by (intro work) (auto simp: fst_ResolveCapability)
        then show ?thesis
          using False key below Inr
          by (auto simp: ApplyClaim_def Let_def split_beta simp flip: x_def evs_def rec_def)
      qed
    qed
  qed
qed

end

context evidence_contract begin

lemma WithdrawIdentityClaim_ok:
  assumes ok: "work_ok T m ids ent w"
  shows "work_ok T m ids ent (snd (WithdrawIdentityClaim n request c reason w))"
proof -
  let ?e = "w_entity w"
  let ?own = "\<lambda>e. owned_by (ac_source (pq_authority request), ac_worker_boot (pq_authority request)) e
    \<and> \<not> retired_record e"
  show ?thesis
  proof (cases "\<exists>key x. index_where (\<lambda>d. d = c) (w_ids w) = Some key
      \<and> map_of (es_capabilities ?e) key = Some x \<and> list_ex ?own (ce_evidence x)")
    case False
    then have "snd (WithdrawIdentityClaim n request c reason w) = w"
      by (auto simp: WithdrawIdentityClaim_def Let_def split: option.split)
    with ok show ?thesis by simp
  next
    case True
    then obtain key x where key: "index_where (\<lambda>d. d = c) (w_ids w) = Some key"
      and x: "map_of (es_capabilities ?e) key = Some x" and own: "list_ex ?own (ce_evidence x)"
      by blast
    define evs where "evs = mark_records ?own Cur_Superseded reason (ce_evidence x)"
    have eok: "entity_ok T m (w_ids w) ?e" using ok by (simp add: work_ok_def)
    have mem: "(key, x) \<in> set (es_capabilities ?e)" using x by (rule map_of_SomeD)
    note old = entity_ok_entry [OF eok mem]
    have evs: "\<forall>e\<in>set evs. T e \<and> located (es_id ?e) (es_bound_generation ?e) (ce_id x) e"
    proof
      fix e' assume "e' \<in> set evs"
      from set_mark_records [OF this [unfolded evs_def]] obtain e where "e \<in> set (ce_evidence x)"
        "e' = e \<or> e' = e\<lparr>e_currentness := Cur_Superseded, e_reason := reason\<rparr>"
        by (metis (full_types))
      with old superseded show "T e' \<and> located (es_id ?e) (es_bound_generation ?e) (ce_id x) e'"
        by (auto simp: entry_ok_def)
    qed
    have sub: "distinct (identities evs)" "length (identities evs) \<le> m"
      using identities_mark [of "ce_evidence x" ?own Cur_Superseded reason] old
      by (auto simp: evs_def entry_ok_def retired_iff_not_live)
    have done': "work_ok T m ids ent (w\<lparr>w_entity := put_entry key y ?e, w_indices := ix\<rparr>)"
      if "ce_evidence y = evs" "ce_id y = ce_id x"
        "fresh_entry (es_id ?e) (es_bound_generation ?e) y" for y ix
    proof -
      have "entry_ok T m (es_id ?e) (es_bound_generation ?e) y"
        using evs sub that by (auto intro!: entry_okI)
      then have "entity_ok T m (w_ids w) (put_entry key y ?e)"
        using entity_ok_put [OF eok, of key y] old that(2) by simp
      then show ?thesis using ok by (simp add: work_ok_def frame_put_entry)
    qed
    show ?thesis
    proof (cases "Counter_Next (ce_generation x)")
      case (Inl err)
      then have "ce_generation x = - 1" by (auto simp: Counter_Next_def split: if_splits)
      then have "work_ok T m ids ent
          (w\<lparr>w_entity := put_entry key (x\<lparr>ce_evidence := evs\<rparr>) ?e, w_indices := ix\<rparr>)" for ix
        by (intro done') (simp_all add: fresh_entry_def)
      then show ?thesis using key x own Inl
        by (simp add: WithdrawIdentityClaim_def Let_def flip: evs_def)
    next
      case (Inr gen)
      have "work_ok T m ids ent (w\<lparr>w_entity := put_entry key
          (fst (ResolveCapability n ?e key (x\<lparr>ce_evidence := evs, ce_generation := gen\<rparr>) ix)) ?e,
          w_indices := ix'\<rparr>)" for ix ix'
        by (intro done') (simp_all add: fst_ResolveCapability fresh_entry_def)
      then show ?thesis using key x own Inr
        by (simp add: WithdrawIdentityClaim_def Let_def split_beta flip: evs_def)
    qed
  qed
qed

lemma supersede_ok:
  assumes ok: "work_ok T m ids ent w" and p: "\<And>e. p e \<Longrightarrow> live_record e"
  shows "work_ok T m ids ent (on_entity (rewrite_entity n p Cur_Superseded reason) w)"
proof -
  have "entity_ok T m (w_ids w) (fst (rewrite_entity n p Cur_Superseded reason (w_entity w, w_indices w)))"
    using ok by (intro entity_ok_rewrite [where T = T] p superseded) (simp_all add: work_ok_def)
  moreover have "(fst (rewrite_entity n p Cur_Superseded reason (w_entity w, w_indices w)))
      \<lparr>es_capabilities := es_capabilities ent\<rparr> = ent"
    using ok by (simp add: work_ok_def fst_rewrite_entity)
  ultimately show ?thesis using ok by (simp add: work_ok_def on_entity_def split_beta)
qed

lemma SupersedeIdentity_ok:
  "work_ok T m ids ent w \<Longrightarrow> work_ok T m ids ent (on_entity (SupersedeIdentity n key reason) w)"
  unfolding SupersedeIdentity_def by (rule supersede_ok) (simp_all add: retired_iff_not_live)

lemma SupersedeOtherIdentities_ok:
  "work_ok T m ids ent w \<Longrightarrow>
   work_ok T m ids ent (on_entity (SupersedeOtherIdentities n keep reason) w)"
  unfolding SupersedeOtherIdentities_def by (rule supersede_ok) (simp_all add: retired_iff_not_live)

text \<open>A publication of canonical claims whose evidence is trusted keeps the invariant.\<close>

lemma run_each_ok:
  assumes "work_ok T m ids ent w"
    and "\<And>x w. x \<in> set xs \<Longrightarrow> work_ok T m ids ent w \<Longrightarrow> work_ok T m ids ent (snd (f x w))"
  shows "work_ok T m ids ent (snd (run_each f xs w))"
  using assms
proof (induction xs arbitrary: w)
  case (Cons x xs)
  obtain st v where f: "f x w = (st, v)" by (cases "f x w")
  have v: "work_ok T m ids ent v" using Cons.prems(2) [of x w] Cons.prems(1) f by simp
  show ?case using Cons.IH [OF v] Cons.prems(2) v f by (cases st) simp_all
qed simp

lemma apply_request_ok:
  assumes ok: "work_ok T m ids ent w" and m: "m = o_max_evidence_per_capability (g_options g)" "0 < m"
    and claims: "\<forall>claim\<in>set (pq_claims request). canonical_claim claim"
    and edits: "\<forall>edit\<in>set (pq_edits request). \<not> withdrawing edit \<longrightarrow> canonical_claim (edit_claim edit)"
    and trusted: "\<And>e claim cov gen arr. T (claim_evidence g request e claim cov gen arr)"
  shows "work_ok T m ids ent (snd (apply_request g n grant request w))"
proof -
  note apply1 = ApplyClaim_ok [OF _ m _ trusted]
  have claims_ok: "work_ok T m ids ent (snd (apply_claims g n request cs cov v))"
    if "work_ok T m ids ent v" "\<forall>c\<in>set cs. canonical_claim c" for cs cov v
    unfolding apply_claims_def using that by (intro run_each_ok apply1) auto
  have absent: "\<forall>c\<in>set (absence_claims (g_schema g) grant request). canonical_claim c"
    by (auto simp: absence_claims_def absence_claim_def canonical_claim_def claim_default_def
        ValidateCanonical_def)
  have snap: "work_ok T m ids ent (snd (apply_snapshot g n grant request w))"
  proof -
    let ?w1 = "if ag_exclusive grant
      then on_entity (SupersedeOtherIdentities n (request_key request) (pq_reason request)) w else w"
    let ?w2 = "on_entity (SupersedeIdentity n (source_key_of request) (pq_reason request)) ?w1"
    have "work_ok T m ids ent ?w2"
      using ok by (auto intro: SupersedeIdentity_ok SupersedeOtherIdentities_ok)
    from claims_ok [OF this claims, of "pq_coverage request"] absent show ?thesis
      unfolding apply_snapshot_def Let_def
      by (auto split: prod.split sum.split intro: claims_ok)
  qed
  have edits_ok: "work_ok T m ids ent (snd (apply_edits g n request flag es v))"
    if "work_ok T m ids ent v" "\<forall>edit\<in>set es. \<not> withdrawing edit \<longrightarrow> canonical_claim (edit_claim edit)"
    for flag es v
    using that
  proof (induction es arbitrary: flag v)
    case (Cons edit es)
    have claim: "\<not> withdrawing edit \<Longrightarrow> canonical_claim (edit_claim edit)"
      and rest: "\<forall>edit\<in>set es. \<not> withdrawing edit \<longrightarrow> canonical_claim (edit_claim edit)"
      using Cons.prems(2) by simp_all
    have step: "work_ok T m ids ent (snd (case f of (Inl e, w) \<Rightarrow> (Inl e, w)
        | (Inr _, w) \<Rightarrow> apply_edits g n request flag es w))"
      if "work_ok T m ids ent (snd f)" for f :: "status \<times> work"
      using that Cons.IH [OF _ rest] by (auto split: prod.split sum.split)
    have upsert: "work_ok T m ids ent (snd (ApplyClaim g n request (edit_claim edit)
        (cl_coverage (edit_claim edit)) (pq_reason request) v))" if "\<not> withdrawing edit"
      by (rule apply1 [OF Cons.prems(1) claim [OF that]])
    have super: "work_ok T m ids ent (if flag then v
        else on_entity (SupersedeIdentity n (source_key_of request) (pq_reason request)) v)"
      using Cons.prems(1) SupersedeIdentity_ok by simp
    show ?case
    proof (cases "ed_operation edit")
      case WithdrawClaim
      then show ?thesis
        using step [OF WithdrawIdentityClaim_ok [OF Cons.prems(1)]] by simp
    next
      case SupersedeSourceEvidence
      then show ?thesis using Cons.IH [OF super rest] by simp
    qed (use step [OF upsert] in \<open>simp_all add: withdrawing_def\<close>)
  qed simp
  show ?thesis
    using snap claims_ok [OF ok claims] edits_ok [OF ok edits]
    by (cases "pq_mode request") (simp_all add: apply_request_def)
qed

end

end
