(* ===== verification/RegistryInvariant.thy ===== *)
theory RegistryInvariant
  imports EntityInvariant
begin

text \<open>
  The invariant of the registry: every mutating operation keeps it, so it holds in every
  reachable registry. Its conclusions are the safety of queries: what is reported as supported is
  backed by current evidence of the present entity generation, coordinator epoch and unfenced
  worker boots.
\<close>

section \<open>The trust condition of the registry\<close>

text \<open>
  Current process-bound evidence was accepted under the present coordinator epoch, from a worker
  boot that is not fenced.
\<close>

definition trusted :: "counter \<Rightarrow> token set \<Rightarrow> evidence_record \<Rightarrow> bool" where
  "trusted epoch fenced e \<longleftrightarrow>
     (e_currentness e = Cur_Current \<and> e_durability e = ProcessBound
        \<longrightarrow> e_epoch e = epoch \<and> e_worker_boot e \<notin> fenced)"

interpretation trust: evidence_contract "trusted epoch fenced" for epoch fenced
  by unfold_locales (simp add: trusted_def)

definition registry_ok :: "registry \<Rightarrow> bool" where
  "registry_ok g \<longleftrightarrow>
     0 < o_max_evidence_per_capability (g_options g)
     \<and> distinct (map es_id (g_entities g)) \<and> distinct (g_capability_ids g)
     \<and> (\<forall>ent\<in>set (g_entities g).
          entity_ok (trusted (g_epoch g) (g_fenced_boots g))
            (o_max_evidence_per_capability (g_options g)) (g_capability_ids g) ent)"

lemma registry_ok_entity:
  "registry_ok g \<Longrightarrow> n < length (g_entities g) \<Longrightarrow>
   entity_ok (trusted (g_epoch g) (g_fenced_boots g))
     (o_max_evidence_per_capability (g_options g)) (g_capability_ids g) (g_entities g ! n)"
  by (simp add: registry_ok_def)

text \<open>The invariant reads five fields.\<close>

lemma registry_ok_cong:
  assumes "registry_ok g" and "g_options g' = g_options g" and "g_entities g' = g_entities g"
    and "g_capability_ids g' = g_capability_ids g" and "g_epoch g' = g_epoch g"
    and "g_fenced_boots g' \<subseteq> g_fenced_boots g"
  shows "registry_ok g'"
proof -
  have "trusted (g_epoch g') (g_fenced_boots g') e" if "trusted (g_epoch g) (g_fenced_boots g) e" for e
    using that assms(5,6) by (auto simp: trusted_def)
  then have "entity_ok (trusted (g_epoch g') (g_fenced_boots g')) m ids ent"
    if "entity_ok (trusted (g_epoch g) (g_fenced_boots g)) m ids ent" for m ids ent
    using that by (rule entity_ok_mono [rotated])
  then show ?thesis using assms(1-4) by (simp add: registry_ok_def)
qed

lemma registry_ok_put:
  assumes ok: "registry_ok g" and n: "n < length (g_entities g)"
    and e: "es_id ent = es_id (g_entities g ! n)"
      "entity_ok (trusted (g_epoch g) (g_fenced_boots g))
         (o_max_evidence_per_capability (g_options g)) (g_capability_ids g) ent"
  shows "registry_ok (put_entity n ent g)"
proof -
  have "map es_id ((g_entities g)[n := ent]) = map es_id (g_entities g)"
    using n e(1) by (metis list_update_id map_update nth_map length_map)
  then show ?thesis
    using ok e(2) by (auto simp: registry_ok_def put_entity_def dest!: set_update_subset_insert [THEN subsetD])
qed

lemma entity_ok_cong:
  assumes "entity_ok T m ids ent" and "es_id ent' = es_id ent"
    and "es_capabilities ent' = es_capabilities ent"
    and "es_bound_generation ent' = es_bound_generation ent"
    and "es_current_generation ent' = es_current_generation ent"
  shows "entity_ok T m ids ent'"
  unfolding entity_ok_def assms(2-5) by (rule assms(1) [unfolded entity_ok_def])

lemma entity_ok_Refresh [simp]: "entity_ok T m ids (RefreshEntity rg ent) = entity_ok T m ids ent"
  by (simp add: entity_ok_def RefreshEntity_def)

lemma entity_ok_new: "gen \<noteq> 0 \<Longrightarrow> entity_ok T m ids (entity_new i gen touched)"
  by (simp add: entity_ok_def entity_new_def ordered_keys_def)

lemma FindEntity_Some:
  "FindEntity g i = Some n \<Longrightarrow> n < length (g_entities g) \<and> es_id (g_entities g ! n) = i"
  by (auto simp: FindEntity_def dest!: index_where_Some)

lemma FindEntity_None: "FindEntity g i = None \<longleftrightarrow> i \<notin> es_id ` set (g_entities g)"
  by (auto simp: FindEntity_def index_where_None)

text \<open>With distinct identities the search returns the position.\<close>

lemma FindEntity_unique:
  assumes "distinct (map es_id (g_entities g))" and "n < length (g_entities g)"
  shows "FindEntity g (es_id (g_entities g ! n)) = Some n"
proof (cases "FindEntity g (es_id (g_entities g ! n))")
  case None
  with assms(2) show ?thesis by (auto simp: FindEntity_None)
next
  case (Some k)
  from FindEntity_Some [OF this] have "k = n"
    using assms nth_eq_iff_index_eq [of "map es_id (g_entities g)" k n] by simp
  with Some show ?thesis by simp
qed

lemma registry_ok_create:
  assumes "registry_ok g" and "FindEntity g i = None" and "gen \<noteq> 0"
  shows "registry_ok (create_entity i gen g)"
proof -
  have "es_id (entity_new i gen (g_generation g)) = i" by (simp add: entity_new_def)
  then show ?thesis
    using assms by (simp add: registry_ok_def create_entity_def FindEntity_None entity_ok_new)
qed

lemma registry_ok_retire:
  assumes ok: "registry_ok g" and n: "n < length (g_entities g)" and gen: "gen \<noteq> 0"
  shows "registry_ok (retire_entity n gen reason g)"
proof -
  let ?r = "RetireGeneration (g_options g) (g_generation g) gen reason (g_entities g ! n, g_indices g)"
  have "registry_ok (put_entity n (fst ?r) (g\<lparr>g_indices := snd ?r\<rparr>))"
  proof (rule registry_ok_put)
    show "registry_ok (g\<lparr>g_indices := snd ?r\<rparr>)" using ok by (simp add: registry_ok_def)
    show "es_id (fst ?r) = es_id (g_entities (g\<lparr>g_indices := snd ?r\<rparr>) ! n)"
      by (simp add: RetireGeneration_def Let_def)
  qed (use n gen in \<open>simp_all add: entity_ok_Retire\<close>)
  then show ?thesis by (simp add: retire_entity_def split_beta Let_def)
qed

lemma registry_ok_touch:
  "registry_ok g \<Longrightarrow> n < length (g_entities g) \<Longrightarrow> registry_ok (touch_entity n g)"
  unfolding touch_entity_def
  by (rule registry_ok_put) (auto intro: entity_ok_cong [OF registry_ok_entity])

section \<open>Validated requests\<close>

lemma check_claims_Inr:
  "check_claims schema grant seen claims = Inr () \<Longrightarrow> claim \<in> set claims \<Longrightarrow>
   \<exists>seen'. check_claim schema grant seen' claim = Inr ()"
  by (induction claims arbitrary: seen) (auto simp: obind_Inr_iff)

lemma ValidateClaimShape_canonical:
  "ValidateClaimShape d claim = Inr () \<Longrightarrow> canonical_claim claim"
  by (auto simp: ValidateClaimShape_def Let_def canonical_claim_def ValidateCanonical_def
      ValidateValueAgainstDescriptor_def obind_Inr_iff split: if_splits)

lemma check_claim_Inr:
  "check_claim schema grant seen claim = Inr () \<longleftrightarrow>
     CapabilityId_IsSet (cl_capability claim)
     \<and> NamespaceAllowed grant (cap_ns (cl_capability claim))
     \<and> cap_rendered (cl_capability claim) \<notin> seen
     \<and> ProvenanceRank (ag_strongest_provenance grant) \<le> ProvenanceRank (cl_provenance claim)
     \<and> ProvenanceRank (StrongestProvenanceForSource (cl_source_class claim))
         \<le> ProvenanceRank (cl_provenance claim)
     \<and> (cl_durability claim = Durable \<longrightarrow>
          ag_may_publish_durable grant \<and> \<not> IsLiveProcessObservation (cl_provenance claim))
     \<and> (\<exists>d. Schema_Find schema (cl_capability claim) = Inr d \<and> ValidateClaimShape d claim = Inr ())"
  by (auto simp: check_claim_def obind_Inr_iff not_less)

lemma check_edit_Inr:
  "check_edit schema grant edit = Inr () \<longleftrightarrow>
     CapabilityId_IsSet (ed_capability edit)
     \<and> NamespaceAllowed grant (cap_ns (ed_capability edit))
     \<and> (\<exists>d. Schema_Find schema (ed_capability edit) = Inr d
          \<and> (withdrawing edit
             \<or> ProvenanceRank (ag_strongest_provenance grant)
                  \<le> ProvenanceRank (cl_provenance (edit_claim edit))
               \<and> ProvenanceRank (StrongestProvenanceForSource (cl_source_class (edit_claim edit)))
                  \<le> ProvenanceRank (cl_provenance (edit_claim edit))
               \<and> (cl_durability (edit_claim edit) = Durable \<longrightarrow> ag_may_publish_durable grant
                    \<and> \<not> IsLiveProcessObservation (cl_provenance (edit_claim edit)))
               \<and> ValidateClaimShape d (edit_claim edit) = Inr ()))"
  by (auto simp: check_edit_def Let_def obind_Inr_iff not_less)

lemma validate_request_Inr:
  "validate_request g request = Inr (runtime, grant) \<longleftrightarrow>
     shape_check request = Inr () \<and> epoch_check g request = Inr ()
     \<and> publisher_check g request = Inr runtime \<and> grant_check g request = Inr grant
     \<and> check_claims (g_schema g) grant {} (pq_claims request) = Inr ()
     \<and> (\<forall>edit\<in>set (pq_edits request). check_edit (g_schema g) grant edit = Inr ())"
  by (auto simp: validate_request_def obind_Inr_iff)

lemma epoch_check_Inr: "epoch_check g request = Inr () \<longleftrightarrow> pq_epoch request \<noteq> 0 \<and> pq_epoch request = g_epoch g"
  by (auto simp: epoch_check_def Counter_IsSet_def)

lemma publisher_check_Inr:
  "publisher_check g request = Inr runtime \<longleftrightarrow>
     ac_worker_boot (pq_authority request) \<notin> g_fenced_boots g
     \<and> map_of (g_publishers g) (request_key request) = Some runtime \<and> rn_active runtime
     \<and> pb_scope (rn_registration runtime) = ac_scope (pq_authority request)
     \<and> pb_epoch (rn_registration runtime) = g_epoch g"
  by (auto simp: publisher_check_def split: option.splits)

lemma grant_check_Inr:
  "grant_check g request = Inr grant \<longleftrightarrow>
     FindAuthority g (ac_scope (pq_authority request)) = Some grant
     \<and> AllowsMode (ag_modes grant) (pq_mode request)
     \<and> ent_kind (pq_entity request) \<in> set (ag_entity_kinds grant)
     \<and> length (pq_claims request) \<le> ag_max_claims_per_publication grant"
  by (auto simp: grant_check_def split: option.splits)

lemma validated_claims:
  assumes "validate_request g request = Inr (runtime, grant)"
  shows "\<forall>claim\<in>set (pq_claims request). canonical_claim claim"
    and "\<forall>edit\<in>set (pq_edits request). \<not> withdrawing edit \<longrightarrow> canonical_claim (edit_claim edit)"
    and "trusted (g_epoch g) (g_fenced_boots g) (claim_evidence g request ent claim cov gen arr)"
proof -
  note v = assms [unfolded validate_request_Inr]
  show "\<forall>claim\<in>set (pq_claims request). canonical_claim claim"
    using v by (blast dest: check_claims_Inr ValidateClaimShape_canonical
        check_claim_Inr [THEN iffD1])
  show "\<forall>edit\<in>set (pq_edits request). \<not> withdrawing edit \<longrightarrow> canonical_claim (edit_claim edit)"
    using v by (blast dest: ValidateClaimShape_canonical check_edit_Inr [THEN iffD1])
  show "trusted (g_epoch g) (g_fenced_boots g) (claim_evidence g request ent claim cov gen arr)"
    using v by (simp add: trusted_def claim_evidence_def Let_def publisher_check_Inr)
qed

section \<open>Publish keeps the invariant\<close>

text \<open>The journal is the only thing a rejection without side effects changes.\<close>

definition same_but_journal :: "registry \<Rightarrow> registry \<Rightarrow> bool" where
  "same_but_journal g g' \<longleftrightarrow>
     g'\<lparr>g_journal := g_journal g, g_attempt_journal := g_attempt_journal g,
        g_journal_order := g_journal_order g\<rparr> = g"

lemma RecordJournal_frame: "same_but_journal g (RecordJournal entry g)"
  by (cases "g_journal_order g") (simp_all add: same_but_journal_def RecordJournal_def Let_def)

lemma reject_frame: "same_but_journal g (snd (reject g request e))"
  using RecordJournal_frame by (simp add: reject_def Let_def) (simp add: same_but_journal_def)

lemma same_but_journal_fields:
  assumes "same_but_journal g g'"
  shows "g_options g' = g_options g" "g_entities g' = g_entities g"
    "g_capability_ids g' = g_capability_ids g" "g_epoch g' = g_epoch g"
    "g_fenced_boots g' = g_fenced_boots g" "g_generation g' = g_generation g"
    "g_publishers g' = g_publishers g" "g_authorities g' = g_authorities g"
    "g_schema g' = g_schema g" "g_indices g' = g_indices g" "g_fences g' = g_fences g"
    "g_arrival_sequence g' = g_arrival_sequence g"
  using arg_cong [OF assms [unfolded same_but_journal_def], of g_options]
    arg_cong [OF assms [unfolded same_but_journal_def], of g_entities]
    arg_cong [OF assms [unfolded same_but_journal_def], of g_capability_ids]
    arg_cong [OF assms [unfolded same_but_journal_def], of g_epoch]
    arg_cong [OF assms [unfolded same_but_journal_def], of g_fenced_boots]
    arg_cong [OF assms [unfolded same_but_journal_def], of g_generation]
    arg_cong [OF assms [unfolded same_but_journal_def], of g_publishers]
    arg_cong [OF assms [unfolded same_but_journal_def], of g_authorities]
    arg_cong [OF assms [unfolded same_but_journal_def], of g_schema]
    arg_cong [OF assms [unfolded same_but_journal_def], of g_indices]
    arg_cong [OF assms [unfolded same_but_journal_def], of g_fences]
    arg_cong [OF assms [unfolded same_but_journal_def], of g_arrival_sequence]
  by simp_all

lemma registry_ok_journal: "registry_ok g \<Longrightarrow> same_but_journal g g' \<Longrightarrow> registry_ok g'"
  by (erule registry_ok_cong) (simp_all add: same_but_journal_fields)

lemma registry_ok_reject: "registry_ok g \<Longrightarrow> registry_ok (snd (reject g request e))"
  using registry_ok_journal reject_frame by blast

lemma registry_ok_stop: "registry_ok g \<Longrightarrow> registry_ok (snd (stop_with g request stop))"
  by (cases stop) (simp_all add: stop_with_def registry_ok_reject)

lemma registry_ok_replay: "registry_ok g \<Longrightarrow> registry_ok (snd (answer_replay g n request))"
  using registry_ok_journal RecordJournal_frame by (auto simp: answer_replay_def Let_def)

text \<open>What entering the entity guarantees.\<close>

definition entered :: "registry \<Rightarrow> publication_request \<Rightarrow> nat \<Rightarrow> registry \<Rightarrow> bool" where
  "entered g request n g' \<longleftrightarrow>
     n < length (g_entities g') \<and> es_id (g_entities g' ! n) = pq_entity request
     \<and> es_current_generation (g_entities g' ! n) = pq_entity_generation request"

lemma enter_entity_frame:
  "g_options (snd (enter_entity g request)) = g_options g
   \<and> g_epoch (snd (enter_entity g request)) = g_epoch g
   \<and> g_fenced_boots (snd (enter_entity g request)) = g_fenced_boots g
   \<and> g_schema (snd (enter_entity g request)) = g_schema g
   \<and> g_publishers (snd (enter_entity g request)) = g_publishers g
   \<and> g_authorities (snd (enter_entity g request)) = g_authorities g
   \<and> g_capability_ids (snd (enter_entity g request)) = g_capability_ids g"
  by (simp add: enter_entity_def Let_def create_entity_def retire_entity_def touch_entity_def
      put_entity_def split_beta split: option.split sum.split)

lemma enter_entity_ok:
  assumes "registry_ok g" and "enter_entity g request = (res, g')"
    and gen: "pq_entity_generation request \<noteq> 0"
  shows "registry_ok g' \<and> (\<forall>n. res = Inr n \<longrightarrow> entered g request n g')"
proof (cases "FindEntity g (pq_entity request)")
  case None
  then show ?thesis
    using assms registry_ok_create [OF assms(1) None gen]
    by (auto simp: enter_entity_def entered_def create_entity_def entity_new_def split: if_splits)
next
  case (Some n)
  note n = FindEntity_Some [OF Some]
  let ?gen = "pq_entity_generation request"
  let ?r = "retire_entity n ?gen (MakeReason ''superseded-by-fabric-registry'') g"
  have r: "registry_ok ?r" using assms(1) n gen by (simp add: registry_ok_retire)
  have len: "length (g_entities ?r) = length (g_entities g)"
    by (simp add: retire_entity_def split_beta Let_def put_entity_def)
  have nth: "es_id (g_entities ?r ! n) = es_id (g_entities g ! n)"
    "es_current_generation (g_entities ?r ! n) = ?gen"
    using n by (simp_all add: retire_entity_def split_beta Let_def put_entity_def RetireGeneration_def)
  have adv: "registry_ok (touch_entity n (?r\<lparr>g_generation := a\<rparr>))
      \<and> entered g request n (touch_entity n (?r\<lparr>g_generation := a\<rparr>))" for a
  proof
    have "registry_ok (?r\<lparr>g_generation := a\<rparr>)" using r by (simp add: registry_ok_def)
    then show "registry_ok (touch_entity n (?r\<lparr>g_generation := a\<rparr>))"
      using n len by (simp add: registry_ok_touch)
    show "entered g request n (touch_entity n (?r\<lparr>g_generation := a\<rparr>))"
      using n len nth by (simp add: entered_def touch_entity_def put_entity_def)
  qed
  show ?thesis
  proof (cases "?gen < es_current_generation (g_entities g ! n)
      \<or> ?gen = es_current_generation (g_entities g ! n)")
    case True
    then show ?thesis using assms Some n by (auto simp: enter_entity_def entered_def Let_def)
  next
    case False
    then have newer: "(?gen < es_current_generation (g_entities g ! n)) = False"
      "(es_current_generation (g_entities g ! n) < ?gen) = True" by auto
    have "enter_entity g request = (case Counter_Next (g_generation ?r) of
        Inl _ \<Rightarrow> (Inl (Fails E_ArithmeticOverflow), ?r)
      | Inr advanced \<Rightarrow> (Inr n, touch_entity n (?r\<lparr>g_generation := advanced\<rparr>)))"
      unfolding enter_entity_def Some Let_def by (simp only: newer option.case if_True if_False)
    with assms(2) r adv show ?thesis by (auto split: sum.splits)
  qed
qed

lemma registry_ok_close:
  assumes ok: "registry_ok g" and n: "n < length (g_entities g)"
    and w: "work_ok (trusted (g_epoch g) (g_fenced_boots g))
      (o_max_evidence_per_capability (g_options g)) (g_capability_ids g) (g_entities g ! n) w"
  shows "registry_ok (close_work n w g)"
proof -
  obtain xs where ids: "w_ids w = g_capability_ids g @ xs" "distinct (w_ids w)"
    using w by (auto simp: work_ok_def)
  let ?g = "g\<lparr>g_capability_ids := w_ids w, g_indices := w_indices w, g_arrival_sequence := w_arrival w\<rparr>"
  have "registry_ok ?g"
    using ok ids by (auto simp: registry_ok_def intro: entity_ok_ids_append)
  moreover have "es_id (w_entity w) = es_id (g_entities g ! n)"
    using w work_frame(1) unfolding work_ok_def by blast
  ultimately show ?thesis
    unfolding close_work_def using n w by (intro registry_ok_put) (simp_all add: work_ok_def)
qed

lemma open_work_ok:
  assumes "registry_ok g" and "n < length (g_entities g)"
  shows "work_ok (trusted (g_epoch g) (g_fenced_boots g))
    (o_max_evidence_per_capability (g_options g)) (g_capability_ids g) (g_entities g ! n) (open_work g n)"
  using assms by (simp add: work_ok_def open_work_def registry_ok_entity) (simp add: registry_ok_def)

lemma committed_entity_ok:
  assumes ok: "entity_ok T m ids ent"
  shows "entity_ok T m ids (raise_high_water request (committed_entity rg sg ent))"
proof -
  have "es_current_generation ent = es_bound_generation ent" using ok by (simp add: entity_ok_def)
  then show ?thesis
    by (intro entity_ok_cong [OF ok]) (simp_all add: raise_high_water_def committed_entity_def Let_def)
qed

lemma commit_frame:
  "g_options (snd (commit before cd grant g n request)) = g_options g
   \<and> g_epoch (snd (commit before cd grant g n request)) = g_epoch g
   \<and> g_fenced_boots (snd (commit before cd grant g n request)) = g_fenced_boots g
   \<and> g_schema (snd (commit before cd grant g n request)) = g_schema g
   \<and> g_authorities (snd (commit before cd grant g n request)) = g_authorities g
   \<and> g_capability_ids (snd (commit before cd grant g n request)) = g_capability_ids g"
proof -
  have f: "g_options (RecordJournal j h) = g_options h" "g_epoch (RecordJournal j h) = g_epoch h"
    "g_fenced_boots (RecordJournal j h) = g_fenced_boots h" "g_schema (RecordJournal j h) = g_schema h"
    "g_authorities (RecordJournal j h) = g_authorities h"
    "g_capability_ids (RecordJournal j h) = g_capability_ids h" for j h
    using same_but_journal_fields [OF RecordJournal_frame] by blast+
  show ?thesis
    by (simp add: commit_def Let_def f RegisterReplay_def put_entity_def split: sum.split)
qed

lemma commit_entities:
  "g_entities (snd (commit before cd grant g n request)) = g_entities g
   \<or> (\<exists>sg. g_entities (snd (commit before cd grant g n request))
        = (g_entities g)[n := (g_entities g ! n)\<lparr>es_set_generation := sg\<rparr>])
   \<or> (\<exists>rg sg. g_entities (snd (commit before cd grant g n request))
        = (g_entities g)[n := raise_high_water request (committed_entity rg sg (g_entities g ! n))])"
proof -
  have f: "g_entities (RecordJournal j h) = g_entities h" for j h
    using same_but_journal_fields [OF RecordJournal_frame] by blast
  show ?thesis
    by (auto simp: commit_def Let_def f RegisterReplay_def put_entity_def split: sum.split)
qed

lemma registry_ok_updated:
  assumes ok: "registry_ok g" and n: "n < length (g_entities g)"
    and e: "es_id ent = es_id (g_entities g ! n)"
      "entity_ok (trusted (g_epoch g) (g_fenced_boots g))
         (o_max_evidence_per_capability (g_options g)) (g_capability_ids g) ent"
    and g': "g_entities g' = (g_entities g)[n := ent]" "g_options g' = g_options g"
      "g_capability_ids g' = g_capability_ids g" "g_epoch g' = g_epoch g"
      "g_fenced_boots g' = g_fenced_boots g"
  shows "registry_ok g'"
  by (rule registry_ok_cong [OF registry_ok_put [OF ok n e]])
    (simp_all add: put_entity_def g')

lemma registry_ok_commit:
  assumes ok: "registry_ok g" and n: "n < length (g_entities g)"
  shows "registry_ok (snd (commit before cd grant g n request))"
  using commit_entities [of before cd grant g n request]
proof (elim disjE exE)
  note fr = commit_frame [of before cd grant g n request]
  note old = registry_ok_entity [OF ok n]
  {
    assume "g_entities (snd (commit before cd grant g n request)) = g_entities g"
    with fr show ?thesis by (intro registry_ok_cong [OF ok]) simp_all
  next
    fix sg assume "g_entities (snd (commit before cd grant g n request))
      = (g_entities g)[n := (g_entities g ! n)\<lparr>es_set_generation := sg\<rparr>]"
    with fr show ?thesis
      by (intro registry_ok_updated [OF ok n _ entity_ok_cong [OF old]]) simp_all
  next
    fix rg sg assume "g_entities (snd (commit before cd grant g n request))
      = (g_entities g)[n := raise_high_water request (committed_entity rg sg (g_entities g ! n))]"
    with fr show ?thesis
      by (intro registry_ok_updated [OF ok n _ committed_entity_ok [OF old]])
        (simp_all add: raise_high_water_def committed_entity_def Let_def)
  }
qed

lemma validated_generation: "validate_request g r = Inr x \<Longrightarrow> pq_entity_generation r \<noteq> 0"
  by (cases x) (auto simp: validate_request_Inr shape_check_def Counter_IsSet_def Let_def split: if_splits)

lemma applied_work_ok:
  assumes ok: "registry_ok g" and v: "validate_request g r = Inr (runtime, grant)"
    and e: "enter_entity g r = (Inr n, g1)"
  shows "registry_ok g1 \<and> entered g r n g1
    \<and> work_ok (trusted (g_epoch g1) (g_fenced_boots g1)) (o_max_evidence_per_capability (g_options g1))
        (g_capability_ids g1) (g_entities g1 ! n) (snd (apply_request g1 n grant r (open_work g1 n)))"
proof -
  note ent = enter_entity_ok [OF ok e validated_generation [OF v]]
  note fr = enter_entity_frame [of g r, unfolded e, simplified]
  from ent have ok1: "registry_ok g1" and n: "entered g r n g1" by auto
  then have len: "n < length (g_entities g1)" by (simp add: entered_def)
  have "work_ok (trusted (g_epoch g1) (g_fenced_boots g1))
      (o_max_evidence_per_capability (g_options g1)) (g_capability_ids g1) (g_entities g1 ! n)
      (snd (apply_request g1 n grant r (open_work g1 n)))"
  proof (rule trust.apply_request_ok [OF open_work_ok [OF ok1 len] refl])
    show "0 < o_max_evidence_per_capability (g_options g1)" using ok1 by (simp add: registry_ok_def)
    show "trusted (g_epoch g1) (g_fenced_boots g1) (claim_evidence g1 r e claim cov gen arr)"
      for e claim cov gen arr
      using validated_claims(3) [OF v] fr by (simp add: trusted_def claim_evidence_def Let_def)
  qed (use validated_claims [OF v] in auto)
  with ok1 n show ?thesis by simp
qed

lemma registry_ok_Publish:
  assumes ok: "registry_ok g"
  shows "registry_ok (snd (Publish g request))"
proof (cases "validate_request g request")
  case (Inl e)
  then show ?thesis using ok by (simp add: Publish_def registry_ok_reject)
next
  case (Inr rg)
  then obtain runtime grant where v: "validate_request g request = Inr (runtime, grant)"
    by (cases rg) auto
  obtain res g1 where e: "enter_entity g request = (res, g1)" by (cases "enter_entity g request")
  show ?thesis
  proof (cases res)
    case (Inl stop)
    with v e enter_entity_ok [OF ok e validated_generation [OF v]] show ?thesis
      by (simp add: Publish_def registry_ok_stop)
  next
    case (Inr n)
    let ?w = "apply_request g1 n grant request (open_work g1 n)"
    let ?g2 = "close_work n (snd ?w) g1"
    note applied = applied_work_ok [OF ok v e [unfolded Inr]]
    then have ok1: "registry_ok g1" and n: "n < length (g_entities g1)" by (simp_all add: entered_def)
    have ok2: "registry_ok ?g2" using applied by (blast intro: registry_ok_close [OF ok1 n])
    have n2: "n < length (g_entities ?g2)" using n by (simp add: close_work_def put_entity_def)
    show ?thesis
      using v e Inr ok1 ok2 registry_ok_commit [OF ok2 n2]
      by (simp add: Publish_def Let_def split_beta registry_ok_stop registry_ok_replay
          registry_ok_reject split: sum.split bool.split)
  qed
qed

lemma registry_ok_publish_all: "registry_ok g \<Longrightarrow> registry_ok (snd (publish_all g requests))"
proof (induction requests arbitrary: g)
  case (Cons request requests)
  obtain res g1 where p: "Publish g request = (res, g1)" by (cases "Publish g request")
  have "registry_ok g1" using registry_ok_Publish [OF Cons.prems, of request] p by simp
  from Cons.IH [OF this] this p show ?case by (auto split: prod.split sum.split)
qed simp

lemma registry_ok_PublishBatch: "registry_ok g \<Longrightarrow> registry_ok (snd (PublishBatch g requests))"
  by (simp add: PublishBatch_def registry_ok_publish_all)

section \<open>Loops over all entities\<close>

lemma each_entity_nth:
  "length (fst (each_entity f n ents ix)) = length ents
   \<and> (\<forall>i<length ents. \<exists>ix'. fst (each_entity f n ents ix) ! i = fst (f (n + i) (ents ! i, ix')))"
proof (induction ents arbitrary: n ix)
  case (Cons ent ents)
  obtain ent' ix1 where f: "f n (ent, ix) = (ent', ix1)" by (cases "f n (ent, ix)")
  obtain ents' ix2 where r: "each_entity f (Suc n) ents ix1 = (ents', ix2)"
    by (cases "each_entity f (Suc n) ents ix1")
  have "\<exists>ix'. (ent' # ents') ! i = fst (f (n + i) ((ent # ents) ! i, ix'))"
    if "i < length (ent # ents)" for i
  proof (cases i)
    case 0
    have "fst (f n (ent, ix)) = ent'" using f by simp
    with 0 show ?thesis by auto
  next
    case (Suc j)
    with that Cons.IH [of "Suc n" ix1] r show ?thesis by (auto simp: add.commute)
  qed
  moreover have "length ents' = length ents" using Cons.IH [of "Suc n" ix1] r by simp
  ultimately show ?case using f r by simp
qed simp

lemma registry_ok_update_entities:
  assumes base: "0 < m" "m = o_max_evidence_per_capability (g_options g)"
      "distinct (map es_id (g_entities g))" "distinct (g_capability_ids g)"
      "\<forall>ent\<in>set (g_entities g). entity_ok T m (g_capability_ids g) ent"
    and f: "\<And>n ent ix. entity_ok T m (g_capability_ids g) ent \<Longrightarrow>
      es_id (fst (f n (ent, ix))) = es_id ent
      \<and> entity_ok (trusted (g_epoch g) (g_fenced_boots g)) m (g_capability_ids g) (fst (f n (ent, ix)))"
  shows "registry_ok (update_entities f g)"
proof -
  let ?es = "fst (each_entity f 0 (g_entities g) (g_indices g))"
  note nth = each_entity_nth [of f 0 "g_entities g" "g_indices g", simplified]
  have each: "es_id (?es ! i) = es_id (g_entities g ! i)
      \<and> entity_ok (trusted (g_epoch g) (g_fenced_boots g)) m (g_capability_ids g) (?es ! i)"
    if "i < length (g_entities g)" for i
    using nth that f base(5) nth_mem [OF that] by metis
  have "map es_id ?es = map es_id (g_entities g)"
    using nth each by (intro nth_equalityI) auto
  moreover have "\<forall>ent\<in>set ?es. entity_ok (trusted (g_epoch g) (g_fenced_boots g)) m
      (g_capability_ids g) ent"
    using nth each by (metis in_set_conv_nth)
  ultimately show ?thesis
    using base by (simp add: registry_ok_def update_entities_def split_beta)
qed

lemma mark_and_refresh_ok:
  assumes "entity_ok T m ids ent"
    and "\<And>e. T e \<Longrightarrow> (\<exists>b. boot = Some b \<and> e_worker_boot e \<noteq> b)
      \<or> (\<exists>s. source = Some s \<and> e_source e \<noteq> s)
      \<or> \<not> dur \<and> e_durability e = Durable \<or> e_currentness e \<noteq> Cur_Current
      \<Longrightarrow> trusted epoch fenced e"
    and "c \<noteq> Cur_Current"
  shows "es_id (fst (mark_and_refresh g c r boot source dur n (ent, ix))) = es_id ent
    \<and> entity_ok (trusted epoch fenced) m ids (fst (mark_and_refresh g c r boot source dur n (ent, ix)))"
proof -
  have "entity_ok (trusted epoch fenced) m ids
      (fst (MarkEntity n (g_capability_ids g) c r boot source dur (ent, ix)))"
    by (rule entity_ok_Mark [OF assms(1,2)]) (use assms(3) in \<open>simp_all add: trusted_def\<close>)
  moreover have "es_id (fst (MarkEntity n (g_capability_ids g) c r boot source dur (ent, ix))) = es_id ent"
    by (simp add: fst_MarkEntity)
  ultimately show ?thesis
    by (simp add: mark_and_refresh_def split_beta) (simp add: RefreshEntity_def)
qed

lemma registry_ok_base:
  "registry_ok g \<Longrightarrow> 0 < o_max_evidence_per_capability (g_options g)
   \<and> distinct (map es_id (g_entities g)) \<and> distinct (g_capability_ids g)
   \<and> (\<forall>ent\<in>set (g_entities g). entity_ok (trusted (g_epoch g) (g_fenced_boots g))
        (o_max_evidence_per_capability (g_options g)) (g_capability_ids g) ent)"
  by (simp add: registry_ok_def)

text \<open>
  The common step of epoch advance, fencing and source invalidation: \<open>h\<close> has the entities of \<open>g\<close>
  and a stronger trust condition, which the records that are not marked satisfy.
\<close>

lemma registry_ok_marked:
  assumes ok: "registry_ok g"
    and same: "g_entities h = g_entities g" "g_options h = g_options g"
      "g_capability_ids h = g_capability_ids g"
    and trust: "\<And>e. trusted (g_epoch g) (g_fenced_boots g) e \<Longrightarrow>
      (\<exists>b. boot = Some b \<and> e_worker_boot e \<noteq> b) \<or> (\<exists>s. source = Some s \<and> e_source e \<noteq> s)
      \<or> \<not> dur \<and> e_durability e = Durable \<or> e_currentness e \<noteq> Cur_Current
      \<Longrightarrow> trusted (g_epoch h) (g_fenced_boots h) e"
    and c: "c \<noteq> Cur_Current"
    and f: "\<And>n ent ix. f n (ent, ix) = mark_and_refresh h c why boot source dur n (ent, ix)
      \<or> (f n (ent, ix) = (ent, ix) \<and> es_capabilities ent = [])"
  shows "registry_ok (update_entities f h)"
proof (rule registry_ok_update_entities [where T = "trusted (g_epoch g) (g_fenced_boots g)", OF _ refl])
  fix n ent ix
  assume e: "entity_ok (trusted (g_epoch g) (g_fenced_boots g))
    (o_max_evidence_per_capability (g_options h)) (g_capability_ids h) ent"
  show "es_id (fst (f n (ent, ix))) = es_id ent
      \<and> entity_ok (trusted (g_epoch h) (g_fenced_boots h)) (o_max_evidence_per_capability (g_options h))
        (g_capability_ids h) (fst (f n (ent, ix)))"
    using f [of n ent ix]
  proof
    assume "f n (ent, ix) = mark_and_refresh h c why boot source dur n (ent, ix)"
    then show ?thesis using mark_and_refresh_ok [OF e trust c] by simp
  next
    assume "f n (ent, ix) = (ent, ix) \<and> es_capabilities ent = []"
    with e show ?thesis by (simp add: entity_ok_def)
  qed
qed (use registry_ok_base [OF ok] same in simp_all)

section \<open>Lifecycle operations keep the invariant\<close>

lemma fence_boots_frame:
  "g_entities (fence_boots why boots g) = g_entities g
   \<and> g_options (fence_boots why boots g) = g_options g
   \<and> g_capability_ids (fence_boots why boots g) = g_capability_ids g
   \<and> g_epoch (fence_boots why boots g) = g_epoch g
   \<and> g_generation (fence_boots why boots g) = g_generation g
   \<and> g_publishers (fence_boots why boots g) = g_publishers g
   \<and> g_authorities (fence_boots why boots g) = g_authorities g"
  by (induction why boots g rule: fence_boots.induct) simp_all

lemma registry_ok_generation: "registry_ok (g\<lparr>g_generation := x\<rparr>) = registry_ok g"
  by (simp add: registry_ok_def)

lemma registry_ok_AdvanceCoordinatorEpoch:
  assumes "registry_ok g"
  shows "registry_ok (snd (AdvanceCoordinatorEpoch g reason))"
proof (cases "Counter_Next (g_epoch g)")
  case (Inr nxt)
  let ?why = "reason_or reason ''coordinator-epoch-advanced''"
  let ?g1 = "fence_boots ?why (map (\<lambda>p. snd (fst p)) (g_publishers g))
    (g\<lparr>g_epoch := nxt, g_publishers := []\<rparr>)"
  note fr = fence_boots_frame [of ?why "map (\<lambda>p. snd (fst p)) (g_publishers g)"
      "g\<lparr>g_epoch := nxt, g_publishers := []\<rparr>", simplified]
  have "registry_ok (update_entities (mark_and_refresh ?g1 Cur_RevalidationRequired ?why None None False) ?g1)"
    by (rule registry_ok_marked [OF assms, where boot = None and source = None and dur = False
          and c = Cur_RevalidationRequired and why = ?why]) (use fr in \<open>auto simp: trusted_def\<close>)
  with Inr show ?thesis
    by (simp add: AdvanceCoordinatorEpoch_def Let_def registry_ok_generation split: sum.split)
qed (use assms in \<open>simp add: AdvanceCoordinatorEpoch_def\<close>)

lemma evict_fence_frame:
  "evict_fence g = Some g' \<Longrightarrow> g_options g' = g_options g \<and> g_entities g' = g_entities g
   \<and> g_capability_ids g' = g_capability_ids g \<and> g_epoch g' = g_epoch g
   \<and> g_fenced_boots g' \<subseteq> g_fenced_boots g \<and> g_generation g' = g_generation g
   \<and> g_publishers g' = g_publishers g"
  by (auto simp: evict_fence_def split: if_splits option.splits)

lemma registry_ok_FenceWorkerBoot:
  assumes "registry_ok g"
  shows "registry_ok (snd (FenceWorkerBoot g boot reason))"
proof (cases "IsSet boot \<and> boot \<notin> g_fenced_boots g")
  case False
  with assms show ?thesis by (auto simp: FenceWorkerBoot_def)
next
  case True
  show ?thesis
  proof (cases "evict_fence g")
    case None
    with assms True show ?thesis by (simp add: FenceWorkerBoot_def)
  next
    case (Some g1)
    have ok1: "registry_ok g1"
      using evict_fence_frame [OF Some] by (intro registry_ok_cong [OF assms]) simp_all
    let ?why = "reason_or reason ''worker-boot-fenced''"
    have fenced: "registry_ok (update_entities
        (mark_and_refresh h Cur_Fenced ?why (Some boot) None False) h)"
      if "g_entities h = g_entities g1" "g_options h = g_options g1"
        "g_capability_ids h = g_capability_ids g1" "g_epoch h = g_epoch g1"
        "g_fenced_boots h = insert boot (g_fenced_boots g1)" for h
      by (rule registry_ok_marked [OF ok1, where boot = "Some boot" and source = None
            and dur = False and c = Cur_Fenced and why = ?why]) (use that in \<open>auto simp: trusted_def\<close>)
    show ?thesis
      using True Some
      by (simp add: FenceWorkerBoot_def Let_def registry_ok_generation fenced split: sum.split)
  qed
qed

lemma registry_ok_ObserveEntityGeneration:
  assumes ok: "registry_ok g"
  shows "registry_ok (snd (ObserveEntityGeneration g entity generation reason))"
proof (cases "FindEntity g entity")
  case None
  with ok registry_ok_create [OF ok None] show ?thesis
    by (simp add: ObserveEntityGeneration_def Counter_IsSet_def)
next
  case (Some n)
  note n = FindEntity_Some [OF Some]
  have ne: "es_current_generation (g_entities g ! n) \<noteq> 0"
    using registry_ok_entity [OF ok] n by (simp add: entity_ok_def)
  have "registry_ok (retire_entity n generation why g)"
    "registry_ok (touch_entity n ((retire_entity n generation why g)\<lparr>g_generation := a\<rparr>))"
    if "generation \<noteq> 0" for why a
  proof -
    show r: "registry_ok (retire_entity n generation why g)"
      using n that by (simp add: registry_ok_retire [OF ok])
    have "length (g_entities (retire_entity n generation why g)) = length (g_entities g)"
      by (simp add: retire_entity_def put_entity_def split_beta Let_def)
    then show "registry_ok (touch_entity n ((retire_entity n generation why g)\<lparr>g_generation := a\<rparr>))"
      using r n by (intro registry_ok_touch) (simp_all add: registry_ok_generation)
  qed
  with ok Some ne show ?thesis
    by (simp add: ObserveEntityGeneration_def Let_def Counter_IsSet_def split: sum.split)
qed

lemma registry_ok_InvalidateEntity:
  assumes ok: "registry_ok g"
  shows "registry_ok (snd (InvalidateEntity g entity generation reason))"
proof (cases "FindEntity g entity")
  case None
  with ok show ?thesis by (simp add: InvalidateEntity_def)
next
  case (Some n)
  then have n: "n < length (g_entities g)" by (simp add: FindEntity_Some)
  let ?why = "reason_or reason ''entity-invalidated''"
  let ?m = "MarkEntity n (g_capability_ids g) Cur_RevalidationRequired ?why None None True
    (g_entities g ! n, g_indices g)"
  have marked: "entity_ok (trusted (g_epoch g) (g_fenced_boots g))
      (o_max_evidence_per_capability (g_options g)) (g_capability_ids g) (fst ?m)"
    by (rule entity_ok_Mark [OF registry_ok_entity [OF ok n]]) (auto simp: trusted_def)
  have id: "es_id (fst ?m) = es_id (g_entities g ! n)" by (simp add: fst_MarkEntity)
  have ix: "registry_ok (g\<lparr>g_indices := x\<rparr>)" for x using ok by (simp add: registry_ok_def)
  have put: "registry_ok (put_entity n ent (g\<lparr>g_indices := x\<rparr>))"
    if "ent = fst ?m \<or> ent = (fst ?m)\<lparr>es_invalidated := True, es_invalidation_reason := ?why\<rparr>
      \<or> ent = RefreshEntity (g_generation g) (fst ?m)
      \<or> ent = RefreshEntity (g_generation g) ((fst ?m)\<lparr>es_invalidated := True, es_invalidation_reason := ?why\<rparr>)"
    for ent x
    using that marked id n
    by (intro registry_ok_put [OF ix])
      (auto simp: RefreshEntity_def intro: entity_ok_cong [OF marked])
  have touch: "registry_ok (touch_entity n ((put_entity n ent h)\<lparr>g_generation := a\<rparr>))"
    if "registry_ok (put_entity n ent h)" "n < length (g_entities h)" for ent h a
    using that by (intro registry_ok_touch) (simp_all add: registry_ok_generation put_entity_def)
  show ?thesis
    using Some ok n
    by (simp add: InvalidateEntity_def Let_def split_beta put touch split: sum.split)
qed

lemma registry_ok_InvalidateSource:
  assumes ok: "registry_ok g"
  shows "registry_ok (snd (InvalidateSource g source reason))"
proof -
  let ?why = "reason_or reason ''source-invalidated''"
  have "registry_ok (update_entities (\<lambda>n st. if es_capabilities (fst st) = [] then st
      else mark_and_refresh g Cur_RevalidationRequired ?why None (Some source) True n st) g)"
    by (rule registry_ok_marked [OF ok, where boot = None and source = "Some source"
          and dur = True and c = Cur_RevalidationRequired and why = ?why]) auto
  with ok show ?thesis
    by (simp add: InvalidateSource_def Let_def registry_ok_generation split: sum.split)
qed

lemma registry_ok_frames:
  assumes "registry_ok g"
  shows "registry_ok (snd (DeclareAuthority g grant))"
    "registry_ok (snd (RegisterPublisher g publisher scope boot))"
    "registry_ok (snd (RetirePublisher g publisher boot))"
    "registry_ok (snd (Registry_RegisterVendorDescriptor g d))"
proof -
  note cong = registry_ok_cong [OF assms]
  show "registry_ok (snd (DeclareAuthority g grant))"
    by (rule cong) (simp_all add: DeclareAuthority_def split: sum.split option.split)
  show "registry_ok (snd (RegisterPublisher g publisher scope boot))"
    by (rule cong) (simp_all add: RegisterPublisher_def Let_def split: option.split)
  show "registry_ok (snd (RetirePublisher g publisher boot))"
    by (rule cong) (simp_all add: RetirePublisher_def split: option.split)
  show "registry_ok (snd (Registry_RegisterVendorDescriptor g d))"
    by (rule cong) (simp_all add: Registry_RegisterVendorDescriptor_def split_beta)
qed

section \<open>Entries that are found\<close>

lemma FindEntry_Some:
  assumes ok: "registry_ok g" and n: "n < length (g_entities g)"
    and e: "FindEntry g (g_entities g ! n) c = Some entry"
  shows "ce_id entry = c
    \<and> entry_ok (trusted (g_epoch g) (g_fenced_boots g)) (o_max_evidence_per_capability (g_options g))
        (es_id (g_entities g ! n)) (es_current_generation (g_entities g ! n)) entry"
proof -
  obtain key where key: "index_where (\<lambda>d. d = c) (g_capability_ids g) = Some key"
    and entry: "map_of (es_capabilities (g_entities g ! n)) key = Some entry"
    using e by (auto simp: FindEntry_def split: option.splits)
  note ent = registry_ok_entity [OF ok n]
  have "es_bound_generation (g_entities g ! n) = es_current_generation (g_entities g ! n)"
    using ent by (simp add: entity_ok_def)
  with entity_ok_entry [OF ent map_of_SomeD [OF entry]] index_where_Some [OF key]
  show ?thesis by auto
qed

end
