(* ===== verification/StoreFormat.thy ===== *)
theory StoreFormat
  imports EvidenceOps
begin

text \<open>
  What the registry puts into its durable store and what it makes of it again: the stored records of
  \<open>src/src/internal/store_format.hpp\<close>, the payload \<open>CapabilityRegistry::Save\<close> builds from the
  registry and the registry \<open>CapabilityRegistry::Load\<close> builds from a payload
  (\<open>src/src/registry.cpp\<close>), with the report of a load (\<open>publication.hpp\<close>).
\<close>

section \<open>The durable store\<close>

record stored_capability =
  kp_id :: capability_id
  kp_generation :: counter

record stored_claim =
  kc_capability :: capability_id
  kc_id :: token
  kc_source :: token
  kc_publisher :: token
  kc_scope :: token
  kc_worker_boot :: token
  kc_epoch :: counter
  kc_source_generation :: counter
  kc_evidence_generation :: counter
  kc_attempt :: token
  kc_publication :: token
  kc_provenance :: provenance_class
  kc_source_class :: evidence_source_class
  kc_durability :: durability_class
  kc_coverage :: coverage_class
  kc_state :: capability_state
  kc_value :: capability_value
  kc_firmware_version :: token
  kc_driver_version :: token
  kc_reason :: token
  kc_currentness :: evidence_currentness

record stored_source_floor =
  sf_source :: token
  sf_worker_boot :: token
  sf_generation :: counter

record stored_generation =
  sg_generation :: counter
  sg_set_generation :: counter
  sg_digest :: digest
  sg_capability_count :: u64
  sg_supported_count :: u64
  sg_retired_at :: counter
  sg_reason :: token

record stored_entity =
  sy_id :: entity_id
  sy_current_generation :: counter
  sy_bound_generation :: counter
  sy_has_set :: bool
  sy_set_generation :: counter
  sy_invalidated :: bool
  sy_invalidation_reason :: token
  sy_capabilities :: "stored_capability list"
  sy_claims :: "stored_claim list"
  sy_source_floors :: "stored_source_floor list"
  sy_history :: "stored_generation list"

record stored_fence =
  so_worker_boot :: token
  so_publisher :: token
  so_reason :: token

record stored_registration =
  sr_publisher :: token
  sr_worker_boot :: token
  sr_scope :: token

record store_payload =
  sp_epoch :: counter
  sp_registry_generation :: counter
  sp_authorities :: "authority_grant list"
  sp_fences :: "stored_fence list"
  sp_registrations :: "stored_registration list"
  sp_entities :: "stored_entity list"

definition payload_empty :: store_payload where
  "payload_empty = \<lparr>sp_epoch = 0, sp_registry_generation = 0, sp_authorities = [], sp_fences = [],
     sp_registrations = [], sp_entities = []\<rparr>"

section \<open>Save\<close>

definition store_claim :: "capability_id \<Rightarrow> evidence_record \<Rightarrow> stored_claim" where
  "store_claim c e =
     \<lparr>kc_capability = c, kc_id = e_id e, kc_source = e_source e,
      kc_publisher = e_publisher e, kc_scope = e_scope e, kc_worker_boot = e_worker_boot e,
      kc_epoch = e_epoch e, kc_source_generation = e_source_generation e,
      kc_evidence_generation = e_evidence_generation e, kc_attempt = e_attempt e,
      kc_publication = e_publication e, kc_provenance = e_provenance e,
      kc_source_class = e_source_class e, kc_durability = e_durability e,
      kc_coverage = e_coverage e, kc_state = e_state e, kc_value = e_value e,
      kc_firmware_version = e_firmware_version e, kc_driver_version = e_driver_version e, kc_reason = e_reason e,
      kc_currentness = e_currentness e\<rparr>"

definition persisted :: "evidence_record \<Rightarrow> bool" where
  "persisted e \<longleftrightarrow> IsCurrent (e_currentness e) \<or> e_currentness e = Cur_RevalidationRequired
     \<or> e_currentness e = Cur_Fenced"

definition store_claims :: "capability_entry \<Rightarrow> stored_claim list" where
  "store_claims entry = map (store_claim (ce_id entry)) (filter persisted (ce_evidence entry))"

definition store_generation :: "retained_generation \<Rightarrow> stored_generation" where
  "store_generation r =
     (let s = rt_summary r in
      \<lparr>sg_generation = gs_generation s, sg_set_generation = gs_set_generation s,
       sg_digest = gs_digest s, sg_capability_count = word_of_nat (gs_capability_count s),
       sg_supported_count = word_of_nat (gs_supported_count s), sg_retired_at = gs_retired_at s,
       sg_reason = gs_reason s\<rparr>)"

text \<open>The source floors in the order of the \<open>std::map\<close>: by source, then boot.\<close>

definition store_floors :: "(source_key \<rightharpoonup> counter) \<Rightarrow> stored_source_floor list" where
  "store_floors m = map (\<lambda>k. \<lparr>sf_source = fst k, sf_worker_boot = snd k, sf_generation = the (m k)\<rparr>)
     (sorted_list_of_set (dom m))"

text \<open>
  Claims that agree in the sort key (same source and evidence generation under two boots) come in
  an order \<open>std::sort\<close> does not fix; the model keeps their order.
\<close>

definition store_entity :: "entity_state \<Rightarrow> stored_entity" where
  "store_entity ent =
     (let entries = map snd (es_capabilities ent) in
      \<lparr>sy_id = es_id ent, sy_current_generation = es_current_generation ent,
       sy_bound_generation = es_bound_generation ent, sy_has_set = es_has_set ent,
       sy_set_generation = es_set_generation ent, sy_invalidated = es_invalidated ent,
       sy_invalidation_reason = es_invalidation_reason ent,
       sy_capabilities = sort_key (\<lambda>c. cap_rendered (kp_id c))
         (map (\<lambda>entry. \<lparr>kp_id = ce_id entry, kp_generation = ce_generation entry\<rparr>) entries),
       sy_claims = sort_key (\<lambda>c. (cap_rendered (kc_capability c), kc_source c, kc_evidence_generation c))
         (concat (map store_claims entries)),
       sy_source_floors = store_floors (es_source_high_water ent),
       sy_history = map store_generation (es_history ent)\<rparr>)"

definition SavePayload :: "registry \<Rightarrow> store_payload" where
  "SavePayload g =
     \<lparr>sp_epoch = g_epoch g, sp_registry_generation = g_generation g,
      sp_authorities = sort_key ag_scope (g_authorities g),
      sp_fences = sort_key so_worker_boot
        (map (\<lambda>f. \<lparr>so_worker_boot = fn_worker_boot f, so_publisher = fn_publisher f,
                    so_reason = fn_reason f\<rparr>) (g_fences g)),
      sp_registrations = sort_key (\<lambda>r. (sr_publisher r, sr_worker_boot r))
        (map (\<lambda>p. \<lparr>sr_publisher = fst (fst p), sr_worker_boot = snd (fst p),
                    sr_scope = pb_scope (rn_registration (snd p))\<rparr>)
          (filter (\<lambda>p. rn_active (snd p)) (g_publishers g))),
      sp_entities = map store_entity (sort_key (\<lambda>ent. ent_rendered (es_id ent)) (g_entities g))\<rparr>"

section \<open>Load\<close>

record load_report =
  lr_entities_loaded :: nat
  lr_evidence_loaded :: nat
  lr_evidence_revalidation_required :: nat
  lr_durable_evidence_retained :: nat
  lr_fenced_worker_boots :: nat
  lr_authority_grants :: nat
  lr_generations_recovered :: nat
  lr_epoch :: counter
  lr_registry_generation :: counter
  lr_store_digest :: digest
  lr_created_empty :: bool

definition report_new :: load_report where
  "report_new = \<lparr>lr_entities_loaded = 0, lr_evidence_loaded = 0,
     lr_evidence_revalidation_required = 0, lr_durable_evidence_retained = 0,
     lr_fenced_worker_boots = 0, lr_authority_grants = 0, lr_generations_recovered = 0,
     lr_epoch = 0, lr_registry_generation = 0, lr_store_digest = Digest_zero,
     lr_created_empty = False\<rparr>"

text \<open>The currentness a stored claim comes back with.\<close>

definition reloaded_currentness :: "stored_claim \<Rightarrow> evidence_currentness" where
  "reloaded_currentness c =
     (if kc_currentness c = Cur_Fenced then Cur_Fenced
      else if kc_durability c = Durable then Cur_Current
      else Cur_RevalidationRequired)"

definition reload_claim ::
  "counter \<Rightarrow> entity_id \<Rightarrow> counter \<Rightarrow> u64 \<Rightarrow> stored_claim \<Rightarrow> evidence_record" where
  "reload_claim rg ent bound arrival c =
     \<lparr>e_id = kc_id c, e_capability = kc_capability c, e_entity = ent,
      e_entity_generation = bound, e_source = kc_source c, e_publisher = kc_publisher c,
      e_scope = kc_scope c, e_worker_boot = kc_worker_boot c, e_epoch = kc_epoch c,
      e_source_generation = kc_source_generation c, e_evidence_generation = kc_evidence_generation c,
      e_attempt = kc_attempt c, e_publication = kc_publication c,
      e_provenance = kc_provenance c, e_source_class = kc_source_class c,
      e_durability = kc_durability c, e_coverage = kc_coverage c,
      e_state = kc_state c, e_value = kc_value c,
      e_firmware_version = kc_firmware_version c, e_driver_version = kc_driver_version c,
      e_reason = kc_reason c, e_currentness = reloaded_currentness c, e_accepted_generation = rg,
      e_arrival_sequence = arrival\<rparr>"

text \<open>The shared state of the loops: one entity under construction.\<close>

definition entry_at :: "entity_state \<Rightarrow> nat \<Rightarrow> capability_entry" where
  "entry_at ent key = (case map_of (es_capabilities ent) key of Some e \<Rightarrow> e | None \<Rightarrow> entry_default)"

definition load_capability :: "stored_capability \<Rightarrow> work \<Rightarrow> work" where
  "load_capability c w =
     (if \<not> CapabilityId_IsSet (kp_id c) then w
      else
        let (key, ids) = CapabilityKey (w_ids w) (kp_id c);
            entry = (entry_at (w_entity w) key)\<lparr>ce_id := kp_id c, ce_generation := kp_generation c\<rparr>
        in w\<lparr>w_entity := put_entry key entry (w_entity w), w_ids := ids,
             w_indices := TouchNamespace (kp_id c) (w_indices w)\<rparr>)"

definition load_claim :: "counter \<Rightarrow> stored_claim \<Rightarrow> work \<Rightarrow> work" where
  "load_claim rg c w =
     (if \<not> CapabilityId_IsSet (kc_capability c) then w
      else
        let (key, ids) = CapabilityKey (w_ids w) (kc_capability c);
            entry = (entry_at (w_entity w) key)\<lparr>ce_id := kc_capability c\<rparr>;
            rec = reload_claim rg (es_id (w_entity w)) (es_bound_generation (w_entity w))
                    (w_arrival w + 1) c
        in w\<lparr>w_entity := put_entry key (entry\<lparr>ce_evidence := ce_evidence entry @ [rec]\<rparr>) (w_entity w),
             w_ids := ids, w_indices := IndexEvidence rec (w_indices w),
             w_arrival := w_arrival w + 1\<rparr>)"

definition load_floor ::
  "stored_source_floor \<Rightarrow> (source_key \<rightharpoonup> counter) \<Rightarrow> (source_key \<rightharpoonup> counter)" where
  "load_floor f m =
     (if IsSet (sf_source f) then m((sf_source f, sf_worker_boot f) \<mapsto> sf_generation f) else m)"

definition load_generation :: "stored_generation \<Rightarrow> retained_generation" where
  "load_generation s =
     \<lparr>rt_summary = \<lparr>gs_generation = sg_generation s, gs_set_generation = sg_set_generation s,
        gs_digest = sg_digest s, gs_capability_count = unat (sg_capability_count s),
        gs_supported_count = unat (sg_supported_count s), gs_retired_at = sg_retired_at s,
        gs_reason = sg_reason s\<rparr>,
      rt_capability_ids = []\<rparr>"

definition restored_entity :: "counter \<Rightarrow> stored_entity \<Rightarrow> entity_state" where
  "restored_entity rg s =
     \<lparr>es_id = sy_id s, es_current_generation = sy_current_generation s, es_touched_at = rg,
      es_has_set = sy_has_set s,
      es_bound_generation = (if Counter_IsSet (sy_bound_generation s) then sy_bound_generation s
                             else sy_current_generation s),
      es_set_generation = sy_set_generation s, es_invalidated = sy_invalidated s,
      es_invalidation_reason = sy_invalidation_reason s, es_capabilities = [],
      es_source_high_water = fold load_floor (sy_source_floors s) Map.empty,
      es_history = map load_generation
        (filter (\<lambda>h. Counter_IsSet (sg_generation h)) (sy_history s)),
      es_set = None\<rparr>"

text \<open>
  One entity of the payload: its capabilities, claims, floors and history, then the resolution of
  every capability and the materialised set. \<open>entity_keys_\<close> keeps the first position of an identity.
\<close>

definition load_entity :: "stored_entity \<Rightarrow> registry \<Rightarrow> registry" where
  "load_entity s g =
     (if \<not> EntityId_IsSet (sy_id s) then g
      else
        let rg = g_generation g;
            entity_key = (case FindEntity g (sy_id s) of Some n \<Rightarrow> n | None \<Rightarrow> length (g_entities g));
            w = \<lparr>w_entity = restored_entity rg s, w_ids = g_capability_ids g,
                 w_indices = g_indices g, w_arrival = g_arrival_sequence g\<rparr>;
            w = fold load_capability (sy_capabilities s) w;
            w = fold (load_claim rg) (sy_claims s) w;
            ent = w_entity w;
            (caps, ix) = each_capability (\<lambda>key entry ix. ResolveCapability entity_key ent key entry ix)
              (es_capabilities ent) (w_indices w);
            ent = ent\<lparr>es_capabilities := caps\<rparr>;
            ent = ent\<lparr>es_set := Some (Materialize rg ent)\<rparr>
        in g\<lparr>g_entities := g_entities g @ [ent], g_capability_ids := w_ids w, g_indices := ix,
             g_arrival_sequence := w_arrival w\<rparr>)"

definition load_fence :: "stored_fence \<Rightarrow> registry \<Rightarrow> registry" where
  "load_fence s g =
     (if \<not> IsSet (so_worker_boot s) then g
      else g\<lparr>g_fenced_boots := insert (so_worker_boot s) (g_fenced_boots g),
             g_fences := g_fences g @ [\<lparr>fn_worker_boot = so_worker_boot s, fn_publisher = so_publisher s,
               fn_reason = so_reason s, fn_fenced_at = g_generation g\<rparr>]\<rparr>)"

definition load_registration :: "stored_registration \<Rightarrow> registry \<Rightarrow> registry" where
  "load_registration s g =
     (if \<not> IsSet (sr_publisher s) \<or> \<not> IsSet (sr_worker_boot s)
        \<or> sr_worker_boot s \<in> g_fenced_boots g then g
      else
        let key = (sr_publisher s, sr_worker_boot s);
            old = (case map_of (g_publishers g) key of Some r \<Rightarrow> r | None \<Rightarrow> runtime_new)
        in g\<lparr>g_publishers := AList.update key
             (old\<lparr>rn_registration := \<lparr>pb_publisher = sr_publisher s, pb_scope = sr_scope s,
                pb_worker_boot = sr_worker_boot s, pb_epoch = g_epoch g,
                pb_accepted_generation = g_generation g\<rparr>, rn_active := False\<rparr>) (g_publishers g)\<rparr>)"

definition cleared :: "registry \<Rightarrow> store_payload \<Rightarrow> registry" where
  "cleared g payload =
     g\<lparr>g_entities := [], g_capability_ids := [], g_indices := indices_empty, g_publishers := [],
       g_fenced_boots := {}, g_fences := [], g_authorities := [], g_journal := [],
       g_journal_order := [], g_attempt_journal := Map.empty, g_arrival_sequence := 0,
       g_epoch := (if Counter_IsSet (sp_epoch payload) then sp_epoch payload else 1),
       g_generation := sp_registry_generation payload\<rparr>"

definition LoadPayload :: "store_payload \<Rightarrow> registry \<Rightarrow> registry" where
  "LoadPayload payload g =
     (let g = cleared g payload;
          g = g\<lparr>g_authorities := filter (\<lambda>a. IsSet (ag_scope a)) (sp_authorities payload)\<rparr>;
          g = fold load_fence (sp_fences payload) g;
          g = fold load_registration (sp_registrations payload) g
      in fold load_entity (sp_entities payload) g)"

text \<open>
  The report: \<open>read\<close> is what reading the store already filled in; the counters of grants and fences
  are advanced once more for every grant and fence that is restored.
\<close>

definition loaded_claims :: "store_payload \<Rightarrow> stored_claim list" where
  "loaded_claims payload = filter (\<lambda>c. CapabilityId_IsSet (kc_capability c))
     (concat (map sy_claims (filter (\<lambda>s. EntityId_IsSet (sy_id s)) (sp_entities payload))))"

definition LoadReport_of :: "load_report \<Rightarrow> store_payload \<Rightarrow> registry \<Rightarrow> load_report" where
  "LoadReport_of read payload g =
     (let claims = loaded_claims payload;
          ents = filter (\<lambda>s. EntityId_IsSet (sy_id s)) (sp_entities payload);
          unfenced = filter (\<lambda>c. kc_currentness c \<noteq> Cur_Fenced) claims
      in read\<lparr>
        lr_authority_grants := lr_authority_grants read
          + length (filter (\<lambda>a. IsSet (ag_scope a)) (sp_authorities payload)),
        lr_fenced_worker_boots := lr_fenced_worker_boots read
          + length (filter (\<lambda>f. IsSet (so_worker_boot f)) (sp_fences payload)),
        lr_entities_loaded := lr_entities_loaded read + length ents,
        lr_evidence_loaded := lr_evidence_loaded read + length claims,
        lr_durable_evidence_retained := lr_durable_evidence_retained read
          + length (filter (\<lambda>c. kc_durability c = Durable) unfenced),
        lr_evidence_revalidation_required := lr_evidence_revalidation_required read
          + length (filter (\<lambda>c. kc_durability c \<noteq> Durable) unfenced),
        lr_generations_recovered := lr_generations_recovered read
          + length (filter (\<lambda>h. Counter_IsSet (sg_generation h)) (concat (map sy_history ents))),
        lr_epoch := g_epoch g, lr_registry_generation := g_generation g\<rparr>)"

end
