(* ===== verification/Restart.thy ===== *)
theory Restart
  imports RegistryInvariant StoreFormat
begin

text \<open>
  What a registry is after its state has been saved and loaded: the identities, generations and
  fences are those that were saved, and for every capability of every entity the evidence is, up to
  the bookkeeping of its acceptance, the live evidence with the currentness a restart leaves it.
  The invariant of the registry survives.
\<close>

section \<open>Evidence, up to the bookkeeping of its acceptance\<close>

definition forget :: "evidence_record \<Rightarrow> evidence_record" where
  "forget e = e\<lparr>e_accepted_generation := 0, e_arrival_sequence := 0\<rparr>"

definition evidence_of :: "registry \<Rightarrow> entity_state \<Rightarrow> capability_id \<Rightarrow> evidence_record list" where
  "evidence_of g ent c = (case FindEntry g ent c of None \<Rightarrow> [] | Some x \<Rightarrow> ce_evidence x)"

definition evidence_at :: "registry \<Rightarrow> entity_id \<Rightarrow> capability_id \<Rightarrow> evidence_record list" where
  "evidence_at g i c =
     (case FindEntity g i of None \<Rightarrow> [] | Some n \<Rightarrow> evidence_of g (g_entities g ! n) c)"

section \<open>One entity is rebuilt\<close>

text \<open>Every entry has its key, and its evidence is what the claims about it are reloaded to.\<close>

definition keyed_entries :: "capability_id list \<Rightarrow> entity_state \<Rightarrow> bool" where
  "keyed_entries ids ent \<longleftrightarrow> ordered_keys (es_capabilities ent)
     \<and> (\<forall>(k, x) \<in> set (es_capabilities ent). k < length ids \<and> ids ! k = ce_id x)"

definition gathered :: "counter \<Rightarrow> stored_claim list \<Rightarrow> entity_state \<Rightarrow> bool" where
  "gathered rg cs ent \<longleftrightarrow>
     (\<forall>(k, x) \<in> set (es_capabilities ent).
        map forget (ce_evidence x) = map (\<lambda>c. forget (reload_claim rg (es_id ent)
            (es_bound_generation ent) 0 c)) (filter (\<lambda>c. kc_capability c = ce_id x) cs))
     \<and> (\<forall>c\<in>set cs. CapabilityId_IsSet (kc_capability c) \<longrightarrow>
          (\<exists>(k, x) \<in> set (es_capabilities ent). ce_id x = kc_capability c))"

lemma forget_reload: "forget (reload_claim rg i b n c) = forget (reload_claim rg i b 0 c)"
  by (simp add: forget_def reload_claim_def)

lemma entry_at_cases:
  "ordered_keys (es_capabilities ent) \<Longrightarrow>
   (key, entry_at ent key) \<in> set (es_capabilities ent)
   \<or> (entry_at ent key = entry_default \<and> key \<notin> fst ` set (es_capabilities ent))"
  by (auto simp: entry_at_def map_of_eq_None_iff dest: map_of_SomeD split: option.splits)

lemma keyed_put:
  assumes "keyed_entries ids ent" and "CapabilityKey ids c = (key, ids')" and "ce_id x = c"
  shows "keyed_entries ids' (put_entry key x ent)"
  using assms CapabilityKey_facts [OF assms(2)]
  by (auto simp: keyed_entries_def put_entry_def ordered_keys_put set_ordered_put nth_append)

text \<open>With distinct identifiers a key and its capability determine each other.\<close>

lemma keyed_id:
  assumes "keyed_entries ids ent" and "distinct ids" and "CapabilityKey ids c = (key, ids')"
    and "(k, x) \<in> set (es_capabilities ent)"
  shows "ce_id x = c \<longleftrightarrow> k = key"
proof -
  have k: "k < length ids" "ids ! k = ce_id x" using assms(1,4) by (auto simp: keyed_entries_def)
  obtain xs where ids': "ids' = ids @ xs" "key < length ids'" "ids' ! key = c" "distinct ids'"
    using CapabilityKey_facts [OF assms(3)] assms(2) by auto
  then have "ids' ! k = ce_id x" "k < length ids'" using k by (simp_all add: nth_append)
  with ids' show ?thesis by (metis nth_eq_iff_index_eq)
qed

lemma load_capability_frame:
  "\<exists>xs. w_ids (load_capability c w) = w_ids w @ xs"
  "distinct (w_ids w) \<Longrightarrow> distinct (w_ids (load_capability c w))"
  "(w_entity (load_capability c w))\<lparr>es_capabilities := caps\<rparr> = (w_entity w)\<lparr>es_capabilities := caps\<rparr>"
  using CapabilityKey_facts [of "w_ids w" "kp_id c"]
  by (auto simp: load_capability_def Let_def frame_put_entry split: prod.splits)

lemma load_claim_frame:
  "\<exists>xs. w_ids (load_claim rg c w) = w_ids w @ xs"
  "distinct (w_ids w) \<Longrightarrow> distinct (w_ids (load_claim rg c w))"
  "(w_entity (load_claim rg c w))\<lparr>es_capabilities := caps\<rparr> = (w_entity w)\<lparr>es_capabilities := caps\<rparr>"
  using CapabilityKey_facts [of "w_ids w" "kc_capability c"]
  by (auto simp: load_claim_def Let_def frame_put_entry split: prod.splits)

lemma load_capability_gathered:
  assumes "keyed_entries (w_ids w) (w_entity w)" and "gathered rg [] (w_entity w)"
  shows "keyed_entries (w_ids (load_capability c w)) (w_entity (load_capability c w))
    \<and> gathered rg [] (w_entity (load_capability c w))"
proof (cases "CapabilityId_IsSet (kp_id c)")
  case True
  obtain key ids' where k: "CapabilityKey (w_ids w) (kp_id c) = (key, ids')" by fastforce
  have o: "ordered_keys (es_capabilities (w_entity w))" using assms(1) by (simp add: keyed_entries_def)
  have "ce_evidence (entry_at (w_entity w) key) = []"
    using entry_at_cases [OF o, of key] assms(2) by (auto simp: gathered_def entry_default_def)
  with True k assms(2) keyed_put [OF assms(1) k] show ?thesis
    by (auto simp: load_capability_def Let_def gathered_def put_entry_def set_ordered_put [OF o])
qed (simp add: assms load_capability_def)

lemma load_claim_gathered:
  assumes k0: "keyed_entries (w_ids w) (w_entity w)" and g: "gathered rg cs (w_entity w)"
    and d: "distinct (w_ids w)"
    and set: "\<forall>(k, x) \<in> set (es_capabilities (w_entity w)). CapabilityId_IsSet (ce_id x)"
  shows "keyed_entries (w_ids (load_claim rg c w)) (w_entity (load_claim rg c w))
    \<and> gathered rg (cs @ [c]) (w_entity (load_claim rg c w))
    \<and> (\<forall>(k, x) \<in> set (es_capabilities (w_entity (load_claim rg c w))). CapabilityId_IsSet (ce_id x))"
proof (cases "CapabilityId_IsSet (kc_capability c)")
  case False
  then have "kc_capability c \<noteq> ce_id x" if "(k, x) \<in> set (es_capabilities (w_entity w))" for k x
    using set that by auto
  with False show ?thesis using assms by (fastforce simp: load_claim_def gathered_def)
next
  case True
  let ?ent = "w_entity w"
  obtain key ids' where k: "CapabilityKey (w_ids w) (kc_capability c) = (key, ids')" by fastforce
  have o: "ordered_keys (es_capabilities ?ent)" using k0 by (simp add: keyed_entries_def)
  let ?rec = "reload_claim rg (es_id ?ent) (es_bound_generation ?ent) (w_arrival w + 1) c"
  let ?x = "(entry_at ?ent key)\<lparr>ce_id := kc_capability c,
      ce_evidence := ce_evidence (entry_at ?ent key) @ [?rec]\<rparr>"
  have new: "w_entity (load_claim rg c w) = put_entry key ?x ?ent" "w_ids (load_claim rg c w) = ids'"
    using True k by (simp_all add: load_claim_def Let_def)
  have caps: "set (es_capabilities (put_entry key ?x ?ent))
      = insert (key, ?x) {p \<in> set (es_capabilities ?ent). fst p \<noteq> key}"
    by (simp add: put_entry_def set_ordered_put [OF o])
  have id: "ce_id x = kc_capability c \<longleftrightarrow> j = key" if "(j, x) \<in> set (es_capabilities ?ent)" for j x
    by (rule keyed_id [OF k0 d k that])
  have old: "map forget (ce_evidence (entry_at ?ent key)) = map (\<lambda>c. forget (reload_claim rg
      (es_id ?ent) (es_bound_generation ?ent) 0 c)) (filter (\<lambda>d. kc_capability d = kc_capability c) cs)"
    using entry_at_cases [OF o, of key]
  proof
    assume m: "(key, entry_at ?ent key) \<in> set (es_capabilities ?ent)"
    with id [OF m] g show ?thesis by (auto simp: gathered_def)
  next
    assume n: "entry_at ?ent key = entry_default \<and> key \<notin> fst ` set (es_capabilities ?ent)"
    have "kc_capability d \<noteq> kc_capability c" if "d \<in> set cs" for d
    proof
      assume e: "kc_capability d = kc_capability c"
      with g that True obtain j x where "(j, x) \<in> set (es_capabilities ?ent)" "ce_id x = kc_capability c"
        by (fastforce simp: gathered_def)
      with id n show False by force
    qed
    with n show ?thesis by (simp add: entry_default_def filter_False)
  qed
  have "keyed_entries ids' (put_entry key ?x ?ent)" by (rule keyed_put [OF k0 k]) simp
  moreover have "gathered rg (cs @ [c]) (put_entry key ?x ?ent)"
    unfolding gathered_def caps
    using old id g by (fastforce simp: gathered_def put_entry_def forget_reload [of _ _ _ "w_arrival w + 1"])
  ultimately show ?thesis using new caps set True by auto
qed

definition set_ids :: "entity_state \<Rightarrow> bool" where
  "set_ids ent \<longleftrightarrow> (\<forall>(k, x) \<in> set (es_capabilities ent). CapabilityId_IsSet (ce_id x))"

lemma load_capability_set:
  "ordered_keys (es_capabilities (w_entity w)) \<Longrightarrow> set_ids (w_entity w) \<Longrightarrow>
     set_ids (w_entity (load_capability c w))"
  by (auto simp: load_capability_def Let_def set_ids_def put_entry_def set_ordered_put split: prod.splits)

definition loading :: "counter \<Rightarrow> capability_id list \<Rightarrow> entity_state \<Rightarrow> stored_claim list \<Rightarrow> work \<Rightarrow> bool" where
  "loading rg ids ent cs w \<longleftrightarrow> keyed_entries (w_ids w) (w_entity w) \<and> gathered rg cs (w_entity w)
     \<and> set_ids (w_entity w) \<and> distinct (w_ids w) \<and> (\<exists>xs. w_ids w = ids @ xs)
     \<and> (w_entity w)\<lparr>es_capabilities := []\<rparr> = ent"

lemma loading_capability:
  "loading rg ids ent [] w \<Longrightarrow> loading rg ids ent [] (load_capability c w)"
  using load_capability_frame [where c = c and w = w] load_capability_gathered [of w rg c] load_capability_set [of w c]
  by (auto simp: loading_def keyed_entries_def)

lemma loading_claim:
  assumes "loading rg ids ent cs w"
  shows "loading rg ids ent (cs @ [c]) (load_claim rg c w)"
  using load_claim_frame [where rg = rg and c = c and w = w] load_claim_gathered [of w rg cs c] assms
  by (auto simp: loading_def set_ids_def)

lemma loading_capabilities:
  "loading rg ids ent [] w \<Longrightarrow> loading rg ids ent [] (fold load_capability cs w)"
  by (induction cs arbitrary: w) (auto intro: loading_capability)

lemma loading_claims:
  "loading rg ids ent ds w \<Longrightarrow> loading rg ids ent (ds @ cs) (fold (load_claim rg) cs w)"
proof (induction cs arbitrary: ds w)
  case (Cons c cs)
  from Cons.IH [OF loading_claim [OF Cons.prems, of c]] show ?case by simp
qed simp

text \<open>What \<open>load_entity\<close> makes of one stored entity.\<close>

definition rebuilt :: "counter \<Rightarrow> capability_id list \<Rightarrow> stored_entity \<Rightarrow> entity_state \<Rightarrow> bool" where
  "rebuilt rg ids s ent \<longleftrightarrow> keyed_entries ids ent \<and> gathered rg (sy_claims s) ent
     \<and> (\<forall>(k, x) \<in> set (es_capabilities ent). ce_resolution x =
          resolve (es_id ent) (es_bound_generation ent) (ce_id x) (ce_generation x) (ce_evidence x))
     \<and> ent\<lparr>es_capabilities := [], es_set := None\<rparr> = restored_entity rg s"

lemma rebuilt_append: "rebuilt rg ids s ent \<Longrightarrow> rebuilt rg (ids @ xs) s ent"
  by (auto simp: rebuilt_def keyed_entries_def nth_append)

lemma each_capability_image:
  "ordered_keys caps \<Longrightarrow> ordered_keys (fst (each_capability f caps ix))"
  by (simp add: ordered_keys_def each_capability_keys)

lemma each_capability_keeps:
  assumes "\<And>k x ix. h (fst (f k x ix)) = h x"
  shows "map (\<lambda>(k, x). (k, h x)) (fst (each_capability f caps ix)) = map (\<lambda>(k, x). (k, h x)) caps"
proof (induction caps arbitrary: ix)
  case (Cons p caps)
  obtain j x where p: "p = (j, x)" by (cases p)
  obtain x1 ix1 where f: "f j x ix = (x1, ix1)" by (cases "f j x ix")
  obtain caps' ix2 where r: "each_capability f caps ix1 = (caps', ix2)"
    by (cases "each_capability f caps ix1")
  have "h x1 = h x" using assms [of j x ix] f by simp
  with Cons.IH [of ix1] p f r show ?case by simp
qed simp

text \<open>What \<open>gathered\<close> states depends on the identifier and the evidence of the entries only.\<close>

lemma gathered_view:
  "gathered rg cs ent \<longleftrightarrow>
     (\<forall>(k, c, evs) \<in> set (map (\<lambda>(k, x). (k, ce_id x, ce_evidence x)) (es_capabilities ent)).
        map forget evs = map (\<lambda>c. forget (reload_claim rg (es_id ent)
            (es_bound_generation ent) 0 c)) (filter (\<lambda>d. kc_capability d = c) cs))
     \<and> (\<forall>c\<in>set cs. CapabilityId_IsSet (kc_capability c) \<longrightarrow>
          kc_capability c \<in> (\<lambda>(k, d, evs). d)
            ` set (map (\<lambda>(k, x). (k, ce_id x, ce_evidence x)) (es_capabilities ent)))"
  unfolding gathered_def image_iff
  by (simp add: case_prod_beta eq_commute [of "kc_capability _"])

lemma gathered_resolved:
  assumes "gathered rg cs ent"
    and "\<And>k x ix. (ce_id (fst (f k x ix)), ce_evidence (fst (f k x ix))) = (ce_id x, ce_evidence x)"
  shows "gathered rg cs (ent\<lparr>es_capabilities := fst (each_capability f (es_capabilities ent) ix)\<rparr>)"
  using assms(1) each_capability_keeps [of "\<lambda>x. (ce_id x, ce_evidence x)" f "es_capabilities ent" ix, OF assms(2)]
  unfolding gathered_view by (simp del: set_map)

lemma load_entity_rebuilt:
  assumes set: "EntityId_IsSet (sy_id s)" and d: "distinct (g_capability_ids g)"
  obtains ent xs where "g_entities (load_entity s g) = g_entities g @ [ent]"
    and "g_capability_ids (load_entity s g) = g_capability_ids g @ xs"
    and "distinct (g_capability_ids (load_entity s g))"
    and "rebuilt (g_generation g) (g_capability_ids (load_entity s g)) s ent"
proof -
  define n where "n = (case FindEntity g (sy_id s) of Some n \<Rightarrow> n | None \<Rightarrow> length (g_entities g))"
  define w0 where "w0 = \<lparr>w_entity = restored_entity (g_generation g) s, w_ids = g_capability_ids g,
      w_indices = g_indices g, w_arrival = g_arrival_sequence g\<rparr>"
  define w where "w = fold (load_claim (g_generation g)) (sy_claims s)
      (fold load_capability (sy_capabilities s) w0)"
  define f where "f = (\<lambda>key entry ix. ResolveCapability n (w_entity w) key entry ix)"
  obtain caps ix where c: "each_capability f (es_capabilities (w_entity w)) (w_indices w) = (caps, ix)"
    by fastforce
  define ent where "ent = (w_entity w)\<lparr>es_capabilities := caps\<rparr>"
  have "loading (g_generation g) (g_capability_ids g) (restored_entity (g_generation g) s) [] w0"
    using d by (simp add: loading_def w0_def keyed_entries_def gathered_def set_ids_def
        restored_entity_def ordered_keys_def)
  from loading_claims [OF loading_capabilities [OF this], of "sy_claims s" "sy_capabilities s"]
  have l: "loading (g_generation g) (g_capability_ids g) (restored_entity (g_generation g) s)
      (sy_claims s) w" by (simp add: w_def)
  have keep: "(ce_id (fst (f k x ix)), ce_evidence (fst (f k x ix))) = (ce_id x, ce_evidence x)" for k x ix
    by (simp add: f_def fst_ResolveCapability)
  have caps: "caps = fst (each_capability f (es_capabilities (w_entity w)) (w_indices w))"
    by (simp add: c)
  have "gathered (g_generation g) (sy_claims s) ent"
    unfolding ent_def caps by (rule gathered_resolved [OF _ keep]) (use l in \<open>simp add: loading_def\<close>)
  moreover have "keyed_entries (w_ids w) ent"
    using l each_capability_image [of "es_capabilities (w_entity w)" f "w_indices w"]
    by (auto simp: loading_def keyed_entries_def ent_def caps keep [unfolded prod.inject] dest!: each_capability_member)
  moreover have "ce_resolution x =
      resolve (es_id ent) (es_bound_generation ent) (ce_id x) (ce_generation x) (ce_evidence x)" if "(k, x) \<in> set caps" for k x
    using each_capability_member [OF that [unfolded caps]]
    by (auto simp: ent_def f_def fst_ResolveCapability)
  moreover have "ent\<lparr>es_capabilities := [], es_set := None\<rparr> = restored_entity (g_generation g) s"
    using l by (auto simp: loading_def ent_def restored_entity_def)
  ultimately have "rebuilt (g_generation g) (w_ids w) s
      (ent\<lparr>es_set := Some (Materialize (g_generation g) ent)\<rparr>)"
    by (auto simp: rebuilt_def keyed_entries_def gathered_def ent_def)
  moreover have "load_entity s g = g\<lparr>g_entities := g_entities g
      @ [ent\<lparr>es_set := Some (Materialize (g_generation g) ent)\<rparr>], g_capability_ids := w_ids w,
      g_indices := ix, g_arrival_sequence := w_arrival w\<rparr>"
    using set c unfolding load_entity_def ent_def
    by (simp add: Let_def n_def [symmetric] w0_def [symmetric] w_def [symmetric] f_def [symmetric]
        split: prod.split)
  ultimately show thesis using that l by (auto simp: loading_def)
qed

section \<open>The registry is rebuilt\<close>

text \<open>What loading an entity leaves alone.\<close>

definition entity_free :: "registry \<Rightarrow> registry" where
  "entity_free g = g\<lparr>g_entities := [], g_capability_ids := [], g_indices := indices_empty,
     g_arrival_sequence := 0\<rparr>"

lemma load_entity_frame: "entity_free (load_entity s g) = entity_free g"
  by (simp add: load_entity_def entity_free_def Let_def split: prod.split)

lemma entity_free_fields:
  assumes "entity_free g' = entity_free g"
  shows "g_options g' = g_options g" "g_schema g' = g_schema g" "g_generation g' = g_generation g"
    "g_epoch g' = g_epoch g" "g_authorities g' = g_authorities g" "g_publishers g' = g_publishers g"
    "g_fenced_boots g' = g_fenced_boots g" "g_fences g' = g_fences g" "g_journal g' = g_journal g"
  using assms by (cases g; cases g'; simp add: entity_free_def)+

lemma load_entity_unset: "\<not> EntityId_IsSet (sy_id s) \<Longrightarrow> load_entity s g = g"
  by (simp add: load_entity_def)

lemma load_entities:
  assumes "distinct (g_capability_ids g)"
  shows "\<exists>ents xs. g_entities (fold load_entity ss g) = g_entities g @ ents
    \<and> g_capability_ids (fold load_entity ss g) = g_capability_ids g @ xs
    \<and> distinct (g_capability_ids (fold load_entity ss g))
    \<and> entity_free (fold load_entity ss g) = entity_free g
    \<and> list_all2 (rebuilt (g_generation g) (g_capability_ids (fold load_entity ss g)))
        (filter (\<lambda>s. EntityId_IsSet (sy_id s)) ss) ents"
  using assms
proof (induction ss arbitrary: g)
  case Nil
  then show ?case by simp
next
  case (Cons s ss)
  show ?case
  proof (cases "EntityId_IsSet (sy_id s)")
    case False
    with Cons show ?thesis by (simp add: load_entity_unset)
  next
    case True
    from load_entity_rebuilt [OF True Cons.prems] obtain ent xs where e:
      "g_entities (load_entity s g) = g_entities g @ [ent]"
      "g_capability_ids (load_entity s g) = g_capability_ids g @ xs"
      "distinct (g_capability_ids (load_entity s g))"
      "rebuilt (g_generation g) (g_capability_ids (load_entity s g)) s ent" by metis
    have gen: "g_generation (load_entity s g) = g_generation g"
      by (rule entity_free_fields [OF load_entity_frame])
    from Cons.IH [OF e(3)] obtain ents ys where r:
      "g_entities (fold load_entity ss (load_entity s g)) = g_entities (load_entity s g) @ ents"
      "g_capability_ids (fold load_entity ss (load_entity s g)) = g_capability_ids (load_entity s g) @ ys"
      "distinct (g_capability_ids (fold load_entity ss (load_entity s g)))"
      "entity_free (fold load_entity ss (load_entity s g)) = entity_free (load_entity s g)"
      "list_all2 (rebuilt (g_generation g) (g_capability_ids (fold load_entity ss (load_entity s g))))
        (filter (\<lambda>s. EntityId_IsSet (sy_id s)) ss) ents" unfolding gen by blast
    have "rebuilt (g_generation g) (g_capability_ids (fold load_entity ss (load_entity s g))) s ent"
      using rebuilt_append [OF e(4)] r(2) by simp
    with True e r show ?thesis by (auto simp: load_entity_frame)
  qed
qed

lemma load_fences:
  "g_fenced_boots (fold load_fence fs g)
     = g_fenced_boots g \<union> {b \<in> so_worker_boot ` set fs. IsSet b}"
  "(fold load_fence fs g)\<lparr>g_fenced_boots := X, g_fences := Y\<rparr> = g\<lparr>g_fenced_boots := X, g_fences := Y\<rparr>"
proof -
  show "g_fenced_boots (fold load_fence fs g)
     = g_fenced_boots g \<union> {b \<in> so_worker_boot ` set fs. IsSet b}"
    by (induction fs arbitrary: g) (auto simp: load_fence_def)
  show "(fold load_fence fs g)\<lparr>g_fenced_boots := X, g_fences := Y\<rparr>
      = g\<lparr>g_fenced_boots := X, g_fences := Y\<rparr>"
    by (induction fs arbitrary: g) (auto simp: load_fence_def)
qed

lemma load_fences_frame:
  "g_options (fold load_fence fs g) = g_options g" "g_generation (fold load_fence fs g) = g_generation g"
  "g_epoch (fold load_fence fs g) = g_epoch g" "g_authorities (fold load_fence fs g) = g_authorities g"
  "g_publishers (fold load_fence fs g) = g_publishers g" "g_entities (fold load_fence fs g) = g_entities g"
  "g_capability_ids (fold load_fence fs g) = g_capability_ids g" "g_schema (fold load_fence fs g) = g_schema g"
  by (induction fs arbitrary: g; simp add: load_fence_def)+

lemma load_registrations:
  "(fold load_registration rs g)\<lparr>g_publishers := X\<rparr> = g\<lparr>g_publishers := X\<rparr>"
  "(\<And>k p. map_of (g_publishers g) k = Some p \<Longrightarrow> \<not> rn_active p) \<Longrightarrow>
     map_of (g_publishers (fold load_registration rs g)) k = Some p \<Longrightarrow> \<not> rn_active p"
proof -
  show "(fold load_registration rs g)\<lparr>g_publishers := X\<rparr> = g\<lparr>g_publishers := X\<rparr>"
    by (induction rs arbitrary: g) (auto simp: load_registration_def Let_def)
  show "(\<And>k p. map_of (g_publishers g) k = Some p \<Longrightarrow> \<not> rn_active p) \<Longrightarrow>
     map_of (g_publishers (fold load_registration rs g)) k = Some p \<Longrightarrow> \<not> rn_active p"
  proof (induction rs arbitrary: g)
    case (Cons r rs)
    have "\<not> rn_active q" if "map_of (g_publishers (load_registration r g)) j = Some q" for j q
      using that Cons.prems(1)
      by (auto simp: load_registration_def Let_def update_conv' split: if_splits)
    from Cons.IH [OF this] Cons.prems(2) show ?case by simp
  qed simp
qed

lemma LoadPayload_fields:
  fixes p h defines "r \<equiv> LoadPayload p h"
  shows "g_options r = g_options h" and "g_schema r = g_schema h"
    and "g_generation r = sp_registry_generation p"
    and "g_epoch r = (if sp_epoch p = 0 then 1 else sp_epoch p)"
    and "g_authorities r = filter (\<lambda>a. IsSet (ag_scope a)) (sp_authorities p)"
    and "g_fenced_boots r = {b \<in> so_worker_boot ` set (sp_fences p). IsSet b}"
    and "map_of (g_publishers r) k = Some q \<Longrightarrow> \<not> rn_active q"
    and "distinct (g_capability_ids r)"
    and "list_all2 (rebuilt (sp_registry_generation p) (g_capability_ids r))
           (filter (\<lambda>s. EntityId_IsSet (sy_id s)) (sp_entities p)) (g_entities r)"
proof -
  define g1 where "g1 = (cleared h p)\<lparr>g_authorities := filter (\<lambda>a. IsSet (ag_scope a)) (sp_authorities p)\<rparr>"
  define g2 where "g2 = fold load_fence (sp_fences p) g1"
  define g3 where "g3 = fold load_registration (sp_registrations p) g2"
  have r: "r = fold load_entity (sp_entities p) g3"
    by (simp add: r_def LoadPayload_def Let_def g1_def g2_def g3_def)
  have g3: "g3\<lparr>g_publishers := X\<rparr> = g2\<lparr>g_publishers := X\<rparr>" for X
    by (simp add: g3_def load_registrations)
  have f3: "g_options g3 = g_options g2 \<and> g_schema g3 = g_schema g2 \<and> g_generation g3 = g_generation g2
      \<and> g_epoch g3 = g_epoch g2 \<and> g_authorities g3 = g_authorities g2
      \<and> g_fenced_boots g3 = g_fenced_boots g2 \<and> g_entities g3 = g_entities g2
      \<and> g_capability_ids g3 = g_capability_ids g2"
    using g3 [of "[]"] by (cases g2; cases g3) simp
  have f2: "g_options g2 = g_options h" "g_schema g2 = g_schema h"
    "g_generation g2 = sp_registry_generation p" "g_epoch g2 = (if sp_epoch p = 0 then 1 else sp_epoch p)"
    "g_authorities g2 = filter (\<lambda>a. IsSet (ag_scope a)) (sp_authorities p)"
    "g_fenced_boots g2 = {b \<in> so_worker_boot ` set (sp_fences p). IsSet b}" "g_entities g2 = []"
    "g_capability_ids g2 = []" "g_publishers g2 = []"
    unfolding g2_def load_fences_frame load_fences
    by (simp_all add: g1_def cleared_def Counter_IsSet_def)
  have "distinct (g_capability_ids g3)" using f2 f3 by simp
  from load_entities [OF this, of "sp_entities p"] f2 f3
  have e: "distinct (g_capability_ids r)" "entity_free r = entity_free g3"
    "list_all2 (rebuilt (sp_registry_generation p) (g_capability_ids r))
        (filter (\<lambda>s. EntityId_IsSet (sy_id s)) (sp_entities p)) (g_entities r)"
    unfolding r by auto
  note fr = entity_free_fields [OF e(2)]
  show "g_options r = g_options h" "g_schema r = g_schema h" "g_generation r = sp_registry_generation p"
    "g_epoch r = (if sp_epoch p = 0 then 1 else sp_epoch p)"
    "g_authorities r = filter (\<lambda>a. IsSet (ag_scope a)) (sp_authorities p)"
    "g_fenced_boots r = {b \<in> so_worker_boot ` set (sp_fences p). IsSet b}"
    using fr f2 f3 by simp_all
  show "distinct (g_capability_ids r)" by (rule e(1))
  show "list_all2 (rebuilt (sp_registry_generation p) (g_capability_ids r))
        (filter (\<lambda>s. EntityId_IsSet (sy_id s)) (sp_entities p)) (g_entities r)" by (rule e(3))
  show "map_of (g_publishers r) k = Some q \<Longrightarrow> \<not> rn_active q"
    unfolding fr(6) g3_def by (rule load_registrations(2) [of g2 "sp_registrations p" k]) (simp_all add: f2)
qed

section \<open>Looking up rebuilt evidence\<close>

lemma FindEntry_keyed:
  assumes "keyed_entries (g_capability_ids g) ent" and "distinct (g_capability_ids g)"
  shows "FindEntry g ent c = Some x \<longleftrightarrow> (\<exists>k. (k, x) \<in> set (es_capabilities ent) \<and> ce_id x = c)"
proof
  assume "FindEntry g ent c = Some x"
  then obtain key where key: "index_where (\<lambda>d. d = c) (g_capability_ids g) = Some key"
    and x: "map_of (es_capabilities ent) key = Some x"
    by (auto simp: FindEntry_def split: option.splits)
  from index_where_Some [OF key] map_of_SomeD [OF x] assms(1)
  show "\<exists>k. (k, x) \<in> set (es_capabilities ent) \<and> ce_id x = c"
    by (auto simp: keyed_entries_def)
next
  assume "\<exists>k. (k, x) \<in> set (es_capabilities ent) \<and> ce_id x = c"
  then obtain k where k: "(k, x) \<in> set (es_capabilities ent)" "ce_id x = c" by blast
  with assms(1) have n: "k < length (g_capability_ids g)" "g_capability_ids g ! k = c"
    and o: "ordered_keys (es_capabilities ent)" by (auto simp: keyed_entries_def)
  have "index_where (\<lambda>d. d = c) (g_capability_ids g) = Some k"
  proof (cases "index_where (\<lambda>d. d = c) (g_capability_ids g)")
    case None
    with n show ?thesis by (auto simp: index_where_None)
  next
    case (Some j)
    have "j < length (g_capability_ids g)" "g_capability_ids g ! j = c"
      using index_where_Some [OF Some] by simp_all
    with n assms(2) have "j = k" by (metis nth_eq_iff_index_eq)
    with Some show ?thesis by simp
  qed
  moreover have "map_of (es_capabilities ent) k = Some x"
    by (rule map_of_is_SomeI [OF ordered_keys_distinct [OF o] k(1)])
  ultimately show "FindEntry g ent c = Some x" by (simp add: FindEntry_def)
qed

lemma entity_ok_keyed: "entity_ok T m ids ent \<Longrightarrow> keyed_entries ids ent"
  by (auto simp: entity_ok_def keyed_entries_def)

lemma rebuilt_evidence:
  assumes "rebuilt rg (g_capability_ids g) s ent" and "distinct (g_capability_ids g)"
    and "CapabilityId_IsSet c"
  shows "map forget (evidence_of g ent c) = map (\<lambda>k. forget (reload_claim rg (es_id ent)
    (es_bound_generation ent) 0 k)) (filter (\<lambda>k. kc_capability k = c) (sy_claims s))"
proof -
  have k: "keyed_entries (g_capability_ids g) ent" and ga: "gathered rg (sy_claims s) ent"
    using assms(1) by (simp_all add: rebuilt_def)
  show ?thesis
  proof (cases "FindEntry g ent c")
    case None
    have "kc_capability d \<noteq> c" if "d \<in> set (sy_claims s)" for d
    proof
      assume e: "kc_capability d = c"
      with ga that assms(3) obtain j x where "(j, x) \<in> set (es_capabilities ent)" "ce_id x = c"
        by (fastforce simp: gathered_def)
      then have "FindEntry g ent c = Some x" using FindEntry_keyed [OF k assms(2)] by blast
      with None show False by simp
    qed
    then show ?thesis by (simp add: evidence_of_def None filter_False)
  next
    case (Some x)
    then obtain j where "(j, x) \<in> set (es_capabilities ent)" "ce_id x = c"
      using FindEntry_keyed [OF k assms(2)] by blast
    with ga Some show ?thesis by (auto simp: gathered_def evidence_of_def)
  qed
qed

text \<open>The claims a save stores for a capability are the live records of its entry.\<close>

lemma persisted_live: "persisted e = live_record e"
  by (simp add: persisted_def live_record_def IsCurrent_def)

lemma filter_concat_unique:
  assumes "distinct (map f xs)" and "\<And>x y. x \<in> set xs \<Longrightarrow> y \<in> set (h x) \<Longrightarrow> g y = f x"
  shows "filter (\<lambda>y. g y = c) (concat (map h xs))
    = (case find (\<lambda>x. f x = c) xs of None \<Rightarrow> [] | Some x \<Rightarrow> h x)"
  using assms
proof (induction xs)
  case (Cons x xs)
  have IH: "filter (\<lambda>y. g y = c) (concat (map h xs))
      = (case find (\<lambda>x. f x = c) xs of None \<Rightarrow> [] | Some x \<Rightarrow> h x)"
    by (rule Cons.IH) (use Cons.prems in auto)
  show ?case
  proof (cases "f x = c")
    case True
    have "filter (\<lambda>y. g y = c) (h x) = h x" using Cons.prems(2) [of x] True by simp
    moreover have "find (\<lambda>x. f x = c) xs = None"
      unfolding find_None_iff using Cons.prems(1) True by (auto simp: image_iff)
    ultimately show ?thesis using True IH by simp
  next
    case False
    have "filter (\<lambda>y. g y = c) (h x) = []" using Cons.prems(2) [of x] False by (auto simp: filter_empty_conv)
    then show ?thesis using False IH by simp
  qed
qed simp

lemma find_entry:
  assumes "keyed_entries (g_capability_ids g) ent" and "distinct (g_capability_ids g)"
  shows "find (\<lambda>x. ce_id x = c) (map snd (es_capabilities ent)) = FindEntry g ent c"
proof (cases "FindEntry g ent c")
  case None
  then show ?thesis using FindEntry_keyed [OF assms, of c] by (force simp: find_None_iff)
next
  case (Some x)
  obtain y where y: "find (\<lambda>x. ce_id x = c) (map snd (es_capabilities ent)) = Some y"
    using Some FindEntry_keyed [OF assms, of c x]
    by (cases "find (\<lambda>x. ce_id x = c) (map snd (es_capabilities ent))") (force simp: find_None_iff)+
  then have "y \<in> snd ` set (es_capabilities ent)" "ce_id y = c"
    by (auto simp: find_Some_iff in_set_conv_nth image_iff) (metis nth_mem)
  then have "FindEntry g ent c = Some y" using FindEntry_keyed [OF assms, of c y] by force
  with Some y show ?thesis by simp
qed

lemma stored_claims_of:
  assumes "keyed_entries (g_capability_ids g) ent" and "distinct (g_capability_ids g)"
  shows "mset (filter (\<lambda>k. kc_capability k = c) (sy_claims (store_entity ent)))
    = mset (map (store_claim c) (filter live_record (evidence_of g ent c)))"
proof -
  let ?es = "map snd (es_capabilities ent)"
  have "distinct (map ce_id ?es)"
  proof -
    have "map ce_id ?es = map (\<lambda>k. g_capability_ids g ! k) (map fst (es_capabilities ent))"
      using assms(1) by (auto simp: keyed_entries_def)
    moreover have "inj_on (\<lambda>k. g_capability_ids g ! k) (set (map fst (es_capabilities ent)))"
      using assms by (intro inj_on_nth) (auto simp: keyed_entries_def)
    ultimately show ?thesis
      using assms(1) ordered_keys_distinct [of "es_capabilities ent"]
      by (simp add: distinct_map keyed_entries_def del: map_map)
  qed
  then have "filter (\<lambda>k. kc_capability k = c) (concat (map store_claims ?es))
      = (case find (\<lambda>x. ce_id x = c) ?es of None \<Rightarrow> [] | Some x \<Rightarrow> store_claims x)"
    by (rule filter_concat_unique) (auto simp: store_claims_def store_claim_def)
  also have "\<dots> = map (store_claim c) (filter live_record (evidence_of g ent c))"
  proof (cases "FindEntry g ent c")
    case (Some x)
    then have "ce_id x = c" using FindEntry_keyed [OF assms] by blast
    with Some show ?thesis
      unfolding find_entry [OF assms]
      by (simp add: evidence_of_def store_claims_def persisted_live [abs_def])
  qed (simp add: find_entry [OF assms] evidence_of_def)
  finally have "filter (\<lambda>k. kc_capability k = c) (concat (map store_claims ?es))
      = map (store_claim c) (filter live_record (evidence_of g ent c))" .
  moreover have "mset (sy_claims (store_entity ent)) = mset (concat (map store_claims ?es))"
    by (simp add: store_entity_def Let_def)
  ultimately show ?thesis by (metis mset_filter)
qed

section \<open>A saved registry comes back\<close>

definition restart :: "registry \<Rightarrow> registry \<Rightarrow> registry" where
  "restart h g = LoadPayload (SavePayload g) h"

text \<open>The currentness a restart gives a record.\<close>

definition revive :: "evidence_record \<Rightarrow> evidence_record" where
  "revive e = e\<lparr>e_currentness :=
     if e_currentness e = Cur_Fenced then Cur_Fenced
     else if e_durability e = Durable then Cur_Current else Cur_RevalidationRequired\<rparr>"

definition entity_view :: "registry \<Rightarrow> entity_id \<Rightarrow> (counter \<times> bool \<times> counter \<times> bool \<times> token) option" where
  "entity_view g i = (case FindEntity g i of None \<Rightarrow> None
     | Some n \<Rightarrow> let ent = g_entities g ! n in
         Some (es_current_generation ent, es_has_set ent, es_set_generation ent,
           es_invalidated ent, es_invalidation_reason ent))"

lemma rebuilt_fields:
  assumes "rebuilt rg ids s ent"
  shows "es_id ent = sy_id s" "es_current_generation ent = sy_current_generation s"
    "es_has_set ent = sy_has_set s" "es_set_generation ent = sy_set_generation s"
    "es_invalidated ent = sy_invalidated s" "es_invalidation_reason ent = sy_invalidation_reason s"
    "es_bound_generation ent = (if sy_bound_generation s = 0 then sy_current_generation s
       else sy_bound_generation s)"
    "es_source_high_water ent = fold load_floor (sy_source_floors s) Map.empty"
  using assms unfolding rebuilt_def
  by (cases ent; simp add: restored_entity_def Counter_IsSet_def)+

lemma restored_ids:
  "list_all2 (rebuilt rg ids) ss ents \<Longrightarrow> map es_id ents = map sy_id ss"
  by (induction rule: list_all2_induct) (simp_all add: rebuilt_fields(1))

lemma stored_entities:
  "sp_entities (SavePayload g) = map store_entity (sort_key (\<lambda>ent. ent_rendered (es_id ent)) (g_entities g))"
  by (simp add: SavePayload_def)

lemma sy_id_store [simp]: "sy_id (store_entity ent) = es_id ent"
  by (simp add: store_entity_def Let_def)

lemma store_entity_fields:
  "sy_current_generation (store_entity ent) = es_current_generation ent"
  "sy_bound_generation (store_entity ent) = es_bound_generation ent"
  "sy_has_set (store_entity ent) = es_has_set ent"
  "sy_set_generation (store_entity ent) = es_set_generation ent"
  "sy_invalidated (store_entity ent) = es_invalidated ent"
  "sy_invalidation_reason (store_entity ent) = es_invalidation_reason ent"
  "sy_source_floors (store_entity ent) = store_floors (es_source_high_water ent)"
  by (simp_all add: store_entity_def Let_def)

lemma restart_fields:
  "g_options (restart h g) = g_options h" "g_schema (restart h g) = g_schema h"
  "g_generation (restart h g) = g_generation g"
  "g_epoch (restart h g) = (if g_epoch g = 0 then 1 else g_epoch g)"
  "g_fenced_boots (restart h g) = {b \<in> fn_worker_boot ` set (g_fences g). IsSet b}"
  "map_of (g_publishers (restart h g)) k = Some q \<Longrightarrow> \<not> rn_active q"
  "distinct (g_capability_ids (restart h g))"
  "list_all2 (rebuilt (g_generation g) (g_capability_ids (restart h g)))
     (filter (\<lambda>s. EntityId_IsSet (sy_id s)) (sp_entities (SavePayload g))) (g_entities (restart h g))"
proof -
  note f = LoadPayload_fields [where p = "SavePayload g" and h = h, folded restart_def]
  have p: "sp_registry_generation (SavePayload g) = g_generation g" "sp_epoch (SavePayload g) = g_epoch g"
    "so_worker_boot ` set (sp_fences (SavePayload g)) = fn_worker_boot ` set (g_fences g)"
    by (auto simp: SavePayload_def image_iff)
  show "g_options (restart h g) = g_options h" by (rule f)
  show "g_schema (restart h g) = g_schema h" by (rule f)
  show "g_generation (restart h g) = g_generation g" using f(3) p(1) by simp
  show "g_epoch (restart h g) = (if g_epoch g = 0 then 1 else g_epoch g)" using f(4) p(2) by simp
  show "g_fenced_boots (restart h g) = {b \<in> fn_worker_boot ` set (g_fences g). IsSet b}"
    using f(6) p(3) by simp
  show "map_of (g_publishers (restart h g)) k = Some q \<Longrightarrow> \<not> rn_active q" by (rule f(7))
  show "distinct (g_capability_ids (restart h g))" by (rule f(8))
  show "list_all2 (rebuilt (g_generation g) (g_capability_ids (restart h g)))
     (filter (\<lambda>s. EntityId_IsSet (sy_id s)) (sp_entities (SavePayload g))) (g_entities (restart h g))"
    using f(9) p(1) by simp
qed

lemma restart_distinct:
  assumes "registry_ok g" shows "distinct (map es_id (g_entities (restart h g)))"
proof -
  have "sy_id \<circ> store_entity = es_id" by (rule ext) simp
  then have "distinct (map sy_id (sp_entities (SavePayload g)))"
    using assms by (simp add: stored_entities registry_ok_def distinct_map)
  then have "distinct (map sy_id (filter (\<lambda>s. EntityId_IsSet (sy_id s)) (sp_entities (SavePayload g))))"
    by (rule distinct_map_filter)
  then show ?thesis by (simp add: restored_ids [OF restart_fields(8)])
qed

lemma restart_entity_of:
  assumes "j < length (g_entities (restart h g))"
  shows "\<exists>ent\<in>set (g_entities g). EntityId_IsSet (es_id ent)
    \<and> rebuilt (g_generation g) (g_capability_ids (restart h g)) (store_entity ent)
        (g_entities (restart h g) ! j)"
proof -
  let ?ss = "filter (\<lambda>s. EntityId_IsSet (sy_id s)) (sp_entities (SavePayload g))"
  note l = restart_fields(8) [of g h]
  then have "?ss ! j \<in> set ?ss" "rebuilt (g_generation g) (g_capability_ids (restart h g)) (?ss ! j)
      (g_entities (restart h g) ! j)"
    using assms list_all2_lengthD [OF l] list_all2_nthD [OF l] by (auto simp del: set_filter)
  then show ?thesis by (auto simp: stored_entities)
qed

lemma restart_entity:
  assumes ok: "registry_ok g" and set: "EntityId_IsSet i"
  shows "case FindEntity g i of None \<Rightarrow> FindEntity (restart h g) i = None
    | Some n \<Rightarrow> \<exists>j. FindEntity (restart h g) i = Some j
        \<and> rebuilt (g_generation g) (g_capability_ids (restart h g)) (store_entity (g_entities g ! n))
            (g_entities (restart h g) ! j)"
proof -
  let ?ss = "filter (\<lambda>s. EntityId_IsSet (sy_id s)) (sp_entities (SavePayload g))"
  note l = restart_fields(8) [of g h]
  have ids: "es_id ` set (g_entities (restart h g)) = {i \<in> es_id ` set (g_entities g). EntityId_IsSet i}"
  proof -
    have "es_id ` set (g_entities (restart h g)) = sy_id ` set ?ss"
      using restored_ids [OF l] by (metis set_map)
    also have "\<dots> = {i \<in> es_id ` set (g_entities g). EntityId_IsSet i}"
      by (force simp: stored_entities image_iff)
    finally show ?thesis .
  qed
  show ?thesis
  proof (cases "FindEntity g i")
    case None
    with ids have "FindEntity (restart h g) i = None" by (auto simp: FindEntity_None)
    with None show ?thesis by simp
  next
    case (Some n)
    note n = FindEntity_Some [OF Some]
    have "store_entity (g_entities g ! n) \<in> set ?ss"
      using n set by (simp add: stored_entities)
    then obtain j where j: "j < length ?ss" "?ss ! j = store_entity (g_entities g ! n)"
      by (metis in_set_conv_nth)
    then have j': "j < length (g_entities (restart h g))"
      and r: "rebuilt (g_generation g) (g_capability_ids (restart h g)) (store_entity (g_entities g ! n))
        (g_entities (restart h g) ! j)"
      using list_all2_lengthD [OF l] list_all2_nthD [OF l, of j] by simp_all
    have "es_id (g_entities (restart h g) ! j) = i" using rebuilt_fields(1) [OF r] n by simp
    with FindEntity_unique [OF restart_distinct [OF ok] j'] have "FindEntity (restart h g) i = Some j"
      by simp
    with Some r show ?thesis by auto
  qed
qed

lemma reload_store:
  assumes "located i b c e"
  shows "forget (reload_claim rg i b 0 (store_claim c e)) = forget (revive e)"
  using assms
  by (cases e) (simp add: forget_def reload_claim_def store_claim_def revive_def reloaded_currentness_def
    located_def)

lemma restart_evidence:
  assumes ok: "registry_ok g" and ids: "EntityId_IsSet i" "CapabilityId_IsSet c"
  shows "mset (map forget (evidence_at (restart h g) i c))
    = mset (map (forget \<circ> revive) (filter live_record (evidence_at g i c)))"
proof (cases "FindEntity g i")
  case None
  with restart_entity [OF ok ids(1), of h] show ?thesis by (simp add: evidence_at_def)
next
  case (Some n)
  with restart_entity [OF ok ids(1), of h] obtain j where j: "FindEntity (restart h g) i = Some j"
    and r: "rebuilt (g_generation g) (g_capability_ids (restart h g)) (store_entity (g_entities g ! n))
      (g_entities (restart h g) ! j)" by auto
  let ?ent = "g_entities g ! n"
  note n = FindEntity_Some [OF Some]
  note e = registry_ok_entity [OF ok conjunct1 [OF n]]
  have b: "es_bound_generation ?ent = es_current_generation ?ent" "es_current_generation ?ent \<noteq> 0"
    using e by (simp_all add: entity_ok_def)
  have loc: "located (es_id ?ent) (es_bound_generation ?ent) c f"
    if "f \<in> set (evidence_of g ?ent c)" for f
  proof -
    from that obtain x where x: "FindEntry g ?ent c = Some x" "f \<in> set (ce_evidence x)"
      by (cases "FindEntry g ?ent c") (auto simp: evidence_of_def)
    from FindEntry_Some [OF ok conjunct1 [OF n] x(1)] x(2) b(1) show ?thesis
      by (auto simp: entry_ok_def)
  qed
  have "mset (map forget (evidence_of (restart h g) (g_entities (restart h g) ! j) c))
      = image_mset (\<lambda>k. forget (reload_claim (g_generation g) (es_id ?ent) (es_bound_generation ?ent) 0 k))
          (mset (filter (\<lambda>k. kc_capability k = c) (sy_claims (store_entity ?ent))))"
    unfolding rebuilt_evidence [OF r restart_fields(7) ids(2)]
    using b by (simp add: rebuilt_fields [OF r] store_entity_fields)
  also have "\<dots> = mset (map (\<lambda>f. forget (reload_claim (g_generation g) (es_id ?ent)
      (es_bound_generation ?ent) 0 (store_claim c f))) (filter live_record (evidence_of g ?ent c)))"
    using stored_claims_of [OF entity_ok_keyed [OF e]] ok
    by (simp add: registry_ok_def multiset.map_comp comp_def)
  also have "\<dots> = mset (map (forget \<circ> revive) (filter live_record (evidence_of g ?ent c)))"
    using loc by (intro arg_cong [of _ _ mset] map_cong) (auto intro: reload_store)
  finally show ?thesis by (simp add: evidence_at_def Some j)
qed

section \<open>The invariant survives\<close>

lemma reload_facts:
  assumes "e \<in> set evs" and "map forget evs = map (\<lambda>k. forget (reload_claim rg i b 0 k)) ks"
  obtains k where "k \<in> set ks" and "e_currentness e = reloaded_currentness k"
    and "e_durability e = kc_durability k" and "e_entity e = i" and "e_entity_generation e = b"
    and "e_capability e = kc_capability k" and "e_value e = kc_value k"
    and "identity_of e = (kc_source k, kc_worker_boot k)"
proof -
  from assms(1) have "forget e \<in> forget ` set evs" by simp
  also have "forget ` set evs = (\<lambda>k. forget (reload_claim rg i b 0 k)) ` set ks"
    using assms(2) by (metis set_map)
  finally obtain k where k: "k \<in> set ks" "forget e = forget (reload_claim rg i b 0 k)" by blast
  show thesis
    by (rule that [OF k(1)])
      (insert k(2), cases e; simp add: forget_def reload_claim_def identity_of_def)+
qed

lemma reloaded_live: "live_record e" if "e_currentness e = reloaded_currentness k"
  using that by (simp add: live_record_def reloaded_currentness_def)

lemma map_forget_identity:
  "map forget evs = map (\<lambda>k. forget (reload_claim rg i b 0 k)) ks \<Longrightarrow>
   map identity_of evs = map (\<lambda>k. (kc_source k, kc_worker_boot k)) ks"
proof -
  assume "map forget evs = map (\<lambda>k. forget (reload_claim rg i b 0 k)) ks"
  then have "map identity_of (map forget evs)
      = map identity_of (map (\<lambda>k. forget (reload_claim rg i b 0 k)) ks)" by (rule arg_cong)
  then show ?thesis by (simp add: comp_def forget_def identity_of_def [abs_def] reload_claim_def)
qed

lemma rebuilt_ok:
  assumes ok: "registry_ok g" and ent: "ent \<in> set (g_entities g)"
    and r: "rebuilt rg ids (store_entity ent) ent'"
    and m: "o_max_evidence_per_capability (g_options g) \<le> m"
  shows "entity_ok (trusted epoch fenced) m ids ent'"
proof -
  obtain n where n: "n < length (g_entities g)" "ent = g_entities g ! n"
    using ent by (metis in_set_conv_nth)
  have e: "entity_ok (trusted (g_epoch g) (g_fenced_boots g))
      (o_max_evidence_per_capability (g_options g)) (g_capability_ids g) ent"
    using registry_ok_entity [OF ok n(1)] n(2) by simp
  note k = entity_ok_keyed [OF e]
  have d: "distinct (g_capability_ids g)" using ok by (simp add: registry_ok_def)
  have keyed: "keyed_entries ids ent'" and gath: "gathered rg (sy_claims (store_entity ent)) ent'"
    and res: "\<And>k x. (k, x) \<in> set (es_capabilities ent') \<Longrightarrow> ce_resolution x =
        resolve (es_id ent') (es_bound_generation ent') (ce_id x) (ce_generation x) (ce_evidence x)"
    using r by (auto simp: rebuilt_def)
  have gen: "es_bound_generation ent' = es_current_generation ent'" "es_current_generation ent' \<noteq> 0"
    using e by (simp_all add: rebuilt_fields [OF r] store_entity_fields entity_ok_def)
  have entry: "entry_ok (trusted epoch fenced) m (es_id ent') (es_bound_generation ent') x"
    if x: "(j, x) \<in> set (es_capabilities ent')" for j x
  proof -
    let ?ks = "filter (\<lambda>k. kc_capability k = ce_id x) (sy_claims (store_entity ent))"
    let ?old = "filter live_record (evidence_of g ent (ce_id x))"
    have evs: "map forget (ce_evidence x) = map (\<lambda>c. forget (reload_claim rg (es_id ent')
        (es_bound_generation ent') 0 c)) ?ks"
      using gath x by (auto simp: gathered_def)
    have ks: "mset ?ks = mset (map (store_claim (ce_id x)) ?old)" by (rule stored_claims_of [OF k d])
    have old: "distinct (identities (evidence_of g ent (ce_id x)))
        \<and> length (identities (evidence_of g ent (ce_id x))) \<le> o_max_evidence_per_capability (g_options g)
        \<and> (\<forall>f\<in>set (evidence_of g ent (ce_id x)). canonical_evidence f)"
    proof (cases "FindEntry g ent (ce_id x)")
      case (Some y)
      from FindEntry_Some [OF ok n(1), folded n(2), OF Some] Some show ?thesis
        by (simp add: evidence_of_def entry_ok_def located_def)
    qed (simp add: evidence_of_def)
    have ids: "mset (map identity_of (ce_evidence x)) = mset (identities (evidence_of g ent (ce_id x)))"
    proof -
      have "mset (map identity_of (ce_evidence x)) = image_mset (\<lambda>k. (kc_source k, kc_worker_boot k)) (mset ?ks)"
        unfolding map_forget_identity [OF evs] by simp
      also have "\<dots> = mset (map identity_of ?old)"
        unfolding ks by (simp add: multiset.map_comp comp_def store_claim_def identity_of_def [abs_def])
      finally show ?thesis by (simp add: identities_def)
    qed
    have all: "live_record f \<and> trusted epoch fenced f
        \<and> located (es_id ent') (es_bound_generation ent') (ce_id x) f" if mem: "f \<in> set (ce_evidence x)" for f
    proof -
      obtain k where f: "k \<in> set ?ks" "e_currentness f = reloaded_currentness k"
        "e_durability f = kc_durability k" "e_entity f = es_id ent'"
        "e_entity_generation f = es_bound_generation ent'" "e_capability f = kc_capability k"
        "e_value f = kc_value k" "identity_of f = (kc_source k, kc_worker_boot k)" by (rule reload_facts [OF mem evs])
      have "k \<in> store_claim (ce_id x) ` set ?old"
        using f(1) mset_eq_setD [OF ks] by (simp only: set_map)
      then obtain f0 where f0: "f0 \<in> set (evidence_of g ent (ce_id x))" "k = store_claim (ce_id x) f0"
        by auto
      have "canonical_evidence f"
        using old f0 f(7) by (auto simp: canonical_evidence_def store_claim_def)
      moreover have "trusted epoch fenced f"
        using f(2,3) by (auto simp: trusted_def reloaded_currentness_def split: if_splits)
      ultimately show ?thesis
        using f f0 reloaded_live [OF f(2)] by (simp add: located_def store_claim_def)
    qed
    then have "identities (ce_evidence x) = map identity_of (ce_evidence x)"
      by (simp add: identities_def filter_True)
    with ids old m have "distinct (identities (ce_evidence x))
        \<and> length (identities (ce_evidence x)) \<le> m"
      by (metis le_trans mset_eq_imp_distinct_iff mset_eq_length)
    with all res [OF x] show ?thesis by (intro entry_okI) (auto simp: fresh_entry_def)
  qed
  show ?thesis using gen keyed entry by (auto simp: entity_ok_def keyed_entries_def)
qed

lemma restart_ok:
  assumes ok: "registry_ok g"
    and m: "o_max_evidence_per_capability (g_options g) \<le> o_max_evidence_per_capability (g_options h)"
  shows "registry_ok (restart h g)"
proof -
  have "0 < o_max_evidence_per_capability (g_options h)" using ok m by (simp add: registry_ok_def)
  moreover have "entity_ok (trusted (g_epoch (restart h g)) (g_fenced_boots (restart h g)))
      (o_max_evidence_per_capability (g_options h)) (g_capability_ids (restart h g)) ent'"
    if "ent' \<in> set (g_entities (restart h g))" for ent'
  proof -
    from that obtain j where j: "j < length (g_entities (restart h g))" "ent' = g_entities (restart h g) ! j"
      by (metis in_set_conv_nth)
    with restart_entity_of [OF j(1)] show ?thesis using rebuilt_ok [OF ok _ _ m] by auto
  qed
  ultimately show ?thesis
    using restart_distinct [OF ok] restart_fields(7) [of h g] by (simp add: registry_ok_def restart_fields(1))
qed

end
