(* ===== verification/Reachable.thy ===== *)
theory Reachable
  imports Restart
begin

text \<open>
  The registries a client can bring about: the initial ones, those after a public operation, and
  those after a restart from the durable store. The invariant holds in all of them.
\<close>

section \<open>Reachable registries\<close>

text \<open>
  One rule per mutating operation of the public interface, with any arguments; a reachable registry
  may also be saved and loaded into any other, whose evidence bound is not smaller.
\<close>

inductive registry_step :: "registry \<Rightarrow> registry \<Rightarrow> bool" where
  step_publish: "registry_step g (snd (Publish g request))"
| step_publish_batch: "registry_step g (snd (PublishBatch g requests))"
| step_epoch: "registry_step g (snd (AdvanceCoordinatorEpoch g reason))"
| step_authority: "registry_step g (snd (DeclareAuthority g grant))"
| step_register: "registry_step g (snd (RegisterPublisher g publisher scope boot))"
| step_retire: "registry_step g (snd (RetirePublisher g publisher boot))"
| step_fence: "registry_step g (snd (FenceWorkerBoot g boot reason))"
| step_observe: "registry_step g (snd (ObserveEntityGeneration g entity generation reason))"
| step_invalidate_entity: "registry_step g (snd (InvalidateEntity g entity generation reason))"
| step_invalidate_source: "registry_step g (snd (InvalidateSource g source reason))"
| step_descriptor: "registry_step g (snd (Registry_RegisterVendorDescriptor g d))"

inductive reachable :: "registry \<Rightarrow> bool" where
  reachable_start: "0 < o_max_evidence_per_capability options \<Longrightarrow> reachable (Registry_new options schema)"
| reachable_restart: "reachable g \<Longrightarrow>
    o_max_evidence_per_capability (g_options g) \<le> o_max_evidence_per_capability (g_options h) \<Longrightarrow>
    reachable (restart h g)"
| reachable_step: "reachable g \<Longrightarrow> registry_step g g' \<Longrightarrow> reachable g'"

lemma registry_step_ok: "registry_step g g' \<Longrightarrow> registry_ok g \<Longrightarrow> registry_ok g'"
  by (induction rule: registry_step.induct)
    (simp_all add: registry_ok_Publish registry_ok_PublishBatch registry_ok_AdvanceCoordinatorEpoch
      registry_ok_FenceWorkerBoot registry_ok_ObserveEntityGeneration registry_ok_InvalidateEntity
      registry_ok_InvalidateSource registry_ok_frames)

lemma reachable_ok: "reachable g \<Longrightarrow> registry_ok g"
proof (induction rule: reachable.induct)
  case (reachable_start options schema)
  then show ?case by (simp add: registry_ok_def Registry_new_def Let_def)
next
  case (reachable_restart g h)
  then show ?case by (simp add: restart_ok)
qed (rule registry_step_ok)

end
