(* ===== verification/SampleRun.thy ===== *)
theory SampleRun
  imports Reachable
begin

text \<open>
  A concrete run of the registry: one declared scope, one registered publisher and one accepted
  observation. The lemmas evaluate each step of \<open>Publish\<close> on it; the witnesses of the properties
  apply them to these registries.
\<close>

definition demo_capability :: capability_id where
  "demo_capability = \<lparr>cap_ns = ''fabric.port'', cap_local = ''lldp'', cap_rendered = ''fabric.port.lldp''\<rparr>"

definition demo_entity :: entity_id where
  "demo_entity = \<lparr>ent_kind = EK_Port, ent_canonical = ''p0'', ent_rendered = ''port:p0''\<rparr>"

definition demo_schema :: capability_schema where
  "demo_schema = \<lparr>cs_descriptors = [descriptor_default\<lparr>cd_id := demo_capability\<rparr>], cs_vendor_count = 0\<rparr>"

definition demo_grant :: authority_grant where
  "demo_grant = \<lparr>ag_scope = ''scope'', ag_entity_kinds = [EK_Port], ag_namespaces = [''fabric.port''],
     ag_modes = 7, ag_exclusive = False, ag_may_publish_durable = False,
     ag_strongest_provenance = Prov_DirectHardwareEnumeration, ag_allowed_publishers = [],
     ag_max_claims_per_publication = 16, ag_description = []\<rparr>"

definition demo_claim :: capability_claim where
  "demo_claim = claim_default\<lparr>cl_capability := demo_capability, cl_state := St_Supported,
     cl_provenance := Prov_DirectHardwareEnumeration, cl_source_class := Src_HardwareEnumeration\<rparr>"

definition demo_request :: publication_request where
  "demo_request = \<lparr>pq_mode = PartialObservation, pq_attempt = ''attempt-1'', pq_publication = ''pub-1'',
     pq_epoch = 1, pq_authority = \<lparr>ac_scope = ''scope'', ac_publisher = ''agent'',
       ac_worker_boot = ''abcdef01'', ac_source = ''src'', ac_source_generation = 1\<rparr>,
     pq_entity = demo_entity, pq_entity_generation = 1, pq_expected_set_generation = 0,
     pq_claims = [demo_claim], pq_edits = [], pq_coverage = Partial, pq_reason = []\<rparr>"

definition demo_registered :: registry where
  "demo_registered = snd (RegisterPublisher
     (snd (DeclareAuthority (Registry_new options_default demo_schema) demo_grant))
     ''agent'' ''scope'' ''abcdef01'')"

definition demo_published :: registry where
  "demo_published = snd (Publish demo_registered demo_request)"

lemmas demo_setup = demo_capability_def demo_entity_def demo_schema_def demo_grant_def
  demo_claim_def demo_request_def descriptor_default_def claim_default_def options_default_def

lemma demo_registered_eq:
  "demo_registered = (Registry_new options_default demo_schema)
     \<lparr>g_authorities := [demo_grant],
      g_publishers := [((''agent'', ''abcdef01''),
        \<lparr>rn_registration = \<lparr>pb_publisher = ''agent'', pb_scope = ''scope'', pb_worker_boot = ''abcdef01'',
           pb_epoch = 1, pb_accepted_generation = 0\<rparr>, rn_active = True, rn_replay = []\<rparr>)]\<rparr>"
  by (simp add: demo_registered_def DeclareAuthority_def grant_shape_def demo_grant_def IsSet_def
      Registry_new_def Let_def Counter_IsSet_def RegisterPublisher_def FindAuthority_def authority_position_def
      options_default_def)

lemma demo_validated:
  "validate_request demo_registered demo_request = Inr (\<lparr>rn_registration = \<lparr>pb_publisher = ''agent'',
     pb_scope = ''scope'', pb_worker_boot = ''abcdef01'', pb_epoch = 1, pb_accepted_generation = 0\<rparr>,
     rn_active = True, rn_replay = []\<rparr>, demo_grant)"
  by (simp add: validate_request_def demo_registered_eq shape_check_def epoch_check_def
      publisher_check_def grant_check_def check_claim_def Registry_new_def demo_setup Let_def
      Counter_IsSet_def IsSet_def EntityId_IsSet_def request_key_def FindAuthority_def authority_position_def AllowsMode_def
      CapabilityId_IsSet_def NamespaceAllowed_def Schema_Find_def schema_lookup_def
      ValidateClaimShape_def)

definition demo_evidence :: evidence_record where
  "demo_evidence = claim_evidence demo_registered demo_request (entity_new demo_entity 1 0) demo_claim
     Partial 1 1"

definition demo_entry :: capability_entry where
  "demo_entry = \<lparr>ce_id = demo_capability, ce_generation = 1, ce_evidence = [demo_evidence],
     ce_resolution = resolve demo_entity 1 demo_capability 1 [demo_evidence]\<rparr>"

lemma demo_entered:
  "enter_entity demo_registered demo_request =
     (Inr 0, create_entity demo_entity 1 demo_registered)"
  by (simp add: enter_entity_def FindEntity_def demo_registered_eq Registry_new_def demo_setup Let_def
      Counter_IsSet_def)

definition demo_indices :: indices where
  "demo_indices = snd (ResolveCapability 0 (entity_new demo_entity 1 0) 0
     (entry_default\<lparr>ce_id := demo_capability, ce_evidence := [demo_evidence], ce_generation := 1\<rparr>)
     (IndexEvidence demo_evidence indices_empty))"

lemma demo_applied:
  "apply_request (create_entity demo_entity 1 demo_registered) 0 demo_grant demo_request
     (open_work (create_entity demo_entity 1 demo_registered) 0)
   = (Inr (), \<lparr>w_entity = put_entry 0 demo_entry (entity_new demo_entity 1 0),
        w_ids = [demo_capability], w_indices = demo_indices, w_arrival = 1\<rparr>)"
proof -
  have fields: "pq_mode demo_request = PartialObservation" "pq_claims demo_request = [demo_claim]"
    "pq_coverage demo_request = Partial" "pq_reason demo_request = []"
    "cl_capability demo_claim = demo_capability"
    by (simp_all add: demo_request_def demo_claim_def)
  have ev: "claim_evidence (create_entity demo_entity 1 demo_registered) demo_request
      (entity_new demo_entity 1 0) demo_claim Partial 1 1 = demo_evidence"
    by (simp add: demo_evidence_def claim_evidence_def create_entity_def Let_def)
  have new: "entity_new demo_entity 1 (g_generation demo_registered) = entity_new demo_entity 1 0"
    by (simp add: demo_registered_eq Registry_new_def Let_def)
  have open_eq: "open_work (create_entity demo_entity 1 demo_registered) 0
      = \<lparr>w_entity = entity_new demo_entity 1 0, w_ids = [], w_indices = indices_empty, w_arrival = 0\<rparr>"
    by (simp add: open_work_def create_entity_def demo_registered_eq Registry_new_def Let_def)
  have opts: "o_max_capabilities_per_entity (g_options (create_entity demo_entity 1 demo_registered)) = 4096"
    "o_max_evidence_per_capability (g_options (create_entity demo_entity 1 demo_registered)) = 64"
    by (simp_all add: create_entity_def demo_registered_eq Registry_new_def Let_def options_default_def Counter_IsSet_def)
  have caps: "es_capabilities (entity_new demo_entity 1 0) = []" by (simp add: entity_new_def)
  have trim: "TrimEvidence 64 [] = []" by (simp add: TrimEvidence.simps)
  have next': "Counter_Next (0 :: counter) = Inr 1" by (simp add: Counter_Next_def)
  have res: "ResolveCapability 0 (entity_new demo_entity 1 0) 0
     (entry_default\<lparr>ce_id := demo_capability, ce_evidence := [demo_evidence], ce_generation := 1\<rparr>)
     (IndexEvidence demo_evidence indices_empty) = (demo_entry, demo_indices)"
    unfolding demo_indices_def
    by (rule prod_eqI) (simp_all add: fst_ResolveCapability demo_entry_def entity_new_def entry_default_def)
  show ?thesis
    by (simp add: apply_request_def apply_claims_def fields ApplyClaim_def open_eq CapabilityKey_def
        caps opts mark_records_def deindex_records_def trim LiveEvidenceCount_def ev next' res Let_def
        NextEvidenceGeneration_def entry_default_def [THEN arg_cong [of _ _ ce_evidence]]
        entry_default_def [THEN arg_cong [of _ _ ce_generation]])
qed

definition demo_committed :: entity_state where
  "demo_committed = raise_high_water demo_request
     (committed_entity 1 1 (put_entry 0 demo_entry (entity_new demo_entity 1 0)))"

definition demo_replay :: replay_record where
  "demo_replay = \<lparr>rp_attempt = ''attempt-1'', rp_publication = ''pub-1'',
     rp_content_digest = Digest_ToString (RequestContentDigest demo_request demo_grant),
     rp_status = Committed, rp_code = E_Ok\<rparr>"

definition demo_applied_registry :: registry where
  "demo_applied_registry = close_work 0 (\<lparr>w_entity = put_entry 0 demo_entry (entity_new demo_entity 1 0),
     w_ids = [demo_capability], w_indices = demo_indices, w_arrival = 1\<rparr>)
     (create_entity demo_entity 1 demo_registered)"

lemma demo_publish_commit:
  "Publish demo_registered demo_request = commit None
     (Digest_ToString (RequestContentDigest demo_request demo_grant)) demo_grant
     demo_applied_registry 0 demo_request"
proof -
  have pre: "precondition_check (g_entities (create_entity demo_entity 1 demo_registered) ! 0) demo_request = Inr ()"
    and before: "es_set (g_entities (create_entity demo_entity 1 demo_registered) ! 0) = None"
    by (simp_all add: precondition_check_def create_entity_def entity_new_def demo_registered_eq
        Registry_new_def Let_def demo_request_def)
  show ?thesis
    by (simp add: Publish_def demo_validated demo_entered replay_check_def pre before demo_applied
        demo_applied_registry_def Let_def)
qed

lemma demo_applied_fields:
  "g_entities demo_applied_registry = [put_entry 0 demo_entry (entity_new demo_entity 1 0)]"
  "g_generation demo_applied_registry = 0" "g_capability_ids demo_applied_registry = [demo_capability]"
  "g_epoch demo_applied_registry = 1" "g_fenced_boots demo_applied_registry = {}"
  "g_options demo_applied_registry = options_default" "g_indices demo_applied_registry = demo_indices"
  "g_schema demo_applied_registry = demo_schema" "g_authorities demo_applied_registry = [demo_grant]"
  "g_publishers demo_applied_registry = g_publishers demo_registered"
  "g_journal demo_applied_registry = []" "g_journal_order demo_applied_registry = []"
  by (simp_all add: demo_applied_registry_def close_work_def put_entity_def create_entity_def
      demo_registered_eq Registry_new_def Let_def options_default_def Counter_IsSet_def)

lemma demo_published_fields:
  "g_entities demo_published = [demo_committed]" "g_generation demo_published = 1"
  "g_capability_ids demo_published = [demo_capability]" "g_epoch demo_published = 1"
  "g_fenced_boots demo_published = {}" "g_options demo_published = options_default"
  "g_indices demo_published = demo_indices" "g_schema demo_published = demo_schema"
  "g_authorities demo_published = [demo_grant]"
  "g_publishers demo_published = [((''agent'', ''abcdef01''),
     \<lparr>rn_registration = \<lparr>pb_publisher = ''agent'', pb_scope = ''scope'', pb_worker_boot = ''abcdef01'',
        pb_epoch = 1, pb_accepted_generation = 0\<rparr>, rn_active = True, rn_replay = [demo_replay]\<rparr>)]"
proof -
  have gen: "es_set_generation (put_entry 0 demo_entry (entity_new demo_entity 1 0)) = 0"
    by (simp add: put_entry_def entity_new_def)
  have next': "Counter_Next (0 :: counter) = Inr 1" by (simp add: Counter_Next_def)
  have key: "request_key demo_request = (''agent'', ''abcdef01'')"
    "pq_attempt demo_request = ''attempt-1''" "pq_publication demo_request = ''pub-1''"
    by (simp_all add: request_key_def demo_request_def)
  have pubs: "g_publishers demo_registered = [((''agent'', ''abcdef01''),
     \<lparr>rn_registration = \<lparr>pb_publisher = ''agent'', pb_scope = ''scope'', pb_worker_boot = ''abcdef01'',
        pb_epoch = 1, pb_accepted_generation = 0\<rparr>, rn_active = True, rn_replay = []\<rparr>)]"
    by (simp add: demo_registered_eq)
  show "g_entities demo_published = [demo_committed]" "g_generation demo_published = 1"
    "g_capability_ids demo_published = [demo_capability]" "g_epoch demo_published = 1"
    "g_fenced_boots demo_published = {}" "g_options demo_published = options_default"
    "g_indices demo_published = demo_indices" "g_schema demo_published = demo_schema"
    "g_authorities demo_published = [demo_grant]"
    "g_publishers demo_published = [((''agent'', ''abcdef01''),
     \<lparr>rn_registration = \<lparr>pb_publisher = ''agent'', pb_scope = ''scope'', pb_worker_boot = ''abcdef01'',
        pb_epoch = 1, pb_accepted_generation = 0\<rparr>, rn_active = True, rn_replay = [demo_replay]\<rparr>)]"
    by (simp_all add: demo_published_def demo_publish_commit commit_def Let_def demo_applied_fields gen
        next' key RecordJournal_def RegisterReplay_def put_entity_def demo_committed_def demo_replay_def
        options_default_def pubs)
qed

lemma demo_resolution:
  "r_state (ce_resolution demo_entry) = St_Supported" "r_capability (ce_resolution demo_entry) = demo_capability"
  by (simp_all add: demo_entry_def resolve_def resolve_pool_def Let_def current_of_def non_current_of_def
      retired_of_def demo_evidence_def claim_evidence_def strongest_of_def strongest_rank_def IsCurrent_def
      PickDeterministic_def SameClaim_def with_winner_def with_value_of_def demo_claim_def claim_default_def)

lemma demo_query:
  "FindEntity demo_published demo_entity = Some 0"
  "FindEntry demo_published demo_committed demo_capability = Some demo_entry"
  "q_state (Query demo_published demo_entity demo_capability) = St_Supported"
proof -
  show find: "FindEntity demo_published demo_entity = Some 0"
    by (simp add: FindEntity_def demo_published_fields demo_committed_def raise_high_water_def
        committed_entity_def put_entry_def entity_new_def Let_def)
  show entry: "FindEntry demo_published demo_committed demo_capability = Some demo_entry"
    by (simp add: FindEntry_def demo_published_fields demo_committed_def raise_high_water_def
        committed_entity_def put_entry_def entity_new_def Let_def)
  show "q_state (Query demo_published demo_entity demo_capability) = St_Supported"
    by (simp add: Query_def find demo_published_fields entry demo_resolution Let_def CapabilityId_IsSet_def)
      (simp add: demo_capability_def query_unknown_def)
qed

lemma demo_reachable: "reachable demo_registered" "reachable demo_published"
proof -
  have "reachable (Registry_new options_default demo_schema)"
    by (rule reachable_start) (simp add: options_default_def)
  then have "reachable (snd (DeclareAuthority (Registry_new options_default demo_schema) demo_grant))"
    by (rule reachable_step) (rule step_authority)
  then show r: "reachable demo_registered"
    unfolding demo_registered_def by (rule reachable_step) (rule step_register)
  show "reachable demo_published"
    unfolding demo_published_def by (rule reachable_step [OF r]) (rule step_publish)
qed

end
