(* ===== verification/RequirementLogic.thy ===== *)
theory RequirementLogic
  imports Requirement SampleRun
begin

text \<open>
  The evaluation of a requirement is Kleene's three-valued logic over the answers for its leaves,
  and what that gives.
\<close>

section \<open>Three-valued logic\<close>

text \<open>The truth order: not satisfied, undetermined, satisfied.\<close>

instantiation requirement_outcome :: linorder
begin

fun truth_rank :: "requirement_outcome \<Rightarrow> nat" where
  "truth_rank NotSatisfied = 0" | "truth_rank Undetermined = 1" | "truth_rank Satisfied = 2"

definition less_eq_requirement_outcome :: "requirement_outcome \<Rightarrow> requirement_outcome \<Rightarrow> bool" where
  "less_eq_requirement_outcome a b \<longleftrightarrow> truth_rank a \<le> truth_rank b"

definition less_requirement_outcome :: "requirement_outcome \<Rightarrow> requirement_outcome \<Rightarrow> bool" where
  "less_requirement_outcome a b \<longleftrightarrow> truth_rank a < truth_rank b"

instance
proof
  fix a b :: requirement_outcome
  show "a \<le> b \<Longrightarrow> b \<le> a \<Longrightarrow> a = b"
    by (cases a; cases b) (simp_all add: less_eq_requirement_outcome_def)
qed (auto simp: less_eq_requirement_outcome_def less_requirement_outcome_def)

end

lemmas outcome_order = less_eq_requirement_outcome_def less_requirement_outcome_def

lemma all_of_Cons: "all_of (out # outs) = min out (all_of outs)"
  by (cases out) (auto simp: all_of_def min_def outcome_order list_all_iff list_ex_iff)

lemma any_of_Cons: "any_of (out # outs) = max out (any_of outs)"
  by (cases out) (auto simp: any_of_def max_def outcome_order list_all_iff list_ex_iff)

text \<open>The reference meaning of an expression, given the meaning of its leaves.\<close>

fun meaning :: "(requirement_node \<Rightarrow> requirement_outcome) \<Rightarrow> requirement \<Rightarrow> requirement_outcome" where
  "meaning leaf (Requirement r children) =
     (case rq_kind r of
        RK_AllOf \<Rightarrow> foldr min (map (meaning leaf) children) Satisfied
      | RK_AnyOf \<Rightarrow> foldr max (map (meaning leaf) children) NotSatisfied
      | RK_Not \<Rightarrow> (case map (meaning leaf) children of [] \<Rightarrow> Undetermined | inner # _ \<Rightarrow> negate inner)
      | _ \<Rightarrow> leaf r)"

lemma all_of_foldr: "all_of outs = foldr min outs Satisfied"
  by (induction outs) (simp_all add: all_of_Cons, simp add: all_of_def)

lemma any_of_foldr: "any_of outs = foldr max outs NotSatisfied"
  by (induction outs) (simp_all add: any_of_Cons, simp add: any_of_def)

definition leaf_meaning :: "(capability_id \<Rightarrow> query_result) \<Rightarrow> requirement_node \<Rightarrow> requirement_outcome" where
  "leaf_meaning query r = evaluate_leaf (query (rq_capability r)) r"

lemma Evaluate_meaning:
  "fst (Evaluate query entity r path nodes) = meaning (leaf_meaning query) r"
  "fst (evaluate_children query entity rs path index nodes) = map (meaning (leaf_meaning query)) rs"
proof (induction query entity r path nodes and query entity rs path index nodes
    rule: Evaluate_evaluate_children.induct)
  case (1 query entity r children path nodes)
  then show ?case
    by (cases "rq_kind r")
      (auto simp: split_beta Let_def all_of_foldr any_of_foldr leaf_meaning_def split: list.split)
next
  case (3 query entity child rest path index nodes)
  then show ?case by (simp add: split_beta Let_def) (metis prod.collapse)
qed simp

section \<open>Size of an expression\<close>

fun node_count :: "requirement \<Rightarrow> nat" where
  "node_count (Requirement r children) = Suc (sum_list (map node_count children))"

fun nesting :: "requirement \<Rightarrow> nat" where
  "nesting (Requirement r children) = (case children of [] \<Rightarrow> 0 | _ \<Rightarrow> Suc (Max (set (map nesting children))))"

lemma nesting_child: "c \<in> set cs \<Longrightarrow> nesting c < nesting (Requirement r cs)"
  by (cases cs) (auto simp: less_Suc_eq_le intro: Max_ge)

lemma nesting_le:
  "(\<And>c. c \<in> set cs \<Longrightarrow> nesting c + Suc d \<le> m) \<Longrightarrow> d \<le> m \<Longrightarrow> nesting (Requirement r cs) + d \<le> m"
proof (cases cs)
  case (Cons c rest)
  assume c: "\<And>c. c \<in> set cs \<Longrightarrow> nesting c + Suc d \<le> m"
  have "Max (set (map nesting cs)) \<in> set (map nesting cs)" by (rule Max_in) (use Cons in auto)
  then obtain c where "c \<in> set cs" "Max (set (map nesting cs)) = nesting c" by auto
  with c [of c] Cons show ?thesis by simp
qed simp

lemma ValidateNode_children:
  assumes "ValidateNode (Requirement r children) depth nodes root = Inr n"
  shows "depth \<le> kMaxRequirementDepth \<and> nodes + 1 \<le> kMaxRequirementNodes
    \<and> validate_children children (depth + 1) (nodes + 1) = Inr n"
proof -
  have "depth \<le> 8" "nodes + 1 \<le> 256" using assms by (auto split: if_splits)
  with assms show ?thesis
    by (cases "rq_kind r") (auto simp: obind_Inr_iff check_leaf_def split: if_splits list.splits)
qed

lemma ValidateNode_bounds:
  "ValidateNode r depth nodes root = Inr n \<Longrightarrow>
     n = nodes + node_count r \<and> n \<le> kMaxRequirementNodes \<and> nesting r + depth \<le> kMaxRequirementDepth"
proof (induction r arbitrary: depth nodes root n)
  case (Requirement r children)
  note v = ValidateNode_children [OF Requirement.prems]
  have "n = m + sum_list (map node_count cs) \<and> (m \<le> 256 \<longrightarrow> n \<le> 256)
      \<and> (\<forall>c\<in>set cs. nesting c + Suc depth \<le> 8)"
    if "validate_children cs (depth + 1) m = Inr n" "set cs \<subseteq> set children" for cs m
    using that
  proof (induction cs arbitrary: m)
    case (Cons c cs)
    then obtain k where k: "ValidateNode c (depth + 1) m False = Inr k"
      "validate_children cs (depth + 1) k = Inr n" by (auto simp: obind_Inr_iff)
    with Requirement.IH [of c, OF _ k(1)] Cons.IH [OF k(2)] Cons.prems(2) show ?case by auto
  qed simp
  with v have "n = nodes + 1 + sum_list (map node_count children) \<and> n \<le> 256
      \<and> (\<forall>c\<in>set children. nesting c + Suc depth \<le> 8)" by blast
  with v show ?case by (auto intro!: nesting_le simp del: nesting.simps)
qed

text \<open>The shape validation enforces.\<close>

fun shaped :: "requirement \<Rightarrow> bool" where
  "shaped (Requirement r children) \<longleftrightarrow>
     (case rq_kind r of
        RK_AllOf \<Rightarrow> children \<noteq> [] | RK_AnyOf \<Rightarrow> children \<noteq> [] | RK_Not \<Rightarrow> length children = 1
      | _ \<Rightarrow> children = [])
     \<and> list_all shaped children"

lemma ValidateNode_shaped: "ValidateNode r depth nodes root = Inr n \<Longrightarrow> shaped r"
proof (induction r arbitrary: depth nodes root n)
  case (Requirement r children)
  have "list_all shaped cs"
    if "validate_children cs d m = Inr k" "set cs \<subseteq> set children" for cs d m k
    using that Requirement.IH by (induction cs arbitrary: m) (auto simp: obind_Inr_iff)
  with ValidateNode_children [OF Requirement.prems] Requirement.prems show ?case
    by (cases "rq_kind r") (auto simp: obind_Inr_iff check_leaf_def split: if_splits list.splits)
qed

lemma Evaluate_nodes:
  "shaped r \<Longrightarrow> length nodes + node_count r \<le> kMaxRequirementNodes \<Longrightarrow>
     length (snd (Evaluate query entity r path nodes)) = length nodes + node_count r
     \<and> snd (Evaluate query entity r path nodes) \<noteq> []
     \<and> nr_outcome (last (snd (Evaluate query entity r path nodes))) = fst (Evaluate query entity r path nodes)"
  "list_all shaped rs \<Longrightarrow> length nodes + sum_list (map node_count rs) \<le> kMaxRequirementNodes \<Longrightarrow>
     length (snd (evaluate_children query entity rs path index nodes))
       = length nodes + sum_list (map node_count rs)"
proof (induction query entity r path nodes and query entity rs path index nodes
    rule: Evaluate_evaluate_children.induct)
  case (1 query entity r children path nodes)
  then show ?case
    by (cases "rq_kind r")
      (auto simp: split_beta Let_def record_node_def split: list.splits)
next
  case (3 query entity child rest path index nodes)
  then show ?case by (simp add: split_beta Let_def) (metis add.assoc add_leD1 prod.collapse)
qed simp

lemma ValidateRequirement_Inr:
  assumes "ValidateRequirement r = Inr ()"
  shows "shaped r \<and> node_count r \<le> kMaxRequirementNodes \<and> nesting r \<le> kMaxRequirementDepth"
proof -
  obtain n where n: "ValidateNode r 0 0 True = Inr n"
    using assms by (auto simp: ValidateRequirement_def obind_Inr_iff)
  with ValidateNode_bounds [OF n] ValidateNode_shaped [OF n] show ?thesis by simp
qed

lemma rv_outcome_meaning:
  "ValidateRequirement r = Inr () \<Longrightarrow>
   rv_outcome (EvaluateRequirementAgainst g entity r) = meaning (leaf_meaning (Query g entity)) r"
  by (simp add: EvaluateRequirementAgainst_def Let_def split_beta Evaluate_meaning)

section \<open>Properties\<close>


definition sample_leaf :: requirement where
  "sample_leaf = Requirement (requirement_node_default\<lparr>rq_capability :=
     \<lparr>cap_ns = ''fabric.port'', cap_local = ''lldp'', cap_rendered = ''fabric.port.lldp''\<rparr>\<rparr>) []"

definition sample_requirement :: requirement where
  "sample_requirement = Requirement (requirement_node_default\<lparr>rq_kind := RK_AllOf\<rparr>)
     [Requirement (requirement_node_default\<lparr>rq_kind := RK_Not\<rparr>) [sample_leaf]]"

lemma sample_requirement_valid: "ValidateRequirement sample_requirement = Inr ()"
  by (simp add: ValidateRequirement_def sample_requirement_def sample_leaf_def
      requirement_node_default_def check_leaf_def CapabilityId_IsSet_def)


section \<open>Proof\<close>

fun demands_proof :: "requirement \<Rightarrow> bool" where
  "demands_proof (Requirement r children) \<longleftrightarrow>
     (rq_kind r \<in> {RK_AllOf, RK_AnyOf, RK_Not} \<or> rq_require_proof r) \<and> list_all demands_proof children"

text \<open>The information order: undetermined may become decided, a decided outcome stays.\<close>

definition refines :: "requirement_outcome \<Rightarrow> requirement_outcome \<Rightarrow> bool" where
  "refines a b \<longleftrightarrow> a = Undetermined \<or> a = b"

lemma refines_min_max:
  assumes "refines a b" and "refines c d"
  shows "refines (min a c) (min b d)" and "refines (max a c) (max b d)"
  using assms by (cases a; cases b; cases c; cases d; simp add: refines_def min_def max_def outcome_order)+

lemma foldr_refines:
  assumes "list_all2 refines xs ys"
  shows "refines (foldr min xs Satisfied) (foldr min ys Satisfied)"
    and "refines (foldr max xs NotSatisfied) (foldr max ys NotSatisfied)"
  using assms by (induction rule: list_all2_induct) (simp_all add: refines_min_max, simp_all add: refines_def)

lemma negate_refines: "refines a b \<Longrightarrow> refines (negate a) (negate b)"
  by (auto simp: refines_def)

lemma meaning_refines:
  assumes leaf: "\<And>n. rq_require_proof n \<Longrightarrow> refines (leaf n) (leaf' n)"
  shows "demands_proof r \<Longrightarrow> refines (meaning leaf r) (meaning leaf' r)"
proof (induction r)
  case (Requirement r children)
  have cs: "list_all2 refines (map (meaning leaf) children) (map (meaning leaf') children)"
    using Requirement by (auto simp: list_all2_conv_all_nth list_all_iff)
  show ?case
    using Requirement.prems foldr_refines [OF cs] leaf cs
    by (cases "rq_kind r") (auto simp: negate_refines refines_def [of Undetermined] split: list.splits)
qed

text \<open>C13. A decided requirement rests on proven capabilities only. If every leaf demands proof and a
  valid requirement comes out satisfied or not satisfied, then it comes out the same against every
  registry that gives the same state and value for the capabilities that were SUPPORTED: whatever
  the unproven ones turn out to be cannot change a decision.\<close>

theorem decision_rests_on_proof:
  assumes "ValidateRequirement r = Inr ()" and "demands_proof r"
    and "rv_outcome (EvaluateRequirementAgainst g entity r) \<noteq> Undetermined"
    and "\<And>c. q_state (Query g entity c) = St_Supported \<Longrightarrow>
      q_state (Query g' entity c) = St_Supported
      \<and> q_has_value (Query g' entity c) = q_has_value (Query g entity c)
      \<and> query_result.q_value (Query g' entity c) = query_result.q_value (Query g entity c)"
  shows "rv_outcome (EvaluateRequirementAgainst g' entity r) = rv_outcome (EvaluateRequirementAgainst g entity r)"
proof -
  note rv_outcome_meaning [OF assms(1)]
  moreover have "refines (leaf_meaning (Query g entity) n) (leaf_meaning (Query g' entity) n)"
    if "rq_require_proof n" for n
    using that assms(4) [of "rq_capability n"] by (auto simp: leaf_meaning_def evaluate_leaf_def refines_def)
  ultimately show ?thesis
    using meaning_refines [of "leaf_meaning (Query g entity)" "leaf_meaning (Query g' entity)" r] assms(2,3)
    by (auto simp: refines_def)
qed

text \<open>A state requirement can only ask for support. A leaf that requires any state other than
  SUPPORTED is never satisfied, even when the capability is in exactly the required state, because
  the evaluator leaves at the proof check first.\<close>

theorem other_state_is_never_satisfied:
  assumes "rq_kind n = RK_StateIs" and "rq_required_state n \<noteq> St_Supported"
  shows "rv_outcome (EvaluateRequirementAgainst g entity (Requirement n [])) \<noteq> Satisfied"
  using assms
  by (auto simp: EvaluateRequirementAgainst_def evaluate_leaf_def evaluate_supported_def decided_def
      Let_def split: sum.split)

lemma other_state_is_never_satisfied_witness:
  "rv_outcome (EvaluateRequirementAgainst demo_published demo_entity
     (Requirement (requirement_node_default\<lparr>rq_required_state := St_Unsupported\<rparr>) [])) \<noteq> Satisfied"
  by (rule other_state_is_never_satisfied) (simp_all add: requirement_node_default_def)

lemma demo_leaf_valid: "ValidateRequirement sample_leaf = Inr ()" "demands_proof sample_leaf"
  by (simp_all add: ValidateRequirement_def sample_leaf_def requirement_node_default_def check_leaf_def
      CapabilityId_IsSet_def)

lemma Query_epoch: "Query (g\<lparr>g_epoch := x\<rparr>) entity c = Query g entity c"
proof -
  have "FindEntity (g\<lparr>g_epoch := x\<rparr>) = FindEntity g" "FindEntry (g\<lparr>g_epoch := x\<rparr>) = FindEntry g"
    "query_unknown (g\<lparr>g_epoch := x\<rparr>) = query_unknown g" "g_entities (g\<lparr>g_epoch := x\<rparr>) = g_entities g"
    by (intro ext, simp add: FindEntity_def FindEntry_def query_unknown_def)+ simp
  then show ?thesis by (simp only: Query_def)
qed

lemma demo_leaf_satisfied:
  "rv_outcome (EvaluateRequirementAgainst demo_published demo_entity sample_leaf) = Satisfied"
  using demo_query(3) unfolding rv_outcome_meaning [OF demo_leaf_valid(1)]
  by (simp add: sample_leaf_def requirement_node_default_def leaf_meaning_def evaluate_leaf_def
      evaluate_supported_def decided_def demo_capability_def)

lemma decision_rests_on_proof_witness:
  "rv_outcome (EvaluateRequirementAgainst (demo_published\<lparr>g_epoch := 2\<rparr>) demo_entity sample_leaf) = Satisfied"
  using decision_rests_on_proof [OF demo_leaf_valid, of demo_published demo_entity
      "demo_published\<lparr>g_epoch := 2\<rparr>"] demo_leaf_satisfied
  by (simp add: Query_epoch)

text \<open>A negation can be satisfied by an unproven capability. There is a valid requirement, all of
  whose leaves are about a capability the registry knows nothing of, that the empty registry answers
  with satisfied: a leaf that does not demand proof counts as not satisfied, and its negation as
  satisfied.\<close>

theorem negation_of_unproven_is_satisfied:
  "\<exists>r. ValidateRequirement r = Inr ()
     \<and> rv_outcome (EvaluateRequirementAgainst (Registry_new options_default demo_schema) demo_entity r)
         = Satisfied
     \<and> (\<forall>c. q_state (Query (Registry_new options_default demo_schema) demo_entity c) = St_Unknown)"
proof -
  let ?leaf = "Requirement (requirement_node_default\<lparr>rq_capability := demo_capability,
    rq_require_proof := False\<rparr>) []"
  let ?r = "Requirement (requirement_node_default\<lparr>rq_kind := RK_AllOf\<rparr>)
    [Requirement (requirement_node_default\<lparr>rq_kind := RK_Not\<rparr>) [?leaf]]"
  have unknown: "q_state (Query (Registry_new options_default demo_schema) demo_entity c) = St_Unknown" for c
    by (simp add: Query_def FindEntity_def Registry_new_def Let_def query_unknown_def)
  have valid: "ValidateRequirement ?r = Inr ()"
    by (simp add: ValidateRequirement_def requirement_node_default_def check_leaf_def
        CapabilityId_IsSet_def demo_capability_def)
  then have "rv_outcome (EvaluateRequirementAgainst (Registry_new options_default demo_schema) demo_entity ?r)
      = Satisfied"
    unfolding rv_outcome_meaning [OF valid]
    by (simp add: requirement_node_default_def leaf_meaning_def evaluate_leaf_def unknown)
  with valid unknown show ?thesis by blast
qed

end
