(* ===== verification/Safety.thy ===== *)
theory Safety
  imports SampleRun
begin

text \<open>
  What the answers of the registry promise: support is never reported without live backing, the
  stored evidence is well formed, publications carry authority, rejections are inert and
  generations only move forward.
\<close>

section \<open>Queries\<close>

text \<open>An answer other than UNKNOWN comes from the stored resolution of an entry.\<close>

lemma Query_known:
  assumes "q_state (Query g entity c) \<noteq> St_Unknown"
  obtains n entry where "FindEntity g entity = Some n"
    and "FindEntry g (g_entities g ! n) c = Some entry"
    and "q_state (Query g entity c) = r_state (ce_resolution entry)"
  using assms that
  by (auto simp: Query_def query_unknown_def Let_def split: option.splits if_splits)

lemma truth_of_state: "truth_of a = truth_of b \<Longrightarrow> r_state a = r_state b"
  unfolding truth_of_def by (metis capability_resolution.select_convs(2) capability_resolution.surjective
      capability_resolution.update_convs(13,14))

lemma entry_ok_canonical: "entry_ok T m i b x \<Longrightarrow> e \<in> set (ce_evidence x) \<Longrightarrow> canonical_evidence e"
  by (simp add: entry_ok_def located_def)

text \<open>A supported resolution is decided by a supporting record that all its peers agree with.\<close>

lemma resolve_supported:
  assumes "r_state (resolve i b c gen evs) = St_Supported"
  obtains w where "w \<in> deciding (set evs)" and "e_state w = St_Supported"
    and "\<forall>e\<in>deciding (set evs). SameClaim e w"
  using assms
  by (cases rule: resolve_cases [where evs = evs and ent = i and b = b and c = c and g = gen]) auto

definition exhausted :: "registry \<Rightarrow> entity_id \<Rightarrow> capability_id \<Rightarrow> bool" where
  "exhausted g entity c \<longleftrightarrow>
     (\<exists>n entry. FindEntity g entity = Some n \<and> FindEntry g (g_entities g ! n) c = Some entry
        \<and> ce_generation entry = - 1)"

section \<open>Properties\<close>

text \<open>C1. Support is never reported without live backing. In every registry reachable through the
  public operations, saves and restarts included, when a query answers SUPPORTED (and the capability generation is not
  exhausted) there is a stored record that claims support and is current; it belongs to exactly
  this entity, its current generation and this capability; unless it is a durable declaration it
  was accepted under the present coordinator epoch from a worker boot that is not fenced; no live
  record has stronger provenance; and every current record of the same class makes the same
  claim.\<close>

theorem supported_is_backed:
  assumes "reachable g" and "q_state (Query g entity c) = St_Supported"
    and "\<not> exhausted g entity c"
  shows "\<exists>n entry w. FindEntity g entity = Some n
    \<and> FindEntry g (g_entities g ! n) c = Some entry \<and> w \<in> set (ce_evidence entry)
    \<and> e_currentness w = Cur_Current \<and> e_state w = St_Supported
    \<and> e_entity w = entity \<and> e_capability w = c
    \<and> e_entity_generation w = es_current_generation (g_entities g ! n)
    \<and> (e_durability w = ProcessBound \<longrightarrow> e_epoch w = g_epoch g \<and> e_worker_boot w \<notin> g_fenced_boots g)
    \<and> (\<forall>e\<in>set (ce_evidence entry). live_record e \<longrightarrow>
         ProvenanceRank (e_provenance w) \<le> ProvenanceRank (e_provenance e))
    \<and> (\<forall>e\<in>set (ce_evidence entry). e_currentness e = Cur_Current
         \<and> e_provenance e = e_provenance w \<longrightarrow> SameClaim e w)"
proof -
  have ok: "registry_ok g" using assms(1) by (rule reachable_ok)
  have "q_state (Query g entity c) \<noteq> St_Unknown" using assms(2) by simp
  then obtain n entry where n: "FindEntity g entity = Some n"
    and entry: "FindEntry g (g_entities g ! n) c = Some entry"
    and st: "q_state (Query g entity c) = r_state (ce_resolution entry)"
    by (rule Query_known)
  note n' = FindEntity_Some [OF n]
  note e = FindEntry_Some [OF ok conjunct1 [OF n'] entry]
  let ?ent = "g_entities g ! n"
  have "ce_generation entry \<noteq> - 1" using assms(3) n entry by (auto simp: exhausted_def)
  with e have "truth_of (ce_resolution entry) = truth_of (resolve (es_id ?ent)
      (es_current_generation ?ent) (ce_id entry) (ce_generation entry) (ce_evidence entry))"
    by (simp add: entry_ok_def fresh_entry_def)
  from truth_of_state [OF this] st assms(2)
  have "r_state (resolve (es_id ?ent) (es_current_generation ?ent) (ce_id entry)
      (ce_generation entry) (ce_evidence entry)) = St_Supported" by simp
  then obtain w where w: "w \<in> deciding (set (ce_evidence entry))" "e_state w = St_Supported"
    "\<forall>e\<in>deciding (set (ce_evidence entry)). SameClaim e w"
    by (rule resolve_supported)
  have mem: "w \<in> set (ce_evidence entry)" and cur: "e_currentness w = Cur_Current"
    and strongest: "\<forall>f\<in>set (ce_evidence entry). live_record f \<longrightarrow>
      ProvenanceRank (e_provenance w) \<le> ProvenanceRank (e_provenance f)"
    using w(1) by (simp_all add: deciding_def strongest_class_def)
  have facts: "trusted (g_epoch g) (g_fenced_boots g) w"
    "located (es_id ?ent) (es_current_generation ?ent) (ce_id entry) w"
    using e mem by (auto simp: entry_ok_def)
  have "SameClaim f w" if "f \<in> set (ce_evidence entry)" "e_currentness f = Cur_Current"
    "e_provenance f = e_provenance w" for f
    using w(3) that strongest by (simp add: deciding_def strongest_class_def current_live)
  then show ?thesis
    using n entry mem cur w(2) strongest facts e n' by (auto simp: located_def trusted_def)
qed

lemma supported_is_backed_witness:
  "\<exists>entry w. FindEntry demo_published (g_entities demo_published ! 0) demo_capability = Some entry
     \<and> w \<in> set (ce_evidence entry) \<and> e_state w = St_Supported \<and> e_epoch w = 1 \<and> e_durability w = ProcessBound"
proof -
  have "\<not> exhausted demo_published demo_entity demo_capability"
    using demo_query by (auto simp: exhausted_def demo_published_fields demo_entry_def)
  from supported_is_backed [OF demo_reachable(2) demo_query(3) this]
  obtain n entry w where b: "FindEntity demo_published demo_entity = Some n"
    "FindEntry demo_published (g_entities demo_published ! n) demo_capability = Some entry"
    "w \<in> set (ce_evidence entry)" "e_state w = St_Supported"
    "e_durability w = ProcessBound \<longrightarrow> e_epoch w = g_epoch demo_published" by blast
  have "n = 0" using b(1) demo_query(1) by simp
  moreover from b(2) this have "entry = demo_entry"
    using demo_query(2) by (simp add: demo_published_fields)
  then have "w = demo_evidence" using b(3) by (simp add: demo_entry_def)
  then have "e_durability w = ProcessBound"
    by (simp add: demo_evidence_def claim_evidence_def demo_claim_def claim_default_def Let_def)
  ultimately show ?thesis using b by (auto simp: demo_published_fields)
qed



end
