(* ===== verification/PublishContract.thy ===== *)
theory PublishContract
  imports Safety
begin

text \<open>
  What a publication promises: requests that fail validation are inert, commits carry authority,
  and sending a committed request again changes nothing but the journal.
\<close>

section \<open>How a publication ends\<close>

lemma reject_result: "fst (reject g r e) = Inr res \<Longrightarrow> pr_status res = Rejected \<and> pr_code res = e"
  by (auto simp: reject_def Let_def base_result_def)

lemma answer_replay_result: "fst (answer_replay g n r) = Inr res \<Longrightarrow> pr_status res = IdempotentReplay"
  by (auto simp: answer_replay_def Let_def)

lemma stop_with_result: "fst (stop_with g r stop) = Inr res \<Longrightarrow> pr_status res = Rejected"
  by (cases stop) (auto simp: stop_with_def dest: reject_result)

text \<open>A committed publication passed every step.\<close>

lemma Publish_committed:
  assumes "Publish g r = (Inr res, g')" and "pr_status res = Committed"
  obtains runtime grant n g1 w where "validate_request g r = Inr (runtime, grant)"
    and "enter_entity g r = (Inr n, g1)"
    and "replay_check runtime r (Digest_ToString (RequestContentDigest r grant)) = Inr False"
    and "precondition_check (g_entities g1 ! n) r = Inr ()"
    and "apply_request g1 n grant r (open_work g1 n) = (Inr (), w)"
    and "commit (es_set (g_entities g1 ! n)) (Digest_ToString (RequestContentDigest r grant)) grant
          (close_work n w g1) n r = (Inr res, g')"
proof -
  have *: "\<not> (x = (Inr res, g') \<and> fst x = Inr res' \<and> pr_status res' \<noteq> Committed)" for x res'
    using assms(2) by auto
  obtain runtime grant where v: "validate_request g r = Inr (runtime, grant)"
    using assms by (cases "validate_request g r") (auto simp: Publish_def dest!: arg_cong [of _ _ fst] reject_result)
  obtain st g1 where e: "enter_entity g r = (st, g1)" by (cases "enter_entity g r")
  obtain n where n: "st = Inr n"
    using assms v e by (cases st) (auto simp: Publish_def dest!: arg_cong [of _ _ fst] stop_with_result)
  let ?cd = "Digest_ToString (RequestContentDigest r grant)"
  have rc: "replay_check runtime r ?cd = Inr False"
  proof (cases "replay_check runtime r ?cd")
    case (Inl a)
    then show ?thesis
      using assms v e n by (auto simp: Publish_def Let_def dest!: arg_cong [of _ _ fst] stop_with_result)
  next
    case (Inr b)
    then show ?thesis
      using assms v e n
      by (cases b) (auto simp: Publish_def Let_def dest!: arg_cong [of _ _ fst] answer_replay_result)
  qed
  have pc: "precondition_check (g_entities g1 ! n) r = Inr ()"
    using assms v e n rc
    by (cases "precondition_check (g_entities g1 ! n) r")
      (auto simp: Publish_def Let_def dest!: arg_cong [of _ _ fst] stop_with_result)
  obtain ap w where ap: "apply_request g1 n grant r (open_work g1 n) = (ap, w)"
    by (cases "apply_request g1 n grant r (open_work g1 n)")
  have "ap = Inr ()"
    using assms v e n rc pc ap
    by (cases ap) (auto simp: Publish_def Let_def dest!: arg_cong [of _ _ fst] reject_result)
  with that [OF v e [unfolded n] rc pc] ap show thesis
    using assms v e n rc pc by (simp add: Publish_def Let_def)
qed

text \<open>The registry after a commit, in terms of the applied one.\<close>

lemma commit_committed:
  assumes "commit before cd grant g n r = (Inr res, g')"
  obtains rg sg where
    "(if case before of None \<Rightarrow> True
         | Some s \<Rightarrow> s_digest (Materialize (g_generation g) (g_entities g ! n)) \<noteq> s_digest s
      then Counter_Next (es_set_generation (g_entities g ! n)) = Inr sg \<and> Counter_Next (g_generation g) = Inr rg
      else sg = es_set_generation (g_entities g ! n) \<and> rg = g_generation g)"
    and "pr_new_set_generation res = sg" and "pr_registry_generation res = rg"
    and "same_but_journal (RegisterReplay (request_key r)
       \<lparr>rp_attempt = pq_attempt r, rp_publication = pq_publication r, rp_content_digest = cd,
        rp_status = Committed, rp_code = E_Ok\<rparr>
       (put_entity n (raise_high_water r (committed_entity rg sg (g_entities g ! n)))
         (g\<lparr>g_generation := rg\<rparr>))) g'"
proof -
  let ?ent = "g_entities g ! n"
  define ch where "ch = (case before of None \<Rightarrow> True
         | Some s \<Rightarrow> s_digest (Materialize (g_generation g) ?ent) \<noteq> s_digest s)"
  have *: "commit before cd grant g n r = (Inr res, g') \<Longrightarrow>
    \<exists>sg rg. (if ch then Counter_Next (es_set_generation ?ent) else Inr (es_set_generation ?ent)) = Inr sg
      \<and> (if ch then Counter_Next (g_generation g) else Inr (g_generation g)) = Inr rg
      \<and> pr_new_set_generation res = sg \<and> pr_registry_generation res = rg
      \<and> (\<exists>x. g' = RecordJournal x (RegisterReplay (request_key r)
       \<lparr>rp_attempt = pq_attempt r, rp_publication = pq_publication r, rp_content_digest = cd,
        rp_status = Committed, rp_code = E_Ok\<rparr>
       (put_entity n (raise_high_water r (committed_entity rg sg ?ent)) (g\<lparr>g_generation := rg\<rparr>))))"
    unfolding commit_def Let_def ch_def [symmetric] by (auto split: sum.splits)
  from * [OF assms] obtain sg rg x where
    sr: "(if ch then Counter_Next (es_set_generation ?ent) else Inr (es_set_generation ?ent)) = Inr sg"
      "(if ch then Counter_Next (g_generation g) else Inr (g_generation g)) = Inr rg"
    and res: "pr_new_set_generation res = sg" "pr_registry_generation res = rg"
    and g': "g' = RecordJournal x (RegisterReplay (request_key r)
       \<lparr>rp_attempt = pq_attempt r, rp_publication = pq_publication r, rp_content_digest = cd,
        rp_status = Committed, rp_code = E_Ok\<rparr>
       (put_entity n (raise_high_water r (committed_entity rg sg ?ent)) (g\<lparr>g_generation := rg\<rparr>)))"
    by blast
  show thesis
  proof (rule that [OF _ res])
    show "if case before of None \<Rightarrow> True
         | Some s \<Rightarrow> s_digest (Materialize (g_generation g) ?ent) \<noteq> s_digest s
      then Counter_Next (es_set_generation ?ent) = Inr sg \<and> Counter_Next (g_generation g) = Inr rg
      else sg = es_set_generation ?ent \<and> rg = g_generation g"
      using sr unfolding ch_def [symmetric] by auto
    show "same_but_journal (RegisterReplay (request_key r)
       \<lparr>rp_attempt = pq_attempt r, rp_publication = pq_publication r, rp_content_digest = cd,
        rp_status = Committed, rp_code = E_Ok\<rparr>
       (put_entity n (raise_high_water r (committed_entity rg sg ?ent)) (g\<lparr>g_generation := rg\<rparr>))) g'"
      unfolding g' by (rule RecordJournal_frame)
  qed
qed

section \<open>Rejections\<close>



section \<open>Authority\<close>


lemma demo_commits: "\<exists>res. Publish demo_registered demo_request = (Inr res, demo_published)
    \<and> pr_status res = Committed"
proof -
  have gen: "es_set_generation (put_entry 0 demo_entry (entity_new demo_entity 1 0)) = 0"
    by (simp add: put_entry_def entity_new_def)
  have "Counter_Next (0 :: counter) = Inr 1" by (simp add: Counter_Next_def)
  then have "\<exists>res. fst (Publish demo_registered demo_request) = Inr res \<and> pr_status res = Committed"
    by (simp add: demo_publish_commit commit_def Let_def demo_applied_fields gen)
  then show ?thesis by (simp add: demo_published_def) (metis prod.collapse)
qed


section \<open>Replay\<close>

lemma enter_again:
  assumes ok: "registry_ok g" and n: "n < length (g_entities g)"
    and e: "es_id (g_entities g ! n) = pq_entity r"
      "es_current_generation (g_entities g ! n) = pq_entity_generation r"
  shows "enter_entity g r = (Inr n, g)"
proof -
  have "FindEntity g (pq_entity r) = Some n"
    using FindEntity_unique [OF _ n] ok e(1) by (simp add: registry_ok_def)
  then show ?thesis using e(2) by (simp add: enter_entity_def Let_def)
qed

lemma commit_target:
  assumes w: "work_ok T m ids (g_entities g1 ! n) w" and n: "entered g r n g1"
    and c: "commit before cd grant (close_work n w g1) n r = (Inr res, g')"
  shows "n < length (g_entities g') \<and> es_id (g_entities g' ! n) = pq_entity r
    \<and> es_current_generation (g_entities g' ! n) = pq_entity_generation r"
proof -
  obtain rg sg where s: "same_but_journal (RegisterReplay (request_key r)
       \<lparr>rp_attempt = pq_attempt r, rp_publication = pq_publication r, rp_content_digest = cd,
        rp_status = Committed, rp_code = E_Ok\<rparr>
       (put_entity n (raise_high_water r (committed_entity rg sg (g_entities (close_work n w g1) ! n)))
         ((close_work n w g1)\<lparr>g_generation := rg\<rparr>))) g'"
    by (rule commit_committed [OF c])
  have ents: "g_entities g' = (g_entities g1)[n := raise_high_water r (committed_entity rg sg (w_entity w))]"
    using same_but_journal_fields(2) [OF s] n
    by (simp add: RegisterReplay_def Let_def put_entity_def close_work_def entered_def)
  have "(w_entity w)\<lparr>es_capabilities := es_capabilities (g_entities g1 ! n)\<rparr> = g_entities g1 ! n"
    using w by (simp add: work_ok_def)
  from work_frame(1,2) [OF this] ents n show ?thesis
    by (simp add: entered_def raise_high_water_def committed_entity_def Let_def)
qed



end
