(* ===== verification/Generations.thy ===== *)
theory Generations
  imports PublishContract
begin

text \<open>
  The counters of the registry only move forward, over every public operation.
\<close>

section \<open>Generations only move forward\<close>

definition advances :: "registry \<Rightarrow> registry \<Rightarrow> bool" where
  "advances g g' \<longleftrightarrow> g_generation g \<le> g_generation g' \<and> g_epoch g \<le> g_epoch g'
     \<and> length (g_entities g) \<le> length (g_entities g')
     \<and> (\<forall>n<length (g_entities g). es_id (g_entities g' ! n) = es_id (g_entities g ! n)
          \<and> es_current_generation (g_entities g ! n) \<le> es_current_generation (g_entities g' ! n))"

lemma nth_put: "xs[n := x] ! k = (if n = k \<and> n < length xs then x else xs ! k)"
  by (cases "n < length xs") (simp_all add: nth_list_update list_update_beyond)

lemma advances_refl [simp]: "advances g g" by (simp add: advances_def)

lemma advances_trans:
  assumes a: "advances g h" and b: "advances h k"
  shows "advances g k"
proof -
  have "es_id (g_entities k ! n) = es_id (g_entities g ! n)
      \<and> es_current_generation (g_entities g ! n) \<le> es_current_generation (g_entities k ! n)"
    if n: "n < length (g_entities g)" for n
  proof -
    have "n < length (g_entities h)" using a n by (simp add: advances_def)
    with a b n show ?thesis unfolding advances_def by (metis order_trans)
  qed
  with a b show ?thesis by (auto simp: advances_def)
qed

text \<open>Same entities up to fields the relation does not read.\<close>

lemma advances_entities:
  assumes "g_generation g \<le> g_generation h" and "g_epoch g \<le> g_epoch h"
    and "length (g_entities h) = length (g_entities g)"
    and "\<And>n. n < length (g_entities g) \<Longrightarrow> es_id (g_entities h ! n) = es_id (g_entities g ! n)
      \<and> es_current_generation (g_entities h ! n) = es_current_generation (g_entities g ! n)"
  shows "advances g h"
  using assms by (simp add: advances_def)

lemma advances_journal: "same_but_journal g g' \<Longrightarrow> advances g g'"
  by (simp add: advances_def same_but_journal_fields)

lemma advances_next: "Counter_Next (g_generation g) = Inr x \<Longrightarrow> advances g (g\<lparr>g_generation := x\<rparr>)"
  using Counter_Next_less by (fastforce simp: advances_def)

lemma advances_put:
  assumes "es_id ent = es_id (g_entities g ! n)"
    and "es_current_generation (g_entities g ! n) \<le> es_current_generation ent"
  shows "advances g (put_entity n ent g)"
  using assms by (auto simp: advances_def put_entity_def nth_put)

lemma advances_create: "advances g (create_entity i gen g)"
  by (simp add: advances_def create_entity_def nth_append)

lemma advances_retire:
  assumes "es_current_generation (g_entities g ! n) \<le> gen"
  shows "advances g (retire_entity n gen reason g)"
  using assms
  by (auto simp: advances_def retire_entity_def put_entity_def split_beta Let_def nth_put
      RetireGeneration_def)

lemma advances_touch: "advances g (touch_entity n g)"
  unfolding touch_entity_def by (rule advances_put) simp_all

lemma advances_bump:
  "Counter_Next (g_generation g) = Inr x \<Longrightarrow> advances g (touch_entity n (g\<lparr>g_generation := x\<rparr>))"
  by (rule advances_trans [OF advances_next advances_touch])

lemma advances_enter: "advances g (snd (enter_entity g r))"
proof (cases "FindEntity g (pq_entity r)")
  case None
  then show ?thesis by (simp add: enter_entity_def advances_create)
next
  case (Some n)
  let ?gen = "pq_entity_generation r"
  let ?r = "retire_entity n ?gen (MakeReason ''superseded-by-fabric-registry'') g"
  have "advances g ?r" if "es_current_generation (g_entities g ! n) < ?gen"
    using that by (intro advances_retire) simp
  with Some show ?thesis
    by (auto simp: enter_entity_def Let_def split: sum.split intro: advances_trans advances_bump)
qed

lemma advances_close:
  assumes "work_ok T m ids (g_entities g ! n) w"
  shows "advances g (close_work n w g)"
proof -
  have "(w_entity w)\<lparr>es_capabilities := es_capabilities (g_entities g ! n)\<rparr> = g_entities g ! n"
    using assms by (simp add: work_ok_def)
  note fr = work_frame(1,2) [OF this]
  show ?thesis
    by (rule advances_entities) (simp_all add: close_work_def put_entity_def nth_put fr)
qed

lemma advances_commit: "advances g (snd (commit before cd grant g n r))"
proof -
  note fr = commit_frame [of before cd grant g n r]
  have gen: "g_generation g \<le> g_generation (snd (commit before cd grant g n r))"
    by (auto simp: commit_def Let_def put_entity_def RegisterReplay_def
        same_but_journal_fields(6) [OF RecordJournal_frame] dest: Counter_Next_less less_imp_le
        split: sum.split)
  show ?thesis
    using commit_entities [of before cd grant g n r] fr gen
    by (auto simp: advances_def nth_put raise_high_water_def committed_entity_def Let_def)
qed

lemma advances_Publish:
  assumes ok: "registry_ok g"
  shows "advances g (snd (Publish g r))"
proof (cases "validate_request g r")
  case (Inl e)
  then show ?thesis by (simp add: Publish_def advances_journal reject_frame)
next
  case (Inr x)
  then obtain runtime grant where v: "validate_request g r = Inr (runtime, grant)" by (cases x) auto
  obtain st g1 where e: "enter_entity g r = (st, g1)" by (cases "enter_entity g r")
  have a1: "advances g g1" using advances_enter [of g r] e by simp
  have stop: "advances g1 (snd (stop_with g1 r stop))" for stop
    by (cases stop) (simp_all add: stop_with_def advances_journal reject_frame)
  have replay: "advances g1 (snd (answer_replay g1 n r))" for n
    by (simp add: answer_replay_def Let_def advances_journal RecordJournal_frame)
  show ?thesis
  proof (cases st)
    case (Inl stop)
    with v e a1 stop show ?thesis by (auto simp: Publish_def intro: advances_trans)
  next
    case (Inr n)
    let ?cd = "Digest_ToString (RequestContentDigest r grant)"
    let ?ap = "apply_request g1 n grant r (open_work g1 n)"
    have a2: "advances g1 (close_work n (snd ?ap) g1)"
      using applied_work_ok [OF ok v e [unfolded Inr]] by (blast intro: advances_close)
    have fin: "advances g1 (snd (reject (close_work n (snd ?ap) g1) r err))"
      "advances g1 (snd (commit before ?cd grant (close_work n (snd ?ap) g1) n r))" for err before
      by (rule advances_trans [OF a2], simp add: advances_journal reject_frame advances_commit)+
    have "advances g1 (snd (Publish g r))"
      using v e Inr
      by (simp add: Publish_def Let_def split_beta stop replay fin split: sum.split bool.split)
    with a1 show ?thesis by (rule advances_trans)
  qed
qed

lemma advances_publish_all: "registry_ok g \<Longrightarrow> advances g (snd (publish_all g rs))"
proof (induction rs arbitrary: g)
  case (Cons r rs)
  obtain res g1 where p: "Publish g r = (res, g1)" by (cases "Publish g r")
  have "advances g g1" "registry_ok g1"
    using advances_Publish [OF Cons.prems, of r] registry_ok_Publish [OF Cons.prems, of r] p by simp_all
  with Cons.IH [of g1] p show ?case
    by (auto split: prod.split sum.split intro: advances_trans)
qed simp

lemma advances_marked:
  assumes "\<And>n ent ix. f n (ent, ix) = mark_and_refresh h c why boot source dur n (ent, ix) \<or> f n (ent, ix) = (ent, ix)"
  shows "advances g (update_entities f g)"
proof (rule advances_entities)
  note nth = each_entity_nth [of f 0 "g_entities g" "g_indices g", simplified]
  have one: "es_id (fst (f n (ent, ix))) = es_id ent
      \<and> es_current_generation (fst (f n (ent, ix))) = es_current_generation ent" for n ent ix
    using assms [of n ent ix]
  proof
    assume "f n (ent, ix) = mark_and_refresh h c why boot source dur n (ent, ix)"
    moreover have "es_id (fst (MarkEntity n (g_capability_ids h) c why boot source dur (ent, ix))) = es_id ent"
      "es_current_generation (fst (MarkEntity n (g_capability_ids h) c why boot source dur (ent, ix)))
        = es_current_generation ent"
      by (simp_all add: fst_MarkEntity)
    ultimately show ?thesis by (simp add: mark_and_refresh_def split_beta RefreshEntity_def)
  qed simp
  show "length (g_entities (update_entities f g)) = length (g_entities g)"
    using nth by (simp add: update_entities_def split_beta)
  show "es_id (g_entities (update_entities f g) ! n) = es_id (g_entities g ! n)
      \<and> es_current_generation (g_entities (update_entities f g) ! n)
        = es_current_generation (g_entities g ! n)" if "n < length (g_entities g)" for n
  proof -
    have "g_entities (update_entities f g) = fst (each_entity f 0 (g_entities g) (g_indices g))"
      by (simp add: update_entities_def split_beta)
    with nth that one show ?thesis by metis
  qed
qed (simp_all add: update_entities_def split_beta)


lemma advances_InvalidateEntity: "advances g (snd (InvalidateEntity g entity generation reason))"
proof (cases "FindEntity g entity")
  case (Some n)
  define why where "why = reason_or reason ''entity-invalidated''"
  obtain ent ix where m: "MarkEntity n (g_capability_ids g) Cur_RevalidationRequired why None None True
      (g_entities g ! n, g_indices g) = (ent, ix)" by fastforce
  have frame: "es_id ent = es_id (g_entities g ! n)"
    "es_current_generation ent = es_current_generation (g_entities g ! n)"
    using fst_MarkEntity [of n "g_capability_ids g" Cur_RevalidationRequired why None None True
        "g_entities g ! n" "g_indices g"] m by simp_all
  have put: "advances g (put_entity n e (g\<lparr>g_indices := ix\<rparr>))"
    if "es_id e = es_id ent" "es_current_generation e = es_current_generation ent" for e
    using that frame by (simp add: advances_def put_entity_def nth_put)
  have bump: "Counter_Next (g_generation h) = Inr x \<Longrightarrow> advances g h \<Longrightarrow>
      advances g (touch_entity n (h\<lparr>g_generation := x\<rparr>))" for h x
    by (rule advances_trans [OF _ advances_bump])
  have put2: "advances g (put_entity n e (g\<lparr>g_indices := ix\<rparr>)) \<and> advances g (put_entity n (RefreshEntity rg e) (g\<lparr>g_indices := ix\<rparr>))"
    if "e = ent \<or> e = ent\<lparr>es_invalidated := True, es_invalidation_reason := why\<rparr>" for e rg
    using that by (auto intro!: put simp: RefreshEntity_def)
  show ?thesis
    by (auto simp: InvalidateEntity_def Some Let_def why_def [symmetric] m put2 split: sum.split
        intro!: bump)
qed (simp add: InvalidateEntity_def)

lemma advances_ObserveEntityGeneration:
  assumes ok: "registry_ok g"
  shows "advances g (snd (ObserveEntityGeneration g entity generation reason))"
proof (cases "FindEntity g entity")
  case None
  then show ?thesis by (simp add: ObserveEntityGeneration_def advances_create)
next
  case (Some n)
  have "advances g (retire_entity n generation r g)"
    if "\<not> generation < es_current_generation (g_entities g ! n)" for r
    using that by (intro advances_retire) simp
  moreover have "advances g (put_entity n ((g_entities g ! n)\<lparr>es_current_generation := generation,
      es_bound_generation := generation\<rparr>) g)" if "\<not> Counter_IsSet (es_current_generation (g_entities g ! n))"
    using that by (intro advances_put) (simp_all add: Counter_IsSet_def)
  ultimately show ?thesis
    using Some by (auto simp: ObserveEntityGeneration_def Let_def split: sum.split
        intro: advances_trans advances_bump)
qed

lemma advances_bump_generation:
  "advances g h \<Longrightarrow> Counter_Next (g_generation h) = Inr x \<Longrightarrow> advances g (h\<lparr>g_generation := x\<rparr>)"
  by (rule advances_trans [OF _ advances_next])

lemma advances_InvalidateSource: "advances g (snd (InvalidateSource g source reason))"
proof -
  have "advances g (update_entities (\<lambda>n st. if es_capabilities (fst st) = [] then st
      else mark_and_refresh g Cur_RevalidationRequired (reason_or reason ''source-invalidated'')
        None (Some source) True n st) g)"
    by (rule advances_marked) auto
  then show ?thesis
    by (auto simp: InvalidateSource_def Let_def split: sum.split intro: advances_bump_generation)
qed

lemma advances_FenceWorkerBoot: "advances g (snd (FenceWorkerBoot g boot reason))"
proof (cases "evict_fence g")
  case (Some g1)
  note fr = evict_fence_frame [OF Some]
  have marked: "advances g (update_entities (mark_and_refresh h c why b s d) h)"
    if "g_entities h = g_entities g1" "g_epoch h = g_epoch g1" "g_generation h = g_generation g1"
    for h c why b s d
  proof (rule advances_trans)
    show "advances g h" using fr that by (intro advances_entities) simp_all
    show "advances h (update_entities (mark_and_refresh h c why b s d) h)" by (rule advances_marked, rule disjI1, rule refl)
  qed
  show ?thesis
    using Some by (auto simp: FenceWorkerBoot_def Let_def split: sum.split
        intro!: advances_bump_generation marked)
qed (simp add: FenceWorkerBoot_def)

lemma advances_AdvanceCoordinatorEpoch: "advances g (snd (AdvanceCoordinatorEpoch g reason))"
proof (cases "Counter_Next (g_epoch g)")
  case (Inr nxt)
  let ?why = "reason_or reason ''coordinator-epoch-advanced''"
  let ?boots = "map (\<lambda>p. snd (fst p)) (g_publishers g)"
  let ?g1 = "fence_boots ?why ?boots (g\<lparr>g_epoch := nxt, g_publishers := []\<rparr>)"
  note fr = fence_boots_frame [of ?why ?boots "g\<lparr>g_epoch := nxt, g_publishers := []\<rparr>", simplified]
  have "g_epoch g \<le> nxt" using Counter_Next_less [OF Inr] by simp
  then have "advances g ?g1" using fr by (intro advances_entities) simp_all
  moreover have "advances ?g1 (update_entities
      (mark_and_refresh ?g1 Cur_RevalidationRequired ?why None None False) ?g1)"
    by (rule advances_marked, rule disjI1, rule refl)
  ultimately have "advances g (update_entities
      (mark_and_refresh ?g1 Cur_RevalidationRequired ?why None None False) ?g1)"
    by (rule advances_trans)
  with Inr show ?thesis
    by (auto simp: AdvanceCoordinatorEpoch_def Let_def split: sum.split intro: advances_bump_generation)
qed (simp add: AdvanceCoordinatorEpoch_def)

lemma advances_frames:
  "advances g (snd (DeclareAuthority g grant))" "advances g (snd (RegisterPublisher g p s b))"
  "advances g (snd (RetirePublisher g p b))" "advances g (snd (Registry_RegisterVendorDescriptor g d))"
  by (auto simp: DeclareAuthority_def RegisterPublisher_def RetirePublisher_def advances_def Let_def
      Registry_RegisterVendorDescriptor_def split: sum.split option.split prod.split)



end
