(* ===== verification/Revocation.thy ===== *)
theory Revocation
  imports Generations
begin

text \<open>
  What takes evidence out of service: a newer entity generation, a new coordinator epoch and a
  fenced worker boot.
\<close>

section \<open>Retired generations\<close>

lemma Query_no_capabilities:
  assumes "FindEntity g entity = Some n" and "es_capabilities (g_entities g ! n) = []"
  shows "q_state (Query g entity c) = St_Unknown \<and> q_fails_closed (Query g entity c)
    \<and> \<not> q_actionable (Query g entity c) \<and> \<not> q_record_exists (Query g entity c)
    \<and> q_entity_generation (Query g entity c) = es_current_generation (g_entities g ! n)"
  using assms by (simp add: Query_def Let_def FindEntry_def query_unknown_def split: option.split)

lemma FindEntity_put:
  "FindEntity g i = Some n \<Longrightarrow> es_id ent = i \<Longrightarrow> registry_ok g \<Longrightarrow>
   FindEntity (put_entity n ent g) i = Some n"
proof -
  assume f: "FindEntity g i = Some n" and e: "es_id ent = i" and ok: "registry_ok g"
  note n = FindEntity_Some [OF f]
  have "map es_id ((g_entities g)[n := ent]) = map es_id (g_entities g)"
    using n e by (metis length_map list_update_id map_update nth_map)
  then show ?thesis
    using FindEntity_unique [of "put_entity n ent g" n] ok n e
    by (simp add: put_entity_def registry_ok_def)
qed

lemma registry_ok_current:
  "registry_ok g \<Longrightarrow> n < length (g_entities g) \<Longrightarrow> es_current_generation (g_entities g ! n) \<noteq> 0"
  using registry_ok_entity by (force simp: entity_ok_def)



section \<open>Epoch advance and fencing\<close>

lemma Publish_invalid:
  "(\<And>x. validate_request g r \<noteq> Inr x) \<Longrightarrow>
   \<exists>res. fst (Publish g r) = Inr res \<and> pr_status res = Rejected"
  by (cases "validate_request g r") (auto simp: Publish_def reject_def Let_def base_result_def)

text \<open>Every record that a sweep over all entities leaves satisfies the sweep's condition.\<close>

lemma swept_evidence:
  assumes ents: "\<forall>ent\<in>set (g_entities g). entity_ok T m ids ent"
    and keep: "\<And>e. T e \<Longrightarrow> (\<exists>b. boot = Some b \<and> e_worker_boot e \<noteq> b)
      \<or> (\<exists>s. source = Some s \<and> e_source e \<noteq> s)
      \<or> \<not> dur \<and> e_durability e = Durable \<or> e_currentness e \<noteq> Cur_Current \<Longrightarrow> T' e"
    and mark: "\<And>e. T e \<Longrightarrow> T' (e\<lparr>e_currentness := c, e_reason := why\<rparr>)"
  shows "\<forall>ent\<in>set (g_entities (update_entities (mark_and_refresh h c why boot source dur) g)).
    \<forall>p\<in>set (es_capabilities ent). \<forall>e\<in>set (ce_evidence (snd p)). T' e"
proof -
  let ?f = "mark_and_refresh h c why boot source dur"
  note nth = each_entity_nth [of ?f 0 "g_entities g" "g_indices g", simplified]
  have one: "entity_ok T' m ids (fst (?f i (ent, ix)))" if "entity_ok T m ids ent" for i ent ix
  proof -
    have "entity_ok T' m ids (fst (MarkEntity i (g_capability_ids h) c why boot source dur (ent, ix)))"
      by (rule entity_ok_Mark [where T = T, OF that]) (use keep mark in blast)+
    then show ?thesis by (simp add: mark_and_refresh_def split_beta)
  qed
  have "entity_ok T' m ids ent" if "ent \<in> set (g_entities (update_entities ?f g))" for ent
  proof -
    from that obtain i where i: "i < length (g_entities g)"
      "ent = fst (each_entity ?f 0 (g_entities g) (g_indices g)) ! i"
      using nth by (auto simp: update_entities_def split_beta in_set_conv_nth)
    with nth obtain ix where "ent = fst (?f i (g_entities g ! i, ix))" by metis
    with one ents i(1) show ?thesis by (metis nth_mem)
  qed
  then show ?thesis by (auto simp: entity_ok_def entry_ok_def split_beta)
qed

text \<open>C7. Advancing the coordinator epoch revokes everything the old epoch authorised. The epoch
  is the successor of the old one; no publisher is registered any more, so every publication is
  rejected until publishers register again; and no process-bound evidence is current: what is still
  current is a durable declaration.\<close>

theorem epoch_advance_revokes:
  assumes "reachable g" and "AdvanceCoordinatorEpoch g reason = (Inr epoch, g')"
  shows "epoch = g_epoch g + 1 \<and> g_epoch g' = epoch \<and> g_publishers g' = []
    \<and> (\<forall>r. \<exists>res. fst (Publish g' r) = Inr res \<and> pr_status res = Rejected)
    \<and> (\<forall>ent\<in>set (g_entities g'). \<forall>p\<in>set (es_capabilities ent). \<forall>e\<in>set (ce_evidence (snd p)).
         e_currentness e = Cur_Current \<longrightarrow> e_durability e = Durable)"
proof -
  have ok: "registry_ok g" using assms(1) by (rule reachable_ok)
  obtain nxt where nxt: "Counter_Next (g_epoch g) = Inr nxt"
    using assms(2) by (cases "Counter_Next (g_epoch g)") (auto simp: AdvanceCoordinatorEpoch_def)
  let ?why = "reason_or reason ''coordinator-epoch-advanced''"
  let ?boots = "map (\<lambda>p. snd (fst p)) (g_publishers g)"
  let ?g1 = "fence_boots ?why ?boots (g\<lparr>g_epoch := nxt, g_publishers := []\<rparr>)"
  let ?g2 = "update_entities (mark_and_refresh ?g1 Cur_RevalidationRequired ?why None None False) ?g1"
  note fr = fence_boots_frame [of ?why ?boots "g\<lparr>g_epoch := nxt, g_publishers := []\<rparr>", simplified]
  have g2: "g_epoch ?g2 = nxt" "g_publishers ?g2 = []"
    using fr by (simp_all add: update_entities_def split_beta)
  have g': "epoch = nxt \<and> (\<exists>rg. g' = ?g2\<lparr>g_generation := rg\<rparr>)"
    using assms(2) nxt by (auto simp: AdvanceCoordinatorEpoch_def Let_def split: sum.splits)
  have "\<forall>ent\<in>set (g_entities ?g2). \<forall>p\<in>set (es_capabilities ent). \<forall>e\<in>set (ce_evidence (snd p)).
      e_currentness e = Cur_Current \<longrightarrow> e_durability e = Durable"
    by (rule swept_evidence [where T = "trusted (g_epoch g) (g_fenced_boots g)"
          and m = "o_max_evidence_per_capability (g_options g)" and ids = "g_capability_ids g"])
      (use registry_ok_base [OF ok] fr in auto)
  moreover have "\<exists>res. fst (Publish g' r) = Inr res \<and> pr_status res = Rejected" for r
    by (rule Publish_invalid) (use g' g2 in \<open>auto simp: validate_request_Inr publisher_check_Inr\<close>)
  ultimately show ?thesis
    using g' g2 nxt by (auto simp: Counter_Next_Inr)
qed

lemma epoch_advance_revokes_witness:
  "\<exists>g'. AdvanceCoordinatorEpoch demo_published [] = (Inr 2, g') \<and> g_publishers g' = []
     \<and> (\<forall>p\<in>set (es_capabilities (g_entities g' ! 0)). \<forall>e\<in>set (ce_evidence (snd p)).
          e_currentness e \<noteq> Cur_Current \<or> e_durability e = Durable)"
proof -
  have "\<exists>g'. AdvanceCoordinatorEpoch demo_published [] = (Inr 2, g') \<and> length (g_entities g') = 1"
  proof -
    have nx: "Counter_Next (1 :: counter) = Inr 2" by (simp add: Counter_Next_def)
    let ?why = "reason_or [] ''coordinator-epoch-advanced''"
    let ?g1 = "fence_boots ?why [''abcdef01''] (demo_published\<lparr>g_epoch := 2, g_publishers := []\<rparr>)"
    note fr = fence_boots_frame [of ?why "[''abcdef01'']" "demo_published\<lparr>g_epoch := 2, g_publishers := []\<rparr>"]
    show ?thesis
      using nx fr each_entity_nth [of "mark_and_refresh ?g1 Cur_RevalidationRequired ?why None None False" 0
          "g_entities ?g1" "g_indices ?g1"]
      by (simp add: AdvanceCoordinatorEpoch_def Let_def demo_published_fields update_entities_def split_beta
          del: fence_boots.simps)
  qed
  then obtain g' where a: "AdvanceCoordinatorEpoch demo_published [] = (Inr 2, g')"
    and len: "length (g_entities g') = 1" by blast
  from epoch_advance_revokes [OF demo_reachable(2) a] len
  have "g_publishers g' = []" "\<forall>p\<in>set (es_capabilities (g_entities g' ! 0)). \<forall>e\<in>set (ce_evidence (snd p)).
      e_currentness e \<noteq> Cur_Current \<or> e_durability e = Durable"
    using nth_mem [of 0 "g_entities g'"] by fastforce+
  with a show ?thesis by blast
qed

text \<open>C8. A fenced worker boot has no voice. After \<open>FenceWorkerBoot\<close> succeeds on a reachable
  registry, the boot is fenced, no process-bound evidence from it is current anywhere, it cannot
  register again, and every publication under it is rejected.\<close>

theorem fence_revokes:
  assumes "reachable g" and "FenceWorkerBoot g boot reason = (Inr (), g')"
  shows "IsWorkerBootFenced g' boot
    \<and> (\<forall>ent\<in>set (g_entities g'). \<forall>p\<in>set (es_capabilities ent). \<forall>e\<in>set (ce_evidence (snd p)).
         e_currentness e = Cur_Current \<and> e_durability e = ProcessBound \<longrightarrow> e_worker_boot e \<noteq> boot)
    \<and> (\<forall>publisher scope. \<exists>err. RegisterPublisher g' publisher scope boot = (Inl err, g'))
    \<and> (\<forall>r. ac_worker_boot (pq_authority r) = boot \<longrightarrow>
         (\<exists>res. fst (Publish g' r) = Inr res \<and> pr_status res = Rejected))"
proof -
  have ok: "registry_ok g'"
    using registry_ok_FenceWorkerBoot [OF reachable_ok [OF assms(1)], of boot reason] assms(2) by simp
  have fenced: "boot \<in> g_fenced_boots g'"
    using assms(2)
    by (auto simp: FenceWorkerBoot_def Let_def update_entities_def split_beta
        split: if_splits option.splits sum.splits)
  have "\<forall>ent\<in>set (g_entities g'). \<forall>p\<in>set (es_capabilities ent). \<forall>e\<in>set (ce_evidence (snd p)).
      trusted (g_epoch g') (g_fenced_boots g') e"
    using ok by (auto simp: registry_ok_def entity_ok_def entry_ok_def split_beta)
  moreover have "\<exists>res. fst (Publish g' r) = Inr res \<and> pr_status res = Rejected"
    if "ac_worker_boot (pq_authority r) = boot" for r
    by (rule Publish_invalid) (use that fenced in \<open>auto simp: validate_request_Inr publisher_check_Inr\<close>)
  ultimately show ?thesis
    using fenced by (auto simp: IsWorkerBootFenced_def trusted_def RegisterPublisher_def)
qed

lemma demo_fences: "g_fences demo_published = []" "length (g_entities demo_published) = 1"
proof -
  have "g_fences demo_applied_registry = []"
    by (simp add: demo_applied_registry_def close_work_def put_entity_def create_entity_def
        demo_registered_eq Registry_new_def Let_def)
  moreover have "es_set_generation (put_entry 0 demo_entry (entity_new demo_entity 1 0)) = 0"
    by (simp add: put_entry_def entity_new_def)
  moreover have "Counter_Next (0 :: counter) = Inr 1" by (simp add: Counter_Next_def)
  ultimately show "g_fences demo_published = []"
    by (simp add: demo_published_def demo_publish_commit commit_def Let_def demo_applied_fields
        RegisterReplay_def put_entity_def same_but_journal_fields(11) [OF RecordJournal_frame])
qed (simp add: demo_published_fields)

lemma fence_revokes_witness:
  "\<exists>g'. FenceWorkerBoot demo_published ''abcdef01'' [] = (Inr (), g') \<and> IsWorkerBootFenced g' ''abcdef01''
     \<and> (\<exists>res. fst (Publish g' demo_request) = Inr res \<and> pr_status res = Rejected)"
proof -
  have "Counter_Next (1 :: counter) = Inr 2" by (simp add: Counter_Next_def)
  then have "fst (FenceWorkerBoot demo_published ''abcdef01'' []) = Inr ()"
    by (simp add: FenceWorkerBoot_def IsSet_def demo_published_fields evict_fence_def Let_def
        update_entities_def split_beta options_default_def demo_fences)
  then obtain g' where f: "FenceWorkerBoot demo_published ''abcdef01'' [] = (Inr (), g')"
    by (metis prod.collapse)
  have "ac_worker_boot (pq_authority demo_request) = ''abcdef01''" by (simp add: demo_request_def)
  with fence_revokes [OF demo_reachable(2) f] f show ?thesis by blast
qed

end
