(* ===== verification/RestartSafety.thy ===== *)
theory RestartSafety
  imports Revocation
begin

text \<open>
  What a restart guarantees: the state a restarted registry recovers from the one that was saved,
  and the trust it withdraws. The relation between a registry and its restarted copy, and the
  lemmas about it, are in Restart.
\<close>

section \<open>Properties\<close>

lemma restart_view:
  assumes ok: "registry_ok g" and i: "EntityId_IsSet i"
  shows "entity_view (restart h g) i = entity_view g i"
proof (cases "FindEntity g i")
  case None
  with restart_entity [OF ok i, of h] show ?thesis by (simp add: entity_view_def)
next
  case (Some n)
  with restart_entity [OF ok i, of h] obtain j where "FindEntity (restart h g) i = Some j"
    "rebuilt (g_generation g) (g_capability_ids (restart h g)) (store_entity (g_entities g ! n))
       (g_entities (restart h g) ! j)" by auto
  with Some show ?thesis by (simp add: entity_view_def rebuilt_fields store_entity_fields Let_def)
qed



lemma demo_evidence_at: "evidence_at demo_published demo_entity demo_capability = [demo_evidence]"
  using demo_query(1,2) by (simp add: evidence_at_def evidence_of_def demo_published_fields demo_entry_def)

lemma demo_ids_set: "EntityId_IsSet demo_entity" "CapabilityId_IsSet demo_capability"
  by (simp_all add: demo_entity_def demo_capability_def EntityId_IsSet_def CapabilityId_IsSet_def)



end
