(* ===== verification/StoreCodec.thy ===== *)
theory StoreCodec
  imports StoreFormat
begin

text \<open>
  The payload codec of \<open>src/src/persistence.cpp\<close>: the records it writes (a type, a length, a body)
  and the readers of the bodies, which parse every token again and check every enumerator and
  every count. The second half shows item by item that a reader returns what its writer wrote.
  The locale \<open>stored_item\<close> is the contract of one writer with its reader; every item of the format
  is an interpretation of it.
\<close>

section \<open>Writing\<close>

text \<open>The writer stops at the first operation that fails.\<close>

fun write_seq :: "bytes outcome list \<Rightarrow> bytes outcome" where
  "write_seq [] = Inr []"
| "write_seq (m # ms) = obind m (\<lambda>bs. obind (write_seq ms) (\<lambda>rest. Inr (bs @ rest)))"

definition write_list :: "('a \<Rightarrow> bytes outcome) \<Rightarrow> 'a list \<Rightarrow> bytes outcome" where
  "write_list w xs = write_seq (Inr (put_u32 (word_of_nat (length xs))) # map w xs)"

abbreviation (input) kDigestIdLength :: nat where "kDigestIdLength \<equiv> 32"
abbreviation (input) kMaxWorkerBootLength :: nat where "kMaxWorkerBootLength \<equiv> 64"
abbreviation (input) kMaxPublicationIdLength :: nat where "kMaxPublicationIdLength \<equiv> 96"
abbreviation (input) kMaxCapabilitiesPerEntity :: nat where "kMaxCapabilitiesPerEntity \<equiv> 4096"
abbreviation (input) kMaxEvidencePerEntity :: nat where "kMaxEvidencePerEntity \<equiv> 65536"
abbreviation (input) kMaxEntityGenerationsRetained :: nat where "kMaxEntityGenerationsRetained \<equiv> 8"
abbreviation (input) kMaxFencedWorkerBoots :: nat where "kMaxFencedWorkerBoots \<equiv> 65536"
abbreviation (input) kMaxEntities :: nat where "kMaxEntities \<equiv> 1000000"

fun currentness_code :: "evidence_currentness \<Rightarrow> u8" where
  "currentness_code Cur_Current = 0"
| "currentness_code Cur_RevalidationRequired = 1"
| "currentness_code Cur_Fenced = 2"
| "currentness_code Cur_Superseded = 3"
| "currentness_code Cur_EntityGenerationSuperseded = 4"

fun entity_kind_code :: "entity_kind \<Rightarrow> u8" where
  "entity_kind_code EK_Unknown = 0"
| "entity_kind_code EK_Fabric = 1"
| "entity_kind_code EK_Site = 2"
| "entity_kind_code EK_Device = 3"
| "entity_kind_code EK_Switch = 4"
| "entity_kind_code EK_Router = 5"
| "entity_kind_code EK_Nic = 6"
| "entity_kind_code EK_SmartNic = 7"
| "entity_kind_code EK_Dpu = 8"
| "entity_kind_code EK_Port = 9"
| "entity_kind_code EK_Link = 10"
| "entity_kind_code EK_Endpoint = 11"

definition WriteDigest :: "digest \<Rightarrow> bytes" where
  "WriteDigest d = concat (map put_u8 d)"

definition WriteClaim :: "stored_claim \<Rightarrow> bytes outcome" where
  "WriteClaim c = write_seq
     [put_text (cap_rendered (kc_capability c)) kMaxCapabilityIdLength,
      put_text (kc_id c) kDigestIdLength,
      put_text (kc_source c) kMaxSourceIdLength,
      put_text (kc_publisher c) kMaxPublisherIdLength,
      put_text (kc_scope c) kMaxAuthorityScopeIdLength,
      put_text (kc_worker_boot c) kMaxWorkerBootLength,
      put_text (kc_attempt c) kMaxAttemptIdLength,
      put_text (kc_publication c) kMaxPublicationIdLength,
      Inr (put_u64 (kc_epoch c)), Inr (put_u64 (kc_source_generation c)),
      Inr (put_u64 (kc_evidence_generation c)),
      Inr (put_u8 (ProvenanceRank (kc_provenance c))),
      Inr (put_u8 (source_class_code (kc_source_class c))),
      Inr (put_u8 (durability_code (kc_durability c))),
      Inr (put_u8 (coverage_code (kc_coverage c))),
      Inr (put_u8 (state_code (kc_state c))),
      Inr (put_u8 (currentness_code (kc_currentness c))),
      Inr (Value_Encode (kc_value c)),
      put_text (kc_firmware_version c) kMaxVersionTokenLength,
      put_text (kc_driver_version c) kMaxVersionTokenLength,
      put_text (kc_reason c) kMaxTextLength]"

definition WriteEntity :: "stored_entity \<Rightarrow> bytes outcome" where
  "WriteEntity s = write_seq
     [put_text (ent_rendered (sy_id s)) kMaxEntityIdLength,
      Inr (put_u64 (sy_current_generation s)), Inr (put_u64 (sy_bound_generation s)),
      Inr (put_bool (sy_has_set s)), Inr (put_u64 (sy_set_generation s)),
      Inr (put_bool (sy_invalidated s)),
      put_text (sy_invalidation_reason s) kMaxTextLength,
      write_list (\<lambda>c. write_seq [put_text (cap_rendered (kp_id c)) kMaxCapabilityIdLength,
          Inr (put_u64 (kp_generation c))]) (sy_capabilities s),
      write_list WriteClaim (sy_claims s),
      write_list (\<lambda>f. write_seq [put_text (sf_source f) kMaxSourceIdLength,
          put_text (sf_worker_boot f) kMaxWorkerBootLength,
          Inr (put_u64 (sf_generation f))]) (sy_source_floors s),
      write_list (\<lambda>h. write_seq [Inr (put_u64 (sg_generation h)), Inr (put_u64 (sg_set_generation h)),
          Inr (WriteDigest (sg_digest h)), Inr (put_u64 (sg_capability_count h)),
          Inr (put_u64 (sg_supported_count h)), Inr (put_u64 (sg_retired_at h)),
          put_text (sg_reason h) kMaxTextLength]) (sy_history s)]"

definition WriteGrant :: "authority_grant \<Rightarrow> bytes outcome" where
  "WriteGrant a = write_seq
     [put_text (ag_scope a) kMaxAuthorityScopeIdLength,
      write_list (\<lambda>k. Inr (put_u8 (entity_kind_code k))) (ag_entity_kinds a),
      write_list (\<lambda>ns. put_text ns kMaxCapabilityIdLength) (ag_namespaces a),
      Inr (put_u8 (ag_modes a)), Inr (put_bool (ag_exclusive a)),
      Inr (put_bool (ag_may_publish_durable a)),
      Inr (put_u8 (ProvenanceRank (ag_strongest_provenance a))),
      Inr (put_u32 (word_of_nat (ag_max_claims_per_publication a))),
      put_text (ag_description a) kMaxTextLength,
      write_list (\<lambda>p. put_text p kMaxPublisherIdLength) (ag_allowed_publishers a)]"

definition WriteFence :: "stored_fence \<Rightarrow> bytes outcome" where
  "WriteFence f = write_seq [put_text (so_worker_boot f) kMaxWorkerBootLength,
     put_text (so_publisher f) kMaxPublisherIdLength, put_text (so_reason f) kMaxTextLength]"

definition WriteRegistration :: "stored_registration \<Rightarrow> bytes outcome" where
  "WriteRegistration r = write_seq [put_text (sr_publisher r) kMaxPublisherIdLength,
     put_text (sr_worker_boot r) kMaxWorkerBootLength, put_text (sr_scope r) kMaxAuthorityScopeIdLength]"

abbreviation (input) kRecordMeta :: u8 where "kRecordMeta \<equiv> 1"
abbreviation (input) kRecordAuthority :: u8 where "kRecordAuthority \<equiv> 2"
abbreviation (input) kRecordFence :: u8 where "kRecordFence \<equiv> 3"
abbreviation (input) kRecordEntity :: u8 where "kRecordEntity \<equiv> 4"
abbreviation (input) kRecordRegistration :: u8 where "kRecordRegistration \<equiv> 5"

text \<open>A record: type, the low 32 bits of the length of the body, body.\<close>

definition write_record :: "u8 \<Rightarrow> bytes outcome \<Rightarrow> bytes outcome" where
  "write_record type m = obind m (\<lambda>body. Inr (put_u8 type @ put_u32 (word_of_nat (length body)) @ body))"

definition EncodePayload :: "store_payload \<Rightarrow> bytes outcome" where
  "EncodePayload p = write_seq
     (write_record kRecordMeta (Inr (put_u64 (sp_epoch p) @ put_u64 (sp_registry_generation p)))
      # map (\<lambda>a. write_record kRecordAuthority (WriteGrant a)) (sp_authorities p)
      @ map (\<lambda>f. write_record kRecordFence (WriteFence f)) (sp_fences p)
      @ map (\<lambda>r. write_record kRecordRegistration (WriteRegistration r)) (sp_registrations p)
      @ map (\<lambda>s. write_record kRecordEntity (WriteEntity s)) (sp_entities p))"

section \<open>Reading\<close>

definition read_parsed :: "nat \<Rightarrow> (string \<Rightarrow> 'a outcome) \<Rightarrow> 'a reader" where
  "read_parsed m parse = rd_bind (get_text m) (\<lambda>t. rd_lift (parse t))"

text \<open>An empty text leaves the token unset.\<close>

definition read_optional :: "nat \<Rightarrow> (string \<Rightarrow> token outcome) \<Rightarrow> token reader" where
  "read_optional m parse =
     rd_bind (get_text m) (\<lambda>t. if t = [] then rd_return [] else rd_lift (parse t))"

text \<open>An enumerator: the table lists the values from code zero on.\<close>

definition read_code :: "'a list \<Rightarrow> 'a reader" where
  "read_code table = rd_bind get_u8 (\<lambda>v.
     if unat v \<ge> length table then rd_fail E_PersistenceCorrupt else rd_return (table ! unat v))"

definition read_list :: "nat \<Rightarrow> 'a reader \<Rightarrow> 'a list reader" where
  "read_list bound r = rd_bind get_u32 (\<lambda>n.
     if unat n > bound then rd_fail E_PersistenceLimitExceeded else rd_repeat (unat n) r)"

definition provenance_table :: "provenance_class list" where
  "provenance_table = [Prov_DirectHardwareEnumeration, Prov_DirectDeviceOrOsApi,
     Prov_AuthoritativeAdministrativeDeclaration, Prov_VendorFirmwareOrSdkManifest,
     Prov_ImportedStaticProfile, Prov_Inferred, Prov_SyntheticTestBackend]"

definition source_class_table :: "evidence_source_class list" where
  "source_class_table = [Src_HardwareEnumeration, Src_OperatingSystemApi, Src_DriverApi,
     Src_FirmwareManifest, Src_VendorSdk, Src_DeviceAgent, Src_SwitchAgent,
     Src_AdministrativeDeclaration, Src_ImportedManifest, Src_SyntheticBackend]"

definition durability_table :: "durability_class list" where
  "durability_table = [ProcessBound, Durable]"

definition coverage_table :: "coverage_class list" where
  "coverage_table = [Partial, FullEnumeration]"

definition state_table :: "capability_state list" where
  "state_table = [St_Unknown, St_Supported, St_Unsupported, St_RevalidationRequired, St_Conflicted]"

definition currentness_table :: "evidence_currentness list" where
  "currentness_table = [Cur_Current, Cur_RevalidationRequired, Cur_Fenced, Cur_Superseded,
     Cur_EntityGenerationSuperseded]"

definition entity_kind_table :: "entity_kind list" where
  "entity_kind_table = [EK_Unknown, EK_Fabric, EK_Site, EK_Device, EK_Switch, EK_Router, EK_Nic,
     EK_SmartNic, EK_Dpu, EK_Port, EK_Link, EK_Endpoint]"

definition read_entity_kind :: "entity_kind reader" where
  "read_entity_kind = rd_bind (read_code entity_kind_table) (\<lambda>k.
     if k = EK_Unknown then rd_fail E_PersistenceCorrupt else rd_return k)"

definition ReadDigest :: "digest reader" where
  "ReadDigest = rd_repeat kDigestBytes get_u8"

definition ReadClaim :: "stored_claim reader" where
  "ReadClaim =
     rd_bind (read_parsed kMaxCapabilityIdLength CapabilityId_Parse) (\<lambda>capability.
     rd_bind (read_parsed kDigestIdLength EvidenceId_Parse) (\<lambda>ident.
     rd_bind (read_parsed kMaxSourceIdLength SourceId_Parse) (\<lambda>source.
     rd_bind (read_parsed kMaxPublisherIdLength PublisherId_Parse) (\<lambda>publisher.
     rd_bind (read_parsed kMaxAuthorityScopeIdLength AuthorityScopeId_Parse) (\<lambda>scope.
     rd_bind (read_parsed kMaxWorkerBootLength WorkerBootId_Parse) (\<lambda>boot.
     rd_bind (read_parsed kMaxAttemptIdLength MutationAttemptId_Parse) (\<lambda>attempt.
     rd_bind (read_parsed kMaxPublicationIdLength PublicationId_Parse) (\<lambda>publication.
     rd_bind get_u64 (\<lambda>epoch. rd_bind get_u64 (\<lambda>source_generation.
     rd_bind get_u64 (\<lambda>evidence_generation.
     rd_bind (read_code provenance_table) (\<lambda>provenance.
     rd_bind (read_code source_class_table) (\<lambda>source_class.
     rd_bind (read_code durability_table) (\<lambda>durability.
     rd_bind (read_code coverage_table) (\<lambda>coverage.
     rd_bind (read_code state_table) (\<lambda>st.
     rd_bind (read_code currentness_table) (\<lambda>currentness.
     rd_bind Value_Decode (\<lambda>val.
     rd_bind (read_optional kMaxVersionTokenLength VersionToken_Parse) (\<lambda>firmware.
     rd_bind (read_optional kMaxVersionTokenLength VersionToken_Parse) (\<lambda>driver.
     rd_bind (read_optional kMaxTextLength ReasonToken_Parse) (\<lambda>reason.
     rd_return \<lparr>kc_capability = capability, kc_id = ident, kc_source = source,
       kc_publisher = publisher, kc_scope = scope, kc_worker_boot = boot, kc_epoch = epoch,
       kc_source_generation = source_generation, kc_evidence_generation = evidence_generation,
       kc_attempt = attempt, kc_publication = publication, kc_provenance = provenance,
       kc_source_class = source_class, kc_durability = durability, kc_coverage = coverage,
       kc_state = st, kc_value = val, kc_firmware_version = firmware,
       kc_driver_version = driver, kc_reason = reason,
       kc_currentness = currentness\<rparr>)))))))))))))))))))))"

definition read_generation :: "counter reader" where
  "read_generation = rd_bind get_u64 (\<lambda>v.
     if v = 0 then rd_fail E_PersistenceCorrupt else rd_return v)"

definition read_capability :: "stored_capability reader" where
  "read_capability =
     rd_bind (read_parsed kMaxCapabilityIdLength CapabilityId_Parse) (\<lambda>c.
     rd_bind get_u64 (\<lambda>generation. rd_return \<lparr>kp_id = c, kp_generation = generation\<rparr>))"

text \<open>The capabilities are sorted, then two equal neighbours are rejected.\<close>

fun duplicate_capability :: "stored_capability list \<Rightarrow> bool" where
  "duplicate_capability (a # b # cs) \<longleftrightarrow> kp_id a = kp_id b \<or> duplicate_capability (b # cs)"
| "duplicate_capability _ = False"

definition read_capabilities :: "stored_capability list reader" where
  "read_capabilities = rd_bind (read_list kMaxCapabilitiesPerEntity read_capability) (\<lambda>cs.
     let cs = sort_key (\<lambda>c. cap_rendered (kp_id c)) cs in
     if duplicate_capability cs then rd_fail E_PersistenceDuplicateRecord else rd_return cs)"

definition read_floor :: "stored_source_floor reader" where
  "read_floor =
     rd_bind (read_parsed kMaxSourceIdLength SourceId_Parse) (\<lambda>source.
     rd_bind (read_parsed kMaxWorkerBootLength WorkerBootId_Parse) (\<lambda>boot.
     rd_bind get_u64 (\<lambda>generation.
     rd_return \<lparr>sf_source = source, sf_worker_boot = boot, sf_generation = generation\<rparr>)))"

definition read_history :: "stored_generation reader" where
  "read_history =
     rd_bind get_u64 (\<lambda>generation. rd_bind get_u64 (\<lambda>set_generation.
     rd_bind ReadDigest (\<lambda>digest. rd_bind get_u64 (\<lambda>capabilities.
     rd_bind get_u64 (\<lambda>supported. rd_bind get_u64 (\<lambda>retired_at.
     rd_bind (read_optional kMaxTextLength ReasonToken_Parse) (\<lambda>reason.
     rd_return \<lparr>sg_generation = generation, sg_set_generation = set_generation,
       sg_digest = digest, sg_capability_count = capabilities, sg_supported_count = supported,
       sg_retired_at = retired_at, sg_reason = reason\<rparr>)))))))"

definition ReadEntity :: "stored_entity reader" where
  "ReadEntity =
     rd_bind (read_parsed kMaxEntityIdLength EntityId_Parse) (\<lambda>ident.
     rd_bind read_generation (\<lambda>current. rd_bind get_u64 (\<lambda>bound.
     rd_bind get_bool (\<lambda>has. rd_bind get_u64 (\<lambda>set_generation.
     rd_bind get_bool (\<lambda>invalidated.
     rd_bind (read_optional kMaxTextLength ReasonToken_Parse) (\<lambda>reason.
     rd_bind read_capabilities (\<lambda>capabilities.
     rd_bind (read_list kMaxEvidencePerEntity ReadClaim) (\<lambda>claims.
     rd_bind (read_list kMaxEvidencePerEntity read_floor) (\<lambda>floors.
     rd_bind (read_list kMaxEntityGenerationsRetained read_history) (\<lambda>history.
     rd_return \<lparr>sy_id = ident, sy_current_generation = current, sy_bound_generation = bound,
       sy_has_set = has, sy_set_generation = set_generation, sy_invalidated = invalidated,
       sy_invalidation_reason = reason, sy_capabilities = capabilities, sy_claims = claims,
       sy_source_floors = floors, sy_history = history\<rparr>)))))))))))"

definition read_claim_bound :: "nat reader" where
  "read_claim_bound = rd_bind get_u32 (\<lambda>n.
     if unat n > kMaxClaimsPerPublication then rd_fail E_PersistenceCorrupt else rd_return (unat n))"

definition ReadGrant :: "authority_grant reader" where
  "ReadGrant =
     rd_bind (read_parsed kMaxAuthorityScopeIdLength AuthorityScopeId_Parse) (\<lambda>scope.
     rd_bind (read_list kMaxAuthorityEntityKinds read_entity_kind) (\<lambda>kinds.
     rd_bind (read_list kMaxAuthorityNamespaces (read_parsed kMaxCapabilityIdLength Namespace_Parse)) (\<lambda>namespaces.
     rd_bind get_u8 (\<lambda>modes. rd_bind get_bool (\<lambda>exclusive. rd_bind get_bool (\<lambda>durable.
     rd_bind (read_code provenance_table) (\<lambda>provenance.
     rd_bind read_claim_bound (\<lambda>max_claims.
     rd_bind (read_optional kMaxTextLength ReasonToken_Parse) (\<lambda>description.
     rd_bind (read_list 4096 (read_parsed kMaxPublisherIdLength PublisherId_Parse)) (\<lambda>publishers.
     rd_return \<lparr>ag_scope = scope, ag_entity_kinds = kinds, ag_namespaces = namespaces,
       ag_modes = modes, ag_exclusive = exclusive, ag_may_publish_durable = durable,
       ag_strongest_provenance = provenance, ag_allowed_publishers = publishers,
       ag_max_claims_per_publication = max_claims, ag_description = description\<rparr>))))))))))"

definition read_fence :: "stored_fence reader" where
  "read_fence =
     rd_bind (read_parsed kMaxWorkerBootLength WorkerBootId_Parse) (\<lambda>boot.
     rd_bind (read_optional kMaxPublisherIdLength PublisherId_Parse) (\<lambda>publisher.
     rd_bind (read_optional kMaxTextLength ReasonToken_Parse) (\<lambda>reason.
     rd_return \<lparr>so_worker_boot = boot, so_publisher = publisher, so_reason = reason\<rparr>)))"

definition read_registration :: "stored_registration reader" where
  "read_registration =
     rd_bind (read_parsed kMaxPublisherIdLength PublisherId_Parse) (\<lambda>publisher.
     rd_bind (read_parsed kMaxWorkerBootLength WorkerBootId_Parse) (\<lambda>boot.
     rd_bind (read_parsed kMaxAuthorityScopeIdLength AuthorityScopeId_Parse) (\<lambda>scope.
     rd_return \<lparr>sr_publisher = publisher, sr_worker_boot = boot, sr_scope = scope\<rparr>)))"

text \<open>The body of one record, added to the payload read so far; a body must be used up.\<close>

definition whole_body :: "'a reader \<Rightarrow> bytes \<Rightarrow> 'a outcome" where
  "whole_body r body = obind (r body) (\<lambda>(x, rest). obind (ExpectEnd rest) (\<lambda>_. Inr x))"

definition decode_record ::
  "u8 \<Rightarrow> bytes \<Rightarrow> bool \<Rightarrow> store_payload \<Rightarrow> (bool \<times> store_payload) outcome" where
  "decode_record type body saw_meta p =
     (if type = kRecordMeta then
        (if saw_meta then Inl E_PersistenceDuplicateRecord
         else obind (whole_body (rd_bind get_u64 (\<lambda>e. rd_bind get_u64 (\<lambda>rg. rd_return (e, rg)))) body)
                (\<lambda>(e, rg). Inr (True, p\<lparr>sp_epoch := e, sp_registry_generation := rg\<rparr>)))
      else if type = kRecordAuthority then
        (if length (sp_authorities p) \<ge> 4096 then Inl E_PersistenceLimitExceeded
         else obind (whole_body ReadGrant body) (\<lambda>a.
           Inr (saw_meta, p\<lparr>sp_authorities := sp_authorities p @ [a]\<rparr>)))
      else if type = kRecordFence then
        (if length (sp_fences p) \<ge> kMaxFencedWorkerBoots then Inl E_PersistenceLimitExceeded
         else obind (whole_body read_fence body) (\<lambda>f.
           Inr (saw_meta, p\<lparr>sp_fences := sp_fences p @ [f]\<rparr>)))
      else if type = kRecordRegistration then
        (if length (sp_registrations p) \<ge> 4096 then Inl E_PersistenceLimitExceeded
         else obind (whole_body read_registration body) (\<lambda>r.
           Inr (saw_meta, p\<lparr>sp_registrations := sp_registrations p @ [r]\<rparr>)))
      else if type = kRecordEntity then
        (if length (sp_entities p) \<ge> kMaxEntities then Inl E_PersistenceLimitExceeded
         else obind (whole_body ReadEntity body) (\<lambda>s.
           Inr (saw_meta, p\<lparr>sp_entities := sp_entities p @ [s]\<rparr>)))
      else Inl E_PersistenceCorrupt)"

lemma get_u8_shrinks: "get_u8 bs = Inr (v, rest) \<Longrightarrow> length rest < length bs"
  by (auto simp: get_u8_def split: list.splits)

lemma get_u32_shrinks: "get_u32 bs = Inr (v, rest) \<Longrightarrow> length rest < length bs"
  by (auto simp: get_u32_def le_read_def split: if_splits)

text \<open>The loop over the records: the cursor moves past one record per round.\<close>

function decode_records :: "bytes \<Rightarrow> bool \<Rightarrow> store_payload \<Rightarrow> store_payload outcome" where
  "decode_records bs saw_meta p =
     (if bs = [] then (if saw_meta then Inr p else Inl E_PersistenceCorrupt)
      else case get_u8 bs of
        Inl e \<Rightarrow> Inl e
      | Inr (type, r1) \<Rightarrow>
         (case get_u32 r1 of
            Inl e \<Rightarrow> Inl e
          | Inr (len, r2) \<Rightarrow>
              if unat len > length r2 then Inl E_PersistenceCorrupt
              else (case decode_record type (take (unat len) r2) saw_meta p of
                      Inl e \<Rightarrow> Inl e
                    | Inr (saw_meta', p') \<Rightarrow> decode_records (drop (unat len) r2) saw_meta' p')))"
  by pat_completeness auto
termination
  by (relation "measure (\<lambda>(bs, _, _). length bs)")
    (auto dest!: get_u8_shrinks get_u32_shrinks)

declare decode_records.simps [simp del]

definition DecodePayload :: "bytes \<Rightarrow> store_payload outcome" where
  "DecodePayload bs = decode_records bs False payload_empty"

section \<open>What a writer and its reader promise each other\<close>

text \<open>A writer \<open>w\<close> sends \<open>x\<close> to the reader \<open>r\<close>: it succeeds, and whatever follows its bytes,
  the reader returns \<open>x\<close> and leaves exactly what follows.\<close>

definition sends :: "bytes outcome \<Rightarrow> 'a reader \<Rightarrow> 'a \<Rightarrow> bool" where
  "sends w r x \<longleftrightarrow> (\<exists>b. w = Inr b \<and> (\<forall>rest. r (b @ rest) = Inr (x, rest)))"

named_theorems sends_intros \<open>composition of writers and readers\<close>

lemma sends_Nil [sends_intros]: "sends (write_seq []) (rd_return x) x"
  by (simp add: sends_def rd_simps)

lemma sends_Cons [sends_intros]:
  "sends m r a \<Longrightarrow> sends (write_seq ms) (f a) x \<Longrightarrow> sends (write_seq (m # ms)) (rd_bind r f) x"
  by (auto simp: sends_def rd_simps)

lemma sends_u64 [sends_intros]: "sends (Inr (put_u64 v)) get_u64 v"
  by (simp add: sends_def u64.roundtrip)

lemma sends_u8 [sends_intros]: "sends (Inr (put_u8 v)) get_u8 v"
  by (simp add: sends_def u8.roundtrip)

lemma sends_bool [sends_intros]: "sends (Inr (put_bool v)) get_bool v"
  by (simp add: sends_def bool8.roundtrip)

lemma sends_value [sends_intros]: "value_ok v \<Longrightarrow> sends (Inr (Value_Encode v)) Value_Decode v"
  by (simp add: sends_def value_codec.roundtrip)

lemma sends_text: "text_ok m t \<Longrightarrow> sends (put_text t m) (get_text m) t"
  using str.roundtrip [of m t] by (simp add: sends_def put_text_ok)

lemma sends_parsed [sends_intros]:
  "text_ok m t \<Longrightarrow> parse t = Inr x \<Longrightarrow> sends (put_text t m) (read_parsed m parse) x"
  using sends_text [of m t] by (auto simp: sends_def read_parsed_def rd_simps)

definition optional_ok :: "(string \<Rightarrow> token outcome) \<Rightarrow> string \<Rightarrow> bool" where
  "optional_ok parse t \<longleftrightarrow> t = [] \<or> parse t = Inr t"

lemma sends_optional [sends_intros]:
  "text_ok m t \<Longrightarrow> optional_ok parse t \<Longrightarrow> sends (put_text t m) (read_optional m parse) t"
  using sends_text [of m t] by (auto simp: sends_def read_optional_def optional_ok_def rd_simps)

lemma sends_code [sends_intros]:
  "unat c < length table \<Longrightarrow> table ! unat c = x \<Longrightarrow> sends (Inr (put_u8 c)) (read_code table) x"
  by (auto simp: sends_def read_code_def rd_simps u8.roundtrip)

lemma sends_repeat:
  "(\<And>x. x \<in> set xs \<Longrightarrow> sends (w x) r x) \<Longrightarrow>
     sends (write_seq (map w xs)) (rd_repeat (length xs) r) xs"
proof (induction xs)
  case Nil
  show ?case by (simp add: sends_Nil del: write_seq.simps)
next
  case (Cons a xs)
  have "sends (w a) r a" by (rule Cons.prems) simp
  moreover have "sends (write_seq (map w xs)) (rd_repeat (length xs) r) xs"
    by (rule Cons.IH) (simp add: Cons.prems)
  ultimately show ?case by (auto simp: sends_def rd_simps)
qed

lemma sends_list [sends_intros]:
  assumes "length xs \<le> bound" and "bound < 2 ^ 32" and "\<And>x. x \<in> set xs \<Longrightarrow> sends (w x) r x"
  shows "sends (write_list w xs) (read_list bound r) xs"
proof -
  have "unat (word_of_nat (length xs) :: u32) = length xs"
    using assms(1,2) by (intro unat_word_of_nat_u32) simp
  with sends_repeat [of xs w r] assms show ?thesis
    by (auto simp: sends_def write_list_def read_list_def rd_simps u32.roundtrip)
qed

text \<open>The readers that finish by checking or converting what they read.\<close>

lemma sends_bind:
  "sends w r a \<Longrightarrow> (\<And>rest. f a rest = Inr (x, rest)) \<Longrightarrow> sends w (rd_bind r f) x"
  by (auto simp: sends_def rd_simps)

section \<open>Tokens are readable text\<close>

lemma token_parse_text_ok:
  "TokenId_Parse cs lo hi t = Inr t' \<Longrightarrow> 0 < lo \<Longrightarrow> hi < 2 ^ 32 \<Longrightarrow> text_ok hi t"
  using token_text_ok [of t cs lo hi] by (auto simp: TokenId_Parse_def obind_Inr_iff)

lemma text_ok_mono: "text_ok m t \<Longrightarrow> m \<le> n \<Longrightarrow> text_ok n t"
  by (simp add: text_ok_def)

lemma text_ok_Nil [simp]: "text_ok m []"
  by (simp add: text_ok_def text_bytes_def)

lemma text_ok_iff:
  "text_ok m t \<longleftrightarrow> length t \<le> m \<and> length t < 2 ^ 32 \<and> (\<forall>c\<in>set t. text_byte_ok (char_byte c))"
  by (simp add: text_ok_def text_bytes_def list_all_iff)

lemma token_text_oks:
  "SourceId_Parse t = Inr t' \<Longrightarrow> text_ok kMaxSourceIdLength t"
  "PublisherId_Parse t = Inr t' \<Longrightarrow> text_ok kMaxPublisherIdLength t"
  "AuthorityScopeId_Parse t = Inr t' \<Longrightarrow> text_ok kMaxAuthorityScopeIdLength t"
  "WorkerBootId_Parse t = Inr t' \<Longrightarrow> text_ok kMaxWorkerBootLength t"
  "MutationAttemptId_Parse t = Inr t' \<Longrightarrow> text_ok kMaxAttemptIdLength t"
  "PublicationId_Parse t = Inr t' \<Longrightarrow> text_ok kMaxPublicationIdLength t"
  "EvidenceId_Parse t = Inr t' \<Longrightarrow> text_ok kDigestIdLength t"
  "VersionToken_Parse t = Inr t' \<Longrightarrow> text_ok kMaxVersionTokenLength t"
  "ReasonToken_Parse t = Inr t' \<Longrightarrow> text_ok kMaxTextLength t"
  unfolding SourceId_Parse_def PublisherId_Parse_def AuthorityScopeId_Parse_def
    WorkerBootId_Parse_def MutationAttemptId_Parse_def PublicationId_Parse_def
    EvidenceId_Parse_def VersionToken_Parse_def ReasonToken_Parse_def
  by (auto dest!: token_parse_text_ok)

lemma join_dots_chars: "set (join_dots ss) \<subseteq> insert CHR ''.'' (\<Union>s\<in>set ss. set s)"
  by (induction ss rule: join_dots.induct) auto

lemma segments_text_ok:
  assumes "\<And>s. s \<in> set (SplitSegments t) \<Longrightarrow> text_ok 192 s" and "length t \<le> 192"
  shows "text_ok 192 t"
proof -
  have "set t \<subseteq> insert CHR ''.'' (\<Union>s\<in>set (SplitSegments t). set s)"
    using join_dots_chars [of "SplitSegments t"] by (simp only: join_SplitSegments)
  moreover have "text_byte_ok (char_byte CHR ''.'')"
    by (simp add: text_byte_ok_char less_eq_char_def)
  ultimately show ?thesis using assms by (auto simp: text_ok_iff)
qed

lemma lower_text_ok: "ValidateToken s LowerToken 1 hi = Inr () \<Longrightarrow> hi \<le> 192 \<Longrightarrow> text_ok 192 s"
  using token_text_ok [of s LowerToken 1 hi] by (auto intro: text_ok_mono)

lemma namespace_text_ok:
  assumes "Namespace_Parse t = Inr ns" shows "text_ok 192 t"
proof (rule segments_text_ok)
  from assms have p: "length t \<le> 192" "ns_segments_ok (SplitSegments t)"
    by (simp_all add: Namespace_Parse_Inr)
  show "length t \<le> 192" by (rule p(1))
  fix s assume "s \<in> set (SplitSegments t)"
  moreover obtain a ss where "SplitSegments t = a # ss" by (cases "SplitSegments t") auto
  ultimately have "s = ''fabric'' \<or> s = ''vendor''
      \<or> ValidateToken s LowerToken 1 kMaxNamespaceSegmentLength = Inr ()"
    using p(2) by (auto simp: ns_segments_ok_def)
  moreover have "text_ok 192 ''fabric''" "text_ok 192 ''vendor''"
    by (simp_all add: text_ok_iff text_byte_ok_char less_eq_char_def)
  ultimately show "text_ok 192 s" using lower_text_ok by auto
qed

lemma capability_text_ok:
  assumes "CapabilityId_Parse t = Inr c" shows "text_ok kMaxCapabilityIdLength t"
proof -
  from CapabilityId_Parse_rendered [OF assms]
  have r: "cap_rendered c = t" and ns: "Namespace_Parse (cap_ns c) = Inr (cap_ns c)"
    and c: "CapabilityId_Create (cap_ns c) (cap_local c) = Inr c" by simp_all
  have "t = cap_ns c @ ''.'' @ cap_local c"
    using CapabilityId_Create_rendered [OF c] r by simp
  moreover have "ValidateToken (cap_local c) LowerToken 1 kMaxCapabilityLocalLength = Inr ()"
    and "length (cap_ns c) + 1 + length (cap_local c) \<le> 192"
    using c by (simp_all add: CapabilityId_Create_Inr)
  moreover have "text_byte_ok (char_byte CHR ''.'')"
    by (simp add: text_byte_ok_char less_eq_char_def)
  ultimately show ?thesis
    using namespace_text_ok [OF ns] lower_text_ok [of "cap_local c" 64] by (auto simp: text_ok_iff)
qed

lemma entity_text_ok:
  assumes "EntityId_Parse t = Inr e" shows "text_ok kMaxEntityIdLength t"
proof -
  from EntityId_Parse_rendered [OF assms]
  have r: "ent_rendered e = t" and c: "EntityId_Create (ent_kind e) (ent_canonical e) = Inr e"
    by simp_all
  have "t = FabricEntityKindName (ent_kind e) @ CHR '':'' # ent_canonical e"
    using c r unfolding EntityId_Create_Inr by (metis append_Cons append_Nil entity_id.select_convs(3))
  moreover have "text_ok 128 (ent_canonical e)"
    using c token_text_ok [of "ent_canonical e" LowerToken 1 128] by (auto simp: EntityId_Create_Inr)
  moreover have "text_ok 16 (FabricEntityKindName (ent_kind e))"
    by (cases "ent_kind e") (simp_all add: FabricEntityKindName_def kEntityKindNames_def
      text_ok_iff text_byte_ok_char less_eq_char_def)
  ultimately show ?thesis by (auto simp: text_ok_iff text_byte_ok_char less_eq_char_def)
qed


section \<open>Payloads that can be read back\<close>

locale stored_item =
  fixes ok :: "'a \<Rightarrow> bool" and w :: "'a \<Rightarrow> bytes outcome" and r :: "'a reader"
  assumes reads_back: "ok x \<Longrightarrow> sends (w x) r x"
begin

lemma list_reads_back:
  "length xs \<le> bound \<Longrightarrow> bound < 2 ^ 32 \<Longrightarrow> \<forall>x\<in>set xs. ok x \<Longrightarrow>
     sends (write_list w xs) (read_list bound r) xs"
  by (rule sends_list) (simp_all add: reads_back)

lemma writes: "ok x \<Longrightarrow> \<exists>body. w x = Inr body"
  using reads_back by (auto simp: sends_def)

lemma body_read: "ok x \<Longrightarrow> w x = Inr body \<Longrightarrow> whole_body r body = Inr x"
  using reads_back [of x]
  by (auto simp: sends_def whole_body_def ExpectEnd_def dest: spec [of _ "[]"])

end

definition capability_id_ok :: "capability_id \<Rightarrow> bool" where
  "capability_id_ok c \<longleftrightarrow> CapabilityId_Parse (cap_rendered c) = Inr c"

definition stored_claim_ok :: "stored_claim \<Rightarrow> bool" where
  "stored_claim_ok c \<longleftrightarrow> capability_id_ok (kc_capability c)
     \<and> EvidenceId_Parse (kc_id c) = Inr (kc_id c)
     \<and> SourceId_Parse (kc_source c) = Inr (kc_source c)
     \<and> PublisherId_Parse (kc_publisher c) = Inr (kc_publisher c)
     \<and> AuthorityScopeId_Parse (kc_scope c) = Inr (kc_scope c)
     \<and> WorkerBootId_Parse (kc_worker_boot c) = Inr (kc_worker_boot c)
     \<and> MutationAttemptId_Parse (kc_attempt c) = Inr (kc_attempt c)
     \<and> PublicationId_Parse (kc_publication c) = Inr (kc_publication c)
     \<and> value_ok (kc_value c)
     \<and> optional_ok VersionToken_Parse (kc_firmware_version c)
     \<and> optional_ok VersionToken_Parse (kc_driver_version c)
     \<and> optional_ok ReasonToken_Parse (kc_reason c)"

definition stored_capability_ok :: "stored_capability \<Rightarrow> bool" where
  "stored_capability_ok c \<longleftrightarrow> capability_id_ok (kp_id c)"

definition stored_floor_ok :: "stored_source_floor \<Rightarrow> bool" where
  "stored_floor_ok f \<longleftrightarrow> SourceId_Parse (sf_source f) = Inr (sf_source f)
     \<and> WorkerBootId_Parse (sf_worker_boot f) = Inr (sf_worker_boot f)"

definition stored_generation_ok :: "stored_generation \<Rightarrow> bool" where
  "stored_generation_ok h \<longleftrightarrow> length (sg_digest h) = kDigestBytes
     \<and> optional_ok ReasonToken_Parse (sg_reason h)"

definition stored_entity_ok :: "stored_entity \<Rightarrow> bool" where
  "stored_entity_ok s \<longleftrightarrow> EntityId_Parse (ent_rendered (sy_id s)) = Inr (sy_id s)
     \<and> sy_current_generation s \<noteq> 0
     \<and> optional_ok ReasonToken_Parse (sy_invalidation_reason s)
     \<and> length (sy_capabilities s) \<le> kMaxCapabilitiesPerEntity
     \<and> strictly_ascending (map (\<lambda>c. cap_rendered (kp_id c)) (sy_capabilities s))
     \<and> list_all stored_capability_ok (sy_capabilities s)
     \<and> length (sy_claims s) \<le> kMaxEvidencePerEntity \<and> list_all stored_claim_ok (sy_claims s)
     \<and> length (sy_source_floors s) \<le> kMaxEvidencePerEntity
     \<and> list_all stored_floor_ok (sy_source_floors s)
     \<and> length (sy_history s) \<le> kMaxEntityGenerationsRetained
     \<and> list_all stored_generation_ok (sy_history s)"

definition grant_ok :: "authority_grant \<Rightarrow> bool" where
  "grant_ok a \<longleftrightarrow> AuthorityScopeId_Parse (ag_scope a) = Inr (ag_scope a)
     \<and> length (ag_entity_kinds a) \<le> kMaxAuthorityEntityKinds
     \<and> EK_Unknown \<notin> set (ag_entity_kinds a)
     \<and> length (ag_namespaces a) \<le> kMaxAuthorityNamespaces
     \<and> list_all (\<lambda>ns. Namespace_Parse ns = Inr ns) (ag_namespaces a)
     \<and> ag_max_claims_per_publication a \<le> kMaxClaimsPerPublication
     \<and> optional_ok ReasonToken_Parse (ag_description a)
     \<and> length (ag_allowed_publishers a) \<le> 4096
     \<and> list_all (\<lambda>p. PublisherId_Parse p = Inr p) (ag_allowed_publishers a)"

definition stored_fence_ok :: "stored_fence \<Rightarrow> bool" where
  "stored_fence_ok f \<longleftrightarrow> WorkerBootId_Parse (so_worker_boot f) = Inr (so_worker_boot f)
     \<and> optional_ok PublisherId_Parse (so_publisher f)
     \<and> optional_ok ReasonToken_Parse (so_reason f)"

definition stored_registration_ok :: "stored_registration \<Rightarrow> bool" where
  "stored_registration_ok r \<longleftrightarrow> PublisherId_Parse (sr_publisher r) = Inr (sr_publisher r)
     \<and> WorkerBootId_Parse (sr_worker_boot r) = Inr (sr_worker_boot r)
     \<and> AuthorityScopeId_Parse (sr_scope r) = Inr (sr_scope r)"

lemma optional_text_oks:
  "optional_ok PublisherId_Parse t \<Longrightarrow> text_ok kMaxPublisherIdLength t"
  "optional_ok VersionToken_Parse t \<Longrightarrow> text_ok kMaxVersionTokenLength t"
  "optional_ok ReasonToken_Parse t \<Longrightarrow> text_ok kMaxTextLength t"
  by (auto simp: optional_ok_def intro: token_text_oks)

lemma sends_tables:
  "sends (Inr (put_u8 (ProvenanceRank p))) (read_code provenance_table) p"
  "sends (Inr (put_u8 (source_class_code sc))) (read_code source_class_table) sc"
  "sends (Inr (put_u8 (durability_code d))) (read_code durability_table) d"
  "sends (Inr (put_u8 (coverage_code cov))) (read_code coverage_table) cov"
  "sends (Inr (put_u8 (state_code st))) (read_code state_table) st"
  "sends (Inr (put_u8 (currentness_code cur))) (read_code currentness_table) cur"
  "sends (Inr (put_u8 (entity_kind_code k))) (read_code entity_kind_table) k"
  by (rule sends_code, (cases p; simp add: provenance_table_def)+)
    (rule sends_code, (cases sc; simp add: source_class_table_def)+,
     rule sends_code, (cases d; simp add: durability_table_def)+,
     rule sends_code, (cases cov; simp add: coverage_table_def)+,
     rule sends_code, (cases st; simp add: state_table_def)+,
     rule sends_code, (cases cur; simp add: currentness_table_def)+,
     rule sends_code, (cases k; simp add: entity_kind_table_def)+)

lemma sends_tokens:
  "SourceId_Parse t = Inr x \<Longrightarrow>
     sends (put_text t kMaxSourceIdLength) (read_parsed kMaxSourceIdLength SourceId_Parse) x"
  "PublisherId_Parse t = Inr x \<Longrightarrow>
     sends (put_text t kMaxPublisherIdLength) (read_parsed kMaxPublisherIdLength PublisherId_Parse) x"
  "AuthorityScopeId_Parse t = Inr x \<Longrightarrow>
     sends (put_text t kMaxAuthorityScopeIdLength)
       (read_parsed kMaxAuthorityScopeIdLength AuthorityScopeId_Parse) x"
  "WorkerBootId_Parse t = Inr x \<Longrightarrow>
     sends (put_text t kMaxWorkerBootLength) (read_parsed kMaxWorkerBootLength WorkerBootId_Parse) x"
  "MutationAttemptId_Parse t = Inr x \<Longrightarrow>
     sends (put_text t kMaxAttemptIdLength) (read_parsed kMaxAttemptIdLength MutationAttemptId_Parse) x"
  "PublicationId_Parse t = Inr x \<Longrightarrow>
     sends (put_text t kMaxPublicationIdLength)
       (read_parsed kMaxPublicationIdLength PublicationId_Parse) x"
  "EvidenceId_Parse t = Inr x \<Longrightarrow>
     sends (put_text t kDigestIdLength) (read_parsed kDigestIdLength EvidenceId_Parse) x"
  "CapabilityId_Parse t = Inr c \<Longrightarrow>
     sends (put_text t kMaxCapabilityIdLength) (read_parsed kMaxCapabilityIdLength CapabilityId_Parse) c"
  "Namespace_Parse t = Inr x \<Longrightarrow>
     sends (put_text t kMaxCapabilityIdLength) (read_parsed kMaxCapabilityIdLength Namespace_Parse) x"
  "EntityId_Parse t = Inr e \<Longrightarrow>
     sends (put_text t kMaxEntityIdLength) (read_parsed kMaxEntityIdLength EntityId_Parse) e"
  by (rule sends_parsed, erule token_text_oks capability_text_ok namespace_text_ok entity_text_ok,
      assumption)+

lemma sends_optionals:
  "optional_ok PublisherId_Parse t \<Longrightarrow>
     sends (put_text t kMaxPublisherIdLength) (read_optional kMaxPublisherIdLength PublisherId_Parse) t"
  "optional_ok VersionToken_Parse t \<Longrightarrow>
     sends (put_text t kMaxVersionTokenLength) (read_optional kMaxVersionTokenLength VersionToken_Parse) t"
  "optional_ok ReasonToken_Parse t \<Longrightarrow>
     sends (put_text t kMaxTextLength) (read_optional kMaxTextLength ReasonToken_Parse) t"
  by (rule sends_optional, erule optional_text_oks, assumption)+

lemma sends_digest: "length d = kDigestBytes \<Longrightarrow> sends (Inr (WriteDigest d)) ReadDigest d"
  using u8.repeat_roundtrip [of d] by (auto simp: sends_def WriteDigest_def ReadDigest_def)

lemma sends_end: "x = y \<Longrightarrow> sends (write_seq []) (rd_return y) x"
  by (simp add: sends_Nil del: write_seq.simps)

lemmas sends_fields = sends_end sends_Cons sends_u64 sends_u8 sends_bool sends_value sends_tables
  sends_tokens sends_optionals sends_digest

section \<open>The items of a record\<close>

interpretation claim: stored_item stored_claim_ok WriteClaim ReadClaim
proof unfold_locales
  fix c assume "stored_claim_ok c"
  then show "sends (WriteClaim c) ReadClaim c"
    unfolding WriteClaim_def ReadClaim_def stored_claim_ok_def capability_id_ok_def
    by (elim conjE) ((rule sends_fields | assumption)+, simp)
qed

interpretation capability: stored_item stored_capability_ok
  "\<lambda>c. write_seq [put_text (cap_rendered (kp_id c)) kMaxCapabilityIdLength,
     Inr (put_u64 (kp_generation c))]"
  read_capability
  by unfold_locales
    (unfold read_capability_def stored_capability_ok_def capability_id_ok_def,
      (rule sends_fields | assumption)+, simp)

interpretation floor: stored_item stored_floor_ok
  "\<lambda>f. write_seq [put_text (sf_source f) kMaxSourceIdLength,
     put_text (sf_worker_boot f) kMaxWorkerBootLength, Inr (put_u64 (sf_generation f))]"
  read_floor
  by unfold_locales
    (unfold read_floor_def stored_floor_ok_def, elim conjE, (rule sends_fields | assumption)+, simp)

interpretation history: stored_item stored_generation_ok
  "\<lambda>h. write_seq [Inr (put_u64 (sg_generation h)), Inr (put_u64 (sg_set_generation h)),
     Inr (WriteDigest (sg_digest h)), Inr (put_u64 (sg_capability_count h)),
     Inr (put_u64 (sg_supported_count h)), Inr (put_u64 (sg_retired_at h)),
     put_text (sg_reason h) kMaxTextLength]"
  read_history
  by unfold_locales
    (unfold read_history_def stored_generation_ok_def, elim conjE,
      (rule sends_fields | assumption)+, simp)

interpretation fence: stored_item stored_fence_ok WriteFence read_fence
  by unfold_locales
    (unfold WriteFence_def read_fence_def stored_fence_ok_def, elim conjE,
      (rule sends_fields | assumption)+, simp)

interpretation registration: stored_item stored_registration_ok WriteRegistration read_registration
  by unfold_locales
    (unfold WriteRegistration_def read_registration_def stored_registration_ok_def, elim conjE,
      (rule sends_fields | assumption)+, simp)

lemma sends_then: "sends w r x \<Longrightarrow> (\<And>bs. f x bs = Inr (y, bs)) \<Longrightarrow> sends w (rd_bind r f) y"
  by (auto simp: sends_def rd_simps)

interpretation kind: stored_item "\<lambda>k. k \<noteq> EK_Unknown" "\<lambda>k. Inr (put_u8 (entity_kind_code k))"
  read_entity_kind
  by unfold_locales (unfold read_entity_kind_def, rule sends_then, rule sends_tables, simp add: rd_simps)

interpretation namespace: stored_item "\<lambda>ns. Namespace_Parse ns = Inr ns"
  "\<lambda>ns. put_text ns kMaxCapabilityIdLength" "read_parsed kMaxCapabilityIdLength Namespace_Parse"
  by unfold_locales (rule sends_tokens)

interpretation allowed: stored_item "\<lambda>p. PublisherId_Parse p = Inr p"
  "\<lambda>p. put_text p kMaxPublisherIdLength" "read_parsed kMaxPublisherIdLength PublisherId_Parse"
  by unfold_locales (rule sends_tokens)

lemma sends_claim_bound:
  "n \<le> kMaxClaimsPerPublication \<Longrightarrow> sends (Inr (put_u32 (word_of_nat n))) read_claim_bound n"
  using unat_word_of_nat_u32 [of n]
  by (auto simp: sends_def read_claim_bound_def rd_simps u32.roundtrip)

lemma sends_generation: "v \<noteq> 0 \<Longrightarrow> sends (Inr (put_u64 v)) read_generation v"
  by (simp add: sends_def read_generation_def rd_simps u64.roundtrip)

lemma list_all_in: "list_all P xs \<Longrightarrow> \<forall>x\<in>set xs. P x"
  by (simp add: list_all_iff)

lemmas sends_lists = claim.list_reads_back capability.list_reads_back floor.list_reads_back
  history.list_reads_back kind.list_reads_back namespace.list_reads_back allowed.list_reads_back

interpretation grant: stored_item grant_ok WriteGrant ReadGrant
proof unfold_locales
  fix a assume "grant_ok a"
  then have "\<forall>k\<in>set (ag_entity_kinds a). k \<noteq> EK_Unknown" and "grant_ok a"
    by (auto simp: grant_ok_def)
  then show "sends (WriteGrant a) ReadGrant a"
    unfolding WriteGrant_def ReadGrant_def grant_ok_def
    by (elim conjE)
      ((rule sends_fields sends_claim_bound sends_lists | assumption | erule list_all_in
        | simp; fail)+)
qed

lemma duplicate_capability_iff:
  "strictly_ascending (map (\<lambda>c. cap_rendered (kp_id c)) cs) \<Longrightarrow> \<not> duplicate_capability cs"
  by (induction cs rule: duplicate_capability.induct) auto

lemma sends_capabilities:
  assumes "length cs \<le> kMaxCapabilitiesPerEntity" and "list_all stored_capability_ok cs"
    and asc: "strictly_ascending (map (\<lambda>c. cap_rendered (kp_id c)) cs)"
  shows "sends (write_list (\<lambda>c. write_seq [put_text (cap_rendered (kp_id c)) kMaxCapabilityIdLength,
     Inr (put_u64 (kp_generation c))]) cs) read_capabilities cs"
proof -
  have "sort_key (\<lambda>c. cap_rendered (kp_id c)) cs = cs"
    using strictly_ascending_sorted [OF asc] by (rule sort_key_id_if_sorted)
  then show ?thesis
    unfolding read_capabilities_def using assms duplicate_capability_iff [OF asc]
    by (intro sends_then [OF capability.list_reads_back]) (simp_all add: rd_simps list_all_iff)
qed

interpretation entity: stored_item stored_entity_ok WriteEntity ReadEntity
proof unfold_locales
  fix s assume "stored_entity_ok s"
  then show "sends (WriteEntity s) ReadEntity s"
    unfolding WriteEntity_def ReadEntity_def stored_entity_ok_def
    by (elim conjE)
      ((rule sends_generation sends_capabilities sends_fields sends_lists | assumption
        | erule list_all_in | simp; fail)+)
qed

end
