(* ===== verification/StoreRecords.thy ===== *)
theory StoreRecords
  imports StoreCodec
begin

text \<open>
  The payload as a sequence of records: every payload that fits the bounds of the reader is read
  back from its bytes, and whatever the reader accepts is such a payload. The locale \<open>record_kind\<close>
  is the contract of one kind of record, \<open>checked_item\<close> that of a reader that validates all it
  returns; both extend \<open>stored_item\<close>.
\<close>

section \<open>Records one after the other\<close>

lemma decode_records_Nil [simp]:
  "decode_records [] saw p = (if saw then Inr p else Inl E_PersistenceCorrupt)"
  by (simp add: decode_records.simps)

lemma decode_records_record:
  assumes "length body < 2 ^ 32"
  shows "decode_records (put_u8 type @ put_u32 (word_of_nat (length body)) @ body @ rest) saw p =
     obind (decode_record type body saw p) (\<lambda>(saw', p'). decode_records rest saw' p')"
proof -
  have "unat (word_of_nat (length body) :: u32) = length body"
    by (rule unat_word_of_nat_u32 [OF assms])
  moreover have "put_u8 type \<noteq> []" by (simp add: put_u8_def)
  ultimately show ?thesis
    by (subst decode_records.simps)
      (simp add: u8.roundtrip u32.roundtrip obind_def split: sum.split)
qed

lemma write_seq_append:
  "write_seq (ms @ ns) = obind (write_seq ms) (\<lambda>a. obind (write_seq ns) (\<lambda>b. Inr (a @ b)))"
proof (induction ms)
  case Nil
  show ?case by (cases "write_seq ns") simp_all
next
  case (Cons m ms)
  show ?case
    by (cases m; cases "write_seq ms"; cases "write_seq ns") (simp_all add: Cons.IH)
qed

text \<open>One kind of record: its items are appended to one list of the payload, up to a bound.\<close>

locale record_kind = stored_item +
  fixes type :: u8 and bound :: nat and items :: "store_payload \<Rightarrow> 'a list"
    and add :: "'a \<Rightarrow> store_payload \<Rightarrow> store_payload"
  assumes decode: "decode_record type body saw p =
      (if length (items p) \<ge> bound then Inl E_PersistenceLimitExceeded
       else obind (whole_body r body) (\<lambda>x. Inr (saw, add x p)))"
    and items_add: "items (add x p) = items p @ [x]"
begin

lemma records_written:
  "\<forall>x\<in>set xs. ok x \<Longrightarrow> \<exists>b. write_seq (map (\<lambda>x. write_record type (w x)) xs) = Inr b"
proof (induction xs)
  case Nil
  show ?case by simp
next
  case (Cons x xs)
  then obtain b body where "write_seq (map (\<lambda>x. write_record type (w x)) xs) = Inr b" "w x = Inr body"
    using writes [of x] by auto
  then show ?case by (simp add: write_record_def)
qed

lemma records_read:
  "\<forall>x\<in>set xs. ok x \<Longrightarrow> length (items p) + length xs \<le> bound \<Longrightarrow>
     write_seq (map (\<lambda>x. write_record type (w x)) xs) = Inr b \<Longrightarrow> length b < 2 ^ 32 \<Longrightarrow>
     decode_records (b @ rest) saw p = decode_records rest saw (fold add xs p)"
proof (induction xs arbitrary: p b)
  case Nil
  then show ?case by simp
next
  case (Cons x xs)
  from Cons.prems(3) obtain body b' where body: "w x = Inr body"
    and b': "write_seq (map (\<lambda>x. write_record type (w x)) xs) = Inr b'"
    and b: "b = (put_u8 type @ put_u32 (word_of_nat (length body)) @ body) @ b'"
    by (auto simp: write_record_def obind_Inr_iff)
  have "whole_body r body = Inr x" using Cons.prems(1) body by (simp add: body_read)
  moreover have "length body < 2 ^ 32" using Cons.prems(4) b by simp
  ultimately have "decode_records (b @ rest) saw p = decode_records (b' @ rest) saw (add x p)"
    using Cons.prems(2) by (simp add: b decode_records_record decode)
  also have "\<dots> = decode_records rest saw (fold add xs (add x p))"
    using Cons.prems b by (intro Cons.IH [OF _ _ b']) (simp_all add: items_add)
  finally show ?case by simp
qed

end

interpretation grants: record_kind grant_ok WriteGrant ReadGrant kRecordAuthority 4096
  sp_authorities "\<lambda>a p. p\<lparr>sp_authorities := sp_authorities p @ [a]\<rparr>"
  by unfold_locales (simp_all add: decode_record_def)

interpretation fences: record_kind stored_fence_ok WriteFence read_fence kRecordFence
  kMaxFencedWorkerBoots sp_fences "\<lambda>f p. p\<lparr>sp_fences := sp_fences p @ [f]\<rparr>"
  by unfold_locales (simp_all add: decode_record_def)

interpretation registrations: record_kind stored_registration_ok WriteRegistration
  read_registration kRecordRegistration 4096 sp_registrations
  "\<lambda>r p. p\<lparr>sp_registrations := sp_registrations p @ [r]\<rparr>"
  by unfold_locales (simp_all add: decode_record_def)

interpretation entities: record_kind stored_entity_ok WriteEntity ReadEntity kRecordEntity
  kMaxEntities sp_entities "\<lambda>s p. p\<lparr>sp_entities := sp_entities p @ [s]\<rparr>"
  by unfold_locales (simp_all add: decode_record_def)

definition payload_ok :: "store_payload \<Rightarrow> bool" where
  "payload_ok p \<longleftrightarrow>
     length (sp_authorities p) \<le> 4096 \<and> list_all grant_ok (sp_authorities p)
     \<and> length (sp_fences p) \<le> kMaxFencedWorkerBoots \<and> list_all stored_fence_ok (sp_fences p)
     \<and> length (sp_registrations p) \<le> 4096
     \<and> list_all stored_registration_ok (sp_registrations p)
     \<and> length (sp_entities p) \<le> kMaxEntities \<and> list_all stored_entity_ok (sp_entities p)"

lemma fold_adds:
  "fold (\<lambda>a p. p\<lparr>sp_authorities := sp_authorities p @ [a]\<rparr>) as p
     = p\<lparr>sp_authorities := sp_authorities p @ as\<rparr>"
  "fold (\<lambda>f p. p\<lparr>sp_fences := sp_fences p @ [f]\<rparr>) fs p = p\<lparr>sp_fences := sp_fences p @ fs\<rparr>"
  "fold (\<lambda>r p. p\<lparr>sp_registrations := sp_registrations p @ [r]\<rparr>) rs p
     = p\<lparr>sp_registrations := sp_registrations p @ rs\<rparr>"
  "fold (\<lambda>s p. p\<lparr>sp_entities := sp_entities p @ [s]\<rparr>) es p
     = p\<lparr>sp_entities := sp_entities p @ es\<rparr>"
  by (induction as arbitrary: p, simp_all, induction fs arbitrary: p, simp_all,
      induction rs arbitrary: p, simp_all, induction es arbitrary: p, simp_all)

lemma EncodePayload_parts:
  "EncodePayload p = Inr b \<longleftrightarrow> (\<exists>b1 b2 b3 b4.
     write_seq (map (\<lambda>a. write_record kRecordAuthority (WriteGrant a)) (sp_authorities p)) = Inr b1
     \<and> write_seq (map (\<lambda>f. write_record kRecordFence (WriteFence f)) (sp_fences p)) = Inr b2
     \<and> write_seq (map (\<lambda>r. write_record kRecordRegistration (WriteRegistration r))
          (sp_registrations p)) = Inr b3
     \<and> write_seq (map (\<lambda>s. write_record kRecordEntity (WriteEntity s)) (sp_entities p)) = Inr b4
     \<and> b = (put_u8 kRecordMeta @ put_u32 (word_of_nat (length (put_u64 (sp_epoch p)
          @ put_u64 (sp_registry_generation p)))) @ put_u64 (sp_epoch p)
          @ put_u64 (sp_registry_generation p)) @ b1 @ b2 @ b3 @ b4)"
  unfolding EncodePayload_def write_seq.simps write_seq_append
  by (fastforce simp: obind_Inr_iff write_record_def)

lemma decode_meta:
  "decode_records ((put_u8 kRecordMeta @ put_u32 (word_of_nat (length (put_u64 e @ put_u64 g)))
       @ put_u64 e @ put_u64 g) @ rest) False p
     = decode_records rest True (p\<lparr>sp_epoch := e, sp_registry_generation := g\<rparr>)"
  using decode_records_record [of "put_u64 e @ put_u64 g" kRecordMeta rest False p]
  by (simp add: put_u64_def decode_record_def whole_body_def rd_simps ExpectEnd_def
      u64.roundtrip [unfolded put_u64_def] u64.whole [unfolded put_u64_def])

lemma payload_written: "payload_ok p \<Longrightarrow> \<exists>b. EncodePayload p = Inr b"
  using grants.records_written [of "sp_authorities p"] fences.records_written [of "sp_fences p"]
    registrations.records_written [of "sp_registrations p"]
    entities.records_written [of "sp_entities p"]
  by (auto simp: EncodePayload_parts payload_ok_def list_all_iff)

lemma payload_read:
  assumes ok: "payload_ok p" and enc: "EncodePayload p = Inr b" and len: "length b < 2 ^ 32"
  shows "DecodePayload b = Inr p"
proof -
  from enc [unfolded EncodePayload_parts] obtain b1 b2 b3 b4 where
    w: "write_seq (map (\<lambda>a. write_record kRecordAuthority (WriteGrant a)) (sp_authorities p)) = Inr b1"
      "write_seq (map (\<lambda>f. write_record kRecordFence (WriteFence f)) (sp_fences p)) = Inr b2"
      "write_seq (map (\<lambda>r. write_record kRecordRegistration (WriteRegistration r))
          (sp_registrations p)) = Inr b3"
      "write_seq (map (\<lambda>s. write_record kRecordEntity (WriteEntity s)) (sp_entities p)) = Inr b4"
    and b: "b = (put_u8 kRecordMeta @ put_u32 (word_of_nat (length (put_u64 (sp_epoch p)
          @ put_u64 (sp_registry_generation p)))) @ put_u64 (sp_epoch p)
          @ put_u64 (sp_registry_generation p)) @ b1 @ b2 @ b3 @ b4" by blast
  have l: "length b1 < 2 ^ 32" "length b2 < 2 ^ 32" "length b3 < 2 ^ 32" "length b4 < 2 ^ 32"
    using len by (simp_all add: b)
  show ?thesis
    using ok l unfolding DecodePayload_def b decode_meta payload_ok_def list_all_iff
    by (simp add: grants.records_read [OF _ _ w(1)] fences.records_read [OF _ _ w(2)]
        registrations.records_read [OF _ _ w(3)]
        entities.records_read [OF _ _ w(4), where rest = "[]", simplified]
        fold_adds payload_empty_def)
qed

section \<open>What a reader lets through\<close>

text \<open>A checked item: whatever bytes the reader accepts, the item it returns is well formed.\<close>

locale checked_item = stored_item +
  assumes checks: "r bs = Inr (x, rest) \<Longrightarrow> ok x"
begin

lemma repeat_checks: "rd_repeat n r bs = Inr (xs, rest) \<Longrightarrow> length xs = n \<and> list_all ok xs"
proof (induction n arbitrary: bs xs)
  case 0
  then show ?case by (simp add: rd_simps)
next
  case (Suc n)
  from Suc.prems obtain y mid ys where "r bs = Inr (y, mid)" "rd_repeat n r mid = Inr (ys, rest)"
    "xs = y # ys" by (auto simp: rd_simps obind_Inr_iff)
  with Suc.IH checks show ?case by fastforce
qed

lemma list_checks: "read_list bound r bs = Inr (xs, rest) \<Longrightarrow> length xs \<le> bound \<and> list_all ok xs"
  using repeat_checks by (fastforce simp: read_list_def rd_simps obind_Inr_iff split: if_splits)

lemma body_checks: "whole_body r body = Inr x \<Longrightarrow> ok x"
  using checks by (auto simp: whole_body_def obind_Inr_iff)

lemma canonical_form:
  "r bs = Inr (x, rest) \<Longrightarrow> \<exists>b. w x = Inr b \<and> (\<forall>rest'. r (b @ rest') = Inr (x, rest'))"
  using checks reads_back unfolding sends_def by blast

end

lemma TokenId_Parse_again: "TokenId_Parse cs lo hi t = Inr x \<Longrightarrow> TokenId_Parse cs lo hi x = Inr x"
  by (auto simp: TokenId_Parse_iff)

lemma parsed_again:
  "read_parsed m SourceId_Parse bs = Inr (x, rest) \<Longrightarrow> SourceId_Parse x = Inr x"
  "read_parsed m PublisherId_Parse bs = Inr (x, rest) \<Longrightarrow> PublisherId_Parse x = Inr x"
  "read_parsed m AuthorityScopeId_Parse bs = Inr (x, rest) \<Longrightarrow> AuthorityScopeId_Parse x = Inr x"
  "read_parsed m WorkerBootId_Parse bs = Inr (x, rest) \<Longrightarrow> WorkerBootId_Parse x = Inr x"
  "read_parsed m MutationAttemptId_Parse bs = Inr (x, rest) \<Longrightarrow> MutationAttemptId_Parse x = Inr x"
  "read_parsed m PublicationId_Parse bs = Inr (x, rest) \<Longrightarrow> PublicationId_Parse x = Inr x"
  "read_parsed m EvidenceId_Parse bs = Inr (x, rest) \<Longrightarrow> EvidenceId_Parse x = Inr x"
  "read_parsed m Namespace_Parse bs = Inr (x, rest) \<Longrightarrow> Namespace_Parse x = Inr x"
  "read_parsed m CapabilityId_Parse bs = Inr (c, rest) \<Longrightarrow> capability_id_ok c"
  "read_parsed m EntityId_Parse bs = Inr (e, rest) \<Longrightarrow> EntityId_Parse (ent_rendered e) = Inr e"
  unfolding SourceId_Parse_def PublisherId_Parse_def AuthorityScopeId_Parse_def
    WorkerBootId_Parse_def MutationAttemptId_Parse_def PublicationId_Parse_def
    EvidenceId_Parse_def read_parsed_def capability_id_ok_def
  by (auto simp: rd_simps obind_Inr_iff Namespace_Parse_Inr
      dest: TokenId_Parse_again CapabilityId_Parse_rendered EntityId_Parse_rendered)

lemma optional_again:
  "read_optional m PublisherId_Parse bs = Inr (x, rest) \<Longrightarrow> optional_ok PublisherId_Parse x"
  "read_optional m VersionToken_Parse bs = Inr (x, rest) \<Longrightarrow> optional_ok VersionToken_Parse x"
  "read_optional m ReasonToken_Parse bs = Inr (x, rest) \<Longrightarrow> optional_ok ReasonToken_Parse x"
  unfolding read_optional_def optional_ok_def PublisherId_Parse_def VersionToken_Parse_def
    ReasonToken_Parse_def
  by (auto simp: rd_simps obind_Inr_iff dest: TokenId_Parse_again split: if_splits)

lemmas reader_results = rd_simps obind_Inr_iff

interpretation claim: checked_item stored_claim_ok WriteClaim ReadClaim
  by unfold_locales
    (auto simp: ReadClaim_def reader_results stored_claim_ok_def
      dest!: parsed_again optional_again Value_Decode_ok)

interpretation capability: checked_item stored_capability_ok
  "\<lambda>c. write_seq [put_text (cap_rendered (kp_id c)) kMaxCapabilityIdLength,
     Inr (put_u64 (kp_generation c))]"
  read_capability
  by unfold_locales
    (auto simp: read_capability_def reader_results stored_capability_ok_def dest!: parsed_again)

interpretation floor: checked_item stored_floor_ok
  "\<lambda>f. write_seq [put_text (sf_source f) kMaxSourceIdLength,
     put_text (sf_worker_boot f) kMaxWorkerBootLength, Inr (put_u64 (sf_generation f))]"
  read_floor
  by unfold_locales
    (auto simp: read_floor_def reader_results stored_floor_ok_def dest!: parsed_again)

lemma ReadDigest_length: "ReadDigest bs = Inr (d, rest) \<Longrightarrow> length d = kDigestBytes"
  using u8.repeat_canonical [of kDigestBytes bs d rest] by (simp add: ReadDigest_def)

interpretation history: checked_item stored_generation_ok
  "\<lambda>h. write_seq [Inr (put_u64 (sg_generation h)), Inr (put_u64 (sg_set_generation h)),
     Inr (WriteDigest (sg_digest h)), Inr (put_u64 (sg_capability_count h)),
     Inr (put_u64 (sg_supported_count h)), Inr (put_u64 (sg_retired_at h)),
     put_text (sg_reason h) kMaxTextLength]"
  read_history
  by unfold_locales
    (auto simp: read_history_def reader_results stored_generation_ok_def
      dest!: ReadDigest_length optional_again)

interpretation fence: checked_item stored_fence_ok WriteFence read_fence
  by unfold_locales
    (auto simp: read_fence_def reader_results stored_fence_ok_def dest!: parsed_again optional_again)

interpretation registration: checked_item stored_registration_ok WriteRegistration read_registration
  by unfold_locales
    (auto simp: read_registration_def reader_results stored_registration_ok_def dest!: parsed_again)

interpretation kind: checked_item "\<lambda>k. k \<noteq> EK_Unknown" "\<lambda>k. Inr (put_u8 (entity_kind_code k))"
  read_entity_kind
  by unfold_locales (auto simp: read_entity_kind_def reader_results split: if_splits)

interpretation namespace: checked_item "\<lambda>ns. Namespace_Parse ns = Inr ns"
  "\<lambda>ns. put_text ns kMaxCapabilityIdLength" "read_parsed kMaxCapabilityIdLength Namespace_Parse"
  by unfold_locales (rule parsed_again)

interpretation allowed: checked_item "\<lambda>p. PublisherId_Parse p = Inr p"
  "\<lambda>p. put_text p kMaxPublisherIdLength" "read_parsed kMaxPublisherIdLength PublisherId_Parse"
  by unfold_locales (rule parsed_again)

lemma read_claim_bound_le: "read_claim_bound bs = Inr (n, rest) \<Longrightarrow> n \<le> kMaxClaimsPerPublication"
  by (auto simp: read_claim_bound_def reader_results split: if_splits)

interpretation grant: checked_item grant_ok WriteGrant ReadGrant
proof unfold_locales
  fix bs a rest assume "ReadGrant bs = Inr (a, rest)"
  then obtain b1 b2 b3 b4 b5 b6 b7 b8 b9 where
    r: "read_parsed kMaxAuthorityScopeIdLength AuthorityScopeId_Parse bs = Inr (ag_scope a, b1)"
      "read_list kMaxAuthorityEntityKinds read_entity_kind b1 = Inr (ag_entity_kinds a, b2)"
      "read_list kMaxAuthorityNamespaces (read_parsed kMaxCapabilityIdLength Namespace_Parse) b2
         = Inr (ag_namespaces a, b3)"
      "read_claim_bound b7 = Inr (ag_max_claims_per_publication a, b8)"
      "read_optional kMaxTextLength ReasonToken_Parse b8 = Inr (ag_description a, b9)"
      "read_list 4096 (read_parsed kMaxPublisherIdLength PublisherId_Parse) b9
         = Inr (ag_allowed_publishers a, rest)"
    by (auto simp: ReadGrant_def reader_results)
  have "list_all (\<lambda>k. k \<noteq> EK_Unknown) ks \<longleftrightarrow> EK_Unknown \<notin> set ks" for ks
    by (auto simp: list_all_iff)
  with parsed_again(3) [OF r(1)] kind.list_checks [OF r(2)] namespace.list_checks [OF r(3)]
    read_claim_bound_le [OF r(4)] optional_again(3) [OF r(5)] allowed.list_checks [OF r(6)]
  show "grant_ok a" by (simp add: grant_ok_def)
qed

lemma capabilities_ascending:
  "list_all stored_capability_ok cs \<Longrightarrow> sorted (map (\<lambda>c. cap_rendered (kp_id c)) cs) \<Longrightarrow>
     \<not> duplicate_capability cs \<Longrightarrow> strictly_ascending (map (\<lambda>c. cap_rendered (kp_id c)) cs)"
proof (induction cs rule: duplicate_capability.induct)
  case (1 a b cs)
  have "cap_rendered (kp_id a) \<noteq> cap_rendered (kp_id b)"
  proof
    assume same: "cap_rendered (kp_id a) = cap_rendered (kp_id b)"
    from 1(2) have "CapabilityId_Parse (cap_rendered (kp_id a)) = Inr (kp_id a)"
      "CapabilityId_Parse (cap_rendered (kp_id b)) = Inr (kp_id b)"
      by (simp_all add: stored_capability_ok_def capability_id_ok_def)
    then have "kp_id a = kp_id b" by (metis same sum.inject(2))
    with 1(4) show False by simp
  qed
  with 1 show ?case by (auto simp: order_less_le)
qed simp_all

lemma read_capabilities_checked:
  assumes "read_capabilities bs = Inr (cs, rest)"
  shows "length cs \<le> kMaxCapabilitiesPerEntity \<and> list_all stored_capability_ok cs
    \<and> strictly_ascending (map (\<lambda>c. cap_rendered (kp_id c)) cs)"
proof -
  from assms obtain ds where ds: "read_list kMaxCapabilitiesPerEntity read_capability bs = Inr (ds, rest)"
    and cs: "cs = sort_key (\<lambda>c. cap_rendered (kp_id c)) ds" and nd: "\<not> duplicate_capability cs"
    by (auto simp: read_capabilities_def reader_results Let_def split: if_splits)
  from capability.list_checks [OF ds] have "length cs \<le> kMaxCapabilitiesPerEntity"
    and ok: "list_all stored_capability_ok cs" by (simp_all add: cs list_all_iff)
  moreover have "strictly_ascending (map (\<lambda>c. cap_rendered (kp_id c)) cs)"
    by (rule capabilities_ascending [OF ok _ nd]) (simp add: cs)
  ultimately show ?thesis by simp
qed

lemma read_generation_set: "read_generation bs = Inr (v, rest) \<Longrightarrow> v \<noteq> 0"
  by (auto simp: read_generation_def reader_results split: if_splits)

interpretation entity: checked_item stored_entity_ok WriteEntity ReadEntity
proof unfold_locales
  fix bs s rest assume "ReadEntity bs = Inr (s, rest)"
  then obtain b1 b2 b6 b7 b8 b9 b10 where
    r: "read_parsed kMaxEntityIdLength EntityId_Parse bs = Inr (sy_id s, b1)"
      "read_generation b1 = Inr (sy_current_generation s, b2)"
      "read_optional kMaxTextLength ReasonToken_Parse b6 = Inr (sy_invalidation_reason s, b7)"
      "read_capabilities b7 = Inr (sy_capabilities s, b8)"
      "read_list kMaxEvidencePerEntity ReadClaim b8 = Inr (sy_claims s, b9)"
      "read_list kMaxEvidencePerEntity read_floor b9 = Inr (sy_source_floors s, b10)"
      "read_list kMaxEntityGenerationsRetained read_history b10 = Inr (sy_history s, rest)"
    by (auto simp: ReadEntity_def reader_results)
  show "stored_entity_ok s"
    using parsed_again(10) [OF r(1)] read_generation_set [OF r(2)] optional_again(3) [OF r(3)]
      read_capabilities_checked [OF r(4)] claim.list_checks [OF r(5)] floor.list_checks [OF r(6)]
      history.list_checks [OF r(7)]
    by (simp add: stored_entity_ok_def)
qed

lemma decode_record_ok:
  "decode_record type body saw p = Inr (saw', p') \<Longrightarrow> payload_ok p \<Longrightarrow> payload_ok p'"
  by (auto simp: decode_record_def payload_ok_def obind_Inr_iff not_le
      dest!: grant.body_checks fence.body_checks registration.body_checks entity.body_checks
      split: if_splits)

lemma decode_records_ok:
  "decode_records bs saw p = Inr q \<Longrightarrow> payload_ok p \<Longrightarrow> payload_ok q"
proof (induction bs saw p rule: decode_records.induct)
  case (1 bs saw p)
  show ?case
  proof (cases "bs = []")
    case True
    with 1(2,3) show ?thesis by (simp split: if_splits)
  next
    case False
    with 1(2) obtain type r1 len r2 saw' p' where s: "get_u8 bs = Inr (type, r1)"
      "get_u32 r1 = Inr (len, r2)" "\<not> unat len > length r2"
      "decode_record type (take (unat len) r2) saw p = Inr (saw', p')"
      "decode_records (drop (unat len) r2) saw' p' = Inr q"
      by (subst (asm) decode_records.simps) (auto split: sum.splits if_splits)
    show ?thesis
      by (rule 1(1) [OF False s(1) refl s(2) refl s(3,4) refl s(5)])
        (rule decode_record_ok [OF s(4) 1(3)])
  qed
qed

lemma DecodePayload_ok: "DecodePayload bs = Inr p \<Longrightarrow> payload_ok p"
  unfolding DecodePayload_def by (erule decode_records_ok) (simp add: payload_ok_def payload_empty_def)

end
