(* ===== verification/WireCodec.thy ===== *)
theory WireCodec
  imports StoreRecords
begin

text \<open>
  The payload codecs of the wire protocol (\<open>src/src/wire.cpp\<close>): enumerators as indices of fixed
  tables, identifiers and texts under their bounds, claims, and the payloads of the requests and of
  the short replies. A decoder must use up its payload. The contracts \<open>stored_item\<close> and
  \<open>checked_item\<close> of the store codec hold for these writers and readers too, and the properties of
  the protocol rest on them. The reply to a publication is in WireResult, the frame around a
  payload in WireFrame.
\<close>

section \<open>Enumerations\<close>

text \<open>The code of an enumerator is its index in a table; the loop returns the first match.\<close>

definition WireCodeOf :: "'a list \<Rightarrow> 'a \<Rightarrow> nat" where
  "WireCodeOf table x =
     (let index = length (takeWhile (\<lambda>y. y \<noteq> x) table) in if index < length table then index else 0)"

definition WireValueOf :: "'a list \<Rightarrow> nat \<Rightarrow> 'a option" where
  "WireValueOf table raw = (if raw \<ge> length table then None else Some (table ! raw))"

definition WriteEnum :: "'a list \<Rightarrow> 'a \<Rightarrow> bytes outcome" where
  "WriteEnum table x = Inr (put_u8 (word_of_nat (WireCodeOf table x)))"

definition ReadEnum :: "'a list \<Rightarrow> 'a reader" where
  "ReadEnum table = rd_bind get_u8 (\<lambda>raw.
     case WireValueOf table (unat raw) of None \<Rightarrow> rd_fail E_MalformedEncoding | Some x \<Rightarrow> rd_return x)"

definition kStateWire :: "capability_state list" where
  "kStateWire = [St_Unknown, St_Supported, St_Unsupported, St_RevalidationRequired, St_Conflicted]"

definition kModeWire :: "publication_mode list" where
  "kModeWire = [FullSnapshot, Incremental, PartialObservation]"

definition kProvenanceWire :: "provenance_class list" where
  "kProvenanceWire = [Prov_DirectHardwareEnumeration, Prov_DirectDeviceOrOsApi,
     Prov_AuthoritativeAdministrativeDeclaration, Prov_VendorFirmwareOrSdkManifest,
     Prov_ImportedStaticProfile, Prov_Inferred, Prov_SyntheticTestBackend]"

definition kSourceClassWire :: "evidence_source_class list" where
  "kSourceClassWire = [Src_HardwareEnumeration, Src_OperatingSystemApi, Src_DriverApi,
     Src_FirmwareManifest, Src_VendorSdk, Src_DeviceAgent, Src_SwitchAgent,
     Src_AdministrativeDeclaration, Src_ImportedManifest, Src_SyntheticBackend]"

definition kDurabilityWire :: "durability_class list" where
  "kDurabilityWire = [ProcessBound, Durable]"

definition kCoverageWire :: "coverage_class list" where
  "kCoverageWire = [Partial, FullEnumeration]"

definition kOperationWire :: "incremental_operation list" where
  "kOperationWire = [UpsertClaim, WithdrawClaim, MarkUnsupported, MarkUnknown,
     MarkRevalidationRequired, SupersedeSourceEvidence]"

text \<open>An error code is sent as its ordinal in sixteen bits.\<close>

definition ErrorCode_ordinal :: "error_code \<Rightarrow> nat" where
  "ErrorCode_ordinal code = WireCodeOf all_error_codes code"

definition WriteErrorCode :: "error_code \<Rightarrow> bytes outcome" where
  "WriteErrorCode code =
     (if ErrorCode_ordinal code > ErrorCode_ordinal E_InternalFailure then Inl E_MalformedEncoding
      else Inr (put_u16 (word_of_nat (ErrorCode_ordinal code))))"

definition ReadErrorCode :: "error_code reader" where
  "ReadErrorCode = rd_bind get_u16 (\<lambda>raw.
     if unat raw > ErrorCode_ordinal E_InternalFailure then rd_fail E_MalformedEncoding
     else rd_return (all_error_codes ! unat raw))"

section \<open>Counted sequences and optional parts\<close>

text \<open>A count that is too large is refused, when writing and when reading.\<close>

definition check_count :: "nat \<Rightarrow> nat \<Rightarrow> bytes outcome" where
  "check_count bound n = (if n > bound then Inl E_TooManyItems else Inr [])"

definition read_counted :: "nat \<Rightarrow> 'a reader \<Rightarrow> 'a list reader" where
  "read_counted bound r = rd_bind get_u32 (\<lambda>n.
     if unat n > bound then rd_fail E_TooManyItems else rd_repeat (unat n) r)"

text \<open>A value behind a flag.\<close>

definition write_value_if :: "bool \<Rightarrow> capability_value \<Rightarrow> bytes outcome" where
  "write_value_if has v = Inr (put_bool has @ (if has then Value_Encode v else []))"

definition read_value_if :: "(bool \<times> capability_value) reader" where
  "read_value_if = rd_bind get_bool (\<lambda>has.
     if has then rd_bind Value_Decode (\<lambda>v. rd_return (True, v)) else rd_return (False, V_Absent))"

text \<open>An empty text leaves an identifier as it is constructed.\<close>

definition read_or :: "'a \<Rightarrow> nat \<Rightarrow> (string \<Rightarrow> 'a outcome) \<Rightarrow> 'a reader" where
  "read_or x m parse = rd_bind (get_text m) (\<lambda>t. if t = [] then rd_return x else rd_lift (parse t))"

section \<open>Publication requests\<close>

definition WriteAuthority :: "authority_context \<Rightarrow> bytes outcome" where
  "WriteAuthority a = write_seq
     [put_text (ac_scope a) kMaxAuthorityScopeIdLength,
      put_text (ac_publisher a) kMaxPublisherIdLength,
      put_text (ac_worker_boot a) kMaxWorkerBootLength,
      put_text (ac_source a) kMaxSourceIdLength,
      Inr (put_u64 (ac_source_generation a))]"

definition ReadAuthority :: "authority_context reader" where
  "ReadAuthority =
     rd_bind (read_parsed kMaxAuthorityScopeIdLength AuthorityScopeId_Parse) (\<lambda>scope.
     rd_bind (read_parsed kMaxPublisherIdLength PublisherId_Parse) (\<lambda>publisher.
     rd_bind (read_parsed kMaxWorkerBootLength WorkerBootId_Parse) (\<lambda>boot.
     rd_bind (read_parsed kMaxSourceIdLength SourceId_Parse) (\<lambda>source.
     rd_bind get_u64 (\<lambda>generation.
     rd_return \<lparr>ac_scope = scope, ac_publisher = publisher, ac_worker_boot = boot,
       ac_source = source, ac_source_generation = generation\<rparr>)))))"

definition WriteClaim_wire :: "capability_claim \<Rightarrow> bytes outcome" where
  "WriteClaim_wire c = write_seq
     [put_text (cap_rendered (cl_capability c)) kMaxCapabilityIdLength,
      WriteEnum kStateWire (cl_state c),
      write_value_if (cl_value c \<noteq> V_Absent) (cl_value c),
      WriteEnum kProvenanceWire (cl_provenance c),
      WriteEnum kSourceClassWire (cl_source_class c),
      WriteEnum kDurabilityWire (cl_durability c),
      WriteEnum kCoverageWire (cl_coverage c),
      put_text (cl_firmware_version c) kMaxVersionTokenLength,
      put_text (cl_driver_version c) kMaxVersionTokenLength,
      put_text (cl_reason c) kMaxTextLength]"

definition ReadClaim_wire :: "capability_claim reader" where
  "ReadClaim_wire =
     rd_bind (read_parsed kMaxCapabilityIdLength CapabilityId_Parse) (\<lambda>capability.
     rd_bind (ReadEnum kStateWire) (\<lambda>st.
     rd_bind read_value_if (\<lambda>(_, val).
     rd_bind (ReadEnum kProvenanceWire) (\<lambda>provenance.
     rd_bind (ReadEnum kSourceClassWire) (\<lambda>source_class.
     rd_bind (ReadEnum kDurabilityWire) (\<lambda>durability.
     rd_bind (ReadEnum kCoverageWire) (\<lambda>coverage.
     rd_bind (read_optional kMaxVersionTokenLength VersionToken_Parse) (\<lambda>firmware.
     rd_bind (read_optional kMaxVersionTokenLength VersionToken_Parse) (\<lambda>driver.
     rd_bind (read_optional kMaxTextLength ReasonToken_Parse) (\<lambda>reason.
     rd_return \<lparr>cl_capability = capability, cl_state = st, cl_value = val,
       cl_provenance = provenance, cl_source_class = source_class, cl_durability = durability,
       cl_coverage = coverage, cl_firmware_version = firmware, cl_driver_version = driver,
       cl_reason = reason\<rparr>))))))))))"

text \<open>The claim of an edit is sent with the capability of the edit in place of its own.\<close>

definition write_edit :: "incremental_edit \<Rightarrow> bytes outcome" where
  "write_edit e = write_seq
     [WriteEnum kOperationWire (ed_operation e),
      if CapabilityId_IsSet (cl_capability (ed_claim e)) then Inl E_MalformedEncoding
      else WriteClaim_wire ((ed_claim e)\<lparr>cl_capability := ed_capability e\<rparr>)]"

definition read_edit :: "incremental_edit reader" where
  "read_edit =
     rd_bind (ReadEnum kOperationWire) (\<lambda>operation.
     rd_bind (read_parsed kMaxCapabilityIdLength CapabilityId_Parse) (\<lambda>capability.
     rd_bind ReadClaim_wire (\<lambda>claim.
     rd_return \<lparr>ed_operation = operation, ed_capability = capability,
       ed_claim = claim\<lparr>cl_capability := CapabilityId_unset\<rparr>\<rparr>)))"

definition EncodePublicationRequest :: "publication_request \<Rightarrow> bytes outcome" where
  "EncodePublicationRequest r = write_seq
     [WriteEnum kModeWire (pq_mode r),
      put_text (pq_attempt r) kMaxAttemptIdLength,
      put_text (pq_publication r) kMaxPublicationIdLength,
      Inr (put_u64 (pq_epoch r)),
      WriteAuthority (pq_authority r),
      put_text (ent_rendered (pq_entity r)) kMaxEntityIdLength,
      Inr (put_u64 (pq_entity_generation r)), Inr (put_u64 (pq_expected_set_generation r)),
      WriteEnum kCoverageWire (pq_coverage r),
      put_text (pq_reason r) kMaxTextLength,
      check_count kMaxClaimsPerPublication (length (pq_claims r)),
      check_count kMaxClaimsPerPublication (length (pq_edits r)),
      write_list WriteClaim_wire (pq_claims r),
      write_list write_edit (pq_edits r)]"

definition read_request :: "publication_request reader" where
  "read_request =
     rd_bind (ReadEnum kModeWire) (\<lambda>mode.
     rd_bind (read_parsed kMaxAttemptIdLength MutationAttemptId_Parse) (\<lambda>attempt.
     rd_bind (read_parsed kMaxPublicationIdLength PublicationId_Parse) (\<lambda>publication.
     rd_bind get_u64 (\<lambda>epoch.
     rd_bind ReadAuthority (\<lambda>authority.
     rd_bind (read_parsed kMaxEntityIdLength EntityId_Parse) (\<lambda>entity.
     rd_bind get_u64 (\<lambda>entity_generation. rd_bind get_u64 (\<lambda>set_generation.
     rd_bind (ReadEnum kCoverageWire) (\<lambda>coverage.
     rd_bind (read_optional kMaxTextLength ReasonToken_Parse) (\<lambda>reason.
     rd_bind (read_counted kMaxClaimsPerPublication ReadClaim_wire) (\<lambda>claims.
     rd_bind (read_counted kMaxClaimsPerPublication read_edit) (\<lambda>edits.
     rd_return \<lparr>pq_mode = mode, pq_attempt = attempt, pq_publication = publication,
       pq_epoch = epoch, pq_authority = authority, pq_entity = entity,
       pq_entity_generation = entity_generation, pq_expected_set_generation = set_generation,
       pq_claims = claims, pq_edits = edits, pq_coverage = coverage,
       pq_reason = reason\<rparr>))))))))))))"

definition DecodePublicationRequest :: "bytes \<Rightarrow> publication_request outcome" where
  "DecodePublicationRequest payload = whole_body read_request payload"

section \<open>The other payloads\<close>

record hello_payload =
  hl_publisher :: token
  hl_scope :: token
  hl_source :: token
  hl_worker_boot :: token
  hl_epoch :: counter
  hl_namespaces :: "string list"

definition EncodeHello :: "hello_payload \<Rightarrow> bytes outcome" where
  "EncodeHello h = write_seq
     [put_text (hl_publisher h) kMaxPublisherIdLength,
      put_text (hl_scope h) kMaxAuthorityScopeIdLength,
      put_text (hl_source h) kMaxSourceIdLength,
      put_text (hl_worker_boot h) kMaxWorkerBootLength,
      Inr (put_u64 (hl_epoch h)),
      check_count kMaxAuthorityNamespaces (length (hl_namespaces h)),
      write_list (\<lambda>ns. put_text ns kMaxCapabilityIdLength) (hl_namespaces h)]"

definition read_hello :: "hello_payload reader" where
  "read_hello =
     rd_bind (read_parsed kMaxPublisherIdLength PublisherId_Parse) (\<lambda>publisher.
     rd_bind (read_parsed kMaxAuthorityScopeIdLength AuthorityScopeId_Parse) (\<lambda>scope.
     rd_bind (read_parsed kMaxSourceIdLength SourceId_Parse) (\<lambda>source.
     rd_bind (read_parsed kMaxWorkerBootLength WorkerBootId_Parse) (\<lambda>boot.
     rd_bind get_u64 (\<lambda>epoch.
     rd_bind (read_counted kMaxAuthorityNamespaces (read_parsed kMaxCapabilityIdLength Namespace_Parse))
       (\<lambda>namespaces.
     rd_return \<lparr>hl_publisher = publisher, hl_scope = scope, hl_source = source,
       hl_worker_boot = boot, hl_epoch = epoch, hl_namespaces = namespaces\<rparr>))))))"

definition DecodeHello :: "bytes \<Rightarrow> hello_payload outcome" where
  "DecodeHello payload = whole_body read_hello payload"

record hello_ack_payload =
  ha_accepted :: bool
  ha_epoch :: counter
  ha_registry_generation :: counter
  ha_message :: string

definition EncodeHelloAck :: "hello_ack_payload \<Rightarrow> bytes outcome" where
  "EncodeHelloAck a = write_seq
     [Inr (put_bool (ha_accepted a)), Inr (put_u64 (ha_epoch a)),
      Inr (put_u64 (ha_registry_generation a)), put_text (ha_message a) (kMaxTextLength * 4)]"

definition read_hello_ack :: "hello_ack_payload reader" where
  "read_hello_ack =
     rd_bind get_bool (\<lambda>accepted. rd_bind get_u64 (\<lambda>epoch. rd_bind get_u64 (\<lambda>generation.
     rd_bind (get_text (kMaxTextLength * 4)) (\<lambda>message.
     rd_return \<lparr>ha_accepted = accepted, ha_epoch = epoch, ha_registry_generation = generation,
       ha_message = message\<rparr>))))"

definition DecodeHelloAck :: "bytes \<Rightarrow> hello_ack_payload outcome" where
  "DecodeHelloAck payload = whole_body read_hello_ack payload"

record status_payload =
  su_entity :: entity_id
  su_entity_generation :: counter
  su_set_generation :: counter
  su_registry_generation :: counter
  su_epoch :: counter

definition EncodeStatus :: "status_payload \<Rightarrow> bytes outcome" where
  "EncodeStatus s = write_seq
     [put_text (ent_rendered (su_entity s)) kMaxEntityIdLength,
      Inr (put_u64 (su_entity_generation s)), Inr (put_u64 (su_set_generation s)),
      Inr (put_u64 (su_registry_generation s)), Inr (put_u64 (su_epoch s))]"

definition read_status :: "status_payload reader" where
  "read_status =
     rd_bind (read_or EntityId_unset kMaxEntityIdLength EntityId_Parse) (\<lambda>entity.
     rd_bind get_u64 (\<lambda>entity_generation. rd_bind get_u64 (\<lambda>set_generation.
     rd_bind get_u64 (\<lambda>registry_generation. rd_bind get_u64 (\<lambda>epoch.
     rd_return \<lparr>su_entity = entity, su_entity_generation = entity_generation,
       su_set_generation = set_generation, su_registry_generation = registry_generation,
       su_epoch = epoch\<rparr>)))))"

definition DecodeStatus :: "bytes \<Rightarrow> status_payload outcome" where
  "DecodeStatus payload = whole_body read_status payload"

record fence_payload =
  fp_worker_boot :: token
  fp_reason :: token

definition EncodeFence :: "fence_payload \<Rightarrow> bytes outcome" where
  "EncodeFence f = write_seq
     [put_text (fp_worker_boot f) kMaxWorkerBootLength, put_text (fp_reason f) kMaxTextLength]"

definition read_fence_payload :: "fence_payload reader" where
  "read_fence_payload =
     rd_bind (read_parsed kMaxWorkerBootLength WorkerBootId_Parse) (\<lambda>boot.
     rd_bind (read_optional kMaxTextLength ReasonToken_Parse) (\<lambda>reason.
     rd_return \<lparr>fp_worker_boot = boot, fp_reason = reason\<rparr>))"

definition DecodeFence :: "bytes \<Rightarrow> fence_payload outcome" where
  "DecodeFence payload = whole_body read_fence_payload payload"

record error_payload =
  ep_code :: error_code
  ep_message :: string

definition EncodeErrorPayload :: "error_payload \<Rightarrow> bytes outcome" where
  "EncodeErrorPayload e = write_seq
     [WriteErrorCode (ep_code e), put_text (ep_message e) (kMaxTextLength * 4)]"

definition read_error :: "error_payload reader" where
  "read_error =
     rd_bind ReadErrorCode (\<lambda>code. rd_bind (get_text (kMaxTextLength * 4)) (\<lambda>message.
     rd_return \<lparr>ep_code = code, ep_message = message\<rparr>))"

definition DecodeErrorPayload :: "bytes \<Rightarrow> error_payload outcome" where
  "DecodeErrorPayload payload = whole_body read_error payload"

section \<open>What was written is read back\<close>

lemma WireCodeOf_member:
  assumes "x \<in> set table"
  shows "WireCodeOf table x < length table" and "table ! WireCodeOf table x = x"
proof -
  have "takeWhile (\<lambda>y. y \<noteq> x) table \<noteq> table" using assms by (simp add: takeWhile_eq_all_conv)
  then have "length (takeWhile (\<lambda>y. y \<noteq> x) table) < length table"
    by (metis length_takeWhile_le nat_less_le takeWhile_eq_take take_all_iff)
  then show "WireCodeOf table x < length table" "table ! WireCodeOf table x = x"
    using nth_length_takeWhile [of "\<lambda>y. y \<noteq> x" table] by (simp_all add: WireCodeOf_def)
qed

lemma sends_enum:
  assumes "x \<in> set table" and "length table \<le> 256"
  shows "sends (WriteEnum table x) (ReadEnum table) x"
proof -
  have "unat (word_of_nat (WireCodeOf table x) :: u8) = WireCodeOf table x"
    using WireCodeOf_member [OF assms(1)] assms(2) by (simp add: unat_of_nat)
  then show ?thesis
    using WireCodeOf_member [OF assms(1)]
    by (simp add: sends_def WriteEnum_def ReadEnum_def WireValueOf_def rd_simps u8.roundtrip)
qed

lemma wire_members:
  "st \<in> set kStateWire" "mode \<in> set kModeWire" "p \<in> set kProvenanceWire"
  "sc \<in> set kSourceClassWire" "d \<in> set kDurabilityWire" "cov \<in> set kCoverageWire"
  "operation \<in> set kOperationWire"
  unfolding kStateWire_def kModeWire_def kProvenanceWire_def kSourceClassWire_def
    kDurabilityWire_def kCoverageWire_def kOperationWire_def
  by (cases st; simp) ((cases mode; simp), (cases p; simp), (cases sc; simp), (cases d; simp),
      (cases cov; simp), (cases operation; simp))

lemma wire_lengths:
  "length kStateWire \<le> 256" "length kModeWire \<le> 256" "length kProvenanceWire \<le> 256"
  "length kSourceClassWire \<le> 256" "length kDurabilityWire \<le> 256" "length kCoverageWire \<le> 256"
  "length kOperationWire \<le> 256"
  by (simp_all add: kStateWire_def kModeWire_def kProvenanceWire_def kSourceClassWire_def
      kDurabilityWire_def kCoverageWire_def kOperationWire_def)

lemmas sends_enums = sends_enum [OF wire_members(1) wire_lengths(1)]
  sends_enum [OF wire_members(2) wire_lengths(2)] sends_enum [OF wire_members(3) wire_lengths(3)]
  sends_enum [OF wire_members(4) wire_lengths(4)] sends_enum [OF wire_members(5) wire_lengths(5)]
  sends_enum [OF wire_members(6) wire_lengths(6)] sends_enum [OF wire_members(7) wire_lengths(7)]

lemma length_all_error_codes: "length all_error_codes = 73"
  by (simp add: all_error_codes_def)

lemma ordinal_last: "ErrorCode_ordinal E_InternalFailure = 72"
  by (simp add: ErrorCode_ordinal_def WireCodeOf_def all_error_codes_def)

lemma sends_error_code: "sends (WriteErrorCode code) ReadErrorCode code"
proof -
  have m: "code \<in> set all_error_codes" by (simp add: all_error_codes_complete)
  have le: "ErrorCode_ordinal code \<le> 72"
    using WireCodeOf_member(1) [OF m] by (simp add: ErrorCode_ordinal_def length_all_error_codes)
  then have "unat (word_of_nat (ErrorCode_ordinal code) :: u16) = ErrorCode_ordinal code"
    by (simp add: unat_of_nat)
  moreover have "all_error_codes ! ErrorCode_ordinal code = code"
    using WireCodeOf_member(2) [OF m] by (simp add: ErrorCode_ordinal_def)
  ultimately show ?thesis
    using le by (simp add: sends_def WriteErrorCode_def ReadErrorCode_def rd_simps u16.roundtrip
        ordinal_last)
qed

lemma sends_check:
  "n \<le> bound \<Longrightarrow> sends (write_seq ms) r x \<Longrightarrow> sends (write_seq (check_count bound n # ms)) r x"
  by (auto simp: sends_def check_count_def)

lemma read_counted_eq:
  "read_counted bound r bs = Inr (xs, rest) \<longleftrightarrow> read_list bound r bs = Inr (xs, rest)"
  by (auto simp: read_counted_def read_list_def rd_simps obind_Inr_iff)

lemma sends_counted: "sends w (read_list bound r) xs \<Longrightarrow> sends w (read_counted bound r) xs"
  by (simp add: sends_def read_counted_eq)

lemma sends_value_if:
  "(if has then value_ok v else v = V_Absent) \<Longrightarrow>
     sends (write_value_if has v) read_value_if (has, v)"
  by (auto simp: sends_def write_value_if_def read_value_if_def rd_simps bool8.roundtrip
      value_codec.roundtrip)

lemma sends_absent_or:
  "v = V_Absent \<or> value_ok v \<Longrightarrow>
     sends (write_value_if (v \<noteq> V_Absent) v) read_value_if (v \<noteq> V_Absent, v)"
  by (rule sends_value_if) auto

lemma sends_or:
  "rendered = [] \<and> x = d \<or> parse rendered = Inr x \<and> text_ok m rendered \<and> rendered \<noteq> [] \<Longrightarrow>
     sends (put_text rendered m) (read_or d m parse) x"
  using sends_text [of m rendered] sends_text [of m "[]"]
  by (auto simp: sends_def read_or_def rd_simps)

end
