(* ===== verification/WireRequests.thy ===== *)
theory WireRequests
  imports WireCodec
begin

text \<open>
  What the payload codecs of the wire guarantee: a well-formed request or reply is read back
  exactly, a decoder accepts well-formed payloads only, and an incremental publication, which the
  encoder accepts, is refused by the decoder.
\<close>

section \<open>Well-formed payloads\<close>

definition wire_claim_ok :: "capability_claim \<Rightarrow> bool" where
  "wire_claim_ok c \<longleftrightarrow> capability_id_ok (cl_capability c)
     \<and> (cl_value c = V_Absent \<or> value_ok (cl_value c))
     \<and> optional_ok VersionToken_Parse (cl_firmware_version c)
     \<and> optional_ok VersionToken_Parse (cl_driver_version c)
     \<and> optional_ok ReasonToken_Parse (cl_reason c)"

definition authority_context_ok :: "authority_context \<Rightarrow> bool" where
  "authority_context_ok a \<longleftrightarrow> AuthorityScopeId_Parse (ac_scope a) = Inr (ac_scope a)
     \<and> PublisherId_Parse (ac_publisher a) = Inr (ac_publisher a)
     \<and> WorkerBootId_Parse (ac_worker_boot a) = Inr (ac_worker_boot a)
     \<and> SourceId_Parse (ac_source a) = Inr (ac_source a)"

definition edit_ok :: "incremental_edit \<Rightarrow> bool" where
  "edit_ok e \<longleftrightarrow> cl_capability (ed_claim e) = CapabilityId_unset
     \<and> wire_claim_ok ((ed_claim e)\<lparr>cl_capability := ed_capability e\<rparr>)"

definition request_ok :: "publication_request \<Rightarrow> bool" where
  "request_ok r \<longleftrightarrow> MutationAttemptId_Parse (pq_attempt r) = Inr (pq_attempt r)
     \<and> PublicationId_Parse (pq_publication r) = Inr (pq_publication r)
     \<and> authority_context_ok (pq_authority r)
     \<and> EntityId_Parse (ent_rendered (pq_entity r)) = Inr (pq_entity r)
     \<and> optional_ok ReasonToken_Parse (pq_reason r)
     \<and> length (pq_claims r) \<le> kMaxClaimsPerPublication \<and> list_all wire_claim_ok (pq_claims r)
     \<and> length (pq_edits r) \<le> kMaxClaimsPerPublication \<and> list_all edit_ok (pq_edits r)"

definition hello_ok :: "hello_payload \<Rightarrow> bool" where
  "hello_ok h \<longleftrightarrow> PublisherId_Parse (hl_publisher h) = Inr (hl_publisher h)
     \<and> AuthorityScopeId_Parse (hl_scope h) = Inr (hl_scope h)
     \<and> SourceId_Parse (hl_source h) = Inr (hl_source h)
     \<and> WorkerBootId_Parse (hl_worker_boot h) = Inr (hl_worker_boot h)
     \<and> length (hl_namespaces h) \<le> kMaxAuthorityNamespaces
     \<and> list_all (\<lambda>ns. Namespace_Parse ns = Inr ns) (hl_namespaces h)"

definition status_ok :: "status_payload \<Rightarrow> bool" where
  "status_ok s \<longleftrightarrow> su_entity s = EntityId_unset
     \<or> EntityId_Parse (ent_rendered (su_entity s)) = Inr (su_entity s)"

definition fence_payload_ok :: "fence_payload \<Rightarrow> bool" where
  "fence_payload_ok f \<longleftrightarrow> WorkerBootId_Parse (fp_worker_boot f) = Inr (fp_worker_boot f)
     \<and> optional_ok ReasonToken_Parse (fp_reason f)"

definition message_ok :: "string \<Rightarrow> bool" where
  "message_ok t \<longleftrightarrow> text_ok (kMaxTextLength * 4) t"

section \<open>The codecs keep their contracts\<close>

context stored_item
begin

lemma counted_reads_back:
  "length xs \<le> bound \<Longrightarrow> bound < 2 ^ 32 \<Longrightarrow> list_all ok xs \<Longrightarrow>
     sends (write_list w xs) (read_counted bound r) xs"
  by (rule sends_counted, rule list_reads_back) (simp_all add: list_all_iff)

lemma payload_reads_back:
  assumes "ok x"
  shows "\<exists>b. w x = Inr b \<and> whole_body r b = Inr x
    \<and> (\<forall>c cs. whole_body r (b @ c # cs) = Inl E_FrameTrailingBytes)"
proof -
  from reads_back [OF assms] obtain b where "w x = Inr b" "\<And>rest. r (b @ rest) = Inr (x, rest)"
    by (auto simp: sends_def)
  then show ?thesis
    using body_read [OF assms] by (auto simp: whole_body_def ExpectEnd_def)
qed

end

context checked_item
begin

lemma counted_checks: "read_counted bound r bs = Inr (xs, rest) \<Longrightarrow> length xs \<le> bound \<and> list_all ok xs"
  using list_checks by (simp add: read_counted_eq)

end

lemmas sends_wire = sends_end sends_Cons sends_check sends_u64 sends_bool sends_enums
  sends_tokens sends_optionals sends_error_code

lemma sends_message: "message_ok t \<Longrightarrow>
    sends (put_text t (kMaxTextLength * 4)) (get_text (kMaxTextLength * 4)) t"
  unfolding message_ok_def by (rule sends_text)

lemma CapabilityId_Parse_Nil: "\<exists>e. CapabilityId_Parse [] = Inl e"
  by (simp add: CapabilityId_Parse_def)

lemma EntityId_Parse_nonempty: "EntityId_Parse t = Inr e \<Longrightarrow> t \<noteq> []"
  by (auto simp: EntityId_Parse_def)

lemma sends_status_entity:
  fixes s :: status_payload shows
  "status_ok s \<Longrightarrow> sends (put_text (ent_rendered (su_entity s)) kMaxEntityIdLength)
     (read_or EntityId_unset kMaxEntityIdLength EntityId_Parse) (su_entity s)"
  by (rule sends_or)
    (auto simp: status_ok_def EntityId_unset_def dest: EntityId_Parse_nonempty entity_text_ok)

lemma EntityId_Parse_again: "EntityId_Parse t = Inr e \<Longrightarrow> EntityId_Parse (ent_rendered e) = Inr e"
  by (frule EntityId_Parse_rendered) simp

lemma value_if_checks:
  "read_value_if bs = Inr ((has, v), rest) \<Longrightarrow> if has then value_ok v else v = V_Absent"
  by (auto simp: read_value_if_def reader_results split: if_splits dest: Value_Decode_ok)

interpretation wire_claim: checked_item wire_claim_ok WriteClaim_wire ReadClaim_wire
proof unfold_locales
  fix c assume "wire_claim_ok c"
  then show "sends (WriteClaim_wire c) ReadClaim_wire c"
    unfolding WriteClaim_wire_def ReadClaim_wire_def wire_claim_ok_def capability_id_ok_def
    by (elim conjE)
      ((rule sends_wire sends_absent_or | assumption | simp only: split)+, simp)
next
  fix bs c rest assume "ReadClaim_wire bs = Inr (c, rest)"
  then show "wire_claim_ok c"
    by (auto simp: ReadClaim_wire_def reader_results wire_claim_ok_def
        dest!: parsed_again optional_again value_if_checks split: if_splits)
qed

interpretation authority: checked_item authority_context_ok WriteAuthority ReadAuthority
proof unfold_locales
  fix a assume "authority_context_ok a"
  then show "sends (WriteAuthority a) ReadAuthority a"
    unfolding WriteAuthority_def ReadAuthority_def authority_context_ok_def
    by (elim conjE) ((rule sends_wire | assumption)+, simp)
next
  fix bs a rest assume "ReadAuthority bs = Inr (a, rest)"
  then show "authority_context_ok a"
    by (auto simp: ReadAuthority_def reader_results authority_context_ok_def dest!: parsed_again)
qed

interpretation hello: checked_item hello_ok EncodeHello read_hello
proof unfold_locales
  fix h assume "hello_ok h"
  then show "sends (EncodeHello h) read_hello h"
    unfolding EncodeHello_def read_hello_def hello_ok_def
    by (elim conjE)
      ((rule sends_wire namespace.counted_reads_back | assumption | simp; fail)+)
next
  fix bs h rest assume "read_hello bs = Inr (h, rest)"
  then show "hello_ok h"
    by (auto simp: read_hello_def reader_results hello_ok_def
        dest!: parsed_again namespace.counted_checks)
qed

interpretation hello_ack: checked_item "\<lambda>a :: hello_ack_payload. message_ok (ha_message a)" EncodeHelloAck read_hello_ack
proof unfold_locales
  fix a :: hello_ack_payload assume "message_ok (ha_message a)"
  then show "sends (EncodeHelloAck a) read_hello_ack a"
    unfolding EncodeHelloAck_def read_hello_ack_def
    by - ((rule sends_wire sends_message | assumption)+, simp)
next
  fix bs and a :: hello_ack_payload and rest assume "read_hello_ack bs = Inr (a, rest)"
  then show "message_ok (ha_message a)"
    by (auto simp: read_hello_ack_def reader_results str.dec_iff message_ok_def)
qed

interpretation status: checked_item status_ok EncodeStatus read_status
proof unfold_locales
  fix s :: status_payload assume "status_ok s"
  then show "sends (EncodeStatus s) read_status s"
    unfolding EncodeStatus_def read_status_def
    by - ((rule sends_wire sends_status_entity | assumption)+, simp)
next
  fix bs s rest assume "read_status bs = Inr (s, rest)"
  then show "status_ok s"
    by (auto simp: read_status_def read_or_def reader_results status_ok_def
        dest: EntityId_Parse_again split: if_splits)
qed

interpretation fence_frame: checked_item fence_payload_ok EncodeFence read_fence_payload
proof unfold_locales
  fix f assume "fence_payload_ok f"
  then show "sends (EncodeFence f) read_fence_payload f"
    unfolding EncodeFence_def read_fence_payload_def fence_payload_ok_def
    by (elim conjE) ((rule sends_wire | assumption)+, simp)
next
  fix bs f rest assume "read_fence_payload bs = Inr (f, rest)"
  then show "fence_payload_ok f"
    by (auto simp: read_fence_payload_def reader_results fence_payload_ok_def
        dest!: parsed_again optional_again)
qed

interpretation error_frame: checked_item "\<lambda>e :: error_payload. message_ok (ep_message e)" EncodeErrorPayload read_error
proof unfold_locales
  fix e :: error_payload assume "message_ok (ep_message e)"
  then show "sends (EncodeErrorPayload e) read_error e"
    unfolding EncodeErrorPayload_def read_error_def
    by - ((rule sends_wire sends_message | assumption)+, simp)
next
  fix bs and e :: error_payload and rest assume "read_error bs = Inr (e, rest)"
  then show "message_ok (ep_message e)"
    by (auto simp: read_error_def reader_results str.dec_iff message_ok_def)
qed

section \<open>Requests without edits\<close>

text \<open>The part of a request before its edits, which the decoder reads as the encoder wrote it.\<close>

lemma edit_checks: "read_edit bs = Inr (e, rest) \<Longrightarrow> edit_ok e"
  by (auto simp: read_edit_def reader_results edit_ok_def wire_claim_ok_def
      dest!: parsed_again wire_claim.checks)

lemma edits_check:
  "rd_repeat n read_edit bs = Inr (es, rest) \<Longrightarrow> length es = n \<and> list_all edit_ok es"
proof (induction n arbitrary: bs es)
  case (Suc n)
  from Suc.prems obtain e mid es' where "read_edit bs = Inr (e, mid)"
    "rd_repeat n read_edit mid = Inr (es', rest)" "es = e # es'"
    by (auto simp: reader_results)
  with Suc.IH show ?case by (auto dest: edit_checks)
qed (simp add: rd_simps)

lemma read_request_ok: "read_request bs = Inr (r, rest) \<Longrightarrow> request_ok r"
  by (auto simp: read_request_def reader_results request_ok_def read_counted_def [of _ read_edit]
      dest!: parsed_again optional_again wire_claim.counted_checks authority.checks edits_check
      split: if_splits)

definition plain_request_ok :: "publication_request \<Rightarrow> bool" where
  "plain_request_ok r \<longleftrightarrow> request_ok r \<and> pq_edits r = []"

lemma sends_no_edits: "es = [] \<Longrightarrow>
    sends (write_list write_edit es) (read_counted kMaxClaimsPerPublication read_edit) es"
  by (rule sends_counted, rule sends_list) simp_all

interpretation request: stored_item plain_request_ok EncodePublicationRequest read_request
proof unfold_locales
  fix r assume "plain_request_ok r"
  then show "sends (EncodePublicationRequest r) read_request r"
    unfolding EncodePublicationRequest_def read_request_def plain_request_ok_def request_ok_def
    by (elim conjE)
      ((rule sends_wire authority.reads_back wire_claim.counted_reads_back sends_no_edits
        | assumption | simp; fail)+)
qed


section \<open>Incremental requests\<close>

text \<open>The reader of an edit reads a capability twice. Where the second one should be, the encoder
  has the state of the claim, which cannot be taken for the length of an identifier.\<close>

lemma mask_8: "(0xFF::u32) = mask 8"
  by (simp add: mask_eq_exp_minus_1)

lemma small_le_bytes:
  fixes n :: u32 assumes "unat n < 256" shows "le_bytes 4 n = [ucast n, 0, 0, 0]"
proof -
  have "drop_bit 8 n = 0" "drop_bit 16 n = 0" "drop_bit 24 n = 0"
    using assms by (auto simp: word_unat_eq_iff unat_drop_bit_eq drop_bit_eq_div unat_div)
  moreover have "ucast (n AND 0xFF) = (ucast n :: u8)"
    unfolding mask_8 by (rule bit_word_eqI)
      (auto simp: bit_unsigned_iff bit_and_iff bit_mask_iff dest: bit_imp_le_length)
  moreover have "[0..<4] = [0, 1, 2, 3::nat]" by (simp add: upt_rec)
  ultimately show ?thesis by (simp add: le_bytes_def)
qed

lemma undecodable_claim:
  assumes w: "WriteClaim_wire c = Inr b" and cap: "put_text (cap_rendered (cl_capability c)) kMaxCapabilityIdLength = Inr t"
    and b: "b = t @ body"
  shows "\<exists>e. ReadClaim_wire (body @ rest) = Inl e"
proof -
  let ?u = "\<lambda>table x. word_of_nat (WireCodeOf table x) :: u8"
  let ?sc = "?u kStateWire (cl_state c)" and ?d = "?u kDurabilityWire (cl_durability c)"
  let ?flag = "if cl_value c \<noteq> V_Absent then 1 else 0 :: u8"
  let ?val = "if cl_value c \<noteq> V_Absent then Value_Encode (cl_value c) else []"
  obtain tail where body: "body = ?sc # ?flag # ?val @ ?u kProvenanceWire (cl_provenance c)
      # ?u kSourceClassWire (cl_source_class c) # ?d # ?u kCoverageWire (cl_coverage c) # tail"
    using w cap unfolding b WriteClaim_wire_def
    by (auto simp: obind_Inr_iff WriteEnum_def write_value_if_def put_u8_def put_bool_def
        split: if_splits)
  define n where "n = (le_value 4 (body @ rest) :: u32)"
  have four: "length (body @ rest) \<ge> 4" by (simp add: body)
  have d: "\<not> text_byte_ok ?d"
    by (cases "cl_durability c")
      (simp_all add: kDurabilityWire_def WireCodeOf_def text_byte_ok_def)
  show ?thesis
  proof (cases "unat n \<le> kMaxCapabilityIdLength")
    case False
    then have "get_text kMaxCapabilityIdLength (body @ rest) = Inl E_TextTooLong"
      using four by (simp add: get_text_def rd_simps get_u32_def le_read_def Let_def n_def)
    then show ?thesis by (simp add: ReadClaim_wire_def read_parsed_def rd_simps)
  next
    case True
    then have "take 4 (body @ rest) = [ucast n, 0, 0, 0]"
      using le_bytes_le_value [where 'w = 32, of 4 "body @ rest"] four small_le_bytes [of n]
      by (simp add: n_def)
    then have absent: "cl_value c = V_Absent" by (auto simp: body split: if_splits)
    show ?thesis
    proof (cases "n = 0")
      case True
      then have "get_text kMaxCapabilityIdLength (body @ rest) = Inr ([], drop 4 (body @ rest))"
        using four by (simp add: get_text_def rd_simps get_u32_def le_read_def Let_def bytes_text_def
            flip: n_def)
      then show ?thesis using CapabilityId_Parse_Nil
        by (auto simp: ReadClaim_wire_def read_parsed_def rd_simps)
    next
      case nz: False
      have "drop 4 (body @ rest) = ?d # ?u kCoverageWire (cl_coverage c) # tail @ rest"
        by (simp add: body absent)
      moreover obtain m where "unat n = Suc m" using nz by (metis not0_implies_Suc unat_eq_zero)
      ultimately have "get_text kMaxCapabilityIdLength (body @ rest) = Inl E_MalformedEncoding"
        using four d True
        by (simp add: get_text_def rd_simps get_u32_def le_read_def Let_def flip: n_def)
      then show ?thesis by (simp add: ReadClaim_wire_def read_parsed_def rd_simps)
    qed
  qed
qed

text \<open>So no encoded edit can be read, whatever follows it.\<close>

lemma undecodable_edit:
  assumes ok: "edit_ok e" and w: "write_edit e = Inr b"
  shows "\<exists>err. read_edit (b @ rest) = Inl err"
proof -
  let ?c = "(ed_claim e)\<lparr>cl_capability := ed_capability e\<rparr>"
  from w obtain p q where b: "b = p @ q" and p: "WriteEnum kOperationWire (ed_operation e) = Inr p"
    and q: "WriteClaim_wire ?c = Inr q"
    by (auto simp: write_edit_def obind_Inr_iff split: if_splits)
  from q obtain t body where t: "put_text (cap_rendered (ed_capability e)) kMaxCapabilityIdLength = Inr t"
    and body: "q = t @ body" by (auto simp: WriteClaim_wire_def obind_Inr_iff)
  have op: "ReadEnum kOperationWire (p @ xs) = Inr (ed_operation e, xs)" for xs
    using sends_enums(7) [of "ed_operation e"] p by (simp add: sends_def)
  have cap: "read_parsed kMaxCapabilityIdLength CapabilityId_Parse (t @ xs) = Inr (ed_capability e, xs)"
    for xs
    using ok t sends_tokens(8) [of "cap_rendered (ed_capability e)" "ed_capability e"]
    by (simp add: sends_def edit_ok_def wire_claim_ok_def capability_id_ok_def)
  obtain err where "ReadClaim_wire (body @ rest) = Inl err"
    using undecodable_claim [OF q _ body] t by auto
  then show ?thesis by (simp add: read_edit_def rd_simps b body op cap)
qed

lemma undecodable_edits:
  assumes "list_all edit_ok es" and "es \<noteq> []" and "length es \<le> kMaxClaimsPerPublication"
    and "write_list write_edit es = Inr b"
  shows "\<exists>err. read_counted kMaxClaimsPerPublication read_edit b = Inl err"
proof -
  from assms(2) obtain e es' where es: "es = e # es'" by (cases es) auto
  from assms(4) obtain x y where w: "write_edit e = Inr x" and b: "b = put_u32 (word_of_nat (length es)) @ x @ y"
    by (auto simp: es write_list_def obind_Inr_iff)
  obtain err where "read_edit (x @ y) = Inl err"
    using undecodable_edit [OF _ w] assms(1) by (auto simp: es)
  moreover have "unat (word_of_nat (length es) :: u32) = Suc (length es')"
    using assms(3) by (subst unat_word_of_nat_u32) (simp_all add: es)
  ultimately show ?thesis
    using assms(3) by (simp add: read_counted_def rd_simps b u32.roundtrip es)
qed

text \<open>A reader rejects what a writer wrote; the items before the rejected one are read back.\<close>

definition rejects :: "bytes outcome \<Rightarrow> 'a reader \<Rightarrow> bool" where
  "rejects w r \<longleftrightarrow> (\<forall>b. w = Inr b \<longrightarrow> (\<exists>e. r b = Inl e))"

lemma rejects_Cons:
  "sends m r a \<Longrightarrow> rejects (write_seq ms) (f a) \<Longrightarrow> rejects (write_seq (m # ms)) (rd_bind r f)"
  by (auto simp: rejects_def sends_def rd_simps obind_Inr_iff)

lemma rejects_check: "rejects (write_seq ms) r \<Longrightarrow> rejects (write_seq (check_count bound n # ms)) r"
  by (auto simp: rejects_def check_count_def obind_Inr_iff split: if_splits)

lemma rejects_last: "rejects w r \<Longrightarrow> rejects (write_seq [w]) (rd_bind r f)"
  by (fastforce simp: rejects_def rd_simps obind_Inr_iff)

lemma rejects_edits:
  "list_all edit_ok es \<Longrightarrow> es \<noteq> [] \<Longrightarrow> length es \<le> kMaxClaimsPerPublication \<Longrightarrow>
     rejects (write_list write_edit es) (read_counted kMaxClaimsPerPublication read_edit)"
  using undecodable_edits by (auto simp: rejects_def)

lemma incremental_rejected:
  assumes "request_ok r" and "pq_edits r \<noteq> []"
  shows "rejects (EncodePublicationRequest r) read_request"
  using assms unfolding EncodePublicationRequest_def read_request_def request_ok_def
  by (elim conjE)
    ((rule rejects_last rejects_edits rejects_check rejects_Cons sends_wire authority.reads_back
        wire_claim.counted_reads_back | assumption | simp; fail)+)

section \<open>A sample request\<close>

definition sample_capability :: capability_id where
  "sample_capability = \<lparr>cap_ns = ''fabric.port'', cap_local = ''lldp'', cap_rendered = ''fabric.port.lldp''\<rparr>"

definition sample_claim :: capability_claim where
  "sample_claim = claim_default\<lparr>cl_capability := sample_capability, cl_state := St_Supported,
     cl_value := V_Boolean True, cl_provenance := Prov_DirectHardwareEnumeration,
     cl_source_class := Src_HardwareEnumeration\<rparr>"

definition sample_request :: publication_request where
  "sample_request = \<lparr>pq_mode = PartialObservation, pq_attempt = ''attempt-1'',
     pq_publication = ''pub-1'', pq_epoch = 1, pq_authority = \<lparr>ac_scope = ''scope'',
       ac_publisher = ''agent'', ac_worker_boot = ''abcdef01'', ac_source = ''src'',
       ac_source_generation = 1\<rparr>,
     pq_entity = \<lparr>ent_kind = EK_Port, ent_canonical = ''p0'', ent_rendered = ''port:p0''\<rparr>,
     pq_entity_generation = 1, pq_expected_set_generation = 0,
     pq_claims = [sample_claim], pq_edits = [], pq_coverage = Partial, pq_reason = ''audit''\<rparr>"

definition sample_edit :: incremental_edit where
  "sample_edit = \<lparr>ed_operation = WithdrawClaim, ed_capability = sample_capability,
     ed_claim = claim_default\<rparr>"

lemma sample_tokens:
  "CapabilityId_Parse ''fabric.port.lldp'' = Inr sample_capability"
  "EntityId_Parse ''port:p0'' = Inr (pq_entity sample_request)"
  "MutationAttemptId_Parse ''attempt-1'' = Inr ''attempt-1''"
  "PublicationId_Parse ''pub-1'' = Inr ''pub-1''"
  "AuthorityScopeId_Parse ''scope'' = Inr ''scope''"
  "PublisherId_Parse ''agent'' = Inr ''agent''"
  "WorkerBootId_Parse ''abcdef01'' = Inr ''abcdef01''"
  "SourceId_Parse ''src'' = Inr ''src''"
  "ReasonToken_Parse ''audit'' = Inr ''audit''"
  by code_simp+

lemma sample_request_ok: "request_ok sample_request" "edit_ok sample_edit"
  using sample_tokens
  by (simp_all add: request_ok_def sample_request_def authority_context_ok_def optional_ok_def
      wire_claim_ok_def sample_claim_def capability_id_ok_def sample_capability_def value_ok_def
      edit_ok_def sample_edit_def claim_default_def)

section \<open>Properties\<close>

text \<open>C30. A request without edits survives the wire. A well-formed publication request that carries
  claims only is encoded, the decoder of the coordinator returns exactly that request, and it
  refuses the payload with anything appended.\<close>

theorem request_roundtrip:
  assumes "request_ok r" and "pq_edits r = []"
  shows "\<exists>b. EncodePublicationRequest r = Inr b \<and> DecodePublicationRequest b = Inr r
    \<and> (\<forall>c cs. DecodePublicationRequest (b @ c # cs) = Inl E_FrameTrailingBytes)"
  using request.payload_reads_back [of r] assms
  by (simp add: plain_request_ok_def DecodePublicationRequest_def)

text \<open>What the decoder lets through. Whatever bytes reach the coordinator, a request its decoder
  accepts is well formed: its identifiers parse, its values are canonical, its counts are within
  the bounds and its edits name their capability once.\<close>

theorem decoded_request_ok: "DecodePublicationRequest payload = Inr r \<Longrightarrow> request_ok r"
  by (auto simp: DecodePublicationRequest_def whole_body_def obind_Inr_iff dest: read_request_ok)

text \<open>C31. An incremental publication cannot be sent. For every well-formed request with at least one
  edit that the encoder accepts, the decoder refuses the payload: the reader of an edit reads the
  capability a second time, where the encoder wrote the state of the claim.\<close>

theorem incremental_request_undecodable:
  assumes "request_ok r" and "pq_edits r \<noteq> []" and "EncodePublicationRequest r = Inr b"
  shows "\<exists>e. DecodePublicationRequest b = Inl e"
  using incremental_rejected [OF assms(1,2)] assms(3)
  by (auto simp: rejects_def DecodePublicationRequest_def whole_body_def)

lemma request_roundtrip_witness:
  "\<exists>b. EncodePublicationRequest sample_request = Inr b
     \<and> DecodePublicationRequest b = Inr sample_request
     \<and> DecodePublicationRequest (b @ [7]) = Inl E_FrameTrailingBytes"
proof -
  have "pq_edits sample_request = []" by (simp add: sample_request_def)
  from request_roundtrip [OF sample_request_ok(1) this] show ?thesis by blast
qed

lemma decoded_request_ok_witness:
  "\<exists>b r. EncodePublicationRequest sample_request = Inr b \<and> DecodePublicationRequest b = Inr r
     \<and> request_ok r"
  using request.payload_reads_back [of sample_request] sample_request_ok(1)
    decoded_request_ok [of _ sample_request]
  by (auto simp: plain_request_ok_def DecodePublicationRequest_def sample_request_def)

lemma incremental_request_undecodable_witness:
  "\<exists>b e. EncodePublicationRequest (sample_request\<lparr>pq_mode := Incremental, pq_claims := [],
       pq_edits := [sample_edit]\<rparr>) = Inr b \<and> DecodePublicationRequest b = Inl e"
proof -
  let ?r = "sample_request\<lparr>pq_mode := Incremental, pq_claims := [], pq_edits := [sample_edit]\<rparr>"
  have "request_ok ?r" "pq_edits ?r \<noteq> []" using sample_request_ok by (simp_all add: request_ok_def)
  moreover have "\<exists>b. EncodePublicationRequest ?r = Inr b"
    by (simp add: EncodePublicationRequest_def sample_request_def sample_edit_def write_list_def
        write_edit_def WriteEnum_def WriteAuthority_def WriteClaim_wire_def write_value_if_def
        check_count_def put_text_def CheckedU32_def claim_default_def sample_capability_def
        CapabilityId_IsSet_def CapabilityId_unset_def)
  ultimately show ?thesis using incremental_request_undecodable [of ?r] by blast
qed

end
