(* ===== verification/WireResult.thy ===== *)
theory WireResult
  imports WireRequests
begin

text \<open>
  The reply to a publication on the wire (\<open>wire.cpp\<close>): the result with its difference, whose
  entries carry a sentence, and its explanation. The registry model has no sentences, so the
  records here extend or repeat its records with the texts of the source.
\<close>

section \<open>Results with their texts\<close>

record explanation_step =
  xs_code :: string
  xs_summary :: string
  xs_fields :: "(string \<times> string) list"

record explanation =
  xp_code :: string
  xp_summary :: string
  xp_steps :: "explanation_step list"

record described_entry = diff_entry +
  d_detail :: string

record wire_diff =
  wd_entity :: entity_id
  wd_before_entity_generation :: counter
  wd_after_entity_generation :: counter
  wd_before_set_generation :: counter
  wd_after_set_generation :: counter
  wd_before_digest :: digest
  wd_after_digest :: digest
  wd_entries :: "described_entry list"

record wire_result =
  wr_status :: publication_status
  wr_code :: error_code
  wr_message :: string
  wr_publication :: token
  wr_attempt :: token
  wr_entity :: entity_id
  wr_entity_generation :: counter
  wr_previous_set_generation :: counter
  wr_new_set_generation :: counter
  wr_registry_generation :: counter
  wr_claims_applied :: u64
  wr_claims_withdrawn :: u64
  wr_capabilities_added :: u64
  wr_capabilities_removed :: u64
  wr_capabilities_changed :: u64
  wr_diff :: wire_diff
  wr_explanation :: explanation
  wr_set_digest :: digest

section \<open>Writing and reading\<close>

definition kStatusWire :: "publication_status list" where
  "kStatusWire = [Committed, IdempotentReplay, Rejected]"

definition kDiffKindWire :: "diff_kind list" where
  "kDiffKindWire = [CapabilityAdded, CapabilityRemoved, StateChanged, ValueChanged,
     ProvenanceChanged, EvidenceSuperseded, CurrentnessChanged, GenerationAdvanced,
     EntityGenerationChanged, DiffEntityInvalidated]"

abbreviation (input) kMaxWireDiffEntries :: nat where "kMaxWireDiffEntries \<equiv> 4096"
abbreviation (input) kMaxWireExplanationSteps :: nat where "kMaxWireExplanationSteps \<equiv> 256"
abbreviation (input) kMaxTextFieldsPerExplanation :: nat where "kMaxTextFieldsPerExplanation \<equiv> 64"

definition WriteDiffEntry :: "described_entry \<Rightarrow> bytes outcome" where
  "WriteDiffEntry e = write_seq
     [put_text (cap_rendered (d_capability e)) kMaxCapabilityIdLength,
      WriteEnum kDiffKindWire (d_kind e),
      WriteEnum kStateWire (d_before_state e), WriteEnum kStateWire (d_after_state e),
      write_value_if (d_has_before_value e) (d_before_value e),
      write_value_if (d_has_after_value e) (d_after_value e),
      WriteEnum kProvenanceWire (d_before_provenance e),
      WriteEnum kProvenanceWire (d_after_provenance e),
      Inr (put_u64 (d_before_generation e)), Inr (put_u64 (d_after_generation e)),
      put_text (d_detail e) (kMaxTextLength * 4)]"

definition ReadDiffEntry :: "described_entry reader" where
  "ReadDiffEntry =
     rd_bind (read_or CapabilityId_unset kMaxCapabilityIdLength CapabilityId_Parse) (\<lambda>capability.
     rd_bind (ReadEnum kDiffKindWire) (\<lambda>kind.
     rd_bind (ReadEnum kStateWire) (\<lambda>before_state. rd_bind (ReadEnum kStateWire) (\<lambda>after_state.
     rd_bind read_value_if (\<lambda>(has_before, before_value).
     rd_bind read_value_if (\<lambda>(has_after, after_value).
     rd_bind (ReadEnum kProvenanceWire) (\<lambda>before_provenance.
     rd_bind (ReadEnum kProvenanceWire) (\<lambda>after_provenance.
     rd_bind get_u64 (\<lambda>before_generation. rd_bind get_u64 (\<lambda>after_generation.
     rd_bind (get_text (kMaxTextLength * 4)) (\<lambda>detail.
     rd_return \<lparr>d_capability = capability, d_kind = kind, d_before_state = before_state,
       d_after_state = after_state, d_before_value = before_value, d_after_value = after_value,
       d_has_before_value = has_before, d_has_after_value = has_after,
       d_before_provenance = before_provenance, d_after_provenance = after_provenance,
       d_before_generation = before_generation, d_after_generation = after_generation,
       d_detail = detail\<rparr>)))))))))))"

definition write_field :: "string \<times> string \<Rightarrow> bytes outcome" where
  "write_field f = write_seq
     [put_text (fst f) kMaxTextLength, put_text (snd f) (kMaxTextLength * 4)]"

definition write_step :: "explanation_step \<Rightarrow> bytes outcome" where
  "write_step s = write_seq
     [put_text (xs_code s) (kMaxTextLength * 2), put_text (xs_summary s) (kMaxTextLength * 4),
      check_count kMaxTextFieldsPerExplanation (length (xs_fields s)),
      write_list write_field (xs_fields s)]"

definition WriteExplanation :: "explanation \<Rightarrow> bytes outcome" where
  "WriteExplanation x = write_seq
     [put_text (xp_code x) (kMaxTextLength * 2), put_text (xp_summary x) (kMaxTextLength * 4),
      check_count kMaxWireExplanationSteps (length (xp_steps x)),
      write_list write_step (xp_steps x)]"

definition read_field :: "(string \<times> string) reader" where
  "read_field = rd_bind (get_text kMaxTextLength) (\<lambda>name.
     rd_bind (get_text (kMaxTextLength * 4)) (\<lambda>val. rd_return (name, val)))"

definition read_step :: "explanation_step reader" where
  "read_step =
     rd_bind (get_text (kMaxTextLength * 2)) (\<lambda>code.
     rd_bind (get_text (kMaxTextLength * 4)) (\<lambda>summary.
     rd_bind (read_counted kMaxTextFieldsPerExplanation read_field) (\<lambda>field_list.
     rd_return \<lparr>xs_code = code, xs_summary = summary, xs_fields = field_list\<rparr>)))"

definition ReadExplanation :: "explanation reader" where
  "ReadExplanation =
     rd_bind (get_text (kMaxTextLength * 2)) (\<lambda>code.
     rd_bind (get_text (kMaxTextLength * 4)) (\<lambda>summary.
     rd_bind (read_counted kMaxWireExplanationSteps read_step) (\<lambda>steps.
     rd_return \<lparr>xp_code = code, xp_summary = summary, xp_steps = steps\<rparr>)))"

definition WriteDigestBytes :: "digest \<Rightarrow> bytes outcome" where
  "WriteDigestBytes d = Inr (concat (map put_u8 d))"

definition ReadDigestBytes :: "digest reader" where
  "ReadDigestBytes = rd_repeat kDigestBytes get_u8"

definition write_diff :: "wire_diff \<Rightarrow> bytes outcome" where
  "write_diff d = write_seq
     [put_text (ent_rendered (wd_entity d)) kMaxEntityIdLength,
      Inr (put_u64 (wd_before_entity_generation d)), Inr (put_u64 (wd_after_entity_generation d)),
      Inr (put_u64 (wd_before_set_generation d)), Inr (put_u64 (wd_after_set_generation d)),
      WriteDigestBytes (wd_before_digest d), WriteDigestBytes (wd_after_digest d),
      check_count kMaxWireDiffEntries (length (wd_entries d)),
      write_list WriteDiffEntry (wd_entries d)]"

definition read_diff :: "wire_diff reader" where
  "read_diff =
     rd_bind (read_or EntityId_unset kMaxEntityIdLength EntityId_Parse) (\<lambda>entity.
     rd_bind get_u64 (\<lambda>before_entity. rd_bind get_u64 (\<lambda>after_entity.
     rd_bind get_u64 (\<lambda>before_set. rd_bind get_u64 (\<lambda>after_set.
     rd_bind ReadDigestBytes (\<lambda>before_digest. rd_bind ReadDigestBytes (\<lambda>after_digest.
     rd_bind (read_counted kMaxWireDiffEntries ReadDiffEntry) (\<lambda>entries.
     rd_return \<lparr>wd_entity = entity, wd_before_entity_generation = before_entity,
       wd_after_entity_generation = after_entity, wd_before_set_generation = before_set,
       wd_after_set_generation = after_set, wd_before_digest = before_digest,
       wd_after_digest = after_digest, wd_entries = entries\<rparr>))))))))"

definition EncodePublicationResult :: "wire_result \<Rightarrow> bytes outcome" where
  "EncodePublicationResult r = write_seq
     [WriteEnum kStatusWire (wr_status r), WriteErrorCode (wr_code r),
      put_text (wr_message r) (kMaxTextLength * 4),
      put_text (wr_publication r) kMaxPublicationIdLength,
      put_text (wr_attempt r) kMaxAttemptIdLength,
      put_text (ent_rendered (wr_entity r)) kMaxEntityIdLength,
      Inr (put_u64 (wr_entity_generation r)), Inr (put_u64 (wr_previous_set_generation r)),
      Inr (put_u64 (wr_new_set_generation r)), Inr (put_u64 (wr_registry_generation r)),
      Inr (put_u64 (wr_claims_applied r)), Inr (put_u64 (wr_claims_withdrawn r)),
      Inr (put_u64 (wr_capabilities_added r)), Inr (put_u64 (wr_capabilities_removed r)),
      Inr (put_u64 (wr_capabilities_changed r)),
      WriteDigestBytes (wr_set_digest r), write_diff (wr_diff r),
      WriteExplanation (wr_explanation r)]"

definition read_result :: "wire_result reader" where
  "read_result =
     rd_bind (ReadEnum kStatusWire) (\<lambda>status. rd_bind ReadErrorCode (\<lambda>code.
     rd_bind (get_text (kMaxTextLength * 4)) (\<lambda>message.
     rd_bind (read_optional kMaxPublicationIdLength PublicationId_Parse) (\<lambda>publication.
     rd_bind (read_optional kMaxAttemptIdLength MutationAttemptId_Parse) (\<lambda>attempt.
     rd_bind (read_or EntityId_unset kMaxEntityIdLength EntityId_Parse) (\<lambda>entity.
     rd_bind get_u64 (\<lambda>entity_generation. rd_bind get_u64 (\<lambda>previous_generation.
     rd_bind get_u64 (\<lambda>new_generation. rd_bind get_u64 (\<lambda>registry_generation.
     rd_bind get_u64 (\<lambda>claims_applied. rd_bind get_u64 (\<lambda>claims_withdrawn.
     rd_bind get_u64 (\<lambda>added. rd_bind get_u64 (\<lambda>removed. rd_bind get_u64 (\<lambda>changed.
     rd_bind ReadDigestBytes (\<lambda>set_digest. rd_bind read_diff (\<lambda>diff.
     rd_bind ReadExplanation (\<lambda>explanation.
     rd_return \<lparr>wr_status = status, wr_code = code, wr_message = message,
       wr_publication = publication, wr_attempt = attempt, wr_entity = entity,
       wr_entity_generation = entity_generation, wr_previous_set_generation = previous_generation,
       wr_new_set_generation = new_generation, wr_registry_generation = registry_generation,
       wr_claims_applied = claims_applied, wr_claims_withdrawn = claims_withdrawn,
       wr_capabilities_added = added, wr_capabilities_removed = removed,
       wr_capabilities_changed = changed, wr_diff = diff, wr_explanation = explanation,
       wr_set_digest = set_digest\<rparr>))))))))))))))))))"

definition DecodePublicationResult :: "bytes \<Rightarrow> wire_result outcome" where
  "DecodePublicationResult payload = whole_body read_result payload"

section \<open>Well-formed results\<close>

definition described_entry_ok :: "described_entry \<Rightarrow> bool" where
  "described_entry_ok e \<longleftrightarrow>
     (d_capability e = CapabilityId_unset \<or> capability_id_ok (d_capability e))
     \<and> (if d_has_before_value e then value_ok (d_before_value e) else d_before_value e = V_Absent)
     \<and> (if d_has_after_value e then value_ok (d_after_value e) else d_after_value e = V_Absent)
     \<and> message_ok (d_detail e)"

definition entity_or_unset :: "entity_id \<Rightarrow> bool" where
  "entity_or_unset e \<longleftrightarrow> e = EntityId_unset \<or> EntityId_Parse (ent_rendered e) = Inr e"

definition wire_diff_ok :: "wire_diff \<Rightarrow> bool" where
  "wire_diff_ok d \<longleftrightarrow> entity_or_unset (wd_entity d)
     \<and> length (wd_before_digest d) = kDigestBytes \<and> length (wd_after_digest d) = kDigestBytes
     \<and> length (wd_entries d) \<le> kMaxWireDiffEntries \<and> list_all described_entry_ok (wd_entries d)"

definition field_ok :: "string \<times> string \<Rightarrow> bool" where
  "field_ok f \<longleftrightarrow> text_ok kMaxTextLength (fst f) \<and> message_ok (snd f)"

definition step_ok :: "explanation_step \<Rightarrow> bool" where
  "step_ok s \<longleftrightarrow> text_ok (kMaxTextLength * 2) (xs_code s) \<and> message_ok (xs_summary s)
     \<and> length (xs_fields s) \<le> kMaxTextFieldsPerExplanation \<and> list_all field_ok (xs_fields s)"

definition explanation_ok :: "explanation \<Rightarrow> bool" where
  "explanation_ok x \<longleftrightarrow> text_ok (kMaxTextLength * 2) (xp_code x) \<and> message_ok (xp_summary x)
     \<and> length (xp_steps x) \<le> kMaxWireExplanationSteps \<and> list_all step_ok (xp_steps x)"

definition wire_result_ok :: "wire_result \<Rightarrow> bool" where
  "wire_result_ok r \<longleftrightarrow> message_ok (wr_message r)
     \<and> optional_ok PublicationId_Parse (wr_publication r)
     \<and> optional_ok MutationAttemptId_Parse (wr_attempt r)
     \<and> entity_or_unset (wr_entity r) \<and> length (wr_set_digest r) = kDigestBytes
     \<and> wire_diff_ok (wr_diff r) \<and> explanation_ok (wr_explanation r)"

section \<open>Results are read back\<close>

lemma result_members: "st \<in> set kStatusWire" "kind \<in> set kDiffKindWire"
  unfolding kStatusWire_def kDiffKindWire_def by (cases st; simp) (cases kind; simp)

lemma result_lengths: "length kStatusWire \<le> 256" "length kDiffKindWire \<le> 256"
  by (simp_all add: kStatusWire_def kDiffKindWire_def)

lemma sends_digest_bytes:
  "length d = kDigestBytes \<Longrightarrow> sends (WriteDigestBytes d) ReadDigestBytes d"
  using sends_digest [of d]
  by (simp add: WriteDigestBytes_def ReadDigestBytes_def WriteDigest_def ReadDigest_def)

lemma sends_entity_or:
  "entity_or_unset e \<Longrightarrow> sends (put_text (ent_rendered e) kMaxEntityIdLength)
     (read_or EntityId_unset kMaxEntityIdLength EntityId_Parse) e"
  by (rule sends_or)
    (auto simp: entity_or_unset_def EntityId_unset_def dest: EntityId_Parse_nonempty entity_text_ok)

lemma CapabilityId_Parse_nonempty: "CapabilityId_Parse t = Inr c \<Longrightarrow> t \<noteq> []"
  using CapabilityId_Parse_Nil by auto

lemma sends_capability_or:
  "c = CapabilityId_unset \<or> capability_id_ok c \<Longrightarrow>
     sends (put_text (cap_rendered c) kMaxCapabilityIdLength)
       (read_or CapabilityId_unset kMaxCapabilityIdLength CapabilityId_Parse) c"
  by (rule sends_or) (auto simp: capability_id_ok_def CapabilityId_unset_def
      dest: CapabilityId_Parse_nonempty capability_text_ok)

lemma sends_optional_tokens:
  "optional_ok PublicationId_Parse t \<Longrightarrow>
     sends (put_text t kMaxPublicationIdLength) (read_optional kMaxPublicationIdLength PublicationId_Parse) t"
  "optional_ok MutationAttemptId_Parse t \<Longrightarrow>
     sends (put_text t kMaxAttemptIdLength) (read_optional kMaxAttemptIdLength MutationAttemptId_Parse) t"
  by (rule sends_optional; auto simp: optional_ok_def intro: token_text_oks)+

lemmas sends_result = sends_wire sends_message sends_text sends_entity_or sends_capability_or
  sends_optional_tokens sends_digest_bytes sends_value_if
  sends_enum [OF result_members(1) result_lengths(1)] sends_enum [OF result_members(2) result_lengths(2)]

interpretation field: stored_item field_ok write_field read_field
proof unfold_locales
  fix f assume "field_ok f"
  then show "sends (write_field f) read_field f"
    unfolding write_field_def read_field_def field_ok_def
    by (elim conjE) ((rule sends_result | assumption)+, simp)
qed

interpretation step: stored_item step_ok write_step read_step
proof unfold_locales
  fix s assume "step_ok s"
  then show "sends (write_step s) read_step s"
    unfolding write_step_def read_step_def step_ok_def
    by (elim conjE) ((rule sends_result field.counted_reads_back | assumption | simp; fail)+)
qed

interpretation explanation: stored_item explanation_ok WriteExplanation ReadExplanation
proof unfold_locales
  fix x assume "explanation_ok x"
  then show "sends (WriteExplanation x) ReadExplanation x"
    unfolding WriteExplanation_def ReadExplanation_def explanation_ok_def
    by (elim conjE) ((rule sends_result step.counted_reads_back | assumption | simp; fail)+)
qed

lemma sends_split: "sends m r (a, b) \<Longrightarrow> sends (write_seq ms) (f a b) x \<Longrightarrow>
    sends (write_seq (m # ms)) (rd_bind r (\<lambda>(a, b). f a b)) x"
  by (auto simp: sends_def rd_simps)

interpretation described: stored_item described_entry_ok WriteDiffEntry ReadDiffEntry
proof unfold_locales
  fix e assume "described_entry_ok e"
  then show "sends (WriteDiffEntry e) ReadDiffEntry e"
    unfolding WriteDiffEntry_def ReadDiffEntry_def described_entry_ok_def
    by (elim conjE) ((rule sends_split sends_result | assumption)+, simp)
qed

interpretation wire_diff: stored_item wire_diff_ok write_diff read_diff
proof unfold_locales
  fix d assume "wire_diff_ok d"
  then show "sends (write_diff d) read_diff d"
    unfolding write_diff_def read_diff_def wire_diff_ok_def
    by (elim conjE) ((rule sends_result described.counted_reads_back | assumption | simp; fail)+)
qed

interpretation result: stored_item wire_result_ok EncodePublicationResult read_result
proof unfold_locales
  fix r assume "wire_result_ok r"
  then show "sends (EncodePublicationResult r) read_result r"
    unfolding EncodePublicationResult_def read_result_def wire_result_ok_def
    by (elim conjE)
      ((rule sends_result wire_diff.reads_back explanation.reads_back | assumption | simp; fail)+)
qed

section \<open>Properties\<close>

text \<open>The reply to a publication survives the wire. A result whose identifiers, texts and counts
  are within the bounds of the protocol is encoded, with its difference, its explanation and every
  sentence, and the client decodes exactly that result and refuses anything appended to it.\<close>

lemma result_roundtrip:
  assumes "wire_result_ok r"
  shows "\<exists>b. EncodePublicationResult r = Inr b \<and> DecodePublicationResult b = Inr r
    \<and> (\<forall>c cs. DecodePublicationResult (b @ c # cs) = Inl E_FrameTrailingBytes)"
  using result.payload_reads_back [OF assms] by (simp add: DecodePublicationResult_def)

end
