(* ===== verification/WireFrame.thy ===== *)
theory WireFrame
  imports WireCodec
begin

text \<open>
  The frame around a payload (\<open>wire.cpp\<close>): magic, version, message type, flags, request number,
  payload length, payload and a checksum over all of it. The decoder of a frame accepts exactly
  what the encoder builds, and a receiver that reads the header first reads the same frames.
\<close>

section \<open>Encoding and decoding a frame\<close>

datatype wire_message_type =
    Hello | HelloAck | Publish_message | PublishAck | Fence | FenceAck | Status | StatusAck
  | Goodbye | ErrorResponse

fun WireMessageTypeName :: "wire_message_type \<Rightarrow> string" where
  "WireMessageTypeName Hello = ''hello''"
| "WireMessageTypeName HelloAck = ''hello-ack''"
| "WireMessageTypeName Publish_message = ''publish''"
| "WireMessageTypeName PublishAck = ''publish-ack''"
| "WireMessageTypeName Fence = ''fence''"
| "WireMessageTypeName FenceAck = ''fence-ack''"
| "WireMessageTypeName Status = ''status''"
| "WireMessageTypeName StatusAck = ''status-ack''"
| "WireMessageTypeName Goodbye = ''goodbye''"
| "WireMessageTypeName ErrorResponse = ''error''"

definition kMessageTypeWire :: "wire_message_type list" where
  "kMessageTypeWire = [Hello, HelloAck, Publish_message, PublishAck, Fence, FenceAck, Status,
     StatusAck, Goodbye, ErrorResponse]"

abbreviation (input) kProtocolVersion :: u16 where "kProtocolVersion \<equiv> 1"
abbreviation (input) kFrameHeaderBytes :: nat where "kFrameHeaderBytes \<equiv> 24"
abbreviation (input) kMaxFrameBytes :: nat where "kMaxFrameBytes \<equiv> 1048576"

definition kFrameMagic :: bytes where "kFrameMagic = text_bytes ''FCRF''"

record wire_frame =
  wf_version :: u16
  wf_type :: wire_message_type
  wf_flags :: u32
  wf_request_id :: u64
  wf_payload :: bytes

definition EncodeFrame :: "wire_message_type \<Rightarrow> u32 \<Rightarrow> u64 \<Rightarrow> bytes \<Rightarrow> bytes outcome" where
  "EncodeFrame type flags request_id payload =
     (if length payload > kMaxFrameBytes then Inl E_FrameTooLarge
      else if WireCodeOf kMessageTypeWire type \<ge> length kMessageTypeWire then Inl E_FrameTypeUnknown
      else case CheckedU32 (length payload) of
        Inl e \<Rightarrow> Inl E_FrameTooLarge
      | Inr len \<Rightarrow>
          let header = kFrameMagic @ put_u16 kProtocolVersion
                @ put_u16 (word_of_nat (WireCodeOf kMessageTypeWire type))
                @ put_u32 flags @ put_u64 request_id @ put_u32 len;
              crc = Crc32Extend (Crc32Extend Crc32Begin (take kFrameHeaderBytes header)) payload
          in Inr (header @ payload @ put_u32 (Crc32Finish crc)))"

text \<open>The header after the magic: version, type, flags, request number and length.\<close>

definition read_header :: "(u16 \<times> u16 \<times> u32 \<times> u64 \<times> u32) reader" where
  "read_header =
     rd_bind get_u16 (\<lambda>version. rd_bind get_u16 (\<lambda>type. rd_bind get_u32 (\<lambda>flags.
     rd_bind get_u64 (\<lambda>request_id. rd_bind get_u32 (\<lambda>len.
     rd_return (version, type, flags, request_id, len))))))"

definition DecodeFrame :: "bytes \<Rightarrow> wire_frame outcome" where
  "DecodeFrame bs =
     (if length bs < kFrameHeaderBytes then Inl E_FrameMalformed
      else if take 4 bs \<noteq> kFrameMagic then Inl E_FrameMalformed
      else obind (read_header (take 20 (drop 4 bs))) (\<lambda>((version, type, flags, request_id, len), _).
        if version \<noteq> kProtocolVersion then Inl E_FrameVersionUnsupported
        else case WireValueOf kMessageTypeWire (unat type) of
          None \<Rightarrow> Inl E_FrameTypeUnknown
        | Some message_type \<Rightarrow>
            if unat len > kMaxFrameBytes then Inl E_FrameTooLarge
            else
              let expected = kFrameHeaderBytes + unat len + 4 in
              if length bs < expected then Inl E_FrameMalformed
              else if length bs \<noteq> expected then Inl E_FrameTrailingBytes
              else
                let payload = take (unat len) (drop kFrameHeaderBytes bs) in
                obind (get_u32 (take 4 (drop (kFrameHeaderBytes + unat len) bs))) (\<lambda>(crc, _).
                  if crc \<noteq> Crc32Finish
                       (Crc32Extend (Crc32Extend Crc32Begin (take kFrameHeaderBytes bs)) payload)
                  then Inl E_FrameIntegrityFailure
                  else Inr \<lparr>wf_version = version, wf_type = message_type, wf_flags = flags,
                         wf_request_id = request_id, wf_payload = payload\<rparr>)))"

section \<open>Receiving from a stream\<close>

text \<open>A connection as the bytes that still arrive, then the failure of the next \<open>recv\<close>:
  \<open>TransportClosed\<close> when the peer closes, \<open>TransportFailure\<close> on an error. \<open>ReceiveAll\<close> fills a buffer.\<close>

definition ReceiveAll :: "error_code \<Rightarrow> nat \<Rightarrow> bytes reader" where
  "ReceiveAll lost n bs = (if length bs < n then Inl lost else Inr (take n bs, drop n bs))"

definition ReceiveFrame :: "error_code \<Rightarrow> wire_frame reader" where
  "ReceiveFrame lost = rd_bind (ReceiveAll lost kFrameHeaderBytes) (\<lambda>header.
     if take 4 header \<noteq> kFrameMagic then rd_fail E_FrameMalformed
     else rd_bind (rd_lift (read_header (drop 4 header))) (\<lambda>((version, type, flags, request_id, len), _).
       if unat len > kMaxFrameBytes then rd_fail E_FrameTooLarge
       else rd_bind (ReceiveAll lost (unat len + 4)) (\<lambda>body. rd_lift (DecodeFrame (header @ body)))))"

section \<open>The decoder accepts what the encoder builds\<close>

lemma message_type_member: "type \<in> set kMessageTypeWire"
  by (cases type) (simp_all add: kMessageTypeWire_def)

lemma length_kMessageTypeWire: "length kMessageTypeWire = 10"
  by (simp add: kMessageTypeWire_def)

lemma distinct_kMessageTypeWire: "distinct kMessageTypeWire"
  by (simp add: kMessageTypeWire_def)

lemma WireCodeOf_nth:
  assumes "distinct table" and "i < length table" shows "WireCodeOf table (table ! i) = i"
  using WireCodeOf_member [of "table ! i" table] assms by (simp add: nth_eq_iff_index_eq)

text \<open>The bytes of a frame without its checksum.\<close>

definition frame_header :: "u16 \<Rightarrow> u16 \<Rightarrow> u32 \<Rightarrow> u64 \<Rightarrow> u32 \<Rightarrow> bytes" where
  "frame_header version type flags request_id len = kFrameMagic @ put_u16 version @ put_u16 type
     @ put_u32 flags @ put_u64 request_id @ put_u32 len"

lemma length_frame_header [simp]: "length (frame_header version type flags request_id len) = 24"
  by (simp add: frame_header_def kFrameMagic_def put_u16_def put_u32_def put_u64_def)

lemma length_kFrameMagic [simp]: "length kFrameMagic = 4"
  by (simp add: kFrameMagic_def)

lemma length_puts [simp]: "length (put_u16 a) = 2" "length (put_u32 b) = 4" "length (put_u64 c) = 8"
  by (simp_all add: put_u16_def put_u32_def put_u64_def)

lemma read_header_iff:
  "read_header bs = Inr ((version, type, flags, request_id, len), rest) \<longleftrightarrow>
     bs = put_u16 version @ put_u16 type @ put_u32 flags @ put_u64 request_id @ put_u32 len @ rest"
  by (auto simp: read_header_def rd_simps obind_Inr_iff u16.dec_iff u32.dec_iff u64.dec_iff)

lemma read_header_total:
  assumes "length bs = 20"
  shows "\<exists>version type flags request_id len.
    read_header bs = Inr ((version, type, flags, request_id, len), [])"
proof -
  have "le_read n bs = Inr (le_value n bs, drop n bs)" if "n \<le> length bs" for n bs
    using that by (simp add: le_read_def)
  with assms show ?thesis
    by (simp add: read_header_def rd_simps get_u16_def get_u32_def get_u64_def le_read_def)
qed

lemma EncodeFrame_iff:
  "EncodeFrame type flags request_id payload = Inr bs \<longleftrightarrow>
     length payload \<le> kMaxFrameBytes
     \<and> (let header = frame_header kProtocolVersion (word_of_nat (WireCodeOf kMessageTypeWire type)) flags
          request_id (word_of_nat (length payload))
        in bs = header @ payload @ put_u32 (Crc32 (header @ payload)))"
proof -
  have "CheckedU32 (length payload) = Inr (word_of_nat (length payload))"
    if "length payload \<le> kMaxFrameBytes" using that by (simp add: CheckedU32_def)
  moreover have "WireCodeOf kMessageTypeWire type < length kMessageTypeWire"
    by (rule WireCodeOf_member(1) [OF message_type_member])
  ultimately show ?thesis
    unfolding EncodeFrame_def frame_header_def [symmetric]
    by (auto simp: Let_def Crc32_def Crc32Extend_append)
qed

lemma word_of_code:
  "word_of_nat (WireCodeOf kMessageTypeWire type) = (v :: u16) \<longleftrightarrow>
     WireValueOf kMessageTypeWire (unat v) = Some type"
proof -
  have c: "WireCodeOf kMessageTypeWire type < 10"
    using WireCodeOf_member(1) [OF message_type_member] by (simp add: length_kMessageTypeWire)
  then have u: "unat (word_of_nat (WireCodeOf kMessageTypeWire type) :: u16)
      = WireCodeOf kMessageTypeWire type" by (simp add: unat_of_nat)
  show ?thesis
  proof
    assume "word_of_nat (WireCodeOf kMessageTypeWire type) = v"
    with u have "unat v = WireCodeOf kMessageTypeWire type" by metis
    then show "WireValueOf kMessageTypeWire (unat v) = Some type"
      using WireCodeOf_member [OF message_type_member, of type] by (simp add: WireValueOf_def)
  next
    assume "WireValueOf kMessageTypeWire (unat v) = Some type"
    then have "WireCodeOf kMessageTypeWire type = unat v"
      using WireCodeOf_nth [OF distinct_kMessageTypeWire, of "unat v"]
      by (auto simp: WireValueOf_def split: if_splits)
    then show "word_of_nat (WireCodeOf kMessageTypeWire type) = v" by simp
  qed
qed

lemma decoded_frame:
  assumes "DecodeFrame bs = Inr f"
  shows "EncodeFrame (wf_type f) (wf_flags f) (wf_request_id f) (wf_payload f) = Inr bs \<and> wf_version f = 1"
proof -
  from assms obtain version type flags request_id len rest crc rest' where
    bs: "24 \<le> length bs" "take 4 bs = kFrameMagic"
    and h: "read_header (take 20 (drop 4 bs)) = Inr ((version, type, flags, request_id, len), rest)"
    and v: "version = kProtocolVersion" "WireValueOf kMessageTypeWire (unat type) = Some (wf_type f)"
    and len: "unat len \<le> kMaxFrameBytes" "length bs = 24 + unat len + 4"
    and crc: "get_u32 (take 4 (drop (24 + unat len) bs)) = Inr (crc, rest')"
      "crc = Crc32Finish (Crc32Extend (Crc32Extend Crc32Begin (take 24 bs)) (take (unat len) (drop 24 bs)))"
    and f: "wf_version f = 1" "wf_flags f = flags" "wf_request_id f = request_id"
      "wf_payload f = take (unat len) (drop 24 bs)"
    by (auto simp: DecodeFrame_def obind_Inr_iff Let_def split: if_splits option.splits)
  let ?h = "frame_header version type flags request_id len"
  let ?p = "wf_payload f"
  have "rest = []" using h [unfolded read_header_iff] len(2)
    by (auto dest!: arg_cong [of _ _ length])
  then have head: "take 24 bs = ?h"
    using h [unfolded read_header_iff] bs take_add [of 4 20 bs] by (simp add: frame_header_def)
  have "rest' = []" using crc(1) [unfolded u32.dec_iff] len(2)
    by (auto dest!: arg_cong [of _ _ length])
  then have tail: "drop (24 + unat len) bs = put_u32 (Crc32 (?h @ ?p))"
    using crc len(2) by (simp add: u32.dec_iff head f(4) Crc32_def Crc32Extend_append)
  have "bs = take 24 bs @ take (unat len) (drop 24 bs) @ drop (24 + unat len) bs"
    by (metis append_take_drop_id drop_drop add.commute)
  then have all: "bs = ?h @ ?p @ put_u32 (Crc32 (?h @ ?p))"
    by (simp add: tail head f(4))
  have "length ?p = unat len" using len(2) by (simp add: f(4))
  then have "word_of_nat (length ?p) = len" "length ?p \<le> kMaxFrameBytes" using len(1) by simp_all
  with all v(1) word_of_code [of "wf_type f" type] v(2) show ?thesis
    by (simp add: EncodeFrame_iff Let_def f)
qed

lemma encoded_frame:
  assumes "EncodeFrame type flags request_id payload = Inr bs"
  shows "DecodeFrame bs = Inr \<lparr>wf_version = 1, wf_type = type, wf_flags = flags,
     wf_request_id = request_id, wf_payload = payload\<rparr>"
proof -
  let ?t = "word_of_nat (WireCodeOf kMessageTypeWire type) :: u16"
  let ?len = "word_of_nat (length payload) :: u32"
  let ?h = "frame_header kProtocolVersion ?t flags request_id ?len"
  from assms have len: "length payload \<le> kMaxFrameBytes"
    and bs: "bs = ?h @ payload @ put_u32 (Crc32 (?h @ payload))"
    by (simp_all add: EncodeFrame_iff Let_def)
  have u: "unat ?len = length payload" using len by (intro unat_word_of_nat_u32) simp
  have t: "WireValueOf kMessageTypeWire (unat ?t) = Some type" using word_of_code by blast
  have "take 20 (drop 4 ?h) = drop 4 ?h" by simp
  moreover have "drop 4 ?h = put_u16 kProtocolVersion @ put_u16 ?t @ put_u32 flags @ put_u64 request_id @ put_u32 ?len"
    by (simp add: frame_header_def)
  ultimately have h: "read_header (take 20 (drop 4 bs)) = Inr ((kProtocolVersion, ?t, flags, request_id, ?len), [])"
    by (simp add: bs read_header_iff)
  have m: "take 4 bs = kFrameMagic" by (simp add: bs frame_header_def)
  have c: "Crc32Finish (Crc32Extend (Crc32Extend Crc32Begin ?h) payload) = Crc32 (?h @ payload)"
    by (simp add: Crc32_def Crc32Extend_append)
  show ?thesis
    using len u t unfolding DecodeFrame_def h m
    by (simp add: bs u32.whole c Let_def)
qed

lemma DecodeFrame_iff:
  "DecodeFrame bs = Inr f \<longleftrightarrow>
     EncodeFrame (wf_type f) (wf_flags f) (wf_request_id f) (wf_payload f) = Inr bs \<and> wf_version f = 1"
proof
  assume e: "EncodeFrame (wf_type f) (wf_flags f) (wf_request_id f) (wf_payload f) = Inr bs \<and> wf_version f = 1"
  then have "DecodeFrame bs = Inr \<lparr>wf_version = 1, wf_type = wf_type f, wf_flags = wf_flags f,
      wf_request_id = wf_request_id f, wf_payload = wf_payload f\<rparr>" by (blast intro: encoded_frame)
  with e show "DecodeFrame bs = Inr f" by (cases f) simp
qed (rule decoded_frame)

section \<open>The checksum makes every frame a code word\<close>

definition frame_residue :: u32 where
  "frame_residue = Crc32Finish ((crc_bit ^^ 32) 0xFFFFFFFF)"

lemma le_value_put_u32: "le_value 4 (put_u32 v) = v"
  using le_value_le_bytes [where 'w = 32, of 4 v "[]"] by (simp add: put_u32_def)

lemma Crc32_code_word: "Crc32 (bs @ put_u32 (Crc32 bs)) = frame_residue"
proof -
  let ?st = "Crc32Extend Crc32Begin bs"
  have "Crc32Extend ?st (put_u32 (?st XOR 0xFFFFFFFF))
      = (crc_bit ^^ 32) (?st XOR (?st XOR 0xFFFFFFFF))"
    by (subst Crc32Extend_word) (simp_all add: le_value_put_u32)
  also have "?st XOR (?st XOR 0xFFFFFFFF) = 0xFFFFFFFF"
    by (simp flip: xor.assoc)
  finally show ?thesis
    by (simp add: Crc32_def Crc32Finish_def Crc32Extend_append frame_residue_def)
qed

lemma frame_code_word: "DecodeFrame bs = Inr f \<Longrightarrow> Crc32 bs = frame_residue"
  unfolding DecodeFrame_iff EncodeFrame_iff Let_def
  by (metis Crc32_code_word append.assoc)

section \<open>Frames in a stream\<close>

text \<open>The receiver waits for as many bytes as follow the header in the frame that was sent.\<close>

lemma receive_body:
  assumes "DecodeFrame bs = Inr f"
  obtains h body where "bs = h @ body" and "length h = 24"
    and "\<And>xs. ReceiveFrame lost (h @ xs) = obind (ReceiveAll lost (length body) xs)
      (\<lambda>(b, rest). obind (DecodeFrame (h @ b)) (\<lambda>g. Inr (g, rest)))"
proof -
  let ?t = "word_of_nat (WireCodeOf kMessageTypeWire (wf_type f)) :: u16"
  let ?len = "word_of_nat (length (wf_payload f)) :: u32"
  let ?h = "frame_header kProtocolVersion ?t (wf_flags f) (wf_request_id f) ?len"
  let ?body = "wf_payload f @ put_u32 (Crc32 (?h @ wf_payload f))"
  from assms have len: "length (wf_payload f) \<le> kMaxFrameBytes" and bs: "bs = ?h @ ?body"
    by (simp_all add: DecodeFrame_iff EncodeFrame_iff Let_def)
  have u: "unat ?len = length (wf_payload f)" using len by (intro unat_word_of_nat_u32) simp
  have m: "take 4 ?h = kFrameMagic" "drop 4 ?h = put_u16 kProtocolVersion @ put_u16 ?t
      @ put_u32 (wf_flags f) @ put_u64 (wf_request_id f) @ put_u32 ?len"
    by (simp_all add: frame_header_def)
  have "read_header (drop 4 ?h) = Inr ((kProtocolVersion, ?t, wf_flags f, wf_request_id f, ?len), [])"
    unfolding m by (simp add: read_header_iff)
  then have "ReceiveFrame lost (?h @ xs) = obind (ReceiveAll lost (length ?body) xs)
      (\<lambda>(b, rest). obind (DecodeFrame (?h @ b)) (\<lambda>g. Inr (g, rest)))" for xs
    using len by (simp add: ReceiveFrame_def ReceiveAll_def [of _ kFrameHeaderBytes] rd_simps m(1) u)
  with bs show ?thesis by (intro that [of ?h ?body]) simp_all
qed

lemma received_frame:
  assumes "DecodeFrame bs = Inr f"
  shows "ReceiveFrame lost (bs @ rest) = Inr (f, rest)"
  by (rule receive_body [OF assms, of lost]) (use assms in \<open>simp add: ReceiveAll_def\<close>)

lemma cut_frame:
  assumes "DecodeFrame bs = Inr f" and "n < length bs"
  shows "ReceiveFrame lost (take n bs) = Inl lost"
proof (cases "n < 24")
  case True
  then have "length (take n bs) < 24" by simp
  then show ?thesis by (simp only: ReceiveFrame_def ReceiveAll_def rd_simps if_True obind_simps)
next
  case False
  obtain h body where b: "bs = h @ body" "length h = 24"
    and r: "\<And>xs. ReceiveFrame lost (h @ xs) = obind (ReceiveAll lost (length body) xs)
      (\<lambda>(b, rest). obind (DecodeFrame (h @ b)) (\<lambda>g. Inr (g, rest)))"
    using receive_body [OF assms(1)] by blast
  then have "n - 24 < length body" using False assms(2) by simp
  with b False show ?thesis by (simp add: r ReceiveAll_def)
qed

section \<open>Properties\<close>

text \<open>C32. The frame decoder accepts exactly the frames the encoder builds. Bytes decode to a frame
  if and only if encoding its type, flags, request number and payload gives those bytes, and the
  version is the supported one; so every frame has one encoding.\<close>

theorem frame_exact:
  "DecodeFrame bs = Inr f \<longleftrightarrow>
     EncodeFrame (wf_type f) (wf_flags f) (wf_request_id f) (wf_payload f) = Inr bs \<and> wf_version f = 1"
  by (rule DecodeFrame_iff)

text \<open>C33. Damaged frames are refused. If bytes decode to a frame, the same bytes with any window of up
  to four bytes replaced, be it in the header, the payload, the checksum or across them, do not.\<close>

theorem damaged_frame_refused:
  assumes "DecodeFrame (p @ a @ s) = Inr f" and "length a = length b" and "length a \<le> 4" and "a \<noteq> b"
  shows "\<exists>e. DecodeFrame (p @ b @ s) = Inl e"
proof (cases "DecodeFrame (p @ b @ s)")
  case (Inr f')
  then have "Crc32 (p @ a @ s) = Crc32 (p @ b @ s)"
    using assms(1) by (simp only: frame_code_word)
  with assms(2-4) Crc32_burst show ?thesis by blast
qed blast

lemma damaged_frame_refused_witness:
  "\<exists>bs e. EncodeFrame Publish_message 9 42 [1, 2, 3] = Inr (take 24 bs @ [1, 2, 3] @ drop 27 bs)
     \<and> DecodeFrame (take 24 bs @ [1, 130, 3] @ drop 27 bs) = Inl e"
proof -
  obtain bs where bs: "EncodeFrame Publish_message 9 42 [1, 2, 3] = Inr bs"
    by (simp add: EncodeFrame_iff Let_def)
  then have "bs = take 24 bs @ [1, 2, 3] @ drop 27 bs"
    by (simp add: EncodeFrame_iff Let_def)
  moreover from this encoded_frame [OF bs] obtain f where
    "DecodeFrame (take 24 bs @ [1, 2, 3] @ drop 27 bs) = Inr f" by metis
  from damaged_frame_refused [OF this, of "[1, 130, 3]"] obtain e where
    "DecodeFrame (take 24 bs @ [1, 130, 3] @ drop 27 bs) = Inl e" by auto
  ultimately show ?thesis using bs by metis
qed

text \<open>Frames are delimited in a stream. A receiver that reads the header, then the announced rest,
  returns the frames that were sent, in their order, and leaves the stream after them; when the
  connection ends inside the next frame, it reports the end of the connection and no frame.\<close>

theorem stream_of_frames:
  assumes "\<forall>i < length frames. DecodeFrame (frames ! i) = Inr (fs ! i)" and "length fs = length frames"
    and "DecodeFrame last_one = Inr f" and "n < length last_one"
  shows "rd_repeat (length fs) (ReceiveFrame lost) (concat frames @ rest) = Inr (fs, rest)
    \<and> rd_repeat (Suc (length fs)) (ReceiveFrame lost) (concat frames @ take n last_one) = Inl lost"
  using assms(1,2)
proof (induction frames arbitrary: fs)
  case Nil
  then show ?case using cut_frame [OF assms(3,4), of lost] by (simp add: rd_simps)
next
  case (Cons bs frames)
  then obtain g fs' where fs: "fs = g # fs'" and l: "length fs' = length frames" by (cases fs) auto
  have "DecodeFrame bs = Inr g" using Cons.prems(1) fs by fastforce
  note r = received_frame [OF this, of lost]
  have "\<forall>i < length frames. DecodeFrame (frames ! i) = Inr (fs' ! i)"
    using Cons.prems(1) fs by fastforce
  from Cons.IH [OF this l] show ?case by (auto simp: fs rd_simps r obind_Inl_iff)
qed

lemma stream_of_frames_witness:
  "\<exists>bs f. EncodeFrame Hello 0 1 [7] = Inr bs
     \<and> rd_repeat 1 (ReceiveFrame E_TransportClosed) (concat [bs] @ [1, 2]) = Inr ([f], [1, 2])
     \<and> rd_repeat 2 (ReceiveFrame E_TransportClosed) (concat [bs] @ take 5 bs) = Inl E_TransportClosed"
proof -
  obtain bs where bs: "EncodeFrame Hello 0 1 [7] = Inr bs"
    by (simp add: EncodeFrame_iff Let_def)
  from encoded_frame [OF this] obtain f where f: "DecodeFrame bs = Inr f" by blast
  have "5 < length bs" using bs by (simp add: EncodeFrame_iff Let_def)
  from stream_of_frames [of "[bs]" "[f]", OF _ _ f this] f bs show ?thesis
    by (auto simp: numeral_2_eq_2 simp del: rd_repeat.simps)
qed

end
