(* ===== verification/StoreFile.thy ===== *)
theory StoreFile
  imports StoreRecords
begin

text \<open>
  The store file of \<open>src/src/persistence.cpp\<close>: where it lies, its header, how it is replaced, read
  and inspected, and the operations \<open>Save\<close> and \<open>Load\<close> of the registry
  (\<open>src/src/registry.cpp\<close>) on top. The theorems: a saved payload is read back, the replacement of
  the file is all or nothing, damage is detected, only well-formed payloads are accepted.
\<close>

section \<open>The file system as the store sees it\<close>

text \<open>
  \<open>dk_absolute\<close> is \<open>std::filesystem::absolute\<close> followed by \<open>lexically_normal\<close> (\<open>None\<close> where it
  reports an error), \<open>dk_creatable\<close> and \<open>dk_readable\<close> tell where \<open>create_directories\<close> and
  \<open>fopen\<close> with \<open>fread\<close> succeed. The POSIX branch of the code is the one modelled.
\<close>

record disk =
  dk_dirs :: "string set"
  dk_files :: "string \<Rightarrow> bytes option"
  dk_absolute :: "string \<Rightarrow> string option"
  dk_creatable :: "string \<Rightarrow> bool"
  dk_readable :: "string \<Rightarrow> bool"

definition path_exists :: "disk \<Rightarrow> string \<Rightarrow> bool" where
  "path_exists d path \<longleftrightarrow> path \<in> dk_dirs d \<or> dk_files d path \<noteq> None"

record persistence_config =
  pc_directory :: string
  pc_file_stem :: string
  pc_create_if_missing :: bool
  pc_durable_flush :: bool

abbreviation (input) kStoreHeaderBytes :: nat where "kStoreHeaderBytes \<equiv> 68"
abbreviation (input) kMaxPersistenceBytes :: nat where "kMaxPersistenceBytes \<equiv> 2147483648"
abbreviation (input) kPersistencePathLength :: nat where "kPersistencePathLength \<equiv> 200"
abbreviation (input) kFormatVersion :: u32 where "kFormatVersion \<equiv> 1"
abbreviation (input) kFlagsNone :: u32 where "kFlagsNone \<equiv> 0"

definition kStoreMagic :: string where "kStoreMagic = ''FCRSTORE''"
definition kStoreSuffix :: string where "kStoreSuffix = ''.fcrstore''"

definition IsAsciiAlphaNum :: "char \<Rightarrow> bool" where
  "IsAsciiAlphaNum ch \<longleftrightarrow> CHR ''a'' \<le> ch \<and> ch \<le> CHR ''z'' \<or> CHR ''A'' \<le> ch \<and> ch \<le> CHR ''Z''
     \<or> CHR ''0'' \<le> ch \<and> ch \<le> CHR ''9''"

text \<open>\<open>std::toupper\<close> in the C locale.\<close>

definition toupper :: "char \<Rightarrow> char" where
  "toupper ch = (if CHR ''a'' \<le> ch \<and> ch \<le> CHR ''z'' then char_of (of_char ch - (32::nat)) else ch)"

definition kReserved :: "string list" where
  "kReserved = [''CON'', ''PRN'', ''AUX'', ''NUL'', ''COM1'', ''COM2'', ''COM3'', ''COM4'', ''COM5'',
     ''COM6'', ''COM7'', ''COM8'', ''COM9'', ''LPT1'', ''LPT2'', ''LPT3'', ''LPT4'', ''LPT5'',
     ''LPT6'', ''LPT7'', ''LPT8'', ''LPT9'']"

definition IsReservedDeviceName :: "string \<Rightarrow> bool" where
  "IsReservedDeviceName stem =
     list_ex (\<lambda>reserved. takeWhile (\<lambda>ch. ch \<noteq> CHR ''.'') (map toupper stem) = reserved) kReserved"

definition ValidateStem :: "string \<Rightarrow> status" where
  "ValidateStem stem =
     (if stem = [] \<or> length stem > 64 then Inl E_PersistencePathInvalid
      else if stem = ''.'' \<or> stem = ''..'' then Inl E_PersistencePathInvalid
      else if hd stem = CHR ''.'' \<or> last stem = CHR ''.'' \<or> last stem = CHR '' ''
        then Inl E_PersistencePathInvalid
      else if \<not> list_all (\<lambda>ch. IsAsciiAlphaNum ch \<or> ch = CHR ''-'' \<or> ch = CHR ''_'' \<or> ch = CHR ''.'') stem
        then Inl E_PersistencePathInvalid
      else if IsReservedDeviceName stem then Inl E_PersistencePathInvalid
      else Inr ())"

text \<open>A missing directory is created, so that the file system may change.\<close>

definition ValidatePersistenceConfig :: "persistence_config \<Rightarrow> disk \<Rightarrow> status \<times> disk" where
  "ValidatePersistenceConfig cfg d =
     (if pc_directory cfg = [] then (Inl E_PersistencePathInvalid, d)
      else case ValidateStem (pc_file_stem cfg) of
        Inl e \<Rightarrow> (Inl e, d)
      | Inr _ \<Rightarrow>
        (case dk_absolute d (pc_directory cfg) of
           None \<Rightarrow> (Inl E_PersistencePathInvalid, d)
         | Some directory \<Rightarrow>
             if length directory > kPersistencePathLength then (Inl E_PersistencePathInvalid, d)
             else if \<not> path_exists d directory then
               (if \<not> pc_create_if_missing cfg then (Inl E_PersistenceIoFailure, d)
                else if \<not> dk_creatable d directory then (Inl E_PersistenceIoFailure, d)
                else (Inr (), d\<lparr>dk_dirs := insert directory (dk_dirs d)\<rparr>))
             else if directory \<notin> dk_dirs d then (Inl E_PersistencePathInvalid, d)
             else (Inr (), d)))"

text \<open>The \<open>/\<close> of two paths.\<close>

definition path_join :: "string \<Rightarrow> string \<Rightarrow> string" where
  "path_join directory name =
     (if directory \<noteq> [] \<and> last directory = CHR ''/'' then directory @ name
      else directory @ ''/'' @ name)"

definition StorePath :: "persistence_config \<Rightarrow> disk \<Rightarrow> string outcome \<times> disk" where
  "StorePath cfg d =
     (case ValidatePersistenceConfig cfg d of
        (Inl e, d') \<Rightarrow> (Inl e, d')
      | (Inr _, d') \<Rightarrow>
          (case dk_absolute d' (pc_directory cfg) of
             None \<Rightarrow> (Inl E_PersistencePathInvalid, d')
           | Some directory \<Rightarrow> (Inr (path_join directory (pc_file_stem cfg @ kStoreSuffix)), d')))"

definition TemporaryPathFor :: "string \<Rightarrow> persistence_config \<Rightarrow> string" where
  "TemporaryPathFor target cfg = target @ ''.tmp-'' @ pc_file_stem cfg"

section \<open>Reading and replacing a whole file\<close>

definition ReadFileBounded :: "disk \<Rightarrow> string \<Rightarrow> nat \<Rightarrow> bytes outcome" where
  "ReadFileBounded d path max_bytes =
     (case dk_files d path of
        None \<Rightarrow> Inl E_PersistenceIoFailure
      | Some bs \<Rightarrow>
          if \<not> dk_readable d path then Inl E_PersistenceIoFailure
          else if length bs > max_bytes then Inl E_PersistenceLimitExceeded
          else Inr bs)"

text \<open>Where the operating system fails: nowhere, at \<open>open\<close>, at a \<open>write\<close> or at the rename.\<close>

datatype write_fault = No_fault | Open_fails | Write_fails | Rename_fails

text \<open>The flush of \<open>durable_flush\<close> has no effect on what a later read returns.\<close>

definition WriteFileAtomic ::
  "write_fault \<Rightarrow> string \<Rightarrow> bytes \<Rightarrow> string \<Rightarrow> disk \<Rightarrow> status \<times> disk" where
  "WriteFileAtomic fault target bs temporary d =
     (if fault = Open_fails then (Inl E_PersistenceIoFailure, d)
      else
        let d1 = d\<lparr>dk_files := (dk_files d)(temporary \<mapsto> bs)\<rparr> in
        if fault = Write_fails then
          (Inl E_PersistenceIoFailure, d1\<lparr>dk_files := (dk_files d1)(temporary := None)\<rparr>)
        else if fault = Rename_fails then
          (Inl E_PersistenceIoFailure, d1\<lparr>dk_files := (dk_files d1)(temporary := None)\<rparr>)
        else (Inr (), d1\<lparr>dk_files := (dk_files d1)(temporary := None, target \<mapsto> bs)\<rparr>))"

section \<open>The store file\<close>

record store_header =
  hd_format_version :: u32
  hd_flags :: u32
  hd_payload_bytes :: u64
  hd_record_count :: u64
  hd_payload_digest :: digest

definition read_at :: "bytes \<Rightarrow> nat \<Rightarrow> nat \<Rightarrow> 'w::len word" where
  "read_at bs offset n = le_value n (drop offset bs)"

definition ParseHeader :: "bytes \<Rightarrow> store_header outcome" where
  "ParseHeader bs =
     (if length bs < kStoreHeaderBytes then Inl E_PersistenceCorrupt
      else if take 8 bs \<noteq> text_bytes kStoreMagic then Inl E_PersistenceFormatInvalid
      else if read_at bs 64 4 \<noteq> Crc32 (take 64 bs) then Inl E_PersistenceIntegrityFailure
      else
        let header = \<lparr>hd_format_version = read_at bs 8 4, hd_flags = read_at bs 12 4,
              hd_payload_bytes = read_at bs 16 8, hd_record_count = read_at bs 24 8,
              hd_payload_digest = take kDigestBytes (drop 32 bs)\<rparr>
        in if hd_format_version header \<noteq> kFormatVersion then Inl E_PersistenceVersionUnsupported
           else Inr header)"

definition store_file :: "store_payload \<Rightarrow> bytes \<Rightarrow> bytes" where
  "store_file payload body =
     (let front = text_bytes kStoreMagic @ put_u32 kFormatVersion @ put_u32 kFlagsNone
          @ put_u64 (word_of_nat (length body)) @ put_u64 (word_of_nat (length (sp_entities payload)))
          @ concat (map put_u8 (ComputeDigest body))
      in front @ put_u32 (Crc32 (take 64 front)) @ body)"

record save_report =
  sv_path :: string
  sv_bytes :: nat
  sv_entity_records :: nat
  sv_evidence_records :: nat
  sv_retired_generations :: nat
  sv_fence_records :: nat
  sv_authority_grants :: nat
  sv_payload_digest :: digest
  sv_file_digest :: digest

definition evidence_records :: "store_payload \<Rightarrow> nat" where
  "evidence_records p = sum_list (map (\<lambda>s. length (sy_claims s)) (sp_entities p))"

definition retired_generations :: "store_payload \<Rightarrow> nat" where
  "retired_generations p = sum_list (map (\<lambda>s. length (sy_history s)) (sp_entities p))"

definition WriteStore ::
  "write_fault \<Rightarrow> persistence_config \<Rightarrow> store_payload \<Rightarrow> disk \<Rightarrow> save_report outcome \<times> disk" where
  "WriteStore fault cfg payload d =
     (case StorePath cfg d of
        (Inl e, d1) \<Rightarrow> (Inl e, d1)
      | (Inr path, d1) \<Rightarrow>
          (case EncodePayload payload of
             Inl e \<Rightarrow> (Inl e, d1)
           | Inr body \<Rightarrow>
               if length body > kMaxPersistenceBytes then (Inl E_PersistenceLimitExceeded, d1)
               else
                 let contents = store_file payload body in
                 (case WriteFileAtomic fault path contents (TemporaryPathFor path cfg) d1 of
                    (Inl e, d2) \<Rightarrow> (Inl e, d2)
                  | (Inr _, d2) \<Rightarrow>
                      (Inr \<lparr>sv_path = path, sv_bytes = length contents,
                         sv_entity_records = length (sp_entities payload),
                         sv_evidence_records = evidence_records payload,
                         sv_retired_generations = retired_generations payload,
                         sv_fence_records = length (sp_fences payload),
                         sv_authority_grants = length (sp_authorities payload),
                         sv_payload_digest = ComputeDigest body,
                         sv_file_digest = ComputeDigest contents\<rparr>, d2))))"

text \<open>The checks \<open>ReadStore\<close> and \<open>InspectStore\<close> make on the bytes of a file.\<close>

definition checked_payload :: "store_header \<Rightarrow> bytes \<Rightarrow> store_payload outcome" where
  "checked_payload header bs =
     (if unat (hd_payload_bytes header) > length bs
         \<or> length bs - kStoreHeaderBytes \<noteq> unat (hd_payload_bytes header)
      then Inl E_PersistenceCorrupt
      else
        let body = take (unat (hd_payload_bytes header)) (drop kStoreHeaderBytes bs) in
        if ComputeDigest body \<noteq> hd_payload_digest header then Inl E_PersistenceIntegrityFailure
        else DecodePayload body)"

definition ReadStore ::
  "persistence_config \<Rightarrow> disk \<Rightarrow> (load_report \<times> store_payload) outcome \<times> disk" where
  "ReadStore cfg d =
     (case StorePath cfg d of
        (Inl e, d1) \<Rightarrow> (Inl e, d1)
      | (Inr path, d1) \<Rightarrow>
          (if \<not> path_exists d1 path then
             (if \<not> pc_create_if_missing cfg then Inl E_PersistenceIoFailure
              else Inr (report_new\<lparr>lr_created_empty := True, lr_epoch := 1\<rparr>, payload_empty))
           else
             obind (ReadFileBounded d1 path kMaxPersistenceBytes) (\<lambda>bs.
             obind (ParseHeader bs) (\<lambda>header.
             obind (checked_payload header bs) (\<lambda>payload.
             Inr (report_new\<lparr>lr_epoch := sp_epoch payload,
                    lr_registry_generation := sp_registry_generation payload,
                    lr_store_digest := hd_payload_digest header,
                    lr_authority_grants := length (sp_authorities payload),
                    lr_fenced_worker_boots := length (sp_fences payload)\<rparr>, payload)))), d1))"

record store_inspection =
  si_path :: string
  si_format_version :: u32
  si_flags :: u32
  si_payload_bytes :: u64
  si_entity_records :: nat
  si_evidence_records :: nat
  si_retired_generations :: nat
  si_fence_records :: nat
  si_authority_grants :: nat
  si_registry_generation :: counter
  si_epoch :: counter
  si_payload_digest :: digest
  si_integrity_ok :: bool

definition inspection_new :: "string \<Rightarrow> store_inspection" where
  "inspection_new path = \<lparr>si_path = path, si_format_version = 0, si_flags = 0, si_payload_bytes = 0,
     si_entity_records = 0, si_evidence_records = 0, si_retired_generations = 0,
     si_fence_records = 0, si_authority_grants = 0, si_registry_generation = 0, si_epoch = 0,
     si_payload_digest = Digest_zero, si_integrity_ok = False\<rparr>"

text \<open>The inspector tests only that the lengths differ; both tests agree on files with a header.\<close>

definition InspectStore :: "persistence_config \<Rightarrow> disk \<Rightarrow> store_inspection outcome \<times> disk" where
  "InspectStore cfg d =
     (case StorePath cfg d of
        (Inl e, d1) \<Rightarrow> (Inl e, d1)
      | (Inr path, d1) \<Rightarrow>
          (obind (ReadFileBounded d1 path kMaxPersistenceBytes) (\<lambda>bs.
           case ParseHeader bs of
             Inl e \<Rightarrow> if e = E_PersistenceVersionUnsupported
                      then Inr ((inspection_new path)\<lparr>si_integrity_ok := True\<rparr>) else Inl e
           | Inr header \<Rightarrow>
               obind (if unat (hd_payload_bytes header) \<noteq> length bs - kStoreHeaderBytes
                      then Inl E_PersistenceCorrupt
                      else
                        let body = take (unat (hd_payload_bytes header)) (drop kStoreHeaderBytes bs) in
                        if ComputeDigest body \<noteq> hd_payload_digest header
                        then Inl E_PersistenceIntegrityFailure
                        else DecodePayload body) (\<lambda>p.
               Inr \<lparr>si_path = path, si_format_version = hd_format_version header,
                  si_flags = hd_flags header, si_payload_bytes = hd_payload_bytes header,
                  si_entity_records = length (sp_entities p),
                  si_evidence_records = evidence_records p,
                  si_retired_generations = retired_generations p,
                  si_fence_records = length (sp_fences p),
                  si_authority_grants = length (sp_authorities p),
                  si_registry_generation = sp_registry_generation p, si_epoch = sp_epoch p,
                  si_payload_digest = hd_payload_digest header, si_integrity_ok = True\<rparr>)), d1))"

section \<open>Saving and loading a registry\<close>

definition Save ::
  "write_fault \<Rightarrow> persistence_config \<Rightarrow> registry \<Rightarrow> disk \<Rightarrow> save_report outcome \<times> disk" where
  "Save fault cfg g d = WriteStore fault cfg (SavePayload g) d"

definition Load ::
  "persistence_config \<Rightarrow> registry \<Rightarrow> disk \<Rightarrow> load_report outcome \<times> registry \<times> disk" where
  "Load cfg g d =
     (case ReadStore cfg d of
        (Inl e, d') \<Rightarrow> (Inl e, g, d')
      | (Inr (report, payload), d') \<Rightarrow>
          (let g' = LoadPayload payload g in (Inr (LoadReport_of report payload g'), g', d')))"

section \<open>A store file is read back\<close>

lemma read_at_put:
  "length xs = offset \<Longrightarrow> LENGTH('w) = 8 * n \<Longrightarrow>
     read_at (xs @ le_bytes n v @ rest) offset n = (v::'w::len word)"
  by (simp add: read_at_def le_value_le_bytes)

lemma concat_put_u8 [simp]: "concat (map put_u8 bs) = bs"
  by (induction bs) (simp_all add: put_u8_def)

text \<open>The 64 bytes the checksum covers, field by field.\<close>

definition store_front :: "store_payload \<Rightarrow> bytes \<Rightarrow> bytes" where
  "store_front p body = text_bytes kStoreMagic @ put_u32 kFormatVersion @ put_u32 kFlagsNone
     @ put_u64 (word_of_nat (length body)) @ put_u64 (word_of_nat (length (sp_entities p)))
     @ ComputeDigest body"

lemma length_store_front [simp]: "length (store_front p body) = 64"
  by (simp add: store_front_def kStoreMagic_def put_u32_def put_u64_def)

lemma store_file_front:
  "store_file p body = store_front p body @ put_u32 (Crc32 (store_front p body)) @ body"
  by (simp add: store_file_def store_front_def [symmetric] Let_def)

lemma length_store_file [simp]: "length (store_file p body) = 68 + length body"
  by (simp add: store_file_front put_u32_def)

lemma store_front_fields:
  "read_at (store_front p body @ rest) 8 4 = kFormatVersion"
  "read_at (store_front p body @ rest) 12 4 = kFlagsNone"
  "read_at (store_front p body @ rest) 16 8 = (word_of_nat (length body) :: u64)"
  "read_at (store_front p body @ rest) 24 8 = (word_of_nat (length (sp_entities p)) :: u64)"
  "take kDigestBytes (drop 32 (store_front p body @ rest)) = ComputeDigest body"
  "take 8 (store_front p body @ rest) = text_bytes kStoreMagic"
proof -
  let ?m = "text_bytes kStoreMagic" and ?v = "put_u32 kFormatVersion" and ?f = "put_u32 kFlagsNone"
  let ?b = "put_u64 (word_of_nat (length body))"
  let ?e = "put_u64 (word_of_nat (length (sp_entities p)))"
  have l: "length ?m = 8" "length ?v = 4" "length ?f = 4" "length ?b = 8" "length ?e = 8"
    by (simp_all add: kStoreMagic_def put_u32_def put_u64_def)
  show "read_at (store_front p body @ rest) 8 4 = kFormatVersion"
    using read_at_put [of ?m 8 4 kFormatVersion] l by (simp add: store_front_def put_u32_def)
  show "read_at (store_front p body @ rest) 12 4 = kFlagsNone"
    using read_at_put [of "?m @ ?v" 12 4 kFlagsNone] l by (simp add: store_front_def put_u32_def)
  show "read_at (store_front p body @ rest) 16 8 = (word_of_nat (length body) :: u64)"
    using read_at_put [of "?m @ ?v @ ?f" 16 8 "word_of_nat (length body) :: u64"] l
    by (simp add: store_front_def put_u64_def)
  show "read_at (store_front p body @ rest) 24 8 = (word_of_nat (length (sp_entities p)) :: u64)"
    using read_at_put [of "?m @ ?v @ ?f @ ?b" 24 8 "word_of_nat (length (sp_entities p)) :: u64"] l
    by (simp add: store_front_def put_u64_def)
  have "drop 32 (store_front p body @ rest) = ComputeDigest body @ rest"
    using l by (simp add: store_front_def)
  then show "take kDigestBytes (drop 32 (store_front p body @ rest)) = ComputeDigest body" by simp
  show "take 8 (store_front p body @ rest) = ?m"
    using l by (simp add: store_front_def)
qed

lemma ParseHeader_store_file:
  "ParseHeader (store_file p body) = Inr \<lparr>hd_format_version = kFormatVersion, hd_flags = kFlagsNone,
     hd_payload_bytes = word_of_nat (length body),
     hd_record_count = word_of_nat (length (sp_entities p)),
     hd_payload_digest = ComputeDigest body\<rparr>"
proof -
  have "read_at (store_file p body) 64 4 = Crc32 (store_front p body)"
    using read_at_put [of "store_front p body" 64 4 "Crc32 (store_front p body)" body]
    by (simp add: store_file_front put_u32_def)
  moreover have "take 64 (store_file p body) = store_front p body"
    by (simp add: store_file_front)
  ultimately show ?thesis
    unfolding ParseHeader_def Let_def
    by (simp add: store_file_front [of p body] store_front_fields
        store_front_fields(5,6) [where rest = "[]", simplified] put_u32_def)
qed

lemma checked_payload_store_file:
  assumes "length body < 2 ^ 64" and "ParseHeader (store_file p body) = Inr h"
  shows "checked_payload h (store_file p body) = DecodePayload body"
proof -
  have "unat (word_of_nat (length body) :: u64) = length body"
    using assms(1) by (simp add: unat_of_nat)
  moreover have "drop 68 (store_file p body) = body"
    by (simp add: store_file_front put_u32_def)
  moreover have "h = \<lparr>hd_format_version = kFormatVersion, hd_flags = kFlagsNone,
     hd_payload_bytes = word_of_nat (length body),
     hd_record_count = word_of_nat (length (sp_entities p)),
     hd_payload_digest = ComputeDigest body\<rparr>"
    using assms(2) by (simp add: ParseHeader_store_file)
  ultimately show ?thesis by (simp add: checked_payload_def)
qed

lemma StorePath_same:
  assumes "StorePath cfg d = (Inr path, d')"
  shows "StorePath cfg (d'\<lparr>dk_files := fs\<rparr>) = (Inr path, d'\<lparr>dk_files := fs\<rparr>)
    \<and> dk_files d' = dk_files d \<and> dk_readable d' = dk_readable d"
  using assms
  by (auto simp: StorePath_def ValidatePersistenceConfig_def path_exists_def
      split: prod.splits sum.splits option.splits if_splits)

definition read_report :: "store_payload \<Rightarrow> bytes \<Rightarrow> load_report" where
  "read_report p body = report_new\<lparr>lr_epoch := sp_epoch p,
     lr_registry_generation := sp_registry_generation p, lr_store_digest := ComputeDigest body,
     lr_authority_grants := length (sp_authorities p),
     lr_fenced_worker_boots := length (sp_fences p)\<rparr>"

lemma ReadStore_of_file:
  assumes path: "StorePath cfg d = (Inr path, d1)" and ok: "payload_ok p"
    and enc: "EncodePayload p = Inr body" and len: "68 + length body \<le> kMaxPersistenceBytes"
    and d2: "d2 = d1\<lparr>dk_files := fs\<rparr>" and f: "fs path = Some (store_file p body)"
    and r: "dk_readable d path"
  shows "ReadStore cfg d2 = (Inr (read_report p body, p), d2)"
proof -
  have sp: "StorePath cfg d2 = (Inr path, d2)" and rd: "dk_readable d2 path"
    using StorePath_same [OF path, of fs] r d2 by simp_all
  have "ReadFileBounded d2 path kMaxPersistenceBytes = Inr (store_file p body)"
    using rd f len d2 by (simp add: ReadFileBounded_def)
  moreover have "path_exists d2 path" using f d2 by (simp add: path_exists_def)
  moreover have "DecodePayload body = Inr p"
    using len by (intro payload_read [OF ok enc]) simp
  moreover have "length body < 2 ^ 64" using len by simp
  ultimately show ?thesis
    using checked_payload_store_file [of body p] ParseHeader_store_file [of p body]
    by (simp add: ReadStore_def sp read_report_def)
qed

lemma WriteStore_cases:
  assumes "WriteStore fault cfg p d = (Inr report, d2)"
  obtains path d1 body where "StorePath cfg d = (Inr path, d1)" and "EncodePayload p = Inr body"
    and "length body \<le> kMaxPersistenceBytes" and "fault = No_fault"
    and "d2 = d1\<lparr>dk_files := (dk_files d1)(TemporaryPathFor path cfg := None,
           path \<mapsto> store_file p body)\<rparr>"
    and "sv_path report = path"
  using assms
  by (auto simp: WriteStore_def WriteFileAtomic_def Let_def
      split: prod.splits sum.splits if_splits write_fault.splits)
     (cases fault; auto)

section \<open>Properties\<close>

text \<open>C34. The store keeps the registry's state exactly: once a well-formed payload has been written
  without a fault, reading the store at the same place returns that payload, field by field and
  in the same order, together with its digest, for every payload whose file stays within the
  bound of a read.\<close>

theorem store_roundtrip:
  assumes "payload_ok p" and "WriteStore fault cfg p d = (Inr report, d')"
    and "sv_bytes report \<le> kMaxPersistenceBytes" and "dk_readable d (sv_path report)"
  shows "\<exists>read. ReadStore cfg d' = (Inr (read, p), d')
    \<and> lr_epoch read = sp_epoch p \<and> lr_registry_generation read = sp_registry_generation p
    \<and> lr_store_digest read = sv_payload_digest report \<and> \<not> lr_created_empty read"
proof -
  from WriteStore_cases [OF assms(2)] obtain path d1 body where
    w: "StorePath cfg d = (Inr path, d1)" "EncodePayload p = Inr body" "fault = No_fault"
      "d' = d1\<lparr>dk_files := (dk_files d1)(TemporaryPathFor path cfg := None,
           path \<mapsto> store_file p body)\<rparr>" "sv_path report = path" by metis
  have "sv_bytes report = 68 + length body \<and> sv_payload_digest report = ComputeDigest body"
    using assms(2) w(1,2)
    by (auto simp: WriteStore_def Let_def split: prod.splits sum.splits if_splits)
  with ReadStore_of_file [OF w(1) assms(1) w(2) _ w(4)] assms(3,4) w(5) show ?thesis
    by (auto simp: read_report_def report_new_def)
qed

text \<open>C38. Replacing the store file is all or nothing: after a save the file at the store's path
  holds the complete new contents if the save reports success, and otherwise exactly what it held
  before; no other file has changed, and no temporary file is left behind by a write or a rename
  that failed.\<close>

theorem store_write_is_atomic:
  assumes "StorePath cfg d = (Inr path, d1)" and "EncodePayload p = Inr body"
    and "WriteStore fault cfg p d = (result, d')"
  shows "(case result of
            Inr report \<Rightarrow> dk_files d' path = Some (store_file p body)
              \<and> sv_file_digest report = ComputeDigest (store_file p body)
          | Inl e \<Rightarrow> dk_files d' path = dk_files d path)
    \<and> (\<forall>other. other \<noteq> path \<and> other \<noteq> TemporaryPathFor path cfg
         \<longrightarrow> dk_files d' other = dk_files d other)
    \<and> (fault \<in> {Write_fails, Rename_fails} \<and> length body \<le> kMaxPersistenceBytes
         \<longrightarrow> dk_files d' (TemporaryPathFor path cfg) = None)"
proof -
  have "dk_files d1 = dk_files d" using StorePath_same [OF assms(1)] by simp
  moreover have "path \<noteq> TemporaryPathFor path cfg" by (simp add: TemporaryPathFor_def)
  ultimately show ?thesis
    using assms by (cases fault) (auto simp: WriteStore_def WriteFileAtomic_def Let_def split: if_splits)
qed

section \<open>Damage to a store file\<close>

lemma le_value_take: "n \<le> length bs \<Longrightarrow> le_value n (bs @ rest) = le_value n bs"
  by (auto intro!: bit_eqI simp: bit_le_value nth_append)

lemma read_at_prefix:
  assumes "take 68 bs' = take 68 bs" and "offset + n \<le> 68" and "68 \<le> length bs"
  shows "read_at bs' offset n = (read_at bs offset n :: 'w::len word)"
proof -
  have cut: "take n (drop offset (take 68 xs)) = take n (drop offset xs)" for xs :: bytes
    using assms(2) by (simp add: drop_take min_def)
  have same: "take n (drop offset bs') = take n (drop offset bs)"
    using cut [of bs'] cut [of bs] assms(1) by simp
  have len: "68 \<le> length bs'" using arg_cong [OF assms(1), of length] assms(3) by simp
  have cut_value: "le_value n xs = (le_value n (take n xs) :: 'w word)" if "n \<le> length xs" for xs
    using le_value_take [of n "take n xs" "drop n xs"] that by simp
  have "n \<le> length (drop offset bs')" "n \<le> length (drop offset bs)"
    using assms(2,3) len by auto
  then show ?thesis
    unfolding read_at_def using cut_value [of "drop offset bs'"] cut_value [of "drop offset bs"] same
    by simp
qed

lemma ParseHeader_prefix:
  assumes "take 68 bs' = take 68 bs" and "ParseHeader bs = Inr h"
  shows "ParseHeader bs' = Inr h"
proof -
  have len: "68 \<le> length bs" using assms(2) by (auto simp: ParseHeader_def split: if_splits)
  moreover have "68 \<le> length bs'" using arg_cong [OF assms(1), of length] len by simp
  moreover have "take n bs' = take n bs" if "n \<le> 68" for n
    using that assms(1) by (metis min.absorb1 take_take)
  moreover have "take kDigestBytes (drop 32 bs') = take kDigestBytes (drop 32 bs)"
    using calculation(3) [of 64] by (simp add: take_drop)
  ultimately show ?thesis
    using assms(2) unfolding ParseHeader_def Let_def
    by (auto simp: read_at_prefix [OF assms(1) _ len] split: if_splits)
qed

lemma ParseHeader_burst:
  assumes h: "ParseHeader (p @ a @ s) = Inr h" and len: "length b = length a" "length a \<le> 4"
    and ne: "b \<noteq> a" and w: "length p + length a \<le> 64 \<or> 64 \<le> length p \<and> length p + length a \<le> 68"
  shows "ParseHeader (p @ b @ s) \<in> {Inl E_PersistenceFormatInvalid, Inl E_PersistenceIntegrityFailure}"
proof -
  let ?x = "p @ a @ s" and ?y = "p @ b @ s"
  have l: "68 \<le> length ?x" and crc: "read_at ?x 64 4 = Crc32 (take 64 ?x)"
    using h by (auto simp: ParseHeader_def split: if_splits)
  have "read_at ?y 64 4 \<noteq> Crc32 (take 64 ?y)"
    using w
  proof
    assume front: "length p + length a \<le> 64"
    have s: "take 64 (p @ c @ s) = p @ c @ take (64 - length p - length a) s
      \<and> drop 64 (p @ c @ s) = drop (64 - length p - length a) s" if "length c = length a" for c
      using front that by simp
    note s1 = conjunct1 [OF s [OF refl]] conjunct1 [OF s [OF len(1)]]
    note s2 = conjunct2 [OF s [OF refl]] conjunct2 [OF s [OF len(1)]]
    have "read_at ?y 64 4 = (read_at ?x 64 4 :: u32)"
      unfolding read_at_def s2 by (rule refl)
    moreover have "Crc32 (take 64 ?y) \<noteq> Crc32 (take 64 ?x)"
      unfolding s1 using Crc32_burst [of b a] len ne by auto
    ultimately show ?thesis using crc by simp
  next
    assume rear: "64 \<le> length p \<and> length p + length a \<le> 68"
    then have same: "take 64 ?y = take 64 ?x" by simp
    have "read_at ?y 64 4 \<noteq> (read_at ?x 64 4 :: u32)"
    proof
      assume eq: "read_at ?y 64 4 = (read_at ?x 64 4 :: u32)"
      have "take 4 (drop 64 ?y) = take 4 (drop 64 ?x)"
        using arg_cong [OF eq, of "le_bytes 4"] l len(1)
        by (simp add: read_at_def le_bytes_le_value del: drop_append)
      then show False
        using rear ne len by (auto simp: take_append drop_append)
    qed
    with same crc show ?thesis by simp
  qed
  then show ?thesis using l len(1) by (simp add: ParseHeader_def)
qed

text \<open>C39. Damage to a store file never goes unnoticed. A change confined to four consecutive bytes
  of the checksummed header, or to the stored checksum, makes the header be rejected as of another
  format or as damaged. With an intact header, a file that has lost or gained bytes is rejected as
  corrupt, and one whose payload was changed is rejected as damaged, unless the changed payload
  has the very SHA-256 digest of the original.\<close>

theorem store_damage_is_detected:
  assumes "ParseHeader bs = Inr h" and "checked_payload h bs = Inr payload"
  shows "(bs = p @ a @ s \<and> length b = length a \<and> length a \<le> 4 \<and> b \<noteq> a
      \<and> (length p + length a \<le> 64 \<or> 64 \<le> length p \<and> length p + length a \<le> 68)
      \<longrightarrow> ParseHeader (p @ b @ s)
            \<in> {Inl E_PersistenceFormatInvalid, Inl E_PersistenceIntegrityFailure})
    \<and> (take 68 bs' = take 68 bs
      \<longrightarrow> ParseHeader bs' = Inr h
        \<and> (length bs' \<noteq> length bs \<longrightarrow> checked_payload h bs' = Inl E_PersistenceCorrupt)
        \<and> (length bs' = length bs \<longrightarrow>
             checked_payload h bs' = Inl E_PersistenceIntegrityFailure
             \<or> ComputeDigest (drop 68 bs') = ComputeDigest (drop 68 bs)))"
proof (intro conjI impI)
  assume "bs = p @ a @ s \<and> length b = length a \<and> length a \<le> 4 \<and> b \<noteq> a
      \<and> (length p + length a \<le> 64 \<or> 64 \<le> length p \<and> length p + length a \<le> 68)"
  with assms(1) show "ParseHeader (p @ b @ s)
      \<in> {Inl E_PersistenceFormatInvalid, Inl E_PersistenceIntegrityFailure}"
    using ParseHeader_burst [of p a s h b] by metis
next
  assume same: "take 68 bs' = take 68 bs"
  then show "ParseHeader bs' = Inr h" by (rule ParseHeader_prefix [OF _ assms(1)])
  have l: "68 \<le> length bs" using assms(1) by (auto simp: ParseHeader_def split: if_splits)
  have l': "68 \<le> length bs'" using arg_cong [OF same, of length] l by simp
  have n: "length bs = 68 + unat (hd_payload_bytes h)"
    and d: "ComputeDigest (drop 68 bs) = hd_payload_digest h"
    using assms(2) l by (auto simp: checked_payload_def Let_def split: if_splits)
  {
    assume "length bs' \<noteq> length bs"
    then show "checked_payload h bs' = Inl E_PersistenceCorrupt"
      using n l' by (auto simp: checked_payload_def)
  next
    assume "length bs' = length bs"
    then show "checked_payload h bs' = Inl E_PersistenceIntegrityFailure
        \<or> ComputeDigest (drop 68 bs') = ComputeDigest (drop 68 bs)"
      using n d l' by (auto simp: checked_payload_def Let_def)
  }
qed

text \<open>C40. Whatever bytes are in the file, a store that is accepted yields a well-formed payload: every
  token, identity, value, enumerator and count has passed the checks of its class, capabilities
  are in order and without duplicates, and the payload can be written and read again.\<close>

theorem accepted_store_is_well_formed:
  assumes "ReadStore cfg d = (Inr (report, p), d')" and "\<not> lr_created_empty report"
  shows "payload_ok p
    \<and> (\<exists>body. EncodePayload p = Inr body \<and> (length body < 2 ^ 32 \<longrightarrow> DecodePayload body = Inr p))"
proof -
  from assms obtain body where "DecodePayload body = Inr p"
    by (auto simp: ReadStore_def checked_payload_def obind_Inr_iff Let_def report_new_def
        split: prod.splits sum.splits if_splits)
  then have ok: "payload_ok p" by (rule DecodePayload_ok)
  then obtain b where "EncodePayload p = Inr b" using payload_written by blast
  with payload_read [OF ok] ok show ?thesis by blast
qed

section \<open>A sample store\<close>

definition demo_config :: persistence_config where
  "demo_config = \<lparr>pc_directory = ''/var'', pc_file_stem = ''registry'', pc_create_if_missing = True,
     pc_durable_flush = True\<rparr>"

definition demo_disk :: disk where
  "demo_disk = \<lparr>dk_dirs = {''/var''}, dk_files = (\<lambda>_. None), dk_absolute = Some,
     dk_creatable = (\<lambda>_. True), dk_readable = (\<lambda>_. True)\<rparr>"

definition demo_stored_entity :: stored_entity where
  "demo_stored_entity = \<lparr>sy_id = \<lparr>ent_kind = EK_Port, ent_canonical = ''p0'', ent_rendered = ''port:p0''\<rparr>,
     sy_current_generation = 2, sy_bound_generation = 2, sy_has_set = True, sy_set_generation = 1,
     sy_invalidated = False, sy_invalidation_reason = [],
     sy_capabilities = [\<lparr>kp_id = \<lparr>cap_ns = ''fabric.port'', cap_local = ''speed'',
        cap_rendered = ''fabric.port.speed''\<rparr>, kp_generation = 1\<rparr>],
     sy_claims = [], sy_source_floors = [\<lparr>sf_source = ''agent'', sf_worker_boot = replicate 32 CHR ''a'',
        sf_generation = 4\<rparr>], sy_history = []\<rparr>"

definition demo_payload :: store_payload where
  "demo_payload = \<lparr>sp_epoch = 3, sp_registry_generation = 7, sp_authorities = [],
     sp_fences = [\<lparr>so_worker_boot = replicate 32 CHR ''b'', so_publisher = [], so_reason = ''operator''\<rparr>],
     sp_registrations = [], sp_entities = [demo_stored_entity]\<rparr>"

lemma demo_parts_ok:
  "stored_entity_ok demo_stored_entity"
  "stored_fence_ok \<lparr>so_worker_boot = replicate 32 CHR ''b'', so_publisher = [], so_reason = ''operator''\<rparr>"
proof -
  have t: "EntityId_Parse ''port:p0'' = Inr (sy_id demo_stored_entity)"
    "CapabilityId_Parse ''fabric.port.speed'' = Inr \<lparr>cap_ns = ''fabric.port'', cap_local = ''speed'',
        cap_rendered = ''fabric.port.speed''\<rparr>"
    "SourceId_Parse ''agent'' = Inr ''agent''"
    "WorkerBootId_Parse (replicate 32 CHR ''a'') = Inr (replicate 32 CHR ''a'')"
    "WorkerBootId_Parse (replicate 32 CHR ''b'') = Inr (replicate 32 CHR ''b'')"
    "ReasonToken_Parse ''operator'' = Inr ''operator''"
    by code_simp+
  show "stored_entity_ok demo_stored_entity"
    using t by (simp add: stored_entity_ok_def demo_stored_entity_def stored_capability_ok_def
        capability_id_ok_def stored_floor_ok_def optional_ok_def)
  show "stored_fence_ok \<lparr>so_worker_boot = replicate 32 CHR ''b'', so_publisher = [],
      so_reason = ''operator''\<rparr>"
    using t by (simp add: stored_fence_ok_def optional_ok_def)
qed

lemma demo_payload_ok: "payload_ok demo_payload"
  using demo_parts_ok by (simp add: payload_ok_def demo_payload_def)

lemma demo_payload_encoded: "\<exists>body. EncodePayload demo_payload = Inr body \<and> length body < 1000"
  by (simp add: EncodePayload_def demo_payload_def demo_stored_entity_def write_record_def
      WriteFence_def WriteEntity_def write_list_def put_text_def CheckedU32_def put_u32_def put_u64_def
      put_u8_def put_bool_def)

lemma demo_stem: "ValidateStem ''registry'' = Inr ()"
  by code_simp

lemma demo_path: "StorePath demo_config demo_disk = (Inr ''/var/registry.fcrstore'', demo_disk)"
  using demo_stem
  by (simp add: StorePath_def ValidatePersistenceConfig_def demo_config_def demo_disk_def
      path_exists_def path_join_def kStoreSuffix_def)

lemma demo_written:
  obtains report d' where "WriteStore No_fault demo_config demo_payload demo_disk = (Inr report, d')"
    and "sv_bytes report \<le> kMaxPersistenceBytes" and "sv_path report = ''/var/registry.fcrstore''"
proof -
  obtain body where b: "EncodePayload demo_payload = Inr body" "length body < 1000"
    using demo_payload_encoded by blast
  then have "WriteStore No_fault demo_config demo_payload demo_disk =
      (Inr \<lparr>sv_path = ''/var/registry.fcrstore'', sv_bytes = 68 + length body,
         sv_entity_records = length (sp_entities demo_payload),
         sv_evidence_records = evidence_records demo_payload,
         sv_retired_generations = retired_generations demo_payload,
         sv_fence_records = length (sp_fences demo_payload),
         sv_authority_grants = length (sp_authorities demo_payload),
         sv_payload_digest = ComputeDigest body,
         sv_file_digest = ComputeDigest (store_file demo_payload body)\<rparr>,
       snd (WriteStore No_fault demo_config demo_payload demo_disk))"
    by (simp add: WriteStore_def demo_path WriteFileAtomic_def Let_def)
  with b(2) show thesis by (intro that) (assumption | simp)+
qed

lemma store_roundtrip_witness:
  "\<exists>read d'. ReadStore demo_config d' = (Inr (read, demo_payload), d')
     \<and> lr_epoch read = 3 \<and> d' = snd (WriteStore No_fault demo_config demo_payload demo_disk)"
proof -
  obtain report d' where w: "WriteStore No_fault demo_config demo_payload demo_disk = (Inr report, d')"
    "sv_bytes report \<le> kMaxPersistenceBytes" "sv_path report = ''/var/registry.fcrstore''"
    by (rule demo_written)
  have "dk_readable demo_disk (sv_path report)" by (simp add: demo_disk_def)
  from store_roundtrip [OF demo_payload_ok w(1,2) this] w(1) show ?thesis
    by (auto simp: demo_payload_def)
qed

lemma store_write_is_atomic_witness:
  "\<exists>e d'. WriteStore Rename_fails demo_config demo_payload demo_disk = (Inl e, d')
     \<and> dk_files d' ''/var/registry.fcrstore'' = None
     \<and> dk_files d' (TemporaryPathFor ''/var/registry.fcrstore'' demo_config) = None"
proof -
  obtain body where b: "EncodePayload demo_payload = Inr body" "length body < 1000"
    using demo_payload_encoded by blast
  then obtain d' where w: "WriteStore Rename_fails demo_config demo_payload demo_disk
      = (Inl E_PersistenceIoFailure, d')"
    by (simp add: WriteStore_def demo_path WriteFileAtomic_def Let_def)
  from store_write_is_atomic [OF demo_path b(1) w] b(2) w show ?thesis
    by (auto simp: demo_disk_def)
qed

lemma demo_file:
  obtains body h where "ParseHeader (store_file demo_payload body) = Inr h"
    and "checked_payload h (store_file demo_payload body) = Inr demo_payload"
proof -
  obtain body where b: "EncodePayload demo_payload = Inr body" "length body < 1000"
    using demo_payload_encoded by blast
  have "checked_payload h (store_file demo_payload body) = Inr demo_payload"
    if "ParseHeader (store_file demo_payload body) = Inr h" for h
    using checked_payload_store_file [OF _ that] payload_read [OF demo_payload_ok b(1)] b(2) by simp
  then show thesis using that ParseHeader_store_file [of demo_payload body] by blast
qed

lemma store_damage_is_detected_witness:
  "\<exists>body h. ParseHeader (store_file demo_payload body) = Inr h
     \<and> ParseHeader (text_bytes kStoreMagic @ [2, 0, 0, 0] @ drop 12 (store_file demo_payload body))
         \<in> {Inl E_PersistenceFormatInvalid, Inl E_PersistenceIntegrityFailure}
     \<and> checked_payload h (store_file demo_payload body @ [0]) = Inl E_PersistenceCorrupt"
proof -
  obtain body h where f: "ParseHeader (store_file demo_payload body) = Inr h"
    "checked_payload h (store_file demo_payload body) = Inr demo_payload"
    by (rule demo_file)
  let ?bs = "store_file demo_payload body"
  have v: "put_u32 kFormatVersion = [1, 0, 0, 0]" by code_simp
  have split: "?bs = text_bytes kStoreMagic @ [1, 0, 0, 0] @ drop 12 ?bs"
    using v by (simp add: store_file_def Let_def kStoreMagic_def)
  have "length (text_bytes kStoreMagic) = 8" by (simp add: kStoreMagic_def)
  with store_damage_is_detected [OF f, of "text_bytes kStoreMagic" "[1, 0, 0, 0]" "drop 12 ?bs"
      "[2, 0, 0, 0]" "?bs @ [0]"] split f(1) show ?thesis by auto
qed

lemma accepted_store_is_well_formed_witness:
  "\<exists>d' p. fst (ReadStore demo_config d') \<noteq> Inl E_PersistenceIoFailure \<and> payload_ok p
     \<and> sp_epoch p = 3"
proof -
  obtain report d' where w: "WriteStore No_fault demo_config demo_payload demo_disk = (Inr report, d')"
    "sv_bytes report \<le> kMaxPersistenceBytes" "sv_path report = ''/var/registry.fcrstore''"
    by (rule demo_written)
  then obtain path d1 body where p: "StorePath demo_config demo_disk = (Inr path, d1)"
    "EncodePayload demo_payload = Inr body" "length body \<le> kMaxPersistenceBytes"
    "d' = d1\<lparr>dk_files := (dk_files d1)(TemporaryPathFor path demo_config := None,
           path \<mapsto> store_file demo_payload body)\<rparr>"
    by (metis WriteStore_cases)
  have "68 + length body \<le> kMaxPersistenceBytes"
    using demo_payload_encoded p(2) by auto
  then have r: "ReadStore demo_config d' = (Inr (read_report demo_payload body, demo_payload), d')"
    by (intro ReadStore_of_file [OF p(1) demo_payload_ok p(2) _ p(4)]) (simp_all add: demo_disk_def)
  have "\<not> lr_created_empty (read_report demo_payload body)"
    by (simp add: read_report_def report_new_def)
  from accepted_store_is_well_formed [OF r this] r show ?thesis
    by (intro exI [of _ d'] exI [of _ demo_payload]) (simp add: demo_payload_def)
qed

end
