(* ===== verification/Coordinator.thy ===== *)
theory Coordinator
  imports WireResult WireFrame StoreFile Query
begin

text \<open>
  The coordinator of \<open>src/src/distributed.cpp\<close>: the registry behind framed connections. One frame of
  one connection is handled as one step, with the registry, the store and the replies it produces.
  What the step cannot know is an argument: whether the socket takes the reply, where the file
  system fails, and the sentences of failures, results and explanations, which the registry model
  does not compose. Sockets, threads and locks are not modelled.
\<close>

section \<open>State\<close>

record coordinator_options =
  op_bind_address :: string
  op_max_connections :: nat
  op_persist_on_start :: bool
  op_persist_on_stop :: bool
  op_persist_on_mutation :: bool
  op_persistence :: persistence_config
  op_advance_epoch_on_start :: bool

record coordinator_stats =
  st_connections_accepted :: u64
  st_connections_rejected :: u64
  st_frames_received :: u64
  st_frames_rejected :: u64
  st_publications_committed :: u64
  st_publications_idempotent :: u64
  st_publications_rejected :: u64
  st_publishers_fenced :: u64
  st_duplicate_requests_replayed :: u64

definition stats_zero :: coordinator_stats where
  "stats_zero = \<lparr>st_connections_accepted = 0, st_connections_rejected = 0, st_frames_received = 0,
     st_frames_rejected = 0, st_publications_committed = 0, st_publications_idempotent = 0,
     st_publications_rejected = 0, st_publishers_fenced = 0, st_duplicate_requests_replayed = 0\<rparr>"

text \<open>The shared state of a connection, and the local variables of the thread that serves it.\<close>

record connection_state =
  cx_handshake_done :: bool
  cx_publisher :: token
  cx_scope :: token
  cx_source :: token
  cx_worker_boot :: token
  cx_replay_order :: "u64 list"
  cx_replay :: "(u64 \<times> bytes) list"

definition connection_new :: connection_state where
  "connection_new = \<lparr>cx_handshake_done = False, cx_publisher = [], cx_scope = [], cx_source = [],
     cx_worker_boot = [], cx_replay_order = [], cx_replay = []\<rparr>"

record worker =
  wk_handshake_done :: bool
  wk_boot :: token

definition worker_new :: worker where
  "worker_new = \<lparr>wk_handshake_done = False, wk_boot = []\<rparr>"

record coordinator =
  co_registry :: registry
  co_disk :: disk
  co_running :: bool
  co_stopping :: bool
  co_connections :: "(nat \<times> connection_state) list"
  co_workers :: "(nat \<times> worker) list"
  co_boot_scopes :: "(token \<times> token) list"
  co_stats :: coordinator_stats

definition coordinator_new :: "registry \<Rightarrow> disk \<Rightarrow> coordinator" where
  "coordinator_new g d = \<lparr>co_registry = g, co_disk = d, co_running = False, co_stopping = False,
     co_connections = [], co_workers = [], co_boot_scopes = [], co_stats = stats_zero\<rparr>"

definition Bump :: "(coordinator_stats \<Rightarrow> coordinator_stats) \<Rightarrow> coordinator \<Rightarrow> coordinator" where
  "Bump field co = co\<lparr>co_stats := field (co_stats co)\<rparr>"

abbreviation frames_rejected :: "coordinator_stats \<Rightarrow> coordinator_stats" where
  "frames_rejected s \<equiv> s\<lparr>st_frames_rejected := st_frames_rejected s + 1\<rparr>"

text \<open>What one step does not compute.\<close>

record serving =
  sg_sent :: bool
  sg_error_sent :: bool
  sg_fault :: write_fault
  sg_failure_text :: string
  sg_message :: string
  sg_detail :: "nat \<Rightarrow> string"
  sg_explanation :: explanation

section \<open>Replies\<close>

definition SendFrame :: "bool \<Rightarrow> wire_message_type \<Rightarrow> u64 \<Rightarrow> bytes \<Rightarrow> bytes outcome" where
  "SendFrame sent type request_id payload =
     obind (EncodeFrame type 0 request_id payload) (\<lambda>frame.
       if sent then Inr frame else Inl E_TransportFailure)"

text \<open>The loop of a worker goes on or is left; the frames are what it sent meanwhile.\<close>

datatype verdict = Go_on | Leave

definition reply ::
  "bool \<Rightarrow> wire_message_type \<Rightarrow> u64 \<Rightarrow> bytes outcome \<Rightarrow> coordinator
   \<Rightarrow> verdict \<times> bytes list \<times> coordinator" where
  "reply sent type request_id encoded co =
     (case obind encoded (SendFrame sent type request_id) of
        Inl _ \<Rightarrow> (Leave, [], co)
      | Inr frame \<Rightarrow> (Go_on, [frame], co))"

section \<open>Handshake\<close>

definition hello_ack :: "string \<Rightarrow> registry \<Rightarrow> hello_payload outcome \<Rightarrow> hello_ack_payload \<times> registry" where
  "hello_ack failure_text g payload =
     (case payload of
        Inl _ \<Rightarrow> (\<lparr>ha_accepted = False, ha_epoch = 0, ha_registry_generation = 0,
                   ha_message = failure_text\<rparr>, g)
      | Inr h \<Rightarrow>
          if Counter_IsSet (hl_epoch h) \<and> hl_epoch h \<noteq> CurrentEpoch g
          then (\<lparr>ha_accepted = False, ha_epoch = CurrentEpoch g, ha_registry_generation = 0,
                 ha_message = ''coordinator epoch is stale''\<rparr>, g)
          else (case RegisterPublisher g (hl_publisher h) (hl_scope h) (hl_worker_boot h) of
             (Inl _, g) \<Rightarrow> (\<lparr>ha_accepted = False, ha_epoch = CurrentEpoch g,
                ha_registry_generation = 0, ha_message = failure_text\<rparr>, g)
           | (Inr registered, g) \<Rightarrow> (\<lparr>ha_accepted = True, ha_epoch = pb_epoch registered,
                ha_registry_generation = pb_accepted_generation registered,
                ha_message = ''registered''\<rparr>, g)))"

definition hello_error_code :: "registry \<Rightarrow> hello_payload outcome \<Rightarrow> error_code" where
  "hello_error_code g payload =
     (case payload of
        Inl _ \<Rightarrow> E_FrameMalformed
      | Inr h \<Rightarrow>
          if IsWorkerBootFenced g (hl_worker_boot h) then E_WorkerBootFenced
          else if \<not> has_value (Authority g (hl_scope h)) then E_UnknownAuthorityScope
          else E_UnauthorizedPublisher)"

definition send_error :: "bool \<Rightarrow> u64 \<Rightarrow> error_payload \<Rightarrow> bytes list" where
  "send_error sent request_id e =
     (case obind (EncodeErrorPayload e) (SendFrame sent ErrorResponse request_id) of
        Inl _ \<Rightarrow> [] | Inr frame \<Rightarrow> [frame])"

text \<open>The identity of an accepted connection.\<close>

definition bind_identity :: "nat \<Rightarrow> hello_payload \<Rightarrow> coordinator \<Rightarrow> coordinator" where
  "bind_identity cid h co =
     co\<lparr>co_workers := AList.update cid \<lparr>wk_handshake_done = True, wk_boot = hl_worker_boot h\<rparr>
           (co_workers co),
        co_connections := (case map_of (co_connections co) cid of
            None \<Rightarrow> co_connections co
          | Some s \<Rightarrow> AList.update cid
              (s\<lparr>cx_handshake_done := True, cx_publisher := hl_publisher h, cx_scope := hl_scope h,
                 cx_source := hl_source h, cx_worker_boot := hl_worker_boot h\<rparr>) (co_connections co)),
        co_boot_scopes := AList.update (hl_worker_boot h) (hl_scope h) (co_boot_scopes co)\<rparr>"

definition handle_hello ::
  "serving \<Rightarrow> nat \<Rightarrow> wire_frame \<Rightarrow> coordinator \<Rightarrow> verdict \<times> bytes list \<times> coordinator" where
  "handle_hello sv cid f co =
     (let payload = DecodeHello (wf_payload f);
          (ack, g) = hello_ack (sg_failure_text sv) (co_registry co) payload
      in case reply (sg_sent sv) HelloAck (wf_request_id f) (EncodeHelloAck ack) (co\<lparr>co_registry := g\<rparr>) of
           (Leave, out, co) \<Rightarrow> (Leave, out, co)
         | (Go_on, out, co) \<Rightarrow>
             if \<not> ha_accepted ack
             then (Leave, out @ send_error (sg_error_sent sv) (wf_request_id f)
                     \<lparr>ep_code = hello_error_code (co_registry co) payload, ep_message = ha_message ack\<rparr>, co)
             else (Go_on, out, case payload of Inl _ \<Rightarrow> co | Inr h \<Rightarrow> bind_identity cid h co))"

section \<open>Publications\<close>

definition wire_diff_default :: wire_diff where
  "wire_diff_default = \<lparr>wd_entity = EntityId_unset, wd_before_entity_generation = 0,
     wd_after_entity_generation = 0, wd_before_set_generation = 0, wd_after_set_generation = 0,
     wd_before_digest = Digest_zero, wd_after_digest = Digest_zero, wd_entries = []\<rparr>"

definition wire_result_default :: wire_result where
  "wire_result_default = \<lparr>wr_status = Rejected, wr_code = E_Ok, wr_message = [], wr_publication = [],
     wr_attempt = [], wr_entity = EntityId_unset, wr_entity_generation = 0,
     wr_previous_set_generation = 0, wr_new_set_generation = 0, wr_registry_generation = 0,
     wr_claims_applied = 0, wr_claims_withdrawn = 0, wr_capabilities_added = 0,
     wr_capabilities_removed = 0, wr_capabilities_changed = 0, wr_diff = wire_diff_default,
     wr_explanation = \<lparr>xp_code = [], xp_summary = [], xp_steps = []\<rparr>, wr_set_digest = Digest_zero\<rparr>"

definition describe_entry :: "string \<Rightarrow> diff_entry \<Rightarrow> described_entry" where
  "describe_entry detail e = \<lparr>d_capability = d_capability e, d_kind = d_kind e,
     d_before_state = d_before_state e, d_after_state = d_after_state e,
     d_before_value = d_before_value e, d_after_value = d_after_value e,
     d_has_before_value = d_has_before_value e, d_has_after_value = d_has_after_value e,
     d_before_provenance = d_before_provenance e, d_after_provenance = d_after_provenance e,
     d_before_generation = d_before_generation e, d_after_generation = d_after_generation e,
     d_detail = detail\<rparr>"

definition describe_diff :: "(nat \<Rightarrow> string) \<Rightarrow> capability_diff \<Rightarrow> wire_diff" where
  "describe_diff detail d = \<lparr>wd_entity = df_entity d,
     wd_before_entity_generation = df_before_entity_generation d,
     wd_after_entity_generation = df_after_entity_generation d,
     wd_before_set_generation = df_before_set_generation d,
     wd_after_set_generation = df_after_set_generation d,
     wd_before_digest = df_before_digest d, wd_after_digest = df_after_digest d,
     wd_entries = map (\<lambda>(i, e). describe_entry (detail i) e) (enumerate 0 (df_entries d))\<rparr>"

text \<open>The result of the registry with its sentences.\<close>

definition describe_result :: "serving \<Rightarrow> publication_result \<Rightarrow> wire_result" where
  "describe_result sv r = \<lparr>wr_status = pr_status r, wr_code = pr_code r, wr_message = sg_message sv,
     wr_publication = pr_publication r, wr_attempt = pr_attempt r, wr_entity = pr_entity r,
     wr_entity_generation = pr_entity_generation r,
     wr_previous_set_generation = pr_previous_set_generation r,
     wr_new_set_generation = pr_new_set_generation r,
     wr_registry_generation = pr_registry_generation r,
     wr_claims_applied = word_of_nat (pr_claims_applied r),
     wr_claims_withdrawn = word_of_nat (pr_claims_withdrawn r),
     wr_capabilities_added = word_of_nat (pr_capabilities_added r),
     wr_capabilities_removed = word_of_nat (pr_capabilities_removed r),
     wr_capabilities_changed = word_of_nat (pr_capabilities_changed r),
     wr_diff = (case pr_diff r of None \<Rightarrow> wire_diff_default | Some d \<Rightarrow> describe_diff (sg_detail sv) d),
     wr_explanation = sg_explanation sv, wr_set_digest = pr_set_digest r\<rparr>"

definition same_identity :: "authority_context \<Rightarrow> connection_state \<Rightarrow> bool" where
  "same_identity a s \<longleftrightarrow> ac_publisher a = cx_publisher s \<and> ac_worker_boot a = cx_worker_boot s
     \<and> ac_scope a = cx_scope s \<and> ac_source a = cx_source s"

definition publish_payload ::
  "serving \<Rightarrow> connection_state \<Rightarrow> bytes \<Rightarrow> registry \<Rightarrow> wire_result \<times> registry" where
  "publish_payload sv s payload g =
     (case DecodePublicationRequest payload of
        Inl e \<Rightarrow> (wire_result_default\<lparr>wr_code := e, wr_message := sg_failure_text sv\<rparr>, g)
      | Inr publication \<Rightarrow>
          if \<not> same_identity (pq_authority publication) s
          then (wire_result_default\<lparr>wr_code := E_UnauthorizedPublisher, wr_message :=
             ''the publication identity does not match the registered connection identity''\<rparr>, g)
          else
            let publication = publication\<lparr>pq_epoch := CurrentEpoch g\<rparr>
            in case Publish g publication of
                 (Inr result, g) \<Rightarrow> (describe_result sv result, g)
               | (Inl e, g) \<Rightarrow>
                   (wire_result_default\<lparr>wr_code := e, wr_message := sg_failure_text sv,
                      wr_publication := pq_publication publication, wr_attempt := pq_attempt publication,
                      wr_entity := pq_entity publication,
                      wr_entity_generation := pq_entity_generation publication\<rparr>, g))"

fun bump_status :: "publication_status \<Rightarrow> coordinator_stats \<Rightarrow> coordinator_stats" where
  "bump_status Committed s = s\<lparr>st_publications_committed := st_publications_committed s + 1\<rparr>"
| "bump_status IdempotentReplay s =
     s\<lparr>st_publications_idempotent := st_publications_idempotent s + 1\<rparr>"
| "bump_status Rejected s = s\<lparr>st_publications_rejected := st_publications_rejected s + 1\<rparr>"

abbreviation (input) kMaxFrameRequestsInFlight :: nat where "kMaxFrameRequestsInFlight \<equiv> 64"

definition remember_response :: "u64 \<Rightarrow> bytes \<Rightarrow> connection_state \<Rightarrow> connection_state" where
  "remember_response request_id response s =
     (let s = (if length (cx_replay s) \<ge> kMaxFrameRequestsInFlight
               then s\<lparr>cx_replay_order := tl (cx_replay_order s),
                      cx_replay := AList.delete (hd (cx_replay_order s)) (cx_replay s)\<rparr>
               else s)
      in s\<lparr>cx_replay_order := cx_replay_order s @ [request_id],
           cx_replay := AList.update request_id response (cx_replay s)\<rparr>)"

definition put_connection :: "nat \<Rightarrow> connection_state \<Rightarrow> coordinator \<Rightarrow> coordinator" where
  "put_connection cid s co = co\<lparr>co_connections := AList.update cid s (co_connections co)\<rparr>"

text \<open>A failed save is counted and otherwise ignored.\<close>

definition persist_mutation :: "coordinator_options \<Rightarrow> serving \<Rightarrow> coordinator \<Rightarrow> coordinator" where
  "persist_mutation opts sv co =
     (if op_persist_on_mutation opts \<and> pc_directory (op_persistence opts) \<noteq> []
      then (case Save (sg_fault sv) (op_persistence opts) (co_registry co) (co_disk co) of
              (Inl _, d) \<Rightarrow> Bump frames_rejected (co\<lparr>co_disk := d\<rparr>)
            | (Inr _, d) \<Rightarrow> co\<lparr>co_disk := d\<rparr>)
      else co)"

definition handle_publish ::
  "coordinator_options \<Rightarrow> serving \<Rightarrow> nat \<Rightarrow> connection_state \<Rightarrow> wire_frame \<Rightarrow> coordinator
   \<Rightarrow> verdict \<times> bytes list \<times> coordinator" where
  "handle_publish opts sv cid s f co =
     (case map_of (cx_replay s) (wf_request_id f) of
        Some response \<Rightarrow>
          reply (sg_sent sv) PublishAck (wf_request_id f) (Inr response)
            (Bump (\<lambda>st. st\<lparr>st_duplicate_requests_replayed := st_duplicate_requests_replayed st + 1\<rparr>) co)
      | None \<Rightarrow>
          let (result, g) = publish_payload sv s (wf_payload f) (co_registry co);
              co = Bump (bump_status (wr_status result)) (co\<lparr>co_registry := g\<rparr>)
          in case EncodePublicationResult result of
               Inl _ \<Rightarrow> (Leave, [], co)
             | Inr response \<Rightarrow>
                 reply (sg_sent sv) PublishAck (wf_request_id f) (Inr response)
                   (persist_mutation opts sv
                     (put_connection cid (remember_response (wf_request_id f) response s) co)))"

section \<open>Status and fence requests\<close>

definition status_of :: "registry \<Rightarrow> bytes \<Rightarrow> status_payload" where
  "status_of g payload =
     (let status = \<lparr>su_entity = EntityId_unset, su_entity_generation = 0, su_set_generation = 0,
            su_registry_generation = Registry_Generation g, su_epoch = CurrentEpoch g\<rparr>
      in case DecodeStatus payload of
           Inl _ \<Rightarrow> status
         | Inr asked \<Rightarrow>
             if \<not> EntityId_IsSet (su_entity asked) then status
             else
               let status = status\<lparr>su_entity := su_entity asked\<rparr>
               in case EntityRecord g (su_entity asked) of
                    Inl _ \<Rightarrow> status
                  | Inr view \<Rightarrow>
                      let status = status\<lparr>su_entity_generation := vw_current_generation view\<rparr>
                      in if vw_has_current_set view
                         then status\<lparr>su_set_generation := s_set_generation (vw_current_set view)\<rparr>
                         else status)"

definition handle_status ::
  "serving \<Rightarrow> wire_frame \<Rightarrow> coordinator \<Rightarrow> verdict \<times> bytes list \<times> coordinator" where
  "handle_status sv f co =
     reply (sg_sent sv) StatusAck (wf_request_id f)
       (EncodeStatus (status_of (co_registry co) (wf_payload f))) co"

definition handle_fence ::
  "serving \<Rightarrow> connection_state \<Rightarrow> wire_frame \<Rightarrow> coordinator \<Rightarrow> verdict \<times> bytes list \<times> coordinator" where
  "handle_fence sv s f co =
     (let refuse = (\<lambda>code message co. reply (sg_sent sv) ErrorResponse (wf_request_id f)
            (EncodeErrorPayload \<lparr>ep_code = code, ep_message = message\<rparr>) co)
      in case DecodeFence (wf_payload f) of
           Inl e \<Rightarrow> refuse e (sg_failure_text sv) co
         | Inr fp \<Rightarrow>
             if map_of (co_boot_scopes co) (fp_worker_boot fp) \<noteq> Some (cx_scope s)
             then refuse E_UnauthorizedPublisher
                    ''the fence target is not registered inside this authority scope'' co
             else (case FenceWorkerBoot (co_registry co) (fp_worker_boot fp) (fp_reason fp) of
                (Inl e, g) \<Rightarrow> refuse e (sg_failure_text sv) (co\<lparr>co_registry := g\<rparr>)
              | (Inr _, g) \<Rightarrow>
                  reply (sg_sent sv) FenceAck (wf_request_id f) (Inr [])
                    (Bump (\<lambda>st. st\<lparr>st_publishers_fenced := st_publishers_fenced st + 1\<rparr>)
                      (co\<lparr>co_registry := g,
                          co_boot_scopes := AList.delete (fp_worker_boot fp) (co_boot_scopes co)\<rparr>))))"

section \<open>Serving a connection\<close>

definition handle_frame ::
  "coordinator_options \<Rightarrow> serving \<Rightarrow> nat \<Rightarrow> wire_frame \<Rightarrow> coordinator
   \<Rightarrow> verdict \<times> bytes list \<times> coordinator" where
  "handle_frame opts sv cid f co =
     (if wf_type f = Goodbye then (Leave, [], co)
      else if wf_type f = Hello then handle_hello sv cid f co
      else case map_of (co_connections co) cid of
        None \<Rightarrow> (Leave, [], co)
      | Some s \<Rightarrow>
          if \<not> (\<exists>w. map_of (co_workers co) cid = Some w \<and> wk_handshake_done w) \<or> \<not> cx_handshake_done s
          then (Leave, [], Bump frames_rejected co)
          else if wf_type f = Publish_message then handle_publish opts sv cid s f co
          else if wf_type f = Status then handle_status sv f co
          else if wf_type f = Fence then handle_fence sv s f co
          else reply (sg_sent sv) ErrorResponse (wf_request_id f)
                 (EncodeErrorPayload \<lparr>ep_code = E_FrameTypeUnknown,
                    ep_message = ''message type is not accepted in this connection state''\<rparr>)
                 (Bump frames_rejected co))"

text \<open>The end of a worker.\<close>

definition disconnect :: "nat \<Rightarrow> coordinator \<Rightarrow> coordinator" where
  "disconnect cid co =
     (let co = (case map_of (co_workers co) cid of
            None \<Rightarrow> co
          | Some w \<Rightarrow>
              if wk_handshake_done w \<and> IsSet (wk_boot w)
              then Bump (\<lambda>st. st\<lparr>st_publishers_fenced := st_publishers_fenced st + 1\<rparr>)
                (co\<lparr>co_registry := snd (FenceWorkerBoot (co_registry co) (wk_boot w)
                       (MakeReason ''connection-lost'')),
                    co_boot_scopes := AList.delete (wk_boot w) (co_boot_scopes co)\<rparr>)
              else co)
      in co\<lparr>co_connections := AList.delete cid (co_connections co),
            co_workers := AList.delete cid (co_workers co)\<rparr>)"

definition serve ::
  "coordinator_options \<Rightarrow> serving \<Rightarrow> nat \<Rightarrow> wire_frame outcome \<Rightarrow> coordinator \<Rightarrow> bytes list \<times> coordinator" where
  "serve opts sv cid received co =
     (case received of
        Inl _ \<Rightarrow> ([], disconnect cid (Bump frames_rejected co))
      | Inr f \<Rightarrow>
          (case handle_frame opts sv cid f
                  (Bump (\<lambda>st. st\<lparr>st_frames_received := st_frames_received st + 1\<rparr>) co) of
             (Go_on, out, co) \<Rightarrow> (out, co)
           | (Leave, out, co) \<Rightarrow> (out, disconnect cid co)))"

section \<open>Accepting, starting and stopping\<close>

definition accept_connection :: "coordinator_options \<Rightarrow> nat \<Rightarrow> coordinator \<Rightarrow> coordinator" where
  "accept_connection opts cid co =
     (if length (co_connections co) \<ge> op_max_connections opts
      then Bump (\<lambda>st. st\<lparr>st_connections_rejected := st_connections_rejected st + 1\<rparr>) co
      else Bump (\<lambda>st. st\<lparr>st_connections_accepted := st_connections_accepted st + 1\<rparr>)
             (co\<lparr>co_connections := AList.update cid connection_new (co_connections co),
                 co_workers := AList.update cid worker_new (co_workers co)\<rparr>))"

definition start_load :: "coordinator_options \<Rightarrow> coordinator \<Rightarrow> status \<times> coordinator" where
  "start_load opts co =
     (if op_persist_on_start opts \<and> pc_directory (op_persistence opts) \<noteq> []
      then (case Load (op_persistence opts) (co_registry co) (co_disk co) of
              (Inl e, g, d) \<Rightarrow> (Inl e, co\<lparr>co_registry := g, co_disk := d\<rparr>)
            | (Inr _, g, d) \<Rightarrow> (Inr (), co\<lparr>co_registry := g, co_disk := d\<rparr>))
      else (Inr (), co))"

definition start_epoch ::
  "coordinator_options \<Rightarrow> write_fault \<Rightarrow> coordinator \<Rightarrow> status \<times> coordinator" where
  "start_epoch opts fault co =
     (if op_advance_epoch_on_start opts
      then (case AdvanceCoordinatorEpoch (co_registry co) (MakeReason ''coordinator-start'') of
              (Inl e, g) \<Rightarrow> (Inl e, co\<lparr>co_registry := g\<rparr>)
            | (Inr _, g) \<Rightarrow>
                let co = co\<lparr>co_registry := g\<rparr>
                in if op_persist_on_start opts \<and> pc_directory (op_persistence opts) \<noteq> []
                   then (case Save fault (op_persistence opts) g (co_disk co) of
                           (Inl e, d) \<Rightarrow> (Inl e, co\<lparr>co_disk := d\<rparr>)
                         | (Inr _, d) \<Rightarrow> (Inr (), co\<lparr>co_disk := d\<rparr>))
                   else (Inr (), co))
      else (Inr (), co))"

text \<open>\<open>network\<close> and \<open>listener\<close> say whether the network subsystem and the listening socket come up.\<close>

definition Start ::
  "coordinator_options \<Rightarrow> bool \<Rightarrow> write_fault \<Rightarrow> status \<Rightarrow> coordinator \<Rightarrow> status \<times> coordinator" where
  "Start opts network fault listener co =
     (if co_running co then (Inl E_InvalidArgument, co)
      else if \<not> network then (Inl E_TransportUnavailable, co)
      else if op_max_connections opts = 0 \<or> op_max_connections opts > 4096 then (Inl E_InvalidArgument, co)
      else if op_bind_address opts = [] then (Inl E_InvalidArgument, co)
      else case start_load opts co of
        (Inl e, co) \<Rightarrow> (Inl e, co)
      | (Inr _, co) \<Rightarrow>
          (case start_epoch opts fault co of
             (Inl e, co) \<Rightarrow> (Inl e, co)
           | (Inr _, co) \<Rightarrow>
               (case listener of
                  Inl e \<Rightarrow> (Inl e, co)
                | Inr _ \<Rightarrow> (Inr (), co\<lparr>co_stopping := False, co_running := True\<rparr>))))"

definition Persist ::
  "coordinator_options \<Rightarrow> write_fault \<Rightarrow> coordinator \<Rightarrow> save_report outcome \<times> coordinator" where
  "Persist opts fault co =
     (case Save fault (op_persistence opts) (co_registry co) (co_disk co) of
        (result, d) \<Rightarrow> (result, co\<lparr>co_disk := d\<rparr>))"

definition stop_save :: "coordinator_options \<Rightarrow> write_fault \<Rightarrow> coordinator \<Rightarrow> coordinator" where
  "stop_save opts fault co =
     (if op_persist_on_stop opts \<and> pc_directory (op_persistence opts) \<noteq> []
      then snd (Persist opts fault co) else co)"

text \<open>The closed sockets end every worker before the last save.\<close>

definition Stop :: "coordinator_options \<Rightarrow> write_fault \<Rightarrow> coordinator \<Rightarrow> coordinator" where
  "Stop opts fault co =
     (if \<not> co_running co \<and> \<not> co_stopping co then stop_save opts fault co
      else if co_stopping co then co
      else
        let co = co\<lparr>co_stopping := True\<rparr>;
            co = foldl (\<lambda>co cid. disconnect cid (Bump frames_rejected co)) co
                   (map fst (co_connections co))
        in stop_save opts fault (co\<lparr>co_running := False\<rparr>))"

end
