(* ===== verification/CoordinatorSafety.thy ===== *)
theory CoordinatorSafety
  imports Coordinator Revocation
begin

text \<open>
  What the coordinator guarantees about the registry it serves: every step is a sequence of public
  registry operations, a connection acts under its own identity only, and losing it revokes the
  worker boot it spoke for.
\<close>

section \<open>What a frame may do to the registry\<close>

inductive frame_effect :: "coordinator \<Rightarrow> nat \<Rightarrow> wire_frame \<Rightarrow> registry \<Rightarrow> bool"
  for co cid f where
  effect_none: "frame_effect co cid f (co_registry co)"
| effect_hello: "wf_type f = Hello \<Longrightarrow> DecodeHello (wf_payload f) = Inr h \<Longrightarrow>
    frame_effect co cid f
      (snd (RegisterPublisher (co_registry co) (hl_publisher h) (hl_scope h) (hl_worker_boot h)))"
| effect_publish: "wf_type f = Publish_message \<Longrightarrow> map_of (co_connections co) cid = Some s \<Longrightarrow>
    cx_handshake_done s \<Longrightarrow> DecodePublicationRequest (wf_payload f) = Inr r \<Longrightarrow>
    same_identity (pq_authority r) s \<Longrightarrow>
    frame_effect co cid f
      (snd (Publish (co_registry co) (r\<lparr>pq_epoch := CurrentEpoch (co_registry co)\<rparr>)))"
| effect_fence: "wf_type f = Fence \<Longrightarrow> map_of (co_connections co) cid = Some s \<Longrightarrow>
    cx_handshake_done s \<Longrightarrow> DecodeFence (wf_payload f) = Inr fp \<Longrightarrow>
    map_of (co_boot_scopes co) (fp_worker_boot fp) = Some (cx_scope s) \<Longrightarrow>
    frame_effect co cid f
      (snd (FenceWorkerBoot (co_registry co) (fp_worker_boot fp) (fp_reason fp)))"

lemma reply_state [simp]: "snd (snd (reply sent type i encoded co)) = co"
  by (simp add: reply_def split: sum.split)

lemma Bump_fields [simp]:
  "co_registry (Bump upd co) = co_registry co" "co_disk (Bump upd co) = co_disk co"
  "co_connections (Bump upd co) = co_connections co" "co_workers (Bump upd co) = co_workers co"
  "co_boot_scopes (Bump upd co) = co_boot_scopes co" "co_running (Bump upd co) = co_running co"
  "co_stopping (Bump upd co) = co_stopping co"
  by (simp_all add: Bump_def)

lemma persist_mutation_fields [simp]:
  "co_registry (persist_mutation opts sv co) = co_registry co"
  "co_connections (persist_mutation opts sv co) = co_connections co"
  "co_workers (persist_mutation opts sv co) = co_workers co"
  "co_boot_scopes (persist_mutation opts sv co) = co_boot_scopes co"
  by (simp_all add: persist_mutation_def split: sum.split prod.split)

lemma put_connection_fields [simp]:
  "co_registry (put_connection cid s co) = co_registry co" "co_disk (put_connection cid s co) = co_disk co"
  "co_connections (put_connection cid s co) = AList.update cid s (co_connections co)"
  "co_workers (put_connection cid s co) = co_workers co"
  "co_boot_scopes (put_connection cid s co) = co_boot_scopes co"
  by (simp_all add: put_connection_def)

lemma bind_identity_fields [simp]:
  "co_registry (bind_identity cid h co) = co_registry co" "co_disk (bind_identity cid h co) = co_disk co"
  by (simp_all add: bind_identity_def)

lemma hello_ack_registry:
  "snd (hello_ack why g payload) = g \<or> (\<exists>h. payload = Inr h
     \<and> snd (hello_ack why g payload)
       = snd (RegisterPublisher g (hl_publisher h) (hl_scope h) (hl_worker_boot h)))"
  by (auto simp: hello_ack_def split: sum.split prod.split)

lemma hello_ack_accepted:
  "hello_ack why g (Inr h) = (ack, g') \<Longrightarrow> ha_accepted ack \<Longrightarrow> IsSet (hl_worker_boot h)
     \<and> g' = snd (RegisterPublisher g (hl_publisher h) (hl_scope h) (hl_worker_boot h))"
  by (auto simp: hello_ack_def RegisterPublisher_def Let_def split: if_splits option.splits)

lemma handle_hello_state:
  "snd (snd (handle_hello sv cid f co)) =
     (let (ack, g) = hello_ack (sg_failure_text sv) (co_registry co) (DecodeHello (wf_payload f));
          co = co\<lparr>co_registry := g\<rparr>
      in if fst (reply (sg_sent sv) HelloAck (wf_request_id f) (EncodeHelloAck ack) co) = Go_on
            \<and> ha_accepted ack
         then (case DecodeHello (wf_payload f) of Inl _ \<Rightarrow> co | Inr h \<Rightarrow> bind_identity cid h co)
         else co)"
  by (auto simp: handle_hello_def Let_def reply_def split: prod.split sum.split verdict.split)

lemma publish_payload_registry:
  "snd (publish_payload sv s payload g) = g \<or> (\<exists>r. DecodePublicationRequest payload = Inr r
     \<and> same_identity (pq_authority r) s
     \<and> snd (publish_payload sv s payload g) = snd (Publish g (r\<lparr>pq_epoch := CurrentEpoch g\<rparr>)))"
  by (auto simp: publish_payload_def Let_def split: sum.split prod.split)

lemma handle_publish_state:
  "snd (snd (handle_publish opts sv cid s f co)) =
     (case map_of (cx_replay s) (wf_request_id f) of
        Some _ \<Rightarrow> Bump (\<lambda>st. st\<lparr>st_duplicate_requests_replayed := st_duplicate_requests_replayed st + 1\<rparr>) co
      | None \<Rightarrow>
          let (result, g) = publish_payload sv s (wf_payload f) (co_registry co);
              co = Bump (bump_status (wr_status result)) (co\<lparr>co_registry := g\<rparr>)
          in (case EncodePublicationResult result of
               Inl _ \<Rightarrow> co
             | Inr response \<Rightarrow> persist_mutation opts sv
                  (put_connection cid (remember_response (wf_request_id f) response s) co)))"
  by (simp add: handle_publish_def Let_def split: option.split prod.split sum.split)

lemma handle_fence_state:
  "snd (snd (handle_fence sv s f co)) =
     (case DecodeFence (wf_payload f) of
        Inl _ \<Rightarrow> co
      | Inr fp \<Rightarrow>
          if map_of (co_boot_scopes co) (fp_worker_boot fp) \<noteq> Some (cx_scope s) then co
          else (case FenceWorkerBoot (co_registry co) (fp_worker_boot fp) (fp_reason fp) of
             (Inl _, g) \<Rightarrow> co\<lparr>co_registry := g\<rparr>
           | (Inr _, g) \<Rightarrow> Bump (\<lambda>st. st\<lparr>st_publishers_fenced := st_publishers_fenced st + 1\<rparr>)
               (co\<lparr>co_registry := g, co_boot_scopes := AList.delete (fp_worker_boot fp) (co_boot_scopes co)\<rparr>)))"
  by (simp add: handle_fence_def Let_def split: prod.split sum.split)

lemma handle_status_state [simp]: "snd (snd (handle_status sv f co)) = co"
  by (simp add: handle_status_def)

lemma handle_frame_effect: "frame_effect co cid f (co_registry (snd (snd (handle_frame opts sv cid f co))))"
proof -
  note none = effect_none [of co cid f]
  have hello: ?thesis if "wf_type f = Hello"
    using hello_ack_registry [of "sg_failure_text sv" "co_registry co" "DecodeHello (wf_payload f)"]
      effect_hello [OF that] none
    by (auto simp: handle_frame_def that handle_hello_state Let_def split: prod.split sum.split)
  have publish: ?thesis if "wf_type f = Publish_message"
  proof (cases "map_of (co_connections co) cid")
    case (Some s)
    from publish_payload_registry [of sv s "wf_payload f" "co_registry co"]
    show ?thesis
      using effect_publish [OF that Some] none
      by (auto simp: handle_frame_def that Some handle_publish_state Let_def split_beta
          split: option.split sum.split)
  qed (use none in \<open>simp add: handle_frame_def that\<close>)
  have fence: ?thesis if "wf_type f = Fence"
  proof (cases "map_of (co_connections co) cid")
    case (Some s)
    show ?thesis
      using effect_fence [OF that Some] none
      by (auto simp: handle_frame_def that Some handle_fence_state split: sum.split prod.split)
  qed (use none in \<open>simp add: handle_frame_def that\<close>)
  have ?thesis if "wf_type f \<notin> {Hello, Publish_message, Fence}"
    using that none by (auto simp: handle_frame_def split: option.split)
  with hello publish fence show ?thesis by blast
qed


section \<open>Connections\<close>

definition cache_ok :: "connection_state \<Rightarrow> bool" where
  "cache_ok s \<longleftrightarrow> length (cx_replay s) \<le> kMaxFrameRequestsInFlight
     \<and> map fst (cx_replay s) = cx_replay_order s \<and> distinct (cx_replay_order s)"

text \<open>The thread of a connection and the shared entry of the connection agree on the identity.\<close>

definition agree :: "worker option \<Rightarrow> connection_state option \<Rightarrow> bool" where
  "agree w s \<longleftrightarrow> (case (w, s) of
       (None, None) \<Rightarrow> True
     | (Some w, Some s) \<Rightarrow> wk_handshake_done w = cx_handshake_done s \<and> wk_boot w = cx_worker_boot s
     | _ \<Rightarrow> False)"

definition connections_ok :: "coordinator_options \<Rightarrow> coordinator \<Rightarrow> bool" where
  "connections_ok opts co \<longleftrightarrow> length (co_connections co) \<le> op_max_connections opts
     \<and> distinct (map fst (co_connections co))
     \<and> (\<forall>cid s. map_of (co_connections co) cid = Some s \<longrightarrow> cache_ok s)
     \<and> (\<forall>cid. agree (map_of (co_workers co) cid) (map_of (co_connections co) cid))
     \<and> (\<forall>cid w. map_of (co_workers co) cid = Some w \<and> wk_handshake_done w \<longrightarrow> IsSet (wk_boot w))"

lemma connections_ok_cong:
  "co_connections co' = co_connections co \<Longrightarrow> co_workers co' = co_workers co \<Longrightarrow>
     connections_ok opts co' = connections_ok opts co"
  by (simp add: connections_ok_def)

lemma length_delete: "length (AList.delete k al) \<le> length al"
  by (simp add: AList.delete_eq)

lemma length_update: "map_of al k = Some v \<Longrightarrow> length (AList.update k v' al) = length al"
  by (induction al) (auto split: if_splits)

lemma length_update_le: "length (AList.update k v al) \<le> Suc (length al)"
  by (induction al) auto

lemma agree_simps [simp]:
  "agree (Some w) (Some s) \<longleftrightarrow> wk_handshake_done w = cx_handshake_done s \<and> wk_boot w = cx_worker_boot s"
  "agree None None"
  by (auto simp: agree_def split: option.splits)

lemma put_connection_ok:
  assumes "connections_ok opts co" and "map_of (co_connections co) cid = Some s" and "cache_ok s'"
    and "cx_handshake_done s' = cx_handshake_done s" and "cx_worker_boot s' = cx_worker_boot s"
  shows "connections_ok opts (put_connection cid s' co)"
proof -
  have "agree (map_of (co_workers co) cid) (Some s)" using assms(1,2) by (metis connections_ok_def)
  then have "agree (map_of (co_workers co) cid) (Some s')"
    using assms(4,5) by (cases "map_of (co_workers co) cid") (auto simp: agree_def)
  with assms(1-3) show ?thesis
    by (auto simp: connections_ok_def length_update AList.distinct_update AList.update_conv')
qed

lemma cache_ok_insert:
  assumes "cache_ok s" and "i \<notin> set (cx_replay_order s)" and "length (cx_replay s) < kMaxFrameRequestsInFlight"
  shows "cache_ok (s\<lparr>cx_replay_order := cx_replay_order s @ [i],
    cx_replay := AList.update i response (cx_replay s)\<rparr>)"
proof -
  have keys: "map fst (cx_replay s) = cx_replay_order s" using assms(1) by (simp add: cache_ok_def)
  then have "map fst (AList.update i response (cx_replay s)) = cx_replay_order s @ [i]"
    using assms(2) by (simp add: AList.update_keys)
  moreover from arg_cong [OF this, of length] have
    "length (AList.update i response (cx_replay s)) = Suc (length (cx_replay s))"
    using arg_cong [OF keys, of length] by simp
  ultimately show ?thesis using assms by (simp add: cache_ok_def)
qed

lemma cache_ok_drop:
  assumes "cache_ok s" and "cx_replay s \<noteq> []"
  shows "cache_ok (s\<lparr>cx_replay_order := tl (cx_replay_order s),
      cx_replay := AList.delete (hd (cx_replay_order s)) (cx_replay s)\<rparr>)
    \<and> AList.delete (hd (cx_replay_order s)) (cx_replay s) = tl (cx_replay s)"
proof -
  from assms(2) obtain p ps where s: "cx_replay s = p # ps" by (cases "cx_replay s") auto
  have keys: "cx_replay_order s = map fst (cx_replay s)" and d: "distinct (map fst (cx_replay s))"
    and l: "length (cx_replay s) \<le> kMaxFrameRequestsInFlight"
    using assms(1) by (auto simp: cache_ok_def)
  have o: "cx_replay_order s = fst p # map fst ps" "fst p \<notin> set (map fst ps)"
    using keys d unfolding s by simp_all
  then have "AList.delete (fst p) (cx_replay s) = ps"
    using s by (simp add: AList.delete_eq filter_id_conv) force
  with o l d s show ?thesis by (simp add: cache_ok_def)
qed

lemma remember_response_ok:
  assumes "cache_ok s" and "map_of (cx_replay s) i = None"
  shows "cache_ok (remember_response i response s)"
proof -
  have i: "i \<notin> set (cx_replay_order s)"
    using assms by (metis cache_ok_def map_of_eq_None_iff set_map)
  show ?thesis
  proof (cases "length (cx_replay s) \<ge> kMaxFrameRequestsInFlight")
    case True
    then have "cx_replay s \<noteq> []" by auto
    note drop = cache_ok_drop [OF assms(1) this]
    have "length (tl (cx_replay s)) < kMaxFrameRequestsInFlight"
      using assms(1) True by (simp add: cache_ok_def)
    moreover have "i \<notin> set (tl (cx_replay_order s))" using i by (cases "cx_replay_order s") auto
    ultimately show ?thesis
      using cache_ok_insert [OF conjunct1 [OF drop], of i response] drop True
      by (simp add: remember_response_def Let_def)
  next
    case False
    with cache_ok_insert [OF assms(1) i] show ?thesis by (simp add: remember_response_def Let_def)
  qed
qed

lemma remember_response_identity [simp]:
  "cx_handshake_done (remember_response i response s) = cx_handshake_done s"
  "cx_publisher (remember_response i response s) = cx_publisher s"
  "cx_scope (remember_response i response s) = cx_scope s"
  "cx_source (remember_response i response s) = cx_source s"
  "cx_worker_boot (remember_response i response s) = cx_worker_boot s"
  by (simp_all add: remember_response_def Let_def)

lemma remember_response_lookup [simp]: "map_of (cx_replay (remember_response i response s)) i = Some response"
  by (simp add: remember_response_def Let_def AList.update_conv')

lemma bind_identity_ok:
  assumes ok: "connections_ok opts co" and w: "map_of (co_workers co) cid = Some w"
    and set: "IsSet (hl_worker_boot h)"
  shows "connections_ok opts (bind_identity cid h co)"
proof -
  have "agree (map_of (co_workers co) cid) (map_of (co_connections co) cid)"
    using ok by (simp add: connections_ok_def)
  with w obtain s where s: "map_of (co_connections co) cid = Some s"
    by (auto simp: agree_def split: option.splits)
  then have "cache_ok s" using ok by (simp add: connections_ok_def)
  then have "cache_ok (s\<lparr>cx_handshake_done := True, cx_publisher := hl_publisher h,
      cx_scope := hl_scope h, cx_source := hl_source h, cx_worker_boot := hl_worker_boot h\<rparr>)"
    by (simp add: cache_ok_def)
  with ok s set show ?thesis
    by (auto simp: connections_ok_def bind_identity_def length_update AList.distinct_update AList.update_conv')
qed

lemma disconnect_fields:
  "co_connections (disconnect cid co) = AList.delete cid (co_connections co)"
  "co_workers (disconnect cid co) = AList.delete cid (co_workers co)"
  "co_disk (disconnect cid co) = co_disk co"
  "co_registry (disconnect cid co) = (case map_of (co_workers co) cid of
     None \<Rightarrow> co_registry co
   | Some w \<Rightarrow> if wk_handshake_done w \<and> IsSet (wk_boot w)
       then snd (FenceWorkerBoot (co_registry co) (wk_boot w) (MakeReason ''connection-lost''))
       else co_registry co)"
  by (auto simp: disconnect_def Let_def split: option.split)

lemma disconnect_ok: "connections_ok opts co \<Longrightarrow> connections_ok opts (disconnect cid co)"
  using length_delete [of cid "co_connections co"]
  by (auto simp: connections_ok_def disconnect_fields AList.distinct_delete AList.delete_conv'
      intro: le_trans)

lemma handle_frame_connections_ok:
  assumes ok: "connections_ok opts co" and w: "map_of (co_workers co) cid = Some w"
  shows "connections_ok opts (snd (snd (handle_frame opts sv cid f co)))"
proof -
  have same: "connections_ok opts co'" if "co_connections co' = co_connections co"
      "co_workers co' = co_workers co" for co'
    using connections_ok_cong [OF that] ok by simp
  have hello: ?thesis if "wf_type f = Hello"
    using bind_identity_ok [of opts "co\<lparr>co_registry := g\<rparr>" cid w for g, OF same] w
    by (auto simp: handle_frame_def that handle_hello_state Let_def
        split: prod.split sum.split dest: hello_ack_accepted intro: same)
  have publish: ?thesis if "wf_type f = Publish_message"
  proof (cases "map_of (co_connections co) cid")
    case (Some s)
    have s: "cache_ok s" using ok Some by (simp add: connections_ok_def)
    have "connections_ok opts (persist_mutation opts sv (put_connection cid
        (remember_response i response s) (Bump upd (co\<lparr>co_registry := g\<rparr>))))"
      if "map_of (cx_replay s) i = None" for response upd g i
      using connections_ok_cong [of "persist_mutation opts sv x" x opts for x]
        put_connection_ok [OF same, of "Bump upd (co\<lparr>co_registry := g\<rparr>)"] Some
        remember_response_ok [OF s that]
      by simp
    then show ?thesis
      using same Some
      by (auto simp: handle_frame_def that handle_publish_state Let_def split_beta
          split: option.split sum.split)
  qed (use ok in \<open>simp add: handle_frame_def that\<close>)
  have fence: ?thesis if "wf_type f = Fence"
  proof (cases "map_of (co_connections co) cid")
    case (Some s)
    with same show ?thesis
      by (auto simp: handle_frame_def that handle_fence_state split: sum.split prod.split)
  qed (use ok in \<open>simp add: handle_frame_def that\<close>)
  have ?thesis if "wf_type f \<notin> {Hello, Publish_message, Fence}"
    using that same by (auto simp: handle_frame_def split: option.split)
  with hello publish fence show ?thesis by blast
qed

lemma serve_state:
  "snd (serve opts sv cid received co) =
     (case received of
        Inl _ \<Rightarrow> disconnect cid (Bump frames_rejected co)
      | Inr f \<Rightarrow>
          let co = Bump (\<lambda>st. st\<lparr>st_frames_received := st_frames_received st + 1\<rparr>) co;
              after = handle_frame opts sv cid f co
          in if fst after = Go_on then snd (snd after) else disconnect cid (snd (snd after)))"
  by (simp add: serve_def Let_def split: sum.split prod.split verdict.split)

lemma serve_ok:
  assumes ok: "connections_ok opts co" and w: "map_of (co_workers co) cid = Some w"
  shows "connections_ok opts (snd (serve opts sv cid received co))"
proof -
  have b: "connections_ok opts (Bump upd co)" for upd
    using connections_ok_cong [of "Bump upd co" co opts] ok by simp
  show ?thesis
    using handle_frame_connections_ok [OF b, of _ cid w] w b disconnect_ok
    by (auto simp: serve_state Let_def split: sum.split)
qed

section \<open>Runs of the coordinator\<close>

text \<open>
  One rule per activity: the accept loop admits a socket, a worker serves what it received, the
  owner persists, stops, or calls the registry it owns.
\<close>

inductive coordinator_step :: "coordinator_options \<Rightarrow> coordinator \<Rightarrow> coordinator \<Rightarrow> bool" for opts where
  step_accept: "map_of (co_connections co) cid = None \<Longrightarrow>
    coordinator_step opts co (accept_connection opts cid co)"
| step_serve: "map_of (co_workers co) cid = Some w \<Longrightarrow>
    coordinator_step opts co (snd (serve opts sv cid received co))"
| step_persist: "coordinator_step opts co (snd (Persist opts fault co))"
| step_stop: "coordinator_step opts co (Stop opts fault co)"
| step_owner: "registry_step (co_registry co) g \<Longrightarrow> coordinator_step opts co (co\<lparr>co_registry := g\<rparr>)"

inductive coordinated :: "coordinator_options \<Rightarrow> coordinator \<Rightarrow> bool" for opts where
  coordinated_start: "Start opts network fault listener (coordinator_new g d) = (Inr (), co) \<Longrightarrow>
    reachable (co_registry co) \<Longrightarrow> coordinated opts co"
| coordinated_step: "coordinated opts co \<Longrightarrow> coordinator_step opts co co' \<Longrightarrow> coordinated opts co'"

lemma Persist_fields [simp]:
  "co_registry (snd (Persist opts fault co)) = co_registry co"
  "co_connections (snd (Persist opts fault co)) = co_connections co"
  "co_workers (snd (Persist opts fault co)) = co_workers co"
  by (simp_all add: Persist_def split_beta)

lemma stop_save_fields [simp]:
  "co_registry (stop_save opts fault co) = co_registry co"
  "co_connections (stop_save opts fault co) = co_connections co"
  "co_workers (stop_save opts fault co) = co_workers co"
  by (simp_all add: stop_save_def)

lemma foldl_invariant: "P a \<Longrightarrow> (\<And>a x. P a \<Longrightarrow> P (f a x)) \<Longrightarrow> P (foldl f a xs)"
  by (induction xs arbitrary: a) auto

lemma Stop_ok: "connections_ok opts co \<Longrightarrow> connections_ok opts (Stop opts fault co)"
proof -
  assume ok: "connections_ok opts co"
  have same: "connections_ok opts x" if "connections_ok opts y"
      "co_connections x = co_connections y" "co_workers x = co_workers y" for x y
    using connections_ok_cong [OF that(2,3)] that(1) by simp
  have "connections_ok opts (foldl (\<lambda>co cid. disconnect cid (Bump frames_rejected co))
      (co\<lparr>co_stopping := True\<rparr>) (map fst (co_connections co)))"
    by (rule foldl_invariant) (auto intro!: disconnect_ok intro: same [OF ok] same)
  with ok show ?thesis by (auto simp: Stop_def Let_def intro: same)
qed

lemma accept_ok:
  assumes ok: "connections_ok opts co" and new: "map_of (co_connections co) cid = None"
  shows "connections_ok opts (accept_connection opts cid co)"
proof (cases "length (co_connections co) \<ge> op_max_connections opts")
  case True
  then show ?thesis
    using ok connections_ok_cong [of "accept_connection opts cid co" co opts]
    by (simp add: accept_connection_def)
next
  case False
  moreover have "length (AList.update cid connection_new (co_connections co)) \<le> op_max_connections opts"
    using length_update_le [of cid connection_new "co_connections co"] False by simp
  ultimately show ?thesis
    using ok by (auto simp: accept_connection_def connections_ok_def AList.distinct_update
        AList.update_conv' connection_new_def worker_new_def cache_ok_def)
qed

lemma Start_fields:
  assumes "Start opts network fault listener co = (Inr (), co')"
  shows "co_connections co' = co_connections co \<and> co_workers co' = co_workers co"
  using assms
  by (auto simp: Start_def start_load_def start_epoch_def Let_def split: if_splits sum.splits prod.splits)

lemma coordinated_connections: "coordinated opts co \<Longrightarrow> connections_ok opts co"
proof (induction rule: coordinated.induct)
  case (coordinated_start network fault listener g d co)
  then show ?case
    using Start_fields [OF coordinated_start(1)] by (simp add: connections_ok_def coordinator_new_def)
next
  case (coordinated_step co co')
  from coordinated_step.hyps(2) coordinated_step.IH show ?case
  proof cases
    case (step_persist fault)
    then show ?thesis
      using coordinated_step.IH connections_ok_cong [of "snd (Persist opts fault co)" co opts] by simp
  next
    case (step_owner g)
    then show ?thesis using coordinated_step.IH connections_ok_cong [of co' co opts] by simp
  qed (auto simp: accept_ok serve_ok Stop_ok)
qed

section \<open>The registry sees public operations only\<close>

lemma frame_effect_steps: "frame_effect co cid f g \<Longrightarrow> registry_step\<^sup>*\<^sup>* (co_registry co) g"
  by (induction rule: frame_effect.induct)
    (auto intro: registry_step.intros r_into_rtranclp)

lemma disconnect_steps: "registry_step\<^sup>*\<^sup>* (co_registry co) (co_registry (disconnect cid co))"
  by (auto simp: disconnect_fields split: option.split intro: registry_step.intros r_into_rtranclp)

lemma serve_steps: "registry_step\<^sup>*\<^sup>* (co_registry co) (co_registry (snd (serve opts sv cid received co)))"
proof (cases received)
  case (Inl e)
  then show ?thesis using disconnect_steps [of "Bump frames_rejected co" cid] by (simp add: serve_state)
next
  case (Inr f)
  let ?co = "Bump (\<lambda>st. st\<lparr>st_frames_received := st_frames_received st + 1\<rparr>) co"
  have "registry_step\<^sup>*\<^sup>* (co_registry co) (co_registry (snd (snd (handle_frame opts sv cid f ?co))))"
    using frame_effect_steps [OF handle_frame_effect, of ?co] by simp
  then show ?thesis
    using Inr disconnect_steps [of "snd (snd (handle_frame opts sv cid f ?co))" cid]
    by (auto simp: serve_state Let_def intro: rtranclp_trans)
qed

lemma Stop_steps: "registry_step\<^sup>*\<^sup>* (co_registry co) (co_registry (Stop opts fault co))"
proof -
  let ?P = "\<lambda>x. registry_step\<^sup>*\<^sup>* (co_registry co) (co_registry x)"
  have step: "?P (disconnect cid (Bump frames_rejected x))" if "?P x" for x cid
    using rtranclp_trans [OF that, of "co_registry (disconnect cid (Bump frames_rejected x))"]
      disconnect_steps [of "Bump frames_rejected x" cid] by simp
  have "?P (foldl (\<lambda>co cid. disconnect cid (Bump frames_rejected co))
      (co\<lparr>co_stopping := True\<rparr>) (map fst (co_connections co)))"
    by (rule foldl_invariant [where P = ?P]) (use step in auto)
  then show ?thesis by (simp add: Stop_def Let_def)
qed

lemma step_refines:
  assumes "coordinator_step opts co co'"
  shows "registry_step\<^sup>*\<^sup>* (co_registry co) (co_registry co')"
  using assms
proof cases
  case (step_accept cid)
  then show ?thesis by (simp add: accept_connection_def)
next
  case (step_owner g)
  then show ?thesis by auto
qed (auto simp: serve_steps Stop_steps)

lemma reachable_steps: "registry_step\<^sup>*\<^sup>* g g' \<Longrightarrow> reachable g \<Longrightarrow> reachable g'"
  by (induction rule: rtranclp_induct) (auto intro: reachable_step)

lemma coordinated_reachable: "coordinated opts co \<Longrightarrow> reachable (co_registry co)"
  by (induction rule: coordinated.induct) (auto dest: step_refines intro: reachable_steps)

section \<open>A lost connection\<close>

lemma FenceWorkerBoot_fences:
  assumes "IsSet boot" and "evict_fence g \<noteq> None"
  shows "boot \<in> g_fenced_boots (snd (FenceWorkerBoot g boot reason))"
  using assms
  by (auto simp: FenceWorkerBoot_def Let_def update_entities_def split_beta split: option.splits sum.splits)

lemma fenced_revoked:
  assumes "registry_ok g" and "boot \<in> g_fenced_boots g"
  shows "\<forall>ent\<in>set (g_entities g). \<forall>p\<in>set (es_capabilities ent). \<forall>e\<in>set (ce_evidence (snd p)).
      e_currentness e = Cur_Current \<and> e_durability e = ProcessBound \<longrightarrow> e_worker_boot e \<noteq> boot"
    and "ac_worker_boot (pq_authority r) = boot \<Longrightarrow>
      \<exists>res. fst (Publish g r) = Inr res \<and> pr_status res = Rejected"
proof -
  have "\<forall>ent\<in>set (g_entities g). \<forall>p\<in>set (es_capabilities ent). \<forall>e\<in>set (ce_evidence (snd p)).
      trusted (g_epoch g) (g_fenced_boots g) e"
    using assms(1) by (auto simp: registry_ok_def entity_ok_def entry_ok_def split_beta)
  with assms(2) show "\<forall>ent\<in>set (g_entities g). \<forall>p\<in>set (es_capabilities ent). \<forall>e\<in>set (ce_evidence (snd p)).
      e_currentness e = Cur_Current \<and> e_durability e = ProcessBound \<longrightarrow> e_worker_boot e \<noteq> boot"
    by (auto simp: trusted_def)
  show "\<exists>res. fst (Publish g r) = Inr res \<and> pr_status res = Rejected"
    if "ac_worker_boot (pq_authority r) = boot"
    by (rule Publish_invalid) (use that assms(2) in \<open>auto simp: validate_request_Inr publisher_check_Inr\<close>)
qed

lemma lost_connection:
  assumes "received = Inl e \<or> (\<exists>f. received = Inr f \<and> wf_type f = Goodbye)"
  shows "\<exists>upd. snd (serve opts sv cid received co) = disconnect cid (Bump upd co)"
  using assms by (auto simp: serve_state handle_frame_def Let_def)

section \<open>A sample connection\<close>

definition demo_options :: coordinator_options where
  "demo_options = \<lparr>op_bind_address = ''127.0.0.1'', op_max_connections = 16,
     op_persist_on_start = False, op_persist_on_stop = True, op_persist_on_mutation = True,
     op_persistence = demo_config, op_advance_epoch_on_start = False\<rparr>"

definition demo_serving :: serving where
  "demo_serving = \<lparr>sg_sent = True, sg_error_sent = True, sg_fault = No_fault, sg_failure_text = [],
     sg_message = ''done'', sg_detail = (\<lambda>_. []), sg_explanation = \<lparr>xp_code = [], xp_summary = [], xp_steps = []\<rparr>\<rparr>"

definition demo_hello :: hello_payload where
  "demo_hello = \<lparr>hl_publisher = ''agent'', hl_scope = ''scope'', hl_source = ''src'',
     hl_worker_boot = ''abcdef01'', hl_epoch = 1, hl_namespaces = []\<rparr>"

definition frame_of :: "wire_message_type \<Rightarrow> bytes outcome \<Rightarrow> wire_frame" where
  "frame_of type payload = \<lparr>wf_version = 1, wf_type = type, wf_flags = 0, wf_request_id = 7,
     wf_payload = (case payload of Inl _ \<Rightarrow> [] | Inr b \<Rightarrow> b)\<rparr>"

definition demo_coordinator :: coordinator where
  "demo_coordinator = accept_connection demo_options 3
     ((coordinator_new demo_registered demo_disk)\<lparr>co_running := True\<rparr>)"

definition demo_connected :: coordinator where
  "demo_connected = snd (serve demo_options demo_serving 3
     (Inr (frame_of Hello (EncodeHello demo_hello))) demo_coordinator)"

definition demo_connection :: connection_state where
  "demo_connection = \<lparr>cx_handshake_done = True, cx_publisher = ''agent'', cx_scope = ''scope'',
     cx_source = ''src'', cx_worker_boot = ''abcdef01'', cx_replay_order = [], cx_replay = []\<rparr>"

lemma demo_coordinator_fields:
  "co_registry demo_coordinator = demo_registered" "co_disk demo_coordinator = demo_disk"
  "co_connections demo_coordinator = [(3, connection_new)]" "co_workers demo_coordinator = [(3, worker_new)]"
  "co_boot_scopes demo_coordinator = []"
  by (simp_all add: demo_coordinator_def accept_connection_def demo_options_def coordinator_new_def)

lemma demo_coordinated: "coordinated demo_options demo_coordinator"
proof -
  have "coordinated demo_options ((coordinator_new demo_registered demo_disk)\<lparr>co_running := True\<rparr>)"
    by (rule coordinated_start [where network = True and listener = "Inr ()"])
      (simp_all add: Start_def demo_options_def start_load_def start_epoch_def coordinator_new_def demo_reachable)
  then show ?thesis
    unfolding demo_coordinator_def
    by (rule coordinated_step) (rule step_accept, simp add: coordinator_new_def)
qed

lemma demo_hello_decoded: "DecodeHello (wf_payload (frame_of Hello (EncodeHello demo_hello))) = Inr demo_hello"
proof -
  have "hello_ok demo_hello" using sample_tokens by (simp add: hello_ok_def demo_hello_def)
  from hello.payload_reads_back [OF this] show ?thesis
    by (auto simp: DecodeHello_def frame_of_def)
qed

lemma demo_registered_again:
  "RegisterPublisher demo_registered ''agent'' ''scope'' ''abcdef01'' =
     (Inr \<lparr>pb_publisher = ''agent'', pb_scope = ''scope'', pb_worker_boot = ''abcdef01'',
        pb_epoch = 1, pb_accepted_generation = 0\<rparr>, demo_registered)"
  by (simp add: RegisterPublisher_def demo_registered_eq Registry_new_def Let_def IsSet_def
      FindAuthority_def authority_position_def demo_grant_def options_default_def Counter_IsSet_def)

lemma demo_acknowledged:
  "hello_ack why demo_registered (Inr demo_hello) = (\<lparr>ha_accepted = True, ha_epoch = 1,
     ha_registry_generation = 0, ha_message = ''registered''\<rparr>, demo_registered)"
proof -
  have "CurrentEpoch demo_registered = 1"
    by (simp add: CurrentEpoch_def demo_registered_eq Registry_new_def Let_def options_default_def Counter_IsSet_def)
  then show ?thesis
    using demo_registered_again by (simp add: hello_ack_def demo_hello_def Counter_IsSet_def)
qed

lemma reply_sent:
  "obind encoded (EncodeFrame type 0 i) = Inr frame \<Longrightarrow> reply True type i encoded co = (Go_on, [frame], co)"
  by (auto simp: reply_def SendFrame_def obind_Inr_iff)

lemma small_frame:
  "length payload \<le> kMaxFrameBytes \<Longrightarrow> \<exists>frame. EncodeFrame type flags i payload = Inr frame"
  by (simp add: EncodeFrame_iff Let_def)

lemma hello_ack_frame:
  "\<exists>frame. obind (EncodeHelloAck \<lparr>ha_accepted = True, ha_epoch = 1, ha_registry_generation = 0,
     ha_message = ''registered''\<rparr>) (EncodeFrame HelloAck 0 i) = Inr frame"
  by (simp add: EncodeHelloAck_def put_text_def CheckedU32_def small_frame put_u64_def put_u32_def put_bool_def put_u8_def)

lemma demo_connected_eq:
  "co_registry demo_connected = demo_registered" "co_disk demo_connected = demo_disk"
  "co_connections demo_connected = [(3, demo_connection)]"
  "co_workers demo_connected = [(3, \<lparr>wk_handshake_done = True, wk_boot = ''abcdef01''\<rparr>)]"
  "co_boot_scopes demo_connected = [(''abcdef01'', ''scope'')]"
proof -
  obtain frame where "obind (EncodeHelloAck \<lparr>ha_accepted = True, ha_epoch = 1,
      ha_registry_generation = 0, ha_message = ''registered''\<rparr>) (EncodeFrame HelloAck 0 7) = Inr frame"
    using hello_ack_frame by blast
  note sent = reply_sent [OF this]
  have "sg_sent demo_serving" by (simp add: demo_serving_def)
  then have con: "demo_connected = bind_identity 3 demo_hello
     (Bump (\<lambda>st. st\<lparr>st_frames_received := st_frames_received st + 1\<rparr>) demo_coordinator
       \<lparr>co_registry := demo_registered\<rparr>)"
    using sent demo_hello_decoded demo_acknowledged
    by (simp add: demo_connected_def serve_state handle_frame_def handle_hello_def
        demo_coordinator_fields(1) Let_def frame_of_def)
  show "co_registry demo_connected = demo_registered" "co_disk demo_connected = demo_disk"
    "co_connections demo_connected = [(3, demo_connection)]"
    "co_workers demo_connected = [(3, \<lparr>wk_handshake_done = True, wk_boot = ''abcdef01''\<rparr>)]"
    "co_boot_scopes demo_connected = [(''abcdef01'', ''scope'')]"
    unfolding con
    by (simp_all add: bind_identity_def demo_coordinator_fields demo_hello_def demo_connection_def connection_new_def)
qed

lemma demo_connected_coordinated: "coordinated demo_options demo_connected"
  unfolding demo_connected_def
  by (rule coordinated_step [OF demo_coordinated step_serve]) (simp add: demo_coordinator_fields)

section \<open>Properties\<close>

text \<open>C23. The coordinator refines the registry. Whatever a running coordinator does, from admitting a
  socket to stopping, the registry it serves goes through public registry operations only, so it
  stays reachable and keeps every guarantee of a local registry; and the connections and the
  responses remembered for each of them stay within their bounds.\<close>

theorem coordinator_refines_registry:
  assumes "coordinated opts co" and "coordinator_step opts co co'"
  shows "registry_step\<^sup>*\<^sup>* (co_registry co) (co_registry co') \<and> reachable (co_registry co')
    \<and> length (co_connections co') \<le> op_max_connections opts
    \<and> (\<forall>cid s. map_of (co_connections co') cid = Some s \<longrightarrow>
         length (cx_replay s) \<le> 64 \<and> map fst (cx_replay s) = cx_replay_order s)"
proof -
  have co': "coordinated opts co'" using assms by (rule coordinated_step)
  show ?thesis
    using step_refines [OF assms(2)] coordinated_reachable [OF co'] coordinated_connections [OF co']
    by (auto simp: connections_ok_def cache_ok_def)
qed

lemma coordinator_refines_registry_witness:
  "reachable (co_registry demo_connected) \<and> length (co_connections demo_connected) = 1"
proof -
  have "coordinator_step demo_options demo_coordinator demo_connected"
    unfolding demo_connected_def by (rule step_serve) (simp add: demo_coordinator_fields)
  from coordinator_refines_registry [OF demo_coordinated this] show ?thesis
    by (simp add: demo_connected_eq)
qed

text \<open>C25. A connection acts under its own identity only. Handling a frame leaves the registry as it is, or
  registers the identity that a hello names, or publishes under exactly the identity its connection
  registered, at the current epoch, or fences a worker boot registered in the connection's own
  scope. Before the handshake any frame but a hello ends the connection, is not answered, and
  changes neither registry nor store.\<close>

theorem frame_acts_as_its_connection:
  "frame_effect co cid f (co_registry (snd (snd (handle_frame opts sv cid f co))))
    \<and> (wf_type f \<noteq> Hello \<and> (\<forall>s. map_of (co_connections co) cid = Some s \<longrightarrow> \<not> cx_handshake_done s) \<longrightarrow>
         fst (handle_frame opts sv cid f co) = Leave \<and> fst (snd (handle_frame opts sv cid f co)) = []
         \<and> co_registry (snd (snd (handle_frame opts sv cid f co))) = co_registry co
         \<and> co_disk (snd (snd (handle_frame opts sv cid f co))) = co_disk co)"
  using handle_frame_effect by (auto simp: handle_frame_def split: option.split)

lemma frame_acts_as_its_connection_witness:
  "fst (handle_frame demo_options demo_serving 3
     (frame_of Publish_message (EncodePublicationRequest demo_request)) demo_coordinator) = Leave"
  using frame_acts_as_its_connection [of demo_coordinator 3
      "frame_of Publish_message (EncodePublicationRequest demo_request)" demo_options demo_serving]
  by (simp add: demo_coordinator_fields connection_new_def frame_of_def)

text \<open>C24. A lost connection revokes the worker. When the connection of a registered worker breaks, or
  says goodbye, its worker boot is fenced in the step that ends the connection: no process-bound
  evidence of the boot is current any more and every publication under it is rejected. The fence
  list must have room, or hold a boot without current evidence; otherwise the fence is refused,
  and the refusal ignored.\<close>

theorem lost_connection_revokes:
  assumes "coordinated opts co" and w: "map_of (co_workers co) cid = Some w" "wk_handshake_done w"
    and "received = Inl e \<or> (\<exists>f. received = Inr f \<and> wf_type f = Goodbye)"
    and "evict_fence (co_registry co) \<noteq> None"
    and co': "co' = snd (serve opts sv cid received co)"
  shows "IsWorkerBootFenced (co_registry co') (wk_boot w) \<and> map_of (co_connections co') cid = None
    \<and> (\<forall>ent\<in>set (g_entities (co_registry co')). \<forall>p\<in>set (es_capabilities ent).
         \<forall>e\<in>set (ce_evidence (snd p)).
           e_currentness e = Cur_Current \<and> e_durability e = ProcessBound \<longrightarrow> e_worker_boot e \<noteq> wk_boot w)
    \<and> (\<forall>r. ac_worker_boot (pq_authority r) = wk_boot w \<longrightarrow>
         (\<exists>res. fst (Publish (co_registry co') r) = Inr res \<and> pr_status res = Rejected))"
proof -
  have set: "IsSet (wk_boot w)"
    using coordinated_connections [OF assms(1)] w by (simp add: connections_ok_def)
  from lost_connection [OF assms(4)] obtain upd where "co' = disconnect cid (Bump upd co)"
    using co' by blast
  then have reg: "co_registry co' = snd (FenceWorkerBoot (co_registry co) (wk_boot w)
      (MakeReason ''connection-lost''))" and con: "map_of (co_connections co') cid = None"
    using w set by (simp_all add: disconnect_fields AList.delete_conv')
  have fenced: "wk_boot w \<in> g_fenced_boots (co_registry co')"
    unfolding reg by (rule FenceWorkerBoot_fences [OF set assms(5)])
  have "coordinated opts co'"
    unfolding co' by (rule coordinated_step [OF assms(1) step_serve [OF w(1)]])
  from fenced_revoked [OF reachable_ok [OF coordinated_reachable [OF this]] fenced] fenced con
  show ?thesis by (simp add: IsWorkerBootFenced_def)
qed

lemma lost_connection_revokes_witness:
  "IsWorkerBootFenced (co_registry (snd (serve demo_options demo_serving 3 (Inl E_TransportClosed)
     demo_connected))) ''abcdef01''"
proof -
  have "evict_fence demo_registered \<noteq> None"
    by (simp add: evict_fence_def demo_registered_eq Registry_new_def Let_def options_default_def)
  then show ?thesis
    using lost_connection_revokes [OF demo_connected_coordinated,
        of 3 "\<lparr>wk_handshake_done = True, wk_boot = ''abcdef01''\<rparr>" "Inl E_TransportClosed"
          E_TransportClosed _ demo_serving, OF _ _ _ _ refl]
    by (simp add: demo_connected_eq)
qed

lemma fault_unread:
  "handle_hello (sv\<lparr>sg_fault := fault\<rparr>) cid f co = handle_hello sv cid f co"
  "publish_payload (sv\<lparr>sg_fault := fault\<rparr>) s payload g = publish_payload sv s payload g"
  "handle_status (sv\<lparr>sg_fault := fault\<rparr>) f co = handle_status sv f co"
  "handle_fence (sv\<lparr>sg_fault := fault\<rparr>) s f co = handle_fence sv s f co"
  by (simp_all add: handle_hello_def publish_payload_def describe_result_def handle_status_def
      handle_fence_def Let_def split: sum.split prod.split option.split verdict.split)

lemma reply_frames:
  "fst (reply sent type i encoded co) = fst (reply sent type i encoded co')"
  "fst (snd (reply sent type i encoded co)) = fst (snd (reply sent type i encoded co'))"
  by (simp_all add: reply_def split: sum.split)

lemma handle_publish_fault:
  "fst (handle_publish opts (sv\<lparr>sg_fault := fault\<rparr>) cid s f co) = fst (handle_publish opts sv cid s f co)
   \<and> fst (snd (handle_publish opts (sv\<lparr>sg_fault := fault\<rparr>) cid s f co)) = fst (snd (handle_publish opts sv cid s f co))
   \<and> co_registry (snd (snd (handle_publish opts (sv\<lparr>sg_fault := fault\<rparr>) cid s f co)))
       = co_registry (snd (snd (handle_publish opts sv cid s f co)))"
  unfolding handle_publish_def fault_unread
  by (auto simp: Let_def split_beta intro: reply_frames split: option.split sum.split)

lemma disk_kept:
  "co_disk (snd (snd (handle_hello sv cid f co))) = co_disk co"
  "co_disk (snd (snd (handle_fence sv s f co))) = co_disk co"
  by (auto simp: handle_hello_state handle_fence_state Let_def split: prod.split sum.split)

text \<open>An acknowledgement says nothing about the disk. The frames a connection gets, and the state of
  the registry, are the same wherever the save that precedes the acknowledgement of a publication
  fails; and nothing but a publication is saved, so a fence is acknowledged with no save at all.\<close>

theorem acknowledged_without_save:
  "fst (handle_frame opts (sv\<lparr>sg_fault := fault\<rparr>) cid f co) = fst (handle_frame opts sv cid f co)
    \<and> fst (snd (handle_frame opts (sv\<lparr>sg_fault := fault\<rparr>) cid f co)) = fst (snd (handle_frame opts sv cid f co))
    \<and> co_registry (snd (snd (handle_frame opts (sv\<lparr>sg_fault := fault\<rparr>) cid f co)))
        = co_registry (snd (snd (handle_frame opts sv cid f co)))
    \<and> (wf_type f \<noteq> Publish_message \<longrightarrow> co_disk (snd (snd (handle_frame opts sv cid f co))) = co_disk co)"
  using handle_publish_fault disk_kept
  by (cases "map_of (co_connections co) cid") (auto simp: handle_frame_def fault_unread)

lemma acknowledged_without_save_witness:
  "fst (snd (handle_frame demo_options (demo_serving\<lparr>sg_fault := Rename_fails\<rparr>) 3
       (frame_of Fence (Inr [])) demo_connected))
     = fst (snd (handle_frame demo_options demo_serving 3 (frame_of Fence (Inr [])) demo_connected))
   \<and> co_disk (snd (snd (handle_frame demo_options demo_serving 3 (frame_of Fence (Inr [])) demo_connected)))
     = demo_disk"
  using acknowledged_without_save [where opts = demo_options and sv = demo_serving
      and fault = Rename_fails and cid = 3 and f = "frame_of Fence (Inr [])" and co = demo_connected]
  by (simp add: frame_of_def demo_connected_eq)

lemma FenceWorkerBoot_others:
  assumes "b \<noteq> boot"
  shows "b \<in> g_fenced_boots (snd (FenceWorkerBoot g boot reason)) \<Longrightarrow> b \<in> g_fenced_boots g"
    and "map_of (g_publishers (snd (FenceWorkerBoot g boot reason))) (p, b) = map_of (g_publishers g) (p, b)"
  using assms
  by (auto simp: FenceWorkerBoot_def Let_def update_entities_def split_beta AList.delete_conv'
      dest: evict_fence_frame split: option.splits sum.splits if_splits)

lemma message_bytes:
  "message_ok t \<Longrightarrow> \<exists>b. put_text t (kMaxTextLength * 4) = Inr b \<and> length b \<le> 20000"
  by (auto simp: message_ok_def text_ok_def put_text_def CheckedU32_def put_u32_def)

lemma error_sent:
  assumes "message_ok (ep_message e)"
  shows "\<exists>b frame. EncodeErrorPayload e = Inr b \<and> EncodeFrame ErrorResponse 0 i b = Inr frame
    \<and> DecodeErrorPayload b = Inr e"
proof -
  from error_frame.payload_reads_back [OF assms] obtain b where
    b: "EncodeErrorPayload e = Inr b" "DecodeErrorPayload b = Inr e"
    by (auto simp: DecodeErrorPayload_def)
  moreover have "length b \<le> kMaxFrameBytes"
    using b(1) message_bytes [OF assms] 
    by (auto simp: EncodeErrorPayload_def WriteErrorCode_def obind_Inr_iff put_u16_def
        split: if_splits)
  ultimately show ?thesis using small_frame by blast
qed

lemma hello_ack_sent:
  assumes "message_ok (ha_message a)"
  shows "\<exists>b frame. EncodeHelloAck a = Inr b \<and> EncodeFrame HelloAck 0 i b = Inr frame
    \<and> DecodeHelloAck b = Inr a"
proof -
  from hello_ack.payload_reads_back [OF assms] obtain b where
    b: "EncodeHelloAck a = Inr b" "DecodeHelloAck b = Inr a"
    by (auto simp: DecodeHelloAck_def)
  moreover have "length b \<le> kMaxFrameBytes"
    using b(1) message_bytes [OF assms] 
    by (auto simp: EncodeHelloAck_def obind_Inr_iff put_u64_def put_bool_def put_u8_def)
  ultimately show ?thesis using small_frame by blast
qed

lemma hello_accepted:
  assumes h: "handle_frame opts sv cid f co = (Go_on, out, co')" "wf_type f = Hello"
      "DecodeHello (wf_payload f) = Inr h"
  shows "co' = bind_identity cid h (co\<lparr>co_registry := snd (RegisterPublisher (co_registry co)
      (hl_publisher h) (hl_scope h) (hl_worker_boot h))\<rparr>) \<and> IsSet (hl_worker_boot h)"
  using h
  by (auto simp: handle_frame_def handle_hello_def reply_def Let_def
      dest!: hello_ack_accepted split: prod.splits sum.splits if_splits)

lemma RegisterPublisher_others:
  assumes "b \<noteq> boot"
  shows "map_of (g_publishers (snd (RegisterPublisher g publisher scope boot))) (p, b)
      = map_of (g_publishers g) (p, b)"
    and "g_fenced_boots (snd (RegisterPublisher g publisher scope boot)) = g_fenced_boots g"
  using assms by (auto simp: RegisterPublisher_def Let_def AList.update_conv' split: option.split)

text \<open>C29. A second hello abandons the first worker boot. A connection that was accepted for one worker
  boot and then for another is bound to the second only: when it is lost, the first boot is not
  fenced, unless it was before, its registration stays in force, and it stays on the list of
  boots that others of its scope may fence.\<close>

theorem second_hello_abandons_boot:
  assumes "coordinated opts co" and w: "map_of (co_workers co) cid = Some w"
    and h: "handle_frame opts sv cid f co = (Go_on, out, co1)" "wf_type f = Hello"
      "DecodeHello (wf_payload f) = Inr h" "wk_boot w \<noteq> hl_worker_boot h"
    and co2: "co2 = disconnect cid co1"
  shows "hl_worker_boot h = wk_boot (the (map_of (co_workers co1) cid))
    \<and> map_of (co_connections co2) cid = None
    \<and> (wk_boot w \<in> g_fenced_boots (co_registry co2) \<longrightarrow> wk_boot w \<in> g_fenced_boots (co_registry co))
    \<and> map_of (g_publishers (co_registry co2)) (p, wk_boot w) = map_of (g_publishers (co_registry co)) (p, wk_boot w)
    \<and> map_of (co_boot_scopes co2) (wk_boot w) = map_of (co_boot_scopes co) (wk_boot w)"
proof -
  note co1 = hello_accepted [OF h(1-3)]
  have w1: "map_of (co_workers co1) cid = Some \<lparr>wk_handshake_done = True, wk_boot = hl_worker_boot h\<rparr>"
    using co1 by (simp add: bind_identity_def AList.update_conv')
  have scopes: "map_of (co_boot_scopes co1) (wk_boot w) = map_of (co_boot_scopes co) (wk_boot w)"
    using co1 h(4) by (simp add: bind_identity_def AList.update_conv')
  have reg: "co_registry co2 = snd (FenceWorkerBoot (co_registry co1) (hl_worker_boot h)
      (MakeReason ''connection-lost''))"
    using w1 co1 by (simp add: co2 disconnect_fields)
  have "co_boot_scopes co2 = AList.delete (hl_worker_boot h) (co_boot_scopes co1)"
    using w1 co1 by (simp add: co2 disconnect_def Let_def)
  then have "map_of (co_boot_scopes co2) (wk_boot w) = map_of (co_boot_scopes co) (wk_boot w)"
    using scopes h(4) by (simp add: AList.delete_conv')
  then show ?thesis
    using FenceWorkerBoot_others [OF h(4), of "co_registry co1"] RegisterPublisher_others [OF h(4)] co1 w1
    by (auto simp: reg co2 disconnect_fields AList.delete_conv' reg [unfolded co2])
qed

text \<open>A stale epoch is refused under another name. A hello that names an epoch other than the current
  one is answered by a refusal that carries the current epoch, and by an error frame; the
  connection ends and nothing changed. The error frame names a fenced boot, an unknown scope or an
  unauthorized publisher, never the stale epoch.\<close>

theorem stale_hello_refused:
  assumes "wf_type f = Hello" and h: "DecodeHello (wf_payload f) = Inr h" "Counter_IsSet (hl_epoch h)"
      "hl_epoch h \<noteq> CurrentEpoch (co_registry co)"
    and "sg_sent sv" and "sg_error_sent sv"
  shows "\<exists>a b fa fb ep. handle_frame opts sv cid f co = (Leave, [a, b], co)
    \<and> DecodeFrame a = Inr fa \<and> wf_type fa = HelloAck
    \<and> DecodeHelloAck (wf_payload fa) = Inr \<lparr>ha_accepted = False, ha_epoch = CurrentEpoch (co_registry co),
        ha_registry_generation = 0, ha_message = ''coordinator epoch is stale''\<rparr>
    \<and> DecodeFrame b = Inr fb \<and> wf_type fb = ErrorResponse \<and> DecodeErrorPayload (wf_payload fb) = Inr ep
    \<and> ep_code ep \<in> {E_WorkerBootFenced, E_UnknownAuthorityScope, E_UnauthorizedPublisher}"
proof -
  let ?ack = "\<lparr>ha_accepted = False, ha_epoch = CurrentEpoch (co_registry co),
      ha_registry_generation = 0, ha_message = ''coordinator epoch is stale''\<rparr>"
  let ?error = "\<lparr>ep_code = hello_error_code (co_registry co) (Inr h), ep_message = ''coordinator epoch is stale''\<rparr>"
  have msg: "message_ok ''coordinator epoch is stale''"
    by (simp add: message_ok_def text_ok_iff text_byte_ok_char less_eq_char_def)
  then have "message_ok (ha_message ?ack)" "message_ok (ep_message ?error)" by simp_all
  from hello_ack_sent [OF this(1), of "wf_request_id f"] error_sent [OF this(2), of "wf_request_id f"]
  obtain ab a eb b where a: "EncodeHelloAck ?ack = Inr ab" "EncodeFrame HelloAck 0 (wf_request_id f) ab = Inr a"
      "DecodeHelloAck ab = Inr ?ack"
    and b: "EncodeErrorPayload ?error = Inr eb" "EncodeFrame ErrorResponse 0 (wf_request_id f) eb = Inr b"
      "DecodeErrorPayload eb = Inr ?error" by blast
  have "hello_ack (sg_failure_text sv) (co_registry co) (Inr h) = (?ack, co_registry co)"
    using h by (simp add: hello_ack_def)
  then have "handle_frame opts sv cid f co = (Leave, [a, b], co)"
    using assms a b
    by (simp add: handle_frame_def handle_hello_def reply_def SendFrame_def send_error_def Let_def)
  then show ?thesis
    using encoded_frame [OF a(2)] encoded_frame [OF b(2)] a(3) b(3)
    by (intro exI [of _ a] exI [of _ b]) (simp add: hello_error_code_def)
qed

lemma second_hello_abandons_boot_witness:
  "\<exists>out co1. handle_frame demo_options demo_serving 3
       (frame_of Hello (EncodeHello (demo_hello\<lparr>hl_worker_boot := ''abcdef02''\<rparr>))) demo_connected = (Go_on, out, co1)
     \<and> ''abcdef01'' \<notin> g_fenced_boots (co_registry (disconnect 3 co1))
     \<and> map_of (g_publishers (co_registry (disconnect 3 co1))) (''agent'', ''abcdef01'') \<noteq> None"
proof -
  let ?h = "demo_hello\<lparr>hl_worker_boot := ''abcdef02''\<rparr>"
  let ?f = "frame_of Hello (EncodeHello ?h)"
  have "WorkerBootId_Parse ''abcdef02'' = Inr ''abcdef02''" by code_simp
  then have "hello_ok ?h" using sample_tokens by (simp add: hello_ok_def demo_hello_def)
  from hello.payload_reads_back [OF this] have d: "DecodeHello (wf_payload ?f) = Inr ?h"
    by (auto simp: DecodeHello_def frame_of_def)
  obtain ack g where ack: "hello_ack (sg_failure_text demo_serving) demo_registered (Inr ?h) = (ack, g)"
      "ha_accepted ack" "ha_message ack = ''registered''"
    by (simp add: hello_ack_def demo_hello_def RegisterPublisher_def demo_registered_eq Registry_new_def
        Let_def IsSet_def FindAuthority_def authority_position_def demo_grant_def options_default_def
        Counter_IsSet_def CurrentEpoch_def)
  have "message_ok (ha_message ack)"
    unfolding ack(3) by (simp add: message_ok_def text_ok_iff text_byte_ok_char less_eq_char_def)
  from hello_ack_sent [OF this] obtain b frame where
    "EncodeHelloAck ack = Inr b" "EncodeFrame HelloAck 0 (wf_request_id ?f) b = Inr frame" by blast
  then have hf: "handle_frame demo_options demo_serving 3 ?f demo_connected
      = (Go_on, [frame], bind_identity 3 ?h (demo_connected\<lparr>co_registry := g\<rparr>))"
    using ack d
    by (simp add: handle_frame_def handle_hello_def demo_connected_eq(1) Let_def reply_def SendFrame_def
        demo_serving_def [THEN arg_cong [of _ _ sg_sent], simplified] frame_of_def)
  have "g_fenced_boots demo_registered = {}"
    by (simp add: demo_registered_eq Registry_new_def Let_def)
  moreover have "map_of (g_publishers demo_registered) (''agent'', ''abcdef01'') \<noteq> None"
    by (simp add: demo_registered_eq)
  ultimately show ?thesis
    using second_hello_abandons_boot [OF demo_connected_coordinated _ hf _ d _ refl, of _ "''agent''"] hf
    by (simp add: demo_connected_eq demo_hello_def frame_of_def)
qed

lemma stale_hello_refused_witness:
  "\<exists>a b fb ep. handle_frame demo_options demo_serving 3
       (frame_of Hello (EncodeHello (demo_hello\<lparr>hl_epoch := 9\<rparr>))) demo_connected = (Leave, [a, b], demo_connected)
     \<and> DecodeFrame b = Inr fb \<and> DecodeErrorPayload (wf_payload fb) = Inr ep
     \<and> ep_code ep \<noteq> E_CoordinatorEpochStale"
proof -
  let ?h = "demo_hello\<lparr>hl_epoch := 9\<rparr>"
  have "hello_ok ?h" using sample_tokens by (simp add: hello_ok_def demo_hello_def)
  from hello.payload_reads_back [OF this] have d: "DecodeHello (wf_payload (frame_of Hello (EncodeHello ?h))) = Inr ?h"
    by (auto simp: DecodeHello_def frame_of_def)
  have "CurrentEpoch demo_registered = 1"
    by (simp add: CurrentEpoch_def demo_registered_eq Registry_new_def Let_def options_default_def Counter_IsSet_def)
  then show ?thesis
    using stale_hello_refused [OF _ d, of demo_connected demo_serving demo_options 3]
    by (auto simp: demo_connected_eq(1) frame_of_def demo_serving_def Counter_IsSet_def)
qed

end
