(* ===== verification/CommitEffects.thy ===== *)
theory CommitEffects
  imports Revocation
begin

text \<open>
  The effect of a commit on the generations, the differences it reports, and two behaviours that
  the documentation of the code does not promise: a rejection that retires a generation and the
  fields the replay digest ignores.
\<close>

section \<open>Set generations\<close>

lemma s_digest_Materialize: "s_digest (Materialize rg ent) = s_digest (Materialize rg' ent')"
  if "es_capabilities ent = es_capabilities ent'"
  using that by (simp add: Materialize_def Let_def)

text \<open>C6. A commit is a compare-and-swap on the set generation. When a publication for an entity
  whose current generation it names commits, the expected set generation it gave was the stored one.
  Afterwards the stored set generation and the registry generation are each one higher exactly when
  the digest of the resolved capabilities changed, and both are unchanged when it did not; the
  result reports the stored generation.\<close>

theorem commit_is_compare_and_swap:
  assumes "reachable g" and p: "Publish g r = (Inr res, g')" "pr_status res = Committed"
    and f: "FindEntity g (pq_entity r) = Some n"
    and cur: "es_current_generation (g_entities g ! n) = pq_entity_generation r"
    and before: "es_has_set (g_entities g ! n)" "es_set (g_entities g ! n) = Some s"
  shows "pq_expected_set_generation r = es_set_generation (g_entities g ! n)
    \<and> (\<exists>s'. es_set (g_entities g' ! n) = Some s'
        \<and> es_set_generation (g_entities g' ! n) = pr_new_set_generation res
        \<and> (if s_digest s' = s_digest s
           then pr_new_set_generation res = es_set_generation (g_entities g ! n)
             \<and> g_generation g' = g_generation g
           else pr_new_set_generation res = es_set_generation (g_entities g ! n) + 1
             \<and> g_generation g' = g_generation g + 1))"
proof -
  note ok = reachable_ok [OF assms(1)]
  from p obtain runtime grant m g1 w where v: "validate_request g r = Inr (runtime, grant)"
    and e: "enter_entity g r = (Inr m, g1)"
    and pre: "precondition_check (g_entities g1 ! m) r = Inr ()"
    and a: "apply_request g1 m grant r (open_work g1 m) = (Inr (), w)"
    and c: "commit (es_set (g_entities g1 ! m)) (Digest_ToString (RequestContentDigest r grant)) grant
          (close_work m w g1) m r = (Inr res, g')"
    by (rule Publish_committed)
  have "enter_entity g r = (Inr n, g)" using f cur by (simp add: enter_entity_def Let_def)
  with e have m: "m = n" "g1 = g" by simp_all
  have len: "n < length (g_entities g)" using FindEntity_Some [OF f] by simp
  have wok: "(w_entity w)\<lparr>es_capabilities := es_capabilities (g_entities g ! n)\<rparr> = g_entities g ! n"
    using applied_work_ok [OF ok v e] a m by (simp add: work_ok_def)
  have closed: "g_entities (close_work n w g) ! n = w_entity w"
    using len by (simp add: close_work_def put_entity_def)
  have closed_gen: "g_generation (close_work n w g) = g_generation g"
    by (simp add: close_work_def put_entity_def)
  obtain rg sg where sr: "if case es_set (g_entities g ! n) of None \<Rightarrow> True
         | Some s \<Rightarrow> s_digest (Materialize (g_generation (close_work n w g)) (w_entity w)) \<noteq> s_digest s
      then Counter_Next (es_set_generation (w_entity w)) = Inr sg
        \<and> Counter_Next (g_generation (close_work n w g)) = Inr rg
      else sg = es_set_generation (w_entity w) \<and> rg = g_generation (close_work n w g)"
    and res: "pr_new_set_generation res = sg"
    and j: "same_but_journal (RegisterReplay (request_key r)
       \<lparr>rp_attempt = pq_attempt r, rp_publication = pq_publication r,
        rp_content_digest = Digest_ToString (RequestContentDigest r grant),
        rp_status = Committed, rp_code = E_Ok\<rparr>
       (put_entity n (raise_high_water r (committed_entity rg sg (w_entity w)))
         ((close_work n w g)\<lparr>g_generation := rg\<rparr>))) g'"
    by (rule commit_committed [OF c [unfolded m], unfolded closed]) (rule that)
  have gen': "g_generation g' = rg"
    using same_but_journal_fields(6) [OF j] by (simp add: RegisterReplay_def Let_def put_entity_def)
  have ent': "g_entities g' ! n = raise_high_water r (committed_entity rg sg (w_entity w))"
    using same_but_journal_fields(2) [OF j] len
    by (simp add: RegisterReplay_def Let_def put_entity_def close_work_def)
  obtain s' where s': "es_set (g_entities g' ! n) = Some s'"
    "s_digest s' = s_digest (Materialize (g_generation g) (w_entity w))"
    "es_set_generation (g_entities g' ! n) = sg"
    using ent' by (simp add: raise_high_water_def committed_entity_def Let_def s_digest_Materialize)
  note fr = work_frame(5) [OF wok]
  have "pq_expected_set_generation r = es_set_generation (g_entities g ! n)"
    using pre before m by (auto simp: precondition_check_def split: if_splits)
  then show ?thesis
    using s' sr res gen' fr before(2) closed_gen by (auto simp: Counter_Next_Inr split: if_splits)
qed

definition demo_snapshot :: publication_request where
  "demo_snapshot = demo_request\<lparr>pq_mode := FullSnapshot, pq_attempt := ''attempt-2'',
     pq_publication := ''pub-2'', pq_expected_set_generation := 1, pq_claims := []\<rparr>"

lemma demo_committed_fields:
  "es_id demo_committed = demo_entity" "es_current_generation demo_committed = 1"
  "es_has_set demo_committed" "es_set_generation demo_committed = 1"
  "es_source_high_water demo_committed (''src'', ''abcdef01'') = Some 1"
  "\<exists>s. es_set demo_committed = Some s" "es_capabilities demo_committed = [(0, demo_entry)]"
  by (simp_all add: demo_committed_def raise_high_water_def committed_entity_def put_entry_def
      entity_new_def Let_def source_key_of_def demo_request_def)

lemma demo_snapshot_commits:
  "\<exists>res. fst (Publish demo_published demo_snapshot) = Inr res \<and> pr_status res = Committed"
proof -
  have v: "validate_request demo_published demo_snapshot = Inr (\<lparr>rn_registration = \<lparr>pb_publisher = ''agent'',
     pb_scope = ''scope'', pb_worker_boot = ''abcdef01'', pb_epoch = 1, pb_accepted_generation = 0\<rparr>,
     rn_active = True, rn_replay = [demo_replay]\<rparr>, demo_grant)"
    by (simp add: validate_request_def demo_published_fields shape_check_def epoch_check_def
        publisher_check_def grant_check_def demo_setup demo_snapshot_def Let_def
        Counter_IsSet_def IsSet_def EntityId_IsSet_def request_key_def FindAuthority_def authority_position_def AllowsMode_def)
  have f: "pq_entity demo_snapshot = demo_entity" "pq_entity_generation demo_snapshot = 1"
    "pq_expected_set_generation demo_snapshot = 1" "pq_attempt demo_snapshot = ''attempt-2''"
    "source_key_of demo_snapshot = (''src'', ''abcdef01'')" "pq_mode demo_snapshot = FullSnapshot"
    "pq_claims demo_snapshot = []" "ac_source_generation (pq_authority demo_snapshot) = 1"
    by (simp_all add: demo_snapshot_def demo_request_def source_key_of_def)
  have e: "enter_entity demo_published demo_snapshot = (Inr 0, demo_published)"
    by (simp add: enter_entity_def f demo_query demo_published_fields demo_committed_fields)
  have rc: "replay_check \<lparr>rn_registration = x, rn_active = True, rn_replay = [demo_replay]\<rparr> demo_snapshot cd
      = Inr False" for x cd
    by (simp add: replay_check_def f demo_replay_def)
  have pc: "precondition_check (g_entities demo_published ! 0) demo_snapshot = Inr ()"
    by (simp add: precondition_check_def demo_published_fields demo_committed_fields f)
  let ?ap = "apply_request demo_published 0 demo_grant demo_snapshot (open_work demo_published 0)"
  have ap: "fst ?ap = Inr ()"
    by (simp add: apply_request_def f apply_snapshot_def apply_claims_def Let_def implies_absence_def
        demo_grant_def)
  have "es_set_generation (w_entity (snd ?ap)) = 1"
    using work_frame(5) [where w = "w_entity (snd ?ap)" and ent = demo_committed]
      applied_work_ok [OF reachable_ok [OF demo_reachable(2)] v e] demo_committed_fields
    by (auto simp: work_ok_def demo_published_fields)
  then have next': "Counter_Next (es_set_generation (w_entity (snd ?ap))) = Inr 2"
    "Counter_Next (g_generation demo_published) = Inr 2"
    by (simp_all add: Counter_Next_def demo_published_fields)
  have closed: "g_entities (close_work 0 (snd ?ap) demo_published) ! 0 = w_entity (snd ?ap)"
    "g_generation (close_work 0 (snd ?ap) demo_published) = g_generation demo_published"
    by (simp_all add: close_work_def put_entity_def demo_published_fields)
  have "\<exists>res. fst (commit b cd gr (close_work 0 (snd ?ap) demo_published) 0 demo_snapshot) = Inr res
      \<and> pr_status res = Committed" for b cd gr
    unfolding commit_def Let_def closed by (simp add: next' split: sum.split)
  then show ?thesis
    using ap by (simp add: Publish_def v e rc pc Let_def split_beta)
qed

lemma commit_is_compare_and_swap_witness:
  "\<exists>res g'. Publish demo_published demo_snapshot = (Inr res, g') \<and> pr_status res = Committed
     \<and> es_set_generation (g_entities g' ! 0) = pr_new_set_generation res
     \<and> (pr_new_set_generation res = 1 \<and> g_generation g' = 1
        \<or> pr_new_set_generation res = 2 \<and> g_generation g' = 2)"
proof -
  obtain res g' where p: "Publish demo_published demo_snapshot = (Inr res, g')" "pr_status res = Committed"
    using demo_snapshot_commits by (metis prod.collapse)
  obtain s where s: "es_set demo_committed = Some s" using demo_committed_fields(6) ..
  have f: "FindEntity demo_published (pq_entity demo_snapshot) = Some 0"
    "pq_entity_generation demo_snapshot = 1"
    using demo_query(1) by (simp_all add: demo_snapshot_def demo_request_def)
  from commit_is_compare_and_swap [OF demo_reachable(2) p f(1), of s] f(2) s p show ?thesis
    by (auto simp: demo_published_fields demo_committed_fields split: if_splits)
qed

section \<open>Differences\<close>

text \<open>The capabilities a difference runs over: one per rendered identifier of the two sets.\<close>

definition compared :: "entity_capability_set option \<Rightarrow> entity_capability_set option \<Rightarrow> capability_id list" where
  "compared before after = foldl (\<lambda>acc c. set_insert cap_rendered c acc) []
     (set_capabilities before @ set_capabilities after)"

lemma fold_set_insert:
  "keyed key acc \<Longrightarrow> keyed key (foldl (\<lambda>acc c. set_insert key c acc) acc xs)
   \<and> key ` set (foldl (\<lambda>acc c. set_insert key c acc) acc xs) = key ` set acc \<union> key ` set xs
   \<and> set (foldl (\<lambda>acc c. set_insert key c acc) acc xs) \<subseteq> set acc \<union> set xs"
proof (induction xs arbitrary: acc)
  case (Cons x xs)
  note IH = Cons.IH [OF keyed_set_insert [OF Cons.prems], of x]
  then show ?case using set_insert_subset [of key x acc] by (auto simp: set_insert_keys)
qed simp

lemma compared_members:
  assumes "inj_on cap_rendered (set (set_capabilities before) \<union> set (set_capabilities after))"
  shows "set (compared before after) = set (set_capabilities before) \<union> set (set_capabilities after)"
    and "keyed cap_rendered (compared before after)"
proof -
  note f = fold_set_insert [of cap_rendered "[]" "set_capabilities before @ set_capabilities after"]
  show "keyed cap_rendered (compared before after)" using f by (simp add: compared_def keyed_def)
  have "set (compared before after) \<subseteq> set (set_capabilities before) \<union> set (set_capabilities after)"
    "cap_rendered ` set (compared before after)
      = cap_rendered ` (set (set_capabilities before) \<union> set (set_capabilities after))"
    using f by (auto simp: compared_def keyed_def image_Un)
  then show "set (compared before after) = set (set_capabilities before) \<union> set (set_capabilities after)"
    using assms by (metis inj_on_image_eq_iff subset_refl)
qed

lemma capability_change_id: "e \<in> set (capability_change c b a) \<Longrightarrow> d_capability e = c"
  by (auto simp: capability_change_def diff_added_def diff_removed_def diff_both_def
      split: option.splits)

lemma diff_headers_id: "e \<in> set (diff_headers b a) \<Longrightarrow> d_capability e = CapabilityId_unset"
  by (auto simp: diff_headers_def diff_entry_default_def split: option.splits if_splits)



section \<open>Rejections with effects\<close>

definition demo_ahead :: publication_request where
  "demo_ahead = demo_request\<lparr>pq_attempt := ''attempt-3'', pq_publication := ''pub-3'',
     pq_entity_generation := 2, pq_expected_set_generation := 5\<rparr>"

text \<open>C18. A rejection is not always inert. There is a reachable registry that answers SUPPORTED and a
  request that it rejects for its set generation, after which the same query answers UNKNOWN: the
  rejected request named a newer entity generation, and the old generation was retired before the
  precondition was checked.\<close>

theorem rejection_can_retire_a_generation:
  "\<exists>g r res g'. reachable g \<and> q_state (Query g demo_entity demo_capability) = St_Supported
     \<and> Publish g r = (Inr res, g') \<and> pr_status res = Rejected
     \<and> pr_code res = E_CapabilitySetGenerationMismatch
     \<and> q_state (Query g' demo_entity demo_capability) = St_Unknown"
proof -
  have v: "validate_request demo_published demo_ahead = Inr (\<lparr>rn_registration = \<lparr>pb_publisher = ''agent'',
     pb_scope = ''scope'', pb_worker_boot = ''abcdef01'', pb_epoch = 1, pb_accepted_generation = 0\<rparr>,
     rn_active = True, rn_replay = [demo_replay]\<rparr>, demo_grant)"
    by (simp add: validate_request_def demo_published_fields shape_check_def epoch_check_def
        publisher_check_def grant_check_def check_claim_def demo_setup demo_ahead_def Let_def
        Counter_IsSet_def IsSet_def EntityId_IsSet_def request_key_def FindAuthority_def authority_position_def AllowsMode_def
        CapabilityId_IsSet_def NamespaceAllowed_def Schema_Find_def schema_lookup_def
        ValidateClaimShape_def)
  have f: "pq_entity demo_ahead = demo_entity" "pq_entity_generation demo_ahead = 2"
    "pq_expected_set_generation demo_ahead = 5" "pq_attempt demo_ahead = ''attempt-3''"
    by (simp_all add: demo_ahead_def demo_request_def)
  let ?old = "retire_entity 0 2 (MakeReason ''superseded-by-fabric-registry'') demo_published"
  let ?g1 = "touch_entity 0 (?old\<lparr>g_generation := 2\<rparr>)"
  have "g_generation ?old = 1"
    by (simp add: retire_entity_def split_beta Let_def put_entity_def demo_published_fields)
  then have "Counter_Next (g_generation ?old) = Inr 2" by (simp add: Counter_Next_def)
  then have e: "enter_entity demo_published demo_ahead = (Inr 0, ?g1)"
    by (simp add: enter_entity_def f demo_query demo_published_fields demo_committed_fields Let_def)
  have rc: "replay_check \<lparr>rn_registration = x, rn_active = True, rn_replay = [demo_replay]\<rparr> demo_ahead cd
      = Inr False" for x cd
    by (simp add: replay_check_def f demo_replay_def)
  have ent: "\<exists>x. g_entities ?g1 = [x] \<and> es_capabilities x = []
      \<and> es_has_set x = False \<and> es_source_high_water x = Map.empty \<and> es_id x = demo_entity"
    by (simp add: touch_entity_def retire_entity_def split_beta Let_def put_entity_def
        demo_published_fields RetireGeneration_def demo_committed_fields)
  then have pc: "precondition_check (g_entities ?g1 ! 0) demo_ahead
      = Inl (Rejects E_CapabilitySetGenerationMismatch)"
    by (auto simp: precondition_check_def f)
  have p: "Publish demo_published demo_ahead = reject ?g1 demo_ahead E_CapabilitySetGenerationMismatch"
    by (simp add: Publish_def v e rc pc Let_def stop_with_def)
  let ?g2 = "snd (reject ?g1 demo_ahead E_CapabilitySetGenerationMismatch)"
  have ents: "g_entities ?g2 = g_entities ?g1" by (rule same_but_journal_fields(2) [OF reject_frame])
  with ent have "FindEntity ?g2 demo_entity = Some 0" by (auto simp: FindEntity_def)
  moreover have "es_capabilities (g_entities ?g2 ! 0) = []" using ents ent by auto
  ultimately have "q_state (Query ?g2 demo_entity demo_capability) = St_Unknown"
    using Query_no_capabilities by blast
  moreover have "\<exists>res. reject ?g1 demo_ahead E_CapabilitySetGenerationMismatch = (Inr res, ?g2)
      \<and> pr_status res = Rejected \<and> pr_code res = E_CapabilitySetGenerationMismatch"
    by (simp add: reject_def Let_def base_result_def)
  ultimately show ?thesis
    using demo_reachable(2) demo_query(3) p by metis
qed

section \<open>What the replay digest ignores\<close>

text \<open>The content digest that decides whether an attempt is an exact replay does not read the
  firmware version, the driver version and the reason of an edit: requests that differ only there
  have equal digests, so the second one is answered as a replay of the first.\<close>

theorem edit_versions_not_in_digest:
  "RequestContentDigest
     (r\<lparr>pq_edits := map (\<lambda>e. e\<lparr>ed_claim := (ed_claim e)\<lparr>cl_firmware_version := fw e,
          cl_driver_version := dr e, cl_reason := why e\<rparr>\<rparr>) (pq_edits r)\<rparr>) grant
   = RequestContentDigest r grant"
proof -
  have "edit_bytes (e\<lparr>ed_claim := (ed_claim e)\<lparr>cl_firmware_version := fw e,
      cl_driver_version := dr e, cl_reason := why e\<rparr>\<rparr>) = edit_bytes e" for e
    by (simp add: edit_bytes_def)
  then show ?thesis by (simp add: RequestContentDigest_def content_bytes_def comp_def)
qed

end
