(* ===== verification/RemotePublication.thy ===== *)
theory RemotePublication
  imports CoordinatorSafety CommitEffects
begin

text \<open>
  A publication over the wire: what a client that sends a well-formed request without edits gets
  back is what the registry answers locally, and sending it again is harmless.
\<close>

section \<open>A sample publication\<close>

definition demo_result :: publication_result where
  "demo_result = \<lparr>pr_status = Committed, pr_code = E_Ok, pr_publication = ''pub-1'',
      pr_attempt = ''attempt-1'', pr_entity = demo_entity,
      pr_entity_generation = 1, pr_previous_set_generation = 0,
      pr_new_set_generation = 1, pr_registry_generation = 1,
      pr_claims_applied = applied_count demo_applied_registry demo_grant demo_request, pr_claims_withdrawn = 0, pr_capabilities_added = 1,
      pr_capabilities_removed = 0, pr_capabilities_changed = 0, pr_diff = Some \<lparr>df_entity = demo_entity, df_before_entity_generation = 0, df_after_entity_generation = 1,
          df_before_set_generation = 0, df_after_set_generation = 1, df_before_digest = Digest_zero,
          df_after_digest = DigestOfResolutions [ce_resolution demo_entry], df_entries = [diff_added demo_capability (ce_resolution demo_entry)]\<rparr>,
      pr_set_digest = DigestOfResolutions [ce_resolution demo_entry]\<rparr>"

lemma demo_diff: "BuildDiff demo_entity None (es_set (committed_entity 1 1 (put_entry 0 demo_entry (entity_new demo_entity 1 0)))) = 
    the (pr_diff demo_result)"
  using demo_resolution
  by (simp add: demo_result_def BuildDiff_def committed_entity_def put_entry_def entity_new_def Let_def diff_headers_def capability_change_def Materialize_def EntitySet_Find_def set_capabilities_def )

lemma demo_published_result: "fst (Publish demo_registered demo_request) = Inr demo_result"
proof -
  have "Counter_Next (0 :: counter) = Inr 1" by (simp add: Counter_Next_def)
  moreover have "es_set_generation (put_entry 0 demo_entry (entity_new demo_entity 1 0)) = 0"
     "es_id (put_entry 0 demo_entry (entity_new demo_entity 1 0)) = demo_entity"
    by (simp_all add: put_entry_def entity_new_def)
  ultimately show ?thesis
    using demo_diff
    by (simp add: demo_publish_commit commit_def Let_def demo_applied_fields)
      (simp add: demo_result_def base_result_def demo_request_def withdrawn_count_def count_kind_def diff_added_def diff_entry_default_def committed_entity_def Materialize_def Let_def put_entry_def entity_new_def)
qed
lemma demo_request_ok: "plain_request_ok demo_request"
  using sample_tokens
  by (simp add: plain_request_ok_def request_ok_def demo_request_def authority_context_ok_def optional_ok_def
      wire_claim_ok_def demo_claim_def capability_id_ok_def demo_capability_def claim_default_def
      sample_capability_def demo_entity_def sample_request_def)

lemma demo_entry_unvalued: "r_has_value (ce_resolution demo_entry) = False" "r_value (ce_resolution demo_entry) = V_Absent"
  by (simp_all add: demo_entry_def resolve_def resolve_pool_def Let_def current_of_def non_current_of_def
      retired_of_def demo_evidence_def claim_evidence_def strongest_of_def strongest_rank_def IsCurrent_def
      PickDeterministic_def SameClaim_def with_winner_def with_value_of_def demo_claim_def claim_default_def)

lemma demo_result_ok: "wire_result_ok (describe_result demo_serving demo_result)"
  using sample_tokens
  by (simp add: wire_result_ok_def describe_result_def demo_serving_def demo_result_def message_ok_def
      text_ok_iff text_byte_ok_char less_eq_char_def optional_ok_def entity_or_unset_def demo_entity_def
      sample_request_def wire_diff_ok_def describe_diff_def describe_entry_def described_entry_ok_def
      diff_added_def diff_entry_default_def demo_entry_unvalued capability_id_ok_def demo_capability_def
      sample_capability_def explanation_ok_def DigestOfResolutions_def Digest_zero_def Let_def
      split: prod.split sum.split)

lemma demo_result_small:
  "EncodePublicationResult (describe_result demo_serving demo_result) = Inr b \<Longrightarrow> length b \<le> kMaxFrameBytes"
  by (simp add: EncodePublicationResult_def describe_result_def demo_serving_def demo_result_def write_diff_def
      describe_diff_def describe_entry_def WriteDiffEntry_def diff_added_def diff_entry_default_def demo_entry_unvalued
      WriteExplanation_def put_text_def CheckedU32_def demo_entity_def EntityId_unset_def demo_capability_def WriteEnum_def write_list_def write_value_if_def check_count_def obind_Inr_iff WriteErrorCode_def WriteDigestBytes_def Digest_zero_def)
    (auto simp: DigestOfResolutions_def put_bool_def put_u16_def put_u8_def length_concat split: if_splits)

section \<open>A published frame\<close>

lemma published_frame:
  assumes s: "map_of (co_connections co) cid = Some s" "cx_handshake_done s"
      "map_of (cx_replay s) (wf_request_id f) = None"
    and w: "map_of (co_workers co) cid = Some w" "wk_handshake_done w"
    and d: "DecodePublicationRequest (wf_payload f) = Inr r"
    and r: "same_identity (pq_authority r) s" and f: "wf_type f = Publish_message"
    and p: "Publish (co_registry co) (r\<lparr>pq_epoch := CurrentEpoch (co_registry co)\<rparr>) = (Inr res, g)"
    and b: "EncodePublicationResult (describe_result sv res) = Inr b"
      "EncodeFrame PublishAck 0 (wf_request_id f) b = Inr frame"
    and sent: "sg_sent sv"
  shows "\<exists>co'. serve opts sv cid (Inr f) co = ([frame], co') \<and> co_registry co' = g"
proof -
  have "publish_payload sv s (wf_payload f) (co_registry co) = (describe_result sv res, g)"
    using d r p by (simp add: publish_payload_def Let_def)
  then show ?thesis
    using s w f b sent
    by (simp add: serve_def handle_frame_def handle_publish_def Let_def reply_def SendFrame_def)
qed

text \<open>The sample request on the sample connection.\<close>

lemma demo_publish_frame:
  "EncodePublicationRequest demo_request = Inr (wf_payload (frame_of Publish_message (EncodePublicationRequest demo_request)))"
  "DecodePublicationRequest (wf_payload (frame_of Publish_message (EncodePublicationRequest demo_request))) = Inr demo_request"
  using request.payload_reads_back [OF demo_request_ok]
  by (auto simp: frame_of_def DecodePublicationRequest_def)

lemma demo_connected_publish:
  "map_of (co_connections demo_connected) 3 = Some demo_connection" "cx_handshake_done demo_connection"
  "map_of (cx_replay demo_connection) i = None" "same_identity (pq_authority demo_request) demo_connection"
  "map_of (co_workers demo_connected) 3 = Some \<lparr>wk_handshake_done = True, wk_boot = ''abcdef01''\<rparr>"
  "Publish (co_registry demo_connected) (demo_request\<lparr>pq_epoch := CurrentEpoch (co_registry demo_connected)\<rparr>)
     = (Inr demo_result, demo_published)"
proof -
  have "CurrentEpoch demo_registered = 1"
    by (simp add: CurrentEpoch_def demo_registered_eq Registry_new_def Let_def options_default_def Counter_IsSet_def)
  then have "demo_request\<lparr>pq_epoch := CurrentEpoch demo_registered\<rparr> = demo_request"
    by (simp add: demo_request_def)
  then show "Publish (co_registry demo_connected) (demo_request\<lparr>pq_epoch := CurrentEpoch (co_registry demo_connected)\<rparr>)
     = (Inr demo_result, demo_published)"
    using demo_published_result by (simp add: demo_connected_eq demo_published_def prod_eq_iff)
qed (simp_all add: demo_connected_eq demo_connection_def same_identity_def demo_request_def)

lemma demo_served:
  "\<exists>frame co'. serve demo_options demo_serving 3
       (Inr (frame_of Publish_message (EncodePublicationRequest demo_request))) demo_connected = ([frame], co')
     \<and> co_registry co' = demo_published"
proof -
  from result.payload_reads_back [OF demo_result_ok] obtain b where
    b: "EncodePublicationResult (describe_result demo_serving demo_result) = Inr b" by blast
  from small_frame [OF demo_result_small [OF this]] obtain frame where
    "EncodeFrame PublishAck 0 (wf_request_id (frame_of Publish_message (EncodePublicationRequest demo_request))) b
       = Inr frame" by blast
  from published_frame [OF demo_connected_publish(1-3) demo_connected_publish(5) _ demo_publish_frame(2)
      demo_connected_publish(4) _ demo_connected_publish(6) b this, of demo_options]
  show ?thesis by (fastforce simp: frame_of_def demo_serving_def)
qed

section \<open>Properties\<close>


text \<open>Publishing remotely is publishing. A connection sends a well-formed request without edits
  under its registered identity and with a new request number. The coordinator then does to its
  registry exactly what \<open>Publish\<close> does at the current epoch, and the one frame it sends back carries
  the request number and decodes to the result of that call, provided the result fits the wire.\<close>

theorem remote_publication:
  assumes "coordinated opts co" and s: "map_of (co_connections co) cid = Some s" "cx_handshake_done s"
      "map_of (cx_replay s) i = None"
    and r: "request_ok r" "pq_edits r = []" "same_identity (pq_authority r) s"
    and f: "EncodePublicationRequest r = Inr (wf_payload f)" "wf_type f = Publish_message" "wf_request_id f = i"
    and p: "Publish (co_registry co) (r\<lparr>pq_epoch := CurrentEpoch (co_registry co)\<rparr>) = (Inr res, g)"
    and res: "wire_result_ok (describe_result sv res)"
      "EncodePublicationResult (describe_result sv res) = Inr b" "length b \<le> 1048576"
    and sent: "sg_sent sv"
  shows "\<exists>frame co' f'. serve opts sv cid (Inr f) co = ([frame], co') \<and> co_registry co' = g
    \<and> DecodeFrame frame = Inr f' \<and> wf_type f' = PublishAck \<and> wf_request_id f' = i
    \<and> DecodePublicationResult (wf_payload f') = Inr (describe_result sv res)"
proof -
  have "agree (map_of (co_workers co) cid) (Some s)"
    using coordinated_connections [OF assms(1)] s(1) by (metis connections_ok_def)
  then obtain w where w: "map_of (co_workers co) cid = Some w" "wk_handshake_done w"
    using s(2) by (auto simp: agree_def split: option.splits)
  from request.payload_reads_back [of r] r(1,2) f(1) have d: "DecodePublicationRequest (wf_payload f) = Inr r"
    by (auto simp: plain_request_ok_def DecodePublicationRequest_def)
  from result.payload_reads_back [OF res(1)] res(2) have read_back: "DecodePublicationResult b = Inr (describe_result sv res)"
    by (auto simp: DecodePublicationResult_def)
  obtain frame where frame: "EncodeFrame PublishAck 0 i b = Inr frame" using small_frame [OF res(3)] by blast
  have "\<exists>co'. serve opts sv cid (Inr f) co = ([frame], co') \<and> co_registry co' = g"
    by (rule published_frame [OF s(1,2) s(3) [folded f(3)] w d r(3) f(2) p res(2) _ sent])
      (simp add: frame f(3))
  then show ?thesis using encoded_frame [OF frame] read_back by fastforce
qed


lemma remote_publication_witness:
  "\<exists>frame co' f'. serve demo_options demo_serving 3
       (Inr (frame_of Publish_message (EncodePublicationRequest demo_request))) demo_connected = ([frame], co')
     \<and> co_registry co' = demo_published \<and> DecodeFrame frame = Inr f'
     \<and> DecodePublicationResult (wf_payload f') = Inr (describe_result demo_serving demo_result)"
proof -
  from result.payload_reads_back [OF demo_result_ok] obtain b where
    b: "EncodePublicationResult (describe_result demo_serving demo_result) = Inr b" by blast
  have "request_ok demo_request" "pq_edits demo_request = []" "sg_sent demo_serving"
    using demo_request_ok by (simp_all add: plain_request_ok_def demo_serving_def)
  with remote_publication [OF demo_connected_coordinated demo_connected_publish(1-3) _ _ demo_connected_publish(4)
      demo_publish_frame(1) _ refl demo_connected_publish(6) demo_result_ok b demo_result_small [OF b]]
  show ?thesis by (fastforce simp: frame_of_def)
qed

end
