(* ===== verification/PublisherClient.thy ===== *)
theory PublisherClient
  imports RemotePublication
begin

text \<open>
  The publisher client of \<open>src/src/distributed.cpp\<close>, and its composition with the coordinator. The
  socket is a parameter: what one attempt to connect, one send and one reception do to the other
  side is given by a transport.
\<close>

section \<open>The client\<close>

record client_options =
  lo_port :: u16
  lo_publisher :: token
  lo_scope :: token
  lo_source :: token
  lo_worker_boot :: token
  lo_namespaces :: "string list"
  lo_connect_attempts :: nat
  lo_epoch :: counter

record generation_cache =
  gc_set_generation :: counter
  gc_unknown :: bool

record client =
  pl_open :: bool
  pl_connected :: bool
  pl_request_id :: u64
  pl_epoch :: counter
  pl_generation_cache :: "(entity_id \<times> generation_cache) list"

definition client_new :: client where
  "client_new = \<lparr>pl_open = False, pl_connected = False, pl_request_id = 0, pl_epoch = 0,
     pl_generation_cache = []\<rparr>"

text \<open>
  The operating system and the far end: the network subsystem, the parsing of the host address, one
  attempt to connect (with the socket that could not be created as an error), a complete send, the
  reception of one frame, and closing.
\<close>

record 'p transport =
  tr_network :: bool
  tr_host_literal :: bool
  tr_connect :: "'p \<Rightarrow> bool outcome \<times> 'p"
  tr_send :: "'p \<Rightarrow> bytes \<Rightarrow> status \<times> 'p"
  tr_receive :: "'p \<Rightarrow> wire_frame outcome \<times> 'p"
  tr_close :: "'p \<Rightarrow> 'p"

type_synonym 'p ends = "client \<times> 'p"

definition send_frame ::
  "'p transport \<Rightarrow> wire_message_type \<Rightarrow> u64 \<Rightarrow> bytes \<Rightarrow> 'p \<Rightarrow> status \<times> 'p" where
  "send_frame tr type request_id payload p =
     (case EncodeFrame type 0 request_id payload of
        Inl e \<Rightarrow> (Inl e, p)
      | Inr frame \<Rightarrow> tr_send tr p frame)"

definition CloseLocked :: "'p transport \<Rightarrow> 'p ends \<Rightarrow> 'p ends" where
  "CloseLocked tr = (\<lambda>(c, p).
     (c\<lparr>pl_open := False, pl_connected := False, pl_generation_cache := []\<rparr>,
      if pl_open c then tr_close tr (snd (send_frame tr Goodbye (pl_request_id c) [] p)) else p))"

text \<open>A request is sent under the current request number, and one frame is received.\<close>

definition exchange ::
  "'p transport \<Rightarrow> wire_message_type \<Rightarrow> bytes \<Rightarrow> 'p ends \<Rightarrow> wire_frame outcome \<times> 'p ends" where
  "exchange tr type payload = (\<lambda>(c, p).
     case send_frame tr type (pl_request_id c) payload p of
       (Inl e, p) \<Rightarrow> (Inl e, CloseLocked tr (c, p))
     | (Inr _, p) \<Rightarrow>
         (case tr_receive tr p of
            (Inl e, p) \<Rightarrow> (Inl e, CloseLocked tr (c, p))
          | (Inr f, p) \<Rightarrow> (Inr f, (c, p))))"

section \<open>Connecting\<close>

fun try_connect :: "'p transport \<Rightarrow> nat \<Rightarrow> 'p \<Rightarrow> status \<times> 'p" where
  "try_connect tr 0 p = (Inl E_TransportUnavailable, p)"
| "try_connect tr (Suc n) p =
     (case tr_connect tr p of
        (Inl e, p) \<Rightarrow> (Inl e, p)
      | (Inr True, p) \<Rightarrow> (Inr (), p)
      | (Inr False, p) \<Rightarrow> try_connect tr n p)"

definition client_hello :: "client_options \<Rightarrow> hello_payload" where
  "client_hello o' = \<lparr>hl_publisher = lo_publisher o', hl_scope = lo_scope o', hl_source = lo_source o',
     hl_worker_boot = lo_worker_boot o', hl_epoch = lo_epoch o', hl_namespaces = lo_namespaces o'\<rparr>"

text \<open>The error frame after a refusal: it names the code when it can be read.\<close>

definition refusal_code :: "wire_frame outcome \<Rightarrow> error_code" where
  "refusal_code received =
     (case received of
        Inl _ \<Rightarrow> E_UnauthorizedPublisher
      | Inr f \<Rightarrow>
          if wf_type f = ErrorResponse
          then (case DecodeErrorPayload (wf_payload f) of
                  Inl _ \<Rightarrow> E_UnauthorizedPublisher | Inr ep \<Rightarrow> ep_code ep)
          else E_UnauthorizedPublisher)"

definition handshake :: "'p transport \<Rightarrow> client_options \<Rightarrow> 'p ends \<Rightarrow> status \<times> 'p ends" where
  "handshake tr o' = (\<lambda>(c, p).
     case EncodeHello (client_hello o') of
       Inl e \<Rightarrow> (Inl e, CloseLocked tr (c, p))
     | Inr encoded \<Rightarrow>
         (case exchange tr Hello encoded (c\<lparr>pl_request_id := 1\<rparr>, p) of
            (Inl e, ends) \<Rightarrow> (Inl e, ends)
          | (Inr response, (c, p)) \<Rightarrow>
              if wf_type response \<noteq> HelloAck then (Inl E_FrameStateViolation, CloseLocked tr (c, p))
              else (case DecodeHelloAck (wf_payload response) of
                 Inl e \<Rightarrow> (Inl e, CloseLocked tr (c, p))
               | Inr ack \<Rightarrow>
                   if \<not> ha_accepted ack
                   then (let (error_frame, p) = tr_receive tr p
                         in (Inl (refusal_code error_frame), CloseLocked tr (c, p)))
                   else (Inr (), (c\<lparr>pl_epoch := ha_epoch ack, pl_connected := True\<rparr>, p)))))"

definition Connect :: "'p transport \<Rightarrow> client_options \<Rightarrow> 'p ends \<Rightarrow> status \<times> 'p ends" where
  "Connect tr o' = (\<lambda>(c, p).
     if pl_open c then (Inr (), (c, p))
     else if \<not> tr_network tr then (Inl E_TransportUnavailable, (c, p))
     else if lo_port o' = 0 \<or> \<not> IsSet (lo_publisher o') \<or> \<not> IsSet (lo_scope o') \<or> \<not> IsSet (lo_source o')
       then (Inl E_InvalidArgument, (c, p))
     else if \<not> tr_host_literal tr then (Inl E_InvalidArgument, (c, p))
     else case try_connect tr (lo_connect_attempts o') p of
         (Inl e, p) \<Rightarrow> (Inl e, (c, p))
       | (Inr _, p) \<Rightarrow> handshake tr o' (c\<lparr>pl_open := True\<rparr>, p))"

section \<open>Requests\<close>

definition next_request :: "'p ends \<Rightarrow> 'p ends" where
  "next_request = (\<lambda>(c, p). (c\<lparr>pl_request_id := pl_request_id c + 1\<rparr>, p))"

definition RefreshStatusLocked :: "'p transport \<Rightarrow> entity_id \<Rightarrow> 'p ends \<Rightarrow> status \<times> 'p ends" where
  "RefreshStatusLocked tr entity ends =
     (case EncodeStatus \<lparr>su_entity = entity, su_entity_generation = 0, su_set_generation = 0,
             su_registry_generation = 0, su_epoch = 0\<rparr> of
        Inl e \<Rightarrow> (Inl e, ends)
      | Inr encoded \<Rightarrow>
          (case exchange tr Status encoded (next_request ends) of
             (Inl e, ends) \<Rightarrow> (Inl e, ends)
           | (Inr response, (c, p)) \<Rightarrow>
               if wf_type response \<noteq> StatusAck then (Inl E_FrameStateViolation, (c, p))
               else (case DecodeStatus (wf_payload response) of
                  Inl e \<Rightarrow> (Inl e, (c, p))
                | Inr status \<Rightarrow>
                    (Inr (), (c\<lparr>pl_generation_cache := AList.update entity
                         \<lparr>gc_set_generation = su_set_generation status, gc_unknown = False\<rparr>
                         (pl_generation_cache c), pl_epoch := su_epoch status\<rparr>, p)))))"

definition remember_outcome :: "entity_id \<Rightarrow> wire_result \<Rightarrow> client \<Rightarrow> client" where
  "remember_outcome entity result c =
     (if wr_code result \<in> {E_CapabilitySetGenerationStale, E_CapabilitySetGenerationMismatch}
      then c\<lparr>pl_generation_cache := AList.delete entity (pl_generation_cache c)\<rparr>
      else if wr_status result \<noteq> Rejected
      then c\<lparr>pl_generation_cache := AList.update entity
             \<lparr>gc_set_generation = wr_new_set_generation result, gc_unknown = False\<rparr>
             (pl_generation_cache c)\<rparr>
      else c)"

definition expecting :: "client \<Rightarrow> publication_request \<Rightarrow> publication_request" where
  "expecting c outgoing =
     (if pq_expected_set_generation outgoing = 0
      then (case map_of (pl_generation_cache c) (pq_entity outgoing) of
              None \<Rightarrow> outgoing
            | Some entry \<Rightarrow> outgoing\<lparr>pq_expected_set_generation := gc_set_generation entry\<rparr>)
      else outgoing)"

definition send_publication ::
  "'p transport \<Rightarrow> publication_request \<Rightarrow> 'p ends \<Rightarrow> wire_result outcome \<times> 'p ends" where
  "send_publication tr outgoing ends =
     (case EncodePublicationRequest outgoing of
        Inl e \<Rightarrow> (Inl e, ends)
      | Inr encoded \<Rightarrow>
          (case exchange tr Publish_message encoded (next_request ends) of
             (Inl e, ends) \<Rightarrow> (Inl e, ends)
           | (Inr response, (c, p)) \<Rightarrow>
               if wf_type response \<noteq> PublishAck then (Inl E_FrameStateViolation, (c, p))
               else (case DecodePublicationResult (wf_payload response) of
                  Inl e \<Rightarrow> (Inl e, (c, p))
                | Inr result \<Rightarrow> (Inr result, (remember_outcome (pq_entity outgoing) result c, p)))))"

text \<open>The epoch the request names is the one known before a refresh.\<close>

definition Client_Publish ::
  "'p transport \<Rightarrow> publication_request \<Rightarrow> 'p ends \<Rightarrow> wire_result outcome \<times> 'p ends" where
  "Client_Publish tr request ends =
     (if \<not> pl_connected (fst ends) then (Inl E_TransportClosed, ends)
      else
        let outgoing = request\<lparr>pq_epoch := pl_epoch (fst ends)\<rparr>;
            known = (case map_of (pl_generation_cache (fst ends)) (pq_entity outgoing) of
               None \<Rightarrow> False | Some entry \<Rightarrow> \<not> gc_unknown entry)
        in case (if known then (Inr (), ends) else RefreshStatusLocked tr (pq_entity outgoing) ends) of
             (Inl e, ends) \<Rightarrow> (Inl e, ends)
           | (Inr _, ends) \<Rightarrow> send_publication tr (expecting (fst ends) outgoing) ends)"

definition Client_Fence ::
  "'p transport \<Rightarrow> token \<Rightarrow> token \<Rightarrow> 'p ends \<Rightarrow> status \<times> 'p ends" where
  "Client_Fence tr worker_boot reason ends =
     (if \<not> pl_connected (fst ends) then (Inl E_TransportClosed, ends)
      else case EncodeFence \<lparr>fp_worker_boot = worker_boot, fp_reason = reason\<rparr> of
        Inl e \<Rightarrow> (Inl e, ends)
      | Inr encoded \<Rightarrow>
          (case exchange tr Fence encoded (next_request ends) of
             (Inl e, ends) \<Rightarrow> (Inl e, ends)
           | (Inr response, ends) \<Rightarrow>
               if wf_type response = FenceAck then (Inr (), ends)
               else if wf_type response = ErrorResponse
               then (case DecodeErrorPayload (wf_payload response) of
                       Inl _ \<Rightarrow> (Inl E_FrameStateViolation, ends)
                     | Inr ep \<Rightarrow> (Inl (ep_code ep), ends))
               else (Inl E_FrameStateViolation, ends)))"

section \<open>A client of a coordinator\<close>

text \<open>
  The far end of the socket: a coordinator that serves each frame as it arrives, and the frames on
  their way back.
\<close>

record peer =
  pe_coordinator :: coordinator
  pe_inbox :: "bytes list"

definition peer_transport :: "coordinator_options \<Rightarrow> serving \<Rightarrow> nat \<Rightarrow> peer transport" where
  "peer_transport opts sv cid =
     \<lparr>tr_network = True, tr_host_literal = True,
      tr_connect = (\<lambda>p. (Inr True, p\<lparr>pe_coordinator := accept_connection opts cid (pe_coordinator p)\<rparr>)),
      tr_send = (\<lambda>p frame.
         if map_of (co_workers (pe_coordinator p)) cid = None then (Inl E_TransportFailure, p)
         else (let (out, co) = serve opts sv cid (DecodeFrame frame) (pe_coordinator p)
               in (Inr (), \<lparr>pe_coordinator = co, pe_inbox = pe_inbox p @ out\<rparr>))),
      tr_receive = (\<lambda>p. case pe_inbox p of
           [] \<Rightarrow> (Inl E_TransportClosed, p)
         | frame # frames \<Rightarrow> (DecodeFrame frame, p\<lparr>pe_inbox := frames\<rparr>)),
      tr_close = (\<lambda>p. if map_of (co_workers (pe_coordinator p)) cid = None then p
         else p\<lparr>pe_coordinator := snd (serve opts sv cid (Inl E_TransportClosed) (pe_coordinator p))\<rparr>)\<rparr>"

lemma exchange_peer:
  assumes "length payload \<le> kMaxFrameBytes" and "map_of (co_workers co) cid \<noteq> None"
    and "serve opts sv cid (Inr \<lparr>wf_version = 1, wf_type = type, wf_flags = 0,
        wf_request_id = pl_request_id c, wf_payload = payload\<rparr>) co = ([frame], co')"
    and "DecodeFrame frame = Inr f"
  shows "exchange (peer_transport opts sv cid) type payload (c, \<lparr>pe_coordinator = co, pe_inbox = []\<rparr>)
    = (Inr f, (c, \<lparr>pe_coordinator = co', pe_inbox = []\<rparr>))"
proof -
  obtain sent where "EncodeFrame type 0 (pl_request_id c) payload = Inr sent"
    using small_frame [OF assms(1)] by blast
  with encoded_frame [OF this] show ?thesis
    using assms(2-4) by (simp add: exchange_def send_frame_def peer_transport_def)
qed

definition known_generation :: "registry \<Rightarrow> entity_id \<Rightarrow> counter" where
  "known_generation g entity =
     (case EntityRecord g entity of
        Inl _ \<Rightarrow> 0
      | Inr view \<Rightarrow> if vw_has_current_set view then s_set_generation (vw_current_set view) else 0)"

lemma status_of_asked:
  assumes "DecodeStatus payload = Inr asked" and "EntityId_IsSet (su_entity asked)"
  shows "su_entity (status_of g payload) = su_entity asked
    \<and> su_set_generation (status_of g payload) = known_generation g (su_entity asked)
    \<and> su_epoch (status_of g payload) = CurrentEpoch g"
  using assms by (simp add: status_of_def known_generation_def Let_def split: sum.split)

lemma status_sent:
  assumes "status_ok s"
  shows "\<exists>b frame. EncodeStatus s = Inr b \<and> length b \<le> kMaxFrameBytes \<and> DecodeStatus b = Inr s
    \<and> EncodeFrame StatusAck 0 i b = Inr frame"
proof -
  from status.payload_reads_back [OF assms] obtain b where
    b: "EncodeStatus s = Inr b" "DecodeStatus b = Inr s" by (auto simp: DecodeStatus_def)
  moreover have "length b \<le> kMaxFrameBytes"
    using b(1) by (auto simp: EncodeStatus_def obind_Inr_iff put_text_def CheckedU32_def put_u64_def
        put_u32_def split: if_splits)
  ultimately show ?thesis using small_frame by blast
qed

lemma status_served:
  assumes f: "wf_type f = Status" "DecodeStatus (wf_payload f) = Inr asked" "status_ok asked"
      "EntityId_IsSet (su_entity asked)"
    and s: "map_of (co_connections co) cid = Some s" "cx_handshake_done s"
    and w: "map_of (co_workers co) cid = Some w" "wk_handshake_done w" and sent: "sg_sent sv"
  shows "\<exists>frame co' f'. serve opts sv cid (Inr f) co = ([frame], co') \<and> co_registry co' = co_registry co
    \<and> co_connections co' = co_connections co \<and> co_workers co' = co_workers co
    \<and> DecodeFrame frame = Inr f' \<and> wf_type f' = StatusAck
    \<and> DecodeStatus (wf_payload f') = Inr (status_of (co_registry co) (wf_payload f))"
proof -
  have "status_ok (status_of (co_registry co) (wf_payload f))"
    using f status_of_asked [OF f(2,4)] by (simp add: status_ok_def)
  from status_sent [OF this] obtain b frame where
    b: "EncodeStatus (status_of (co_registry co) (wf_payload f)) = Inr b"
      "DecodeStatus b = Inr (status_of (co_registry co) (wf_payload f))"
      "EncodeFrame StatusAck 0 (wf_request_id f) b = Inr frame" by blast
  show ?thesis
    using f(1) s w sent b encoded_frame [OF b(3)]
    by (simp add: serve_def handle_frame_def handle_status_def reply_def SendFrame_def)
qed

lemma parsed_entity_set: "EntityId_Parse t = Inr e \<Longrightarrow> EntityId_IsSet e"
  by (auto simp: EntityId_Parse_def EntityId_Create_def EntityId_IsSet_def obind_Inr_iff
      split: if_splits list.splits)

text \<open>The request that leaves the client when it had to ask for the set generation first.\<close>

definition outgoing_request :: "registry \<Rightarrow> counter \<Rightarrow> publication_request \<Rightarrow> publication_request" where
  "outgoing_request g epoch r = r\<lparr>pq_epoch := epoch, pq_expected_set_generation :=
     (if pq_expected_set_generation r = 0 then known_generation g (pq_entity r)
      else pq_expected_set_generation r)\<rparr>"

lemma refresh_peer:
  assumes s: "map_of (co_connections co) cid = Some s" "cx_handshake_done s"
    and w: "map_of (co_workers co) cid = Some w" "wk_handshake_done w" and sent: "sg_sent sv"
    and e: "EntityId_Parse (ent_rendered entity) = Inr entity"
  shows "\<exists>co'. RefreshStatusLocked (peer_transport opts sv cid) entity (c, \<lparr>pe_coordinator = co, pe_inbox = []\<rparr>)
      = (Inr (), (c\<lparr>pl_request_id := pl_request_id c + 1, pl_generation_cache := AList.update entity
           \<lparr>gc_set_generation = known_generation (co_registry co) entity, gc_unknown = False\<rparr>
           (pl_generation_cache c), pl_epoch := CurrentEpoch (co_registry co)\<rparr>,
         \<lparr>pe_coordinator = co', pe_inbox = []\<rparr>))
    \<and> co_registry co' = co_registry co \<and> co_connections co' = co_connections co
    \<and> co_workers co' = co_workers co"
proof -
  let ?s = "\<lparr>su_entity = entity, su_entity_generation = 0, su_set_generation = 0,
             su_registry_generation = 0, su_epoch = 0 :: counter\<rparr>"
  let ?c = "c\<lparr>pl_request_id := pl_request_id c + 1\<rparr>"
  have ok: "status_ok ?s" using e by (simp add: status_ok_def)
  from status_sent [OF this] obtain b where
    b: "EncodeStatus ?s = Inr b" "length b \<le> kMaxFrameBytes" "DecodeStatus b = Inr ?s" by blast
  let ?f = "\<lparr>wf_version = 1, wf_type = Status, wf_flags = 0, wf_request_id = pl_request_id ?c, wf_payload = b\<rparr>"
  have set: "EntityId_IsSet (su_entity ?s)" using parsed_entity_set [OF e] by simp
  have f: "wf_type ?f = Status" "DecodeStatus (wf_payload ?f) = Inr ?s" using b by simp_all
  from status_served [OF f ok set s w sent, of opts] obtain frame co' f' where
    served: "serve opts sv cid (Inr ?f) co = ([frame], co')" "DecodeFrame frame = Inr f'" "wf_type f' = StatusAck"
      "DecodeStatus (wf_payload f') = Inr (status_of (co_registry co) b)"
      "co_registry co' = co_registry co" "co_connections co' = co_connections co" "co_workers co' = co_workers co"
    by auto
  have "map_of (co_workers co) cid \<noteq> None" using w by simp
  from exchange_peer [OF b(2) this served(1,2)] served b(1) status_of_asked [OF b(3) set, of "co_registry co"]
  show ?thesis by (simp add: RefreshStatusLocked_def next_request_def)
qed

section \<open>Properties\<close>


lemma write_seq_length:
  "write_seq (map w xs) = Inr b \<Longrightarrow> (\<And>x c. x \<in> set xs \<Longrightarrow> w x = Inr c \<Longrightarrow> length c \<le> n) \<Longrightarrow>
     length b \<le> n * length xs"
proof (induction xs arbitrary: b)
  case (Cons x xs)
  then obtain c d where parts: "w x = Inr c" "write_seq (map w xs) = Inr d" "b = c @ d"
    by (auto simp: obind_Inr_iff)
  have "length d \<le> n * length xs"
    by (rule Cons.IH [OF parts(2)]) (rule Cons.prems(2), auto)
  moreover have "length c \<le> n" by (rule Cons.prems(2) [OF _ parts(1)]) simp
  ultimately show ?case using parts(3) by simp
qed simp

lemma write_list_length:
  "write_list w xs = Inr b \<Longrightarrow> (\<And>x c. x \<in> set xs \<Longrightarrow> w x = Inr c \<Longrightarrow> length c \<le> n) \<Longrightarrow>
     length b \<le> 4 + n * length xs"
  using write_seq_length [of w xs _ n] by (auto simp: write_list_def obind_Inr_iff put_u32_def)

lemma put_text_length: "put_text t m = Inr b \<Longrightarrow> length b \<le> m + 4"
  by (auto simp: put_text_def CheckedU32_def put_u32_def obind_Inr_iff split: if_splits)

lemma hello_small:
  assumes "EncodeHello h = Inr b"
  shows "length b \<le> kMaxFrameBytes"
proof -
  from assms obtain b1 b2 b3 b4 b5 b6 where parts:
    "put_text (hl_publisher h) kMaxPublisherIdLength = Inr b1" "put_text (hl_scope h) kMaxAuthorityScopeIdLength = Inr b2"
    "put_text (hl_source h) kMaxSourceIdLength = Inr b3" "put_text (hl_worker_boot h) kMaxWorkerBootLength = Inr b4"
    "check_count kMaxAuthorityNamespaces (length (hl_namespaces h)) = Inr b5"
    "write_list (\<lambda>ns. put_text ns kMaxCapabilityIdLength) (hl_namespaces h) = Inr b6"
    "b = b1 @ b2 @ b3 @ b4 @ put_u64 (hl_epoch h) @ b5 @ b6"
    by (auto simp: EncodeHello_def obind_Inr_iff)
  have "length b6 \<le> 4 + (kMaxCapabilityIdLength + 4) * length (hl_namespaces h)"
    by (rule write_list_length [OF parts(6)]) (rule put_text_length)
  moreover have "length b5 \<le> 4 \<and> length (hl_namespaces h) \<le> kMaxAuthorityNamespaces"
    using parts(5) by (auto simp: check_count_def put_u32_def split: if_splits)
  ultimately show ?thesis
    using put_text_length [OF parts(1)] put_text_length [OF parts(2)] put_text_length [OF parts(3)]
      put_text_length [OF parts(4)] parts(7) by simp
qed

lemma hello_ack_registered:
  assumes "\<not> (Counter_IsSet (hl_epoch h) \<and> hl_epoch h \<noteq> CurrentEpoch g)"
    and "RegisterPublisher g (hl_publisher h) (hl_scope h) (hl_worker_boot h) = (Inr reg, g')"
  shows "hello_ack why g (Inr h) = (\<lparr>ha_accepted = True, ha_epoch = pb_epoch reg,
    ha_registry_generation = pb_accepted_generation reg, ha_message = ''registered''\<rparr>, g')"
  using assms by (simp add: hello_ack_def)

lemma hello_served:
  assumes f: "wf_type f = Hello" "DecodeHello (wf_payload f) = Inr h"
    and h: "\<not> (Counter_IsSet (hl_epoch h) \<and> hl_epoch h \<noteq> CurrentEpoch (co_registry co))"
      "RegisterPublisher (co_registry co) (hl_publisher h) (hl_scope h) (hl_worker_boot h) = (Inr reg, g)"
    and sent: "sg_sent sv"
  shows "\<exists>frame co' f' ack upd. serve opts sv cid (Inr f) co = ([frame], co')
    \<and> co' = bind_identity cid h (Bump upd co\<lparr>co_registry := g\<rparr>)
    \<and> DecodeFrame frame = Inr f' \<and> wf_type f' = HelloAck \<and> DecodeHelloAck (wf_payload f') = Inr ack
    \<and> ha_accepted ack \<and> ha_epoch ack = pb_epoch reg"
proof -
  let ?ack = "\<lparr>ha_accepted = True, ha_epoch = pb_epoch reg,
    ha_registry_generation = pb_accepted_generation reg, ha_message = ''registered''\<rparr>"
  have "message_ok (ha_message ?ack)"
    by (simp add: message_ok_def text_ok_iff text_byte_ok_char less_eq_char_def)
  from hello_ack_sent [OF this] obtain b frame where b: "EncodeHelloAck ?ack = Inr b"
    "EncodeFrame HelloAck 0 (wf_request_id f) b = Inr frame" "DecodeHelloAck b = Inr ?ack" by blast
  then show ?thesis
    using f sent encoded_frame [OF b(2)]
    by (auto simp: serve_def handle_frame_def handle_hello_def hello_ack_registered [OF h] reply_def
        SendFrame_def Let_def)
qed

text \<open>C27. A client that may register is connected. When the coordinator has a free connection, the
  identity of the client is well formed, the epoch it expects is open or current, and the registry
  registers it, then connecting succeeds: the client knows the epoch of the registration, the
  registry is the one after the registration, and the connection is bound to the client's identity
  with nothing remembered for it.\<close>

theorem client_connects:
  assumes new: "map_of (co_connections co) cid = None" "length (co_connections co) < op_max_connections opts"
    and o': "lo_port o' \<noteq> 0" "0 < lo_connect_attempts o'" "hello_ok (client_hello o')"
    and epoch: "\<not> (Counter_IsSet (lo_epoch o') \<and> lo_epoch o' \<noteq> CurrentEpoch (co_registry co))"
    and reg: "RegisterPublisher (co_registry co) (lo_publisher o') (lo_scope o') (lo_worker_boot o') = (Inr reg, g)"
    and sent: "sg_sent sv"
  shows "\<exists>c' co' s. Connect (peer_transport opts sv cid) o' (client_new, \<lparr>pe_coordinator = co, pe_inbox = []\<rparr>)
      = (Inr (), (c', \<lparr>pe_coordinator = co', pe_inbox = []\<rparr>))
    \<and> pl_connected c' \<and> pl_epoch c' = pb_epoch reg \<and> co_registry co' = g
    \<and> map_of (co_connections co') cid = Some s \<and> cx_handshake_done s \<and> cx_replay s = []
    \<and> cx_publisher s = lo_publisher o' \<and> cx_scope s = lo_scope o'
    \<and> cx_source s = lo_source o' \<and> cx_worker_boot s = lo_worker_boot o'"
proof -
  let ?h = "client_hello o'"
  let ?co = "accept_connection opts cid co"
  have acc: "co_registry ?co = co_registry co" "map_of (co_workers ?co) cid = Some worker_new"
    "map_of (co_connections ?co) cid = Some connection_new"
    using new by (simp_all add: accept_connection_def AList.update_conv')
  from hello.payload_reads_back [OF o'(3)] obtain payload where
    payload: "EncodeHello ?h = Inr payload" "DecodeHello payload = Inr ?h" by (auto simp: DecodeHello_def)
  have small: "length payload \<le> kMaxFrameBytes" by (rule hello_small [OF payload(1)])
  let ?f = "\<lparr>wf_version = 1, wf_type = Hello, wf_flags = 0, wf_request_id = 1, wf_payload = payload\<rparr>"
  have "\<not> (Counter_IsSet (hl_epoch ?h) \<and> hl_epoch ?h \<noteq> CurrentEpoch (co_registry ?co))"
    "RegisterPublisher (co_registry ?co) (hl_publisher ?h) (hl_scope ?h) (hl_worker_boot ?h) = (Inr reg, g)"
    using epoch reg acc(1) by (simp_all add: client_hello_def)
  from hello_served [of ?f, OF _ _ this sent, of opts cid] payload(2)
  obtain frame co' f' ack upd where served: "serve opts sv cid (Inr ?f) ?co = ([frame], co')"
    "co' = bind_identity cid ?h (Bump upd ?co\<lparr>co_registry := g\<rparr>)" "DecodeFrame frame = Inr f'"
    "wf_type f' = HelloAck" "DecodeHelloAck (wf_payload f') = Inr ack" "ha_accepted ack" "ha_epoch ack = pb_epoch reg"
    by auto
  let ?c = "client_new\<lparr>pl_open := True, pl_request_id := 1\<rparr>"
  have "map_of (co_workers ?co) cid \<noteq> None" using acc by simp
  from exchange_peer [OF small this, of opts sv Hello ?c frame co' f'] served
  have ex: "exchange (peer_transport opts sv cid) Hello payload (?c, \<lparr>pe_coordinator = ?co, pe_inbox = []\<rparr>)
      = (Inr f', (?c, \<lparr>pe_coordinator = co', pe_inbox = []\<rparr>))" by simp
  have ids: "IsSet (lo_publisher o')" "IsSet (lo_scope o')" "IsSet (lo_source o')"
    using o'(3) by (auto simp: hello_ok_def client_hello_def IsSet_def PublisherId_Parse_def
        AuthorityScopeId_Parse_def SourceId_Parse_def TokenId_Parse_def ValidateToken_def obind_Inr_iff
        split: if_splits)
  obtain n where n: "lo_connect_attempts o' = Suc n" using o'(2) gr0_implies_Suc by blast
  have "try_connect (peer_transport opts sv cid) (lo_connect_attempts o') \<lparr>pe_coordinator = co, pe_inbox = []\<rparr>
      = (Inr (), \<lparr>pe_coordinator = ?co, pe_inbox = []\<rparr>)"
    by (simp add: n peer_transport_def)
  moreover have "handshake (peer_transport opts sv cid) o' (client_new\<lparr>pl_open := True\<rparr>,
      \<lparr>pe_coordinator = ?co, pe_inbox = []\<rparr>) = (Inr (), (?c\<lparr>pl_epoch := ha_epoch ack, pl_connected := True\<rparr>,
        \<lparr>pe_coordinator = co', pe_inbox = []\<rparr>))"
    using payload(1) ex served(4-6) by (simp add: handshake_def)
  moreover have "tr_network (peer_transport opts sv cid)" "tr_host_literal (peer_transport opts sv cid)"
    by (simp_all add: peer_transport_def)
  ultimately have "Connect (peer_transport opts sv cid) o' (client_new, \<lparr>pe_coordinator = co, pe_inbox = []\<rparr>)
      = (Inr (), (?c\<lparr>pl_epoch := ha_epoch ack, pl_connected := True\<rparr>, \<lparr>pe_coordinator = co', pe_inbox = []\<rparr>))"
    using o'(1) ids by (simp add: Connect_def client_new_def [THEN arg_cong [of _ _ pl_open], simplified])
  moreover have "co_connections (Bump upd ?co\<lparr>co_registry := g\<rparr>) = co_connections ?co" by simp
  ultimately show ?thesis
    using served(2,7) acc(3)
    by (simp add: bind_identity_def AList.update_conv' client_hello_def connection_new_def)
qed

lemma demo_request_small: "EncodePublicationRequest demo_request = Inr b \<Longrightarrow> length b \<le> kMaxFrameBytes"
  by (auto simp: EncodePublicationRequest_def demo_request_def demo_claim_def claim_default_def demo_entity_def
      demo_capability_def write_list_def WriteClaim_wire_def WriteAuthority_def WriteEnum_def write_value_if_def
      check_count_def put_text_def CheckedU32_def put_u8_def put_bool_def put_u32_def put_u64_def obind_Inr_iff
      split: if_splits)

definition demo_client :: client where
  "demo_client = client_new\<lparr>pl_open := True, pl_connected := True, pl_request_id := 1, pl_epoch := 1\<rparr>"


definition demo_client_options :: client_options where
  "demo_client_options = \<lparr>lo_port = 7000, lo_publisher = ''agent'', lo_scope = ''scope'', lo_source = ''src'',
     lo_worker_boot = ''abcdef01'', lo_namespaces = [], lo_connect_attempts = 40, lo_epoch = 0\<rparr>"

lemma client_connects_witness:
  "\<exists>c' co'. Connect (peer_transport demo_options demo_serving 3) demo_client_options (client_new,
       \<lparr>pe_coordinator = (coordinator_new demo_registered demo_disk)\<lparr>co_running := True\<rparr>, pe_inbox = []\<rparr>)
     = (Inr (), (c', \<lparr>pe_coordinator = co', pe_inbox = []\<rparr>)) \<and> pl_connected c' \<and> pl_epoch c' = 1"
proof -
  let ?co = "(coordinator_new demo_registered demo_disk)\<lparr>co_running := True\<rparr>"
  have co: "co_registry ?co = demo_registered" "co_connections ?co = []"
    by (simp_all add: coordinator_new_def)
  have "hello_ok (client_hello demo_client_options)"
    using sample_tokens by (simp add: hello_ok_def client_hello_def demo_client_options_def)
  from client_connects [of ?co 3 demo_options demo_client_options _ _ demo_serving] this
  show ?thesis
    using demo_registered_again
    by (fastforce simp: co demo_options_def demo_client_options_def demo_serving_def Counter_IsSet_def)
qed

end
