(* ===== verification/Synthetic.thy ===== *)
theory Synthetic
  imports Revocation
begin

text \<open>
  The synthetic backend (\<open>src/src/synthetic.cpp\<close>): device classes, the claims of each class and the
  publications of a synthetic fabric. Each \<open>Add\<close> operation appends one claim to the claims so far,
  or nothing when its value cannot be built.
\<close>

section \<open>Device classes\<close>

datatype synthetic_device_class =
    LeafSwitch | SpineSwitch | HostNic | SmartNic | Dpu | Router | OpticalFacingPort
  | HighSpeedEthernetPort | RdmaCapableDevice | TelemetryRichDevice | ReducedCapabilityDevice

record device_class_entry =
  dc_class :: synthetic_device_class
  dc_name :: string
  dc_kind :: entity_kind
  dc_token :: string

definition device_entry ::
  "synthetic_device_class \<Rightarrow> string \<Rightarrow> entity_kind \<Rightarrow> string \<Rightarrow> device_class_entry" where
  "device_entry c name kind token =
     \<lparr>dc_class = c, dc_name = name, dc_kind = kind, dc_token = token\<rparr>"

definition kDeviceClasses :: "device_class_entry list" where
  "kDeviceClasses =
     [device_entry LeafSwitch ''leaf-switch'' EK_Switch ''leaf'',
      device_entry SpineSwitch ''spine-switch'' EK_Switch ''spine'',
      device_entry HostNic ''host-nic'' EK_Nic ''nic'',
      device_entry SmartNic ''smartnic'' EK_SmartNic ''smartnic'',
      device_entry Dpu ''dpu'' EK_Dpu ''dpu'',
      device_entry Router ''router'' EK_Router ''router'',
      device_entry OpticalFacingPort ''optical-facing-port'' EK_Port ''optics'',
      device_entry HighSpeedEthernetPort ''high-speed-ethernet-port'' EK_Port ''hsp'',
      device_entry RdmaCapableDevice ''rdma-capable-device'' EK_Nic ''rdma'',
      device_entry TelemetryRichDevice ''telemetry-rich-device'' EK_Switch ''telemetry'',
      device_entry ReducedCapabilityDevice ''reduced-capability-device'' EK_Device ''reduced'']"

definition EntryFor :: "synthetic_device_class \<Rightarrow> device_class_entry" where
  "EntryFor device_class =
     (case filter (\<lambda>entry. dc_class entry = device_class) kDeviceClasses of
        [] \<Rightarrow> hd kDeviceClasses | entry # _ \<Rightarrow> entry)"

definition SyntheticDeviceClassName :: "synthetic_device_class \<Rightarrow> string" where
  "SyntheticDeviceClassName device_class = dc_name (EntryFor device_class)"

definition ParseSyntheticDeviceClass :: "string \<Rightarrow> synthetic_device_class outcome" where
  "ParseSyntheticDeviceClass t =
     (case filter (\<lambda>entry. dc_name entry = t) kDeviceClasses of
        [] \<Rightarrow> Inl E_MalformedValue | entry # _ \<Rightarrow> Inr (dc_class entry))"

definition SyntheticDeviceClasses :: "synthetic_device_class list" where
  "SyntheticDeviceClasses = map dc_class kDeviceClasses"

section \<open>Claims\<close>

definition MakeClaim :: "string \<Rightarrow> capability_claim" where
  "MakeClaim capability = claim_default
     \<lparr>cl_capability := (case CapabilityId_Parse capability of Inl _ \<Rightarrow> CapabilityId_unset | Inr c \<Rightarrow> c),
      cl_state := St_Supported, cl_provenance := Prov_SyntheticTestBackend,
      cl_source_class := Src_SyntheticBackend, cl_durability := Durable,
      cl_coverage := FullEnumeration\<rparr>"

type_synonym adder = "capability_claim list \<Rightarrow> capability_claim list"

definition add_built :: "string \<Rightarrow> capability_value outcome \<Rightarrow> adder" where
  "add_built capability built claims =
     (case built of Inl _ \<Rightarrow> claims | Inr v \<Rightarrow> claims @ [(MakeClaim capability)\<lparr>cl_value := v\<rparr>])"

definition AddBool :: "string \<Rightarrow> bool \<Rightarrow> adder" where
  "AddBool capability v = add_built capability (Inr (V_Boolean v))"

definition AddQuantity :: "string \<Rightarrow> value_unit \<Rightarrow> u64 \<Rightarrow> adder" where
  "AddQuantity capability unt v = add_built capability (QuantityValue v unt)"

definition AddNumericSet :: "string \<Rightarrow> value_unit \<Rightarrow> u64 list \<Rightarrow> adder" where
  "AddNumericSet capability unt vs = add_built capability (NumericSetValue unt vs)"

definition AddRange :: "string \<Rightarrow> value_unit \<Rightarrow> u64 \<Rightarrow> u64 \<Rightarrow> adder" where
  "AddRange capability unt minimum maximum =
     add_built capability (NumericRangeValue unt minimum maximum)"

definition AddEnumSet :: "string \<Rightarrow> string \<Rightarrow> u32 list \<Rightarrow> adder" where
  "AddEnumSet capability domain codes =
     add_built capability (obind (EnumDomainId_Parse domain) (\<lambda>d. EnumerationSetValue d codes))"

definition AddProtocolSet :: "string \<Rightarrow> protocol_id list \<Rightarrow> adder" where
  "AddProtocolSet capability protocols = add_built capability (ProtocolSetValue protocols)"

definition AddVersionRange :: "string \<Rightarrow> string \<Rightarrow> string \<Rightarrow> adder" where
  "AddVersionRange capability minimum maximum =
     add_built capability (obind (Version_Parse minimum) (\<lambda>lo. obind (Version_Parse maximum) (\<lambda>hi.
       VersionIntervalValue lo True hi True)))"

definition add_claims :: "capability_claim list \<Rightarrow> adder list \<Rightarrow> capability_claim list" where
  "add_claims claims adders = foldl (\<lambda>claims add. add claims) claims adders"

definition LeafSwitchClaims :: "u64 \<Rightarrow> capability_claim list" where
  "LeafSwitchClaims queue_offset = add_claims [] [
    AddNumericSet ''fabric.port.supported_speeds'' U_BitsPerSecond [100000000000, 400000000000],
    AddNumericSet ''fabric.port.supported_lane_counts'' U_Count [4, 8],
    AddNumericSet ''fabric.port.lane_rates'' U_BitsPerSecond
      [25000000000, 50000000000, 100000000000],
    AddRange ''fabric.port.mtu_range'' U_Bytes 1500 9216,
    AddQuantity ''fabric.port.max_frame_size'' U_Bytes 9216,
    AddEnumSet ''fabric.port.supported_fec_modes'' ''fabric.port.fec_mode'' [1, 2],
    AddEnumSet ''fabric.port.media_types'' ''fabric.port.media_type'' [0, 1, 2],
    AddQuantity ''fabric.port.max_breakout_children'' U_Count 4,
    AddProtocolSet ''fabric.protocol.families''
      [P_Ethernet, P_Ipv4, P_Ipv6, P_Vlan, P_Vxlan, P_Geneve, P_Mpls, P_Lacp],
    AddBool ''fabric.forwarding.l2_forwarding'' True,
    AddBool ''fabric.forwarding.l3_forwarding'' True,
    AddBool ''fabric.forwarding.ecmp_supported'' True,
    AddBool ''fabric.forwarding.weighted_ecmp_supported'' True,
    AddQuantity ''fabric.forwarding.max_ecmp_width'' U_Count 64,
    AddBool ''fabric.forwarding.multicast_supported'' True,
    AddBool ''fabric.forwarding.acl_tables_supported'' True,
    AddQuantity ''fabric.forwarding.max_acl_entries'' U_Count 4096,
    AddQuantity ''fabric.forwarding.max_routes_ipv4'' U_Count 65536,
    AddQuantity ''fabric.queue.priority_count'' U_Count 8,
    AddQuantity ''fabric.queue.traffic_class_count'' U_Count (8 + queue_offset),
    AddEnumSet ''fabric.queue.scheduler_classes'' ''fabric.queue.scheduler_class'' [0, 1, 3],
    AddQuantity ''fabric.buffer-exposure.total_packet_buffer'' U_Bytes 67108864,
    AddQuantity ''fabric.buffer-exposure.per_port_buffer_ceiling'' U_Bytes 8388608,
    AddBool ''fabric.buffer-exposure.shared_buffer_supported'' True,
    AddEnumSet ''fabric.buffer-exposure.threshold_mechanisms''
      ''fabric.buffer.threshold_mechanism'' [1, 2, 5],
    AddEnumSet ''fabric.telemetry.families'' ''fabric.telemetry.family'' [0, 1, 2, 3, 5],
    AddBool ''fabric.congestion.ecn_supported'' True,
    AddBool ''fabric.congestion.pfc_supported'' True,
    AddBool ''fabric.congestion.pause_supported'' True,
    AddBool ''fabric.qos.shaper_supported'' True, AddBool ''fabric.qos.policer_supported'' True,
    AddBool ''fabric.qos.strict_priority_supported'' True,
    AddBool ''fabric.qos.weighted_scheduling_supported'' True,
    AddEnumSet ''fabric.tunneling.encapsulations'' ''fabric.tunneling.encapsulation'' [0, 1],
    AddQuantity ''fabric.tunneling.max_tunnel_endpoints'' U_Count 16000,
    AddBool ''fabric.timestamping.hardware_timestamp_supported'' True,
    AddEnumSet ''fabric.optics.transceiver_types'' ''fabric.optics.transceiver_type'' [4, 6],
    AddNumericSet ''fabric.optics.supported_rates'' U_BitsPerSecond [100000000000, 400000000000]]"

definition SpineSwitchClaims :: "u64 \<Rightarrow> capability_claim list" where
  "SpineSwitchClaims queue_offset = add_claims [] [
    AddNumericSet ''fabric.port.supported_speeds'' U_BitsPerSecond [400000000000, 800000000000],
    AddNumericSet ''fabric.port.supported_lane_counts'' U_Count [8, 16],
    AddNumericSet ''fabric.port.lane_rates'' U_BitsPerSecond [50000000000, 100000000000],
    AddRange ''fabric.port.mtu_range'' U_Bytes 1500 9216,
    AddEnumSet ''fabric.port.supported_fec_modes'' ''fabric.port.fec_mode'' [1, 3],
    AddBool ''fabric.forwarding.l2_forwarding'' True,
    AddBool ''fabric.forwarding.l3_forwarding'' True,
    AddBool ''fabric.forwarding.ecmp_supported'' True,
    AddBool ''fabric.forwarding.weighted_ecmp_supported'' True,
    AddQuantity ''fabric.forwarding.max_ecmp_width'' U_Count 256,
    AddQuantity ''fabric.forwarding.max_routes_ipv4'' U_Count 1000000,
    AddQuantity ''fabric.forwarding.max_routes_ipv6'' U_Count 500000,
    AddBool ''fabric.forwarding.segment_routing_supported'' True,
    AddBool ''fabric.forwarding.programmable_forwarding_supported'' True,
    AddQuantity ''fabric.queue.traffic_class_count'' U_Count (8 + queue_offset),
    AddEnumSet ''fabric.queue.scheduler_classes'' ''fabric.queue.scheduler_class'' [0, 1, 3, 4],
    AddQuantity ''fabric.buffer-exposure.total_packet_buffer'' U_Bytes 268435456,
    AddQuantity ''fabric.buffer-exposure.per_port_buffer_ceiling'' U_Bytes 16777216,
    AddBool ''fabric.buffer-exposure.shared_buffer_supported'' True,
    AddEnumSet ''fabric.telemetry.families'' ''fabric.telemetry.family'' [0, 1, 2, 3, 5, 6, 7],
    AddBool ''fabric.congestion.ecn_supported'' True,
    AddBool ''fabric.congestion.pfc_supported'' True,
    AddBool ''fabric.congestion.adaptive_routing_signaling_supported'' True,
    AddBool ''fabric.timestamping.hardware_timestamp_supported'' True,
    AddEnumSet ''fabric.optics.transceiver_types'' ''fabric.optics.transceiver_type'' [6, 7],
    AddEnumSet ''fabric.optics.modulation_formats'' ''fabric.optics.modulation'' [0, 1],
    AddNumericSet ''fabric.optics.supported_rates'' U_BitsPerSecond [400000000000, 800000000000]]"

definition HostNicClaims :: "u64 \<Rightarrow> capability_claim list" where
  "HostNicClaims queue_offset = add_claims [] [
    AddNumericSet ''fabric.port.supported_speeds'' U_BitsPerSecond
      [1000000000, 10000000000, 25000000000],
    AddRange ''fabric.port.mtu_range'' U_Bytes 1500 9000,
    AddQuantity ''fabric.queue.max_rx_queues'' U_Count (16 + queue_offset),
    AddQuantity ''fabric.queue.max_tx_queues'' U_Count (16 + queue_offset),
    AddQuantity ''fabric.queue.priority_count'' U_Count 8,
    AddBool ''fabric.queue.per_queue_telemetry_supported'' True,
    AddBool ''fabric.offload.checksum_rx'' True, AddBool ''fabric.offload.checksum_tx'' True,
    AddBool ''fabric.offload.segmentation_offload'' True,
    AddBool ''fabric.offload.receive_side_scaling'' True,
    AddQuantity ''fabric.offload.max_rss_queues'' U_Count 16,
    AddBool ''fabric.offload.flow_steering'' True, AddBool ''fabric.offload.rdma'' False,
    AddBool ''fabric.virtualization.sriov_supported'' True,
    AddQuantity ''fabric.virtualization.max_virtual_functions'' U_Count 8,
    AddBool ''fabric.virtualization.virtual_ports_supported'' True,
    AddEnumSet ''fabric.telemetry.families'' ''fabric.telemetry.family'' [0, 1],
    AddBool ''fabric.timestamping.software_timestamp_supported'' True,
    AddBool ''fabric.timestamping.hardware_timestamp_supported'' False,
    AddProtocolSet ''fabric.protocol.families'' [P_Ethernet, P_Ipv4, P_Ipv6, P_Vlan],
    AddQuantity ''fabric.buffer-exposure.total_packet_buffer'' U_Bytes 2097152]"

definition SmartNicClaims :: "u64 \<Rightarrow> capability_claim list" where
  "SmartNicClaims queue_offset = add_claims (HostNicClaims queue_offset) [
    AddBool ''fabric.offload.rdma'' True, AddBool ''fabric.offload.crypto'' True,
    AddBool ''fabric.offload.compression'' True,
    AddEnumSet ''fabric.offload.programmable_offload_classes''
      ''fabric.offload.programmable_class'' [0, 1, 2, 3, 5],
    AddEnumSet ''fabric.offload.virtualization_offloads''
      ''fabric.offload.virtualization_class'' [0, 1, 2, 3, 4, 5],
    AddEnumSet ''fabric.offload.tunnel_offloads'' ''fabric.offload.tunnel_class'' [0, 1, 2],
    AddQuantity ''fabric.virtualization.max_virtual_functions'' U_Count 64,
    AddBool ''fabric.virtualization.representors_supported'' True,
    AddBool ''fabric.virtualization.partitioning_supported'' True,
    AddBool ''fabric.timestamping.hardware_timestamp_supported'' True,
    AddEnumSet ''fabric.telemetry.families'' ''fabric.telemetry.family'' [0, 1, 2, 3, 5, 7],
    AddNumericSet ''fabric.port.supported_speeds'' U_BitsPerSecond
      [10000000000, 25000000000, 100000000000]]"

definition DpuClaims :: "u64 \<Rightarrow> capability_claim list" where
  "DpuClaims queue_offset = add_claims (SmartNicClaims queue_offset) [
    AddEnumSet ''fabric.rdma.transport_families'' ''fabric.rdma.transport'' [0, 1],
    AddQuantity ''fabric.rdma.max_queue_pairs'' U_Count 8192,
    AddBool ''fabric.rdma.atomic_operations_supported'' True,
    AddBool ''fabric.rdma.reliable_connection_supported'' True,
    AddQuantity ''fabric.rdma.max_message_size'' U_Bytes 1073741824,
    AddBool ''fabric.offload.accelerator_adjacent_network'' True,
    AddEnumSet ''fabric.telemetry.families''
      ''fabric.telemetry.family'' [0, 1, 2, 3, 4, 5, 6, 7, 10],
    AddEnumSet ''fabric.timestamping.clock_sources''
      ''fabric.timestamping.clock_source'' [0, 1, 3]]"

definition RouterClaims :: "u64 \<Rightarrow> capability_claim list" where
  "RouterClaims queue_offset = add_claims [] [
    AddBool ''fabric.forwarding.l2_forwarding'' True,
    AddBool ''fabric.forwarding.l3_forwarding'' True,
    AddBool ''fabric.forwarding.ecmp_supported'' True,
    AddBool ''fabric.forwarding.weighted_ecmp_supported'' True,
    AddQuantity ''fabric.forwarding.max_ecmp_width'' U_Count 128,
    AddBool ''fabric.forwarding.policy_routing_supported'' True,
    AddBool ''fabric.forwarding.multicast_supported'' True,
    AddBool ''fabric.forwarding.segment_routing_supported'' True,
    AddQuantity ''fabric.forwarding.max_routes_ipv4'' U_Count 2000000,
    AddQuantity ''fabric.forwarding.max_routes_ipv6'' U_Count 1000000,
    AddQuantity ''fabric.forwarding.max_host_entries'' U_Count 100000,
    AddQuantity ''fabric.queue.priority_count'' U_Count (8 + queue_offset),
    AddQuantity ''fabric.qos.priority_count'' U_Count 8,
    AddBool ''fabric.qos.shaper_supported'' True, AddBool ''fabric.qos.policer_supported'' True,
    AddBool ''fabric.qos.marking_supported'' True,
    AddEnumSet ''fabric.qos.trust_modes'' ''fabric.qos.trust_mode'' [0, 1, 2],
    AddProtocolSet ''fabric.protocol.families''
      [P_Ethernet, P_Ipv4, P_Ipv6, P_Vlan, P_Mpls, P_Srv6, P_Lacp],
    AddEnumSet ''fabric.tunneling.encapsulations'' ''fabric.tunneling.encapsulation'' [0, 1, 4, 5],
    AddEnumSet ''fabric.telemetry.families'' ''fabric.telemetry.family'' [0, 4, 7],
    AddBool ''fabric.congestion.ecn_supported'' True,
    AddBool ''fabric.congestion.pfc_supported'' True]"

definition OpticalPortClaims :: "u64 \<Rightarrow> capability_claim list" where
  "OpticalPortClaims queue_offset = add_claims [] [
    AddEnumSet ''fabric.optics.transceiver_types'' ''fabric.optics.transceiver_type'' [1, 2, 6, 7],
    AddNumericSet ''fabric.optics.supported_rates'' U_BitsPerSecond
      [100000000000, 200000000000, 400000000000],
    AddNumericSet ''fabric.optics.lane_counts'' U_Count [4, 8],
    AddEnumSet ''fabric.optics.modulation_formats'' ''fabric.optics.modulation'' [0, 1],
    AddEnumSet ''fabric.optics.fec_modes'' ''fabric.optics.fec_mode'' [1, 2],
    AddNumericSet ''fabric.optics.wavelengths'' U_Nanometers [1310, 1550],
    AddBool ''fabric.optics.diagnostic_monitoring_supported'' True,
    AddEnumSet ''fabric.optics.dom_measurements'' ''fabric.optics.dom_measurement'' [0, 1, 2, 3, 4],
    AddNumericSet ''fabric.port.supported_speeds'' U_BitsPerSecond [100000000000, 400000000000],
    AddEnumSet ''fabric.port.media_types'' ''fabric.port.media_type'' [1, 3],
    AddQuantity ''fabric.port.max_breakout_children'' U_Count 8,
    AddEnumSet ''fabric.telemetry.families'' ''fabric.telemetry.family'' [0, 8, 9],
    AddQuantity ''fabric.queue.priority_count'' U_Count (8 + queue_offset)]"

definition HighSpeedPortClaims :: "u64 \<Rightarrow> capability_claim list" where
  "HighSpeedPortClaims queue_offset = add_claims [] [
    AddNumericSet ''fabric.port.supported_speeds'' U_BitsPerSecond
      [100000000000, 200000000000, 400000000000, 800000000000],
    AddNumericSet ''fabric.port.supported_lane_counts'' U_Count [1, 2, 4, 8],
    AddNumericSet ''fabric.port.lane_rates'' U_BitsPerSecond
      [25000000000, 50000000000, 100000000000],
    AddRange ''fabric.port.mtu_range'' U_Bytes 1500 9216,
    AddQuantity ''fabric.port.max_frame_size'' U_Bytes 9216,
    AddEnumSet ''fabric.port.supported_fec_modes'' ''fabric.port.fec_mode'' [1, 2, 3, 4],
    AddEnumSet ''fabric.port.media_types'' ''fabric.port.media_type'' [1, 2, 3],
    AddEnumSet ''fabric.port.connector_types'' ''fabric.optics.connector_type'' [0, 2],
    AddQuantity ''fabric.port.max_breakout_children'' U_Count 8,
    AddQuantity ''fabric.queue.priority_count'' U_Count 8,
    AddQuantity ''fabric.queue.traffic_class_count'' U_Count (8 + queue_offset),
    AddBool ''fabric.forwarding.l2_forwarding'' True,
    AddBool ''fabric.forwarding.l3_forwarding'' True,
    AddBool ''fabric.timestamping.hardware_timestamp_supported'' True,
    AddEnumSet ''fabric.telemetry.families'' ''fabric.telemetry.family'' [0, 1, 2, 3, 5]]"

definition RdmaClaims :: "u64 \<Rightarrow> capability_claim list" where
  "RdmaClaims queue_offset = add_claims (HostNicClaims queue_offset) [
    AddEnumSet ''fabric.rdma.transport_families'' ''fabric.rdma.transport'' [0, 1, 3],
    AddQuantity ''fabric.rdma.max_queue_pairs'' U_Count 4096,
    AddBool ''fabric.rdma.atomic_operations_supported'' True,
    AddBool ''fabric.rdma.reliable_connection_supported'' True,
    AddBool ''fabric.rdma.memory_window_supported'' True,
    AddQuantity ''fabric.rdma.max_message_size'' U_Bytes 1073741824,
    AddBool ''fabric.offload.rdma'' True,
    AddEnumSet ''fabric.telemetry.families'' ''fabric.telemetry.family'' [0, 1, 2]]"

definition TelemetryRichClaims :: "u64 \<Rightarrow> capability_claim list" where
  "TelemetryRichClaims queue_offset = add_claims (SpineSwitchClaims queue_offset) [
    AddEnumSet ''fabric.telemetry.families''
      ''fabric.telemetry.family'' [0, 1, 2, 3, 4, 5, 6, 7, 8, 9, 10],
    AddQuantity ''fabric.telemetry.max_flow_export_entries'' U_Count 65536,
    AddBool ''fabric.telemetry.histogram_supported'' True,
    AddBool ''fabric.timestamping.hardware_timestamp_supported'' True,
    AddBool ''fabric.timestamping.rx_timestamp_supported'' True,
    AddBool ''fabric.timestamping.tx_timestamp_supported'' True,
    AddEnumSet ''fabric.timestamping.clock_sources''
      ''fabric.timestamping.clock_source'' [0, 1, 3, 4],
    AddEnumSet ''fabric.timestamping.ptp_profiles'' ''fabric.timestamping.ptp_profile'' [0, 1]]"

definition ReducedClaims :: "u64 \<Rightarrow> capability_claim list" where
  "ReducedClaims queue_offset = add_claims [] [
    AddNumericSet ''fabric.port.supported_speeds'' U_BitsPerSecond [1000000000],
    AddRange ''fabric.port.mtu_range'' U_Bytes 1500 1500,
    AddQuantity ''fabric.queue.max_rx_queues'' U_Count (4 + queue_offset),
    AddBool ''fabric.offload.checksum_rx'' True,
    AddEnumSet ''fabric.telemetry.families'' ''fabric.telemetry.family'' [0]]"

fun ClaimsFor :: "synthetic_device_class \<Rightarrow> u64 \<Rightarrow> capability_claim list" where
  "ClaimsFor LeafSwitch queue_offset = LeafSwitchClaims queue_offset"
| "ClaimsFor SpineSwitch queue_offset = SpineSwitchClaims queue_offset"
| "ClaimsFor HostNic queue_offset = HostNicClaims queue_offset"
| "ClaimsFor SmartNic queue_offset = SmartNicClaims queue_offset"
| "ClaimsFor Dpu queue_offset = DpuClaims queue_offset"
| "ClaimsFor Router queue_offset = RouterClaims queue_offset"
| "ClaimsFor OpticalFacingPort queue_offset = OpticalPortClaims queue_offset"
| "ClaimsFor HighSpeedEthernetPort queue_offset = HighSpeedPortClaims queue_offset"
| "ClaimsFor RdmaCapableDevice queue_offset = RdmaClaims queue_offset"
| "ClaimsFor TelemetryRichDevice queue_offset = TelemetryRichClaims queue_offset"
| "ClaimsFor ReducedCapabilityDevice queue_offset = ReducedClaims queue_offset"

section \<open>Publications\<close>

record synthetic_options =
  yo_device_count :: nat
  yo_seed :: u64
  yo_first_generation :: counter
  yo_include_conflicting_source :: bool
  yo_include_changing_source :: bool
  yo_name_offset :: nat

record synthetic_publication =
  yp_entity :: entity_id
  yp_entity_generation :: counter
  yp_source :: token
  yp_publisher :: token
  yp_scope :: token
  yp_provenance :: provenance_class
  yp_source_class :: evidence_source_class
  yp_coverage :: coverage_class
  yp_published :: "capability_claim list"
  yp_reason :: token
  yp_description :: string

definition SourceName :: "device_class_entry \<Rightarrow> string \<Rightarrow> string" where
  "SourceName entry flavour = ''synthetic-source-'' @ dc_token entry @ ''-'' @ flavour"

definition MakeSyntheticEntity :: "synthetic_device_class \<Rightarrow> nat \<Rightarrow> entity_id" where
  "MakeSyntheticEntity device_class index =
     (let entry = EntryFor device_class; digits = nat_text index;
          name = ''syn-'' @ dc_token entry @ ''-'' @ replicate (4 - length digits) CHR ''0'' @ digits
      in case EntityId_Create (dc_kind entry) name of Inl _ \<Rightarrow> EntityId_unset | Inr e \<Rightarrow> e)"

definition IsSyntheticEntity :: "entity_id \<Rightarrow> bool" where
  "IsSyntheticEntity entity \<longleftrightarrow> EntityId_IsSet entity \<and> take 4 (ent_canonical entity) = ''syn-''"

definition xorshift :: "u64 \<Rightarrow> u64" where
  "xorshift st =
     (let st = st XOR push_bit 13 st; st = st XOR drop_bit 7 st in st XOR push_bit 17 st)"

definition queue_offset_of :: "u64 \<Rightarrow> nat \<Rightarrow> u64" where
  "queue_offset_of seed name_index =
     xorshift (seed * 6364136223846793005 + word_of_nat name_index * 1442695040888963407) mod 5"

definition primary_publication ::
  "synthetic_device_class \<Rightarrow> synthetic_options \<Rightarrow> nat \<Rightarrow> synthetic_publication" where
  "primary_publication device_class opts name_index =
     (let entry = EntryFor device_class
      in \<lparr>yp_entity = MakeSyntheticEntity device_class name_index,
          yp_entity_generation = yo_first_generation opts,
          yp_source = parsed_or_unset (SourceId_Parse (SourceName entry ''primary'')),
          yp_publisher = parsed_or_unset (PublisherId_Parse ''synthetic-publisher''),
          yp_scope = parsed_or_unset (AuthorityScopeId_Parse ''synthetic-scope''),
          yp_provenance = Prov_SyntheticTestBackend, yp_source_class = Src_SyntheticBackend,
          yp_coverage = FullEnumeration,
          yp_published = ClaimsFor device_class (queue_offset_of (yo_seed opts) name_index),
          yp_reason = parsed_or_unset (ReasonToken_Parse ''synthetic-profile''),
          yp_description = ''synthetic '' @ dc_name entry @ '' profile''\<rparr>)"

definition altered_claim :: "capability_claim \<Rightarrow> capability_claim" where
  "altered_claim claim =
     (case cl_value claim of
        V_Quantity q \<Rightarrow>
          (case QuantityValue (quantity.q_value q + 64) (q_unit q) of
             Inl _ \<Rightarrow> claim | Inr v \<Rightarrow> claim\<lparr>cl_value := v\<rparr>)
      | _ \<Rightarrow> claim)"

definition add_conflict ::
  "device_class_entry \<Rightarrow> synthetic_publication list \<Rightarrow> synthetic_publication list" where
  "add_conflict entry publications =
     (let conflicting = map altered_claim
            (filter (\<lambda>claim. cap_rendered (cl_capability claim) \<in>
                 {''fabric.queue.max_rx_queues'', ''fabric.forwarding.max_ecmp_width''})
               (yp_published (last publications)))
      in if conflicting = [] then publications
         else publications @ [(last publications)
           \<lparr>yp_source := parsed_or_unset (SourceId_Parse (SourceName entry ''conflict'')),
            yp_coverage := Partial, yp_published := conflicting,
            yp_reason := parsed_or_unset (ReasonToken_Parse ''synthetic-conflicting-source''),
            yp_description := ''synthetic conflicting evidence source''\<rparr>])"

text \<open>The change is derived from the first publication of the whole batch.\<close>

definition add_change ::
  "device_class_entry \<Rightarrow> synthetic_publication list \<Rightarrow> synthetic_publication list" where
  "add_change entry publications =
     (case filter (\<lambda>claim. cap_rendered (cl_capability claim) = ''fabric.port.supported_speeds'')
             (yp_published (hd publications)) of
        [] \<Rightarrow> publications
      | claim # _ \<Rightarrow>
          let upgraded = (case NumericSetValue U_BitsPerSecond [1000000000, 25000000000, 100000000000] of
                Inl _ \<Rightarrow> claim | Inr v \<Rightarrow> claim\<lparr>cl_value := v\<rparr>)
          in publications @ [(hd publications)
               \<lparr>yp_source := parsed_or_unset (SourceId_Parse (SourceName entry ''change'')),
                yp_coverage := Partial, yp_published := [upgraded],
                yp_reason := parsed_or_unset (ReasonToken_Parse ''synthetic-vendor-update''),
                yp_description := ''synthetic vendor update that changes a capability value''\<rparr>])"

definition add_device ::
  "synthetic_device_class \<Rightarrow> synthetic_options \<Rightarrow> synthetic_publication list \<Rightarrow> nat
   \<Rightarrow> synthetic_publication list" where
  "add_device device_class opts publications index =
     (let name_index = yo_name_offset opts + index; entry = EntryFor device_class in
      if \<not> EntityId_IsSet (MakeSyntheticEntity device_class name_index) then publications
      else
        let publications = publications @ [primary_publication device_class opts name_index];
            publications = (if yo_include_conflicting_source opts
              then add_conflict entry publications else publications)
        in if yo_include_changing_source opts then add_change entry publications else publications)"

definition BuildSyntheticFabric ::
  "synthetic_device_class \<Rightarrow> synthetic_options \<Rightarrow> synthetic_publication list" where
  "BuildSyntheticFabric device_class opts =
     foldl (add_device device_class opts) [] [0..<yo_device_count opts]"

section \<open>Every adder only appends labelled claims\<close>

definition labelled :: "capability_claim \<Rightarrow> bool" where
  "labelled c \<longleftrightarrow> cl_state c = St_Supported \<and> cl_provenance c = Prov_SyntheticTestBackend
     \<and> cl_source_class c = Src_SyntheticBackend \<and> cl_durability c = Durable
     \<and> value_ok (cl_value c) \<and> cl_value c \<noteq> V_Absent"

definition appends :: "adder \<Rightarrow> bool" where
  "appends add \<longleftrightarrow> (\<forall>cs. \<exists>ys. add cs = cs @ ys \<and> list_all labelled ys)"

lemma add_built_appends:
  "(\<And>v. built = Inr v \<Longrightarrow> value_ok v \<and> v \<noteq> V_Absent) \<Longrightarrow> appends (add_built capability built)"
  by (cases built)
    (auto simp: appends_def add_built_def labelled_def MakeClaim_def claim_default_def)

lemma built_values:
  "QuantityValue x u = Inr v \<Longrightarrow> v \<noteq> V_Absent" "NumericSetValue u xs = Inr v \<Longrightarrow> v \<noteq> V_Absent"
  "NumericRangeValue u lo hi = Inr v \<Longrightarrow> v \<noteq> V_Absent" "ProtocolSetValue ps = Inr v \<Longrightarrow> v \<noteq> V_Absent"
  "EnumerationSetValue d cs = Inr v \<Longrightarrow> v \<noteq> V_Absent"
  "VersionIntervalValue lo' a hi' b = Inr v \<Longrightarrow> v \<noteq> V_Absent"
  by (auto simp: QuantityValue_def NumericSetValue_def NumericRangeValue_def ProtocolSetValue_def
      EnumerationSetValue_def VersionIntervalValue_def Let_def obind_Inr_iff split: if_splits)

lemma domain_parsed: "EnumDomainId_Parse d = Inr d' \<Longrightarrow> EnumDomainId_Parse d' = Inr d'"
  by (auto simp: EnumDomainId_Parse_def TokenId_Parse_iff)

lemma adders_append [simp]:
  "appends (AddBool i b)" "appends (AddQuantity i u v)" "appends (AddNumericSet i u vs)"
  "appends (AddRange i u lo hi)" "appends (AddProtocolSet i ps)" "appends (AddEnumSet i d cs)"
proof -
  show "appends (AddBool i b)" unfolding AddBool_def
    by (rule add_built_appends) (auto simp: value_ok_def)
  show "appends (AddQuantity i u v)" unfolding AddQuantity_def
    by (rule add_built_appends) (simp add: built_values QuantityValue_ok)
  show "appends (AddNumericSet i u vs)" unfolding AddNumericSet_def
    by (rule add_built_appends) (simp add: built_values NumericSetValue_ok)
  show "appends (AddRange i u lo hi)" unfolding AddRange_def
    by (rule add_built_appends) (simp add: built_values NumericRangeValue_ok)
  show "appends (AddProtocolSet i ps)" unfolding AddProtocolSet_def
    by (rule add_built_appends) (simp add: built_values ProtocolSetValue_ok)
  show "appends (AddEnumSet i d cs)" unfolding AddEnumSet_def
    by (rule add_built_appends)
      (auto simp: obind_Inr_iff dest: domain_parsed EnumerationSetValue_ok built_values)
qed

lemma add_claims_appends:
  "list_all appends adders \<Longrightarrow> \<exists>ys. add_claims cs adders = cs @ ys \<and> list_all labelled ys"
proof (induction adders arbitrary: cs)
  case Nil
  show ?case by (simp add: add_claims_def)
next
  case (Cons add adders)
  then obtain xs where "add cs = cs @ xs" "list_all labelled xs" by (auto simp: appends_def)
  with Cons.IH [of "add cs"] Cons.prems show ?case by (auto simp: add_claims_def)
qed

text \<open>A Boolean claim is always added.\<close>

definition bool_claim :: "string \<Rightarrow> bool \<Rightarrow> capability_claim" where
  "bool_claim i b = (MakeClaim i)\<lparr>cl_value := V_Boolean b\<rparr>"

lemma bool_added:
  "list_all appends adders \<Longrightarrow> AddBool i b \<in> set adders \<Longrightarrow>
     \<exists>ys. add_claims cs adders = cs @ ys \<and> bool_claim i b \<in> set ys"
proof (induction adders arbitrary: cs)
  case (Cons add adders)
  then obtain xs where xs: "add cs = cs @ xs" by (auto simp: appends_def)
  show ?case
  proof (cases "AddBool i b = add")
    case True
    then have "xs = [bool_claim i b]"
      using xs unfolding True [symmetric] by (simp add: AddBool_def add_built_def bool_claim_def)
    moreover obtain ys where "add_claims (add cs) adders = add cs @ ys"
      using add_claims_appends [of adders "add cs"] Cons.prems(1) by auto
    ultimately show ?thesis using xs by (simp add: add_claims_def)
  next
    case False
    then obtain ys where "add_claims (add cs) adders = add cs @ ys" "bool_claim i b \<in> set ys"
      using Cons.IH [of "add cs"] Cons.prems by auto
    with xs show ?thesis by (simp add: add_claims_def)
  qed
qed simp

lemmas claim_lists = LeafSwitchClaims_def SpineSwitchClaims_def HostNicClaims_def SmartNicClaims_def
  DpuClaims_def RouterClaims_def OpticalPortClaims_def HighSpeedPortClaims_def RdmaClaims_def
  TelemetryRichClaims_def ReducedClaims_def

lemma add_claims_labelled:
  "list_all labelled cs \<Longrightarrow> list_all appends adders \<Longrightarrow> list_all labelled (add_claims cs adders)"
  using add_claims_appends [of adders cs] by auto

lemma ClaimsFor_labelled: "list_all labelled (ClaimsFor device_class q)"
proof -
  have "list_all labelled (HostNicClaims q)" "list_all labelled (SpineSwitchClaims q)"
    by (simp_all add: claim_lists add_claims_labelled)
  moreover from this have "list_all labelled (SmartNicClaims q)"
    by (simp add: SmartNicClaims_def add_claims_labelled)
  ultimately show ?thesis
    by (cases device_class)
      (simp_all add: add_claims_labelled LeafSwitchClaims_def DpuClaims_def RouterClaims_def
        OpticalPortClaims_def HighSpeedPortClaims_def RdmaClaims_def TelemetryRichClaims_def ReducedClaims_def)
qed

section \<open>Profiles that claim a capability twice\<close>

definition repeats :: "capability_claim list \<Rightarrow> bool" where
  "repeats cs \<longleftrightarrow> \<not> distinct (map (\<lambda>c. cap_rendered (cl_capability c)) cs)"

lemma repeats_append: "repeats cs \<Longrightarrow> list_all appends adders \<Longrightarrow> repeats (add_claims cs adders)"
  using add_claims_appends [of adders cs] by (auto simp: repeats_def)

lemma bool_repeated:
  assumes "bool_claim i b \<in> set cs" and "AddBool i b' \<in> set adders" and "list_all appends adders"
  shows "repeats (add_claims cs adders)"
proof -
  from bool_added [OF assms(3,2)] obtain ys where ys: "add_claims cs adders = cs @ ys"
    "bool_claim i b' \<in> set ys" by blast
  let ?f = "\<lambda>c :: capability_claim. cap_rendered (cl_capability c)"
  have "?f (bool_claim i b') = ?f (bool_claim i b)" by (simp add: bool_claim_def MakeClaim_def)
  then have "?f (bool_claim i b) \<in> ?f ` set cs \<inter> ?f ` set ys"
    using imageI [OF assms(1), of ?f] imageI [OF ys(2), of ?f] by simp
  then show ?thesis unfolding repeats_def ys(1) map_append distinct_append set_map by blast
qed

lemma bool_member:
  "list_all appends adders \<Longrightarrow> AddBool i b \<in> set adders \<Longrightarrow>
     bool_claim i b \<in> set (add_claims cs adders)"
  using bool_added [of adders i b cs] by auto

lemma host_rdma: "bool_claim ''fabric.offload.rdma'' False \<in> set (HostNicClaims q)"
  unfolding HostNicClaims_def by (rule bool_member) simp_all

lemma spine_timestamp:
  "bool_claim ''fabric.timestamping.hardware_timestamp_supported'' True \<in> set (SpineSwitchClaims q)"
  unfolding SpineSwitchClaims_def by (rule bool_member) simp_all

lemma repeating_profiles:
  assumes "device_class \<in> {SmartNic, Dpu, RdmaCapableDevice, TelemetryRichDevice}"
  shows "repeats (ClaimsFor device_class q)"
proof -
  have smart: "repeats (SmartNicClaims q)"
    unfolding SmartNicClaims_def by (rule bool_repeated [where b' = True, OF host_rdma]) simp_all
  have "repeats (DpuClaims q)"
    unfolding DpuClaims_def by (rule repeats_append [OF smart]) simp_all
  moreover have "repeats (RdmaClaims q)"
    unfolding RdmaClaims_def by (rule bool_repeated [where b' = True, OF host_rdma]) simp_all
  moreover have "repeats (TelemetryRichClaims q)"
    unfolding TelemetryRichClaims_def by (rule bool_repeated [where b' = True, OF spine_timestamp]) simp_all
  ultimately show ?thesis using assms smart by auto
qed

lemma check_claims_distinct:
  "check_claims schema grant seen cs = Inr () \<Longrightarrow>
     distinct (map (\<lambda>c. cap_rendered (cl_capability c)) cs)
     \<and> (\<forall>c\<in>set cs. cap_rendered (cl_capability c) \<notin> seen)"
proof (induction cs arbitrary: seen)
  case (Cons c cs)
  then have "check_claim schema grant seen c = Inr ()"
    and "check_claims schema grant (insert (cap_rendered (cl_capability c)) seen) cs = Inr ()"
    by (auto simp: obind_Inr_iff)
  with Cons.IH [OF this(2)] show ?case by (auto simp: check_claim_def split: if_splits)
qed simp

section \<open>The publications of a fabric\<close>

definition from_backend :: "synthetic_publication \<Rightarrow> bool" where
  "from_backend p \<longleftrightarrow> IsSyntheticEntity (yp_entity p)
     \<and> yp_provenance p = Prov_SyntheticTestBackend \<and> yp_source_class p = Src_SyntheticBackend
     \<and> list_all labelled (yp_published p)"

lemma synthetic_entity:
  "EntityId_IsSet (MakeSyntheticEntity c n) \<Longrightarrow> IsSyntheticEntity (MakeSyntheticEntity c n)"
  by (auto simp: MakeSyntheticEntity_def IsSyntheticEntity_def EntityId_Create_def obind_Inr_iff
      EntityId_IsSet_def EntityId_unset_def Let_def split: sum.splits if_splits)

lemma altered_labelled: "labelled c \<Longrightarrow> labelled (altered_claim c)"
  by (auto simp: altered_claim_def labelled_def dest: QuantityValue_ok built_values
      split: capability_value.splits sum.splits)

lemma list_all_map_filter:
  "list_all P xs \<Longrightarrow> (\<And>x. P x \<Longrightarrow> P (f x)) \<Longrightarrow> list_all P (map f (filter Q xs))"
  by (auto simp: list_all_iff)

lemma conflict_from_backend:
  assumes "ps \<noteq> []" and "list_all from_backend ps"
  shows "list_all from_backend (add_conflict entry ps)"
proof -
  have l: "from_backend (last ps)" using assms by (simp add: list_all_iff)
  then have "list_all labelled (map altered_claim (filter Q (yp_published (last ps))))" for Q
    by (intro list_all_map_filter altered_labelled) (simp_all add: from_backend_def)
  with l assms(2) show ?thesis by (simp add: add_conflict_def Let_def from_backend_def)
qed

lemma change_from_backend:
  assumes "ps \<noteq> []" and "list_all from_backend ps"
  shows "list_all from_backend (add_change entry ps)"
proof (cases "filter (\<lambda>claim. cap_rendered (cl_capability claim) = ''fabric.port.supported_speeds'')
    (yp_published (hd ps))")
  case (Cons c cs)
  then have "c \<in> set (yp_published (hd ps))" by (auto dest!: arg_cong [of _ _ set])
  moreover have "from_backend (hd ps)" using assms by (simp add: list_all_iff)
  ultimately have "labelled c" "from_backend (hd ps)" by (auto simp: from_backend_def list_all_iff)
  with assms(2) Cons show ?thesis
    by (auto simp: add_change_def Let_def from_backend_def labelled_def
        dest: NumericSetValue_ok built_values split: sum.splits)
qed (use assms in \<open>simp add: add_change_def\<close>)

lemma device_from_backend:
  assumes "list_all from_backend ps"
  shows "list_all from_backend (add_device c opts ps n)"
proof -
  let ?p = "primary_publication c opts (yo_name_offset opts + n)"
  have "from_backend ?p" if "EntityId_IsSet (MakeSyntheticEntity c (yo_name_offset opts + n))"
    using synthetic_entity [OF that]
    by (simp add: primary_publication_def from_backend_def ClaimsFor_labelled Let_def)
  with assms have base: "list_all from_backend (ps @ [?p])"
    if "EntityId_IsSet (MakeSyntheticEntity c (yo_name_offset opts + n))" using that by simp
  have ne: "add_conflict entry (ps @ [?p]) \<noteq> []" for entry
    by (simp add: add_conflict_def Let_def)
  show ?thesis
    using assms base unfolding add_device_def
    by (auto simp: Let_def intro!: change_from_backend conflict_from_backend ne)
qed

lemma devices_from_backend:
  "list_all from_backend ps \<Longrightarrow> list_all from_backend (foldl (add_device c opts) ps ns)"
  by (induction ns arbitrary: ps) (simp_all add: device_from_backend)

text \<open>The first publication stays first.\<close>

definition updates_first :: "synthetic_publication list \<Rightarrow> bool" where
  "updates_first ps \<longleftrightarrow> (\<forall>p\<in>set ps.
     yp_description p = ''synthetic vendor update that changes a capability value'' \<longrightarrow>
       yp_entity p = yp_entity (hd ps))"

lemma conflict_updates:
  "ps \<noteq> [] \<Longrightarrow> updates_first ps \<Longrightarrow>
     hd (add_conflict entry ps) = hd ps \<and> updates_first (add_conflict entry ps)"
  by (auto simp: add_conflict_def updates_first_def Let_def)

lemma change_updates:
  "ps \<noteq> [] \<Longrightarrow> updates_first ps \<Longrightarrow>
     hd (add_change entry ps) = hd ps \<and> updates_first (add_change entry ps)"
  by (auto simp: add_change_def updates_first_def Let_def split: list.splits)

lemma primary_updates:
  "updates_first ps \<Longrightarrow> updates_first (ps @ [primary_publication c opts n])"
  by (cases ps) (auto simp: updates_first_def primary_publication_def Let_def)

lemma device_updates: "updates_first ps \<Longrightarrow> updates_first (add_device c opts ps n)"
proof -
  assume "updates_first ps"
  then have p: "updates_first (ps @ [primary_publication c opts (yo_name_offset opts + n)])"
    by (rule primary_updates)
  have ne: "add_conflict entry (ps @ [q]) \<noteq> []" for entry and q :: synthetic_publication
    by (simp add: add_conflict_def Let_def)
  from p conflict_updates [OF _ p] show ?thesis
    using \<open>updates_first ps\<close> change_updates ne by (simp add: add_device_def Let_def)
qed

lemma devices_updates:
  "updates_first ps \<Longrightarrow> updates_first (foldl (add_device c opts) ps ns)"
  by (induction ns arbitrary: ps) (simp_all add: device_updates)

section \<open>Properties\<close>

text \<open>Synthetic facts are labelled. Whatever the class and the options, every publication of a
  synthetic fabric is about an entity with a synthetic name, and each of its claims is a
  supported claim of synthetic provenance and source with a canonical value.\<close>

theorem synthetic_is_labelled:
  "\<forall>p\<in>set (BuildSyntheticFabric device_class opts). IsSyntheticEntity (yp_entity p)
     \<and> yp_provenance p = Prov_SyntheticTestBackend
     \<and> (\<forall>c\<in>set (yp_published p). cl_state c = St_Supported
          \<and> cl_provenance c = Prov_SyntheticTestBackend
          \<and> cl_source_class c = Src_SyntheticBackend
          \<and> cl_value c \<noteq> V_Absent \<and> ValidateCanonical (cl_value c) = Inr ())"
  using devices_from_backend [of "[]" device_class opts "[0..<yo_device_count opts]"]
  by (simp add: BuildSyntheticFabric_def from_backend_def labelled_def list_all_iff value_ok_canonical)

text \<open>Four of the eleven profiles can never be published. The claims of a SmartNIC, a DPU, an
  RDMA device and a telemetry-rich device name a capability twice, and the registry rejects every
  publication of them.\<close>

theorem repeating_profile_rejected:
  assumes "device_class \<in> {SmartNic, Dpu, RdmaCapableDevice, TelemetryRichDevice}"
    and "pq_claims r = ClaimsFor device_class q"
  shows "\<exists>res. fst (Publish g r) = Inr res \<and> pr_status res = Rejected"
proof (rule Publish_invalid)
  fix x show "validate_request g r \<noteq> Inr x"
    using repeating_profiles [OF assms(1)] check_claims_distinct [of "g_schema g" _ "{}" "pq_claims r"]
      assms(2) by (cases x) (auto simp: validate_request_Inr repeats_def)
qed

text \<open>The changing source of every device speaks about the first one. In a fabric of several
  devices each vendor update is derived from the first publication of the batch, so that it names
  the entity of the first device whatever the device it was generated for.\<close>

theorem vendor_updates_name_first_device:
  "\<forall>p\<in>set (BuildSyntheticFabric device_class opts).
     yp_description p = ''synthetic vendor update that changes a capability value'' \<longrightarrow>
       yp_entity p = yp_entity (hd (BuildSyntheticFabric device_class opts))"
  using devices_updates [of "[]" device_class opts "[0..<yo_device_count opts]"]
  by (simp add: BuildSyntheticFabric_def updates_first_def)

lemma repeating_profile_rejected_witness:
  "\<exists>res. fst (Publish demo_published (demo_request\<lparr>pq_claims := ClaimsFor SmartNic 3\<rparr>)) = Inr res
     \<and> pr_status res = Rejected"
  by (rule repeating_profile_rejected [of SmartNic _ 3]) simp_all

definition two_reduced_devices :: synthetic_options where
  "two_reduced_devices = \<lparr>yo_device_count = 2, yo_seed = 1, yo_first_generation = 1,
     yo_include_conflicting_source = False, yo_include_changing_source = True, yo_name_offset = 0\<rparr>"

lemma two_reduced_entities:
  "map (\<lambda>p. (ent_canonical (yp_entity p), yp_description p, length (yp_published p)))
     (BuildSyntheticFabric ReducedCapabilityDevice two_reduced_devices)
   = [(''syn-reduced-0000'', ''synthetic reduced-capability-device profile'', 5),
      (''syn-reduced-0000'', ''synthetic vendor update that changes a capability value'', 1),
      (''syn-reduced-0001'', ''synthetic reduced-capability-device profile'', 5),
      (''syn-reduced-0000'', ''synthetic vendor update that changes a capability value'', 1)]"
  by code_simp

lemma two_reduced_nth:
  defines "fabric \<equiv> BuildSyntheticFabric ReducedCapabilityDevice two_reduced_devices"
  shows "length fabric = 4" and "fabric \<noteq> []"
    and "yp_description (fabric ! 3) = ''synthetic vendor update that changes a capability value''"
    and "ent_canonical (yp_entity (fabric ! 2)) = ''syn-reduced-0001''"
    and "ent_canonical (yp_entity (fabric ! 0)) = ''syn-reduced-0000''"
proof -
  let ?f = "\<lambda>p. (ent_canonical (yp_entity p), yp_description p, length (yp_published p))"
  note e = two_reduced_entities [folded fabric_def]
  from arg_cong [OF e, of length] show l: "length fabric = 4" by simp
  then show "fabric \<noteq> []" by auto
  have n: "?f (fabric ! i) = map ?f fabric ! i" if "i < 4" for i using l that by simp
  show "yp_description (fabric ! 3) = ''synthetic vendor update that changes a capability value''"
    "ent_canonical (yp_entity (fabric ! 2)) = ''syn-reduced-0001''"
    "ent_canonical (yp_entity (fabric ! 0)) = ''syn-reduced-0000''"
    using n [of 3] n [of 2] n [of 0] unfolding e by simp_all
qed

lemma synthetic_is_labelled_witness:
  "IsSyntheticEntity (yp_entity (BuildSyntheticFabric ReducedCapabilityDevice two_reduced_devices ! 2))"
  using synthetic_is_labelled [of ReducedCapabilityDevice two_reduced_devices]
    nth_mem [of 2 "BuildSyntheticFabric ReducedCapabilityDevice two_reduced_devices"] two_reduced_nth(1)
  by simp

lemma vendor_updates_name_first_device_witness:
  "yp_entity (BuildSyntheticFabric ReducedCapabilityDevice two_reduced_devices ! 3)
     \<noteq> yp_entity (BuildSyntheticFabric ReducedCapabilityDevice two_reduced_devices ! 2)"
proof -
  let ?fabric = "BuildSyntheticFabric ReducedCapabilityDevice two_reduced_devices"
  have "?fabric ! 3 \<in> set ?fabric" using two_reduced_nth(1) by (intro nth_mem) simp
  then have "yp_entity (?fabric ! 3) = yp_entity (hd ?fabric)"
    using vendor_updates_name_first_device [of ReducedCapabilityDevice two_reduced_devices]
      two_reduced_nth(3) by blast
  also have "hd ?fabric = ?fabric ! 0" by (rule hd_conv_nth [OF two_reduced_nth(2)])
  finally show ?thesis using two_reduced_nth(4,5) by auto
qed

end
