(* ===== verification/Rendering.thy ===== *)
theory Rendering
  imports WireResult Query Requirement
begin

text \<open>
  The deterministic renderers of \<open>src/src/query.cpp\<close> and the worded verdict on a snapshot. A line
  break is the character 10.
\<close>

section \<open>Names\<close>

fun RequirementOutcomeName :: "requirement_outcome \<Rightarrow> string" where
  "RequirementOutcomeName Satisfied = ''satisfied''"
| "RequirementOutcomeName NotSatisfied = ''not-satisfied''"
| "RequirementOutcomeName Undetermined = ''undetermined''"

fun CapabilityDiffKindName :: "diff_kind \<Rightarrow> string" where
  "CapabilityDiffKindName CapabilityAdded = ''capability-added''"
| "CapabilityDiffKindName CapabilityRemoved = ''capability-removed''"
| "CapabilityDiffKindName StateChanged = ''state-changed''"
| "CapabilityDiffKindName ValueChanged = ''value-changed''"
| "CapabilityDiffKindName ProvenanceChanged = ''provenance-changed''"
| "CapabilityDiffKindName EvidenceSuperseded = ''evidence-superseded''"
| "CapabilityDiffKindName CurrentnessChanged = ''currentness-changed''"
| "CapabilityDiffKindName GenerationAdvanced = ''generation-advanced''"
| "CapabilityDiffKindName EntityGenerationChanged = ''entity-generation-changed''"
| "CapabilityDiffKindName DiffEntityInvalidated = ''entity-invalidated''"

fun IncrementalOperationName :: "incremental_operation \<Rightarrow> string" where
  "IncrementalOperationName UpsertClaim = ''upsert-claim''"
| "IncrementalOperationName WithdrawClaim = ''withdraw-claim''"
| "IncrementalOperationName MarkUnsupported = ''mark-unsupported''"
| "IncrementalOperationName MarkUnknown = ''mark-unknown''"
| "IncrementalOperationName MarkRevalidationRequired = ''mark-revalidation-required''"
| "IncrementalOperationName SupersedeSourceEvidence = ''supersede-source-evidence''"

definition ParseIncrementalOperation :: "string \<Rightarrow> incremental_operation outcome" where
  "ParseIncrementalOperation t =
     (if t = ''upsert-claim'' \<or> t = ''upsert'' then Inr UpsertClaim
      else if t = ''withdraw-claim'' \<or> t = ''withdraw'' then Inr WithdrawClaim
      else if t = ''mark-unsupported'' then Inr MarkUnsupported
      else if t = ''mark-unknown'' then Inr MarkUnknown
      else if t = ''mark-revalidation-required'' then Inr MarkRevalidationRequired
      else if t = ''supersede-source-evidence'' then Inr SupersedeSourceEvidence
      else Inl E_MalformedValue)"

fun PublicationModeName :: "publication_mode \<Rightarrow> string" where
  "PublicationModeName FullSnapshot = ''full-snapshot''"
| "PublicationModeName Incremental = ''incremental''"
| "PublicationModeName PartialObservation = ''partial-observation''"

definition PublicationModeMaskText :: "u8 \<Rightarrow> string" where
  "PublicationModeMaskText modes =
     (let names = (if AllowsMode modes FullSnapshot then [''full''] else [])
            @ (if AllowsMode modes Incremental then [''incremental''] else [])
            @ (if AllowsMode modes PartialObservation then [''partial''] else [])
      in if names = [] then ''none'' else comma_separated names)"

fun PublicationStatusName :: "publication_status \<Rightarrow> string" where
  "PublicationStatusName Committed = ''committed''"
| "PublicationStatusName IdempotentReplay = ''idempotent-replay''"
| "PublicationStatusName Rejected = ''rejected''"

section \<open>Texts\<close>

definition new_line :: string where "new_line = [CHR 0x0A]"

definition ExplanationStep_ToText :: "explanation_step \<Rightarrow> string" where
  "ExplanationStep_ToText step = xs_code step
     @ (if xs_summary step \<noteq> [] then '': '' @ xs_summary step else [])
     @ concat (map (\<lambda>(n, v). new_line @ ''  '' @ n @ ''='' @ v) (xs_fields step))"

definition Explanation_ToText :: "explanation \<Rightarrow> string" where
  "Explanation_ToText x = (if xp_code x = [] then ''explanation'' else xp_code x)
     @ (if xp_summary x \<noteq> [] then '': '' @ xp_summary x else [])
     @ concat (map (\<lambda>step. new_line @ ''- '' @ ExplanationStep_ToText step) (xp_steps x))"

definition value_or_absent :: "bool \<Rightarrow> capability_value \<Rightarrow> string" where
  "value_or_absent present v = (if present then Value_ToText v else ''absent'')"

definition DiffEntry_text :: "described_entry \<Rightarrow> string" where
  "DiffEntry_text e = new_line
     @ (if CapabilityId_IsSet (d_capability e) then cap_rendered (d_capability e) else ''-'')
     @ '' '' @ CapabilityDiffKindName (d_kind e)
     @ '' '' @ CapabilityStateName (d_before_state e) @ ''->'' @ CapabilityStateName (d_after_state e)
     @ (if d_has_before_value e \<or> d_has_after_value e
        then '' value='' @ value_or_absent (d_has_before_value e) (d_before_value e)
          @ ''->'' @ value_or_absent (d_has_after_value e) (d_after_value e) else [])
     @ (if d_kind e = ProvenanceChanged
        then '' provenance='' @ ProvenanceClassName (d_before_provenance e)
          @ ''->'' @ ProvenanceClassName (d_after_provenance e) else [])
     @ (if d_detail e \<noteq> [] then '' detail='' @ d_detail e else [])"

definition Diff_ToText :: "wire_diff \<Rightarrow> string" where
  "Diff_ToText d = ''entity='' @ ent_rendered (wd_entity d)
     @ '' before_entity_generation='' @ Counter_ToString (wd_before_entity_generation d)
     @ '' after_entity_generation='' @ Counter_ToString (wd_after_entity_generation d)
     @ '' before_set_generation='' @ Counter_ToString (wd_before_set_generation d)
     @ '' after_set_generation='' @ Counter_ToString (wd_after_set_generation d)
     @ '' entries='' @ nat_text (length (wd_entries d))
     @ (if wd_entries d = [] then new_line @ ''(no capability difference)''
        else concat (map DiffEntry_text (wd_entries d)))"

definition Resolution_text :: "capability_resolution \<Rightarrow> string" where
  "Resolution_text res = new_line @ ''  capability='' @ cap_rendered (r_capability res)
     @ '' state='' @ CapabilityStateName (r_state res)
     @ '' value='' @ value_or_absent (r_has_value res) (r_value res)
     @ '' provenance='' @ ProvenanceClassName (r_provenance res)
     @ '' source_class='' @ EvidenceSourceClassName (r_source_class res)
     @ '' coverage='' @ CoverageName (r_coverage res)
     @ '' durability='' @ DurabilityClassName (r_durability res)
     @ '' evidence='' @ nat_text (r_evidence_count res)
     @ '' current_evidence='' @ nat_text (r_current_evidence_count res)
     @ '' generation='' @ Counter_ToString (r_capability_generation res)"

definition EntitySet_ToText :: "entity_capability_set \<Rightarrow> string" where
  "EntitySet_ToText s = ''entity='' @ ent_rendered (s_entity s)
     @ '' entity_generation='' @ Counter_ToString (s_entity_generation s)
     @ '' set_generation='' @ Counter_ToString (s_set_generation s)
     @ '' registry_generation='' @ Counter_ToString (s_registry_generation s)
     @ '' capabilities='' @ nat_text (length (s_capabilities s))
     @ '' supported='' @ nat_text (CountOf s St_Supported)
     @ '' unsupported='' @ nat_text (CountOf s St_Unsupported)
     @ '' unknown='' @ nat_text (CountOf s St_Unknown)
     @ '' revalidation_required='' @ nat_text (CountOf s St_RevalidationRequired)
     @ '' conflicted='' @ nat_text (CountOf s St_Conflicted)
     @ '' digest='' @ Digest_ToString (s_digest s)
     @ (if s_invalidated s
        then '' invalidated=true''
          @ (if IsSet (s_invalidation_reason s) then '' reason='' @ s_invalidation_reason s else [])
        else [])
     @ concat (map Resolution_text (s_capabilities s))"

definition Result_ToText :: "wire_result \<Rightarrow> string" where
  "Result_ToText r = ''publication='' @ wr_publication r
     @ '' status='' @ PublicationStatusName (wr_status r) @ '' code='' @ ErrorCodeName (wr_code r)
     @ '' entity='' @ ent_rendered (wr_entity r)
     @ '' entity_generation='' @ Counter_ToString (wr_entity_generation r)
     @ '' previous_set_generation='' @ Counter_ToString (wr_previous_set_generation r)
     @ '' set_generation='' @ Counter_ToString (wr_new_set_generation r)
     @ '' registry_generation='' @ Counter_ToString (wr_registry_generation r)
     @ '' claims_applied='' @ nat_text (unat (wr_claims_applied r))
     @ '' claims_withdrawn='' @ nat_text (unat (wr_claims_withdrawn r))
     @ '' added='' @ nat_text (unat (wr_capabilities_added r))
     @ '' removed='' @ nat_text (unat (wr_capabilities_removed r))
     @ '' changed='' @ nat_text (unat (wr_capabilities_changed r))
     @ (if wr_message r \<noteq> [] then '' message='' @ wr_message r else [])"

definition Snapshot_ToText :: "capability_snapshot \<Rightarrow> string" where
  "Snapshot_ToText s = ''snapshot='' @ ss_id s
     @ '' registry_generation='' @ Counter_ToString (ss_registry_generation s)
     @ '' epoch='' @ Counter_ToString (ss_epoch s)
     @ '' entities='' @ nat_text (length (ss_entities s))
     @ '' digest='' @ Digest_ToString (ss_digest s) @ '' '' @ Scope_ToText (ss_scope s)
     @ concat (map (\<lambda>e. new_line @ ''  entity='' @ ent_rendered (sn_entity e)
         @ '' entity_generation='' @ Counter_ToString (sn_entity_generation e)
         @ '' set_generation='' @ Counter_ToString (sn_set_generation e)
         @ '' digest='' @ Digest_ToString (sn_set_digest e)) (ss_entities s))"

section \<open>The worded verdict on a snapshot\<close>

definition entry_reason :: "registry \<Rightarrow> snapshot_entry \<Rightarrow> string option" where
  "entry_reason g e =
     (case FindEntity g (sn_entity e) of
        None \<Rightarrow> Some (''entity '' @ ent_rendered (sn_entity e) @ '' disappeared'')
      | Some n \<Rightarrow>
          let ent = g_entities g ! n in
          if es_current_generation ent \<noteq> sn_entity_generation e
          then Some (''entity '' @ ent_rendered (sn_entity e) @ '' advanced to generation ''
             @ Counter_ToString (es_current_generation ent))
          else if es_set_generation ent \<noteq> sn_set_generation e
          then Some (''capability set of '' @ ent_rendered (sn_entity e) @ '' advanced to generation ''
             @ Counter_ToString (es_set_generation ent))
          else if set_digest_or_zero ent \<noteq> sn_set_digest e
          then Some (''capability digest of '' @ ent_rendered (sn_entity e) @ '' changed'')
          else None)"

definition snapshot_reasons :: "registry \<Rightarrow> capability_snapshot \<Rightarrow> string list" where
  "snapshot_reasons g s =
     (if ss_registry_generation s \<noteq> g_generation g
      then [''registry generation advanced from '' @ Counter_ToString (ss_registry_generation s)
          @ '' to '' @ Counter_ToString (g_generation g)] else [])
     @ (if ss_epoch s \<noteq> g_epoch g
        then [''coordinator epoch advanced from '' @ Counter_ToString (ss_epoch s)
          @ '' to '' @ Counter_ToString (g_epoch g)] else [])
     @ List.map_filter (entry_reason g) (ss_entities s)"

definition Currentness_ToText :: "registry \<Rightarrow> capability_snapshot \<Rightarrow> string" where
  "Currentness_ToText g s = (if CheckSnapshot g s then ''current=true'' else ''current=false'')
     @ concat (map (\<lambda>reason. new_line @ ''  reason='' @ reason) (snapshot_reasons g s))"

section \<open>Facts\<close>

lemma operation_names: "ParseIncrementalOperation (IncrementalOperationName operation) = Inr operation"
  by (cases operation) (simp_all add: ParseIncrementalOperation_def)

lemma map_filter_Nil: "List.map_filter f xs = [] \<longleftrightarrow> (\<forall>x\<in>set xs. f x = None)"
  by (induction xs) (auto simp: List.map_filter_simps split: option.split)

text \<open>A snapshot is reported current exactly when there is nothing to report. The verdict of the
  check is true if and only if its list of reasons is empty, so a stale snapshot is always
  explained, and a current one never is.\<close>

theorem snapshot_verdict_is_explained: "CheckSnapshot g s \<longleftrightarrow> snapshot_reasons g s = []"
  by (auto simp: CheckSnapshot_def snapshot_reasons_def map_filter_Nil list_all_iff entry_reason_def
      Let_def split: option.splits if_splits)

end
