(* ===== verification/Explanations.thy ===== *)
theory Explanations
  imports Rendering Safety
begin

text \<open>
  The explanations of \<open>src/src/registry.cpp\<close>: the structured account of a resolution, of an answer
  to a query and of a publication. The sentence and the detail of a failed publication, which the
  publication model does not carry, are arguments.
\<close>

section \<open>Steps\<close>

definition MakeStep :: "string \<Rightarrow> string \<Rightarrow> explanation_step" where
  "MakeStep code summary = \<lparr>xs_code = code, xs_summary = summary, xs_fields = []\<rparr>"

definition AddField :: "explanation_step \<Rightarrow> string \<times> string \<Rightarrow> explanation_step" where
  "AddField step field =
     (if length (xs_fields step) \<ge> kMaxTextFieldsPerExplanation then step
      else step\<lparr>xs_fields := xs_fields step @ [field]\<rparr>)"

definition step_with :: "string \<Rightarrow> string \<Rightarrow> (string \<times> string) list \<Rightarrow> explanation_step" where
  "step_with code summary fs = foldl AddField (MakeStep code summary) fs"

section \<open>Resolutions\<close>

definition criteria_step :: "capability_resolution \<Rightarrow> explanation_step" where
  "criteria_step res = step_with ''resolution.criteria''
     (''strongest provenance class wins; agreement within the class resolves, '' @
      ''disagreement is CONFLICTED, absence of current evidence in the strongest '' @
      ''class is REVALIDATION_REQUIRED, and no claim at all is UNKNOWN'')
     [(''evidence'', nat_text (r_evidence_count res)),
      (''current_evidence'', nat_text (r_current_evidence_count res)),
      (''outranked_evidence'', nat_text (r_outranked_evidence_count res)),
      (''conflicting_evidence'', nat_text (r_conflicting_evidence_count res))]"

definition winner_step :: "capability_resolution \<Rightarrow> explanation_step" where
  "winner_step res = step_with ''resolution.winner'' ''winning evidence''
     [(''evidence'', r_winning_evidence res),
      (''provenance'', ProvenanceClassName (r_provenance res)),
      (''source_class'', EvidenceSourceClassName (r_source_class res)),
      (''coverage'', CoverageName (r_coverage res)),
      (''durability'', DurabilityClassName (r_durability res)),
      (''evidence_generation'', Counter_ToString (r_evidence_generation res)),
      (''source_generation'', Counter_ToString (r_source_generation res))]"

definition non_current_step :: "evidence_record \<Rightarrow> explanation_step" where
  "non_current_step e = step_with ''evidence.non-current'' ''evidence retained but not current''
     ([(''evidence'', e_id e), (''currentness'', EvidenceCurrentnessName (e_currentness e)),
       (''source'', e_source e), (''provenance'', ProvenanceClassName (e_provenance e))]
      @ (if IsSet (e_reason e) then [(''reason'', e_reason e)] else []))"

definition omitted_step :: "nat \<Rightarrow> explanation_step" where
  "omitted_step n = step_with ''evidence.non-current-truncated''
     ''further non current evidence omitted'' [(''omitted'', nat_text n)]"

definition ExplainResolution :: "entity_state option \<Rightarrow> capability_entry option \<Rightarrow> explanation" where
  "ExplainResolution ent entry =
     (case ent of
        None \<Rightarrow> \<lparr>xp_code = ''capability.entity-unknown'',
           xp_summary = ''the entity is not known to this registry'', xp_steps = []\<rparr>
      | Some ent \<Rightarrow>
          (case entry of
             None \<Rightarrow> \<lparr>xp_code = ''capability.no-record'',
                xp_summary = ''no capability record exists for this entity generation'', xp_steps = []\<rparr>
           | Some entry \<Rightarrow>
               let res = ce_resolution entry;
                   suppressed = filter (\<lambda>e. \<not> IsCurrent (e_currentness e)) (ce_evidence entry)
               in \<lparr>xp_code = ''capability.'' @ CapabilityStateName (r_state res),
                   xp_summary = ''resolved '' @ cap_rendered (ce_id entry) @ '' as ''
                     @ CapabilityStateName (r_state res) @ '' for '' @ ent_rendered (es_id ent)
                     @ '' generation '' @ Counter_ToString (es_bound_generation ent),
                   xp_steps = [criteria_step res]
                     @ (if IsSet (r_winning_evidence res) then [winner_step res] else [])
                     @ map non_current_step (take 8 suppressed)
                     @ (if length suppressed > 8 then [omitted_step (length suppressed - 8)] else [])\<rparr>))"

definition ExplainCapability :: "registry \<Rightarrow> entity_id \<Rightarrow> capability_id \<Rightarrow> explanation" where
  "ExplainCapability g entity capability =
     (case FindEntity g entity of
        None \<Rightarrow> ExplainResolution None None
      | Some n \<Rightarrow>
          ExplainResolution (Some (g_entities g ! n)) (FindEntry g (g_entities g ! n) capability))"

text \<open>The explanation inside the answer to a query.\<close>

definition invalidated_step :: "entity_state \<Rightarrow> explanation_step" where
  "invalidated_step ent = step_with ''capability.entity-invalidated''
     ''the entity generation was invalidated''
     [(''reason'', if IsSet (es_invalidation_reason ent) then es_invalidation_reason ent
                 else ''unspecified'')]"

definition query_explanation :: "registry \<Rightarrow> entity_id \<Rightarrow> capability_id \<Rightarrow> explanation" where
  "query_explanation g entity capability =
     (case FindEntity g entity of
        None \<Rightarrow> \<lparr>xp_code = ''capability.entity-unknown'',
           xp_summary = ''the entity is not known to this registry'',
           xp_steps = [step_with ''capability.entity-unknown''
             ''no capability truth is held for this entity'' [(''entity'', ent_rendered entity)]]\<rparr>
      | Some n \<Rightarrow>
          let ent = g_entities g ! n;
              no_record = \<lparr>xp_code = ''capability.no-record'',
                xp_summary = ''no capability claim exists for this entity generation'',
                xp_steps = (if es_invalidated ent then [invalidated_step ent] else [])
                  @ [step_with ''capability.no-record''
                       ''the capability has never been claimed for this entity''
                       [(''capability'', cap_rendered capability),
                        (''entity_generation'', Counter_ToString (es_current_generation ent))]]\<rparr>
          in (case FindEntry g ent capability of
                None \<Rightarrow> no_record
              | Some entry \<Rightarrow>
                  if \<not> CapabilityId_IsSet (r_capability (ce_resolution entry)) then no_record
                  else ExplainResolution (Some ent) (Some entry)))"

section \<open>Publications\<close>

definition RejectionExplanation ::
  "error_code \<Rightarrow> string \<Rightarrow> string \<Rightarrow> publication_request \<Rightarrow> explanation" where
  "RejectionExplanation code message detail request =
     \<lparr>xp_code = ''publication.rejected.'' @ ErrorCodeName code, xp_summary = message,
      xp_steps = [step_with ''publication.request'' ''rejected publication request''
          [(''publication'', pq_publication request), (''attempt'', pq_attempt request),
           (''mode'', PublicationModeName (pq_mode request)),
           (''entity'', ent_rendered (pq_entity request)),
           (''entity_generation'', Counter_ToString (pq_entity_generation request)),
           (''expected_set_generation'', Counter_ToString (pq_expected_set_generation request)),
           (''publisher'', ac_publisher (pq_authority request)),
           (''worker_boot'', ac_worker_boot (pq_authority request)),
           (''scope'', ac_scope (pq_authority request)),
           (''claims'', nat_text (length (pq_claims request))),
           (''edits'', nat_text (length (pq_edits request)))]]
        @ (if detail = [] then []
           else [step_with ''publication.failure'' detail [(''error_code'', ErrorCodeName code)]])\<rparr>"

definition replay_explanation ::
  "publication_request \<Rightarrow> replay_record \<Rightarrow> string \<Rightarrow> counter \<Rightarrow> explanation" where
  "replay_explanation request latest content_digest set_generation =
     \<lparr>xp_code = ''publication.idempotent-replay'',
      xp_summary = ''the attempt was already applied; no generation advanced'',
      xp_steps = [step_with ''publication.replay'' ''exact idempotent replay detected''
        [(''attempt'', pq_attempt request), (''publication'', rp_publication latest),
         (''content_digest'', content_digest), (''set_generation'', Counter_ToString set_generation)]]\<rparr>"

definition commit_explanation ::
  "bool \<Rightarrow> publication_request \<Rightarrow> publication_result \<Rightarrow> explanation" where
  "commit_explanation semantic_change request result =
     \<lparr>xp_code = (if semantic_change then ''publication.committed''
                 else ''publication.committed-no-semantic-change''),
      xp_summary = (if semantic_change then ''capability set generation advanced once''
                    else ''the publication produced the same resolved capability set''),
      xp_steps = [step_with ''publication.commit'' ''committed atomically''
        [(''mode'', PublicationModeName (pq_mode request)),
         (''claims_applied'', nat_text (pr_claims_applied result)),
         (''claims_withdrawn'', nat_text (pr_claims_withdrawn result)),
         (''previous_set_generation'', Counter_ToString (pr_previous_set_generation result)),
         (''set_generation'', Counter_ToString (pr_new_set_generation result)),
         (''registry_generation'', Counter_ToString (pr_registry_generation result)),
         (''set_digest'', Digest_ToString (pr_set_digest result)),
         (''semantic_change'', if semantic_change then ''true'' else ''false'')]]\<rparr>"

section \<open>The journal\<close>

text \<open>What a retained publication stored in words: its explanation and its message.\<close>

record journal_text =
  jt_explanation :: explanation
  jt_message :: string

definition add_step :: "explanation_step \<Rightarrow> explanation \<Rightarrow> explanation" where
  "add_step step x = x\<lparr>xp_steps := xp_steps x @ [step]\<rparr>"

definition ExplainPublication ::
  "(token \<Rightarrow> journal_text) \<Rightarrow> registry \<Rightarrow> token \<Rightarrow> explanation outcome" where
  "ExplainPublication texts g publication =
     (case map_of (g_journal g) publication of
        None \<Rightarrow> Inl E_NotFound
      | Some j \<Rightarrow> Inr (add_step (step_with ''publication.journal'' ''retained publication outcome''
          [(''publication'', j_publication j), (''attempt'', j_attempt j),
           (''status'', PublicationStatusName (j_status j)), (''code'', ErrorCodeName (j_code j)),
           (''message'', jt_message (texts publication)), (''entity'', ent_rendered (j_entity j)),
           (''entity_generation'', Counter_ToString (j_entity_generation j)),
           (''previous_set_generation'', Counter_ToString (j_previous_generation j)),
           (''set_generation'', Counter_ToString (j_new_generation j)),
           (''registry_generation'', Counter_ToString (j_registry_generation j))])
          (jt_explanation (texts publication))))"

definition ExplainReplay ::
  "(token \<Rightarrow> journal_text) \<Rightarrow> registry \<Rightarrow> token \<Rightarrow> explanation outcome" where
  "ExplainReplay texts g attempt =
     (case g_attempt_journal g attempt of
        None \<Rightarrow> Inl E_NotFound
      | Some publication \<Rightarrow> ExplainPublication texts g publication)"

definition ExplainGeneration ::
  "(token \<Rightarrow> journal_text) \<Rightarrow> registry \<Rightarrow> entity_id \<Rightarrow> counter \<Rightarrow> explanation outcome" where
  "ExplainGeneration texts g entity generation =
     (case filter (\<lambda>publication. \<exists>j. map_of (g_journal g) publication = Some j
             \<and> j_entity j = entity \<and> j_new_generation j = generation) (g_journal_order g) of
        [] \<Rightarrow> Inl E_NotFound
      | publication # _ \<Rightarrow>
          (let j = the (map_of (g_journal g) publication)
           in Inr (add_step (step_with ''generation.advanced'' ''capability set generation history''
             [(''entity'', ent_rendered entity),
              (''previous_set_generation'', Counter_ToString (j_previous_generation j)),
              (''set_generation'', Counter_ToString (j_new_generation j)),
              (''attempt'', j_attempt j),
              (''publisher_status'', PublicationStatusName (j_status j))])
             (jt_explanation (texts publication)))))"

section \<open>Facts\<close>

lemma step_with_fields:
  "length fs \<le> kMaxTextFieldsPerExplanation \<Longrightarrow>
     step_with code summary fs = \<lparr>xs_code = code, xs_summary = summary, xs_fields = fs\<rparr>"
proof -
  have "length (xs_fields s) + length fs \<le> kMaxTextFieldsPerExplanation \<Longrightarrow>
      foldl AddField s fs = s\<lparr>xs_fields := xs_fields s @ fs\<rparr>" for s
    by (induction fs arbitrary: s) (simp_all add: AddField_def)
  then show "length fs \<le> kMaxTextFieldsPerExplanation \<Longrightarrow> ?thesis"
    by (simp add: step_with_def MakeStep_def)
qed

lemma criteria_fields: "xs_fields (criteria_step res) =
    [(''evidence'', nat_text (r_evidence_count res)),
     (''current_evidence'', nat_text (r_current_evidence_count res)),
     (''outranked_evidence'', nat_text (r_outranked_evidence_count res)),
     (''conflicting_evidence'', nat_text (r_conflicting_evidence_count res))]"
  by (simp add: criteria_step_def step_with_fields)

lemmas explanation_steps = criteria_step_def winner_step_def non_current_step_def omitted_step_def
  invalidated_step_def step_with_fields

text \<open>An answer with a record comes from an entry of a known entity.\<close>

lemma query_record:
  assumes "q_record_exists (Query g entity capability)"
  obtains n entry where "FindEntity g entity = Some n" "FindEntry g (g_entities g ! n) capability = Some entry"
    "CapabilityId_IsSet (r_capability (ce_resolution entry))"
    "q_state (Query g entity capability) = r_state (ce_resolution entry)"
    "q_winning_evidence (Query g entity capability) = r_winning_evidence (ce_resolution entry)"
    "q_evidence_count (Query g entity capability) = r_evidence_count (ce_resolution entry)"
    "q_current_evidence_count (Query g entity capability) = r_current_evidence_count (ce_resolution entry)"
    "q_outranked_evidence_count (Query g entity capability) = r_outranked_evidence_count (ce_resolution entry)"
    "q_conflicting_evidence_count (Query g entity capability) = r_conflicting_evidence_count (ce_resolution entry)"
  using assms
  by (auto simp: Query_def query_unknown_def Let_def split: option.splits if_splits)

section \<open>Properties\<close>

text \<open>The explanation of an answer agrees with the answer. When a query finds a record, its
  explanation is the one \<open>ExplainCapability\<close> gives; its code names the state of the answer, its first
  step reports the four evidence counts of the answer, and a winner is described exactly when the
  answer names one. It never has more than eleven steps, and none of them says that the entity was
  invalidated, even when it was.\<close>

theorem explanation_agrees_with_answer:
  assumes "q_record_exists (Query g entity capability)"
  shows "query_explanation g entity capability = ExplainCapability g entity capability
    \<and> xp_code (query_explanation g entity capability)
        = ''capability.'' @ CapabilityStateName (q_state (Query g entity capability))
    \<and> (\<exists>criteria more. xp_steps (query_explanation g entity capability) = criteria # more
        \<and> xs_fields criteria =
            [(''evidence'', nat_text (q_evidence_count (Query g entity capability))),
             (''current_evidence'', nat_text (q_current_evidence_count (Query g entity capability))),
             (''outranked_evidence'', nat_text (q_outranked_evidence_count (Query g entity capability))),
             (''conflicting_evidence'', nat_text (q_conflicting_evidence_count (Query g entity capability)))])
    \<and> ((\<exists>s\<in>set (xp_steps (query_explanation g entity capability)). xs_code s = ''resolution.winner'')
         \<longleftrightarrow> IsSet (q_winning_evidence (Query g entity capability)))
    \<and> length (xp_steps (query_explanation g entity capability)) \<le> 11
    \<and> (\<forall>s\<in>set (xp_steps (query_explanation g entity capability)).
         xs_code s \<noteq> ''capability.entity-invalidated'')"
proof -
  obtain n entry where found: "FindEntity g entity = Some n"
      "FindEntry g (g_entities g ! n) capability = Some entry"
      "CapabilityId_IsSet (r_capability (ce_resolution entry))"
    and q: "q_state (Query g entity capability) = r_state (ce_resolution entry)"
      "q_winning_evidence (Query g entity capability) = r_winning_evidence (ce_resolution entry)"
      "q_evidence_count (Query g entity capability) = r_evidence_count (ce_resolution entry)"
      "q_current_evidence_count (Query g entity capability) = r_current_evidence_count (ce_resolution entry)"
      "q_outranked_evidence_count (Query g entity capability) = r_outranked_evidence_count (ce_resolution entry)"
      "q_conflicting_evidence_count (Query g entity capability) = r_conflicting_evidence_count (ce_resolution entry)"
    by (rule query_record [OF assms])
  let ?x = "ExplainResolution (Some (g_entities g ! n)) (Some entry)"
  have x: "query_explanation g entity capability = ?x" "ExplainCapability g entity capability = ?x"
    using found by (simp_all add: query_explanation_def ExplainCapability_def Let_def)
  have codes: "xs_code (criteria_step res) = ''resolution.criteria''" "xs_code (winner_step res) = ''resolution.winner''"
    "xs_code (non_current_step e) = ''evidence.non-current''"
    "xs_code (omitted_step k) = ''evidence.non-current-truncated''" for res e k
    by (simp_all add: explanation_steps)
  show ?thesis
    unfolding x q by (auto simp: ExplainResolution_def Let_def codes criteria_fields)
qed

lemma explanation_agrees_with_answer_witness:
  "\<exists>criteria more. xp_code (query_explanation demo_published demo_entity demo_capability) = ''capability.SUPPORTED''
     \<and> xp_steps (query_explanation demo_published demo_entity demo_capability) = criteria # more"
proof -
  have "q_record_exists (Query demo_published demo_entity demo_capability)"
    using demo_query(3) by (auto simp: Query_def query_unknown_def Let_def split: option.splits if_splits)
  from explanation_agrees_with_answer [OF this] demo_query(3) show ?thesis by auto
qed

definition unnamed_request :: publication_request where
  "unnamed_request = demo_request\<lparr>pq_entity := EntityId_unset\<rparr>"

lemma demo_journal:
  "\<exists>j. g_journal demo_published = [(''pub-1'', j)] \<and> j_entity j = demo_entity \<and> j_new_generation j = 1"
  "g_journal_order demo_published = [''pub-1'']"
proof -
  have gen: "es_set_generation (put_entry 0 demo_entry (entity_new demo_entity 1 0)) = 0"
    by (simp add: put_entry_def entity_new_def)
  have next': "Counter_Next (0 :: counter) = Inr 1" by (simp add: Counter_Next_def)
  have ids: "pq_attempt demo_request = ''attempt-1''" "pq_publication demo_request = ''pub-1''"
    "pq_entity demo_request = demo_entity"
    by (simp_all add: demo_request_def)
  have journal: "g_journal demo_applied_registry = []" "g_journal_order demo_applied_registry = []"
    by (simp_all add: demo_applied_registry_def close_work_def put_entity_def create_entity_def
        demo_registered_eq Registry_new_def Let_def)
  show "\<exists>j. g_journal demo_published = [(''pub-1'', j)] \<and> j_entity j = demo_entity \<and> j_new_generation j = 1"
    "g_journal_order demo_published = [''pub-1'']"
    by (simp_all add: demo_published_def demo_publish_commit commit_def Let_def demo_applied_fields gen
        next' ids journal RecordJournal_def RegisterReplay_def put_entity_def options_default_def
        journal_of_def base_result_def split: option.split)
qed

lemma unnamed_rejected:
  "Publish demo_published unnamed_request = reject demo_published unnamed_request E_InvalidArgument"
  by (simp add: Publish_def validate_request_def shape_check_def unnamed_request_def demo_request_def
      IsSet_def EntityId_IsSet_def EntityId_unset_def Let_def)

text \<open>C14. A rejection erases the account of a commit. There is a reachable registry in which the commit
  that advanced a capability set to generation 1 is explained, and a rejected request under the
  same publication identifier after which it is not, though the set is still at generation 1: the
  journal keeps one entry for each publication identifier, and the rejection takes its place.\<close>

theorem rejection_erases_commit:
  "\<exists>g r res g'. reachable g \<and> (\<exists>x. ExplainGeneration texts g demo_entity 1 = Inr x)
     \<and> Publish g r = (Inr res, g') \<and> pr_status res = Rejected
     \<and> ExplainGeneration texts g' demo_entity 1 = Inl E_NotFound
     \<and> g_entities g' = g_entities g \<and> es_set_generation (g_entities g' ! 0) = 1"
proof -
  obtain res g' where p: "Publish demo_published unnamed_request = (Inr res, g')"
    by (simp add: unnamed_rejected reject_def Let_def)
  obtain j where j: "g_journal demo_published = [(''pub-1'', j)]" "j_entity j = demo_entity" "j_new_generation j = 1"
    using demo_journal(1) by blast
  have ids: "pq_attempt unnamed_request = ''attempt-1''" "pq_publication unnamed_request = ''pub-1''"
    "pq_entity unnamed_request = EntityId_unset"
    by (simp_all add: unnamed_request_def demo_request_def)
  have res: "pr_status res = Rejected"
    and after: "g' = RecordJournal (journal_of demo_published unnamed_request res) demo_published"
    using p ids by (auto simp: unnamed_rejected reject_def Let_def IsSet_def base_result_def)
  have "demo_entity \<noteq> EntityId_unset" by (simp add: demo_entity_def EntityId_unset_def)
  then have lost: "ExplainGeneration texts g' demo_entity 1 = Inl E_NotFound"
    by (simp add: after RecordJournal_def Let_def j demo_journal(2) demo_published_fields options_default_def
        journal_of_def ids ExplainGeneration_def)
  have kept: "g_entities g' = g_entities demo_published"
    by (simp add: after RecordJournal_def Let_def demo_published_fields j demo_journal(2) options_default_def)
  have gen: "es_set_generation (g_entities demo_published ! 0) = 1"
    by (simp add: demo_published_fields demo_committed_def raise_high_water_def committed_entity_def Let_def)
  have "\<exists>x. ExplainGeneration texts demo_published demo_entity 1 = Inr x"
    by (simp add: ExplainGeneration_def demo_journal(2) j Let_def)
  with p res lost kept gen demo_reachable(2) show ?thesis
    by (intro exI [of _ demo_published] exI [of _ unnamed_request] exI [of _ res] exI [of _ g']) simp
qed

end
