(* ===== verification/ToolParsing.thy ===== *)
theory ToolParsing
  imports Requirement CanonicalSchema
begin

text \<open>
  The readers of the command line tools (\<open>src/tools/fcr_publisher/main.cpp\<close>,
  \<open>src/tools/fcr_coordinator/main.cpp\<close>, \<open>src/tools/fcrctl/main.cpp\<close>): numbers, lists, claim values,
  quantities with a unit, and requirement expressions.
\<close>

section \<open>Numbers\<close>

fun digits_value :: "u64 \<Rightarrow> string \<Rightarrow> u64 option" where
  "digits_value v [] = Some v"
| "digits_value v (ch # cs) =
     (if ch < CHR ''0'' \<or> ch > CHR ''9'' then None
      else let v = v * 10 + (of_nat (of_char ch :: nat) - 48)
           in if v > kMaxQuantity then None else digits_value v cs)"

definition ParseU64 :: "string \<Rightarrow> u64 option" where
  "ParseU64 t = (if t = [] then None else digits_value 0 t)"

definition ParseU32 :: "string \<Rightarrow> u32 option" where
  "ParseU32 t =
     (case ParseU64 t of
        None \<Rightarrow> None
      | Some v \<Rightarrow> if v > 0xFFFFFFFF then None else Some (ucast v))"

text \<open>The number a text of digits denotes.\<close>

definition decimal_from :: "nat \<Rightarrow> string \<Rightarrow> nat" where
  "decimal_from = foldl (\<lambda>n ch. n * 10 + (of_char ch - 48))"

text \<open>\<open>std::strtol\<close> in base ten: blanks, a sign, and the digits up to the first other character.\<close>

definition white :: "char \<Rightarrow> bool" where
  "white ch \<longleftrightarrow> ch = CHR '' '' \<or> CHR 0x09 \<le> ch \<and> ch \<le> CHR 0x0D"

definition strtol10 :: "string \<Rightarrow> int" where
  "strtol10 t =
     (let t = dropWhile white t;
          negative = (t \<noteq> [] \<and> hd t = CHR ''-'');
          t = (if t \<noteq> [] \<and> (hd t = CHR ''-'' \<or> hd t = CHR ''+'') then tl t else t);
          n = int (decimal_from 0 (takeWhile IsDigit t))
      in if negative then max (- (2 ^ 63)) (- n) else min (2 ^ 63 - 1) n)"

definition parsed_or :: "'a outcome \<Rightarrow> 'a option" where
  "parsed_or m = (case m of Inl _ \<Rightarrow> None | Inr x \<Rightarrow> Some x)"

section \<open>Lists\<close>

fun split_loop :: "char \<Rightarrow> string \<Rightarrow> string \<Rightarrow> string list" where
  "split_loop separator current [] = [current]"
| "split_loop separator current (ch # t) =
     (if ch = separator then current # split_loop separator [] t
      else split_loop separator (current @ [ch]) t)"

definition Split :: "string \<Rightarrow> char \<Rightarrow> string list" where
  "Split t separator = split_loop separator [] t"

fun split_list_loop :: "char \<Rightarrow> string \<Rightarrow> string \<Rightarrow> string list" where
  "split_list_loop separator current [] = (if current \<noteq> [] then [current] else [])"
| "split_list_loop separator current (ch # t) =
     (if ch = separator
      then (if current \<noteq> [] then [current] else []) @ split_list_loop separator [] t
      else split_list_loop separator (current @ [ch]) t)"

definition SplitList :: "string \<Rightarrow> char \<Rightarrow> string list" where
  "SplitList t separator = split_list_loop separator [] t"

lemma SplitList_Split: "SplitList t separator = filter (\<lambda>x. x \<noteq> []) (Split t separator)"
proof -
  have "split_list_loop separator current t = filter (\<lambda>x. x \<noteq> []) (split_loop separator current t)" for current
    by (induction t arbitrary: current) auto
  then show ?thesis by (simp add: SplitList_def Split_def)
qed

definition blank :: "char \<Rightarrow> bool" where
  "blank ch \<longleftrightarrow> ch = CHR '' '' \<or> ch = CHR 0x09"

definition Trim :: "string \<Rightarrow> string" where
  "Trim t = rev (dropWhile blank (rev (dropWhile blank t)))"

text \<open>\<open>std::string::find\<close> of a text, and the text before and after it.\<close>

fun find_text :: "string \<Rightarrow> string \<Rightarrow> nat option" where
  "find_text pat [] = (if pat = [] then Some 0 else None)"
| "find_text pat (ch # t) =
     (if take (length pat) (ch # t) = pat then Some 0 else map_option Suc (find_text pat t))"

section \<open>Claim values\<close>

definition required :: "error_code \<Rightarrow> 'a option \<Rightarrow> 'a outcome" where
  "required e x = (case x of None \<Rightarrow> Inl e | Some y \<Rightarrow> Inr y)"

fun each_item :: "('a \<Rightarrow> 'b outcome) \<Rightarrow> 'a list \<Rightarrow> 'b list outcome" where
  "each_item f [] = Inr []"
| "each_item f (x # xs) = obind (f x) (\<lambda>y. obind (each_item f xs) (\<lambda>ys. Inr (y # ys)))"

definition parse_kind :: "string \<Rightarrow> string \<Rightarrow> capability_value outcome" where
  "parse_kind kind body =
     (if kind = ''bool''
      then (if body = ''true'' then Inr (V_Boolean True)
            else if body = ''false'' then Inr (V_Boolean False) else Inl E_MalformedValue)
      else if kind = ''u64''
      then obind (required E_MalformedValue (ParseU64 body)) (\<lambda>v.
             if v > 2305843009213693952 then Inl E_ValueOutOfRange
             else Inr (V_Integer (sint v)))
      else if kind = ''quantity''
      then (case SplitList body CHR '':'' of
              [n, unt] \<Rightarrow> obind (required E_MalformedValue (ParseU64 n)) (\<lambda>v.
                obind (ParseUnit unt) (\<lambda>unt. QuantityValue v unt))
            | _ \<Rightarrow> Inl E_MalformedValue)
      else if kind = ''numericset''
      then (case SplitList body CHR '':'' of
              [unt, items] \<Rightarrow> obind (ParseUnit unt) (\<lambda>unt.
                obind (each_item (\<lambda>item. required E_MalformedValue (ParseU64 item))
                  (SplitList items CHR '','')) (\<lambda>vs. NumericSetValue unt vs))
            | _ \<Rightarrow> Inl E_MalformedValue)
      else if kind = ''range''
      then (case SplitList body CHR '':'' of
              [unt, lo, hi] \<Rightarrow> obind (ParseUnit unt) (\<lambda>unt.
                obind (required E_MalformedValue (ParseU64 lo)) (\<lambda>lo.
                obind (required E_MalformedValue (ParseU64 hi)) (\<lambda>hi. NumericRangeValue unt lo hi)))
            | _ \<Rightarrow> Inl E_MalformedValue)
      else if kind = ''versionset''
      then (case SplitList body CHR '':'' of
              [lo, hi] \<Rightarrow> obind (Version_Parse lo) (\<lambda>lo. obind (Version_Parse hi) (\<lambda>hi.
                VersionIntervalValue lo True hi True))
            | _ \<Rightarrow> Inl E_MalformedValue)
      else if kind = ''enumset''
      then (case SplitList body CHR '':'' of
              [domain, items] \<Rightarrow> obind (EnumDomainId_Parse domain) (\<lambda>domain.
                obind (each_item (\<lambda>item. required E_MalformedValue (ParseU32 item))
                  (SplitList items CHR '','')) (\<lambda>codes. EnumerationSetValue domain codes))
            | _ \<Rightarrow> Inl E_MalformedValue)
      else if kind = ''protocolset''
      then obind (each_item ParseProtocol (SplitList body CHR '','')) ProtocolSetValue
      else Inl E_MalformedValue)"

definition ParseValue :: "string \<Rightarrow> capability_value outcome" where
  "ParseValue t =
     (case dropWhile (\<lambda>ch. ch \<noteq> CHR '':'') t of
        [] \<Rightarrow> Inl E_MalformedValue
      | _ # body \<Rightarrow> parse_kind (takeWhile (\<lambda>ch. ch \<noteq> CHR '':'') t) body)"

section \<open>Quantities\<close>

definition unit_char :: "char \<Rightarrow> bool" where
  "unit_char ch \<longleftrightarrow> CHR ''a'' \<le> ch \<and> ch \<le> CHR ''z'' \<or> CHR ''A'' \<le> ch \<and> ch \<le> CHR ''Z'' \<or> ch = CHR ''/''"

text \<open>The unit is the longest end of the text made of letters and slashes; the number is the rest.\<close>

definition quantity_number :: "string \<Rightarrow> string" where
  "quantity_number trimmed = rev (dropWhile unit_char (rev trimmed))"

definition quantity_unit :: "string \<Rightarrow> string" where
  "quantity_unit trimmed = rev (takeWhile unit_char (rev trimmed))"

definition suffixes :: "(string \<times> u64) list" where
  "suffixes = [(''Ki'', 1024), (''Mi'', 1048576), (''Gi'', 1073741824), (''Ti'', 1099511627776),
     (''k'', 1000), (''M'', 1000000), (''G'', 1000000000), (''T'', 1000000000000)]"

definition quantity_suffix :: "string \<Rightarrow> (string \<times> u64) option" where
  "quantity_suffix digits =
     find (\<lambda>(s, _). length digits > length s \<and> drop (length digits - length s) digits = s) suffixes"

definition ParseQuantity :: "string \<Rightarrow> string \<Rightarrow> capability_value option" where
  "ParseQuantity t default_unit =
     (let trimmed = Trim t;
          digits = quantity_number trimmed;
          unt = Trim (quantity_unit trimmed);
          unt = (if unt = [] then default_unit else unt);
          (digits, multiplier) = (case quantity_suffix digits of
             None \<Rightarrow> (digits, 1)
           | Some (s, m) \<Rightarrow> (take (length digits - length s) digits, m))
      in case ParseU64 digits of
           None \<Rightarrow> None
         | Some v \<Rightarrow>
             (case CheckedMul v multiplier of
                Inl _ \<Rightarrow> None
              | Inr product \<Rightarrow>
                  if product > kMaxQuantity then None
                  else case obind (ParseUnit unt) (QuantityValue product) of
                    Inl _ \<Rightarrow> None | Inr built \<Rightarrow> Some built))"

section \<open>Requirement expressions\<close>

text \<open>Reading an expression gives a requirement, an error message, or the exception that the tool lets
  escape.\<close>

datatype 'a reading = Read 'a | Malformed string | Throws

definition quoted :: "string \<Rightarrow> string \<Rightarrow> string" where
  "quoted before t = before @ CHR 0x27 # t @ [CHR 0x27]"

definition leaf_shape ::
  "string \<Rightarrow> (requirement_node \<times> string \<times> string) reading" where
  "leaf_shape leaf =
     (case find_text ''>='' leaf of
        Some n \<Rightarrow> Read (requirement_node_default\<lparr>rq_kind := RK_Minimum\<rparr>, Trim (take n leaf), drop (n + 2) leaf)
      | None \<Rightarrow>
     (case find_text ''<='' leaf of
        Some n \<Rightarrow> Read (requirement_node_default\<lparr>rq_kind := RK_Maximum\<rparr>, Trim (take n leaf), drop (n + 2) leaf)
      | None \<Rightarrow>
     (case find_text '' contains '' leaf of
        Some n \<Rightarrow>
          (let protocol = Trim (drop (n + 10) leaf) in
           case ParseProtocol protocol of
             Inl _ \<Rightarrow> Malformed (quoted ''unknown protocol '' protocol)
           | Inr p \<Rightarrow> Read (requirement_node_default\<lparr>rq_kind := RK_ProtocolSupported,
               rq_operand_protocol := p\<rparr>, Trim (take n leaf), []))
      | None \<Rightarrow>
     (case find_text ''='' leaf of
        Some n \<Rightarrow>
          (let st = Trim (drop (n + 1) leaf) in
           case ParseCapabilityState st of
             Inl _ \<Rightarrow> Malformed (quoted ''unknown capability state '' st)
           | Inr s \<Rightarrow> Read (requirement_node_default\<lparr>rq_kind := RK_StateIs,
               rq_required_state := s\<rparr>, Trim (take n leaf), []))
      | None \<Rightarrow> Malformed (quoted ''cannot parse requirement leaf '' leaf)))))"

definition leaf_operand :: "requirement_node \<Rightarrow> string \<Rightarrow> requirement_node reading" where
  "leaf_operand r remainder =
     (if rq_kind r = RK_Minimum \<or> rq_kind r = RK_Maximum
      then (case ParseQuantity remainder [] of
              Some v \<Rightarrow> Read (r\<lparr>rq_operand := v\<rparr>)
            | None \<Rightarrow>
                (case ParseQuantity remainder ''count'' of
                   Some v \<Rightarrow> Read (r\<lparr>rq_operand := v\<rparr>)
                 | None \<Rightarrow> Malformed (quoted ''cannot parse quantity '' (Trim remainder))))
      else Read r)"

definition build_leaf :: "string \<Rightarrow> requirement reading" where
  "build_leaf leaf =
     (case leaf_shape leaf of
        Malformed e \<Rightarrow> Malformed e
      | Throws \<Rightarrow> Throws
      | Read (r, capability_text, remainder) \<Rightarrow>
          (case CapabilityId_Parse capability_text of
             Inl _ \<Rightarrow> Malformed (quoted ''malformed capability identifier '' capability_text)
           | Inr capability \<Rightarrow>
               (case leaf_operand (r\<lparr>rq_capability := capability\<rparr>) remainder of
                  Malformed e \<Rightarrow> Malformed e
                | Throws \<Rightarrow> Throws
                | Read r \<Rightarrow>
                    (case RequirementName_Parse (take 96 leaf) of
                       Inl _ \<Rightarrow> Throws
                     | Inr name \<Rightarrow> Read (Requirement (r\<lparr>rq_name := name\<rparr>) [])))))"

fun build_leaves :: "string list \<Rightarrow> requirement list reading" where
  "build_leaves [] = Read []"
| "build_leaves (raw # raws) =
     (let leaf = Trim raw in
      if leaf = [] then build_leaves raws
      else case build_leaf leaf of
        Malformed e \<Rightarrow> Malformed e
      | Throws \<Rightarrow> Throws
      | Read r \<Rightarrow>
          (case build_leaves raws of
             Malformed e \<Rightarrow> Malformed e | Throws \<Rightarrow> Throws | Read rs \<Rightarrow> Read (r # rs)))"

definition BuildRequirement :: "string \<Rightarrow> requirement reading" where
  "BuildRequirement expression =
     (case build_leaves (Split expression CHR '';'') of
        Malformed e \<Rightarrow> Malformed e
      | Throws \<Rightarrow> Throws
      | Read [] \<Rightarrow> Malformed ''the requirement expression is empty''
      | Read rs \<Rightarrow> Read (Requirement (requirement_node_default\<lparr>rq_kind := RK_AllOf\<rparr>) rs))"

text \<open>A line of the output.\<close>

definition line :: "string \<Rightarrow> string" where
  "line t = t @ [CHR 0x0A]"

text \<open>The registry a process constructs.\<close>

definition fresh_registry :: registry where
  "fresh_registry = Registry_new options_default CapabilitySchema_new"

section \<open>Arguments\<close>

definition args_Has :: "string list \<Rightarrow> string \<Rightarrow> bool" where
  "args_Has items name \<longleftrightarrow> name \<in> set items"

fun args_Value :: "string list \<Rightarrow> string \<Rightarrow> string \<Rightarrow> string" where
  "args_Value (item # v # items) name fallback =
     (if item = name then v else args_Value (v # items) name fallback)"
| "args_Value _ name fallback = fallback"

fun args_Values :: "string list \<Rightarrow> string \<Rightarrow> string list" where
  "args_Values (item # v # items) name =
     (if item = name then [v] else []) @ args_Values (v # items) name"
| "args_Values _ name = []"

fun json_char :: "char \<Rightarrow> string" where
  "json_char ch =
     (if ch = CHR 0x22 then [CHR 0x5C, CHR 0x22]
      else if ch = CHR 0x5C then [CHR 0x5C, CHR 0x5C]
      else if ch = CHR 0x0A then [CHR 0x5C, CHR ''n'']
      else if ch = CHR 0x09 then [CHR 0x5C, CHR ''t'']
      else [ch])"

definition JsonEscape :: "string \<Rightarrow> string" where
  "JsonEscape t = concat (map json_char t)"

section \<open>Properties of the readers\<close>

lemma decimal_from_simps [simp]:
  "decimal_from n [] = n" "decimal_from n (ch # t) = decimal_from (n * 10 + (of_char ch - 48)) t"
  by (simp_all add: decimal_from_def)

lemma decimal_from_grows: "n \<le> decimal_from n t"
proof (induction t arbitrary: n)
  case (Cons ch t)
  have "n \<le> n * 10 + (of_char ch - 48)" by simp
  also have "\<dots> \<le> decimal_from (n * 10 + (of_char ch - 48)) t" by (rule Cons.IH)
  finally show ?case by simp
qed simp

lemma digit_bounds:
  assumes "IsDigit ch"
  shows "48 \<le> (of_char ch :: nat)" "(of_char ch :: nat) \<le> 57"
  using assms by (auto simp: IsDigit_def less_eq_char_def)

lemma decimal_from_bound:
  "list_all IsDigit t \<Longrightarrow> decimal_from n t < (n + 1) * 10 ^ length t"
proof (induction t arbitrary: n)
  case (Cons ch t)
  let ?d = "of_char ch - 48 :: nat"
  have "?d \<le> 9" using digit_bounds(2) [of ch] Cons.prems by auto
  have "decimal_from (n * 10 + ?d) t < (n * 10 + ?d + 1) * 10 ^ length t"
    by (rule Cons.IH) (use Cons.prems in simp)
  also have "\<dots> \<le> ((n + 1) * 10) * 10 ^ length t"
    using \<open>?d \<le> 9\<close> by (intro mult_right_mono) simp_all
  finally show ?case by (simp add: algebra_simps)
qed simp

lemma digits_value_digits: "digits_value v t = Some w \<Longrightarrow> list_all IsDigit t \<and> (v \<le> kMaxQuantity \<longrightarrow> w \<le> kMaxQuantity)"
  by (induction v t rule: digits_value.induct) (auto simp: IsDigit_def Let_def not_less split: if_splits)

lemma digits_value_exact:
  "digits_value v t = Some w \<Longrightarrow> decimal_from (unat v) t < 2 ^ 64 \<Longrightarrow> unat w = decimal_from (unat v) t"
proof (induction v t rule: digits_value.induct)
  case (2 v ch cs)
  let ?d = "of_char ch - 48 :: nat"
  let ?v = "v * 10 + (of_nat (of_char ch :: nat) - 48)"
  have ch: "IsDigit ch" using "2.prems"(1) by (auto simp: IsDigit_def split: if_splits)
  have "unat v * 10 + ?d < 2 ^ 64"
    using decimal_from_grows [of "unat v * 10 + ?d" cs] "2.prems"(2) by simp
  moreover have "(of_nat (of_char ch :: nat) - 48 :: u64) = of_nat ?d"
    using digit_bounds [OF ch] by simp
  then have "?v = of_nat (unat v * 10 + ?d)" by simp
  ultimately have v: "unat ?v = unat v * 10 + ?d"
    by (simp only: unat_of_nat) simp
  show ?case
    using "2.IH" [of ?v] "2.prems" v by (auto simp: Let_def split: if_splits)
qed simp

text \<open>C37. A number read from the command line is within the bound on quantities and is the number
  written, as long as it has at most nineteen digits; a longer one can be read as another number,
  because the product of the digits read so far and ten is taken in sixty-four bits before it is
  compared with the bound.\<close>

theorem number_read_is_number_written:
  assumes "ParseU64 t = Some v"
  shows "v \<le> kMaxQuantity \<and> list_all IsDigit t \<and> (length t \<le> 19 \<longrightarrow> unat v = decimal_from 0 t)
    \<and> ParseU64 ''20000000000000000000'' = Some 1553255926290448384"
proof -
  have d: "digits_value 0 t = Some v" using assms by (simp add: ParseU64_def split: if_splits)
  have digits: "list_all IsDigit t" "v \<le> kMaxQuantity" using digits_value_digits [OF d] by simp_all
  have "unat v = decimal_from 0 t" if "length t \<le> 19"
  proof -
    have "decimal_from 0 t < 10 ^ length t" using decimal_from_bound [OF digits(1), of 0] by simp
    also have "\<dots> \<le> (10 :: nat) ^ 19" using that by (intro power_increasing) simp_all
    finally show ?thesis using digits_value_exact [OF d] by simp
  qed
  moreover have "ParseU64 ''20000000000000000000'' = Some 1553255926290448384"
    by (simp add: ParseU64_def less_char_def Let_def)
  ultimately show ?thesis using digits by blast
qed

lemma number_read_is_number_written_witness: "unat (400 :: u64) = decimal_from 0 ''400''"
proof -
  have "ParseU64 ''400'' = Some 400" by (simp add: ParseU64_def less_char_def Let_def)
  from number_read_is_number_written [OF this] show ?thesis by simp
qed

section \<open>Claim values are in stored form\<close>

lemma version_parts_read:
  "version_parts acc ps = Inr v \<Longrightarrow> list_all (\<lambda>c. c \<le> kMaxVersionComponent) acc \<Longrightarrow>
     length acc \<le> kMaxVersionComponents \<Longrightarrow>
     list_all (\<lambda>c. c \<le> kMaxVersionComponent) v \<and> length v = length acc + length ps
       \<and> length v \<le> kMaxVersionComponents"
proof (induction acc ps rule: version_parts.induct)
  case (2 acc part ps)
  then obtain n where n: "n \<le> unat kMaxVersionComponent" "length acc < kMaxVersionComponents"
    "version_parts (acc @ [word_of_nat n]) ps = Inr v" "version_digits 0 part = Inr n"
    "part \<noteq> []" "length part \<le> 10" "\<not> (length part > 1 \<and> hd part = CHR ''0'')"
    by (auto simp: obind_Inr_iff not_less not_le split: if_splits)
  then have "(word_of_nat n :: u32) \<le> kMaxVersionComponent"
    by (simp add: word_le_nat_alt unat_of_nat)
  with "2.IH" [of n] n "2.prems"(2) show ?case by simp
qed simp

lemma Version_Parse_ok: "Version_Parse t = Inr v \<Longrightarrow> version_ok v"
  using version_parts_read [of "[]" "SplitSegments t" v] SplitSegments_nonempty [of t]
  by (auto simp: Version_Parse_def version_ok_def split: if_splits)

lemma parse_kind_ok: "parse_kind kind body = Inr v \<Longrightarrow> value_ok v"
proof -
  assume p: "parse_kind kind body = Inr v"
  have bound: "x \<le> 2305843009213693952 \<Longrightarrow> value_ok (V_Integer (sint x))" for x :: u64
  proof -
    assume "x \<le> 2305843009213693952"
    then have x: "uint x \<le> 2305843009213693952" by (simp add: word_le_def)
    then have "sint x = uint x"
      unfolding sint_uint by (intro signed_take_bit_int_eq_self) (simp_all add: order_trans [OF _ uint_nonnegative])
    moreover have "- 2305843009213693952 \<le> uint x" by (rule order_trans [OF _ uint_nonnegative]) simp
    ultimately show ?thesis using x by (simp add: value_ok_def)
  qed
  have domain: "EnumDomainId_Parse d = Inr d' \<Longrightarrow> EnumerationSetValue d' cs = Inr v \<Longrightarrow> value_ok v" for d d' cs
    using EnumDomainId_Parse_set [of d d'] by (auto intro: EnumerationSetValue_ok)
  show ?thesis
    using p unfolding parse_kind_def
    by (auto simp: obind_Inr_iff not_less split: if_splits list.splits
        intro: bound domain QuantityValue_ok NumericSetValue_ok NumericRangeValue_ok ProtocolSetValue_ok
          VersionIntervalValue_ok Version_Parse_ok) (simp_all add: value_ok_def)
qed

text \<open>Whatever text a publisher gives for a claim, the value read from it is in stored form: it
  passes the re-validation of the canonical form, and every store or frame that carries it gives
  it back.\<close>

theorem claim_value_is_canonical:
  assumes "ParseValue t = Inr v"
  shows "value_ok v \<and> ValidateCanonical v = Inr () \<and> Value_Decode (Value_Encode v @ rest) = Inr (v, rest)"
proof -
  have "value_ok v"
    using assms by (auto simp: ParseValue_def intro: parse_kind_ok split: list.splits)
  with value_ok_canonical Value_roundtrip show ?thesis by blast
qed

lemma claim_value_is_canonical_witness: "ValidateCanonical (V_Boolean True) = Inr ()"
proof -
  have "ParseValue ''bool:true'' = Inr (V_Boolean True)"
    by (simp add: ParseValue_def parse_kind_def)
  from claim_value_is_canonical [OF this] show ?thesis by blast
qed

section \<open>Suffixes are never read\<close>

lemma quantity_number_end: "quantity_number t = [] \<or> \<not> unit_char (last (quantity_number t))"
  using hd_dropWhile [of unit_char "rev t"]
  by (cases "dropWhile unit_char (rev t) = []") (auto simp: quantity_number_def last_rev)

lemma suffix_absent: "quantity_suffix (quantity_number t) = None"
proof -
  have no: "drop (length d - length s) d \<noteq> s"
    if "d = quantity_number t" "length d > length s" "s \<noteq> []" "unit_char (last s)" for d s
    using that quantity_number_end [of t] by (metis diff_less last_drop length_0_conv length_greater_0_conv less_zeroE not_less_zero)
  show ?thesis
    unfolding quantity_suffix_def find_None_iff
    by (auto simp: suffixes_def unit_char_def less_eq_char_def dest: no [OF refl])
qed

lemma CheckedMul_one: "CheckedMul v 1 = Inr v"
proof -
  have "\<not> (v \<noteq> 0 \<and> 1 > - 1 div v)"
    unfolding CheckedMul_overflow using unsigned_less [of v] by simp
  then show ?thesis by (auto simp: CheckedMul_def)
qed

lemma ParseQuantity_eq: "ParseQuantity t default_unit =
  (let unt = Trim (quantity_unit (Trim t)) in
   case ParseU64 (quantity_number (Trim t)) of
     None \<Rightarrow> None
   | Some v \<Rightarrow> if v > kMaxQuantity then None
       else case obind (ParseUnit (if unt = [] then default_unit else unt)) (QuantityValue v) of
         Inl _ \<Rightarrow> None | Inr built \<Rightarrow> Some built)"
  unfolding ParseQuantity_def Let_def suffix_absent by (simp add: CheckedMul_one split: option.split)

lemma quantity_parts:
  "quantity_number (Trim ''64Ki'') = ''64''" "Trim (quantity_unit (Trim ''64Ki'')) = ''Ki''"
  "quantity_number (Trim ''10G'') = ''10''" "Trim (quantity_unit (Trim ''10G'')) = ''G''"
  "quantity_number (Trim ''64count'') = ''64''" "Trim (quantity_unit (Trim ''64count'')) = ''count''"
  by (simp_all add: Trim_def blank_def quantity_number_def quantity_unit_def unit_char_def less_eq_char_def)

text \<open>The suffixes that the usage text of the inspection tool announces (k, M, G, T and Ki, Mi, Gi, Ti)
  are never read: every letter at the end of a quantity has been taken for its unit before a suffix
  is looked for, so a quantity is the number before the letters and nothing multiplies it, and a
  number with a suffix is refused.\<close>

theorem quantity_suffixes_unreachable:
  "quantity_suffix (quantity_number (Trim t)) = None
   \<and> (ParseQuantity t unt = Some v \<longrightarrow> (\<exists>n q. ParseU64 (quantity_number (Trim t)) = Some n
        \<and> v = V_Quantity q \<and> quantity.q_value q = n))
   \<and> ParseQuantity ''64Ki'' unt = None \<and> ParseQuantity ''10G'' unt = None"
proof -
  have "ParseUnit ''Ki'' = Inl E_UnknownEnumDomain" "ParseUnit ''G'' = Inl E_UnknownEnumDomain"
    by (simp_all add: ParseUnit_def kUnitNames_def)
  then have "ParseQuantity ''64Ki'' unt = None" "ParseQuantity ''10G'' unt = None"
    by (simp_all add: ParseQuantity_eq quantity_parts Let_def split: option.split)
  moreover have "\<exists>n q. ParseU64 (quantity_number (Trim t)) = Some n \<and> v = V_Quantity q \<and> quantity.q_value q = n"
    if "ParseQuantity t unt = Some v"
    using that
    by (auto simp: ParseQuantity_eq QuantityValue_def obind_Inr_iff Let_def
        split: option.splits sum.splits if_splits)
  ultimately show ?thesis by (simp add: suffix_absent)
qed

lemma quantity_suffixes_unreachable_witness:
  "\<exists>v. ParseQuantity ''64count'' [] = Some v
     \<and> (\<exists>n q. ParseU64 (quantity_number (Trim ''64count'')) = Some n \<and> v = V_Quantity q \<and> quantity.q_value q = n)"
proof -
  have "ParseU64 ''64'' = Some 64" by (simp add: ParseU64_def less_char_def Let_def)
  moreover have "ParseUnit ''count'' = Inr U_Count" by (simp add: ParseUnit_def kUnitNames_def)
  ultimately have "\<exists>v. ParseQuantity ''64count'' [] = Some v"
    by (simp add: ParseQuantity_eq quantity_parts QuantityValue_def RequireQuantityUnit_def IsQuantityUnit_def)
  with quantity_suffixes_unreachable [of "''64count''" "[]"] show ?thesis by blast
qed

lemma protocol_read: "ParseProtocol t = Inr p \<Longrightarrow> p \<noteq> P_Unknown"
  by (auto simp: ParseProtocol_def find_Some_iff split: option.splits)

section \<open>Requirement expressions\<close>

definition readable_leaf :: "requirement \<Rightarrow> bool" where
  "readable_leaf r \<longleftrightarrow> rq_children r = [] \<and> check_leaf (rq_node r) False = Inr () \<and> rq_require_proof (rq_node r)
     \<and> rq_kind (rq_node r) \<in> {RK_Minimum, RK_Maximum, RK_ProtocolSupported, RK_StateIs}"

lemma quantity_read: "ParseQuantity t u = Some v \<Longrightarrow> Value_Kind v = K_Quantity"
  by (auto simp: ParseQuantity_def QuantityValue_def obind_Inr_iff Let_def split: option.splits sum.splits if_splits)

lemma leaf_read:
  assumes "build_leaf leaf = Read r"
  shows "readable_leaf r \<and> CapabilityId_IsSet (rq_capability (rq_node r))"
proof -
  obtain n ct rem c n' name where n: "leaf_shape leaf = Read (n, ct, rem)" "CapabilityId_Parse ct = Inr c"
      "leaf_operand (n\<lparr>rq_capability := c\<rparr>) rem = Read n'" "r = Requirement (n'\<lparr>rq_name := name\<rparr>) []"
    using assms by (auto simp: build_leaf_def split: reading.splits sum.splits)
  have "ct \<noteq> []" using n(2) by (auto simp: CapabilityId_Parse_def)
  then have c: "CapabilityId_IsSet c"
    using CapabilityId_Parse_rendered [OF n(2)] by (simp add: CapabilityId_IsSet_def)
  have kind: "rq_require_proof n \<and> (rq_kind n \<in> {RK_Minimum, RK_Maximum}
      \<or> rq_kind n = RK_ProtocolSupported \<and> rq_operand_protocol n \<noteq> P_Unknown \<or> rq_kind n = RK_StateIs)"
    using n(1) protocol_read
    by (auto simp: leaf_shape_def Let_def requirement_node_default_def split: option.splits sum.splits)
  have "n' = n\<lparr>rq_capability := c\<rparr> \<and> rq_kind n \<notin> {RK_Minimum, RK_Maximum}
      \<or> (\<exists>v. n' = n\<lparr>rq_capability := c, rq_operand := v\<rparr> \<and> Value_Kind v = K_Quantity)"
    using n(3) by (auto simp: leaf_operand_def dest: quantity_read split: if_splits option.splits)
  with kind c n(4) show ?thesis by (auto simp: readable_leaf_def check_leaf_def)
qed

lemma leaves_read: "build_leaves raws = Read rs \<Longrightarrow> list_all readable_leaf rs \<and> length rs \<le> length raws"
  by (induction raws arbitrary: rs) (auto simp: Let_def leaf_read split: if_splits reading.splits)

lemma leaf_node:
  assumes "readable_leaf r" and "depth \<le> kMaxRequirementDepth"
  shows "ValidateNode r depth nodes False =
    (if nodes + 1 > kMaxRequirementNodes then Inl E_TooManyItems else Inr (nodes + 1))"
  using assms by (cases r) (auto simp: readable_leaf_def)

lemma leaves_validate:
  assumes "list_all readable_leaf rs" and "depth \<le> kMaxRequirementDepth" and "nodes \<le> kMaxRequirementNodes"
  shows "validate_children rs depth nodes =
    (if nodes + length rs > kMaxRequirementNodes then Inl E_TooManyItems else Inr (nodes + length rs))"
  using assms by (induction rs arbitrary: nodes) (auto simp: leaf_node obind_def)

text \<open>C16. Every expression that the inspection tool reads is a conjunction of leaves that each demand
  proof, and the evaluator accepts it exactly when it has at most 255 leaves: the tool adds one node
  for the conjunction, and checks no bound of its own.\<close>

theorem read_expression_is_valid:
  assumes "BuildRequirement e = Read r"
  shows "rq_kind (rq_node r) = RK_AllOf \<and> rq_children r \<noteq> [] \<and> list_all readable_leaf (rq_children r)
    \<and> ValidateRequirement r
        = (if length (rq_children r) \<le> 255 then Inr () else Inl E_TooManyItems)"
proof -
  obtain rs where rs: "build_leaves (Split e CHR '';'') = Read rs" "rs \<noteq> []"
      "r = Requirement (requirement_node_default\<lparr>rq_kind := RK_AllOf\<rparr>) rs"
    using assms by (auto simp: BuildRequirement_def split: reading.splits list.splits)
  have "list_all readable_leaf rs" using leaves_read [OF rs(1)] by blast
  with rs(2,3) show ?thesis
    by (auto simp: ValidateRequirement_def leaves_validate obind_def)
qed

lemma read_expression_is_valid_witness:
  "\<exists>r. BuildRequirement ''fabric.rdma.roce = SUPPORTED'' = Read r \<and> ValidateRequirement r = Inr ()"
proof -
  have split: "Split ''fabric.rdma.roce = SUPPORTED'' CHR '';'' = [''fabric.rdma.roce = SUPPORTED'']"
    by (simp add: Split_def)
  have trim: "Trim ''fabric.rdma.roce = SUPPORTED'' = ''fabric.rdma.roce = SUPPORTED''"
    by (simp add: Trim_def blank_def)
  have shape: "leaf_shape ''fabric.rdma.roce = SUPPORTED''
      = Read (requirement_node_default\<lparr>rq_required_state := St_Supported\<rparr>, ''fabric.rdma.roce'', [])"
    by (simp add: leaf_shape_def Trim_def blank_def ParseCapabilityState_def Let_def requirement_node_default_def)
  have "has_value (CapabilityId_Parse ''fabric.rdma.roce'')" by code_simp
  moreover have "has_value (RequirementName_Parse ''fabric.rdma.roce = SUPPORTED'')" by code_simp
  ultimately obtain r where r: "BuildRequirement ''fabric.rdma.roce = SUPPORTED'' = Read r" "length (rq_children r) = 1"
    by (auto simp: BuildRequirement_def split trim build_leaf_def shape leaf_operand_def
        requirement_node_default_def Let_def has_value_def split: sum.splits)
  with read_expression_is_valid [OF r(1)] show ?thesis by simp
qed

text \<open>The tool lets an exception escape when the first characters of a leaf are no name.\<close>

lemma tab_in_leaf_throws: "BuildRequirement (''fabric.rdma.roce'' @ CHR 0x09 # ''=SUPPORTED'') = Throws"
proof -
  let ?e = "''fabric.rdma.roce'' @ CHR 0x09 # ''=SUPPORTED''"
  have split: "Split ?e CHR '';'' = [?e]" by (simp add: Split_def)
  have trim: "Trim ?e = ?e" by (simp add: Trim_def blank_def)
  have shape: "leaf_shape ?e = Read (requirement_node_default\<lparr>rq_required_state := St_Supported\<rparr>, ''fabric.rdma.roce'', [])"
    by (simp add: leaf_shape_def Trim_def blank_def ParseCapabilityState_def Let_def requirement_node_default_def)
  have "has_value (CapabilityId_Parse ''fabric.rdma.roce'')" by code_simp
  moreover have "\<not> has_value (RequirementName_Parse (take 96 ?e))" by code_simp
  ultimately show ?thesis
    by (auto simp: BuildRequirement_def split [simplified] trim [simplified]
        build_leaf_def shape [simplified] leaf_operand_def
        requirement_node_default_def Let_def has_value_def split: sum.splits)
qed

end
