(* ===== verification/Discovery.thy ===== *)
theory Discovery
  imports Rendering
begin

text \<open>
  Host discovery (\<open>src/src/discovery.cpp\<close>): which capability facts an adapter yields. What the
  operating system reports is an argument; no host means a build for another platform.
\<close>

section \<open>What the operating system reports\<close>

datatype ndis_medium =
    NdisPhysicalMediumUnspecified | NdisPhysicalMediumWirelessLan | NdisPhysicalMediumCableModem
  | NdisPhysicalMediumPhoneLine | NdisPhysicalMediumPowerLine | NdisPhysicalMediumDSL
  | NdisPhysicalMediumFibreChannel | NdisPhysicalMedium1394 | NdisPhysicalMediumWirelessWan
  | NdisPhysicalMediumNative802_11 | NdisPhysicalMediumBluetooth | NdisPhysicalMediumInfiniband
  | NdisPhysicalMediumWiMax | NdisPhysicalMediumUWB | NdisPhysicalMedium802_3 | Other_medium

text \<open>A row of the interface table, an adapter, and a network device; wide strings are given in UTF-8.\<close>

record interface_row =
  ir_transmit_speed :: u64
  ir_receive_speed :: u64
  ir_medium :: ndis_medium
  ir_mtu :: u32

record adapter =
  ad_if_type :: u32
  ad_name :: string
  ad_description :: string
  ad_friendly_name :: string
  ad_row :: "interface_row option"

record pnp_device =
  pd_instance_id :: string
  pd_description :: string
  pd_manufacturer :: string
  pd_hardware_ids :: "string list"

datatype adapters_answer = Adapters "adapter list" | Buffer_overflow | Enumeration_error

record windows_host =
  wh_devices :: "pnp_device list"
  wh_addresses :: "nat \<Rightarrow> adapters_answer"
  wh_loopback :: u32
  wh_tunnel :: u32
  wh_ethernet :: u32

section \<open>The report\<close>

datatype discovery_fact_status = Reported | NotReported | SourceUnavailable

fun DiscoveryFactStatusName :: "discovery_fact_status \<Rightarrow> string" where
  "DiscoveryFactStatusName Reported = ''reported''"
| "DiscoveryFactStatusName NotReported = ''not-reported''"
| "DiscoveryFactStatusName SourceUnavailable = ''source-unavailable''"

record discovered_fact =
  ft_capability :: capability_id
  ft_state :: capability_state
  ft_value :: capability_value
  ft_has_value :: bool
  ft_status :: discovery_fact_status
  ft_note :: string

record discovered_entity =
  dn_entity :: entity_id
  dn_kind :: entity_kind
  dn_label :: string
  dn_provenance :: provenance_class
  dn_source_class :: evidence_source_class
  dn_coverage :: coverage_class
  dn_facts :: "discovered_fact list"
  dn_notes :: "string list"

record discovery_report =
  dr_adapter_count :: nat
  dr_entities :: "discovered_entity list"
  dr_unavailable_sources :: "string list"
  dr_platform :: string

record discovery_options =
  do_include_loopback :: bool
  do_include_virtual :: bool
  do_include_pnp_properties :: bool
  do_max_adapters :: nat
  do_max_facts_per_entity :: nat
  do_max_notes_per_entity :: nat

definition discovery_default :: discovery_options where
  "discovery_default = \<lparr>do_include_loopback = False, do_include_virtual = True,
     do_include_pnp_properties = True, do_max_adapters = 64, do_max_facts_per_entity = 32,
     do_max_notes_per_entity = 16\<rparr>"

section \<open>Texts\<close>

abbreviation kMaxAdapterDescription :: nat where "kMaxAdapterDescription \<equiv> 96"
abbreviation kMaxNoteLength :: nat where "kMaxNoteLength \<equiv> 160"
abbreviation kMaxHardwareIds :: nat where "kMaxHardwareIds \<equiv> 4"

definition AddNote :: "string \<Rightarrow> string list \<Rightarrow> string list" where
  "AddNote note notes =
     (if length notes \<ge> kMaxTextFieldsPerExplanation then notes
      else if note = [] \<or> length note > kMaxNoteLength then notes
      else notes @ [note])"

definition Sanitize :: "string \<Rightarrow> nat \<Rightarrow> string" where
  "Sanitize t max_length = map (\<lambda>ch.
     if ch < CHR 0x20 \<or> ch > CHR 0x7E then CHR ''?''
     else if ch = CHR '' '' \<or> ch = CHR ''='' \<or> ch = CHR 0x09 then CHR ''-''
     else ch) (take max_length t)"

definition Narrow :: "string \<Rightarrow> nat \<Rightarrow> string" where
  "Narrow t max_length = take max_length t"

definition LowerGuid :: "string \<Rightarrow> string" where
  "LowerGuid guid = map (\<lambda>ch.
     if CHR ''A'' \<le> ch \<and> ch \<le> CHR ''F'' then char_of ((of_char ch :: nat) + 32)
     else if CHR ''a'' \<le> ch \<and> ch \<le> CHR ''f'' \<or> CHR ''0'' \<le> ch \<and> ch \<le> CHR ''9'' then ch
     else CHR ''-'') (filter (\<lambda>ch. ch \<noteq> CHR ''{'' \<and> ch \<noteq> CHR ''}'') guid)"

fun MapPhysicalMedium :: "ndis_medium \<Rightarrow> u32 option" where
  "MapPhysicalMedium NdisPhysicalMedium802_3 = Some 0"
| "MapPhysicalMedium NdisPhysicalMediumNative802_11 = Some 6"
| "MapPhysicalMedium NdisPhysicalMediumWirelessLan = Some 6"
| "MapPhysicalMedium NdisPhysicalMediumWirelessWan = Some 6"
| "MapPhysicalMedium NdisPhysicalMediumBluetooth = Some 6"
| "MapPhysicalMedium NdisPhysicalMediumUWB = Some 6"
| "MapPhysicalMedium NdisPhysicalMediumWiMax = Some 6"
| "MapPhysicalMedium _ = None"

fun PhysicalMediumName :: "ndis_medium \<Rightarrow> string" where
  "PhysicalMediumName NdisPhysicalMediumUnspecified = ''unspecified''"
| "PhysicalMediumName NdisPhysicalMediumWirelessLan = ''wireless-lan''"
| "PhysicalMediumName NdisPhysicalMediumCableModem = ''cable-modem''"
| "PhysicalMediumName NdisPhysicalMediumPhoneLine = ''phone-line''"
| "PhysicalMediumName NdisPhysicalMediumPowerLine = ''power-line''"
| "PhysicalMediumName NdisPhysicalMediumDSL = ''dsl''"
| "PhysicalMediumName NdisPhysicalMediumFibreChannel = ''fibre-channel''"
| "PhysicalMediumName NdisPhysicalMedium1394 = ''ieee1394''"
| "PhysicalMediumName NdisPhysicalMediumWirelessWan = ''wireless-wan''"
| "PhysicalMediumName NdisPhysicalMediumNative802_11 = ''native-802-11''"
| "PhysicalMediumName NdisPhysicalMediumBluetooth = ''bluetooth''"
| "PhysicalMediumName NdisPhysicalMediumInfiniband = ''infiniband''"
| "PhysicalMediumName NdisPhysicalMediumWiMax = ''wimax''"
| "PhysicalMediumName NdisPhysicalMediumUWB = ''uwb''"
| "PhysicalMediumName NdisPhysicalMedium802_3 = ''802-3''"
| "PhysicalMediumName Other_medium = ''other''"

section \<open>Network devices\<close>

record pnp_entry =
  pn_instance_id :: string
  pn_description :: string
  pn_manufacturer :: string
  pn_hardware_ids :: "string list"

definition pnp_entry_of :: "pnp_device \<Rightarrow> pnp_entry" where
  "pnp_entry_of d =
     \<lparr>pn_instance_id = Narrow (pd_instance_id d) 64,
      pn_description = Sanitize (Narrow (pd_description d) kMaxAdapterDescription) kMaxAdapterDescription,
      pn_manufacturer = Sanitize (Narrow (pd_manufacturer d) 48) 48,
      pn_hardware_ids = map (\<lambda>h. Sanitize (Narrow h 64) 64)
        (take kMaxHardwareIds (takeWhile (\<lambda>h. h \<noteq> []) (pd_hardware_ids d)))\<rparr>"

fun EnumeratePnpNetworkDevices :: "nat \<Rightarrow> pnp_device list \<Rightarrow> pnp_entry list" where
  "EnumeratePnpNetworkDevices max_devices [] = []"
| "EnumeratePnpNetworkDevices 0 (d # ds) = []"
| "EnumeratePnpNetworkDevices (Suc n) (d # ds) =
     (let entry = pnp_entry_of d in
      if pn_instance_id entry = [] then EnumeratePnpNetworkDevices (Suc n) ds
      else entry # EnumeratePnpNetworkDevices n ds)"

text \<open>The notes of the first device whose instance identifier is the adapter.\<close>

definition pnp_notes :: "pnp_entry list \<Rightarrow> string \<Rightarrow> string list \<Rightarrow> string list" where
  "pnp_notes pnp guid notes =
     (case find (\<lambda>entry. LowerGuid (pn_instance_id entry) = guid) pnp of
        None \<Rightarrow> notes
      | Some entry \<Rightarrow>
          (let notes = (if pn_description entry \<noteq> []
                 then AddNote (''pnp-description='' @ pn_description entry) notes else notes);
               notes = (if pn_manufacturer entry \<noteq> []
                 then AddNote (''pnp-manufacturer='' @ pn_manufacturer entry) notes else notes)
           in foldl (\<lambda>notes h. AddNote (''pnp-hardware-id='' @ h) notes) notes (pn_hardware_ids entry)))"

section \<open>The facts of an adapter\<close>

type_synonym facts = "discovered_fact list"

definition fact_reported :: "nat \<Rightarrow> string \<Rightarrow> capability_value \<Rightarrow> string \<Rightarrow> facts \<Rightarrow> facts" where
  "fact_reported limit capability v note fs =
     (if length fs \<ge> limit then fs
      else case CapabilityId_Parse capability of
        Inl _ \<Rightarrow> fs
      | Inr c \<Rightarrow> fs @ [\<lparr>ft_capability = c, ft_state = St_Supported, ft_value = v, ft_has_value = True,
          ft_status = Reported, ft_note = note\<rparr>])"

definition fact_not_reported :: "nat \<Rightarrow> string \<Rightarrow> string \<Rightarrow> facts \<Rightarrow> facts" where
  "fact_not_reported limit capability note fs =
     (if length fs \<ge> limit then fs
      else case CapabilityId_Parse capability of
        Inl _ \<Rightarrow> fs
      | Inr c \<Rightarrow> fs @ [\<lparr>ft_capability = c, ft_state = St_Unknown, ft_value = V_Absent,
          ft_has_value = False, ft_status = NotReported, ft_note = note\<rparr>])"

text \<open>A value that cannot be built leaves no fact.\<close>

definition fact_built :: "nat \<Rightarrow> string \<Rightarrow> capability_value outcome \<Rightarrow> string \<Rightarrow> facts \<Rightarrow> facts" where
  "fact_built limit capability built note fs =
     (case built of Inl _ \<Rightarrow> fs | Inr v \<Rightarrow> fact_reported limit capability v note fs)"

definition usable_speeds :: "interface_row option \<Rightarrow> u64 list" where
  "usable_speeds row =
     (case row of
        None \<Rightarrow> []
      | Some r \<Rightarrow> foldl (\<lambda>speeds candidate.
          if candidate = 0 \<or> candidate = 0xFFFFFFFFFFFFFFFF then speeds
          else if candidate \<in> set speeds then speeds else speeds @ [candidate])
          [] [ir_transmit_speed r, ir_receive_speed r])"

definition speed_facts :: "nat \<Rightarrow> interface_row option \<Rightarrow> facts \<Rightarrow> facts" where
  "speed_facts limit row =
     (if usable_speeds row \<noteq> []
      then fact_built limit ''fabric.port.supported_speeds''
        (NumericSetValue U_BitsPerSecond (usable_speeds row))
        (''negotiated link speed reported by the interface table; this is evidence ''
         @ ''of one supported speed and not of the complete supported set'')
      else fact_not_reported limit ''fabric.port.supported_speeds''
        ''the interface table did not report a usable link speed'')"

definition media_facts :: "nat \<Rightarrow> ndis_medium \<Rightarrow> facts \<Rightarrow> facts" where
  "media_facts limit medium =
     (case MapPhysicalMedium medium of
        Some code \<Rightarrow> fact_built limit ''fabric.port.media_types''
          (obind (EnumDomainId_Parse ''fabric.port.media_type'') (\<lambda>domain.
             EnumerationSetValue domain [code]))
          (''physical medium reported by the interface table: '' @ PhysicalMediumName medium)
      | None \<Rightarrow> fact_not_reported limit ''fabric.port.media_types''
          (''interface table reports physical medium '' @ PhysicalMediumName medium
           @ '' which this build does not map to a canonical media class''))"

definition row_facts :: "nat \<Rightarrow> interface_row option \<Rightarrow> facts \<Rightarrow> facts" where
  "row_facts limit row fs =
     (case row of
        Some r \<Rightarrow>
          fact_not_reported limit ''fabric.port.mtu_range''
            (''the operating system reports the configured MTU ('' @ nat_text (unat (ir_mtu r))
             @ '' bytes), not the supported MTU interval'') (media_facts limit (ir_medium r) fs)
      | None \<Rightarrow>
          fact_not_reported limit ''fabric.port.mtu_range''
            ''the interface property table is unavailable for this adapter''
            (fact_not_reported limit ''fabric.port.media_types''
              ''the interface property table is unavailable for this adapter'' fs))"

definition row_notes :: "interface_row option \<Rightarrow> string list \<Rightarrow> string list" where
  "row_notes row notes =
     (case row of
        Some r \<Rightarrow> AddNote (''os-reported-mtu='' @ nat_text (unat (ir_mtu r))) notes
      | None \<Rightarrow> notes)"

definition protocol_facts :: "nat \<Rightarrow> windows_host \<Rightarrow> u32 \<Rightarrow> facts \<Rightarrow> facts" where
  "protocol_facts limit host if_type =
     (if if_type = wh_ethernet host
      then fact_built limit ''fabric.protocol.families'' (ProtocolSetValue [P_Ethernet])
        ''the interface type is Ethernet, which settles the link layer family''
      else fact_not_reported limit ''fabric.protocol.families''
        (''the interface type '' @ nat_text (unat if_type)
         @ '' is not mapped to a canonical protocol family by this build''))"

definition unread_capabilities :: "(string \<times> string) list" where
  "unread_capabilities =
    [(''fabric.offload.checksum_rx'',
      ''NDIS offload OID or WMI enumeration is not performed by this build''),
     (''fabric.offload.checksum_tx'',
      ''NDIS offload OID or WMI enumeration is not performed by this build''),
     (''fabric.offload.segmentation_offload'',
      ''NDIS offload OID or WMI enumeration is not performed by this build''),
     (''fabric.offload.receive_side_scaling'',
      ''NDIS offload OID or WMI enumeration is not performed by this build''),
     (''fabric.virtualization.sriov_supported'',
      ''SR-IOV capability enumeration requires a PCI configuration space read''),
     (''fabric.timestamping.hardware_timestamp_supported'',
      ''hardware timestamping capability is not exposed by the adapter APIs this ''
      @ ''build consults''),
     (''fabric.telemetry.families'',
      ''telemetry family enumeration is not performed by this build'')]"

definition adapter_facts :: "nat \<Rightarrow> windows_host \<Rightarrow> adapter \<Rightarrow> facts" where
  "adapter_facts limit host a =
     foldl (\<lambda>fs (capability, note). fact_not_reported limit capability note fs)
       (protocol_facts limit host (ad_if_type a)
         (row_facts limit (ad_row a) (speed_facts limit (ad_row a) [])))
       unread_capabilities"

section \<open>Discovery\<close>

definition adapter_skipped :: "discovery_options \<Rightarrow> windows_host \<Rightarrow> adapter \<Rightarrow> bool" where
  "adapter_skipped opts host a \<longleftrightarrow>
     ad_if_type a = wh_loopback host \<and> \<not> do_include_loopback opts
     \<or> (ad_if_type a = wh_loopback host \<or> ad_if_type a = wh_tunnel host)
       \<and> \<not> do_include_virtual opts \<and> \<not> do_include_loopback opts"

definition discover_entity ::
  "discovery_options \<Rightarrow> windows_host \<Rightarrow> pnp_entry list \<Rightarrow> adapter \<Rightarrow> discovered_entity outcome" where
  "discover_entity opts host pnp a =
     (let guid = LowerGuid (ad_name a);
          canonical = (if guid = [] then Sanitize (Narrow (ad_description a) 48) 48 else guid)
      in obind (EntityId_Create EK_Nic (''host-'' @ canonical)) (\<lambda>ident.
        Inr \<lparr>dn_entity = ident, dn_kind = EK_Nic,
          dn_label = Sanitize (Narrow (ad_friendly_name a) kMaxAdapterDescription) kMaxAdapterDescription,
          dn_provenance = Prov_DirectDeviceOrOsApi, dn_source_class = Src_OperatingSystemApi,
          dn_coverage = Partial,
          dn_facts = sort_key (\<lambda>f. cap_rendered (ft_capability f))
            (adapter_facts (do_max_facts_per_entity opts) host a),
          dn_notes = sort (row_notes (ad_row a) (pnp_notes pnp guid []))\<rparr>))"

fun discover_adapters ::
  "discovery_options \<Rightarrow> windows_host \<Rightarrow> pnp_entry list \<Rightarrow> nat \<Rightarrow> adapter list \<Rightarrow> discovered_entity list" where
  "discover_adapters opts host pnp adapters [] = []"
| "discover_adapters opts host pnp adapters (a # as) =
     (if adapters \<ge> do_max_adapters opts then []
      else if adapter_skipped opts host a then discover_adapters opts host pnp adapters as
      else case discover_entity opts host pnp a of
        Inl _ \<Rightarrow> discover_adapters opts host pnp adapters as
      | Inr entity \<Rightarrow> entity # discover_adapters opts host pnp (adapters + 1) as)"

text \<open>The buffer for the adapters grows until they fit, at most four times.\<close>

fun get_adapters :: "windows_host \<Rightarrow> nat list \<Rightarrow> adapter list outcome" where
  "get_adapters host [] = Inl E_DiscoveryFailed"
| "get_adapters host (attempt # attempts) =
     (case wh_addresses host attempt of
        Adapters as \<Rightarrow> Inr as
      | Enumeration_error \<Rightarrow> Inl E_DiscoveryFailed
      | Buffer_overflow \<Rightarrow> get_adapters host attempts)"

definition discover_windows :: "windows_host \<Rightarrow> discovery_options \<Rightarrow> discovery_report outcome" where
  "discover_windows host opts =
     (if do_max_adapters opts = 0 \<or> do_max_facts_per_entity opts = 0 then Inl E_InvalidArgument
      else
        let pnp = (if do_include_pnp_properties opts
              then EnumeratePnpNetworkDevices (do_max_adapters opts) (wh_devices host) else []);
            unavailable = (if pnp = [] then [''pnp-properties''] else [])
        in obind (get_adapters host [0, 1, 2, 3]) (\<lambda>as.
          let entities = sort_key (\<lambda>e. ent_rendered (dn_entity e)) (discover_adapters opts host pnp 0 as)
          in Inr \<lparr>dr_adapter_count = length entities, dr_entities = entities,
               dr_unavailable_sources = remdups_adj (sort (unavailable @ [''ndis-offload-oids''])),
               dr_platform = ''windows''\<rparr>))"

definition DiscoverHostCapabilities ::
  "windows_host option \<Rightarrow> discovery_options \<Rightarrow> discovery_report outcome" where
  "DiscoverHostCapabilities platform opts =
     (case platform of
        None \<Rightarrow> Inl E_DiscoveryUnavailable
      | Some host \<Rightarrow> discover_windows host opts)"

section \<open>Rendering\<close>

definition Fact_text :: "discovered_fact \<Rightarrow> string" where
  "Fact_text f = new_line @ ''  capability='' @ cap_rendered (ft_capability f)
     @ '' status='' @ DiscoveryFactStatusName (ft_status f)
     @ '' state='' @ CapabilityStateName (ft_state f)
     @ '' value='' @ value_or_absent (ft_has_value f) (ft_value f)
     @ (if ft_note f \<noteq> [] then '' note='' @ ft_note f else [])"

definition DiscoveredEntity_text :: "discovered_entity \<Rightarrow> string" where
  "DiscoveredEntity_text e = new_line @ ''entity='' @ ent_rendered (dn_entity e)
     @ '' kind='' @ FabricEntityKindName (dn_kind e)
     @ '' label='' @ dn_label e
     @ '' provenance='' @ ProvenanceClassName (dn_provenance e)
     @ '' source_class='' @ EvidenceSourceClassName (dn_source_class e)
     @ '' coverage='' @ CoverageName (dn_coverage e)
     @ concat (map (\<lambda>note. new_line @ ''  note='' @ note) (dn_notes e))
     @ concat (map Fact_text (dn_facts e))"

definition RenderDiscoveryReport :: "discovery_report \<Rightarrow> string" where
  "RenderDiscoveryReport report = ''platform='' @ dr_platform report
     @ '' adapters='' @ nat_text (dr_adapter_count report)
     @ '' entities='' @ nat_text (length (dr_entities report))
     @ concat (map (\<lambda>s. new_line @ ''unavailable-source='' @ s) (dr_unavailable_sources report))
     @ concat (map DiscoveredEntity_text (dr_entities report))"

section \<open>What a fact says\<close>

definition reported_by :: "windows_host \<Rightarrow> adapter \<Rightarrow> string \<Rightarrow> capability_value \<Rightarrow> bool" where
  "reported_by host a capability v \<longleftrightarrow>
     capability = ''fabric.port.supported_speeds'' \<and> usable_speeds (ad_row a) \<noteq> []
       \<and> v = V_NumericSet \<lparr>ns_unit = U_BitsPerSecond, ns_values = sort (usable_speeds (ad_row a))\<rparr>
   \<or> capability = ''fabric.port.media_types''
       \<and> (\<exists>r code. ad_row a = Some r \<and> MapPhysicalMedium (ir_medium r) = Some code
            \<and> v = V_EnumSet \<lparr>es_domain = ''fabric.port.media_type'', es_codes = [code]\<rparr>)
   \<or> capability = ''fabric.protocol.families'' \<and> ad_if_type a = wh_ethernet host
       \<and> v = V_ProtocolSet [P_Ethernet]"

definition truthful :: "windows_host \<Rightarrow> adapter \<Rightarrow> discovered_fact \<Rightarrow> bool" where
  "truthful host a f \<longleftrightarrow>
     ft_status f = Reported \<and> ft_state f = St_Supported \<and> ft_has_value f \<and> value_ok (ft_value f)
       \<and> reported_by host a (cap_rendered (ft_capability f)) (ft_value f)
   \<or> ft_status f = NotReported \<and> ft_state f = St_Unknown \<and> \<not> ft_has_value f \<and> ft_value f = V_Absent"

abbreviation fact_name :: "discovered_fact \<Rightarrow> string" where
  "fact_name f \<equiv> cap_rendered (ft_capability f)"

definition facts_ok :: "nat \<Rightarrow> windows_host \<Rightarrow> adapter \<Rightarrow> string set \<Rightarrow> facts \<Rightarrow> bool" where
  "facts_ok limit host a names fs \<longleftrightarrow> length fs \<le> limit \<and> list_all (truthful host a) fs
     \<and> distinct (map fact_name fs) \<and> fact_name ` set fs \<subseteq> names"

lemma facts_ok_mono: "facts_ok limit host a names fs \<Longrightarrow> facts_ok limit host a (insert n names) fs"
  by (auto simp: facts_ok_def)

lemma facts_ok_Nil: "facts_ok limit host a {} []"
  by (simp add: facts_ok_def)

lemma not_reported_ok:
  assumes "facts_ok limit host a names fs" and "capability \<notin> names"
  shows "facts_ok limit host a (insert capability names) (fact_not_reported limit capability note fs)"
  using assms
  by (auto simp: fact_not_reported_def facts_ok_def truthful_def split: sum.split
      dest!: CapabilityId_Parse_rendered)

lemma reported_ok:
  assumes "facts_ok limit host a names fs" and "capability \<notin> names"
    and "\<And>v. built = Inr v \<Longrightarrow> value_ok v \<and> reported_by host a capability v"
  shows "facts_ok limit host a (insert capability names) (fact_built limit capability built note fs)"
  using assms
  by (auto simp: fact_built_def fact_reported_def facts_ok_def truthful_def split: sum.split
      dest!: CapabilityId_Parse_rendered)

lemma speed_facts_ok:
  "facts_ok limit host a {''fabric.port.supported_speeds''} (speed_facts limit (ad_row a) [])"
proof -
  have "v = V_NumericSet \<lparr>ns_unit = U_BitsPerSecond, ns_values = sort (usable_speeds (ad_row a))\<rparr>"
    if "NumericSetValue U_BitsPerSecond (usable_speeds (ad_row a)) = Inr v" for v
    using that by (auto simp: NumericSetValue_def obind_Inr_iff Let_def split: if_splits)
  then show ?thesis
    unfolding speed_facts_def
    by (auto intro!: reported_ok not_reported_ok facts_ok_Nil NumericSetValue_ok simp: reported_by_def)
qed

lemma media_facts_ok:
  assumes "facts_ok limit host a names fs" and "''fabric.port.media_types'' \<notin> names" and "ad_row a = Some r"
  shows "facts_ok limit host a (insert ''fabric.port.media_types'' names) (media_facts limit (ir_medium r) fs)"
proof (cases "MapPhysicalMedium (ir_medium r)")
  case None
  then show ?thesis using assms by (auto simp: media_facts_def intro: not_reported_ok)
next
  case (Some code)
  have "value_ok v \<and> reported_by host a ''fabric.port.media_types'' v"
    if "obind (EnumDomainId_Parse ''fabric.port.media_type'') (\<lambda>d. EnumerationSetValue d [code]) = Inr v" for v
    using that assms(3) Some EnumDomainId_Parse_set [of "''fabric.port.media_type''"]
    by (auto simp: obind_Inr_iff reported_by_def EnumerationSetValue_def value_ok_def IsSet_def)
  then show ?thesis using assms Some by (auto simp: media_facts_def intro!: reported_ok)
qed

lemma row_facts_ok:
  assumes "facts_ok limit host a names fs"
    and "''fabric.port.media_types'' \<notin> names" "''fabric.port.mtu_range'' \<notin> names"
  shows "facts_ok limit host a (insert ''fabric.port.mtu_range'' (insert ''fabric.port.media_types'' names))
    (row_facts limit (ad_row a) fs)"
  using assms unfolding row_facts_def
  by (auto intro!: not_reported_ok media_facts_ok split: option.split)

lemma protocol_facts_ok:
  assumes "facts_ok limit host a names fs" and "''fabric.protocol.families'' \<notin> names"
  shows "facts_ok limit host a (insert ''fabric.protocol.families'' names)
    (protocol_facts limit host (ad_if_type a) fs)"
proof -
  have "v = V_ProtocolSet [P_Ethernet]" if "ProtocolSetValue [P_Ethernet] = Inr v" for v
    using that by (simp add: ProtocolSetValue_def split: if_splits)
  then show ?thesis
    using assms unfolding protocol_facts_def
    by (auto intro!: reported_ok not_reported_ok ProtocolSetValue_ok simp: reported_by_def)
qed

lemma unread_ok:
  assumes "facts_ok limit host a names fs" and "distinct (map fst cs)" "names \<inter> fst ` set cs = {}"
  shows "\<exists>names'. facts_ok limit host a names' (foldl (\<lambda>fs (capability, note).
    fact_not_reported limit capability note fs) fs cs)"
  using assms
proof (induction cs arbitrary: names fs)
  case (Cons x cs)
  obtain c n where x: "x = (c, n)" by (cases x)
  with Cons.prems have "c \<notin> names" by auto
  from Cons.IH [OF not_reported_ok [OF Cons.prems(1) this, of n]] Cons.prems(2,3) x
  show ?case by auto
qed auto

lemma adapter_facts_ok: "\<exists>names. facts_ok limit host a names (adapter_facts limit host a)"
  unfolding adapter_facts_def
  by (rule unread_ok [OF protocol_facts_ok [OF row_facts_ok [OF speed_facts_ok]]])
    (auto simp: unread_capabilities_def)

lemma keys_ascend:
  assumes "distinct (map k xs)"
  shows "strictly_ascending (map k (sort_key k xs))"
proof -
  have "distinct (map k (sort_key k xs))"
    using assms by (simp add: distinct_map)
  then show ?thesis by (simp add: strictly_ascending_iff strict_sorted_iff)
qed

lemma entity_facts:
  assumes "discover_entity opts host pnp a = Inr e"
  shows "length (dn_facts e) \<le> do_max_facts_per_entity opts" "\<forall>f\<in>set (dn_facts e). truthful host a f"
    "strictly_ascending (map fact_name (dn_facts e))"
  using assms adapter_facts_ok [of "do_max_facts_per_entity opts" host a]
  by (auto simp: discover_entity_def Let_def obind_Inr_iff facts_ok_def list_all_iff keys_ascend)

section \<open>Notes\<close>

definition notes_ok :: "string list \<Rightarrow> bool" where
  "notes_ok notes \<longleftrightarrow> length notes \<le> kMaxTextFieldsPerExplanation
     \<and> (\<forall>n\<in>set notes. n \<noteq> [] \<and> length n \<le> kMaxNoteLength)"

lemma AddNote_ok: "notes_ok notes \<Longrightarrow> notes_ok (AddNote note notes)"
  by (auto simp: notes_ok_def AddNote_def)

lemma entity_notes:
  assumes "discover_entity opts host pnp a = Inr e"
  shows "notes_ok (dn_notes e)"
proof -
  have added: "notes_ok ns \<Longrightarrow> notes_ok (foldl (\<lambda>ns h. AddNote (f h) ns) ns hs)" for ns f hs
    by (induction hs arbitrary: ns) (simp_all add: AddNote_ok)
  have "notes_ok (pnp_notes pnp guid [])" for guid
    by (auto simp: pnp_notes_def Let_def notes_ok_def [of "[]"] intro!: added AddNote_ok split: option.split)
  then have "notes_ok (row_notes row (pnp_notes pnp guid []))" for row guid
    by (auto simp: row_notes_def intro: AddNote_ok split: option.split)
  then show ?thesis
    using assms
    by (auto simp: discover_entity_def Let_def obind_Inr_iff notes_ok_def [of "sort _"])
      (auto simp: notes_ok_def)
qed

section \<open>Properties\<close>

lemma discovered_from:
  "e \<in> set (discover_adapters opts host pnp n as) \<Longrightarrow>
     \<exists>a\<in>set as. \<not> adapter_skipped opts host a \<and> discover_entity opts host pnp a = Inr e"
  by (induction opts host pnp n as rule: discover_adapters.induct) (auto split: if_splits sum.splits)

lemma discovered_at_most:
  "n \<le> do_max_adapters opts \<Longrightarrow> n + length (discover_adapters opts host pnp n as) \<le> do_max_adapters opts"
  by (induction opts host pnp n as rule: discover_adapters.induct) (auto split: sum.split)

lemma adapters_given: "get_adapters host attempts = Inr as \<Longrightarrow> \<exists>n. wh_addresses host n = Adapters as"
  by (induction attempts) (auto split: adapters_answer.splits)

lemma entity_class:
  "discover_entity opts host pnp a = Inr e \<Longrightarrow> dn_kind e = EK_Nic \<and> ent_kind (dn_entity e) = EK_Nic
     \<and> dn_coverage e = Partial \<and> dn_provenance e = Prov_DirectDeviceOrOsApi
     \<and> dn_source_class e = Src_OperatingSystemApi"
  by (auto simp: discover_entity_def Let_def obind_Inr_iff EntityId_Create_def split: if_splits)


definition demo_host :: windows_host where
  "demo_host = \<lparr>wh_devices = [], wh_addresses = (\<lambda>n. if n = 0 then Buffer_overflow else
       Adapters [\<lparr>ad_if_type = 6, ad_name = ''{0A-1}'', ad_description = [], ad_friendly_name = ''lan 0'',
         ad_row = Some \<lparr>ir_transmit_speed = 1000000000, ir_receive_speed = 1000000000,
           ir_medium = NdisPhysicalMedium802_3, ir_mtu = 1500\<rparr>\<rparr>]),
     wh_loopback = 24, wh_tunnel = 131, wh_ethernet = 6\<rparr>"

lemma demo_report:
  "\<exists>report. DiscoverHostCapabilities (Some demo_host) discovery_default = Inr report"
  by (simp add: DiscoverHostCapabilities_def discover_windows_def demo_host_def discovery_default_def
      obind_def Let_def)


text \<open>The notes bound of the options plays no part, and a tunnel is reported when only loopback adapters
  are asked for.\<close>

lemma notes_bound_unread:
  "DiscoverHostCapabilities platform (opts\<lparr>do_max_notes_per_entity := n\<rparr>) = DiscoverHostCapabilities platform opts"
proof -
  have e: "discover_entity (opts\<lparr>do_max_notes_per_entity := n\<rparr>) = discover_entity opts"
    "adapter_skipped (opts\<lparr>do_max_notes_per_entity := n\<rparr>) = adapter_skipped opts"
    by (simp_all add: fun_eq_iff discover_entity_def adapter_skipped_def)
  have "discover_adapters (opts\<lparr>do_max_notes_per_entity := n\<rparr>) host pnp k as
      = discover_adapters opts host pnp k as" for host pnp k as
    by (induction as arbitrary: k) (simp_all add: e split: sum.split)
  then show ?thesis
    by (auto simp: DiscoverHostCapabilities_def discover_windows_def split: option.split)
qed

lemma loopback_admits_tunnels:
  "do_include_loopback opts \<Longrightarrow> \<not> adapter_skipped opts host a"
  by (simp add: adapter_skipped_def)

end
