(* ===== verification/Inspection.thy ===== *)
theory Inspection
  imports ToolParsing Discovery Explanations Synthetic StoreFile Statistics Coordinator
begin

text \<open>
  The inspection tool (\<open>src/tools/fcrctl/main.cpp\<close>): every command as a function from the arguments
  and the disk to an exit code and the text on the standard output. No end means that an exception
  escapes. Messages on the error output are not modelled.
\<close>

type_synonym tool_end = "(nat \<times> string) option"

abbreviation kExitOk :: nat where "kExitOk \<equiv> 0"
abbreviation kExitUsage :: nat where "kExitUsage \<equiv> 2"
abbreviation kExitLookup :: nat where "kExitLookup \<equiv> 3"
abbreviation kExitStore :: nat where "kExitStore \<equiv> 4"

text \<open>
  What a run depends on beside its arguments and the disk: the host, the boot identifier it mints
  from the clock, where a save fails, and the sentences the registry adds to differences and
  requirement nodes.
\<close>

record tool_world =
  tw_host :: "windows_host option"
  tw_boot :: token
  tw_fault :: write_fault
  tw_diff_detail :: "nat \<Rightarrow> string"
  tw_node_detail :: "node_result \<Rightarrow> string"
  tw_invalid_text :: string

definition ends_with :: "nat \<Rightarrow> string \<Rightarrow> tool_end" where
  "ends_with code stdout = Some (code, stdout)"

definition truth_text :: "bool \<Rightarrow> string" where
  "truth_text b = (if b then ''true'' else ''false'')"

definition store_config :: "string \<Rightarrow> persistence_config" where
  "store_config directory = \<lparr>pc_directory = directory, pc_file_stem = ''fabric-capability-registry'',
     pc_create_if_missing = True, pc_durable_flush = True\<rparr>"

definition StoreConfig :: "string list \<Rightarrow> persistence_config" where
  "StoreConfig items = store_config (args_Value items ''--store'' [])"

definition LoadStore :: "string list \<Rightarrow> disk \<Rightarrow> registry outcome \<times> disk" where
  "LoadStore items d =
     (if pc_directory (StoreConfig items) = [] then (Inl E_InvalidArgument, d)
      else case Load (StoreConfig items) fresh_registry d of
        (Inl e, _, d) \<Rightarrow> (Inl e, d)
      | (Inr _, g, d) \<Rightarrow> (Inr g, d))"

section \<open>Importing\<close>

text \<open>The namespaces of the schema in the order of its descriptors, each once.\<close>

definition schema_namespaces :: "capability_schema \<Rightarrow> namespace_id list" where
  "schema_namespaces sch = foldl (\<lambda>namespaces d.
     if cap_ns (cd_id d) \<in> set namespaces then namespaces else namespaces @ [cap_ns (cd_id d)])
     [] (Schema_Descriptors sch)"

definition synthetic_arguments :: "string list \<Rightarrow> synthetic_options option" where
  "synthetic_arguments items =
     (let devices = (if args_Has items ''--devices'' then ParseU64 (args_Value items ''--devices'' []) else Some 1);
          seed = (if args_Has items ''--seed'' then ParseU64 (args_Value items ''--seed'' []) else Some 1)
      in case devices of None \<Rightarrow> None | Some devices \<Rightarrow>
        (case seed of None \<Rightarrow> None | Some seed \<Rightarrow>
           Some \<lparr>yo_device_count = unat devices, yo_seed = seed, yo_first_generation = 1,
             yo_include_conflicting_source = args_Has items ''--conflicts'',
             yo_include_changing_source = args_Has items ''--changing'', yo_name_offset = 0\<rparr>))"

definition import_grant :: "registry \<Rightarrow> synthetic_publication \<Rightarrow> authority_grant" where
  "import_grant g first =
     \<lparr>ag_scope = yp_scope first,
      ag_entity_kinds = [EK_Nic, EK_Switch, EK_Port, EK_Device, EK_SmartNic, EK_Dpu, EK_Router],
      ag_namespaces = schema_namespaces (g_schema g),
      ag_modes = ModeBit FullSnapshot OR ModeBit Incremental OR ModeBit PartialObservation,
      ag_exclusive = False, ag_may_publish_durable = True,
      ag_strongest_provenance = Prov_SyntheticTestBackend,
      ag_allowed_publishers = [yp_publisher first],
      ag_max_claims_per_publication = kMaxClaimsPerPublication,
      ag_description = MakeReason ''synthetic capability import''\<rparr>"

definition expected_generation :: "registry \<Rightarrow> entity_id \<Rightarrow> counter" where
  "expected_generation g entity =
     (case EntityRecord g entity of
        Inl _ \<Rightarrow> 0
      | Inr view \<Rightarrow> if vw_has_current_set view then s_set_generation (vw_current_set view) else 0)"

definition import_request ::
  "registry \<Rightarrow> token \<Rightarrow> token \<Rightarrow> token \<Rightarrow> token \<Rightarrow> token \<Rightarrow> synthetic_publication \<Rightarrow> publication_request" where
  "import_request g publication attempt scope publisher boot p =
     \<lparr>pq_mode = PartialObservation, pq_attempt = attempt, pq_publication = publication,
      pq_epoch = CurrentEpoch g,
      pq_authority = \<lparr>ac_scope = scope, ac_publisher = publisher, ac_worker_boot = boot,
        ac_source = yp_source p, ac_source_generation = 1\<rparr>,
      pq_entity = yp_entity p, pq_entity_generation = yp_entity_generation p,
      pq_expected_set_generation = expected_generation g (yp_entity p),
      pq_claims = yp_published p, pq_edits = [], pq_coverage = yp_coverage p, pq_reason = []\<rparr>"

text \<open>The publications one after the other; the totals are the entities and the claims.\<close>

fun import_publications ::
  "token \<Rightarrow> token \<Rightarrow> token \<Rightarrow> synthetic_publication list \<Rightarrow> nat \<times> nat \<Rightarrow> registry
   \<Rightarrow> (nat \<times> nat) option \<times> registry" where
  "import_publications scope publisher boot [] totals g = (Some totals, g)"
| "import_publications scope publisher boot (p # ps) (entities, claims) g =
     (let stem = ''import-'' @ ent_canonical (yp_entity p) @ ''-'' @ yp_source p in
      case (PublicationId_Parse stem, MutationAttemptId_Parse stem) of
        (Inr publication, Inr attempt) \<Rightarrow>
          (case Publish g (import_request g publication attempt scope publisher boot p) of
             (Inl _, g) \<Rightarrow> (None, g)
           | (Inr result, g) \<Rightarrow>
               if pr_status result = Rejected then (None, g)
               else import_publications scope publisher boot ps
                 (entities + 1, claims + length (yp_published p)) g)
      | _ \<Rightarrow> (None, g))"

definition imported :: "tool_world \<Rightarrow> persistence_config \<Rightarrow> string \<Rightarrow> registry \<Rightarrow> disk \<Rightarrow> tool_end \<times> disk" where
  "imported tw cfg totals g d =
     (case Save (tw_fault tw) cfg g d of
        (Inl _, d) \<Rightarrow> (ends_with kExitStore [], d)
      | (Inr saved, d) \<Rightarrow> (ends_with kExitOk (line totals @ line (''store='' @ sv_path saved)
          @ line (''digest='' @ Digest_ToString (Registry_ComputeDigest g))), d))"

definition ImportSynthetic :: "tool_world \<Rightarrow> string list \<Rightarrow> disk \<Rightarrow> tool_end \<times> disk" where
  "ImportSynthetic tw items d =
     (if args_Value items ''--store'' [] = [] then (ends_with kExitUsage [], d)
      else case ParseSyntheticDeviceClass (args_Value items ''--class'' ''leaf-switch'') of
        Inl _ \<Rightarrow> (ends_with kExitUsage [], d)
      | Inr device_class \<Rightarrow>
          (case synthetic_arguments items of
             None \<Rightarrow> (ends_with kExitUsage [], d)
           | Some opts \<Rightarrow>
               (case BuildSyntheticFabric device_class opts of
                  [] \<Rightarrow> (ends_with kExitStore [], d)
                | first # rest \<Rightarrow>
                    (case Load (StoreConfig items) fresh_registry d of
                       (Inl _, _, d) \<Rightarrow> (ends_with kExitStore [], d)
                     | (Inr _, g, d) \<Rightarrow>
                         (case DeclareAuthority g (import_grant g first) of
                            (Inl _, _) \<Rightarrow> (ends_with kExitStore [], d)
                          | (Inr _, g) \<Rightarrow>
                              (case RegisterPublisher g (yp_publisher first) (yp_scope first) (tw_boot tw) of
                                 (Inl _, _) \<Rightarrow> (ends_with kExitStore [], d)
                               | (Inr registered, g) \<Rightarrow>
                                   (case import_publications (yp_scope first) (yp_publisher first)
                                        (pb_worker_boot registered) (first # rest) (0, 0) g of
                                      (None, _) \<Rightarrow> (ends_with kExitStore [], d)
                                    | (Some (entities, claims), g) \<Rightarrow>
                                        imported tw (StoreConfig items)
                                          (''imported entities='' @ nat_text entities @ '' claims=''
                                           @ nat_text claims) g d)))))))"

subsection \<open>What was discovered\<close>

definition discovery_publisher :: token where "discovery_publisher = ''host-discovery''"
definition discovery_scope :: token where "discovery_scope = ''host-discovery-scope''"
definition discovery_source :: token where "discovery_source = ''host-discovery-source''"

definition discovery_arguments :: "string list \<Rightarrow> discovery_options" where
  "discovery_arguments items = discovery_default
     \<lparr>do_include_loopback := args_Has items ''--include-loopback'',
      do_include_pnp_properties := \<not> args_Has items ''--no-pnp''\<rparr>"

definition discovery_grant :: "registry \<Rightarrow> authority_grant" where
  "discovery_grant g =
     \<lparr>ag_scope = discovery_scope, ag_entity_kinds = [EK_Nic],
      ag_namespaces = schema_namespaces (g_schema g),
      ag_modes = ModeBit FullSnapshot OR ModeBit PartialObservation, ag_exclusive = False,
      ag_may_publish_durable = False, ag_strongest_provenance = Prov_DirectDeviceOrOsApi,
      ag_allowed_publishers = [discovery_publisher],
      ag_max_claims_per_publication = kMaxClaimsPerPublication, ag_description = []\<rparr>"

definition claim_of_fact :: "discovered_entity \<Rightarrow> discovered_fact \<Rightarrow> capability_claim" where
  "claim_of_fact entity f = claim_default
     \<lparr>cl_capability := ft_capability f, cl_state := ft_state f, cl_value := ft_value f,
      cl_provenance := dn_provenance entity, cl_source_class := dn_source_class entity,
      cl_durability := ProcessBound, cl_coverage := Partial\<rparr>"

definition discovery_request ::
  "registry \<Rightarrow> token \<Rightarrow> token \<Rightarrow> token \<Rightarrow> discovered_entity \<Rightarrow> publication_request" where
  "discovery_request g publication attempt boot entity =
     \<lparr>pq_mode = PartialObservation, pq_attempt = attempt, pq_publication = publication,
      pq_epoch = CurrentEpoch g,
      pq_authority = \<lparr>ac_scope = discovery_scope, ac_publisher = discovery_publisher,
        ac_worker_boot = boot, ac_source = discovery_source, ac_source_generation = 1\<rparr>,
      pq_entity = dn_entity entity, pq_entity_generation = 1,
      pq_expected_set_generation = expected_generation g (dn_entity entity),
      pq_claims = map (claim_of_fact entity) (dn_facts entity), pq_edits = [], pq_coverage = Partial,
      pq_reason = []\<rparr>"

text \<open>The identifiers are taken without a check, so a name that is too long lets an exception escape. The
  status of the result is not looked at.\<close>

datatype import_end = Imported nat nat nat | Import_failed | Import_throws

fun import_discovered ::
  "token \<Rightarrow> discovered_entity list \<Rightarrow> nat \<times> nat \<times> nat \<Rightarrow> registry \<Rightarrow> import_end \<times> registry" where
  "import_discovered boot [] (entities, facts, not_reported) g =
     (Imported entities facts not_reported, g)"
| "import_discovered boot (e # es) (entities, facts, not_reported) g =
     (let stem = ''discovery-'' @ ent_canonical (dn_entity e) in
      case (PublicationId_Parse stem, MutationAttemptId_Parse stem) of
        (Inr publication, Inr attempt) \<Rightarrow>
          (case Publish g (discovery_request g publication attempt boot e) of
             (Inl _, g) \<Rightarrow> (Import_failed, g)
           | (Inr _, g) \<Rightarrow> import_discovered boot es
               (entities + 1, facts + length (dn_facts e),
                not_reported + length (filter (\<lambda>f. ft_status f \<noteq> Reported) (dn_facts e))) g)
      | _ \<Rightarrow> (Import_throws, g))"

definition ImportDiscovery :: "tool_world \<Rightarrow> string list \<Rightarrow> disk \<Rightarrow> tool_end \<times> disk" where
  "ImportDiscovery tw items d =
     (if args_Value items ''--store'' [] = [] then (ends_with kExitUsage [], d)
      else case DiscoverHostCapabilities (tw_host tw) (discovery_arguments items) of
        Inl _ \<Rightarrow> (ends_with kExitStore [], d)
      | Inr report \<Rightarrow>
          (case Load (StoreConfig items) fresh_registry d of
             (Inl _, _, d) \<Rightarrow> (ends_with kExitStore [], d)
           | (Inr _, g, d) \<Rightarrow>
               (case DeclareAuthority g (discovery_grant g) of
                  (Inl _, _) \<Rightarrow> (ends_with kExitStore [], d)
                | (Inr _, g) \<Rightarrow>
                    (case RegisterPublisher g discovery_publisher discovery_scope (tw_boot tw) of
                       (Inl _, _) \<Rightarrow> (ends_with kExitStore [], d)
                     | (Inr _, g) \<Rightarrow>
                         (case import_discovered (tw_boot tw) (dr_entities report) (0, 0, 0) g of
                            (Import_throws, _) \<Rightarrow> (None, d)
                          | (Import_failed, _) \<Rightarrow> (ends_with kExitStore [], d)
                          | (Imported entities facts not_reported, g) \<Rightarrow>
                              imported tw (StoreConfig items)
                                (''imported entities='' @ nat_text entities @ '' facts='' @ nat_text facts
                                 @ '' not_reported='' @ nat_text not_reported) g d)))))"

section \<open>Reports\<close>

definition counts_text :: "entity_capability_set \<Rightarrow> string" where
  "counts_text s = '' capabilities='' @ nat_text (length (s_capabilities s))
     @ '' supported='' @ nat_text (CountOf s St_Supported)
     @ '' unsupported='' @ nat_text (CountOf s St_Unsupported)
     @ '' unknown='' @ nat_text (CountOf s St_Unknown)
     @ '' revalidation_required='' @ nat_text (CountOf s St_RevalidationRequired)
     @ '' conflicted='' @ nat_text (CountOf s St_Conflicted)"

definition generations_text :: "string \<Rightarrow> entity_capability_set \<Rightarrow> string" where
  "generations_text name s = ''entity='' @ name @ '' generation='' @ Counter_ToString (s_entity_generation s)
     @ '' set_generation='' @ Counter_ToString (s_set_generation s)"

definition each_entity_set :: "registry \<Rightarrow> (entity_id \<Rightarrow> entity_capability_set \<Rightarrow> string) \<Rightarrow> string" where
  "each_entity_set g f = concat (map (\<lambda>e. case QueryEntity g e of
     Inl _ \<Rightarrow> [] | Inr s \<Rightarrow> line (f e s)) (Entities g))"

definition PrintEntities :: "registry \<Rightarrow> string" where
  "PrintEntities g = each_entity_set g (\<lambda>e s. generations_text (ent_rendered e) s @ counts_text s
     @ '' digest='' @ Digest_ToString (s_digest s))"

definition PrintStats :: "registry \<Rightarrow> string" where
  "PrintStats g = (let s = Statistics g in concat (map (\<lambda>(name, v). line (name @ ''='' @ v))
     [(''entities'', nat_text (st_entities s)),
      (''capability_records'', nat_text (st_capability_records s)),
      (''evidence_records'', nat_text (st_evidence_records s)),
      (''supported'', nat_text (st_state_count s St_Supported)),
      (''unsupported'', nat_text (st_state_count s St_Unsupported)),
      (''unknown'', nat_text (st_state_count s St_Unknown)),
      (''revalidation_required'', nat_text (st_state_count s St_RevalidationRequired)),
      (''conflicted'', nat_text (st_state_count s St_Conflicted)),
      (''authority_scopes'', nat_text (st_authority_scopes s)),
      (''registered_publishers'', nat_text (st_registered_publishers s)),
      (''fenced_worker_boots'', nat_text (st_fenced_worker_boots s)),
      (''vendor_descriptors'', nat_text (unat (st_vendor_descriptors s))),
      (''replay_entries'', nat_text (st_replay_entries s)),
      (''rejection_journal_entries'', nat_text (st_rejection_journal_entries s)),
      (''retired_generations'', nat_text (registry_statistics.st_retired_generations s)),
      (''registry_generation'', Counter_ToString (st_registry_generation s)),
      (''epoch'', Counter_ToString (registry_statistics.st_epoch s))]))"

text \<open>An entity and a capability from the arguments.\<close>

definition subject :: "string list \<Rightarrow> (entity_id \<times> capability_id) option" where
  "subject items =
     (case (EntityId_Parse (args_Value items ''--entity'' []),
            CapabilityId_Parse (args_Value items ''--capability'' [])) of
        (Inr entity, Inr capability) \<Rightarrow> Some (entity, capability)
      | _ \<Rightarrow> None)"

definition answer_text :: "query_result \<Rightarrow> string" where
  "answer_text q = ''entity='' @ ent_rendered (q_entity q) @ '' capability='' @ cap_rendered (q_capability q)
     @ '' state='' @ CapabilityStateName (q_state q)
     @ '' value='' @ value_or_absent (q_has_value q) (query_result.q_value q)
     @ '' actionable='' @ truth_text (q_actionable q) @ '' fails_closed='' @ truth_text (q_fails_closed q)
     @ '' set_generation='' @ Counter_ToString (q_set_generation q)
     @ '' capability_generation='' @ Counter_ToString (q_capability_generation q)
     @ '' registry_generation='' @ Counter_ToString (q_registry_generation q)
     @ '' provenance='' @ ProvenanceClassName (q_provenance q)
     @ '' source_class='' @ EvidenceSourceClassName (q_source_class q)
     @ '' coverage='' @ CoverageName (q_coverage q) @ '' durability='' @ DurabilityClassName (q_durability q)
     @ '' evidence='' @ nat_text (q_evidence_count q) @ '' current='' @ nat_text (q_current_evidence_count q)
     @ '' outranked='' @ nat_text (q_outranked_evidence_count q)
     @ '' conflicting='' @ nat_text (q_conflicting_evidence_count q)
     @ '' winning_evidence='' @ q_winning_evidence q"

definition cmd_capability :: "registry \<Rightarrow> string list \<Rightarrow> tool_end" where
  "cmd_capability g items =
     (case subject items of
        None \<Rightarrow> ends_with kExitUsage []
      | Some (entity, capability) \<Rightarrow>
          (let q = Query g entity capability in
           if \<not> q_record_exists q
           then ends_with kExitLookup (line (''capability='' @ cap_rendered capability
              @ '' state='' @ CapabilityStateName (q_state q)))
           else ends_with kExitOk (line (answer_text q)
              @ line (Explanation_ToText (query_explanation g entity capability)))))"

definition summary_text :: "evidence_summary \<Rightarrow> string" where
  "summary_text s = ''evidence='' @ sm_id s @ '' source='' @ sm_source s @ '' publisher='' @ sm_publisher s
     @ '' boot='' @ sm_worker_boot s @ '' epoch='' @ Counter_ToString (sm_epoch s)
     @ '' provenance='' @ ProvenanceClassName (sm_provenance s)
     @ '' source_class='' @ EvidenceSourceClassName (sm_source_class s)
     @ '' durability='' @ DurabilityClassName (sm_durability s) @ '' coverage='' @ CoverageName (sm_coverage s)
     @ '' state='' @ CapabilityStateName (sm_state s) @ '' value='' @ value_or_absent (sm_has_value s) (sm_value s)
     @ '' evidence_generation='' @ Counter_ToString (sm_evidence_generation s)
     @ '' source_generation='' @ Counter_ToString (sm_source_generation s)
     @ '' currentness='' @ EvidenceCurrentnessName (sm_currentness s)
     @ '' winning='' @ truth_text (sm_winning s) @ '' conflicting='' @ truth_text (sm_conflicting s)
     @ '' outranked='' @ truth_text (sm_outranked s)
     @ '' reason='' @ (if IsSet (sm_reason s) then sm_reason s else ''-'')"

definition cmd_evidence :: "registry \<Rightarrow> string list \<Rightarrow> tool_end" where
  "cmd_evidence g items =
     (case subject items of
        None \<Rightarrow> ends_with kExitUsage []
      | Some (entity, capability) \<Rightarrow>
          (let evidence = EvidenceFor g entity capability in
           if evidence = [] then ends_with kExitLookup []
           else ends_with kExitOk (concat (map (\<lambda>s. line (summary_text s)) evidence))))"

definition cmd_explain :: "registry \<Rightarrow> string list \<Rightarrow> tool_end" where
  "cmd_explain g items =
     (case subject items of
        None \<Rightarrow> ends_with kExitUsage []
      | Some (entity, capability) \<Rightarrow>
          ends_with kExitOk (line (Explanation_ToText (ExplainCapability g entity capability))))"

definition cmd_entity :: "registry \<Rightarrow> string list \<Rightarrow> tool_end" where
  "cmd_entity g items =
     (case EntityId_Parse (args_Value items ''--entity'' []) of
        Inl _ \<Rightarrow> ends_with kExitUsage []
      | Inr entity \<Rightarrow>
          (case QueryEntity g entity of
             Inl _ \<Rightarrow> ends_with kExitLookup []
           | Inr s \<Rightarrow> ends_with kExitOk (line (EntitySet_ToText s))))"

definition cmd_generation :: "registry \<Rightarrow> string list \<Rightarrow> tool_end" where
  "cmd_generation g items =
     (let entity_text = args_Value items ''--entity'' [] in
      if entity_text = []
      then ends_with kExitOk (line (''registry_generation='' @ Counter_ToString (Registry_Generation g)
          @ '' epoch='' @ Counter_ToString (CurrentEpoch g))
        @ each_entity_set g (\<lambda>e s. generations_text (ent_rendered e) s))
      else case EntityId_Parse entity_text of
        Inl _ \<Rightarrow> ends_with kExitUsage []
      | Inr entity \<Rightarrow>
          (case QueryEntity g entity of
             Inl _ \<Rightarrow> ends_with kExitLookup []
           | Inr s \<Rightarrow> ends_with kExitOk (line (generations_text entity_text s))))"

text \<open>The scope of a snapshot from the arguments; the difference looks at the entity only.\<close>

definition entity_scope :: "string list \<Rightarrow> snapshot_scope option" where
  "entity_scope items =
     (let entity_text = args_Value items ''--entity'' [];
          everything = \<lparr>sc_all_entities = True, sc_entities = [], sc_namespaces = [], sc_entity_kinds = []\<rparr>
      in if entity_text = [] then Some everything
         else case EntityId_Parse entity_text of
           Inl _ \<Rightarrow> None
         | Inr entity \<Rightarrow> Some (everything\<lparr>sc_all_entities := False, sc_entities := [entity]\<rparr>))"

definition namespace_scope :: "string list \<Rightarrow> snapshot_scope \<Rightarrow> snapshot_scope option" where
  "namespace_scope items scope =
     (let namespace_text = args_Value items ''--namespace'' [] in
      if namespace_text = [] then Some scope
      else case Namespace_Parse namespace_text of
        Inl _ \<Rightarrow> None | Inr ns \<Rightarrow> Some (scope\<lparr>sc_namespaces := sc_namespaces scope @ [ns]\<rparr>))"

definition cmd_snapshot :: "registry \<Rightarrow> string list \<Rightarrow> tool_end" where
  "cmd_snapshot g items =
     (case Option.bind (entity_scope items) (namespace_scope items) of
        None \<Rightarrow> ends_with kExitUsage []
      | Some scope \<Rightarrow>
          (case CreateSnapshot g scope of
             Inl _ \<Rightarrow> ends_with kExitLookup []
           | Inr s \<Rightarrow> ends_with kExitOk
               (line (Snapshot_ToText s @ '' current='' @ truth_text (CheckSnapshot g s))
                @ concat (map (\<lambda>reason. line (''  stale_reason='' @ reason)) (snapshot_reasons g s)))))"

definition cmd_diff :: "tool_world \<Rightarrow> registry \<Rightarrow> string list \<Rightarrow> disk \<Rightarrow> tool_end \<times> disk" where
  "cmd_diff tw g items d =
     (let other_directory = args_Value items ''--against-store'' [] in
      if other_directory = [] then (ends_with kExitUsage [], d)
      else case Load (store_config other_directory) fresh_registry d of
        (Inl _, _, d) \<Rightarrow> (ends_with kExitStore [], d)
      | (Inr _, other, d) \<Rightarrow>
          (case entity_scope items of
             None \<Rightarrow> (ends_with kExitUsage [], d)
           | Some scope \<Rightarrow>
               (case CreateSnapshot other scope of
                  Inl _ \<Rightarrow> (ends_with kExitLookup [], d)
                | Inr s \<Rightarrow>
                    (case DiffAgainstSnapshot g s of
                       Inl _ \<Rightarrow> (ends_with kExitLookup [], d)
                     | Inr entries \<Rightarrow> (ends_with kExitOk (line (Diff_ToText
                         (wire_diff_default\<lparr>wd_entries := map (\<lambda>(i, e). describe_entry (tw_diff_detail tw i) e)
                            (enumerate 0 entries)\<rparr>))), d)))))"

text \<open>The explanation of an evaluation (\<open>EvaluateRequirementAgainst\<close> in \<open>src/src/requirement.cpp\<close>).\<close>

definition node_step :: "(node_result \<Rightarrow> string) \<Rightarrow> node_result \<Rightarrow> explanation_step" where
  "node_step detail node =
     \<lparr>xs_code = ''requirement.node.'' @ RequirementOutcomeName (nr_outcome node),
      xs_summary = RequirementKindName (nr_kind node) @ '' -> '' @ RequirementOutcomeName (nr_outcome node),
      xs_fields = [(''path'', nr_path node)]
        @ (if nr_name node \<noteq> [] then [(''name'', nr_name node)] else [])
        @ (if CapabilityId_IsSet (nr_capability node)
           then [(''capability'', cap_rendered (nr_capability node))] else [])
        @ [(''observed_state'', CapabilityStateName (nr_observed_state node))]
        @ (if nr_has_observed_value node then [(''observed_value'', Value_ToText (nr_observed_value node))] else [])
        @ (if detail node \<noteq> [] then [(''detail'', detail node)] else [])\<rparr>"

definition evaluation_explanation ::
  "(node_result \<Rightarrow> string) \<Rightarrow> string \<Rightarrow> requirement \<Rightarrow> requirement_evaluation \<Rightarrow> explanation" where
  "evaluation_explanation detail invalid_text r ev =
     (case ValidateRequirement r of
        Inl _ \<Rightarrow> \<lparr>xp_code = ''requirement.invalid'', xp_summary = invalid_text, xp_steps = []\<rparr>
      | Inr _ \<Rightarrow>
          \<lparr>xp_code = ''requirement.'' @ RequirementOutcomeName (rv_outcome ev),
           xp_summary = ''requirement evaluation for '' @ ent_rendered (rv_entity ev) @ '' is ''
             @ RequirementOutcomeName (rv_outcome ev),
           xp_steps = \<lparr>xs_code = ''requirement.nodes'', xs_summary = ''evaluated nodes'',
               xs_fields = [(''nodes'', nat_text (length (rv_nodes ev))),
                 (''entity_generation'', Counter_ToString (rv_entity_generation ev))]\<rparr>
             # map (node_step detail) (take (kMaxTextFieldsPerExplanation - 1) (rv_nodes ev))\<rparr>)"

definition node_text :: "(node_result \<Rightarrow> string) \<Rightarrow> node_result \<Rightarrow> string" where
  "node_text detail node = ''  requirement='' @ nr_name node @ '' kind='' @ RequirementKindName (nr_kind node)
     @ '' outcome='' @ RequirementOutcomeName (nr_outcome node)
     @ '' observed_state='' @ CapabilityStateName (nr_observed_state node)
     @ '' observed_value='' @ value_or_absent (nr_has_observed_value node) (nr_observed_value node)
     @ '' detail='' @ detail node"

definition cmd_query :: "tool_world \<Rightarrow> registry \<Rightarrow> string list \<Rightarrow> tool_end" where
  "cmd_query tw g items =
     (case EntityId_Parse (args_Value items ''--entity'' []) of
        Inl _ \<Rightarrow> ends_with kExitUsage []
      | Inr entity \<Rightarrow>
          (let expression = args_Value items ''--require'' [] in
           if expression = [] then ends_with kExitUsage []
           else case BuildRequirement expression of
             Malformed _ \<Rightarrow> ends_with kExitUsage []
           | Throws \<Rightarrow> None
           | Read r \<Rightarrow>
               (let ev = EvaluateRequirementAgainst g entity r in
                ends_with (if rv_outcome ev = Satisfied then kExitOk else kExitLookup)
                  (line (''outcome='' @ RequirementOutcomeName (rv_outcome ev)
                     @ '' entity='' @ ent_rendered entity @ '' nodes='' @ nat_text (length (rv_nodes ev)))
                   @ concat (map (\<lambda>node. line (node_text (tw_node_detail tw) node)) (rv_nodes ev))
                   @ line (Explanation_ToText
                       (evaluation_explanation (tw_node_detail tw) (tw_invalid_text tw) r ev))))))"

section \<open>Discovery and synthetic profiles on the output\<close>

definition json :: "string \<Rightarrow> string" where
  "json t = CHR 0x22 # JsonEscape t @ [CHR 0x22]"

definition json_plain :: "string \<Rightarrow> string" where
  "json_plain t = CHR 0x22 # t @ [CHR 0x22]"

text \<open>Every element with a comma, except the last one.\<close>

fun json_elements :: "('a \<Rightarrow> string) \<Rightarrow> string \<Rightarrow> 'a list \<Rightarrow> string" where
  "json_elements f close [] = []"
| "json_elements f close [x] = f x @ line close"
| "json_elements f close (x # xs) = f x @ line (close @ '','') @ json_elements f close xs"

definition json_fact :: "discovered_fact \<Rightarrow> string" where
  "json_fact f = ''        {'' @ json_plain ''capability'' @ '': '' @ json (cap_rendered (ft_capability f))
     @ '', '' @ json_plain ''note'' @ '': '' @ json (ft_note f)
     @ '', '' @ json_plain ''state'' @ '': '' @ json_plain (CapabilityStateName (ft_state f))
     @ '', '' @ json_plain ''status'' @ '': '' @ json_plain (DiscoveryFactStatusName (ft_status f))
     @ '', '' @ json_plain ''value'' @ '': '' @ json (value_or_absent (ft_has_value f) (ft_value f))"

definition json_entity :: "discovered_entity \<Rightarrow> string" where
  "json_entity e = line ''    {'' @ line (''      '' @ json_plain ''entity'' @ '': ''
       @ json (ent_rendered (dn_entity e)) @ '','') @ line (''      '' @ json_plain ''facts'' @ '': ['')
     @ json_elements json_fact ''}'' (dn_facts e) @ line ''      ]''"

definition json_report :: "discovery_report \<Rightarrow> string" where
  "json_report report = line ''{'' @ line (''  '' @ json_plain ''adapters'' @ '': ''
       @ nat_text (length (dr_entities report)) @ '','') @ line (''  '' @ json_plain ''entities'' @ '': ['')
     @ json_elements json_entity ''    }'' (dr_entities report)
     @ line ''  ],'' @ line (''  '' @ json_plain ''platform'' @ '': '' @ json (dr_platform report)) @ line ''}''"

definition cmd_discover :: "tool_world \<Rightarrow> string list \<Rightarrow> tool_end" where
  "cmd_discover tw items =
     (let opts = (if args_Has items ''--max-adapters''
            then map_option (\<lambda>adapters. (discovery_arguments items)\<lparr>do_max_adapters := unat adapters\<rparr>)
              (ParseU64 (args_Value items ''--max-adapters'' []))
            else Some (discovery_arguments items))
      in case opts of
           None \<Rightarrow> ends_with kExitUsage []
         | Some opts \<Rightarrow>
             (case DiscoverHostCapabilities (tw_host tw) opts of
                Inl _ \<Rightarrow> ends_with kExitLookup []
              | Inr report \<Rightarrow> ends_with kExitOk (if args_Has items ''--json'' then json_report report
                  else line (RenderDiscoveryReport report))))"

definition publication_text :: "synthetic_publication \<Rightarrow> string" where
  "publication_text p = line (''entity='' @ ent_rendered (yp_entity p)
       @ '' generation='' @ Counter_ToString (yp_entity_generation p) @ '' source='' @ yp_source p
       @ '' publisher='' @ yp_publisher p @ '' provenance='' @ ProvenanceClassName (yp_provenance p)
       @ '' coverage='' @ CoverageName (yp_coverage p) @ '' claims='' @ nat_text (length (yp_published p)))
     @ concat (map (\<lambda>c. line (''  claim='' @ cap_rendered (cl_capability c)
         @ '' state='' @ CapabilityStateName (cl_state c)
         @ '' value='' @ value_or_absent (cl_value c \<noteq> V_Absent) (cl_value c))) (yp_published p))"

definition cmd_synthetic :: "string list \<Rightarrow> tool_end" where
  "cmd_synthetic items =
     (let sub = (if length items > 1 then items ! 1 else []) in
      if sub = ''list''
      then ends_with kExitOk (concat (map (\<lambda>c. line (''class='' @ SyntheticDeviceClassName c)) SyntheticDeviceClasses))
      else if sub = ''show''
      then (case ParseSyntheticDeviceClass (args_Value items ''--class'' []) of
              Inl _ \<Rightarrow> ends_with kExitUsage []
            | Inr device_class \<Rightarrow>
                (case synthetic_arguments items of
                   None \<Rightarrow> ends_with kExitUsage []
                 | Some opts \<Rightarrow> ends_with kExitOk
                     (concat (map publication_text (BuildSyntheticFabric device_class opts)))))
      else ends_with kExitUsage [])"

definition cmd_inspect :: "string list \<Rightarrow> disk \<Rightarrow> tool_end \<times> disk" where
  "cmd_inspect items d =
     (if pc_directory (StoreConfig items) = [] then (ends_with kExitUsage [], d)
      else case InspectStore (StoreConfig items) d of
        (Inl _, d) \<Rightarrow> (ends_with kExitStore [], d)
      | (Inr i, d) \<Rightarrow> (ends_with kExitOk (concat (map (\<lambda>(name, v). line (name @ ''='' @ v))
          [(''format_version'', nat_text (unat (si_format_version i))), (''flags'', nat_text (unat (si_flags i))),
           (''payload_bytes'', nat_text (unat (si_payload_bytes i))),
           (''entity_records'', nat_text (si_entity_records i)),
           (''evidence_records'', nat_text (si_evidence_records i)),
           (''retired_generations'', nat_text (si_retired_generations i)),
           (''fence_records'', nat_text (si_fence_records i)),
           (''authority_grants'', nat_text (si_authority_grants i)),
           (''registry_generation'', Counter_ToString (si_registry_generation i)),
           (''epoch'', Counter_ToString (si_epoch i)),
           (''payload_digest'', Digest_ToString (si_payload_digest i)),
           (''integrity'', if si_integrity_ok i then ''ok'' else ''corrupt''),
           (''store'', si_path i)])), d))"

section \<open>The tool\<close>

definition store_command :: "tool_world \<Rightarrow> string \<Rightarrow> string list \<Rightarrow> registry \<Rightarrow> disk \<Rightarrow> tool_end \<times> disk" where
  "store_command tw command items g d =
     (if command = ''entities'' then (ends_with kExitOk (PrintEntities g), d)
      else if command = ''stats'' then (ends_with kExitOk (PrintStats g), d)
      else if command = ''entity'' then (cmd_entity g items, d)
      else if command = ''capability'' then (cmd_capability g items, d)
      else if command = ''evidence'' then (cmd_evidence g items, d)
      else if command = ''explain'' then (cmd_explain g items, d)
      else if command = ''generation'' then (cmd_generation g items, d)
      else if command = ''snapshot'' then (cmd_snapshot g items, d)
      else if command = ''diff'' then cmd_diff tw g items d
      else (cmd_query tw g items, d))"

definition known_commands :: "string list" where
  "known_commands = [''entities'', ''entity'', ''capability'', ''evidence'', ''explain'', ''generation'',
     ''snapshot'', ''stats'', ''diff'', ''query'']"

definition fcrctl :: "tool_world \<Rightarrow> string list \<Rightarrow> disk \<Rightarrow> tool_end \<times> disk" where
  "fcrctl tw items d =
     (case items of
        [] \<Rightarrow> (ends_with kExitUsage [], d)
      | command # _ \<Rightarrow>
          if command \<in> {''--help'', ''-h'', ''help''} then (ends_with kExitOk [], d)
          else if command = ''version'' then (ends_with kExitOk (line ''FabricCapabilityRegistry 1.0.0''), d)
          else if command = ''synthetic'' then (cmd_synthetic items, d)
          else if command = ''import-synthetic'' then ImportSynthetic tw items d
          else if command = ''import-discovery'' then ImportDiscovery tw items d
          else if command = ''discover'' then (cmd_discover tw items, d)
          else if command = ''inspect'' then cmd_inspect items d
          else if command \<notin> set known_commands then (ends_with kExitUsage [], d)
          else case LoadStore items d of
            (Inl e, d) \<Rightarrow> (ends_with (if e = E_InvalidArgument then kExitUsage else kExitStore) [], d)
          | (Inr g, d) \<Rightarrow> store_command tw command items g d)"

section \<open>Inspection leaves the stores alone\<close>

lemma StorePath_files: "dk_files (snd (StorePath cfg d)) = dk_files d"
  by (auto simp: StorePath_def ValidatePersistenceConfig_def split: sum.split option.split)

lemma Load_files: "Load cfg g d = (result, g', d') \<Longrightarrow> dk_files d' = dk_files d"
  using StorePath_files [of cfg d]
  by (auto simp: Load_def ReadStore_def Let_def split: prod.splits sum.splits)

lemma InspectStore_files: "InspectStore cfg d = (result, d') \<Longrightarrow> dk_files d' = dk_files d"
  using StorePath_files [of cfg d] by (auto simp: InspectStore_def split: prod.splits sum.splits)

lemma LoadStore_files: "LoadStore items d = (result, d') \<Longrightarrow> dk_files d' = dk_files d"
  by (auto simp: LoadStore_def dest: Load_files split: if_splits prod.splits sum.splits)

lemma cmd_inspect_files: "dk_files (snd (cmd_inspect items d)) = dk_files d"
  by (auto simp: cmd_inspect_def dest: InspectStore_files split: prod.split sum.split)

lemma cmd_diff_files: "dk_files (snd (cmd_diff tw g items d)) = dk_files d"
  by (auto simp: cmd_diff_def Let_def dest: Load_files split: prod.split sum.split option.split)

lemma store_command_files: "dk_files (snd (store_command tw command items g d)) = dk_files d"
  by (simp add: store_command_def cmd_diff_files)

text \<open>C35. Inspection changes no file. Whatever the command and its arguments, and however it ends, a run of
  the inspection tool that is not one of the two imports leaves every file of the disk as it was:
  loading a store to answer from it never writes it back.\<close>

theorem inspection_changes_no_file:
  assumes "items \<noteq> [] \<longrightarrow> hd items \<notin> {''import-synthetic'', ''import-discovery''}"
  shows "dk_files (snd (fcrctl tw items d)) = dk_files d"
proof (cases items)
  case (Cons command rest)
  then have "command \<noteq> ''import-synthetic''" "command \<noteq> ''import-discovery''" using assms by auto
  then show ?thesis
    unfolding fcrctl_def Cons
    by (auto simp: cmd_inspect_files store_command_files dest: LoadStore_files split: prod.split sum.split)
qed (simp add: fcrctl_def)

definition demo_world :: tool_world where
  "demo_world = \<lparr>tw_host = None, tw_boot = ''abcdef01'', tw_fault = No_fault, tw_diff_detail = (\<lambda>_. []),
     tw_node_detail = (\<lambda>_. []), tw_invalid_text = []\<rparr>"

lemma inspection_changes_no_file_witness:
  "dk_files (snd (fcrctl demo_world [''stats'', ''--store'', ''/var''] demo_disk)) = dk_files demo_disk"
  by (rule inspection_changes_no_file) simp

text \<open>An import of what was discovered counts every entity, whatever became of its publication: the
  status of the result is not looked at.\<close>

lemma import_counts_rejections:
  "import_discovered boot es (n, f, u) g = (Imported entities facts not_reported, g') \<Longrightarrow>
     entities = n + length es \<and> facts = f + sum_list (map (\<lambda>e. length (dn_facts e)) es)"
  by (induction boot es "(n, f, u)" g arbitrary: n f u rule: import_discovered.induct)
    (auto simp: Let_def split: sum.splits prod.splits)

end
