(* ===== verification/PublisherTool.thy ===== *)
theory PublisherTool
  imports ToolParsing PublisherClient Synthetic Rendering
begin

text \<open>
  The publisher process (\<open>src/tools/fcr_publisher/main.cpp\<close>): its arguments, the request it builds and
  its run over a connection. An option that does not end the loop over the arguments gives the new
  arguments; every other end of the process is its exit code.
\<close>

section \<open>Arguments\<close>

record publisher_arguments =
  pa_host :: string
  pa_client :: client_options
  pa_entity_text :: string
  pa_profile :: string
  pa_generation :: u64
  pa_generation_set :: bool
  pa_mode :: publication_mode
  pa_coverage :: coverage_class
  pa_provenance :: provenance_class
  pa_source_class :: evidence_source_class
  pa_durability :: durability_class
  pa_expected_set_generation :: u64
  pa_repeat :: u64
  pa_hold :: bool
  pa_fence_boot :: string
  pa_reason :: token
  pa_claim_states :: "(string \<times> capability_state) list"
  pa_claim_values :: "(string \<times> string) list"

definition arguments_new :: publisher_arguments where
  "arguments_new = \<lparr>pa_host = ''127.0.0.1'',
     pa_client = \<lparr>lo_port = 0, lo_publisher = [], lo_scope = [], lo_source = [], lo_worker_boot = [],
       lo_namespaces = [], lo_connect_attempts = 40, lo_epoch = 0\<rparr>,
     pa_entity_text = [], pa_profile = [], pa_generation = 1, pa_generation_set = False,
     pa_mode = FullSnapshot, pa_coverage = Partial, pa_provenance = Prov_SyntheticTestBackend,
     pa_source_class = Src_SyntheticBackend, pa_durability = ProcessBound,
     pa_expected_set_generation = 0, pa_repeat = 1, pa_hold = False, pa_fence_boot = [],
     pa_reason = [], pa_claim_states = [], pa_claim_values = []\<rparr>"

text \<open>An assignment \<open>name=value\<close>.\<close>

definition assignment :: "string \<Rightarrow> (string \<times> string) option" where
  "assignment t =
     (case dropWhile (\<lambda>ch. ch \<noteq> CHR ''='') t of
        [] \<Rightarrow> None
      | _ # v \<Rightarrow> Some (takeWhile (\<lambda>ch. ch \<noteq> CHR ''='') t, v))"

definition with_client ::
  "publisher_arguments \<Rightarrow> (client_options \<Rightarrow> client_options) \<Rightarrow> publisher_arguments option" where
  "with_client pa f = Some (pa\<lparr>pa_client := f (pa_client pa)\<rparr>)"

definition identity_option :: "string \<Rightarrow> string \<Rightarrow> publisher_arguments \<Rightarrow> publisher_arguments option" where
  "identity_option argument v pa =
     (if argument = ''--publisher''
      then Option.bind (parsed_or (PublisherId_Parse v)) (\<lambda>t. with_client pa (\<lambda>c. c\<lparr>lo_publisher := t\<rparr>))
      else if argument = ''--scope''
      then Option.bind (parsed_or (AuthorityScopeId_Parse v)) (\<lambda>t. with_client pa (\<lambda>c. c\<lparr>lo_scope := t\<rparr>))
      else if argument = ''--source''
      then Option.bind (parsed_or (SourceId_Parse v)) (\<lambda>t. with_client pa (\<lambda>c. c\<lparr>lo_source := t\<rparr>))
      else Option.bind (parsed_or (WorkerBootId_Parse v)) (\<lambda>t. with_client pa (\<lambda>c. c\<lparr>lo_worker_boot := t\<rparr>)))"

definition number_option :: "string \<Rightarrow> string \<Rightarrow> publisher_arguments \<Rightarrow> publisher_arguments option" where
  "number_option argument v pa =
     (case ParseU64 v of
        None \<Rightarrow> None
      | Some n \<Rightarrow>
          if argument = ''--generation''
          then (if n = 0 then None else Some (pa\<lparr>pa_generation := n, pa_generation_set := True\<rparr>))
          else if argument = ''--epoch'' then with_client pa (\<lambda>c. c\<lparr>lo_epoch := n\<rparr>)
          else if argument = ''--expected-set-generation'' then Some (pa\<lparr>pa_expected_set_generation := n\<rparr>)
          else if argument = ''--repeat''
          then (if n = 0 \<or> n > 1000 then None else Some (pa\<lparr>pa_repeat := n\<rparr>))
          else if argument = ''--provenance''
          then (if n > 6 then None else Some (pa\<lparr>pa_provenance := kProvenanceWire ! unat n\<rparr>))
          else (if n > 9 then None else Some (pa\<lparr>pa_source_class := kSourceClassWire ! unat n\<rparr>)))"

definition claim_option :: "string \<Rightarrow> string \<Rightarrow> publisher_arguments \<Rightarrow> publisher_arguments option" where
  "claim_option argument v pa =
     (case assignment v of
        None \<Rightarrow> None
      | Some (capability, t) \<Rightarrow>
          if argument = ''--claim''
          then Option.bind (parsed_or (ParseCapabilityState t)) (\<lambda>st.
            Some (pa\<lparr>pa_claim_states := ordered_put capability st (pa_claim_states pa)\<rparr>))
          else Some (pa\<lparr>pa_claim_values := ordered_put capability t (pa_claim_values pa)\<rparr>))"

definition word_option :: "string \<Rightarrow> string \<Rightarrow> publisher_arguments \<Rightarrow> publisher_arguments option" where
  "word_option argument v pa =
     (if argument = ''--mode''
      then (if v = ''full'' then Some (pa\<lparr>pa_mode := FullSnapshot\<rparr>)
            else if v = ''incremental'' then Some (pa\<lparr>pa_mode := Incremental\<rparr>)
            else if v = ''partial'' then Some (pa\<lparr>pa_mode := PartialObservation\<rparr>) else None)
      else if argument = ''--durability''
      then (if v = ''durable'' then Some (pa\<lparr>pa_durability := Durable\<rparr>)
            else if v = ''process'' then Some (pa\<lparr>pa_durability := ProcessBound\<rparr>) else None)
      else (if v = ''partial'' then Some (pa\<lparr>pa_coverage := Partial\<rparr>)
            else if v = ''full'' then Some (pa\<lparr>pa_coverage := FullEnumeration\<rparr>) else None))"

definition publisher_option :: "string \<Rightarrow> string \<Rightarrow> publisher_arguments \<Rightarrow> publisher_arguments option" where
  "publisher_option argument v pa =
     (if argument = ''--host'' then Some (pa\<lparr>pa_host := v\<rparr>)
      else if argument = ''--port''
      then (if strtol10 v \<le> 0 \<or> strtol10 v > 65535 then None
            else with_client pa (\<lambda>c. c\<lparr>lo_port := word_of_int (strtol10 v)\<rparr>))
      else if argument \<in> {''--publisher'', ''--scope'', ''--source'', ''--boot''} then identity_option argument v pa
      else if argument = ''--entity'' then Some (pa\<lparr>pa_entity_text := v\<rparr>)
      else if argument \<in> {''--mode'', ''--durability'', ''--coverage''} then word_option argument v pa
      else if argument \<in> {''--claim'', ''--claim-value''} then claim_option argument v pa
      else if argument = ''--profile'' then Some (pa\<lparr>pa_profile := v\<rparr>)
      else if argument \<in> {''--generation'', ''--epoch'', ''--expected-set-generation'', ''--repeat'',
          ''--provenance'', ''--source-class''} then number_option argument v pa
      else if argument = ''--reason''
      then Option.bind (parsed_or (ReasonToken_Parse v)) (\<lambda>t. Some (pa\<lparr>pa_reason := t\<rparr>))
      else if argument = ''--fence-boot'' then Some (pa\<lparr>pa_fence_boot := v\<rparr>)
      else None)"

fun publisher_args :: "string list \<Rightarrow> publisher_arguments \<Rightarrow> nat + publisher_arguments" where
  "publisher_args [] pa = Inr pa"
| "publisher_args (argument # rest) pa =
     (if argument = ''--help'' \<or> argument = ''-h'' then Inl 0
      else if argument = ''--hold'' then publisher_args rest (pa\<lparr>pa_hold := True\<rparr>)
      else if take 2 argument \<noteq> ''--'' then Inl 2
      else case rest of
        [] \<Rightarrow> Inl 2
      | v # rest \<Rightarrow>
          (case publisher_option argument v pa of
             None \<Rightarrow> Inl 2
           | Some pa \<Rightarrow> publisher_args rest pa))"

section \<open>The request\<close>

text \<open>The claims, the entity and the generation of a profile.\<close>

definition profile_base ::
  "publisher_arguments \<Rightarrow> nat + (capability_claim list \<times> entity_id \<times> u64)" where
  "profile_base pa =
     (if pa_profile pa = [] then Inr ([], EntityId_unset, pa_generation pa)
      else case ParseSyntheticDeviceClass (pa_profile pa) of
        Inl _ \<Rightarrow> Inl 2
      | Inr device_class \<Rightarrow>
          (case BuildSyntheticFabric device_class \<lparr>yo_device_count = 1, yo_seed = 1,
               yo_first_generation = 1, yo_include_conflicting_source = False,
               yo_include_changing_source = False, yo_name_offset = 0\<rparr> of
             [] \<Rightarrow> Inl 3
           | p # _ \<Rightarrow> Inr (yp_published p, yp_entity p,
               if pa_generation_set pa then pa_generation pa else yp_entity_generation p)))"

definition subject_of :: "publisher_arguments \<Rightarrow> entity_id \<Rightarrow> nat + entity_id" where
  "subject_of pa entity =
     obind (if pa_entity_text pa = [] then Inr entity
            else case EntityId_Parse (pa_entity_text pa) of Inl _ \<Rightarrow> Inl 2 | Inr e \<Rightarrow> Inr e) (\<lambda>entity.
       if \<not> EntityId_IsSet entity then Inl 2
       else if \<not> IsSet (lo_publisher (pa_client pa)) \<or> \<not> IsSet (lo_scope (pa_client pa))
         \<or> \<not> IsSet (lo_source (pa_client pa)) \<or> lo_port (pa_client pa) = 0 then Inl 2
       else Inr entity)"

definition stated_claim :: "publisher_arguments \<Rightarrow> string \<Rightarrow> capability_state \<Rightarrow> nat + capability_claim" where
  "stated_claim pa capability_text st =
     (case CapabilityId_Parse capability_text of
        Inl _ \<Rightarrow> Inl 2
      | Inr capability \<Rightarrow>
          (let claim = claim_default\<lparr>cl_capability := capability, cl_state := st,
                 cl_provenance := pa_provenance pa, cl_source_class := pa_source_class pa,
                 cl_durability := pa_durability pa, cl_coverage := pa_coverage pa, cl_reason := pa_reason pa\<rparr>
           in case map_of (pa_claim_values pa) capability_text of
                None \<Rightarrow> Inr claim
              | Some t \<Rightarrow> (case ParseValue t of Inl _ \<Rightarrow> Inl 2 | Inr v \<Rightarrow> Inr (claim\<lparr>cl_value := v\<rparr>))))"

text \<open>A stated claim takes the place of a claim of the profile about the same capability.\<close>

fun add_stated ::
  "publisher_arguments \<Rightarrow> (string \<times> capability_state) list \<Rightarrow> capability_claim list
   \<Rightarrow> nat + capability_claim list" where
  "add_stated pa [] claims = Inr claims"
| "add_stated pa ((capability, st) # states) claims =
     obind (stated_claim pa capability st) (\<lambda>claim.
       add_stated pa states (filter (\<lambda>c. cl_capability c \<noteq> cl_capability claim) claims @ [claim]))"

definition tool_request :: "publisher_arguments \<Rightarrow> entity_id \<Rightarrow> u64 \<Rightarrow> capability_claim list \<Rightarrow> publication_request" where
  "tool_request pa entity generation claims =
     \<lparr>pq_mode = pa_mode pa, pq_attempt = [],
      pq_publication = parsed_or_unset (PublicationId_Parse (''publication-'' @ ent_canonical entity)),
      pq_epoch = 0,
      pq_authority = \<lparr>ac_scope = lo_scope (pa_client pa), ac_publisher = lo_publisher (pa_client pa),
        ac_worker_boot = lo_worker_boot (pa_client pa), ac_source = lo_source (pa_client pa),
        ac_source_generation = 1\<rparr>,
      pq_entity = entity, pq_entity_generation = generation,
      pq_expected_set_generation = pa_expected_set_generation pa, pq_claims = claims, pq_edits = [],
      pq_coverage = pa_coverage pa, pq_reason = pa_reason pa\<rparr>"

definition build_request :: "publisher_arguments \<Rightarrow> nat + publication_request" where
  "build_request pa =
     obind (profile_base pa) (\<lambda>(claims, entity, generation).
     obind (subject_of pa entity) (\<lambda>entity.
     obind (add_stated pa (pa_claim_states pa) claims) (\<lambda>claims.
       Inr (tool_request pa entity generation claims))))"

section \<open>The run\<close>

text \<open>An end is the exit code and the standard output; a holding worker never ends. The message of a
  failure is an argument.\<close>

type_synonym run_end = "nat option \<times> string"

definition result_line :: "wire_result \<Rightarrow> string" where
  "result_line r = line (''PUBLISH status='' @ PublicationStatusName (wr_status r)
       @ '' code='' @ ErrorCodeName (wr_code r) @ '' set_generation='' @ Counter_ToString (wr_new_set_generation r)
       @ '' claims='' @ nat_text (unat (wr_claims_applied r))
       @ '' diff='' @ nat_text (length (wd_entries (wr_diff r))))
     @ (if wr_status r = Rejected then line (''REJECT reason='' @ wr_message r) else [])"

text \<open>The attempts, numbered from zero; an attempt that gives no result ends the process.\<close>

fun publish_attempts ::
  "'p transport \<Rightarrow> string \<Rightarrow> publication_request \<Rightarrow> nat \<Rightarrow> nat \<Rightarrow> publication_status \<Rightarrow> string \<Rightarrow> 'p ends
   \<Rightarrow> (run_end + publication_status \<times> string) \<times> 'p ends" where
  "publish_attempts tr failure request attempt 0 last_status out ends = (Inr (last_status, out), ends)"
| "publish_attempts tr failure request attempt (Suc n) last_status out ends =
     (case MutationAttemptId_Parse (''attempt-'' @ ent_canonical (pq_entity request) @ ''-'' @ nat_text attempt) of
        Inl _ \<Rightarrow> (Inl (Some 2, out), CloseLocked tr ends)
      | Inr attempt_id \<Rightarrow>
          (case Client_Publish tr (request\<lparr>pq_attempt := attempt_id\<rparr>) ends of
             (Inl e, ends) \<Rightarrow>
               (Inl (Some 2, out @ line (''PUBLISH status=rejected code='' @ ErrorCodeName e
                  @ '' message='' @ failure) @ line ''DONE status=rejected''), CloseLocked tr ends)
           | (Inr r, ends) \<Rightarrow>
               publish_attempts tr failure request (attempt + 1) n (wr_status r) (out @ result_line r) ends))"

definition connect_exit :: "error_code \<Rightarrow> nat" where
  "connect_exit e = (if e \<in> {E_WorkerBootFenced, E_UnauthorizedPublisher, E_CoordinatorEpochStale,
     E_UnknownAuthorityScope} then 3 else 2)"

definition fence_run ::
  "'p transport \<Rightarrow> string \<Rightarrow> publisher_arguments \<Rightarrow> 'p ends \<Rightarrow> run_end \<times> 'p ends" where
  "fence_run tr out pa ends =
     (case WorkerBootId_Parse (pa_fence_boot pa) of
        Inl _ \<Rightarrow> ((Some 2, out), CloseLocked tr ends)
      | Inr boot \<Rightarrow>
          (let (fenced, ends) = Client_Fence tr boot (pa_reason pa) ends;
               ok = has_value fenced
           in ((if ok then Some 0 else Some 3,
                out @ line (''FENCE status='' @ (if ok then ''ok'' else ''rejected''))
                  @ line (''DONE status='' @ (if ok then ''committed'' else ''rejected''))),
               CloseLocked tr ends)))"

definition publish_run ::
  "'p transport \<Rightarrow> string \<Rightarrow> string \<Rightarrow> publisher_arguments \<Rightarrow> publication_request \<Rightarrow> 'p ends
   \<Rightarrow> run_end \<times> 'p ends" where
  "publish_run tr failure out pa request ends =
     (case publish_attempts tr failure request 0 (unat (pa_repeat pa)) Rejected out ends of
        (Inl over, ends) \<Rightarrow> (over, ends)
      | (Inr (last_status, out), ends) \<Rightarrow>
          if pa_hold pa then ((None, out), ends)
          else ((Some (if last_status = Rejected then 3 else 0),
                 out @ line (''DONE status='' @ PublicationStatusName last_status)),
                CloseLocked tr ends))"

text \<open>The client derives a boot identifier when it is given none.\<close>

definition client_boot :: "token \<Rightarrow> client_options \<Rightarrow> client_options" where
  "client_boot derived o' = (if IsSet (lo_worker_boot o') then o' else o'\<lparr>lo_worker_boot := derived\<rparr>)"

definition publisher_main ::
  "'p transport \<Rightarrow> string \<Rightarrow> token \<Rightarrow> string list \<Rightarrow> 'p \<Rightarrow> run_end \<times> 'p" where
  "publisher_main tr failure derived arguments p =
     (case publisher_args arguments arguments_new of
        Inl code \<Rightarrow> ((Some code, []), p)
      | Inr pa \<Rightarrow>
          (case build_request pa of
             Inl code \<Rightarrow> ((Some code, []), p)
           | Inr request \<Rightarrow>
               (case Connect tr (client_boot derived (pa_client pa)) (client_new, p) of
                  (Inl e, ends) \<Rightarrow>
                    ((Some (connect_exit e), line (''HELLO accepted=false code='' @ ErrorCodeName e
                       @ '' message='' @ failure) @ line ''DONE status=rejected''),
                     snd (CloseLocked tr ends))
                | (Inr _, ends) \<Rightarrow>
                    (let out = line (''HELLO epoch='' @ Counter_ToString (pl_epoch (fst ends)));
                         (over, ends) = (if pa_fence_boot pa \<noteq> [] then fence_run tr out pa ends
                            else publish_run tr failure out pa request ends)
                     in (over, snd ends)))))"

section \<open>Requests that can never commit\<close>

lemma built_request:
  assumes "build_request pa = Inr r"
  shows "pq_mode r = pa_mode pa \<and> pq_edits r = []
    \<and> ac_worker_boot (pq_authority r) = lo_worker_boot (pa_client pa)"
  using assms by (auto simp: build_request_def obind_Inr_iff tool_request_def)

lemma ill_shaped_rejected:
  assumes "shape_check r = Inl e"
  shows "Publish g r = reject g r e"
  using assms by (simp add: Publish_def validate_request_def)

lemma reject_inert:
  "\<exists>res g'. reject g r e = (Inr res, g') \<and> pr_status res = Rejected \<and> g_entities g' = g_entities g
     \<and> g_generation g' = g_generation g"
  by (simp add: reject_def Let_def base_result_def RecordJournal_def split: list.split)

text \<open>Two ways to call the publisher tool can never publish anything. The tool fills in claims only, so
  the incremental mode always sends a request without an edit; and without a boot option the client
  derives a boot identifier for its handshake, while the request carries the one that was not given.
  Whatever attempt, epoch and expected generation such a request gets on its way, every registry
  rejects it and keeps its entities and its generation.\<close>

theorem doomed_tool_request:
  assumes "build_request pa = Inr r"
    and "pa_mode pa = Incremental \<or> \<not> IsSet (lo_worker_boot (pa_client pa))"
  shows "\<exists>res g'. Publish g (r\<lparr>pq_attempt := attempt, pq_epoch := epoch, pq_expected_set_generation := expected\<rparr>)
      = (Inr res, g') \<and> pr_status res = Rejected \<and> g_entities g' = g_entities g
    \<and> g_generation g' = g_generation g"
proof -
  let ?r = "r\<lparr>pq_attempt := attempt, pq_epoch := epoch, pq_expected_set_generation := expected\<rparr>"
  have "\<exists>e. shape_check ?r = Inl e"
    using built_request [OF assms(1)] assms(2) by (auto simp: shape_check_def Let_def)
  then obtain e where "shape_check ?r = Inl e" by blast
  then show ?thesis using reject_inert [of g ?r e] by (simp only: ill_shaped_rejected)
qed

definition demo_arguments :: publisher_arguments where
  "demo_arguments = arguments_new\<lparr>pa_entity_text := ''port:p0'', pa_mode := Incremental,
     pa_client := (pa_client arguments_new)\<lparr>lo_port := 7000, lo_publisher := ''pub'', lo_scope := ''scope'',
       lo_source := ''src''\<rparr>\<rparr>"

lemma doomed_tool_request_witness:
  "\<exists>r res g'. build_request demo_arguments = Inr r
     \<and> Publish fresh_registry (r\<lparr>pq_attempt := ''a'', pq_epoch := 1, pq_expected_set_generation := 0\<rparr>)
         = (Inr res, g') \<and> pr_status res = Rejected"
proof -
  have "has_value (EntityId_Parse ''port:p0'')" by code_simp
  then obtain e where e: "EntityId_Parse ''port:p0'' = Inr e" by (auto simp: has_value_def split: sum.splits)
  then have "EntityId_IsSet e"
    by (auto simp: EntityId_Parse_def EntityId_Create_def EntityId_IsSet_def obind_Inr_iff split: if_splits)
  with e have "\<exists>r. build_request demo_arguments = Inr r"
    by (simp add: build_request_def profile_base_def subject_of_def demo_arguments_def arguments_new_def IsSet_def)
  then obtain r where r: "build_request demo_arguments = Inr r" by blast
  have "pa_mode demo_arguments = Incremental" by (simp add: demo_arguments_def)
  with doomed_tool_request [OF r, where g = fresh_registry and attempt = "''a''"
      and epoch = 1 and expected = 0] r show ?thesis by blast
qed

end
