(* ===== verification/CoordinatorTool.thy ===== *)
theory CoordinatorTool
  imports ToolParsing Coordinator StoreFile
begin

text \<open>
  The coordinator process (\<open>src/tools/fcr_coordinator/main.cpp\<close>): its arguments, the authorities it
  declares, and its life from the start to the destructor of the coordinator.
\<close>

section \<open>Arguments\<close>

record scope_description =
  sd_scope :: string
  sd_kinds :: "entity_kind list"
  sd_namespaces :: "namespace_id list"
  sd_modes :: u8
  sd_exclusive :: bool
  sd_durable :: bool
  sd_provenance :: provenance_class
  sd_publishers :: "token list"
  sd_description :: token

definition scope_new :: "string \<Rightarrow> scope_description" where
  "scope_new t = \<lparr>sd_scope = t, sd_kinds = [], sd_namespaces = [], sd_modes = 0, sd_exclusive = False,
     sd_durable = False, sd_provenance = Prov_DirectHardwareEnumeration, sd_publishers = [], sd_description = []\<rparr>"

record coordinator_arguments =
  cg_options :: coordinator_options
  cg_port :: u16
  cg_print_port :: bool
  cg_scopes :: "scope_description list"

definition coordinator_arguments_new :: coordinator_arguments where
  "coordinator_arguments_new = \<lparr>cg_options = \<lparr>op_bind_address = ''127.0.0.1'', op_max_connections = 16,
       op_persist_on_start = True, op_persist_on_stop = True, op_persist_on_mutation = False,
       op_persistence = \<lparr>pc_directory = [], pc_file_stem = ''fabric-capability-registry'',
         pc_create_if_missing = True, pc_durable_flush = True\<rparr>,
       op_advance_epoch_on_start = True\<rparr>,
     cg_port = 0, cg_print_port = False, cg_scopes = []\<rparr>"

fun each_kind :: "string list \<Rightarrow> scope_description \<Rightarrow> scope_description option" where
  "each_kind [] sd = Some sd"
| "each_kind (item # items) sd =
     (case ParseFabricEntityKind item of
        Inl _ \<Rightarrow> None | Inr k \<Rightarrow> each_kind items (sd\<lparr>sd_kinds := sd_kinds sd @ [k]\<rparr>))"

fun each_namespace :: "string list \<Rightarrow> scope_description \<Rightarrow> scope_description option" where
  "each_namespace [] sd = Some sd"
| "each_namespace (item # items) sd =
     (case Namespace_Parse item of
        Inl _ \<Rightarrow> None | Inr ns \<Rightarrow> each_namespace items (sd\<lparr>sd_namespaces := sd_namespaces sd @ [ns]\<rparr>))"

fun each_mode :: "string list \<Rightarrow> scope_description \<Rightarrow> scope_description option" where
  "each_mode [] sd = Some sd"
| "each_mode (item # items) sd =
     (if item = ''full'' then each_mode items (sd\<lparr>sd_modes := sd_modes sd OR ModeBit FullSnapshot\<rparr>)
      else if item = ''incremental'' then each_mode items (sd\<lparr>sd_modes := sd_modes sd OR ModeBit Incremental\<rparr>)
      else if item = ''partial'' then each_mode items (sd\<lparr>sd_modes := sd_modes sd OR ModeBit PartialObservation\<rparr>)
      else None)"

definition scope_option :: "string \<Rightarrow> string \<Rightarrow> scope_description \<Rightarrow> scope_description option" where
  "scope_option argument v sd =
     (if argument = ''--authority-kinds'' then each_kind (SplitList v CHR '','') sd
      else if argument = ''--authority-namespaces'' then each_namespace (SplitList v CHR '','') sd
      else if argument = ''--authority-modes'' then each_mode (SplitList v CHR '','') sd
      else if argument = ''--authority-provenance''
      then (if strtol10 v < 0 \<or> strtol10 v > 6 then None
            else Some (sd\<lparr>sd_provenance := kProvenanceWire ! nat (strtol10 v)\<rparr>))
      else if argument = ''--authority-publisher''
      then Option.bind (parsed_or (PublisherId_Parse v)) (\<lambda>t.
             Some (sd\<lparr>sd_publishers := sd_publishers sd @ [t]\<rparr>))
      else (case ReasonToken_Parse v of Inl _ \<Rightarrow> Some sd | Inr t \<Rightarrow> Some (sd\<lparr>sd_description := t\<rparr>)))"

text \<open>The options of a scope change the scope described last.\<close>

definition on_scope ::
  "(scope_description \<Rightarrow> scope_description option) \<Rightarrow> coordinator_arguments \<Rightarrow> coordinator_arguments option" where
  "on_scope f cg =
     (if cg_scopes cg = [] then None
      else case f (last (cg_scopes cg)) of
        None \<Rightarrow> None | Some sd \<Rightarrow> Some (cg\<lparr>cg_scopes := butlast (cg_scopes cg) @ [sd]\<rparr>))"

definition scope_arguments :: "string list" where
  "scope_arguments = [''--authority-kinds'', ''--authority-namespaces'', ''--authority-modes'',
     ''--authority-provenance'', ''--authority-publisher'', ''--authority-description'']"

definition valued_option :: "string \<Rightarrow> string \<Rightarrow> coordinator_arguments \<Rightarrow> coordinator_arguments option" where
  "valued_option argument v cg =
     (if argument = ''--port''
      then (if strtol10 v < 0 \<or> strtol10 v > 65535 then None else Some (cg\<lparr>cg_port := word_of_int (strtol10 v)\<rparr>))
      else if argument = ''--bind'' then Some (cg\<lparr>cg_options := (cg_options cg)\<lparr>op_bind_address := v\<rparr>\<rparr>)
      else if argument = ''--store''
      then Some (cg\<lparr>cg_options := (cg_options cg)\<lparr>op_persistence :=
             (op_persistence (cg_options cg))\<lparr>pc_directory := v\<rparr>\<rparr>\<rparr>)
      else if argument = ''--authority-scope'' then Some (cg\<lparr>cg_scopes := cg_scopes cg @ [scope_new v]\<rparr>)
      else on_scope (scope_option argument v) cg)"

definition flag_option :: "string \<Rightarrow> coordinator_arguments \<Rightarrow> coordinator_arguments option" where
  "flag_option argument cg =
     (if argument = ''--no-epoch-advance''
      then Some (cg\<lparr>cg_options := (cg_options cg)\<lparr>op_advance_epoch_on_start := False\<rparr>\<rparr>)
      else if argument = ''--persist-on-mutation''
      then Some (cg\<lparr>cg_options := (cg_options cg)\<lparr>op_persist_on_mutation := True\<rparr>\<rparr>)
      else if argument = ''--print-port'' then Some (cg\<lparr>cg_print_port := True\<rparr>)
      else if argument = ''--authority-exclusive'' then on_scope (\<lambda>sd. Some (sd\<lparr>sd_exclusive := True\<rparr>)) cg
      else if argument = ''--authority-durable'' then on_scope (\<lambda>sd. Some (sd\<lparr>sd_durable := True\<rparr>)) cg
      else None)"

fun coordinator_args :: "string list \<Rightarrow> coordinator_arguments \<Rightarrow> nat + coordinator_arguments" where
  "coordinator_args [] cg = Inr cg"
| "coordinator_args (argument # rest) cg =
     (if argument = ''--help'' \<or> argument = ''-h'' then Inl 0
      else if argument \<in> set ([''--port'', ''--bind'', ''--store'', ''--authority-scope''] @ scope_arguments)
      then (case rest of
              [] \<Rightarrow> Inl 2
            | v # rest \<Rightarrow>
                (case valued_option argument v cg of
                   None \<Rightarrow> Inl 2 | Some cg \<Rightarrow> coordinator_args rest cg))
      else (case flag_option argument cg of
              None \<Rightarrow> Inl 2 | Some cg \<Rightarrow> coordinator_args rest cg))"

section \<open>The life of the process\<close>

definition grant_of :: "token \<Rightarrow> scope_description \<Rightarrow> authority_grant" where
  "grant_of scope sd = \<lparr>ag_scope = scope, ag_entity_kinds = sd_kinds sd, ag_namespaces = sd_namespaces sd,
     ag_modes = sd_modes sd, ag_exclusive = sd_exclusive sd, ag_may_publish_durable = sd_durable sd,
     ag_strongest_provenance = sd_provenance sd, ag_allowed_publishers = sd_publishers sd,
     ag_max_claims_per_publication = kMaxClaimsPerPublication, ag_description = sd_description sd\<rparr>"

text \<open>The authorities are declared in order; the first that fails gives the exit code and the line.\<close>

fun declare_scopes ::
  "string \<Rightarrow> scope_description list \<Rightarrow> registry \<Rightarrow> (nat \<times> string + unit) \<times> registry" where
  "declare_scopes failure [] g = (Inr (), g)"
| "declare_scopes failure (sd # sds) g =
     (case AuthorityScopeId_Parse (sd_scope sd) of
        Inl _ \<Rightarrow> (Inl (2, line ''ERROR code=malformed-identifier message=authority scope''), g)
      | Inr scope \<Rightarrow>
          (case DeclareAuthority g (grant_of scope sd) of
             (Inl e, g) \<Rightarrow> (Inl (4, line (''ERROR code='' @ ErrorCodeName e @ '' message='' @ failure)), g)
           | (Inr _, g) \<Rightarrow> declare_scopes failure sds g))"

text \<open>
  The destructor of the coordinator is \<open>Stop\<close>. While the process waits for a line that says stop, the
  connections of its publishers do to the coordinator what they do; an input that ends without such
  a line leaves the process waiting for ever, which is the missing exit code.
\<close>

definition coordinator_main ::
  "bool \<Rightarrow> status \<Rightarrow> u16 \<Rightarrow> write_fault \<Rightarrow> string \<Rightarrow> (coordinator \<Rightarrow> coordinator) \<Rightarrow> string list \<Rightarrow> string list
   \<Rightarrow> disk \<Rightarrow> (nat option \<times> string) \<times> coordinator option" where
  "coordinator_main network listener bound_port fault failure served stdin arguments d =
     (case coordinator_args arguments coordinator_arguments_new of
        Inl code \<Rightarrow> ((Some code, []), None)
      | Inr cg \<Rightarrow>
          (case Start (cg_options cg) network fault listener (coordinator_new fresh_registry d) of
             (Inl e, co) \<Rightarrow>
               ((Some 4, line (''ERROR code='' @ ErrorCodeName e @ '' message='' @ failure)),
                Some (Stop (cg_options cg) fault co))
           | (Inr _, co) \<Rightarrow>
               (case declare_scopes failure (cg_scopes cg) (co_registry co) of
                  (Inl (code, out), g) \<Rightarrow>
                    ((Some code, out), Some (Stop (cg_options cg) fault (co\<lparr>co_registry := g\<rparr>)))
                | (Inr _, g) \<Rightarrow>
                    (let out = line (''PORT='' @ nat_text (unat bound_port))
                           @ line (''EPOCH='' @ Counter_ToString (CurrentEpoch g)) @ line ''READY'';
                         co = served (co\<lparr>co_registry := g\<rparr>)
                     in if ''stop'' \<in> set stdin
                        then ((Some 0, out @ line ''STOPPED''), Some (Stop (cg_options cg) fault co))
                        else ((None, out), Some co)))))"

section \<open>A start that fails\<close>

lemma start_fails:
  assumes "op_persist_on_start opts" "op_bind_address opts \<noteq> []" "op_max_connections opts \<in> {1..4096}"
    and "StorePath (op_persistence opts) d = (Inr path, d)"
    and "fst (ReadStore (op_persistence opts) d) = Inl e"
  shows "Start opts True fault listener (coordinator_new g d) = (Inl e, coordinator_new g d)"
proof -
  have "pc_directory (op_persistence opts) \<noteq> []"
    using assms(4) by (auto simp: StorePath_def ValidatePersistenceConfig_def)
  moreover have "ReadStore (op_persistence opts) d = (Inl e, d)"
    using assms(4,5) by (simp add: ReadStore_def)
  then have "Load (op_persistence opts) g d = (Inl e, g, d)" by (simp add: Load_def)
  ultimately show ?thesis
    using assms(1-3) by (simp add: Start_def start_load_def coordinator_new_def)
qed

lemma empty_payload: "SavePayload fresh_registry
  = \<lparr>sp_epoch = 1, sp_registry_generation = 0, sp_authorities = [], sp_fences = [], sp_registrations = [], sp_entities = []\<rparr>"
  by (simp add: SavePayload_def fresh_registry_def Registry_new_def options_default_def Let_def)

lemma empty_payload_encoded:
  "\<exists>body. EncodePayload (SavePayload fresh_registry) = Inr body \<and> length body < 1000"
  unfolding empty_payload
  by (simp add: EncodePayload_def write_record_def write_list_def put_u32_def put_u64_def put_u8_def)

text \<open>C15. A coordinator that cannot read its store destroys it. When the store file is there but is
  refused (a damaged header, a wrong checksum, a payload that does not decode), the start fails with
  the code of the reader and leaves the registry as it was constructed; the destructor then runs the
  stop, which saves that empty registry over the file, and the next load succeeds and finds no
  entity, no authority and no fence.\<close>

theorem failed_start_destroys_store:
  assumes "op_persist_on_start opts" "op_persist_on_stop opts" "op_bind_address opts \<noteq> []"
      "op_max_connections opts \<in> {1..4096}"
    and "StorePath (op_persistence opts) d = (Inr path, d)" and "dk_readable d path"
    and "fst (ReadStore (op_persistence opts) d) = Inl e"
    and "co = coordinator_new fresh_registry d"
  shows "fst (Start opts True fault listener co) = Inl e
    \<and> (\<exists>d' report g. co_disk (Stop opts No_fault (snd (Start opts True fault listener co))) = d'
         \<and> dk_files d' path \<noteq> dk_files d path
         \<and> Load (op_persistence opts) fresh_registry d' = (Inr report, g, d')
         \<and> g_entities g = [] \<and> g_authorities g = [] \<and> g_fences g = [])"
proof -
  let ?p = "SavePayload fresh_registry"
  let ?cfg = "op_persistence opts"
  obtain body where b: "EncodePayload ?p = Inr body" "length body < 1000" using empty_payload_encoded by blast
  let ?fs = "(dk_files d)(TemporaryPathFor path ?cfg := None, path \<mapsto> store_file ?p body)"
  let ?d = "d\<lparr>dk_files := ?fs\<rparr>"
  have dir: "pc_directory ?cfg \<noteq> []"
    using assms(5) by (auto simp: StorePath_def ValidatePersistenceConfig_def)
  have start: "Start opts True fault listener co = (Inl e, co)"
    using start_fails [OF assms(1,3,4,5,7)] assms(8) by simp
  obtain report where "WriteStore No_fault ?cfg ?p d = (Inr report, ?d)"
    using assms(5) b by (simp add: WriteStore_def WriteFileAtomic_def Let_def)
  then have stop: "co_disk (Stop opts No_fault co) = ?d"
    using assms(2,8) dir by (simp add: Stop_def stop_save_def Persist_def Save_def coordinator_new_def)
  have "payload_ok ?p" by (simp add: empty_payload payload_ok_def)
  then have read: "ReadStore ?cfg ?d = (Inr (read_report ?p body, ?p), ?d)"
    by (rule ReadStore_of_file [OF assms(5) _ b(1) _ refl _ assms(6)]) (use b(2) in simp_all)
  have "dk_files ?d path \<noteq> dk_files d path"
  proof
    assume "dk_files ?d path = dk_files d path"
    then have "dk_files d path = Some (store_file ?p body)" by simp
    then have "ReadStore ?cfg (d\<lparr>dk_files := dk_files d\<rparr>) = (Inr (read_report ?p body, ?p), d\<lparr>dk_files := dk_files d\<rparr>)"
      using b(2) \<open>payload_ok ?p\<close> by (intro ReadStore_of_file [OF assms(5) _ b(1) _ refl _ assms(6)]) simp_all
    with assms(7) show False by simp
  qed
  moreover have "\<exists>report g. Load ?cfg fresh_registry ?d = (Inr report, g, ?d)
      \<and> g_entities g = [] \<and> g_authorities g = [] \<and> g_fences g = []"
    unfolding Load_def read by (simp add: Let_def LoadPayload_def empty_payload cleared_def)
  ultimately show ?thesis unfolding start using stop by auto
qed

definition damaged_disk :: disk where
  "damaged_disk = demo_disk\<lparr>dk_files := [''/var/registry.fcrstore'' \<mapsto> [0]]\<rparr>"

definition stored_options :: coordinator_options where
  "stored_options = (cg_options coordinator_arguments_new)\<lparr>op_persistence := demo_config\<rparr>"

lemma failed_start_destroys_store_witness:
  "dk_files (co_disk (Stop stored_options No_fault (snd (Start stored_options True No_fault (Inr ())
      (coordinator_new fresh_registry damaged_disk))))) ''/var/registry.fcrstore'' \<noteq> Some [0]"
proof -
  have path: "StorePath demo_config damaged_disk = (Inr ''/var/registry.fcrstore'', damaged_disk)"
    using StorePath_same [OF demo_path, of "[''/var/registry.fcrstore'' \<mapsto> [0]]"] by (simp add: damaged_disk_def)
  have read: "fst (ReadStore demo_config damaged_disk) = Inl E_PersistenceCorrupt"
    using path by (simp add: ReadStore_def path_exists_def ReadFileBounded_def ParseHeader_def
        damaged_disk_def demo_disk_def)
  have kept: "dk_files damaged_disk ''/var/registry.fcrstore'' = Some [0]"
    "dk_readable damaged_disk ''/var/registry.fcrstore''"
    by (simp_all add: damaged_disk_def demo_disk_def)
  have opts: "op_persist_on_start stored_options" "op_persist_on_stop stored_options"
    "op_bind_address stored_options \<noteq> []" "op_max_connections stored_options \<in> {1..4096}"
    "op_persistence stored_options = demo_config"
    by (simp_all add: stored_options_def coordinator_arguments_new_def)
  from failed_start_destroys_store [OF opts(1-4), of damaged_disk "''/var/registry.fcrstore''" E_PersistenceCorrupt
      _ No_fault "Inr ()", unfolded opts(5), OF path kept(2) read refl] kept(1) show ?thesis
    by metis
qed

end
