(* ===== verification/Spec2Isabelle.thy ===== *)
theory Spec2Isabelle
  imports CanonicalSchema Diff Statistics RequirementLogic RestartSafety PublisherClient Synthetic Explanations Inspection PublisherTool CoordinatorTool
begin

text \<open>
  Fabric Capability Registry: verification development.

  \<^bold>\<open>The program.\<close> The registry keeps, for every entity of a fabric (a network adapter, a switch, a
  port), the evidence publishers gave about its capabilities, and derives from it one state per
  capability: supported, unsupported, unknown, revalidation required or conflicted. Publishers act
  under authority grants, within coordinator epochs and as worker boots that can be fenced. The state
  is saved to a store file and read back after a restart. A coordinator process serves one registry
  to publisher processes over framed connections; an inspection tool works on the store.

  \<^bold>\<open>Foundations.\<close> Prelude holds the vocabulary: words for the machine integers, bytes, the result
  carrier \<open>error + value\<close> of every fallible operation, the algorithms of the standard library and the
  collections of rewrite rules. Errors models \<open>error.hpp\<close> and \<open>error.cpp\<close>; Ids models the tokens,
  counters and identifiers of \<open>ids.cpp\<close>; Encoding the bounded byte reader and writer of
  \<open>encoding.cpp\<close>; Digests the streaming SHA-256, the CRC and the hexadecimal text of \<open>digest.cpp\<close>. A
  counter, size or code that the code keeps at a width is a word of that width; \<open>std::size_t\<close> values
  that only count elements are natural numbers.

  \<^bold>\<open>Values and schema.\<close> Values, ValueCodec and EnumDomains model \<open>value.cpp\<close> and the domains of
  \<open>schema.cpp\<close>: values of every kind, their factories, canonical form, text and encoding. Schema and
  CanonicalSchema hold the descriptors, the builder of a schema and the canonical table. Evidence
  models \<open>state.cpp\<close> and \<open>evidence.cpp\<close>.

  \<^bold>\<open>The registry.\<close> \<open>CapabilityRegistry\<close> of \<open>registry.cpp\<close> is the record \<open>registry\<close> of
  RegistryState; each public operation is one function to a result and the new registry, and is
  atomic because the class takes its lock around it. Resolution is the choice of a state from
  evidence. OrderedSets holds the sorted containers, EvidenceOps the changes to evidence, Publish the
  publication state machine in the steps of the code, Lifecycle the epochs, authorities, publishers,
  fences and entity generations, Query the read side with snapshots, Diff the differences, Statistics
  the totals, Explanations and Rendering the explanations of answers and their text. Requirement
  models \<open>requirement.cpp\<close>.

  \<^bold>\<open>The store.\<close> StoreFormat is what \<open>Save\<close> puts into the payload and \<open>Load\<close> makes of it, StoreCodec
  and StoreRecords the records of \<open>persistence.cpp\<close> as bytes, StoreFile the file: its path, header,
  replacement, reading and inspection over a disk that maps paths to contents and can fail at any
  step of a write.

  \<^bold>\<open>The network.\<close> WireCodec, WireResult, WireRequests and WireFrame model \<open>wire.cpp\<close>. Coordinator
  models the coordinator of \<open>distributed.cpp\<close>: one step serves one frame of one connection, and steps
  of different connections come in any order. PublisherClient models the client over a transport
  and composes it with the coordinator; RemotePublication is a publication end to end.

  \<^bold>\<open>Around it.\<close> Synthetic models \<open>synthetic.cpp\<close>, Discovery \<open>discovery.cpp\<close>; ToolParsing,
  PublisherTool, CoordinatorTool and Inspection model the three programs under \<open>src/tools\<close>, each as a
  function from its arguments and its surroundings to its exit code, its output and the disk or peer it
  leaves.

  \<^bold>\<open>Contracts.\<close> Interfaces are locales, interpreted on the definitions of the code. \<open>codec\<close> and
  \<open>strict_codec\<close> (Encoding) say that a reader inverts a writer and refuses truncation; \<open>stored_item\<close>,
  \<open>record_kind\<close> and \<open>checked_item\<close> (StoreCodec, StoreRecords) carry that to records and add that a
  reader yields only what a writer accepts; \<open>bucket_index\<close> (OrderedSets) is the contract of the
  sorted buckets of the indices; \<open>evidence_contract\<close> (EntityInvariant) is what current evidence must
  satisfy, instantiated with the epoch and the fences of the registry (RegistryInvariant).

  \<^bold>\<open>What is proved.\<close>
  \<^item> The invariant of the registry (EntityInvariant, RegistryInvariant, Reachable): it holds initially, is
    kept by every mutating operation and by a restart. Safety, Revocation, Generations, CommitEffects and
    PublishContract draw from it that a supported answer is backed by current evidence, that commits are
    authorised and conditional on the set generation, that repeated requests are harmless, that epochs,
    fences and new generations withdraw trust, and that counters never decrease.
  \<^item> Resolution: the algorithm agrees with its declarative reading. RequirementLogic: evaluation is Kleene's
    three-valued logic over the leaves, and a decision rests on proof.
  \<^item> Round trips and damage: values, store records and files, wire requests, results and frames are read
    back exactly; damaged frames and store files are refused; what a reader accepts is well formed; a write of
    the store leaves the old file or the new one.
  \<^item> Restart, RestartSafety: what a restart recovers of a reachable registry, and what it withdraws.
  \<^item> CoordinatorSafety: the coordinator performs only operations of the registry, a connection acts under
    its own identity, and its loss fences its worker boot. PublisherClient: a remote publication is the
    local one, and connecting succeeds when the network does within the attempts.
  \<^item> ToolParsing, Inspection, Discovery: what the readers accept is well formed; the read commands change no
    file; discovery claims nothing the host did not report.
  \<^item> Behaviours that differ from what the code or its documentation intends, as theorems: for instance a
    rejection that retires a generation, an incremental request the wire cannot carry, a second
    greeting that abandons a worker boot, a failed start that overwrites the store.

  \<^bold>\<open>Loops and bounds.\<close> Loops are structural recursion or functions with a measure. Two loops carry a
  count: the padding of SHA-256, at most 64 zero bytes until the block position is 56, proved to be
  enough; and the attempts to connect, whose bound the code has. A connection remembers at most
  sixty-four responses, as in the code. Bounds of \<open>limits.hpp\<close> are abbreviations with the code's values.

  \<^bold>\<open>Not modelled.\<close> Threads, locks and sockets: an operation under a lock is one step, a transport, an
  operating system and a disk are arguments. The branches of \<open>persistence_io\<close> for Windows. The message and
  detail sentences of failures and what programs print on the error output; where such a sentence
  enters a difference, a reply or a journal entry it is an argument. Identifiers derived from the clock and
  the process. The sentences that describe a state or a requirement in prose. Examples,
  benchmarks and tests.
\<close>

end
